(* ===== verification/Prelude.thy ===== *)
theory Prelude
  imports Main "HOL-Library.Signed_Division"
begin

text \<open>
  Shared vocabulary of the development: Go's machine integers, identifiers and clock values,
  search in strings, and the generic facts on lists, sums and maps that the component theories
  use. Four collections carry the automation: \<open>wp_simps\<close> and \<open>wp_intros\<close> (weakest
  preconditions of the transaction monad of theory Database and of the repository operations
  built on it, as equations and as introduction rules), \<open>keeps_intros\<close> (what an operation preserves whatever its outcome) and
  \<open>run_simps\<close> (evaluation of an
  operation on a given world).
\<close>

named_theorems wp_simps "weakest-precondition equations of transactional operations"
named_theorems wp_intros "weakest-precondition introduction rules"
named_theorems keeps_intros "rules for what an operation preserves whatever its outcome"
named_theorems run_simps "equations that run a transactional operation on a world"

subsection \<open>Machine integers\<close>

text \<open>
  Amounts are Go's \<open>int64\<close> and SQL's \<open>BIGINT\<close>. Both hold \<open>int\<close> values between \<open>-2^63\<close> and
  \<open>2^63 - 1\<close>; Go arithmetic wraps around (\<open>i64\<close>), SQL arithmetic reports an error outside the
  range (\<open>in_i64\<close>). \<open>in_i32\<close> is the range of SQL's \<open>INT\<close>.
\<close>

definition i64 :: "int \<Rightarrow> int" where
  "i64 x = (x + 2 ^ 63) mod 2 ^ 64 - 2 ^ 63"

definition in_i64 :: "int \<Rightarrow> bool" where
  "in_i64 x \<longleftrightarrow> - (2 ^ 63) \<le> x \<and> x < 2 ^ 63"

definition in_i32 :: "int \<Rightarrow> bool" where
  "in_i32 x \<longleftrightarrow> - (2 ^ 31) \<le> x \<and> x < 2 ^ 31"

lemma i64_id [simp]: "in_i64 x \<Longrightarrow> i64 x = x"
  by (simp add: i64_def in_i64_def)

lemma i64_zero [simp]: "i64 0 = 0"
  by (simp add: i64_def)

lemma in_i64_i64 [simp]: "in_i64 (i64 x)"
proof -
  have "0 \<le> (x + 2 ^ 63) mod 2 ^ 64" "(x + 2 ^ 63) mod 2 ^ 64 < 2 ^ 64"
    by simp_all
  then show ?thesis unfolding i64_def in_i64_def by simp
qed

lemma in_i64_between: "in_i64 a \<Longrightarrow> in_i64 b \<Longrightarrow> a \<le> x \<Longrightarrow> x \<le> b \<Longrightarrow> in_i64 x"
  by (auto simp: in_i64_def)

lemma in_i64_nonneg: "0 \<le> x \<Longrightarrow> x \<le> y \<Longrightarrow> in_i64 y \<Longrightarrow> in_i64 x"
  by (auto simp: in_i64_def)

lemma in_i64_neg: "0 \<le> x \<Longrightarrow> in_i64 x \<Longrightarrow> in_i64 (- x)"
  by (auto simp: in_i64_def)

text \<open>Division in Go truncates towards zero: the library's \<open>sdiv\<close>.\<close>

lemma sdiv_pos: "0 \<le> a \<Longrightarrow> 0 < b \<Longrightarrow> a sdiv b = a div (b::int)"
  by (cases "a = 0") (simp_all add: signed_divide_int_def)

subsection \<open>Identifiers, instants, strings\<close>

text \<open>
  A \<open>uuid.UUID\<close> is represented by its canonical text, so that \<open>String()\<close> is the identity; an
  instant or a \<open>time.Duration\<close> is an \<open>int\<close> count of nanoseconds, a \<open>*time.Time\<close> an option.
\<close>

type_synonym uuid = string
type_synonym instant = int

definition nil_uuid :: uuid where
  "nil_uuid = ''00000000-0000-0000-0000-000000000000''"

text \<open>Go's \<open>strings.HasPrefix\<close> and \<open>strings.Contains\<close>.\<close>

fun has_prefix :: "string \<Rightarrow> string \<Rightarrow> bool" where
  "has_prefix s [] = True"
| "has_prefix [] (p # ps) = False"
| "has_prefix (c # cs) (p # ps) = (c = p \<and> has_prefix cs ps)"

fun str_contains :: "string \<Rightarrow> string \<Rightarrow> bool" where
  "str_contains [] p = has_prefix [] p"
| "str_contains (c # cs) p = (has_prefix (c # cs) p \<or> str_contains cs p)"

text \<open>
  Go's \<open>strings.TrimSpace\<close> and \<open>strings.EqualFold\<close>, and SQL's \<open>UPPER\<close>, on ASCII text.
\<close>

definition is_space :: "char \<Rightarrow> bool" where
  "is_space c \<longleftrightarrow> of_char c \<in> {9, 10, 11, 12, 13, 32 :: nat}"

definition trim_space :: "string \<Rightarrow> string" where
  "trim_space s = rev (dropWhile is_space (rev (dropWhile is_space s)))"

definition upper_char :: "char \<Rightarrow> char" where
  "upper_char c = (let n = of_char c :: nat in if 97 \<le> n \<and> n \<le> 122 then char_of (n - 32) else c)"

definition to_upper :: "string \<Rightarrow> string" where
  "to_upper = map upper_char"

definition equal_fold :: "string \<Rightarrow> string \<Rightarrow> bool" where
  "equal_fold a b \<longleftrightarrow> to_upper a = to_upper b"

lemma has_prefix_append: "has_prefix (p @ s) p"
  by (induction p) auto

lemma str_contains_prefix: "has_prefix s p \<Longrightarrow> str_contains s p"
  by (cases s) auto

lemma str_contains_append: "str_contains (a @ p @ b) p"
  by (induction a) (auto intro: str_contains_prefix has_prefix_append)

subsection \<open>Lists\<close>

text \<open>Rows of a table are lists; these are the facts about sums and updates over selected rows.\<close>

definition sum_by :: "('r \<Rightarrow> bool) \<Rightarrow> ('r \<Rightarrow> int) \<Rightarrow> 'r list \<Rightarrow> int" where
  "sum_by p f xs = sum_list (map f (filter p xs))"

lemma sum_by_simps [simp]:
  "sum_by p f [] = 0"
  "sum_by p f (x # xs) = (if p x then f x else 0) + sum_by p f xs"
  "sum_by p f (xs @ ys) = sum_by p f xs + sum_by p f ys"
  by (simp_all add: sum_by_def)

lemma sum_by_cong:
  "(\<And>x. x \<in> set xs \<Longrightarrow> p x = q x) \<Longrightarrow> (\<And>x. x \<in> set xs \<Longrightarrow> p x \<Longrightarrow> f x = g x)
   \<Longrightarrow> sum_by p f xs = sum_by q g xs"
  by (induction xs) auto

lemma sum_by_nonneg: "(\<And>x. x \<in> set xs \<Longrightarrow> p x \<Longrightarrow> 0 \<le> f x) \<Longrightarrow> 0 \<le> sum_by p f xs"
  by (induction xs) auto

lemma sum_by_None: "(\<And>x. x \<in> set xs \<Longrightarrow> \<not> p x) \<Longrightarrow> sum_by p f xs = 0"
  by (induction xs) auto

lemma sum_by_le_member:
  assumes "\<And>x. x \<in> set xs \<Longrightarrow> p x \<Longrightarrow> 0 \<le> f x" and "x \<in> set xs" and "p x"
  shows "f x \<le> sum_by p f xs"
  using assms
proof (induction xs)
  case (Cons y ys)
  have ys: "0 \<le> sum_by p f ys"
    by (rule sum_by_nonneg) (simp add: Cons.prems(1))
  have y: "p y \<Longrightarrow> 0 \<le> f y" by (simp add: Cons.prems(1))
  show ?case
  proof (cases "x = y")
    case True
    with Cons.prems(3) ys show ?thesis by simp
  next
    case False
    then have "f x \<le> sum_by p f ys" using Cons by auto
    with y show ?thesis by auto
  qed
qed simp

text \<open>
  \<open>update_where q g rows\<close> is the effect of SQL's \<open>UPDATE \<dots> SET g WHERE q\<close>; an update of the one
  row with a given key changes a sum over the table by the change of that row.
\<close>

definition update_where :: "('r \<Rightarrow> bool) \<Rightarrow> ('r \<Rightarrow> 'r) \<Rightarrow> 'r list \<Rightarrow> 'r list" where
  "update_where q g = map (\<lambda>x. if q x then g x else x)"

lemma update_where_simps [simp]:
  "update_where q g [] = []"
  "update_where q g (x # xs) = (if q x then g x else x) # update_where q g xs"
  "length (update_where q g xs) = length xs"
  by (simp_all add: update_where_def)

lemma update_where_keys:
  "(\<And>x. key (g x) = key x) \<Longrightarrow> map key (update_where q g xs) = map key xs"
  by (induction xs) auto

lemma update_where_id: "(\<And>x. x \<in> set xs \<Longrightarrow> \<not> q x) \<Longrightarrow> update_where q g xs = xs"
  by (induction xs) auto

lemma sum_by_update_where:
  "sum_by p f (update_where q g xs) =
     sum_by (\<lambda>x. \<not> q x \<and> p x) f xs + sum_by (\<lambda>x. q x \<and> p (g x)) (\<lambda>x. f (g x)) xs"
  by (induction xs) auto

lemma sum_by_split:
  "sum_by p f xs = sum_by (\<lambda>x. \<not> q x \<and> p x) f xs + sum_by (\<lambda>x. q x \<and> p x) f xs"
  by (induction xs) auto

lemma sum_by_single_key:
  assumes "distinct (map key xs)" and "x \<in> set xs"
  shows "sum_by (\<lambda>y. key y = key x \<and> p y) f xs = (if p x then f x else 0)"
  using assms
proof (induction xs)
  case (Cons y ys)
  show ?case
  proof (cases "x = y")
    case True
    have "sum_by (\<lambda>z. key z = key x \<and> p z) f ys = 0"
      using Cons.prems True by (intro sum_by_None) (auto simp: image_iff)
    with True show ?thesis by simp
  next
    case False
    with Cons.prems have x: "x \<in> set ys" and k: "key y \<noteq> key x" by (auto simp: image_iff)
    with Cons show ?thesis by simp
  qed
qed simp

lemma find_Some_mem: "find p xs = Some x \<Longrightarrow> x \<in> set xs \<and> p x"
  by (auto simp: find_Some_iff)

lemma find_None_all: "find p xs = None \<longleftrightarrow> (\<forall>x \<in> set xs. \<not> p x)"
  by (auto simp: find_None_iff)

lemma find_unique_key:
  "distinct (map key xs) \<Longrightarrow> x \<in> set xs \<Longrightarrow> find (\<lambda>y. key y = key x) xs = Some x"
  by (induction xs) (auto simp: image_iff)

lemma find_append:
  "find p (xs @ ys) = (case find p xs of Some x \<Rightarrow> Some x | None \<Rightarrow> find p ys)"
  by (induction xs) auto

end
