(* ===== verification/App_Errors.thy ===== *)
theory App_Errors
  imports Prelude
begin

text \<open>
  Error values (backend/pkg/errors). An error is one of: a sentinel of the service's domain or
  port package (\<open>Sentinel\<close>, a type parameter), one of the standard sentinels of pkg/errors
  (\<open>Std\<close>), what the Postgres driver reports (\<open>Pg\<close>), or a structured \<open>AppError\<close>. Wrapping with
  \<open>fmt.Errorf("...: %w", err)\<close> only adds text for the log and is transparent to \<open>errors.Is\<close> and
  \<open>errors.As\<close>, so it is the identity here.
\<close>

datatype std_error =
  ErrNotFound | ErrUnauthorized | ErrForbidden | ErrConflict | ErrBadRequest | ErrInternal

datatype pg_error =
  ConnFailure
| TxAborted
| CommitRolledBack
| NumericOutOfRange
| UniqueViolation string
| CheckViolation string
| ForeignKeyViolation string
| InvalidTextRepresentation string

datatype 'd error =
  Sentinel 'd
| Std std_error
| Pg pg_error
| AppError (status: nat) (code: string) (message: string) (cause: "'d error option")

definition new_app_error :: "nat \<Rightarrow> string \<Rightarrow> 'd error option \<Rightarrow> 'd error" where
  "new_app_error st msg err = AppError st '''' msg err"

definition not_found :: "string \<Rightarrow> 'd error" where
  "not_found msg = AppError 404 '''' msg (Some (Std ErrNotFound))"

definition bad_request :: "string \<Rightarrow> 'd error" where
  "bad_request msg = AppError 400 '''' msg (Some (Std ErrBadRequest))"

definition unauthorized :: "string \<Rightarrow> 'd error" where
  "unauthorized msg = AppError 401 '''' msg (Some (Std ErrUnauthorized))"

definition forbidden :: "string \<Rightarrow> 'd error" where
  "forbidden msg = AppError 403 '''' msg (Some (Std ErrForbidden))"

definition conflict :: "string \<Rightarrow> 'd error" where
  "conflict msg = AppError 409 '''' msg (Some (Std ErrConflict))"

definition internal :: "string \<Rightarrow> 'd error option \<Rightarrow> 'd error" where
  "internal msg err = AppError 500 '''' msg err"

fun with_code :: "'d error \<Rightarrow> string \<Rightarrow> 'd error" where
  "with_code (AppError st c m e) c' = AppError st c' m e"
| "with_code e c' = e"

text \<open>\<open>errors.Is\<close> follows the \<open>Unwrap\<close> chain; \<open>errors.As\<close> for \<open>*AppError\<close> stops at the first one.\<close>

fun unwrap :: "'d error \<Rightarrow> 'd error option" where
  "unwrap (AppError st c m e) = e"
| "unwrap _ = None"

fun errors_is :: "'d error \<Rightarrow> 'd error \<Rightarrow> bool" where
  "errors_is (AppError st c m None) t = (AppError st c m None = t)"
| "errors_is (AppError st c m (Some e)) t = (AppError st c m (Some e) = t \<or> errors_is e t)"
| "errors_is e t = (e = t)"

fun as_app_error :: "'d error \<Rightarrow> 'd error option" where
  "as_app_error (AppError st c m e) = Some (AppError st c m e)"
| "as_app_error _ = None"

lemmas error_defs = new_app_error_def not_found_def bad_request_def unauthorized_def
  forbidden_def conflict_def internal_def

lemma errors_is_refl [simp]: "errors_is e e"
  by (cases e rule: unwrap.cases; cases "unwrap e") auto

lemma errors_is_sentinel [simp]:
  "errors_is (Sentinel d) (Sentinel d') = (d = d')"
  "\<not> errors_is (Pg p) (Sentinel d)"
  "\<not> errors_is (Std s) (Sentinel d)"
  by auto

lemma errors_is_unwrap: "unwrap e = Some e' \<Longrightarrow> errors_is e' t \<Longrightarrow> errors_is e t"
  by (cases e) auto

lemma errors_is_internal [simp]:
  "errors_is (internal m (Some e)) (Sentinel d) = errors_is e (Sentinel d)"
  by (simp add: internal_def)

end
