(* ===== verification/Database.thy ===== *)
theory Database
  imports App_Errors
begin

text \<open>
  Transactions (backend/pkg/database) and the world a service operation runs in.

  A service operation is a function from a \<open>world\<close> to a result and the next world. The world
  holds the service's tables (\<open>store\<close>), whether the current transaction has been aborted by a
  failed statement, and what the code gets from outside: the clock, the supply of fresh UUIDs
  (\<open>uuid.New\<close>), the events handed to the publisher, and the fault schedule. Each statement sent
  to Postgres (\<open>BEGIN\<close> and \<open>COMMIT\<close> included) consumes one entry of \<open>faults\<close>; \<open>True\<close> means that
  the driver reports a failure for it. When the list is used up, statements no longer fail for
  this reason, so a theorem for all worlds covers every pattern of infrastructure failures, and
  \<open>faults = []\<close> is a healthy database.

  As Postgres documents, a failed statement aborts the surrounding transaction: every later
  statement of it fails, and its \<open>COMMIT\<close> rolls back.
\<close>

datatype json =
  JStr string | JInt int | JBool bool | JNull | JList "json list" | JObj "(string \<times> json) list"

record event =
  topic :: string
  event_type :: string
  payload :: "(string \<times> json) list"

record 's world =
  store :: 's
  aborted :: bool
  faults :: "bool list"
  clock :: instant
  uuids :: "nat \<Rightarrow> uuid"
  uuid_next :: nat
  events :: "event list"

type_synonym ('s, 'd, 'a) tx = "'s world \<Rightarrow> ('d error + 'a) \<times> 's world"

definition tx_return :: "'a \<Rightarrow> ('s, 'd, 'a) tx" where
  "tx_return x w = (Inr x, w)"

definition tx_throw :: "'d error \<Rightarrow> ('s, 'd, 'a) tx" where
  "tx_throw e w = (Inl e, w)"

definition tx_bind :: "('s, 'd, 'a) tx \<Rightarrow> ('a \<Rightarrow> ('s, 'd, 'b) tx) \<Rightarrow> ('s, 'd, 'b) tx" where
  "tx_bind m f w = (case m w of (Inl e, w') \<Rightarrow> (Inl e, w') | (Inr x, w') \<Rightarrow> f x w')"

text \<open>\<open>if err := m; err != nil { h(err) }\<close> where the code looks at the error and goes on.\<close>

definition tx_catch :: "('s, 'd, 'a) tx \<Rightarrow> ('d error \<Rightarrow> ('s, 'd, 'a) tx) \<Rightarrow> ('s, 'd, 'a) tx" where
  "tx_catch m h w = (case m w of (Inl e, w') \<Rightarrow> h e w' | (Inr x, w') \<Rightarrow> (Inr x, w'))"

text \<open>\<open>if err != nil { return wrap(err) }\<close>.\<close>

definition tx_map_error :: "('d error \<Rightarrow> 'd error) \<Rightarrow> ('s, 'd, 'a) tx \<Rightarrow> ('s, 'd, 'a) tx" where
  "tx_map_error f m = tx_catch m (\<lambda>e. tx_throw (f e))"

fun tx_for :: "'x list \<Rightarrow> ('x \<Rightarrow> 'a \<Rightarrow> ('s, 'd, 'a) tx) \<Rightarrow> 'a \<Rightarrow> ('s, 'd, 'a) tx" where
  "tx_for [] f a = tx_return a"
| "tx_for (x # xs) f a = tx_bind (f x a) (\<lambda>a'. tx_for xs f a')"

definition now :: "('s, 'd, instant) tx" where
  "now w = (Inr (clock w), w)"

definition new_uuid :: "('s, 'd, uuid) tx" where
  "new_uuid w = (Inr (uuids w (uuid_next w)), w\<lparr>uuid_next := Suc (uuid_next w)\<rparr>)"

text \<open>
  \<open>pubsub.PublishEvent\<close> and \<open>PublishProtoEvent\<close> are fire-and-forget: a failed publish is only
  logged. \<open>events\<close> lists what the code asked to publish.
\<close>

definition publish :: "event \<Rightarrow> ('s, 'd, unit) tx" where
  "publish e w = (Inr (), w\<lparr>events := events w @ [e]\<rparr>)"

subsection \<open>Statements and transactions\<close>

definition next_faulty :: "'s world \<Rightarrow> bool" where
  "next_faulty w = (case faults w of [] \<Rightarrow> False | f # fs \<Rightarrow> f)"

definition consume_fault :: "'s world \<Rightarrow> 's world" where
  "consume_fault w = w\<lparr>faults := tl (faults w)\<rparr>"

text \<open>One SQL statement, given by its effect on the tables or the error Postgres raises.\<close>

definition sql :: "(instant \<Rightarrow> 's \<Rightarrow> pg_error + ('a \<times> 's)) \<Rightarrow> ('s, 'd, 'a) tx" where
  "sql stmt w =
     (if aborted w then (Inl (Pg TxAborted), w)
      else if next_faulty w then (Inl (Pg ConnFailure), (consume_fault w)\<lparr>aborted := True\<rparr>)
      else case stmt (clock w) (store w) of
             Inl e \<Rightarrow> (Inl (Pg e), (consume_fault w)\<lparr>aborted := True\<rparr>)
           | Inr (x, s') \<Rightarrow> (Inr x, (consume_fault w)\<lparr>store := s'\<rparr>))"

definition query :: "(instant \<Rightarrow> 's \<Rightarrow> 'a) \<Rightarrow> ('s, 'd, 'a) tx" where
  "query q = sql (\<lambda>t s. Inr (q t s, s))"

text \<open>
  \<open>database.Tx\<close>: begin, run the body, commit; on an error of the body the deferred rollback
  restores the tables, and a commit of an aborted transaction rolls back and reports an error.
\<close>

definition run_tx :: "('s, 'd, 'a) tx \<Rightarrow> ('s, 'd, 'a) tx" where
  "run_tx body w =
     (if next_faulty w then (Inl (Pg ConnFailure), consume_fault w)
      else case body ((consume_fault w)\<lparr>aborted := False\<rparr>) of
             (Inl e, w') \<Rightarrow> (Inl e, w'\<lparr>store := store w, aborted := aborted w\<rparr>)
           | (Inr x, w') \<Rightarrow>
               (if aborted w' then
                  (Inl (Pg CommitRolledBack), w'\<lparr>store := store w, aborted := aborted w\<rparr>)
                else if next_faulty w' then
                  (Inl (Pg ConnFailure), (consume_fault w')\<lparr>store := store w, aborted := aborted w\<rparr>)
                else (Inr x, (consume_fault w')\<lparr>aborted := aborted w\<rparr>)))"

text \<open>The driver's error text, which some repositories search for a constraint's name.\<close>

fun pg_message :: "pg_error \<Rightarrow> string" where
  "pg_message ConnFailure = ''connection failure''"
| "pg_message TxAborted =
     ''ERROR: current transaction is aborted, commands ignored until end of transaction block (SQLSTATE 25P02)''"
| "pg_message CommitRolledBack = ''commit unexpectedly resulted in rollback''"
| "pg_message NumericOutOfRange = ''ERROR: bigint out of range (SQLSTATE 22003)''"
| "pg_message (UniqueViolation c) =
     ''ERROR: duplicate key value violates unique constraint '' @ [CHR 0x22] @ c @ [CHR 0x22] @ '' (SQLSTATE 23505)''"
| "pg_message (CheckViolation c) =
     ''ERROR: new row violates check constraint '' @ [CHR 0x22] @ c @ [CHR 0x22] @ '' (SQLSTATE 23514)''"
| "pg_message (ForeignKeyViolation c) =
     ''ERROR: insert or update violates foreign key constraint '' @ [CHR 0x22] @ c @ [CHR 0x22] @ '' (SQLSTATE 23503)''"
| "pg_message (InvalidTextRepresentation c) =
     ''ERROR: invalid input syntax for type uuid: '' @ [CHR 0x22] @ c @ [CHR 0x22] @ '' (SQLSTATE 22P02)''"

subsection \<open>Weakest preconditions (partial correctness)\<close>

text \<open>
  \<open>wp m Q w\<close>: if \<open>m\<close> succeeds on \<open>w\<close>, its result and final world satisfy \<open>Q\<close>. Failure needs no
  condition, because \<open>run_tx\<close> restores the tables then.
\<close>

definition wp :: "('s, 'd, 'a) tx \<Rightarrow> ('a \<Rightarrow> 's world \<Rightarrow> bool) \<Rightarrow> 's world \<Rightarrow> bool" where
  "wp m Q w = (case m w of (Inl e, w') \<Rightarrow> True | (Inr x, w') \<Rightarrow> Q x w')"

lemma wp_return [wp_simps]: "wp (tx_return x) Q w = Q x w"
  by (simp add: wp_def tx_return_def)

lemma wp_throw [wp_simps]: "wp (tx_throw e) Q w = True"
  by (simp add: wp_def tx_throw_def)

lemma wp_bind [wp_simps]: "wp (tx_bind m f) Q w = wp m (\<lambda>x. wp (f x) Q) w"
  by (simp add: wp_def tx_bind_def split: prod.splits sum.splits)

lemma wp_map_error [wp_simps]: "wp (tx_map_error f m) Q w = wp m Q w"
  by (simp add: wp_def tx_map_error_def tx_catch_def tx_throw_def split: prod.splits sum.splits)

lemma wp_now [wp_simps]: "wp now Q w = Q (clock w) w"
  by (simp add: wp_def now_def)

lemma wp_new_uuid [wp_simps]:
  "wp new_uuid Q w = Q (uuids w (uuid_next w)) (w\<lparr>uuid_next := Suc (uuid_next w)\<rparr>)"
  by (simp add: wp_def new_uuid_def)

lemma wp_publish [wp_simps]: "wp (publish e) Q w = Q () (w\<lparr>events := events w @ [e]\<rparr>)"
  by (simp add: wp_def publish_def)

lemma wp_sql:
  "wp (sql stmt) Q w =
     (\<not> aborted w \<longrightarrow> \<not> next_faulty w \<longrightarrow>
       (case stmt (clock w) (store w) of Inl e \<Rightarrow> True
        | Inr (x, s') \<Rightarrow> Q x ((consume_fault w)\<lparr>store := s'\<rparr>)))"
  by (auto simp: wp_def sql_def split: sum.splits prod.splits)

lemma wp_mono: "wp m Q w \<Longrightarrow> (\<And>x w'. Q x w' \<Longrightarrow> R x w') \<Longrightarrow> wp m R w"
  by (auto simp: wp_def split: prod.splits sum.splits)

lemma wpD: "wp m Q w \<Longrightarrow> m w = (Inr x, w') \<Longrightarrow> Q x w'"
  by (simp add: wp_def)

lemma wp_combine:
  assumes "wp m P w" and "wp m Q w" and "\<And>x w'. P x w' \<Longrightarrow> Q x w' \<Longrightarrow> R x w'"
  shows "wp m R w"
  using assms by (auto simp: wp_def split: prod.splits sum.splits)

lemma wpI: "(\<And>x w'. m w = (Inr x, w') \<Longrightarrow> Q x w') \<Longrightarrow> wp m Q w"
  by (auto simp: wp_def split: prod.splits sum.splits)

text \<open>
  The same as introduction rules, which name the next world instead of building a term for it:
  \<open>intro wp_intros\<close> turns a goal about a body into one goal per path through it.
\<close>

lemma wp_sqlI [wp_intros]:
  "(\<And>x s' w'. stmt (clock w) (store w) = Inr (x, s') \<Longrightarrow> store w' = s' \<Longrightarrow> clock w' = clock w
     \<Longrightarrow> \<not> aborted w \<Longrightarrow> \<not> aborted w' \<Longrightarrow> Q x w') \<Longrightarrow> wp (sql stmt) Q w"
  by (auto simp: wp_sql consume_fault_def split: sum.splits)

lemma wp_queryI [wp_intros]:
  "(\<And>w'. store w' = store w \<Longrightarrow> clock w' = clock w \<Longrightarrow> Q (q (clock w) (store w)) w')
   \<Longrightarrow> wp (query q) Q w"
  unfolding query_def by (rule wp_sqlI) simp

lemma wp_returnI [wp_intros]: "Q x w \<Longrightarrow> wp (tx_return x) Q w"
  by (simp add: wp_simps)

lemma wp_throwI [wp_intros]: "wp (tx_throw e) Q w"
  by (simp add: wp_simps)

lemma wp_bindI [wp_intros]: "wp m (\<lambda>x. wp (f x) Q) w \<Longrightarrow> wp (tx_bind m f) Q w"
  by (simp add: wp_simps)

lemma wp_map_errorI [wp_intros]: "wp m Q w \<Longrightarrow> wp (tx_map_error f m) Q w"
  by (simp add: wp_simps)

lemma wp_nowI [wp_intros]: "Q (clock w) w \<Longrightarrow> wp now Q w"
  by (simp add: wp_simps)

lemma wp_new_uuidI [wp_intros]:
  "(\<And>i w'. store w' = store w \<Longrightarrow> clock w' = clock w \<Longrightarrow> aborted w' = aborted w \<Longrightarrow> Q i w')
   \<Longrightarrow> wp new_uuid Q w"
  by (simp add: wp_simps)

lemma wp_publishI [wp_intros]:
  "(\<And>w'. store w' = store w \<Longrightarrow> clock w' = clock w \<Longrightarrow> Q () w') \<Longrightarrow> wp (publish e) Q w"
  by (simp add: wp_simps)

lemma wp_ifI [wp_intros]:
  "(c \<Longrightarrow> wp m Q w) \<Longrightarrow> (\<not> c \<Longrightarrow> wp n Q w) \<Longrightarrow> wp (if c then m else n) Q w"
  by simp

lemma wp_case_optionI [wp_intros]:
  "(x = None \<Longrightarrow> wp m Q w) \<Longrightarrow> (\<And>y. x = Some y \<Longrightarrow> wp (f y) Q w)
   \<Longrightarrow> wp (case x of None \<Rightarrow> m | Some y \<Rightarrow> f y) Q w"
  by (cases x) auto

lemma wp_case_prodI [wp_intros]:
  "(\<And>a b. p = (a, b) \<Longrightarrow> wp (f a b) Q w) \<Longrightarrow> wp (case p of (a, b) \<Rightarrow> f a b) Q w"
  by (cases p) auto

lemma wp_LetI [wp_intros]: "wp (f v) Q w \<Longrightarrow> wp (Let v f) Q w"
  by simp

lemma wp_catchI:
  "wp m Q w \<Longrightarrow> (\<And>e w'. m w = (Inl e, w') \<Longrightarrow> wp (h e) Q w') \<Longrightarrow> wp (tx_catch m h) Q w"
  by (auto simp: wp_def tx_catch_def split: prod.splits sum.splits)

text \<open>A failed statement changes no table and leaves the transaction aborted.\<close>

lemma sql_error:
  assumes "sql stmt w = (Inl e, w')"
  shows "store w' = store w" and "aborted w'" and "clock w' = clock w"
  using assms by (auto simp: sql_def consume_fault_def split: if_splits sum.splits)

lemma bind_return_error:
  "tx_bind m (\<lambda>x. tx_return (f x)) w = (Inl e, w') \<Longrightarrow> m w = (Inl e, w')"
  by (auto simp: tx_bind_def tx_return_def split: prod.splits sum.splits)

text \<open>
  A loop keeps what its body keeps: \<open>I\<close> is the loop invariant over the items still to come, the
  accumulator and the world.
\<close>

lemma wp_for:
  assumes "I xs a w"
    and "\<And>x xs a w. I (x # xs) a w \<Longrightarrow> wp (f x a) (I xs) w"
    and "\<And>a w. I [] a w \<Longrightarrow> Q a w"
  shows "wp (tx_for xs f a) Q w"
  using assms(1)
proof (induction xs arbitrary: a w)
  case Nil
  then show ?case by (simp add: wp_simps assms(3))
next
  case (Cons x xs)
  from Cons.prems have "wp (f x a) (I xs) w" by (rule assms(2))
  then show ?case by (auto simp: wp_simps intro: wp_mono Cons.IH)
qed

subsection \<open>All-or-nothing\<close>

lemma consume_fault_simps [simp]:
  "store (consume_fault w) = store w" "aborted (consume_fault w) = aborted w"
  "clock (consume_fault w) = clock w" "uuids (consume_fault w) = uuids w"
  "uuid_next (consume_fault w) = uuid_next w" "events (consume_fault w) = events w"
  "faults (consume_fault w) = tl (faults w)"
  by (simp_all add: consume_fault_def)

text \<open>A transaction that reports an error leaves the tables as they were.\<close>

lemma run_tx_error_frame: "run_tx body w = (Inl e, w') \<Longrightarrow> store w' = store w"
  by (auto simp: run_tx_def split: prod.splits sum.splits if_splits)

lemma run_tx_aborted: "aborted (snd (run_tx body w)) = aborted w"
  by (auto simp: run_tx_def split: prod.splits sum.splits)

lemma run_tx_success:
  assumes "run_tx body w = (Inr x, w')"
  obtains w0 where "body ((consume_fault w)\<lparr>aborted := False\<rparr>) = (Inr x, w0)"
    and "\<not> next_faulty w" and "\<not> aborted w0" and "\<not> next_faulty w0" and "store w' = store w0"
    and "w' = (consume_fault w0)\<lparr>aborted := aborted w\<rparr>"
  using assms by (auto simp: run_tx_def split: prod.splits sum.splits if_splits)

text \<open>What a body ensures of the tables when it succeeds holds after its transaction.\<close>

lemma wp_run_tx:
  assumes "wp body (\<lambda>x w'. \<not> aborted w' \<longrightarrow> Q x (store w')) ((consume_fault w)\<lparr>aborted := False\<rparr>)"
  shows "wp (run_tx body) (\<lambda>x w'. Q x (store w')) w"
proof (rule wpI)
  fix x w'
  assume "run_tx body w = (Inr x, w')"
  then obtain w0 where "body ((consume_fault w)\<lparr>aborted := False\<rparr>) = (Inr x, w0)"
    and "\<not> aborted w0" and "store w' = store w0"
    by (rule run_tx_success)
  with wpD [OF assms] show "Q x (store w')" by auto
qed

text \<open>The same as an introduction rule: the body starts in a fresh transaction on the same tables.\<close>

lemma wp_run_txI [wp_intros]:
  assumes "\<And>w0. store w0 = store w \<Longrightarrow> clock w0 = clock w \<Longrightarrow> \<not> aborted w0 \<Longrightarrow>
      wp body (\<lambda>x w1. \<not> aborted w1 \<longrightarrow> (\<forall>w2. store w2 = store w1 \<longrightarrow> Q x w2)) w0"
  shows "wp (run_tx body) Q w"
proof (rule wpI)
  fix x w'
  assume "run_tx body w = (Inr x, w')"
  then obtain w0 where "body ((consume_fault w)\<lparr>aborted := False\<rparr>) = (Inr x, w0)"
    and "\<not> aborted w0" and "store w' = store w0"
    by (rule run_tx_success)
  with wpD [OF assms [of "(consume_fault w)\<lparr>aborted := False\<rparr>"]] show "Q x w'" by auto
qed

text \<open>\<open>keeps I m\<close>: whatever the outcome of \<open>m\<close> and of the faults, \<open>m\<close> preserves \<open>I\<close> of the tables.\<close>

definition keeps :: "('s \<Rightarrow> bool) \<Rightarrow> ('s, 'd, 'a) tx \<Rightarrow> bool" where
  "keeps I m \<longleftrightarrow> (\<forall>w. I (store w) \<longrightarrow> I (store (snd (m w))))"

lemma keepsD: "keeps I m \<Longrightarrow> I (store w) \<Longrightarrow> I (store (snd (m w)))"
  by (simp add: keeps_def)

lemma keeps_run_tx:
  assumes "\<And>w. I (store w) \<Longrightarrow> \<not> aborted w \<Longrightarrow> wp body (\<lambda>x w'. I (store w')) w"
  shows "keeps I (run_tx body)"
  unfolding keeps_def
proof (intro allI impI)
  fix w :: "'a world"
  assume I: "I (store w)"
  show "I (store (snd (run_tx body w)))"
  proof (cases "run_tx body w")
    case (Pair r w')
    show ?thesis
    proof (cases r)
      case (Inl e)
      with Pair I show ?thesis by (simp add: run_tx_error_frame)
    next
      case (Inr x)
      have "wp (run_tx body) (\<lambda>x w'. I (store w')) w"
        by (rule wp_run_tx) (rule wp_mono [OF assms], simp_all add: I)
      from wpD [OF this] Pair Inr show ?thesis by simp
    qed
  qed
qed

text \<open>Only a body whose transaction is not aborted can commit.\<close>

lemma keeps_run_tx_commit:
  assumes "\<And>w. I (store w) \<Longrightarrow> \<not> aborted w \<Longrightarrow> wp body (\<lambda>x w'. \<not> aborted w' \<longrightarrow> I (store w')) w"
  shows "keeps I (run_tx body)"
  unfolding keeps_def
proof (intro allI impI)
  fix w :: "'a world"
  assume I: "I (store w)"
  obtain r w' where r: "run_tx body w = (r, w')" by fastforce
  have "wp (run_tx body) (\<lambda>x w'. I (store w')) w"
    by (rule wp_run_tx) (rule assms, simp_all add: I)
  note wp = wpD [OF this]
  show "I (store (snd (run_tx body w)))"
  proof (cases r)
    case (Inl e)
    with r run_tx_error_frame [of body w e w'] I show ?thesis by simp
  next
    case (Inr x)
    with r wp [of x w'] show ?thesis by simp
  qed
qed

lemma keeps_return [intro, keeps_intros]: "keeps I (tx_return x)"
  by (simp add: keeps_def tx_return_def)

lemma keeps_throw [intro, keeps_intros]: "keeps I (tx_throw e)"
  by (simp add: keeps_def tx_throw_def)

lemma keeps_now [intro, keeps_intros]: "keeps I now"
  by (simp add: keeps_def now_def)

lemma keeps_publish [intro, keeps_intros]: "keeps I (publish e)"
  by (simp add: keeps_def publish_def)

lemma keeps_query [intro, keeps_intros]: "keeps I (query q)"
  by (simp add: keeps_def query_def sql_def split: prod.splits sum.splits)

lemma keeps_bind [keeps_intros]:
  assumes "keeps I m" and "\<And>x. keeps I (f x)"
  shows "keeps I (tx_bind m f)"
  unfolding keeps_def
proof (intro allI impI)
  fix w :: "'a world"
  assume I: "I (store w)"
  obtain r w' where m: "m w = (r, w')" by (cases "m w")
  with keepsD [OF assms(1) I] have "I (store w')" by simp
  with m show "I (store (snd (tx_bind m f w)))"
    by (cases r) (auto simp: tx_bind_def intro: keepsD [OF assms(2)])
qed

lemma keeps_catch [keeps_intros]:
  assumes "keeps I m" and "\<And>e. keeps I (h e)"
  shows "keeps I (tx_catch m h)"
  unfolding keeps_def
proof (intro allI impI)
  fix w :: "'a world"
  assume I: "I (store w)"
  obtain r w' where m: "m w = (r, w')" by (cases "m w")
  with keepsD [OF assms(1) I] have "I (store w')" by simp
  with m show "I (store (snd (tx_catch m h w)))"
    by (cases r) (auto simp: tx_catch_def intro: keepsD [OF assms(2)])
qed

lemma keeps_map_error [keeps_intros]: "keeps I m \<Longrightarrow> keeps I (tx_map_error f m)"
  unfolding tx_map_error_def by (intro keeps_catch keeps_throw)

lemma keeps_for [keeps_intros]: "(\<And>x a. keeps I (f x a)) \<Longrightarrow> keeps I (tx_for xs f a)"
  by (induction xs arbitrary: a) (auto intro: keeps_bind)

lemma keeps_new_uuid [keeps_intros]: "keeps I new_uuid"
  by (simp add: keeps_def new_uuid_def)

lemma keeps_if [keeps_intros]:
  "(c \<Longrightarrow> keeps I m) \<Longrightarrow> (\<not> c \<Longrightarrow> keeps I n) \<Longrightarrow> keeps I (if c then m else n)"
  by simp

lemma keeps_case_option [keeps_intros]:
  "keeps I m \<Longrightarrow> (\<And>y. keeps I (f y)) \<Longrightarrow> keeps I (case x of None \<Rightarrow> m | Some y \<Rightarrow> f y)"
  by (cases x) auto

lemma keeps_case_prod [keeps_intros]:
  "(\<And>a b. keeps I (f a b)) \<Longrightarrow> keeps I (case p of (a, b) \<Rightarrow> f a b)"
  by (cases p) auto

lemma keeps_case_prod_app [keeps_intros]:
  "(\<And>a b. keeps I (f a b y)) \<Longrightarrow> keeps I ((case p of (a, b) \<Rightarrow> f a b) y)"
  by (cases p) auto

lemma keeps_Let [keeps_intros]: "keeps I (f v) \<Longrightarrow> keeps I (Let v f)"
  by simp

lemma keeps_sql [keeps_intros]:
  "(\<And>t s x s'. I s \<Longrightarrow> stmt t s = Inr (x, s') \<Longrightarrow> I s') \<Longrightarrow> keeps I (sql stmt)"
  by (auto simp: keeps_def sql_def consume_fault_def split: sum.splits)

lemma keeps_run_tx_body [keeps_intros]:
  assumes "keeps I body"
  shows "keeps I (run_tx body)"
proof (rule keeps_run_tx)
  fix w :: "'a world"
  assume "I (store w)"
  from keepsD [OF assms this] show "wp body (\<lambda>x w'. I (store w')) w"
    by (auto simp: wp_def split: prod.splits sum.splits)
qed

lemma wp_keeps: "keeps I m \<Longrightarrow> I (store w) \<Longrightarrow> wp m (\<lambda>_ w'. I (store w')) w"
  by (force simp: wp_def keeps_def split: prod.splits sum.splits)

lemma keeps_conj: "keeps I m \<Longrightarrow> keeps J m \<Longrightarrow> keeps (\<lambda>s. I s \<and> J s) m"
  by (simp add: keeps_def)

text \<open>\<open>frame P V m\<close>: on tables with \<open>P\<close>, the operation leaves the view \<open>V\<close> alone.\<close>

definition frame :: "('s \<Rightarrow> bool) \<Rightarrow> ('s \<Rightarrow> 'v) \<Rightarrow> ('s, 'd, 'a) tx \<Rightarrow> bool" where
  "frame P V m \<longleftrightarrow> (\<forall>v. keeps (\<lambda>s. P s \<and> V s = v) m)"

lemma frameD: "frame P V m \<Longrightarrow> P (store w) \<Longrightarrow> V (store (snd (m w))) = V (store w)"
  by (auto simp: frame_def keeps_def)

text \<open>When an operation of the form \<open>run_tx body\<close> succeeds, its body did.\<close>

lemma run_tx_wp:
  assumes "run_tx body w = (Inr x, w')"
    and "wp body (\<lambda>x w1. \<not> aborted w1 \<longrightarrow> Q x (store w1)) ((consume_fault w)\<lparr>aborted := False\<rparr>)"
  shows "Q x (store w')"
  using wpD [OF wp_run_tx [OF assms(2)] assms(1)] .

subsection \<open>Running on a healthy database\<close>

lemmas tx_defs [run_simps] =
  tx_return_def tx_throw_def tx_bind_def tx_catch_def tx_map_error_def now_def new_uuid_def publish_def

definition healthy :: "'s world \<Rightarrow> bool" where
  "healthy w \<longleftrightarrow> faults w = [] \<and> \<not> aborted w"

lemma sql_healthy [run_simps]:
  "healthy w \<Longrightarrow> sql stmt w =
     (case stmt (clock w) (store w) of
        Inl e \<Rightarrow> (Inl (Pg e), w\<lparr>aborted := True\<rparr>)
      | Inr (x, s') \<Rightarrow> (Inr x, w\<lparr>store := s'\<rparr>))"
  by (auto simp: healthy_def sql_def next_faulty_def consume_fault_def split: sum.splits)

lemma healthy_simps [simp]:
  "healthy (w\<lparr>store := s\<rparr>) = healthy w"
  "healthy (w\<lparr>uuid_next := n\<rparr>) = healthy w"
  "healthy (w\<lparr>events := es\<rparr>) = healthy w"
  "healthy (w\<lparr>clock := t\<rparr>) = healthy w"
  by (simp_all add: healthy_def)

lemma run_tx_healthy [run_simps]:
  "healthy w \<Longrightarrow> run_tx body w =
     (case body w of
        (Inl e, w') \<Rightarrow> (Inl e, w'\<lparr>store := store w, aborted := False\<rparr>)
      | (Inr x, w') \<Rightarrow>
          (if aborted w' then (Inl (Pg CommitRolledBack), w'\<lparr>store := store w, aborted := False\<rparr>)
           else if next_faulty w' then
             (Inl (Pg ConnFailure), (consume_fault w')\<lparr>store := store w, aborted := False\<rparr>)
           else (Inr x, (consume_fault w')\<lparr>aborted := False\<rparr>)))"
proof -
  assume h: "healthy w"
  then have "(consume_fault w)\<lparr>aborted := False\<rparr> = w" and "\<not> next_faulty w" and "\<not> aborted w"
    by (simp_all add: healthy_def consume_fault_def next_faulty_def)
  then show ?thesis unfolding run_tx_def by (simp split: prod.splits sum.splits)
qed

lemma healthy_next [simp]: "healthy w \<Longrightarrow> \<not> next_faulty w" "healthy w \<Longrightarrow> \<not> aborted w"
  "healthy w \<Longrightarrow> consume_fault w = w" "healthy w \<Longrightarrow> w\<lparr>aborted := False\<rparr> = w"
  by (simp_all add: healthy_def next_faulty_def consume_fault_def)

end
