(* ===== verification/Loyalty_Store.thy ===== *)
theory Loyalty_Store
  imports Database
begin

text \<open>
  Loyalty service, data and repositories: the types of internal/domain/ledger.go, the tables of
  infra/db/migrations/loyalty with their constraints, and the statements of
  internal/adapter/postgres (AccountRepository, ReservationRepository, TransactionRepository).
  \<open>VARCHAR\<close> length limits are not modelled.
\<close>

subsection \<open>Domain types\<close>

record account =
  acct_buyer :: string
  balance :: int
  pending_redemption :: int
  lifetime_earned :: int
  lifetime_redeemed :: int
  version :: int
  updated_at :: instant

definition spendable :: "account \<Rightarrow> int" where
  "spendable a = i64 (balance a - pending_redemption a)"

datatype transaction_type = Earn | Redeem | Refund | ReverseEarn | Adjust | Expire

datatype source_type =
  OrderPaid | ReservationCommit | OrderCancelled | AdminAdjust | ExpirationJob

record transaction =
  txn_id :: uuid
  txn_buyer :: string
  txn_type :: transaction_type
  txn_amount :: int
  balance_after :: int
  txn_source_type :: source_type
  txn_source_id :: string
  txn_reservation_id :: "uuid option"
  txn_expires_at :: "instant option"
  txn_note :: string
  txn_created_at :: instant

datatype reservation_status =
  ReservationPending | ReservationCommitted | ReservationReleased | ReservationExpired

record reservation =
  rsv_id :: uuid
  rsv_buyer :: string
  rsv_amount :: int
  order_candidate_id :: "uuid option"
  rsv_payment_intent_id :: string
  rsv_status :: reservation_status
  rsv_expires_at :: instant
  rsv_created_at :: instant
  committed_at :: "instant option"
  released_at :: "instant option"

definition compute_earn_amount :: "int \<Rightarrow> int \<Rightarrow> int" where
  "compute_earn_amount paid_subtotal earn_rate_bps =
     (if paid_subtotal \<le> 0 \<or> earn_rate_bps \<le> 0 then 0
      else i64 (paid_subtotal * earn_rate_bps) sdiv 10000)"

text \<open>
  Sentinel errors of the domain and port packages; \<open>ErrExpirationInvariant\<close> stands for the
  unnamed error \<open>verifyBucketInvariant\<close> builds with \<open>fmt.Errorf\<close>.
\<close>

datatype loyalty_err =
  ErrAccountNotFound | ErrInsufficientPoints | ErrReservationNotFound
| ErrReservationAlreadyTerminal | ErrInvalidAmount
| ErrDuplicateIdempotencyKey | ErrOptimisticLock | ErrExpirationInvariant

record loyalty_db =
  accounts :: "string \<Rightarrow> account option"
  reservations :: "reservation list"
  ledger :: "transaction list"

type_synonym 'a ltx = "(loyalty_db, loyalty_err, 'a) tx"

definition empty_loyalty_db :: loyalty_db where
  "empty_loyalty_db = \<lparr>accounts = (\<lambda>_. None), reservations = [], ledger = []\<rparr>"

subsection \<open>AccountRepository\<close>

text \<open>The column defaults of point_accounts.\<close>

definition zero_account :: "instant \<Rightarrow> string \<Rightarrow> account" where
  "zero_account t b = \<lparr>acct_buyer = b, balance = 0, pending_redemption = 0, lifetime_earned = 0,
     lifetime_redeemed = 0, version = 0, updated_at = t\<rparr>"

definition account_get :: "string \<Rightarrow> account option ltx" where
  "account_get b = query (\<lambda>t s. accounts s b)"

definition upsert_account :: "instant \<Rightarrow> string \<Rightarrow> loyalty_db \<Rightarrow> account \<times> loyalty_db" where
  "upsert_account t b s =
     (case accounts s b of
        Some a \<Rightarrow> (a, s)
      | None \<Rightarrow> (zero_account t b, s\<lparr>accounts := (accounts s)(b \<mapsto> zero_account t b)\<rparr>))"

definition ensure_exists :: "string \<Rightarrow> unit ltx" where
  "ensure_exists b = sql (\<lambda>t s. Inr ((), snd (upsert_account t b s)))"

definition lock_for_update :: "string \<Rightarrow> account ltx" where
  "lock_for_update b = sql (\<lambda>t s. Inr (upsert_account t b s))"

record account_delta =
  balance_delta :: int
  pending_delta :: int
  earned_delta :: int
  redeemed_delta :: int

definition no_delta :: account_delta where
  "no_delta = \<lparr>balance_delta = 0, pending_delta = 0, earned_delta = 0, redeemed_delta = 0\<rparr>"

definition delta_account :: "instant \<Rightarrow> account_delta \<Rightarrow> account \<Rightarrow> account" where
  "delta_account t d a =
     a\<lparr>balance := balance a + balance_delta d,
       pending_redemption := pending_redemption a + pending_delta d,
       lifetime_earned := lifetime_earned a + earned_delta d,
       lifetime_redeemed := lifetime_redeemed a + redeemed_delta d,
       version := version a + 1,
       updated_at := t\<rparr>"

text \<open>The row constraints of point_accounts, and the ranges of its column types.\<close>

definition check_account :: "account \<Rightarrow> pg_error option" where
  "check_account a =
     (if \<not> (in_i64 (balance a) \<and> in_i64 (pending_redemption a) \<and> in_i64 (lifetime_earned a)
            \<and> in_i64 (lifetime_redeemed a) \<and> in_i32 (version a)) then Some NumericOutOfRange
      else if \<not> 0 \<le> balance a then Some (CheckViolation ''point_accounts_balance_nonneg_chk'')
      else if \<not> 0 \<le> pending_redemption a then
        Some (CheckViolation ''point_accounts_pending_nonneg_chk'')
      else if \<not> pending_redemption a \<le> balance a then
        Some (CheckViolation ''point_accounts_pending_le_balance_chk'')
      else None)"

definition apply_delta_stmt ::
  "string \<Rightarrow> account_delta \<Rightarrow> int \<Rightarrow> instant \<Rightarrow> loyalty_db \<Rightarrow> pg_error + (nat \<times> loyalty_db)" where
  "apply_delta_stmt b d expected t s =
     (case accounts s b of
        None \<Rightarrow> Inr (0, s)
      | Some a \<Rightarrow>
          if version a \<noteq> expected then Inr (0, s)
          else case check_account (delta_account t d a) of
                 Some e \<Rightarrow> Inl e
               | None \<Rightarrow> Inr (1, s\<lparr>accounts := (accounts s)(b \<mapsto> delta_account t d a)\<rparr>))"

definition apply_delta :: "string \<Rightarrow> account_delta \<Rightarrow> int \<Rightarrow> unit ltx" where
  "apply_delta b d expected =
     tx_bind (sql (apply_delta_stmt b d expected)) (\<lambda>rows.
       if rows = 0 then tx_throw (Sentinel ErrOptimisticLock) else tx_return ())"

subsection \<open>ReservationRepository\<close>

definition insert_reservation_stmt ::
  "reservation \<Rightarrow> instant \<Rightarrow> loyalty_db \<Rightarrow> pg_error + (reservation \<times> loyalty_db)" where
  "insert_reservation_stmt r t s =
     (if \<not> 0 < rsv_amount r then Inl (CheckViolation ''point_reservations_amount_pos_chk'')
      else if rsv_id r \<in> set (map rsv_id (reservations s)) then
        Inl (UniqueViolation ''point_reservations_pkey'')
      else let r' = r\<lparr>rsv_created_at := t, committed_at := None, released_at := None\<rparr>
           in Inr (r', s\<lparr>reservations := reservations s @ [r']\<rparr>))"

definition insert_reservation :: "reservation \<Rightarrow> reservation ltx" where
  "insert_reservation r = sql (insert_reservation_stmt r)"

definition reservation_by_id :: "uuid \<Rightarrow> reservation option ltx" where
  "reservation_by_id i = query (\<lambda>t s. find (\<lambda>r. rsv_id r = i) (reservations s))"

definition set_status :: "instant \<Rightarrow> reservation_status \<Rightarrow> reservation \<Rightarrow> reservation" where
  "set_status t next r =
     r\<lparr>rsv_status := next,
       committed_at := (if next = ReservationCommitted then Some t else committed_at r),
       released_at := (if next \<in> {ReservationReleased, ReservationExpired} then Some t
                       else released_at r)\<rparr>"

definition update_status :: "uuid \<Rightarrow> reservation_status \<Rightarrow> reservation_status \<Rightarrow> bool ltx" where
  "update_status i expect next =
     sql (\<lambda>t s. let hit = (\<lambda>r. rsv_id r = i \<and> rsv_status r = expect) in
       Inr (list_ex hit (reservations s),
            s\<lparr>reservations := update_where hit (set_status t next) (reservations s)\<rparr>))"

text \<open>
  \<open>FOR UPDATE SKIP LOCKED\<close> passes over the rows that other transactions hold (\<open>locked\<close>).
\<close>

definition claimable :: "(uuid \<Rightarrow> bool) \<Rightarrow> instant \<Rightarrow> reservation \<Rightarrow> bool" where
  "claimable locked t r \<longleftrightarrow>
     rsv_status r = ReservationPending \<and> rsv_expires_at r < t \<and> \<not> locked (rsv_id r)"

definition claimed_rows ::
  "(uuid \<Rightarrow> bool) \<Rightarrow> nat \<Rightarrow> instant \<Rightarrow> reservation list \<Rightarrow> reservation list" where
  "claimed_rows locked lim t rs =
     take lim (sort_key rsv_expires_at (filter (claimable locked t) rs))"

definition expire_row :: "instant \<Rightarrow> reservation \<Rightarrow> reservation" where
  "expire_row t r = r\<lparr>rsv_status := ReservationExpired, released_at := Some t\<rparr>"

definition claim_expired :: "(uuid \<Rightarrow> bool) \<Rightarrow> nat \<Rightarrow> (uuid \<times> string \<times> int) list ltx" where
  "claim_expired locked lim =
     sql (\<lambda>t s. let claimed = claimed_rows locked lim t (reservations s) in
       Inr (map (\<lambda>r. (rsv_id r, rsv_buyer r, rsv_amount r)) claimed,
            s\<lparr>reservations :=
                update_where (\<lambda>r. rsv_id r \<in> set (map rsv_id claimed)) (expire_row t)
                  (reservations s)\<rparr>))"

subsection \<open>TransactionRepository\<close>

type_synonym idem_key = "source_type \<times> string \<times> transaction_type"

definition idem_key :: "transaction \<Rightarrow> idem_key" where
  "idem_key x = (txn_source_type x, txn_source_id x, txn_type x)"

text \<open>
  \<open>isDuplicateIdempotencyKey\<close> searches the text of the driver's error.
\<close>

definition is_duplicate_idempotency_key :: "pg_error \<Rightarrow> bool" where
  "is_duplicate_idempotency_key e =
     (str_contains (pg_message e) ''point_transactions_idem_unique'' \<or>
      (str_contains (pg_message e) ''duplicate key'' \<and>
       str_contains (pg_message e) ''point_transactions''))"

definition insert_transaction_stmt ::
  "transaction \<Rightarrow> instant \<Rightarrow> loyalty_db \<Rightarrow> pg_error + (transaction \<times> loyalty_db)" where
  "insert_transaction_stmt x t s =
     (if txn_id x \<in> set (map txn_id (ledger s)) then Inl (UniqueViolation ''point_transactions_pkey'')
      else if idem_key x \<in> set (map idem_key (ledger s)) then
        Inl (UniqueViolation ''point_transactions_idem_unique'')
      else if (case txn_reservation_id x of None \<Rightarrow> False
               | Some i \<Rightarrow> i \<notin> set (map rsv_id (reservations s))) then
        Inl (ForeignKeyViolation ''point_transactions_reservation_id_fkey'')
      else let x' = x\<lparr>txn_created_at := t\<rparr> in Inr (x', s\<lparr>ledger := ledger s @ [x']\<rparr>))"

definition insert_transaction :: "transaction \<Rightarrow> transaction ltx" where
  "insert_transaction x =
     tx_map_error
       (\<lambda>e. case e of
              Pg p \<Rightarrow> if is_duplicate_idempotency_key p then Sentinel ErrDuplicateIdempotencyKey else e
            | _ \<Rightarrow> e)
       (sql (insert_transaction_stmt x))"

definition by_idempotency ::
  "source_type \<Rightarrow> string \<Rightarrow> transaction_type \<Rightarrow> transaction option ltx" where
  "by_idempotency st sid ty = query (\<lambda>t s. find (\<lambda>x. idem_key x = (st, sid, ty)) (ledger s))"

text \<open>
  History page, newest first. SQL leaves the order of rows with equal \<open>created_at\<close> open; the
  model keeps them in insertion order.
\<close>

definition list_by_buyer :: "string \<Rightarrow> int \<Rightarrow> int \<Rightarrow> (transaction list \<times> nat) ltx" where
  "list_by_buyer b lim off =
     tx_bind (query (\<lambda>t s. length (filter (\<lambda>x. txn_buyer x = b) (ledger s)))) (\<lambda>total.
       if total = 0 then tx_return ([], 0)
       else tx_bind
              (query (\<lambda>t s. take (nat lim) (drop (nat off)
                 (sort_key (\<lambda>x. - txn_created_at x) (filter (\<lambda>x. txn_buyer x = b) (ledger s))))))
              (\<lambda>rows. tx_return (rows, total)))"

definition list_by_buyer_chronological :: "string \<Rightarrow> transaction list ltx" where
  "list_by_buyer_chronological b = query (\<lambda>t s. filter (\<lambda>x. txn_buyer x = b) (ledger s))"

text \<open>
  The anti-join of \<open>ListBuyersWithExpiredUnprocessedEarn\<close>; the order of a \<open>SELECT DISTINCT\<close> is
  open, the model lists buyers by their last qualifying row.
\<close>

definition unprocessed_earn :: "instant \<Rightarrow> transaction list \<Rightarrow> transaction \<Rightarrow> bool" where
  "unprocessed_earn t rows x \<longleftrightarrow>
     txn_type x = Earn \<and> (case txn_expires_at x of None \<Rightarrow> False | Some e \<Rightarrow> e < t)
     \<and> \<not> list_ex (\<lambda>y. idem_key y = (ExpirationJob, txn_id x, Expire)) rows"

definition buyers_with_expired_unprocessed_earn :: "instant \<Rightarrow> int \<Rightarrow> string list ltx" where
  "buyers_with_expired_unprocessed_earn t lim =
     query (\<lambda>_ s. take (nat (if lim \<le> 0 then 200 else lim))
       (remdups (map txn_buyer (filter (unprocessed_earn t (ledger s)) (ledger s)))))"

end
