(* ===== verification/Loyalty_Service.thy ===== *)
theory Loyalty_Service
  imports Loyalty_Store
begin

text \<open>
  Loyalty service, application layer (internal/app/loyalty_service.go), one definition per use
  case: earn, reserve, commit, release, cancel, adjust, expire reservations and expire points.
  \<open>loyalty_cfg\<close> holds the fields that \<open>NewService\<close> fixes; \<open>uuid_parse\<close> is google/uuid's
  \<open>Parse\<close> and \<open>expire_note\<close> the formatted text of an expire row, both from outside the
  repository. Log lines are not modelled.
\<close>

record loyalty_cfg =
  earn_rate_bps :: int
  reservation_ttl :: int
  earn_expiration :: int
  expiration_batch_size :: int
  has_reservations :: bool
  has_publisher :: bool
  uuid_parse :: "string \<Rightarrow> uuid option"
  expire_note :: "int \<Rightarrow> instant \<Rightarrow> string"

definition new_service :: "loyalty_cfg \<Rightarrow> loyalty_cfg" where
  "new_service cfg =
     cfg\<lparr>reservation_ttl := (if reservation_ttl cfg \<le> 0 then 30 * 60 * 10 ^ 9 else reservation_ttl cfg),
         expiration_batch_size :=
           (if expiration_batch_size cfg \<le> 0 then 200 else expiration_batch_size cfg)\<rparr>"

definition expiration_for :: "loyalty_cfg \<Rightarrow> instant \<Rightarrow> instant option" where
  "expiration_for cfg t = (if earn_expiration cfg \<le> 0 then None else Some (t + earn_expiration cfg))"

subsection \<open>Reads\<close>

definition get_balance :: "string \<Rightarrow> account ltx" where
  "get_balance b =
     (if b = '''' then tx_throw (bad_request ''buyer_auth0_id is required'')
      else tx_bind
        (tx_map_error (\<lambda>e. internal ''failed to load account'' (Some e)) (run_tx (account_get b)))
        (\<lambda>acct. case acct of None \<Rightarrow> tx_return (zero_account 0 b) | Some a \<Rightarrow> tx_return a))"

definition list_transactions :: "string \<Rightarrow> int \<Rightarrow> int \<Rightarrow> (transaction list \<times> nat) ltx" where
  "list_transactions b limit offset =
     (if b = '''' then tx_throw (bad_request ''buyer_auth0_id is required'')
      else let limit = (if limit \<le> 0 \<or> 100 < limit then 50 else limit);
               offset = (if offset < 0 then 0 else offset)
           in tx_map_error (\<lambda>e. internal ''failed to list transactions'' (Some e))
                (run_tx (list_by_buyer b limit offset)))"

subsection \<open>Events\<close>

definition loyalty_topic :: string where
  "loyalty_topic = ''loyalty-events''"

definition publish_if :: "loyalty_cfg \<Rightarrow> event \<Rightarrow> unit ltx" where
  "publish_if cfg e = (if has_publisher cfg then publish e else tx_return ())"

definition publish_earned :: "loyalty_cfg \<Rightarrow> transaction \<Rightarrow> string \<Rightarrow> unit ltx" where
  "publish_earned cfg x order_id = publish_if cfg
     \<lparr>topic = loyalty_topic, event_type = ''points.earned'',
      payload = [(''transaction_id'', JStr (txn_id x)), (''buyer_auth0_id'', JStr (txn_buyer x)),
                 (''amount'', JInt (txn_amount x)), (''balance_after'', JInt (balance_after x)),
                 (''order_id'', JStr order_id), (''earned_at'', JInt (txn_created_at x))]\<rparr>"

definition publish_redeemed :: "loyalty_cfg \<Rightarrow> transaction \<Rightarrow> string \<Rightarrow> unit ltx" where
  "publish_redeemed cfg x order_id = publish_if cfg
     \<lparr>topic = loyalty_topic, event_type = ''points.redeemed'',
      payload = [(''transaction_id'', JStr (txn_id x)), (''buyer_auth0_id'', JStr (txn_buyer x)),
                 (''amount'', JInt (i64 (- txn_amount x))), (''balance_after'', JInt (balance_after x)),
                 (''order_id'', JStr order_id), (''redeemed_at'', JInt (txn_created_at x))]\<rparr>"

definition publish_expired :: "loyalty_cfg \<Rightarrow> string \<Rightarrow> int \<Rightarrow> nat \<Rightarrow> int \<Rightarrow> unit ltx" where
  "publish_expired cfg b total_expired buckets new_balance =
     tx_bind now (\<lambda>t. publish_if cfg
     \<lparr>topic = loyalty_topic, event_type = ''points.expired'',
      payload = [(''buyer_auth0_id'', JStr b), (''amount'', JInt total_expired),
                 (''bucket_count'', JInt (int buckets)), (''balance_after'', JInt new_balance),
                 (''expired_at'', JInt t)]\<rparr>)"

subsection \<open>Earn\<close>

definition new_row ::
  "uuid \<Rightarrow> string \<Rightarrow> transaction_type \<Rightarrow> int \<Rightarrow> int \<Rightarrow> source_type \<Rightarrow> string \<Rightarrow> transaction" where
  "new_row i b ty amt after st sid =
     \<lparr>txn_id = i, txn_buyer = b, txn_type = ty, txn_amount = amt, balance_after = after,
      txn_source_type = st, txn_source_id = sid, txn_reservation_id = None,
      txn_expires_at = None, txn_note = '''', txn_created_at = 0\<rparr>"

lemma new_row_simps [simp]:
  "txn_id (new_row i b ty amt after st sid) = i"
  "txn_buyer (new_row i b ty amt after st sid) = b"
  "txn_type (new_row i b ty amt after st sid) = ty"
  "txn_amount (new_row i b ty amt after st sid) = amt"
  "balance_after (new_row i b ty amt after st sid) = after"
  "txn_source_type (new_row i b ty amt after st sid) = st"
  "txn_source_id (new_row i b ty amt after st sid) = sid"
  by (simp_all add: new_row_def)

text \<open>The body returns the row and whether it is new.\<close>

definition award_earn_tx :: "loyalty_cfg \<Rightarrow> string \<Rightarrow> string \<Rightarrow> int \<Rightarrow> (transaction \<times> bool) ltx" where
  "award_earn_tx cfg b order_id amount =
     tx_bind (lock_for_update b) (\<lambda>acct.
     tx_bind (by_idempotency OrderPaid order_id Earn) (\<lambda>existing.
     case existing of
       Some row \<Rightarrow> tx_return (row, False)
     | None \<Rightarrow>
         let new_balance = i64 (balance acct + amount) in
         tx_bind (apply_delta b (no_delta\<lparr>balance_delta := amount, earned_delta := amount\<rparr>)
                    (version acct)) (\<lambda>_.
         tx_bind new_uuid (\<lambda>i.
         tx_bind now (\<lambda>t.
         tx_bind (insert_transaction
                    ((new_row i b Earn amount new_balance OrderPaid order_id)
                       \<lparr>txn_expires_at := expiration_for cfg t\<rparr>)) (\<lambda>row.
         tx_return (row, True)))))))"

definition award_earn :: "loyalty_cfg \<Rightarrow> string \<Rightarrow> string \<Rightarrow> int \<Rightarrow> transaction option ltx" where
  "award_earn cfg b order_id paid_subtotal =
     (if b = '''' \<or> order_id = '''' then
        tx_throw (bad_request ''buyer_auth0_id and order_id are required'')
      else let amount = compute_earn_amount paid_subtotal (earn_rate_bps cfg) in
      if amount \<le> 0 then tx_return None
      else
        tx_bind (tx_map_error (\<lambda>e. internal ''failed to award earn'' (Some e))
                   (run_tx (award_earn_tx cfg b order_id amount))) (\<lambda>(created, was_new).
        tx_bind (if was_new then publish_earned cfg created order_id else tx_return ()) (\<lambda>_.
        tx_return (Some created))))"

subsection \<open>Reserve, commit, release\<close>

definition reserve_points_tx :: "loyalty_cfg \<Rightarrow> string \<Rightarrow> int \<Rightarrow> reservation ltx" where
  "reserve_points_tx cfg b amount =
     tx_bind (lock_for_update b) (\<lambda>acct.
     if spendable acct < amount then tx_throw (Sentinel ErrInsufficientPoints)
     else
     tx_bind (apply_delta b (no_delta\<lparr>pending_delta := amount\<rparr>) (version acct)) (\<lambda>_.
     tx_bind new_uuid (\<lambda>i.
     tx_bind now (\<lambda>t.
     insert_reservation
       \<lparr>rsv_id = i, rsv_buyer = b, rsv_amount = amount, order_candidate_id = None,
        rsv_payment_intent_id = '''', rsv_status = ReservationPending,
        rsv_expires_at = t + reservation_ttl cfg, rsv_created_at = 0,
        committed_at = None, released_at = None\<rparr>))))"

definition reserve_points :: "loyalty_cfg \<Rightarrow> string \<Rightarrow> int \<Rightarrow> reservation ltx" where
  "reserve_points cfg b amount =
     (if b = '''' then tx_throw (bad_request ''buyer_auth0_id is required'')
      else if amount \<le> 0 then tx_throw (Sentinel ErrInvalidAmount)
      else if \<not> has_reservations cfg then
        tx_throw (internal ''reservation store not configured'' None)
      else tx_map_error
        (\<lambda>e. if errors_is e (Sentinel ErrInsufficientPoints) then e
             else internal ''failed to reserve points'' (Some e))
        (run_tx (reserve_points_tx cfg b amount)))"

record commit_result =
  redeemed :: int
  earned :: int
  new_balance :: int
  already_committed :: bool

text \<open>
  The two ledger writes of a commit. \<open>commit_burn\<close> debits the reservation and writes its redeem
  row; \<open>commit_accrue\<close> adds the earn of the order unless its row exists already. The accrual
  returns the new earn row, the earn figure to report and the balance after it.
\<close>

definition commit_burn :: "reservation \<Rightarrow> account \<Rightarrow> (transaction \<times> int) ltx" where
  "commit_burn r acct =
     (let burn_balance_after = i64 (balance acct - rsv_amount r) in
      tx_bind (apply_delta (rsv_buyer r)
                 (no_delta\<lparr>balance_delta := - rsv_amount r, pending_delta := - rsv_amount r,
                           redeemed_delta := rsv_amount r\<rparr>) (version acct)) (\<lambda>_.
      tx_bind new_uuid (\<lambda>i.
      tx_bind (insert_transaction
                 ((new_row i (rsv_buyer r) Redeem (- rsv_amount r) burn_balance_after
                     ReservationCommit (rsv_id r))\<lparr>txn_reservation_id := Some (rsv_id r)\<rparr>)) (\<lambda>row.
      tx_return (row, burn_balance_after)))))"

definition commit_accrue ::
  "loyalty_cfg \<Rightarrow> reservation \<Rightarrow> account \<Rightarrow> int \<Rightarrow> string \<Rightarrow> int
   \<Rightarrow> (transaction option \<times> int \<times> int) ltx" where
  "commit_accrue cfg r acct burn_balance_after order_id paid_subtotal =
     (let earn_amount = compute_earn_amount paid_subtotal (earn_rate_bps cfg) in
      if earn_amount > 0 then
        tx_bind (by_idempotency OrderPaid order_id Earn) (\<lambda>existing_earn.
        case existing_earn of
          None \<Rightarrow>
            let earn_balance_after = i64 (burn_balance_after + earn_amount) in
            tx_bind (apply_delta (rsv_buyer r)
                       (no_delta\<lparr>balance_delta := earn_amount, earned_delta := earn_amount\<rparr>)
                       (version acct + 1)) (\<lambda>_.
            tx_bind new_uuid (\<lambda>i.
            tx_bind now (\<lambda>t.
            tx_bind (insert_transaction
                       ((new_row i (rsv_buyer r) Earn earn_amount earn_balance_after OrderPaid order_id)
                          \<lparr>txn_expires_at := expiration_for cfg t\<rparr>)) (\<lambda>row.
            tx_return (Some row, txn_amount row, earn_balance_after)))))
        | Some row \<Rightarrow> tx_return (None, txn_amount row, burn_balance_after))
      else tx_return (None, 0, burn_balance_after))"

definition commit_tx ::
  "loyalty_cfg \<Rightarrow> uuid \<Rightarrow> string \<Rightarrow> int
   \<Rightarrow> (commit_result \<times> transaction option \<times> transaction option) ltx" where
  "commit_tx cfg reservation_id order_id paid_subtotal =
     tx_bind (reservation_by_id reservation_id) (\<lambda>found.
     case found of
       None \<Rightarrow> tx_throw (Sentinel ErrReservationNotFound)
     | Some r \<Rightarrow>
     tx_bind (lock_for_update (rsv_buyer r)) (\<lambda>acct.
     tx_bind (by_idempotency ReservationCommit reservation_id Redeem) (\<lambda>existing.
     case existing of
       Some row \<Rightarrow>
         tx_bind (tx_catch (by_idempotency OrderPaid order_id Earn) (\<lambda>_. tx_return None)) (\<lambda>earn_row.
         tx_return (\<lparr>redeemed = txn_amount row,
                     earned = (case earn_row of None \<Rightarrow> 0 | Some e \<Rightarrow> txn_amount e),
                     new_balance = balance acct, already_committed = True\<rparr>, None, None))
     | None \<Rightarrow>
     if rsv_status r \<noteq> ReservationPending then tx_throw (Sentinel ErrReservationAlreadyTerminal)
     else
     tx_bind (update_status reservation_id ReservationPending ReservationCommitted) (\<lambda>ok.
     if \<not> ok then tx_throw (Sentinel ErrReservationAlreadyTerminal)
     else
     tx_bind (commit_burn r acct) (\<lambda>(redeem_row, burn_balance_after).
     tx_bind (commit_accrue cfg r acct burn_balance_after order_id paid_subtotal)
       (\<lambda>(earn_row, earned_amount, earn_balance_after).
     tx_return (\<lparr>redeemed = rsv_amount r, earned = earned_amount,
                 new_balance = earn_balance_after, already_committed = False\<rparr>,
                Some redeem_row, earn_row)))))))"

definition commit_points_reservation ::
  "loyalty_cfg \<Rightarrow> uuid \<Rightarrow> string \<Rightarrow> int \<Rightarrow> commit_result ltx" where
  "commit_points_reservation cfg reservation_id order_id paid_subtotal =
     (if reservation_id = nil_uuid then tx_throw (bad_request ''reservation_id is required'')
      else if order_id = '''' then tx_throw (bad_request ''order_id is required'')
      else if \<not> has_reservations cfg then
        tx_throw (internal ''reservation store not configured'' None)
      else
        tx_bind (tx_map_error
          (\<lambda>e. if errors_is e (Sentinel ErrReservationNotFound)
                 \<or> errors_is e (Sentinel ErrReservationAlreadyTerminal) then e
               else internal ''failed to commit reservation'' (Some e))
          (run_tx (commit_tx cfg reservation_id order_id paid_subtotal)))
          (\<lambda>(out, redeem_row, earn_row).
        tx_bind (case redeem_row of Some x \<Rightarrow> publish_redeemed cfg x order_id
                 | None \<Rightarrow> tx_return ()) (\<lambda>_.
        tx_bind (case earn_row of Some x \<Rightarrow> publish_earned cfg x order_id
                 | None \<Rightarrow> tx_return ()) (\<lambda>_.
        tx_return out))))"

definition release_tx :: "uuid \<Rightarrow> bool ltx" where
  "release_tx reservation_id =
     tx_bind (reservation_by_id reservation_id) (\<lambda>found.
     case found of
       None \<Rightarrow> tx_throw (Sentinel ErrReservationNotFound)
     | Some r \<Rightarrow>
     if rsv_status r \<noteq> ReservationPending then tx_return False
     else
     tx_bind (lock_for_update (rsv_buyer r)) (\<lambda>acct.
     tx_bind (update_status reservation_id ReservationPending ReservationReleased) (\<lambda>ok.
     if \<not> ok then tx_return False
     else
     tx_bind (apply_delta (rsv_buyer r) (no_delta\<lparr>pending_delta := - rsv_amount r\<rparr>)
                (version acct)) (\<lambda>_.
     tx_return True))))"

definition release_points_reservation :: "loyalty_cfg \<Rightarrow> uuid \<Rightarrow> bool ltx" where
  "release_points_reservation cfg reservation_id =
     (if reservation_id = nil_uuid then tx_throw (bad_request ''reservation_id is required'')
      else if \<not> has_reservations cfg then
        tx_throw (internal ''reservation store not configured'' None)
      else tx_map_error
        (\<lambda>e. if errors_is e (Sentinel ErrReservationNotFound) then e
             else internal ''failed to release reservation'' (Some e))
        (run_tx (release_tx reservation_id)))"

subsection \<open>Cancellation\<close>

record cancel_result =
  refunded :: int
  reversed :: int
  cancel_new_balance :: int

text \<open>
  The two halves of \<open>ApplyCancellation\<close>, both over the local variables \<open>version\<close> and \<open>running\<close>;
  each returns them with the amount it applied.
\<close>

definition refund_part ::
  "string \<Rightarrow> string \<Rightarrow> int \<Rightarrow> int \<Rightarrow> int \<Rightarrow> (int \<times> int \<times> int) ltx" where
  "refund_part b order_id point_discount ver running =
     (if point_discount > 0 then
        tx_bind (by_idempotency OrderCancelled order_id Refund) (\<lambda>existing.
        case existing of
          None \<Rightarrow>
            let running = i64 (running + point_discount) in
            tx_bind (apply_delta b (no_delta\<lparr>balance_delta := point_discount\<rparr>) ver) (\<lambda>_.
            tx_bind new_uuid (\<lambda>i.
            tx_bind (insert_transaction
                       ((new_row i b Refund point_discount running OrderCancelled order_id)
                          \<lparr>txn_note := ''refund of redeemed points on order cancellation''\<rparr>)) (\<lambda>_.
            tx_return (ver + 1, running, point_discount))))
        | Some _ \<Rightarrow> tx_return (ver, running, 0))
      else tx_return (ver, running, 0))"

definition reverse_part ::
  "string \<Rightarrow> string \<Rightarrow> int \<Rightarrow> int \<Rightarrow> int \<Rightarrow> (int \<times> int) ltx" where
  "reverse_part b order_id points_earned ver running =
     (if points_earned > 0 then
        tx_bind (by_idempotency OrderCancelled order_id ReverseEarn) (\<lambda>existing.
        case existing of
          None \<Rightarrow>
            let reversal = (if points_earned > running then running else points_earned) in
            if reversal > 0 then
              let running = running - reversal in
              tx_bind (apply_delta b
                         (no_delta\<lparr>balance_delta := - reversal, earned_delta := - reversal\<rparr>) ver) (\<lambda>_.
              tx_bind new_uuid (\<lambda>i.
              tx_bind (insert_transaction
                         ((new_row i b ReverseEarn (- reversal) running OrderCancelled order_id)
                            \<lparr>txn_note := ''reversal of earn on order cancellation''\<rparr>)) (\<lambda>_.
              tx_return (running, reversal))))
            else tx_return (running, 0)
        | Some _ \<Rightarrow> tx_return (running, 0))
      else tx_return (running, 0))"

definition apply_cancellation_tx :: "string \<Rightarrow> string \<Rightarrow> int \<Rightarrow> int \<Rightarrow> cancel_result ltx" where
  "apply_cancellation_tx b order_id point_discount points_earned =
     tx_bind (lock_for_update b) (\<lambda>acct.
     tx_bind (refund_part b order_id point_discount (version acct) (balance acct))
       (\<lambda>(ver, running, refunded_amount).
     tx_bind (reverse_part b order_id points_earned ver running) (\<lambda>(running, reversed_amount).
     tx_return \<lparr>refunded = refunded_amount, reversed = reversed_amount,
                cancel_new_balance = running\<rparr>)))"

definition apply_cancellation :: "string \<Rightarrow> string \<Rightarrow> int \<Rightarrow> int \<Rightarrow> cancel_result ltx" where
  "apply_cancellation b order_id point_discount points_earned =
     (if b = '''' \<or> order_id = '''' then
        tx_throw (bad_request ''buyer_auth0_id and order_id are required'')
      else if point_discount < 0 \<or> points_earned < 0 then
        tx_throw (bad_request ''cancellation amounts must be non-negative'')
      else if point_discount = 0 \<and> points_earned = 0 then
        tx_return \<lparr>refunded = 0, reversed = 0, cancel_new_balance = 0\<rparr>
      else tx_map_error (\<lambda>e. internal ''failed to apply cancellation'' (Some e))
             (run_tx (apply_cancellation_tx b order_id point_discount points_earned)))"

subsection \<open>Admin adjustment\<close>

definition format_adjust_note :: "string \<Rightarrow> string \<Rightarrow> string" where
  "format_adjust_note admin reason =
     (if admin = '''' then reason else ''admin='' @ admin @ '': '' @ reason)"

definition adjust_points_tx :: "string \<Rightarrow> int \<Rightarrow> string \<Rightarrow> string \<Rightarrow> (transaction \<times> int) ltx" where
  "adjust_points_tx b amount reason admin =
     tx_bind (ensure_exists b) (\<lambda>_.
     tx_bind (lock_for_update b) (\<lambda>acct.
     if amount < 0 \<and> i64 (spendable acct + amount) < 0 then
       tx_throw (Sentinel ErrInsufficientPoints)
     else
     let new_bal = i64 (balance acct + amount) in
     tx_bind (apply_delta b (no_delta\<lparr>balance_delta := amount\<rparr>) (version acct)) (\<lambda>_.
     tx_bind new_uuid (\<lambda>i.
     tx_bind (insert_transaction
                ((new_row i b Adjust amount new_bal AdminAdjust i)
                   \<lparr>txn_note := format_adjust_note admin reason\<rparr>)) (\<lambda>row.
     tx_return (row, new_bal))))))"

definition adjust_points :: "string \<Rightarrow> int \<Rightarrow> string \<Rightarrow> string \<Rightarrow> (transaction \<times> int) ltx" where
  "adjust_points b amount reason admin =
     (if b = '''' then tx_throw (bad_request ''buyer_auth0_id is required'')
      else if amount = 0 then tx_throw (Sentinel ErrInvalidAmount)
      else if reason = '''' then tx_throw (bad_request ''reason is required'')
      else tx_map_error
        (\<lambda>e. if errors_is e (Sentinel ErrInsufficientPoints) then e
             else internal ''failed to adjust points'' (Some e))
        (run_tx (adjust_points_tx b amount reason admin)))"

subsection \<open>The reservation reaper\<close>

definition expire_stale_reservations_tx :: "(uuid \<Rightarrow> bool) \<Rightarrow> nat ltx" where
  "expire_stale_reservations_tx locked =
     tx_bind (claim_expired locked 200) (\<lambda>rows.
     tx_bind (tx_for rows (\<lambda>(i, b, amount) _.
       tx_bind (lock_for_update b) (\<lambda>acct.
         apply_delta b (no_delta\<lparr>pending_delta := - amount\<rparr>) (version acct))) ()) (\<lambda>_.
     tx_return (length rows)))"

definition expire_stale_reservations :: "loyalty_cfg \<Rightarrow> (uuid \<Rightarrow> bool) \<Rightarrow> nat ltx" where
  "expire_stale_reservations cfg locked =
     (if \<not> has_reservations cfg then tx_return 0
      else run_tx (expire_stale_reservations_tx locked))"

subsection \<open>Point expiration\<close>

record earn_bucket =
  earn_txn_id :: uuid
  earned_at :: instant
  expires_at :: "instant option"
  original :: int
  remaining :: int
  has_prior_expire :: bool

text \<open>
  \<open>consumeFIFO\<close>: the first component is the drained slice, the second the leftover. Go returns as
  soon as nothing is left to take.
\<close>

fun drain :: "earn_bucket list \<Rightarrow> int \<Rightarrow> earn_bucket list \<times> int" where
  "drain [] rem = ([], rem)"
| "drain (b # bs) rem =
     (if remaining b \<le> 0 then let (bs', r) = drain bs rem in (b # bs', r)
      else let take = (if remaining b > rem then rem else remaining b);
               b' = b\<lparr>remaining := remaining b - take\<rparr>;
               rem' = rem - take
           in if rem' = 0 then (b' # bs, 0) else let (bs', r) = drain bs rem' in (b' # bs', r))"

definition consume_fifo :: "earn_bucket list \<Rightarrow> int \<Rightarrow> earn_bucket list \<times> int" where
  "consume_fifo bs amount = (if amount \<le> 0 then (bs, 0) else drain bs amount)"

text \<open>
  An expire row finds its bucket through the map from earn ids to indices, in which a later earn
  row with the same id would replace an earlier one.
\<close>

definition apply_expire :: "(uuid \<Rightarrow> nat option) \<Rightarrow> uuid \<Rightarrow> int \<Rightarrow> earn_bucket list \<Rightarrow> earn_bucket list" where
  "apply_expire idx earn_id amount bs =
     (case idx earn_id of
        None \<Rightarrow> bs
      | Some i \<Rightarrow>
          let r = i64 (remaining (bs ! i) - i64 (- amount)) in
          bs[i := (bs ! i)\<lparr>remaining := (if r < 0 then 0 else r), has_prior_expire := True\<rparr>])"

fun rebuild_step ::
  "(string \<Rightarrow> uuid option) \<Rightarrow> transaction \<Rightarrow> earn_bucket list \<times> (uuid \<Rightarrow> nat option)
   \<Rightarrow> earn_bucket list \<times> (uuid \<Rightarrow> nat option)" where
  "rebuild_step parse x (bs, idx) =
     (case txn_type x of
        Earn \<Rightarrow>
          (bs @ [\<lparr>earn_txn_id = txn_id x, earned_at = txn_created_at x, expires_at = txn_expires_at x,
                  original = txn_amount x, remaining = txn_amount x, has_prior_expire = False\<rparr>],
           idx(txn_id x \<mapsto> length bs))
      | Redeem \<Rightarrow> (fst (consume_fifo bs (i64 (- txn_amount x))), idx)
      | ReverseEarn \<Rightarrow> (fst (consume_fifo bs (i64 (- txn_amount x))), idx)
      | Refund \<Rightarrow> (if txn_amount x < 0 then (fst (consume_fifo bs (i64 (- txn_amount x))), idx) else (bs, idx))
      | Adjust \<Rightarrow> (if txn_amount x < 0 then (fst (consume_fifo bs (i64 (- txn_amount x))), idx) else (bs, idx))
      | Expire \<Rightarrow>
          (case parse (txn_source_id x) of
             None \<Rightarrow> (bs, idx)
           | Some earn_id \<Rightarrow> (apply_expire idx earn_id (txn_amount x) bs, idx)))"

definition rebuild_earn_buckets :: "(string \<Rightarrow> uuid option) \<Rightarrow> transaction list \<Rightarrow> earn_bucket list" where
  "rebuild_earn_buckets parse txns = fst (fold (rebuild_step parse) txns ([], \<lambda>_. None))"

definition is_platform_credit :: "transaction \<Rightarrow> bool" where
  "is_platform_credit x \<longleftrightarrow> txn_type x \<in> {Refund, Adjust} \<and> txn_amount x > 0"

definition expected_balance :: "earn_bucket list \<Rightarrow> transaction list \<Rightarrow> int" where
  "expected_balance bs txns =
     sum_list (map remaining bs) + sum_by is_platform_credit txn_amount txns"

definition verify_bucket_invariant :: "earn_bucket list \<Rightarrow> transaction list \<Rightarrow> int \<Rightarrow> bool" where
  "verify_bucket_invariant bs txns locked_balance = (i64 (expected_balance bs txns) = locked_balance)"

definition bucket_due :: "instant \<Rightarrow> earn_bucket \<Rightarrow> bool" where
  "bucket_due t b \<longleftrightarrow>
     (case expires_at b of None \<Rightarrow> False | Some e \<Rightarrow> e < t) \<and> \<not> has_prior_expire b"

text \<open>One turn of the loop over the buckets; the accumulator is (running balance, rows, total).\<close>

definition expire_bucket ::
  "loyalty_cfg \<Rightarrow> string \<Rightarrow> instant \<Rightarrow> earn_bucket \<Rightarrow> int \<times> nat \<times> int \<Rightarrow> (int \<times> nat \<times> int) ltx" where
  "expire_bucket cfg b t bucket acc =
     (case acc of (running, written, total_expired) \<Rightarrow>
      if \<not> bucket_due t bucket then tx_return acc
      else
        tx_bind new_uuid (\<lambda>i.
        tx_catch
          (tx_bind (insert_transaction
             ((new_row i b Expire (- remaining bucket) (i64 (running - remaining bucket))
                 ExpirationJob (earn_txn_id bucket))
                \<lparr>txn_note := expire_note cfg (remaining bucket) (earned_at bucket)\<rparr>)) (\<lambda>_.
           tx_return (i64 (running - remaining bucket), Suc written,
                      i64 (total_expired + remaining bucket))))
          (\<lambda>e. if errors_is e (Sentinel ErrDuplicateIdempotencyKey) then tx_return acc
               else tx_throw e)))"

definition expire_points_tx ::
  "loyalty_cfg \<Rightarrow> string \<Rightarrow> instant \<Rightarrow> (int \<times> nat \<times> int) ltx" where
  "expire_points_tx cfg b t =
     tx_bind (lock_for_update b) (\<lambda>acct.
     tx_bind (list_by_buyer_chronological b) (\<lambda>txns.
     let buckets = rebuild_earn_buckets (uuid_parse cfg) txns in
     if \<not> verify_bucket_invariant buckets txns (balance acct) then
       tx_throw (Sentinel ErrExpirationInvariant)
     else
     tx_bind (tx_for buckets (expire_bucket cfg b t) (balance acct, 0, 0))
       (\<lambda>(running, written, total_expired).
     if total_expired = 0 then tx_return (0, written, 0)
     else tx_bind (apply_delta b (no_delta\<lparr>balance_delta := - total_expired\<rparr>) (version acct)) (\<lambda>_.
          tx_return (running, written, total_expired)))))"

definition expire_points_for_buyer :: "loyalty_cfg \<Rightarrow> string \<Rightarrow> instant \<Rightarrow> nat ltx" where
  "expire_points_for_buyer cfg b t =
     tx_bind (run_tx (expire_points_tx cfg b t)) (\<lambda>(new_bal, written, total_expired).
     tx_bind (if total_expired > 0 then publish_expired cfg b total_expired written new_bal else tx_return ()) (\<lambda>_.
     tx_return written))"

definition expire_points :: "loyalty_cfg \<Rightarrow> nat ltx" where
  "expire_points cfg =
     tx_bind now (\<lambda>t.
     tx_bind (tx_map_error (\<lambda>e. internal ''failed to list expiration candidates'' (Some e))
                (run_tx (buyers_with_expired_unprocessed_earn t (expiration_batch_size cfg)))) (\<lambda>buyers.
     tx_for buyers (\<lambda>b n.
       tx_bind (tx_catch (expire_points_for_buyer cfg b t) (\<lambda>_. tx_return 0)) (\<lambda>k.
       tx_return (n + k))) 0))"

end
