(* ===== verification/Loyalty_Invariant.thy ===== *)
theory Loyalty_Invariant
  imports Loyalty_Service
begin

text \<open>
  The ledger invariant of the loyalty service: the denormalized counters of every account are
  the sums over the append-only ledger and over the pending reservations, every row's
  \<open>balance_after\<close> is the running balance, idempotency keys are unique, and a reservation is
  committed exactly when its redeem row exists. Every use case preserves it, under every pattern
  of database failures.
\<close>

subsection \<open>What the tables promise\<close>

definition ledger_sum :: "string \<Rightarrow> transaction list \<Rightarrow> int" where
  "ledger_sum b = sum_by (\<lambda>x. txn_buyer x = b) txn_amount"

definition earned_sum :: "string \<Rightarrow> transaction list \<Rightarrow> int" where
  "earned_sum b = sum_by (\<lambda>x. txn_buyer x = b \<and> txn_type x \<in> {Earn, ReverseEarn}) txn_amount"

definition redeemed_sum :: "string \<Rightarrow> transaction list \<Rightarrow> int" where
  "redeemed_sum b = sum_by (\<lambda>x. txn_buyer x = b \<and> txn_type x = Redeem) (\<lambda>x. - txn_amount x)"

definition is_pending_of :: "string \<Rightarrow> reservation \<Rightarrow> bool" where
  "is_pending_of b r \<longleftrightarrow> rsv_buyer r = b \<and> rsv_status r = ReservationPending"

definition pending_sum :: "string \<Rightarrow> reservation list \<Rightarrow> int" where
  "pending_sum b = sum_by (is_pending_of b) rsv_amount"

definition account_of :: "loyalty_db \<Rightarrow> string \<Rightarrow> account" where
  "account_of s b = (case accounts s b of Some a \<Rightarrow> a | None \<Rightarrow> zero_account 0 b)"

definition account_bounds :: "account \<Rightarrow> bool" where
  "account_bounds a \<longleftrightarrow>
     0 \<le> pending_redemption a \<and> pending_redemption a \<le> balance a \<and> in_i64 (balance a)"

definition account_ok :: "transaction list \<Rightarrow> reservation list \<Rightarrow> string \<Rightarrow> account \<Rightarrow> bool" where
  "account_ok L R b a \<longleftrightarrow>
     acct_buyer a = b \<and> balance a = ledger_sum b L \<and> pending_redemption a = pending_sum b R
     \<and> lifetime_earned a = earned_sum b L \<and> lifetime_redeemed a = redeemed_sum b L
     \<and> account_bounds a"

definition accounts_ok :: "loyalty_db \<Rightarrow> bool" where
  "accounts_ok s \<longleftrightarrow> (\<forall>b. account_ok (ledger s) (reservations s) b (account_of s b))"

fun row_ok :: "transaction \<Rightarrow> bool" where
  "row_ok x =
     (case txn_type x of
        Earn \<Rightarrow> txn_source_type x = OrderPaid \<and> 0 < txn_amount x
      | Redeem \<Rightarrow> txn_source_type x = ReservationCommit \<and> txn_amount x < 0
      | Refund \<Rightarrow> txn_source_type x = OrderCancelled \<and> 0 < txn_amount x
      | ReverseEarn \<Rightarrow> txn_source_type x = OrderCancelled \<and> txn_amount x < 0
      | Adjust \<Rightarrow> txn_source_type x = AdminAdjust \<and> txn_source_id x = txn_id x \<and> txn_amount x \<noteq> 0
      | Expire \<Rightarrow> txn_source_type x = ExpirationJob \<and> txn_amount x \<le> 0)"

text \<open>
  How a row continues the rows before it: \<open>balance_after\<close> is the buyer's sum up to and including
  it, an \<open>int64\<close> that is never negative, and an expire row takes what replaying the buyer's history left of the one
  earn it names.
\<close>

definition history_of :: "string \<Rightarrow> transaction list \<Rightarrow> transaction list" where
  "history_of b = filter (\<lambda>x. txn_buyer x = b)"

definition closes_bucket :: "transaction list \<Rightarrow> transaction \<Rightarrow> bool" where
  "closes_bucket past x \<longleftrightarrow>
     (\<exists>bk \<in> set (rebuild_earn_buckets Some (history_of (txn_buyer x) past)).
        earn_txn_id bk = txn_source_id x \<and> remaining bk = - txn_amount x)"

definition row_follows :: "transaction list \<Rightarrow> transaction \<Rightarrow> bool" where
  "row_follows past x \<longleftrightarrow>
     balance_after x = ledger_sum (txn_buyer x) (past @ [x]) \<and> 0 \<le> balance_after x
     \<and> in_i64 (balance_after x) \<and> (txn_type x = Expire \<longrightarrow> closes_bucket past x)"

fun history_ok :: "transaction list \<Rightarrow> transaction list \<Rightarrow> bool" where
  "history_ok past [] = True"
| "history_ok past (x # xs) = (row_follows past x \<and> history_ok (past @ [x]) xs)"

definition ledger_ok :: "transaction list \<Rightarrow> bool" where
  "ledger_ok L \<longleftrightarrow>
     distinct (map txn_id L) \<and> distinct (map idem_key L) \<and> list_all row_ok L \<and> history_ok [] L"

definition redeem_row_of :: "reservation \<Rightarrow> transaction \<Rightarrow> bool" where
  "redeem_row_of r x \<longleftrightarrow>
     idem_key x = (ReservationCommit, rsv_id r, Redeem) \<and> txn_buyer x = rsv_buyer r
     \<and> txn_amount x = - rsv_amount r"

definition reservations_ok :: "reservation list \<Rightarrow> transaction list \<Rightarrow> bool" where
  "reservations_ok R L \<longleftrightarrow>
     distinct (map rsv_id R) \<and> list_all (\<lambda>r. 0 < rsv_amount r) R
     \<and> (\<forall>r \<in> set R. (rsv_status r = ReservationCommitted) = list_ex (redeem_row_of r) L)
     \<and> (\<forall>x \<in> set L. txn_type x = Redeem \<longrightarrow> list_ex (\<lambda>r. redeem_row_of r x) R)"

definition loyalty_inv :: "loyalty_db \<Rightarrow> bool" where
  "loyalty_inv s \<longleftrightarrow>
     accounts_ok s \<and> ledger_ok (ledger s) \<and> reservations_ok (reservations s) (ledger s)"

lemmas sum_defs = ledger_sum_def earned_sum_def redeemed_sum_def pending_sum_def

lemma loyalty_inv_empty: "loyalty_inv empty_loyalty_db"
  by (simp add: loyalty_inv_def accounts_ok_def account_ok_def account_of_def empty_loyalty_db_def
      zero_account_def sum_defs account_bounds_def in_i64_def ledger_ok_def reservations_ok_def)

lemma account_ok_of: "loyalty_inv s \<Longrightarrow> account_ok (ledger s) (reservations s) b (account_of s b)"
  by (simp add: loyalty_inv_def accounts_ok_def)

lemma account_balance: "loyalty_inv s \<Longrightarrow> balance (account_of s b) = ledger_sum b (ledger s)"
  using account_ok_of [of s b] by (simp add: account_ok_def)

lemma account_in_i64: "loyalty_inv s \<Longrightarrow> in_i64 (ledger_sum b (ledger s))"
  by (metis account_ok_of account_ok_def account_bounds_def)

subsection \<open>Effects of the statements\<close>

lemma upsert_account_simps [simp]:
  "ledger (snd (upsert_account t b s)) = ledger s"
  "reservations (snd (upsert_account t b s)) = reservations s"
  "accounts (snd (upsert_account t b s)) b = Some (fst (upsert_account t b s))"
  by (auto simp: upsert_account_def split: option.splits)

lemma upsert_account_inv:
  assumes "loyalty_inv s"
  shows "loyalty_inv (snd (upsert_account t b s))"
proof (cases "accounts s b")
  case (Some a)
  with assms show ?thesis by (simp add: upsert_account_def)
next
  case None
  let ?s = "snd (upsert_account t b s)"
  have "account_ok (ledger s) (reservations s) c (account_of ?s c)" for c
  proof -
    have "account_ok (ledger s) (reservations s) c (account_of s c)"
      using assms by (simp add: loyalty_inv_def accounts_ok_def)
    with None show ?thesis
      by (auto simp: upsert_account_def account_of_def account_ok_def zero_account_def
          account_bounds_def)
  qed
  with assms show ?thesis by (simp add: loyalty_inv_def accounts_ok_def)
qed

lemma wp_lock_for_update [wp_intros]:
  "(\<And>a w'. accounts (store w') b = Some a \<Longrightarrow> a = fst (upsert_account (clock w) b (store w))
      \<Longrightarrow> store w' = snd (upsert_account (clock w) b (store w)) \<Longrightarrow> clock w' = clock w \<Longrightarrow> Q a w')
   \<Longrightarrow> wp (lock_for_update b) Q w"
  unfolding lock_for_update_def by (rule wp_sqlI) (auto simp: upsert_account_def split: option.splits)

lemma wp_ensure_exists [wp_intros]:
  "(\<And>w'. store w' = snd (upsert_account (clock w) b (store w)) \<Longrightarrow> clock w' = clock w \<Longrightarrow> Q () w')
   \<Longrightarrow> wp (ensure_exists b) Q w"
  unfolding ensure_exists_def by (rule wp_sqlI) auto

definition put_account :: "string \<Rightarrow> account \<Rightarrow> loyalty_db \<Rightarrow> loyalty_db" where
  "put_account b a s = s\<lparr>accounts := (accounts s)(b \<mapsto> a)\<rparr>"

lemma put_account_simps [simp]:
  "ledger (put_account b a s) = ledger s"
  "reservations (put_account b a s) = reservations s"
  "accounts (put_account b a s) = (accounts s)(b \<mapsto> a)"
  by (simp_all add: put_account_def)

lemma wp_apply_delta [wp_intros]:
  assumes "\<And>a w'. accounts (store w) b = Some a \<Longrightarrow> version a = v
      \<Longrightarrow> check_account (delta_account (clock w) d a) = None
      \<Longrightarrow> store w' = put_account b (delta_account (clock w) d a) (store w)
      \<Longrightarrow> clock w' = clock w \<Longrightarrow> \<not> aborted w \<Longrightarrow> \<not> aborted w' \<Longrightarrow> Q () w'"
  shows "wp (apply_delta b d v) Q w"
  unfolding apply_delta_def
  by (intro wp_intros) (auto simp: apply_delta_stmt_def put_account_def intro!: assms
      split: option.splits if_splits)

lemma wp_insert_transaction [wp_intros]:
  assumes "\<And>x' w'. txn_id x \<notin> set (map txn_id (ledger (store w)))
      \<Longrightarrow> idem_key x \<notin> set (map idem_key (ledger (store w))) \<Longrightarrow> x' = x\<lparr>txn_created_at := clock w\<rparr>
      \<Longrightarrow> store w' = (store w)\<lparr>ledger := ledger (store w) @ [x']\<rparr> \<Longrightarrow> clock w' = clock w
      \<Longrightarrow> \<not> aborted w \<Longrightarrow> \<not> aborted w' \<Longrightarrow> Q x' w'"
  shows "wp (insert_transaction x) Q w"
  unfolding insert_transaction_def
  by (intro wp_intros) (auto simp: insert_transaction_stmt_def Let_def intro!: assms split: if_splits)

lemma wp_insert_reservation [wp_intros]:
  assumes "\<And>r' w'. 0 < rsv_amount r \<Longrightarrow> rsv_id r \<notin> set (map rsv_id (reservations (store w)))
      \<Longrightarrow> r' = r\<lparr>rsv_created_at := clock w, committed_at := None, released_at := None\<rparr>
      \<Longrightarrow> store w' = (store w)\<lparr>reservations := reservations (store w) @ [r']\<rparr>
      \<Longrightarrow> clock w' = clock w \<Longrightarrow> Q r' w'"
  shows "wp (insert_reservation r) Q w"
  unfolding insert_reservation_def
  by (intro wp_intros) (auto simp: insert_reservation_stmt_def Let_def intro!: assms split: if_splits)

lemma wp_by_idempotency [wp_intros]:
  "(\<And>w'. store w' = store w \<Longrightarrow> clock w' = clock w
      \<Longrightarrow> Q (find (\<lambda>x. idem_key x = (st, sid, ty)) (ledger (store w))) w')
   \<Longrightarrow> wp (by_idempotency st sid ty) Q w"
  unfolding by_idempotency_def by (intro wp_intros)

lemma wp_reservation_by_id [wp_intros]:
  "(\<And>w'. store w' = store w \<Longrightarrow> clock w' = clock w
      \<Longrightarrow> Q (find (\<lambda>r. rsv_id r = i) (reservations (store w))) w')
   \<Longrightarrow> wp (reservation_by_id i) Q w"
  unfolding reservation_by_id_def by (intro wp_intros)

subsection \<open>The ledger grows\<close>

lemma history_ok_append: "history_ok past (xs @ ys) = (history_ok past xs \<and> history_ok (past @ xs) ys)"
  by (induction xs arbitrary: past) auto

lemma ledger_ok_append:
  "ledger_ok (L @ [x]) \<longleftrightarrow> ledger_ok L \<and> txn_id x \<notin> set (map txn_id L)
     \<and> idem_key x \<notin> set (map idem_key L) \<and> row_ok x \<and> row_follows L x"
  by (auto simp: ledger_ok_def history_ok_append simp del: row_ok.simps)

lemma check_account_None:
  "check_account a = None \<longleftrightarrow>
     account_bounds a \<and> in_i64 (pending_redemption a) \<and> in_i64 (lifetime_earned a)
     \<and> in_i64 (lifetime_redeemed a) \<and> in_i32 (version a)"
  by (auto simp: check_account_def account_bounds_def)

text \<open>
  The general step: one buyer's account takes a delta while rows of that buyer are appended and
  the reservations change, in agreement.
\<close>

lemma accounts_ok_step:
  assumes "accounts_ok s" and "accounts s b = Some a"
    and "account_bounds (delta_account t d a)"
    and "accounts s' = (accounts s)(b \<mapsto> delta_account t d a)"
    and "ledger s' = ledger s @ L" and "\<forall>x \<in> set L. txn_buyer x = b"
    and "ledger_sum b L = balance_delta d" and "earned_sum b L = earned_delta d"
    and "redeemed_sum b L = redeemed_delta d"
    and "\<And>c. pending_sum c (reservations s') =
               pending_sum c (reservations s) + (if c = b then pending_delta d else 0)"
  shows "accounts_ok s'"
  unfolding accounts_ok_def
proof
  fix c
  from assms(1) have ok: "account_ok (ledger s) (reservations s) c (account_of s c)"
    by (simp add: accounts_ok_def)
  show "account_ok (ledger s') (reservations s') c (account_of s' c)"
  proof (cases "c = b")
    case True
    with ok assms(2) have "account_ok (ledger s) (reservations s) b a"
      by (simp add: account_of_def)
    with True assms(3-10) show ?thesis
      by (auto simp: account_ok_def account_of_def delta_account_def sum_defs)
  next
    case False
    have "sum_by (\<lambda>x. txn_buyer x = c \<and> P x) f L = 0" for P f
      using assms(6) False by (intro sum_by_None) auto
    from this [of "\<lambda>_. True"] this
    have "ledger_sum c L = 0" "earned_sum c L = 0" "redeemed_sum c L = 0"
      by (simp_all add: sum_defs)
    with False ok assms(4,5,10) show ?thesis
      by (auto simp: account_ok_def account_of_def sum_defs)
  qed
qed

lemma reservations_ok_append:
  "reservations_ok R L \<Longrightarrow> txn_type x \<noteq> Redeem \<Longrightarrow> reservations_ok R (L @ [x])"
  by (auto simp: reservations_ok_def redeem_row_of_def idem_key_def)

definition delta_of_row :: "transaction \<Rightarrow> account_delta" where
  "delta_of_row x =
     \<lparr>balance_delta = txn_amount x, pending_delta = 0,
      earned_delta = (if txn_type x \<in> {Earn, ReverseEarn} then txn_amount x else 0),
      redeemed_delta = (if txn_type x = Redeem then - txn_amount x else 0)\<rparr>"

text \<open>Applying a delta and appending the row that records it (every ledger write but redeem).\<close>

lemma loyalty_inv_post:
  assumes inv: "loyalty_inv s" and a: "accounts s b = Some a"
    and chk: "check_account (delta_account t (delta_of_row x) a) = None"
    and fresh: "txn_id x \<notin> set (map txn_id (ledger s))" "idem_key x \<notin> set (map idem_key (ledger s))"
    and x: "txn_buyer x = b" "row_ok x" "txn_type x \<notin> {Redeem, Expire}"
      "balance_after x = balance a + txn_amount x"
    and s': "s' = (put_account b (delta_account t (delta_of_row x) a) s)\<lparr>ledger := ledger s @ [x]\<rparr>"
  shows "loyalty_inv s'"
proof -
  have "accounts_ok s'"
    by (rule accounts_ok_step [of s b a t "delta_of_row x" s' "[x]"])
      (use inv a chk x s' in \<open>auto simp: loyalty_inv_def check_account_None delta_of_row_def sum_defs\<close>)
  moreover have "account_ok (ledger s) (reservations s) b a"
    using inv a by (auto simp: loyalty_inv_def accounts_ok_def account_of_def dest: spec [of _ b])
  then have "ledger_ok (ledger s')"
    using inv fresh x s' chk
    by (simp add: loyalty_inv_def ledger_ok_append account_ok_def ledger_sum_def row_follows_def
        check_account_None account_bounds_def delta_account_def delta_of_row_def del: row_ok.simps)
  moreover have "reservations_ok (reservations s') (ledger s')"
    using inv x s' by (simp add: loyalty_inv_def reservations_ok_append)
  ultimately show ?thesis by (simp add: loyalty_inv_def)
qed

text \<open>The balance computed in Go is the one the database holds, because the update checked its range.\<close>

lemma delta_balance_i64:
  "check_account (delta_account t d a) = None \<Longrightarrow>
   i64 (balance a + balance_delta d) = balance a + balance_delta d"
  by (intro i64_id) (simp add: check_account_None account_bounds_def delta_account_def)

lemma loyalty_inv_credit:
  assumes "loyalty_inv s" and "accounts s b = Some a"
    and "check_account (delta_account t d a) = None"
    and "txn_id x \<notin> set (map txn_id (ledger s))" "idem_key x \<notin> set (map idem_key (ledger s))"
    and "txn_buyer x = b" "row_ok x" "txn_type x \<notin> {Redeem, Expire}" "d = delta_of_row x"
    and "balance_after x = i64 (balance a + balance_delta d) \<or>
         balance_after x = balance a + balance_delta d"
    and "s' = put_account b (delta_account t d a) s" and "s'' = s'\<lparr>ledger := ledger s' @ [x]\<rparr>"
  shows "loyalty_inv s''"
proof (rule loyalty_inv_post [OF assms(1,2) _ assms(4,5,6,7,8)])
  show "check_account (delta_account t (delta_of_row x) a) = None" using assms(3,9) by simp
  show "balance_after x = balance a + txn_amount x"
    using delta_balance_i64 [OF assms(3)] assms(9,10) by (auto simp add: delta_of_row_def)
  show "s'' = (put_account b (delta_account t (delta_of_row x) a) s)\<lparr>ledger := ledger s @ [x]\<rparr>"
    using assms(9,11,12) by simp
qed

lemma find_None_key: "find (\<lambda>x. key x = k) xs = None \<Longrightarrow> k \<notin> set (map key xs)"
  by (auto simp: find_None_iff)

text \<open>The side conditions of a credit, evaluated on the rows the service builds.\<close>

lemmas row_eval = idem_key_def delta_of_row_def no_delta_def

subsection \<open>Earn, cancel and adjust\<close>

lemma award_earn_tx_inv:
  assumes "loyalty_inv (store w)" and "0 < amount"
  shows "wp (award_earn_tx cfg b order_id amount) (\<lambda>_ w'. loyalty_inv (store w')) w"
  unfolding award_earn_tx_def
  apply (intro wp_intros)
  subgoal for a w1 w2 a' w3 i w4 x w5
    by (rule loyalty_inv_credit [where s = "store w1" and s' = "store w3" and b = b and a = a and x = x])
      (use assms in \<open>auto simp: upsert_account_inv row_eval\<close>)
  subgoal
    using assms(1) by (simp add: upsert_account_inv)
  done

lemma refund_part_inv:
  assumes "loyalty_inv (store w)" and "accounts (store w) b = Some a"
    and "version a = ver" and "balance a = running"
  shows "wp (refund_part b order_id pd ver running)
           (\<lambda>(ver', running', amt) w'. loyalty_inv (store w') \<and>
              (\<exists>a'. accounts (store w') b = Some a' \<and> version a' = ver' \<and> balance a' = running')) w"
  unfolding refund_part_def
  apply (intro wp_intros)
  subgoal for w1 a' w2 i w3 x w4
    using loyalty_inv_credit [where s = "store w1" and s' = "store w2" and b = b and a = a'
        and x = x and t = "clock w1" and s'' = "store w4" and d = "no_delta\<lparr>balance_delta := pd\<rparr>"]
      delta_balance_i64 [of "clock w1" "no_delta\<lparr>balance_delta := pd\<rparr>" a'] assms
    by (auto simp: row_eval delta_account_def)
  using assms by auto

lemma reverse_part_inv:
  assumes "loyalty_inv (store w)" and "accounts (store w) b = Some a"
    and "version a = ver" and "balance a = running"
  shows "wp (reverse_part b order_id pe ver running) (\<lambda>(running', amt) w'. loyalty_inv (store w')) w"
  unfolding reverse_part_def Let_def
  apply (intro wp_intros)
  subgoal for w1 a' w2 i w3 x w4
    using loyalty_inv_credit [where s = "store w1" and s' = "store w2" and b = b and a = a'
        and x = x and t = "clock w1" and s'' = "store w4"
        and d = "no_delta\<lparr>balance_delta := - (if pe > running then running else pe),
                          earned_delta := - (if pe > running then running else pe)\<rparr>"] assms
    by (auto simp: row_eval)
  using assms by auto

lemma apply_cancellation_tx_inv:
  assumes "loyalty_inv (store w)"
  shows "wp (apply_cancellation_tx b order_id pd pe) (\<lambda>_ w'. loyalty_inv (store w')) w"
  unfolding apply_cancellation_tx_def
  apply (intro wp_intros)
  subgoal for a w1
    apply (rule wp_mono [OF refund_part_inv [where a = a]])
    using assms apply (simp_all add: upsert_account_inv)
    apply (intro wp_intros)
    apply clarsimp
    apply (rule wp_mono [OF reverse_part_inv])
        apply (auto intro: wp_intros)
    done
  done

lemma adjust_points_tx_inv:
  assumes "loyalty_inv (store w)" and "amount \<noteq> 0"
  shows "wp (adjust_points_tx b amount reason admin) (\<lambda>_ w'. loyalty_inv (store w')) w"
  unfolding adjust_points_tx_def
  apply (intro wp_intros)
  subgoal for w0 a w1 a' w2 i w3 x w4
    by (rule loyalty_inv_credit [where s = "store w1" and s' = "store w2" and b = b and a = a and x = x])
      (use assms in \<open>auto simp: upsert_account_inv row_eval\<close>)
  done

end
