(* ===== verification/Loyalty_Reservation.thy ===== *)
theory Loyalty_Reservation
  imports Loyalty_Invariant
begin

text \<open>
  The reservation life cycle keeps the ledger invariant: reserve, commit (redeem and earn in one
  transaction), release, and the reaper that expires stale reservations.
\<close>

subsection \<open>Closing one reservation\<close>

lemma wp_update_status [wp_intros]:
  assumes "\<And>w'. store w' = (store w)\<lparr>reservations :=
        update_where (\<lambda>r. rsv_id r = i \<and> rsv_status r = expect) (set_status (clock w) next)
          (reservations (store w))\<rparr>
      \<Longrightarrow> clock w' = clock w
      \<Longrightarrow> Q (list_ex (\<lambda>r. rsv_id r = i \<and> rsv_status r = expect) (reservations (store w))) w'"
  shows "wp (update_status i expect next) Q w"
  unfolding update_status_def by (rule wp_sqlI) (auto simp: Let_def intro!: assms)

lemma set_status_simps [simp]:
  "rsv_id (set_status t st r) = rsv_id r" "rsv_buyer (set_status t st r) = rsv_buyer r"
  "rsv_amount (set_status t st r) = rsv_amount r" "rsv_status (set_status t st r) = st"
  by (simp_all add: set_status_def)

text \<open>The table after the row \<open>i\<close> left the pending state.\<close>

definition close_row :: "uuid \<Rightarrow> instant \<Rightarrow> reservation_status \<Rightarrow> reservation list \<Rightarrow> reservation list" where
  "close_row i t st =
     update_where (\<lambda>r. rsv_id r = i \<and> rsv_status r = ReservationPending) (set_status t st)"

lemma close_row_keys: "map rsv_id (close_row i t st R) = map rsv_id R"
  unfolding close_row_def by (rule update_where_keys) simp

lemma pending_sum_close:
  assumes "distinct (map rsv_id R)" and "r \<in> set R" and "rsv_status r = ReservationPending"
    and "st \<noteq> ReservationPending"
  shows "pending_sum c (close_row (rsv_id r) t st R)
       = pending_sum c R - (if c = rsv_buyer r then rsv_amount r else 0)"
proof -
  let ?q = "\<lambda>x. rsv_id x = rsv_id r \<and> rsv_status x = ReservationPending"
  have "sum_by (\<lambda>x. ?q x \<and> is_pending_of c (set_status t st x))
          (\<lambda>x. rsv_amount (set_status t st x)) R = 0"
    using assms(4) by (intro sum_by_None) (simp add: is_pending_of_def)
  moreover have "sum_by (\<lambda>x. ?q x \<and> is_pending_of c x) rsv_amount R
      = sum_by (\<lambda>x. rsv_id x = rsv_id r \<and> is_pending_of c x) rsv_amount R"
    by (intro sum_by_cong) (auto simp: is_pending_of_def)
  moreover have "\<dots> = (if is_pending_of c r then rsv_amount r else 0)"
    using assms(1,2) by (rule sum_by_single_key)
  ultimately show ?thesis
    unfolding pending_sum_def close_row_def sum_by_update_where
    using assms(3) sum_by_split [of "is_pending_of c" rsv_amount R ?q]
    by (auto simp: is_pending_of_def)
qed

lemma set_close_row:
  assumes "distinct (map rsv_id R)" and "r \<in> set R" and "rsv_status r = ReservationPending"
  shows "set (close_row (rsv_id r) t st R) = insert (set_status t st r) (set R - {r})"
proof -
  have hit: "rsv_id x = rsv_id r \<longleftrightarrow> x = r" if "x \<in> set R" for x
    using assms(1,2) that by (auto simp: distinct_map dest: inj_onD)
  then have "set (close_row (rsv_id r) t st R)
      = (\<lambda>x. if x = r then set_status t st r else x) ` set R"
    unfolding close_row_def update_where_def using assms(3) by force
  with assms(2) show ?thesis by auto
qed

lemma redeem_row_of_set_status [simp]: "redeem_row_of (set_status t st r) = redeem_row_of r"
  by (simp add: redeem_row_of_def fun_eq_iff)

lemma reservations_ok_release:
  assumes ok: "reservations_ok R L" and r: "r \<in> set R" "rsv_status r = ReservationPending"
    and st: "st \<notin> {ReservationPending, ReservationCommitted}"
  shows "reservations_ok (close_row (rsv_id r) t st R) L"
proof -
  have d: "distinct (map rsv_id R)" using ok by (simp add: reservations_ok_def)
  note set = set_close_row [OF d r]
  have none: "\<not> redeem_row_of r x" if "x \<in> set L" for x
    using ok r that by (auto simp: reservations_ok_def list_ex_iff)
  have "\<exists>r' \<in> set R - {r}. redeem_row_of r' x" if "x \<in> set L" "txn_type x = Redeem" for x
    using ok none that by (force simp: reservations_ok_def list_ex_iff)
  then show ?thesis
    using ok r st none unfolding reservations_ok_def list_all_iff list_ex_iff close_row_keys set
    by (auto simp: list_ex_iff)
qed

lemma reservations_ok_commit:
  assumes ok: "reservations_ok R L" and r: "r \<in> set R" "rsv_status r = ReservationPending"
    and x: "redeem_row_of r x"
  shows "reservations_ok (close_row (rsv_id r) t ReservationCommitted R) (L @ [x])"
proof -
  have d: "distinct (map rsv_id R)" using ok by (simp add: reservations_ok_def)
  note set = set_close_row [OF d r]
  have other: "\<not> redeem_row_of r' x" if "r' \<in> set R" "r' \<noteq> r" for r'
    using d r(1) that x by (auto simp: redeem_row_of_def distinct_map dest: inj_onD)
  show ?thesis
    using ok r x other unfolding reservations_ok_def list_all_iff list_ex_iff close_row_keys set
    by (auto simp: list_ex_iff)
qed

subsection \<open>Reserve\<close>

lemma pending_sum_append: "pending_sum c (R @ S) = pending_sum c R + pending_sum c S"
  by (simp add: pending_sum_def)

lemma reservations_ok_add:
  assumes "reservations_ok R L" and "0 < rsv_amount r" and "rsv_id r \<notin> set (map rsv_id R)"
    and "rsv_status r = ReservationPending"
  shows "reservations_ok (R @ [r]) L"
proof -
  have "\<not> redeem_row_of r x" if "x \<in> set L" for x
  proof
    assume x: "redeem_row_of r x"
    then have "txn_type x = Redeem" by (simp add: redeem_row_of_def idem_key_def)
    with that assms(1) obtain r' where "r' \<in> set R" "redeem_row_of r' x"
      by (auto simp: reservations_ok_def list_ex_iff)
    with x assms(3) show False by (auto simp: redeem_row_of_def)
  qed
  with assms show ?thesis by (auto simp: reservations_ok_def list_ex_iff)
qed

lemma reserve_points_tx_inv:
  assumes "loyalty_inv (store w)"
  shows "wp (reserve_points_tx cfg b amount) (\<lambda>_ w'. loyalty_inv (store w')) w"
  unfolding reserve_points_tx_def
  apply (intro wp_intros)
  subgoal premises p for a w1 a' w2 i w3 r w4
  proof -
    let ?d = "no_delta\<lparr>pending_delta := amount\<rparr>"
    from p assms have inv: "loyalty_inv (store w1)" by (simp add: upsert_account_inv)
    have "accounts_ok (store w4)"
      by (rule accounts_ok_step [where s = "store w1" and b = b and a = a and t = "clock w1" and d = ?d
            and L = "[]"])
        (use inv p in \<open>auto simp: loyalty_inv_def check_account_None no_delta_def sum_defs is_pending_of_def\<close>)
    moreover have "reservations_ok (reservations (store w4)) (ledger (store w4))"
      using inv p by (auto simp: loyalty_inv_def intro!: reservations_ok_add)
    ultimately show ?thesis using inv p by (simp add: loyalty_inv_def)
  qed
  done

subsection \<open>Release\<close>

lemma release_tx_inv:
  assumes "loyalty_inv (store w)"
  shows "wp (release_tx i) (\<lambda>_ w'. loyalty_inv (store w')) w"
  unfolding release_tx_def
  apply (intro wp_intros)
  subgoal using assms by simp
  subgoal premises p for w0 r a w1 w2
  proof -
    have "r \<in> set (reservations (store w))" "rsv_id r = i"
      using p find_Some_mem by fastforce+
    then show ?thesis using p by (auto simp: list_ex_iff)
  qed
  subgoal premises p for w0 r a w1 w2 a' w3
  proof -
    let ?d = "no_delta\<lparr>pending_delta := - rsv_amount r\<rparr>"
    have r: "r \<in> set (reservations (store w1))" "rsv_id r = i" "rsv_status r = ReservationPending"
      using p find_Some_mem by fastforce+
    from p assms have inv: "loyalty_inv (store w1)" by (simp add: upsert_account_inv)
    then have d: "distinct (map rsv_id (reservations (store w1)))"
      by (simp add: loyalty_inv_def reservations_ok_def)
    have R: "reservations (store w3) = close_row (rsv_id r) (clock w1) ReservationReleased (reservations (store w1))"
      using p r by (simp add: close_row_def)
    have "accounts_ok (store w3)"
      by (rule accounts_ok_step [where s = "store w1" and b = "rsv_buyer r" and a = a and t = "clock w1"
            and d = ?d and L = "[]"])
        (use inv p R pending_sum_close [OF d r(1) r(3), of ReservationReleased] in
          \<open>auto simp: loyalty_inv_def check_account_None no_delta_def sum_defs\<close>)
    moreover have "reservations_ok (reservations (store w3)) (ledger (store w3))"
      using inv p r R by (auto simp: loyalty_inv_def intro!: reservations_ok_release)
    ultimately show ?thesis using inv p by (simp add: loyalty_inv_def)
  qed
  done

subsection \<open>Commit\<close>

text \<open>
  The burn, started after the status update: \<open>s\<close> is the state before that update, in which the
  invariant holds.
\<close>

lemma commit_burn_inv:
  assumes inv: "loyalty_inv s" and r: "r \<in> set (reservations s)" "rsv_status r = ReservationPending"
    and a: "accounts s (rsv_buyer r) = Some a"
    and s: "store w = s\<lparr>reservations := close_row (rsv_id r) (clock w) ReservationCommitted (reservations s)\<rparr>"
  shows "wp (commit_burn r a)
           (\<lambda>(row, after) w'. loyalty_inv (store w') \<and>
              (\<exists>a'. accounts (store w') (rsv_buyer r) = Some a' \<and> version a' = version a + 1
                    \<and> balance a' = after)) w"
  unfolding commit_burn_def
  apply (intro wp_intros)
  subgoal premises p for a' w1 i w2 x w3
  proof -
    let ?d = "no_delta\<lparr>balance_delta := - rsv_amount r, pending_delta := - rsv_amount r,
                       redeemed_delta := rsv_amount r\<rparr>"
    have a': "a' = a" using p a s by simp
    have d: "distinct (map rsv_id (reservations s))" and pos: "0 < rsv_amount r"
      using inv r by (auto simp: loyalty_inv_def reservations_ok_def list_all_iff)
    have x: "redeem_row_of r x" "txn_type x = Redeem" "txn_buyer x = rsv_buyer r"
      "txn_amount x = - rsv_amount r"
      using p by (simp_all add: redeem_row_of_def idem_key_def)
    have after: "i64 (balance a - rsv_amount r) = balance a - rsv_amount r"
      using delta_balance_i64 [of "clock w" ?d a] p a' by simp
    have acc: "accounts_ok (store w3)"
      by (rule accounts_ok_step [where s = s and b = "rsv_buyer r" and a = a and t = "clock w"
            and d = ?d and L = "[x]"])
        (use inv p a a' s x pending_sum_close [OF d r, of ReservationCommitted] in
          \<open>auto simp: loyalty_inv_def check_account_None no_delta_def sum_defs\<close>)
    have acct: "account_ok (ledger s) (reservations s) (rsv_buyer r) a"
      using inv a by (auto simp: loyalty_inv_def accounts_ok_def account_of_def dest: spec [of _ "rsv_buyer r"])
    have "row_follows (ledger s) x"
      using p x after acct a'
      by (auto simp: row_follows_def account_ok_def ledger_sum_def check_account_None
          account_bounds_def delta_account_def)
    then have "ledger_ok (ledger (store w3))"
      using inv p s x pos by (auto simp: loyalty_inv_def ledger_ok_append idem_key_def)
    moreover have "reservations_ok (reservations (store w3)) (ledger (store w3))"
      using inv p s r x by (auto simp: loyalty_inv_def intro: reservations_ok_commit)
    ultimately show ?thesis
      using acc p a' after by (auto simp: loyalty_inv_def delta_account_def no_delta_def)
  qed
  done

lemma commit_accrue_inv:
  assumes "loyalty_inv (store w)" and "accounts (store w) (rsv_buyer r) = Some a'"
    and "version a' = version a + 1" and "balance a' = after"
  shows "wp (commit_accrue cfg r a after order_id paid) (\<lambda>_ w'. loyalty_inv (store w')) w"
  unfolding commit_accrue_def Let_def
  apply (intro wp_intros)
  subgoal for w1 a1 w2 i w3 x w4
    by (rule loyalty_inv_credit [where s = "store w1" and s' = "store w2" and b = "rsv_buyer r"
          and a = a1 and x = x])
      (use assms in \<open>auto simp: row_eval\<close>)
  using assms by simp_all

lemma commit_tx_inv:
  assumes inv: "loyalty_inv (store w)"
  shows "wp (commit_tx cfg i order_id paid) (\<lambda>_ w'. loyalty_inv (store w')) w"
  unfolding commit_tx_def
  apply (intro wp_intros)
  subgoal premises p for w0 r a w1 w2 w3
  proof -
    have r: "r \<in> set (reservations (store w1))" "rsv_id r = i" "rsv_status r = ReservationPending"
      using p find_Some_mem by fastforce+
    from p inv have inv1: "loyalty_inv (store w1)" by (simp add: upsert_account_inv)
    show ?thesis
      apply (rule wp_mono [OF commit_burn_inv [OF inv1 r(1,3)]])
      using p r apply (auto simp: close_row_def intro!: wp_intros)
      apply (rule wp_mono [OF commit_accrue_inv])
          apply (auto intro!: wp_intros)
      done
  qed
  subgoal for w0 r a w1 w2 row
    apply (rule wp_catchI)
     apply (intro wp_intros)
     apply (use inv in \<open>simp add: upsert_account_inv\<close>)
    apply (intro wp_intros)
    apply (use inv in \<open>auto simp: upsert_account_inv by_idempotency_def query_def dest!: sql_error(1)\<close>)
    done
  done

subsection \<open>The reservation reaper\<close>

text \<open>
  Between the claim and the last account update the counters are ahead of the reservations table
  by the claimed rows still to be processed. The loop invariant adds those rows back.
\<close>

definition with_rows :: "reservation list \<Rightarrow> loyalty_db \<Rightarrow> loyalty_db" where
  "with_rows rs s = s\<lparr>reservations := reservations s @ rs\<rparr>"

lemma with_rows_simps [simp]:
  "accounts (with_rows rs s) = accounts s" "ledger (with_rows rs s) = ledger s"
  "reservations (with_rows rs s) = reservations s @ rs"
  by (simp_all add: with_rows_def)

lemma with_rows_Nil [simp]: "with_rows [] s = s"
  by (simp add: with_rows_def)

lemma accounts_ok_reservations_cong:
  assumes "accounts_ok s" and "accounts s' = accounts s" and "ledger s' = ledger s"
    and "\<And>c. pending_sum c (reservations s') = pending_sum c (reservations s)"
  shows "accounts_ok s'"
  using assms by (simp add: accounts_ok_def account_ok_def account_of_def)

lemma upsert_accounts_ok:
  assumes "accounts_ok (with_rows rs s)"
  shows "accounts_ok (with_rows rs (snd (upsert_account t b s)))"
  unfolding accounts_ok_def
proof
  fix c
  from assms have "account_ok (ledger s) (reservations s @ rs) c (account_of s c)"
    by (auto simp: accounts_ok_def account_of_def dest: spec [of _ c])
  then show "account_ok (ledger (with_rows rs (snd (upsert_account t b s))))
      (reservations (with_rows rs (snd (upsert_account t b s)))) c
      (account_of (with_rows rs (snd (upsert_account t b s))) c)"
    by (auto simp: account_of_def upsert_account_def account_ok_def zero_account_def
        account_bounds_def split: option.splits)
qed

lemma sum_by_distinct: "distinct xs \<Longrightarrow> sum_by p f xs = sum f {x \<in> set xs. p x}"
  by (simp add: sum_by_def sum_list_distinct_conv_sum_set)

lemma claimed_rows_facts:
  assumes "distinct (map rsv_id R)"
  shows "set (claimed_rows locked n t R) \<subseteq> {r \<in> set R. claimable locked t r}"
    and "distinct (map rsv_id (claimed_rows locked n t R))"
proof -
  let ?S = "sort_key rsv_expires_at (filter (claimable locked t) R)"
  have "set ?S = {r \<in> set R. claimable locked t r}" by simp
  then show "set (claimed_rows locked n t R) \<subseteq> {r \<in> set R. claimable locked t r}"
    unfolding claimed_rows_def by (metis set_take_subset)
  have "distinct (map rsv_id ?S)"
    using assms by (auto simp: distinct_map intro: inj_on_subset)
  then show "distinct (map rsv_id (claimed_rows locked n t R))"
    by (simp add: claimed_rows_def take_map [symmetric])
qed

definition expire_rows :: "instant \<Rightarrow> reservation list \<Rightarrow> reservation list \<Rightarrow> reservation list" where
  "expire_rows t cl = update_where (\<lambda>r. rsv_id r \<in> set (map rsv_id cl)) (expire_row t)"

lemma expire_row_simps [simp]:
  "rsv_id (expire_row t r) = rsv_id r" "rsv_buyer (expire_row t r) = rsv_buyer r"
  "rsv_amount (expire_row t r) = rsv_amount r" "rsv_status (expire_row t r) = ReservationExpired"
  "redeem_row_of (expire_row t r) = redeem_row_of r"
  by (simp_all add: expire_row_def redeem_row_of_def fun_eq_iff)

lemma pending_sum_expire_rows:
  assumes d: "distinct (map rsv_id R)" and cl: "set cl \<subseteq> set R" "distinct (map rsv_id cl)"
  shows "pending_sum c (expire_rows t cl R) + pending_sum c cl = pending_sum c R"
proof -
  let ?q = "\<lambda>r. rsv_id r \<in> set (map rsv_id cl)"
  have inj: "inj_on rsv_id (set R)" and dR: "distinct R" using d by (auto simp: distinct_map)
  have "sum_by (\<lambda>x. ?q x \<and> is_pending_of c (expire_row t x))
          (\<lambda>x. rsv_amount (expire_row t x)) R = 0"
    by (intro sum_by_None) (simp add: is_pending_of_def)
  moreover have "sum_by (\<lambda>x. ?q x \<and> is_pending_of c x) rsv_amount R = pending_sum c cl"
  proof -
    have "distinct cl" using cl(2) by (auto simp: distinct_map)
    moreover have "{x \<in> set R. ?q x \<and> is_pending_of c x} = {x \<in> set cl. is_pending_of c x}"
      using inj cl(1) by (auto dest: inj_onD)
    ultimately show ?thesis using dR by (simp add: pending_sum_def sum_by_distinct)
  qed
  ultimately show ?thesis
    unfolding pending_sum_def expire_rows_def sum_by_update_where
    using sum_by_split [of "is_pending_of c" rsv_amount R ?q] by simp
qed

lemma reservations_ok_expire:
  assumes ok: "reservations_ok R L" and cl: "set cl \<subseteq> {r \<in> set R. rsv_status r = ReservationPending}"
  shows "reservations_ok (expire_rows t cl R) L"
proof -
  have keys: "map rsv_id (expire_rows t cl R) = map rsv_id R"
    unfolding expire_rows_def by (rule update_where_keys) simp
  have d: "inj_on rsv_id (set R)" using ok by (simp add: reservations_ok_def distinct_map)
  have set: "set (expire_rows t cl R) = (\<lambda>r. if r \<in> set cl then expire_row t r else r) ` set R"
    unfolding expire_rows_def update_where_def using d cl by (auto dest: inj_onD)
  have none: "\<not> redeem_row_of r x" if "r \<in> set cl" "x \<in> set L" for r x
    using ok cl that by (fastforce simp: reservations_ok_def list_ex_iff)
  define g where "g r = (if r \<in> set cl then expire_row t r else r)" for r
  have g: "rsv_amount (g r) = rsv_amount r" "redeem_row_of (g r) = redeem_row_of r" for r
    by (simp_all add: g_def)
  have "(rsv_status (g r) = ReservationCommitted) = list_ex (redeem_row_of r) L" if "r \<in> set R" for r
    using ok that none by (auto simp: reservations_ok_def list_ex_iff g_def)
  then show ?thesis
    using ok unfolding reservations_ok_def list_all_iff list_ex_iff keys set g_def [symmetric]
    by (simp add: g list_ex_iff)
qed

lemma expire_stale_loop:
  assumes "accounts_ok (with_rows cl (store w))" and "ledger (store w) = L"
    and "reservations (store w) = R" and "\<forall>r \<in> set cl. rsv_status r = ReservationPending"
  shows "wp (tx_for (map (\<lambda>r. (rsv_id r, rsv_buyer r, rsv_amount r)) cl) (\<lambda>(i, b, amount) _.
           tx_bind (lock_for_update b) (\<lambda>acct.
             apply_delta b (no_delta\<lparr>pending_delta := - amount\<rparr>) (version acct))) ())
         (\<lambda>_ w'. accounts_ok (store w') \<and> ledger (store w') = L \<and> reservations (store w') = R) w"
proof (rule wp_for [where I = "\<lambda>xs _ w. \<exists>cl. xs = map (\<lambda>r. (rsv_id r, rsv_buyer r, rsv_amount r)) cl
      \<and> accounts_ok (with_rows cl (store w)) \<and> ledger (store w) = L
      \<and> reservations (store w) = R \<and> (\<forall>r \<in> set cl. rsv_status r = ReservationPending)"])
  fix x xs a and w :: "loyalty_db world"
  assume "\<exists>cl. x # xs = map (\<lambda>r. (rsv_id r, rsv_buyer r, rsv_amount r)) cl
      \<and> accounts_ok (with_rows cl (store w)) \<and> ledger (store w) = L
      \<and> reservations (store w) = R \<and> (\<forall>r \<in> set cl. rsv_status r = ReservationPending)"
  then obtain r cl where x: "x = (rsv_id r, rsv_buyer r, rsv_amount r)"
    and xs: "xs = map (\<lambda>r. (rsv_id r, rsv_buyer r, rsv_amount r)) cl"
    and I: "accounts_ok (with_rows (r # cl) (store w))" "ledger (store w) = L"
      "reservations (store w) = R" "\<forall>r \<in> set (r # cl). rsv_status r = ReservationPending"
    by (auto simp: Cons_eq_map_conv)
  show "wp ((case x of (i, b, amount) \<Rightarrow> \<lambda>_. tx_bind (lock_for_update b) (\<lambda>acct.
          apply_delta b (no_delta\<lparr>pending_delta := - amount\<rparr>) (version acct))) a)
        (\<lambda>_ w. \<exists>cl. xs = map (\<lambda>r. (rsv_id r, rsv_buyer r, rsv_amount r)) cl
          \<and> accounts_ok (with_rows cl (store w)) \<and> ledger (store w) = L
          \<and> reservations (store w) = R \<and> (\<forall>r \<in> set cl. rsv_status r = ReservationPending)) w"
    unfolding x prod.case
    apply (intro wp_intros)
    subgoal premises p for a w1 a' w2
    proof -
      have "accounts_ok (with_rows (r # cl) (store w1))"
        using I(1) p by (simp add: upsert_accounts_ok)
      then have "accounts_ok (with_rows cl (store w2))"
        by (rule accounts_ok_step [where b = "rsv_buyer r" and a = a and t = "clock w1"
              and d = "no_delta\<lparr>pending_delta := - rsv_amount r\<rparr>" and L = "[]"])
          (use p I in \<open>auto simp: check_account_None no_delta_def sum_defs is_pending_of_def\<close>)
      then show ?thesis using xs I p by auto
    qed
    done
qed (use assms in auto)

lemma expire_stale_reservations_tx_inv:
  assumes inv: "loyalty_inv (store w)"
  shows "wp (expire_stale_reservations_tx locked) (\<lambda>_ w'. loyalty_inv (store w')) w"
proof -
  let ?R = "reservations (store w)"
  let ?cl = "claimed_rows locked 200 (clock w) ?R"
  have d: "distinct (map rsv_id ?R)" using inv by (simp add: loyalty_inv_def reservations_ok_def)
  note cl = claimed_rows_facts [OF d, of locked 200 "clock w"]
  have pend: "set ?cl \<subseteq> {r \<in> set ?R. rsv_status r = ReservationPending}"
    using cl(1) by (auto simp: claimable_def)
  let ?R' = "expire_rows (clock w) ?cl ?R"
  have acc: "accounts_ok (with_rows ?cl ((store w)\<lparr>reservations := ?R'\<rparr>))"
    by (rule accounts_ok_reservations_cong [where s = "store w"])
      (use inv pend cl(2) pending_sum_expire_rows [OF d, of ?cl] in
        \<open>auto simp: loyalty_inv_def pending_sum_append\<close>)
  have res: "reservations_ok ?R' (ledger (store w))"
    using inv pend by (auto simp: loyalty_inv_def intro: reservations_ok_expire)
  show ?thesis
    unfolding expire_stale_reservations_tx_def claim_expired_def Let_def
    apply (intro wp_intros)
    apply clarsimp
    subgoal for w1
      apply (rule wp_mono [OF expire_stale_loop [where cl = ?cl and L = "ledger (store w)" and R = ?R']])
      using acc pend res inv by (auto simp: expire_rows_def loyalty_inv_def intro!: wp_intros)
    done
qed

end
