(* ===== verification/Loyalty_Expiry.thy ===== *)
theory Loyalty_Expiry
  imports Loyalty_Reservation
begin

text \<open>
  Point expiration: FIFO consumption of earn buckets, the replay of a buyer's ledger into
  buckets, what the consistency check of the reaper accepts, and the expiration transaction.
\<close>

subsection \<open>FIFO consumption\<close>

definition bucket_sum :: "earn_bucket list \<Rightarrow> int" where
  "bucket_sum bs = sum_list (map remaining bs)"

definition buckets_nonneg :: "earn_bucket list \<Rightarrow> bool" where
  "buckets_nonneg bs \<longleftrightarrow> (\<forall>bk \<in> set bs. 0 \<le> remaining bk)"

lemma bucket_sum_simps [simp]:
  "bucket_sum [] = 0" "bucket_sum (b # bs) = remaining b + bucket_sum bs"
  "bucket_sum (bs @ cs) = bucket_sum bs + bucket_sum cs"
  by (simp_all add: bucket_sum_def)

lemma bucket_sum_nonneg: "buckets_nonneg bs \<Longrightarrow> 0 \<le> bucket_sum bs"
  by (induction bs) (auto simp: buckets_nonneg_def)

lemma drain_spec:
  assumes "buckets_nonneg bs" and "0 < rem" and "drain bs rem = (bs', left)"
  shows "buckets_nonneg bs' \<and> bucket_sum bs' = bucket_sum bs - min rem (bucket_sum bs)
       \<and> left = rem - min rem (bucket_sum bs) \<and> map earn_txn_id bs' = map earn_txn_id bs"
  using assms
proof (induction bs arbitrary: rem bs' left)
  case Nil
  then show ?case by (simp add: buckets_nonneg_def)
next
  case (Cons b bs)
  have nn: "buckets_nonneg bs" "0 \<le> remaining b" using Cons.prems(1) by (auto simp: buckets_nonneg_def)
  have pos: "0 \<le> bucket_sum bs" using nn(1) by (rule bucket_sum_nonneg)
  show ?case
  proof (cases "remaining b \<le> 0")
    case True
    obtain cs r where d: "drain bs rem = (cs, r)" by fastforce
    from Cons.IH [OF nn(1) Cons.prems(2) d] True nn(2) d Cons.prems(3) show ?thesis
      by (auto simp: buckets_nonneg_def)
  next
    case False
    show ?thesis
    proof (cases "rem \<le> remaining b")
      case True
      with False Cons.prems(2,3) nn pos show ?thesis
        by (auto simp: buckets_nonneg_def Let_def split: if_splits)
    next
      case rem: False
      obtain cs r where d: "drain bs (rem - remaining b) = (cs, r)" by fastforce
      from Cons.IH [OF nn(1) _ d] False rem d Cons.prems(3) show ?thesis
        by (auto simp: buckets_nonneg_def Let_def)
    qed
  qed
qed

text \<open>
  First in, first out: a bucket is touched only when every older bucket is empty.
\<close>

lemma drain_fifo:
  assumes "buckets_nonneg bs" and "0 < rem" and "drain bs rem = (bs', left)"
    and "i < j" and "j < length bs" and "bs' ! j \<noteq> bs ! j"
  shows "remaining (bs' ! i) = 0"
  using assms
proof (induction bs arbitrary: rem bs' left i j)
  case (Cons b bs)
  have nn: "buckets_nonneg bs" "0 \<le> remaining b" using Cons.prems(1) by (auto simp: buckets_nonneg_def)
  from Cons.prems(4) obtain j' where j: "j = Suc j'" by (cases j) auto
  show ?case
  proof (cases "remaining b \<le> 0")
    case True
    obtain cs r where d: "drain bs rem = (cs, r)" by fastforce
    with True Cons.prems(3) have bs': "bs' = b # cs" by auto
    with Cons.IH [OF nn(1) Cons.prems(2) d, of _ j'] Cons.prems(4-6) j True nn(2) show ?thesis
      by (cases i) auto
  next
    case False
    show ?thesis
    proof (cases "rem \<le> remaining b")
      case True
      with False Cons.prems(3,5,6) j show ?thesis by (auto simp: Let_def split: if_splits)
    next
      case rem: False
      obtain cs r where d: "drain bs (rem - remaining b) = (cs, r)" by fastforce
      with False rem Cons.prems(3) have bs': "bs' = b\<lparr>remaining := 0\<rparr> # cs" by (auto simp: Let_def)
      with Cons.IH [OF nn(1) _ d, of _ j'] rem Cons.prems(4-6) j show ?thesis
        by (cases i) auto
    qed
  qed
qed simp

lemma consume_fifo_spec:
  assumes "buckets_nonneg bs" and "0 \<le> amount" and "consume_fifo bs amount = (bs', left)"
  shows "buckets_nonneg bs'" and "bucket_sum bs' = bucket_sum bs - min amount (bucket_sum bs)"
    and "left = amount - min amount (bucket_sum bs)" and "map earn_txn_id bs' = map earn_txn_id bs"
  using assms drain_spec [of bs amount bs' left] bucket_sum_nonneg [of bs]
  by (auto simp: consume_fifo_def split: if_splits)

subsection \<open>Replaying a buyer's history\<close>

text \<open>
  A debit that finds too little left in the buckets has spent platform credit (a positive refund
  or adjustment). \<open>uncovered\<close> sums these amounts over the replay.
\<close>

definition debit_of :: "transaction \<Rightarrow> int" where
  "debit_of x = (if txn_type x \<in> {Redeem, ReverseEarn, Refund, Adjust} \<and> txn_amount x < 0
                 then - txn_amount x else 0)"

definition replay ::
  "(string \<Rightarrow> uuid option) \<Rightarrow> transaction list \<Rightarrow> earn_bucket list \<times> (uuid \<Rightarrow> nat option)" where
  "replay parse txns = fold (rebuild_step parse) txns ([], \<lambda>_. None)"

fun uncovered_from :: "transaction list \<Rightarrow> transaction list \<Rightarrow> int" where
  "uncovered_from past [] = 0"
| "uncovered_from past (x # xs) =
     snd (consume_fifo (rebuild_earn_buckets Some past) (debit_of x)) + uncovered_from (past @ [x]) xs"

definition uncovered :: "transaction list \<Rightarrow> int" where
  "uncovered txns = uncovered_from [] txns"

lemma replay_simps [simp]:
  "replay parse [] = ([], \<lambda>_. None)"
  "replay parse (xs @ [x]) = rebuild_step parse x (replay parse xs)"
  by (simp_all add: replay_def)

lemma rebuild_replay: "rebuild_earn_buckets parse xs = fst (replay parse xs)"
  by (simp add: rebuild_earn_buckets_def replay_def)

lemma uncovered_from_append:
  "uncovered_from past (xs @ ys) = uncovered_from past xs + uncovered_from (past @ xs) ys"
  by (induction xs arbitrary: past) auto

lemma uncovered_snoc:
  "uncovered (xs @ [x]) = uncovered xs + snd (consume_fifo (rebuild_earn_buckets Some xs) (debit_of x))"
  by (simp add: uncovered_def uncovered_from_append)

definition amount_sum :: "transaction list \<Rightarrow> int" where
  "amount_sum xs = sum_list (map txn_amount xs)"

definition credit_sum :: "transaction list \<Rightarrow> int" where
  "credit_sum = sum_by is_platform_credit txn_amount"

text \<open>How one buyer's row continues the buyer's own history.\<close>

definition own_row_ok :: "transaction list \<Rightarrow> transaction \<Rightarrow> bool" where
  "own_row_ok past x \<longleftrightarrow>
     row_ok x \<and> 0 \<le> amount_sum (past @ [x]) \<and> in_i64 (amount_sum (past @ [x]))
     \<and> txn_id x \<notin> set (map txn_id past)
     \<and> (txn_type x = Expire \<longrightarrow>
          (\<exists>bk \<in> set (rebuild_earn_buckets Some past).
             earn_txn_id bk = txn_source_id x \<and> remaining bk = - txn_amount x))"

fun own_history_ok :: "transaction list \<Rightarrow> transaction list \<Rightarrow> bool" where
  "own_history_ok past [] = True"
| "own_history_ok past (x # xs) = (own_row_ok past x \<and> own_history_ok (past @ [x]) xs)"

lemma own_history_ok_append:
  "own_history_ok past (xs @ ys) = (own_history_ok past xs \<and> own_history_ok (past @ xs) ys)"
  by (induction xs arbitrary: past) auto

lemma history_of_simps [simp]:
  "history_of b [] = []"
  "history_of b (x # xs) = (if txn_buyer x = b then x # history_of b xs else history_of b xs)"
  "history_of b (xs @ ys) = history_of b xs @ history_of b ys"
  by (simp_all add: history_of_def)

lemma amount_sum_history: "amount_sum (history_of b L) = ledger_sum b L"
  by (simp add: amount_sum_def history_of_def ledger_sum_def sum_by_def)

lemma own_history:
  assumes "history_ok past L" and "list_all row_ok L" and "distinct (map txn_id (past @ L))"
  shows "own_history_ok (history_of b past) (history_of b L)"
  using assms
proof (induction L arbitrary: past)
  case (Cons x L)
  have "own_history_ok (history_of b (past @ [x])) (history_of b L)"
    by (rule Cons.IH) (use Cons.prems in auto)
  moreover have "own_row_ok (history_of b past) x" if "txn_buyer x = b"
  proof -
    have "amount_sum (history_of b past @ [x]) = balance_after x"
      using that Cons.prems(1) amount_sum_history [of b "past @ [x]"] by (simp add: row_follows_def)
    with that Cons.prems show ?thesis
      by (auto simp: own_row_ok_def row_follows_def closes_bucket_def history_of_def)
  qed
  ultimately show ?case by auto
qed simp

lemma ledger_own_history: "ledger_ok L \<Longrightarrow> own_history_ok [] (history_of b L)"
  using own_history [of "[]" L b] by (simp add: ledger_ok_def)

text \<open>The state of the replay after a history.\<close>

definition replay_ok :: "transaction list \<Rightarrow> earn_bucket list \<Rightarrow> (uuid \<Rightarrow> nat option) \<Rightarrow> bool" where
  "replay_ok H bs idx \<longleftrightarrow>
     map earn_txn_id bs = map txn_id (filter (\<lambda>x. txn_type x = Earn) H)
     \<and> (\<forall>i < length bs. idx (earn_txn_id (bs ! i)) = Some i)
     \<and> buckets_nonneg bs
     \<and> bucket_sum bs \<le> amount_sum H
     \<and> bucket_sum bs + credit_sum H = amount_sum H + uncovered H
     \<and> 0 \<le> uncovered H"

lemma amount_sum_snoc [simp]: "amount_sum (xs @ [x]) = amount_sum xs + txn_amount x"
  by (simp add: amount_sum_def)

lemma credit_sum_snoc [simp]:
  "credit_sum (xs @ [x]) = credit_sum xs + (if is_platform_credit x then txn_amount x else 0)"
  by (simp add: credit_sum_def)

lemma own_amount_range:
  assumes "own_row_ok H x" and "0 \<le> amount_sum H" and "in_i64 (amount_sum H)"
  shows "i64 (- txn_amount x) = - txn_amount x"
  using assms by (intro i64_id) (auto simp: own_row_ok_def in_i64_def)

text \<open>A debit on the replay state.\<close>

lemma replay_ok_debit:
  assumes ok: "replay_ok H bs idx" and H: "0 \<le> amount_sum (H @ [x])"
    and x: "debit_of x = - txn_amount x" "0 \<le> debit_of x" "\<not> is_platform_credit x" "txn_type x \<noteq> Earn"
    and bs: "bs = rebuild_earn_buckets Some H"
  shows "replay_ok (H @ [x]) (fst (consume_fifo bs (debit_of x))) idx"
proof -
  obtain bs' left where c: "consume_fifo bs (debit_of x) = (bs', left)" by fastforce
  have nn: "buckets_nonneg bs" using ok by (simp add: replay_ok_def)
  note spec = consume_fifo_spec [OF nn x(2) c]
  have len: "length bs' = length bs" using spec(4) by (metis length_map)
  have ids: "earn_txn_id (bs' ! i) = earn_txn_id (bs ! i)" if "i < length bs" for i
    using spec(4) that len by (metis nth_map)
  have unc: "uncovered (H @ [x]) = uncovered H + left" using c bs by (simp add: uncovered_snoc)
  show ?thesis
    using ok spec ids len x H c unc
    by (auto simp: replay_ok_def min_def split: if_splits)
qed

lemma uncovered_no_debit: "debit_of x = 0 \<Longrightarrow> uncovered (H @ [x]) = uncovered H"
  by (simp add: uncovered_snoc consume_fifo_def)

lemma replay_ok_earn:
  assumes ok: "replay_ok H bs idx" and x: "txn_type x = Earn" "0 < txn_amount x"
    and fresh: "txn_id x \<notin> set (map txn_id H)"
    and bk: "earn_txn_id bk = txn_id x" "remaining bk = txn_amount x"
  shows "replay_ok (H @ [x]) (bs @ [bk]) (idx(txn_id x \<mapsto> length bs))"
proof -
  have "earn_txn_id (bs ! i) \<noteq> txn_id x" if "i < length bs" for i
  proof -
    have "earn_txn_id (bs ! i) \<in> set (map earn_txn_id bs)" using that by simp
    with ok fresh show ?thesis by (auto simp: replay_ok_def)
  qed
  then show ?thesis
    using ok x bk uncovered_no_debit [of x H]
    by (auto simp: replay_ok_def nth_append less_Suc_eq debit_of_def is_platform_credit_def buckets_nonneg_def)
qed

lemma replay_ok_credit:
  assumes "replay_ok H bs idx" and "txn_type x \<in> {Refund, Adjust}" and "0 < txn_amount x"
  shows "replay_ok (H @ [x]) bs idx"
  using assms uncovered_no_debit [of x H]
  by (auto simp: replay_ok_def debit_of_def is_platform_credit_def)

lemma bucket_sum_update:
  "i < length bs \<Longrightarrow> bucket_sum (bs[i := b']) = bucket_sum bs - remaining (bs ! i) + remaining b'"
  by (induction bs arbitrary: i) (auto split: nat.splits)

text \<open>An expire row empties exactly the bucket of the earn it names.\<close>

definition closed :: "earn_bucket \<Rightarrow> earn_bucket" where
  "closed bk = bk\<lparr>remaining := 0, has_prior_expire := True\<rparr>"

lemma apply_expire_hit:
  assumes ok: "replay_ok H bs idx" and own: "own_row_ok H x" and ty: "txn_type x = Expire"
    and H: "in_i64 (amount_sum H)" and bs: "bs = rebuild_earn_buckets Some H"
  obtains i where "i < length bs" "earn_txn_id (bs ! i) = txn_source_id x"
    "remaining (bs ! i) = - txn_amount x" "idx (txn_source_id x) = Some i"
    "apply_expire idx (txn_source_id x) (txn_amount x) bs = bs[i := closed (bs ! i)]"
proof -
  from own ty bs obtain bk where bk: "bk \<in> set bs" "earn_txn_id bk = txn_source_id x"
      "remaining bk = - txn_amount x"
    by (auto simp: own_row_ok_def)
  then obtain i where i: "i < length bs" "bs ! i = bk" by (auto simp: in_set_conv_nth)
  with ok bk have idx: "idx (txn_source_id x) = Some i" by (auto simp: replay_ok_def)
  have "0 \<le> remaining bk" using ok bk by (auto simp: replay_ok_def buckets_nonneg_def)
  moreover have "remaining bk \<le> bucket_sum bs"
    using ok bk(1) member_le_sum_list [of "remaining bk" "map remaining bs"]
    by (auto simp: replay_ok_def bucket_sum_def buckets_nonneg_def)
  moreover have "bucket_sum bs \<le> amount_sum H" using ok by (simp add: replay_ok_def)
  ultimately have "in_i64 (- txn_amount x)" using bk(3) in_i64_nonneg H by fastforce
  then have "i64 (remaining bk - i64 (- txn_amount x)) = 0"
    using bk(3) by simp
  then show ?thesis using that [OF i(1)] i bk idx by (simp add: apply_expire_def closed_def)
qed

lemma replay_ok_expire:
  assumes ok: "replay_ok H bs idx" and own: "own_row_ok H x" and ty: "txn_type x = Expire"
    and H: "in_i64 (amount_sum H)" and bs: "bs = rebuild_earn_buckets Some H"
  shows "replay_ok (H @ [x]) (apply_expire idx (txn_source_id x) (txn_amount x) bs) idx"
proof -
  obtain i where i: "i < length bs" "remaining (bs ! i) = - txn_amount x"
      "apply_expire idx (txn_source_id x) (txn_amount x) bs = bs[i := closed (bs ! i)]"
    using apply_expire_hit [OF assms] by metis
  have ids: "map earn_txn_id (bs[i := closed (bs ! i)]) = map earn_txn_id bs"
    using i(1) by (simp add: map_update closed_def list_update_same_conv)
  have idx: "earn_txn_id (bs[i := closed (bs ! i)] ! j) = earn_txn_id (bs ! j)" if "j < length bs" for j
    using ids that by (metis length_list_update nth_map)
  have "buckets_nonneg (bs[i := closed (bs ! i)])"
    using ok by (auto simp: replay_ok_def buckets_nonneg_def closed_def dest!: set_update_subset_insert [THEN subsetD])
  moreover have "bucket_sum (bs[i := closed (bs ! i)]) = bucket_sum bs + txn_amount x"
    using i by (simp add: bucket_sum_update closed_def)
  ultimately show ?thesis
    using ok i ids idx uncovered_no_debit [of x H] ty
    by (auto simp: replay_ok_def debit_of_def is_platform_credit_def)
qed

text \<open>The replay of every history the ledger invariant allows.\<close>

lemma replay_ok_step:
  assumes ok: "replay_ok H bs idx" and own: "own_row_ok H x"
    and H: "0 \<le> amount_sum H" "in_i64 (amount_sum H)" and st: "replay Some H = (bs, idx)"
  shows "case replay Some (H @ [x]) of (bs', idx') \<Rightarrow> replay_ok (H @ [x]) bs' idx'"
proof -
  have bs: "bs = rebuild_earn_buckets Some H" using st by (simp add: rebuild_replay)
  note neg = own_amount_range [OF own H]
  have pos: "0 \<le> amount_sum (H @ [x])" and row: "row_ok x" using own by (auto simp: own_row_ok_def)
  have debit: "replay_ok (H @ [x]) (fst (consume_fifo bs (- txn_amount x))) idx"
    if "txn_type x \<in> {Redeem, ReverseEarn, Refund, Adjust}" "txn_amount x < 0"
    using replay_ok_debit [OF ok pos _ _ _ _ bs] that by (auto simp: debit_of_def is_platform_credit_def)
  show ?thesis
  proof (cases "txn_type x")
    case Earn
    with own have "0 < txn_amount x" "txn_id x \<notin> set (map txn_id H)" by (auto simp: own_row_ok_def)
    with replay_ok_earn [OF ok Earn] Earn st show ?thesis by simp
  next
    case Expire
    with replay_ok_expire [OF ok own Expire H(2) bs] st show ?thesis by simp
  next
    case Refund
    with row replay_ok_credit [OF ok] st show ?thesis by simp
  next
    case Adjust
    with row debit replay_ok_credit [OF ok] neg st show ?thesis by (cases "txn_amount x < 0") auto
  qed (use row debit neg st in auto)
qed

lemma own_history_sum:
  "own_history_ok [] H \<Longrightarrow> 0 \<le> amount_sum H \<and> in_i64 (amount_sum H)"
  by (induction H rule: rev_induct)
    (simp_all add: own_history_ok_append own_row_ok_def amount_sum_def in_i64_def)

lemma replay_ok_history:
  "own_history_ok [] H \<Longrightarrow> case replay Some H of (bs, idx) \<Rightarrow> replay_ok H bs idx"
proof (induction H rule: rev_induct)
  case Nil
  show ?case
    by (simp add: replay_ok_def amount_sum_def credit_sum_def uncovered_def buckets_nonneg_def)
next
  case (snoc x H)
  then have H: "own_history_ok [] H" and own: "own_row_ok H x" by (simp_all add: own_history_ok_append)
  obtain bs idx where st: "replay Some H = (bs, idx)" by fastforce
  with snoc.IH [OF H] own_history_sum [OF H] show ?case
    by (intro replay_ok_step [OF _ own _ _ st]) auto
qed

lemma rebuild_ok:
  assumes "own_history_ok [] H"
  obtains idx where "replay Some H = (rebuild_earn_buckets Some H, idx)"
    and "replay_ok H (rebuild_earn_buckets Some H) idx"
  using replay_ok_history [OF assms] that by (cases "replay Some H") (auto simp: rebuild_replay)

text \<open>
  What \<open>verifyBucketInvariant\<close> compares: the buckets and the platform credits exceed the balance
  by exactly the debits that were paid from platform credit.
\<close>

lemma expected_balance_history:
  assumes "own_history_ok [] H"
  shows "expected_balance (rebuild_earn_buckets Some H) H = amount_sum H + uncovered H"
    and "0 \<le> uncovered H" and "bucket_sum (rebuild_earn_buckets Some H) \<le> amount_sum H"
  using rebuild_ok [OF assms]
  by (auto simp: replay_ok_def expected_balance_def bucket_sum_def credit_sum_def)

subsection \<open>Buckets and ledger rows\<close>

text \<open>
  Every earn row has its bucket, with the row's expiry, and a bucket flagged as already expired
  has an expire row.
\<close>

definition expire_key :: "uuid \<Rightarrow> idem_key" where
  "expire_key i = (ExpirationJob, i, Expire)"

definition bucket_tag :: "earn_bucket \<Rightarrow> uuid \<times> instant option \<times> bool" where
  "bucket_tag bk = (earn_txn_id bk, expires_at bk, has_prior_expire bk)"

definition tags_ok :: "transaction list \<Rightarrow> (uuid \<times> instant option \<times> bool) set \<Rightarrow> bool" where
  "tags_ok H T \<longleftrightarrow>
     (\<forall>i e. (i, e, True) \<in> T \<longrightarrow> expire_key i \<in> set (map idem_key H))
     \<and> (\<forall>x \<in> set H. txn_type x = Earn \<longrightarrow> (\<exists>p. (txn_id x, txn_expires_at x, p) \<in> T))"

lemma drain_tags: "map bucket_tag (fst (drain bs rem)) = map bucket_tag bs"
  by (induction bs rem rule: drain.induct) (auto simp: bucket_tag_def Let_def split: prod.splits)

lemma consume_fifo_tags: "map bucket_tag (fst (consume_fifo bs amount)) = map bucket_tag bs"
  by (simp add: consume_fifo_def drain_tags)

lemma tags_ok_other:
  "tags_ok H T \<Longrightarrow> txn_type x \<noteq> Earn \<Longrightarrow> tags_ok (H @ [x]) T"
  by (auto simp: tags_ok_def)

lemma tags_ok_earn:
  assumes "tags_ok H T"
  shows "tags_ok (H @ [x]) (insert (txn_id x, txn_expires_at x, False) T)"
proof -
  have "\<exists>p. (txn_id y, txn_expires_at y, p) \<in> insert (txn_id x, txn_expires_at x, False) T"
    if y: "y \<in> set (H @ [x])" "txn_type y = Earn" for y
  proof (cases "y = x")
    case False
    with y assms obtain p where "(txn_id y, txn_expires_at y, p) \<in> T" by (auto simp: tags_ok_def)
    then show ?thesis by blast
  qed blast
  moreover have "expire_key i \<in> set (map idem_key (H @ [x]))"
    if "(i, e, True) \<in> insert (txn_id x, txn_expires_at x, False) T" for i e
    using assms that by (auto simp: tags_ok_def)
  ultimately show ?thesis by (simp add: tags_ok_def)
qed

lemma tags_consume:
  "tags_ok H (set (map bucket_tag bs)) \<Longrightarrow> txn_type x \<noteq> Earn \<Longrightarrow>
   tags_ok (H @ [x]) (set (map bucket_tag (fst (consume_fifo bs a))))"
  unfolding consume_fifo_tags by (rule tags_ok_other)

lemma tags_ok_replay:
  assumes "own_history_ok [] H"
  shows "tags_ok H (set (map bucket_tag (rebuild_earn_buckets Some H)))"
  using assms
proof (induction H rule: rev_induct)
  case Nil
  show ?case by (simp add: tags_ok_def rebuild_replay)
next
  case (snoc x H)
  then have H: "own_history_ok [] H" and own: "own_row_ok H x" by (simp_all add: own_history_ok_append)
  obtain idx where st: "replay Some H = (rebuild_earn_buckets Some H, idx)"
    and ok: "replay_ok H (rebuild_earn_buckets Some H) idx"
    by (rule rebuild_ok [OF H])
  let ?bs = "rebuild_earn_buckets Some H"
  note IH = snoc.IH [OF H]
  have nxt: "rebuild_earn_buckets Some (H @ [x]) = fst (rebuild_step Some x (?bs, idx))"
    by (simp only: rebuild_replay [of Some "H @ [x]"] replay_simps st)
  show ?case
  proof (cases "txn_type x")
    case Earn
    then have "set (map bucket_tag (rebuild_earn_buckets Some (H @ [x])))
        = insert (txn_id x, txn_expires_at x, False) (set (map bucket_tag ?bs))"
      by (simp add: nxt bucket_tag_def)
    with tags_ok_earn [OF IH] show ?thesis by metis
  next
    case Expire
    obtain i where i: "i < length ?bs" "earn_txn_id (?bs ! i) = txn_source_id x"
      "apply_expire idx (txn_source_id x) (txn_amount x) ?bs = ?bs[i := closed (?bs ! i)]"
      using apply_expire_hit [OF ok own Expire _ refl] own_history_sum [OF H] by metis
    have key: "idem_key x = expire_key (txn_source_id x)"
      using own Expire by (auto simp: own_row_ok_def idem_key_def expire_key_def)
    have sub: "set (map bucket_tag (?bs[i := closed (?bs ! i)]))
        \<subseteq> insert (txn_source_id x, expires_at (?bs ! i), True) (set (map bucket_tag ?bs))"
      using set_update_subset_insert [of ?bs i "closed (?bs ! i)"] i(2)
      by (auto simp: bucket_tag_def closed_def)
    have keep: "\<exists>p. (j, e, p) \<in> set (map bucket_tag (?bs[i := closed (?bs ! i)]))"
      if "(j, e, q) \<in> set (map bucket_tag ?bs)" for j e q
    proof -
      from that obtain k where k: "k < length ?bs" "bucket_tag (?bs ! k) = (j, e, q)"
        by (auto simp: in_set_conv_nth)
      then have "bucket_tag (?bs[i := closed (?bs ! i)] ! k) = (j, e, if k = i then True else q)"
        by (auto simp: nth_list_update bucket_tag_def closed_def)
      with k(1) show ?thesis by (metis length_list_update length_map nth_map nth_mem)
    qed
    have reb: "rebuild_earn_buckets Some (H @ [x]) = ?bs[i := closed (?bs ! i)]"
      using Expire i(3) by (simp add: nxt)
    show ?thesis unfolding reb tags_ok_def
    proof (intro conjI allI impI ballI)
      fix j e
      assume "(j, e, True) \<in> set (map bucket_tag (?bs[i := closed (?bs ! i)]))"
      with sub have "j = txn_source_id x \<or> (j, e, True) \<in> set (map bucket_tag ?bs)" by auto
      with IH key show "expire_key j \<in> set (map idem_key (H @ [x]))"
        by (auto simp: tags_ok_def)
    next
      fix y
      assume "y \<in> set (H @ [x])" "txn_type y = Earn"
      with Expire have "y \<in> set H" by auto
      with IH \<open>txn_type y = Earn\<close> obtain q
        where "(txn_id y, txn_expires_at y, q) \<in> set (map bucket_tag ?bs)"
        unfolding tags_ok_def by blast
      then show "\<exists>p. (txn_id y, txn_expires_at y, p)
          \<in> set (map bucket_tag (?bs[i := closed (?bs ! i)]))"
        by (rule keep)
    qed
  next
    case Refund
    with tags_consume [OF IH] tags_ok_other [OF IH] show ?thesis by (simp add: nxt)
  next
    case Adjust
    with tags_consume [OF IH] tags_ok_other [OF IH] show ?thesis by (simp add: nxt)
  qed (use tags_consume [OF IH] in \<open>simp_all add: nxt\<close>)
qed

text \<open>With a parser that inverts the ids of earn rows, the replay is the one with \<open>Some\<close>.\<close>

definition parses_ids :: "(string \<Rightarrow> uuid option) \<Rightarrow> transaction list \<Rightarrow> bool" where
  "parses_ids parse L \<longleftrightarrow>
     (\<forall>x \<in> set L. txn_type x = Earn \<longrightarrow> parse (txn_id x) = Some (txn_id x))"

lemma rebuild_step_parse:
  "(txn_type x = Expire \<Longrightarrow> parse (txn_source_id x) = Some (txn_source_id x)) \<Longrightarrow>
   rebuild_step parse x st = rebuild_step Some x st"
  by (cases st) (simp split: transaction_type.split)

lemma replay_parse:
  assumes "own_history_ok [] H" and "parses_ids parse H"
  shows "replay parse H = replay Some H"
  using assms
proof (induction H rule: rev_induct)
  case (snoc x H)
  then have H: "own_history_ok [] H" and own: "own_row_ok H x" and p: "parses_ids parse H"
    by (simp_all add: own_history_ok_append parses_ids_def)
  have "parse (txn_source_id x) = Some (txn_source_id x)" if ty: "txn_type x = Expire"
  proof -
    obtain idx where "replay_ok H (rebuild_earn_buckets Some H) idx" by (rule rebuild_ok [OF H])
    then have ids: "map earn_txn_id (rebuild_earn_buckets Some H)
        = map txn_id (filter (\<lambda>x. txn_type x = Earn) H)"
      unfolding replay_ok_def by blast
    from own ty obtain bk where "bk \<in> set (rebuild_earn_buckets Some H)"
      "earn_txn_id bk = txn_source_id x"
      unfolding own_row_ok_def by blast
    then have "txn_source_id x \<in> set (map earn_txn_id (rebuild_earn_buckets Some H))"
      by (metis image_eqI set_map)
    then show ?thesis using p unfolding ids by (auto simp: parses_ids_def)
  qed
  from rebuild_step_parse [of x parse, OF this] show ?case
    by (simp only: replay_simps snoc.IH [OF H p])
qed simp

subsection \<open>The expiration transaction\<close>

definition due_sum :: "instant \<Rightarrow> earn_bucket list \<Rightarrow> int" where
  "due_sum t = sum_by (bucket_due t) remaining"

definition has_expire_row :: "transaction list \<Rightarrow> uuid \<Rightarrow> bool" where
  "has_expire_row L i \<longleftrightarrow> expire_key i \<in> set (map idem_key L)"

text \<open>Rows that only mark or expire earns of one buyer.\<close>

definition expire_rows_of :: "string \<Rightarrow> transaction list \<Rightarrow> bool" where
  "expire_rows_of b L' \<longleftrightarrow> (\<forall>x \<in> set L'. txn_buyer x = b \<and> txn_type x = Expire)"

lemma expire_rows_sums:
  "expire_rows_of b L' \<Longrightarrow> earned_sum c L' = 0"
  "expire_rows_of b L' \<Longrightarrow> redeemed_sum c L' = 0"
  "expire_rows_of b L' \<Longrightarrow> c \<noteq> b \<Longrightarrow> ledger_sum c L' = 0"
  by (auto simp: expire_rows_of_def sum_defs intro!: sum_by_None)

lemma reservations_ok_expire_rows:
  "reservations_ok R L \<Longrightarrow> expire_rows_of b L' \<Longrightarrow> reservations_ok R (L @ L')"
proof (induction L' rule: rev_induct)
  case (snoc x L')
  then show ?case
    using reservations_ok_append [of R "L @ L'" x] by (auto simp: expire_rows_of_def)
qed simp

text \<open>
  The loop invariant: \<open>L'\<close> are the rows written so far, \<open>done\<close> the buckets behind the cursor, and
  the buckets ahead still stand as the replay of the extended ledger sees them.
\<close>

definition ahead_ok :: "string \<Rightarrow> transaction list \<Rightarrow> earn_bucket list \<Rightarrow> bool" where
  "ahead_ok b L xs \<longleftrightarrow>
     distinct (map earn_txn_id xs) \<and> buckets_nonneg xs
     \<and> (\<forall>bk \<in> set xs. \<exists>bk' \<in> set (rebuild_earn_buckets Some (history_of b L)).
           earn_txn_id bk' = earn_txn_id bk \<and> remaining bk' = remaining bk)"

definition behind_ok :: "instant \<Rightarrow> transaction list \<Rightarrow> earn_bucket list \<Rightarrow> int \<Rightarrow> bool" where
  "behind_ok t L done tot \<longleftrightarrow>
     tot = due_sum t done \<and> (\<forall>bk \<in> set done. bucket_due t bk \<longrightarrow> has_expire_row L (earn_txn_id bk))"

definition expire_loop ::
  "string \<Rightarrow> instant \<Rightarrow> loyalty_db \<Rightarrow> earn_bucket list \<Rightarrow> earn_bucket list \<Rightarrow> int \<times> nat \<times> int
   \<Rightarrow> loyalty_db world \<Rightarrow> bool" where
  "expire_loop b t s all xs acc w \<longleftrightarrow> (\<exists>L' done running written tot.
     acc = (running, written, tot) \<and> all = done @ xs
     \<and> accounts (store w) = accounts s \<and> reservations (store w) = reservations s
     \<and> ledger (store w) = ledger s @ L' \<and> ledger_ok (ledger s @ L') \<and> expire_rows_of b L'
     \<and> ledger_sum b L' = - tot \<and> running = ledger_sum b (ledger s) - tot \<and> 0 \<le> tot
     \<and> bucket_sum xs \<le> running \<and> in_i64 (ledger_sum b (ledger s))
     \<and> ahead_ok b (ledger s @ L') xs
     \<and> (aborted w \<or> behind_ok t (ledger s @ L') done tot))"

lemma insert_transaction_error:
  assumes "insert_transaction x w = (Inl e, w')"
  shows "store w' = store w" and "aborted w'"
proof -
  obtain e' :: "loyalty_err error" where "sql (insert_transaction_stmt x) w = (Inl e', w')"
    using assms
    by (auto simp: insert_transaction_def tx_map_error_def tx_catch_def tx_throw_def split: prod.splits sum.splits)
  from sql_error [OF this] show "store w' = store w" "aborted w'" by simp_all
qed

text \<open>Passing over a bucket keeps what is ahead.\<close>

lemma ahead_ok_tl: "ahead_ok b L (bk # xs) \<Longrightarrow> ahead_ok b L xs"
  by (auto simp: ahead_ok_def buckets_nonneg_def)

text \<open>Writing the expire row of one bucket leaves the others as they are.\<close>

lemma ahead_ok_write:
  assumes ahead: "ahead_ok b L (bk # xs)" and L: "ledger_ok (L @ [x])"
    and x: "txn_buyer x = b" "txn_type x = Expire" "txn_source_id x = earn_txn_id bk"
  shows "ahead_ok b (L @ [x]) xs"
proof -
  let ?H = "history_of b L" and ?bs = "rebuild_earn_buckets Some (history_of b L)"
  have hist: "own_history_ok [] (?H @ [x])"
    using ledger_own_history [OF L, of b] x by simp
  then have H: "own_history_ok [] ?H" and own: "own_row_ok ?H x"
    by (simp_all add: own_history_ok_append)
  obtain idx where st: "replay Some ?H = (?bs, idx)" and ok: "replay_ok ?H ?bs idx"
    by (rule rebuild_ok [OF H])
  obtain i where i: "i < length ?bs" "earn_txn_id (?bs ! i) = txn_source_id x"
      "apply_expire idx (txn_source_id x) (txn_amount x) ?bs = ?bs[i := closed (?bs ! i)]"
    using apply_expire_hit [OF ok own x(2) _ refl] own_history_sum [OF H] by metis
  have "history_of b (L @ [x]) = ?H @ [x]" using x(1) by simp
  then have "rebuild_earn_buckets Some (history_of b (L @ [x])) = fst (rebuild_step Some x (?bs, idx))"
    by (simp only: rebuild_replay [of Some "?H @ [x]"] replay_simps st)
  then have nxt: "rebuild_earn_buckets Some (history_of b (L @ [x])) = ?bs[i := closed (?bs ! i)]"
    using x(2) i(3) by simp
  have "\<exists>c' \<in> set (?bs[i := closed (?bs ! i)]). earn_txn_id c' = earn_txn_id c \<and> remaining c' = remaining c"
    if c: "c \<in> set xs" for c
  proof -
    from ahead c obtain c' where c': "c' \<in> set ?bs" "earn_txn_id c' = earn_txn_id c"
        "remaining c' = remaining c"
      unfolding ahead_ok_def by (meson list.set_intros(2))
    from c' obtain j where j: "j < length ?bs" "?bs ! j = c'" by (auto simp: in_set_conv_nth)
    have "earn_txn_id c \<noteq> earn_txn_id bk"
      using ahead c by (simp add: ahead_ok_def) (metis image_eqI)
    with i(2) x(3) c' j have "j \<noteq> i" by auto
    then have "?bs[i := closed (?bs ! i)] ! j = c'" using j by simp
    with j(1) c' show ?thesis by (metis length_list_update nth_mem)
  qed
  then show ?thesis
    using ahead unfolding ahead_ok_def nxt by (auto simp: buckets_nonneg_def)
qed

lemma expire_loop_tl:
  assumes "expire_loop b t s all (bk # xs) acc w" and "store w' = store w"
    and "aborted w' \<or> \<not> aborted w \<and> \<not> bucket_due t bk"
  shows "expire_loop b t s all xs acc w'"
proof -
  from assms(1) obtain L' dn running written tot where I:
    "acc = (running, written, tot)" "all = dn @ (bk # xs)"
    "accounts (store w) = accounts s" "reservations (store w) = reservations s"
    "ledger (store w) = ledger s @ L'" "ledger_ok (ledger s @ L')" "expire_rows_of b L'"
    "ledger_sum b L' = - tot" "running = ledger_sum b (ledger s) - tot" "0 \<le> tot"
    "bucket_sum (bk # xs) \<le> running" "in_i64 (ledger_sum b (ledger s))"
    "ahead_ok b (ledger s @ L') (bk # xs)" "aborted w \<or> behind_ok t (ledger s @ L') dn tot"
    unfolding expire_loop_def by blast
  have "bucket_sum xs \<le> running"
    using I(11,13) by (auto simp: ahead_ok_def buckets_nonneg_def)
  moreover have "aborted w' \<or> behind_ok t (ledger s @ L') (dn @ [bk]) tot"
    using assms(3) I(14) by (auto simp: behind_ok_def due_sum_def)
  ultimately show ?thesis
    unfolding expire_loop_def using I assms(2) ahead_ok_tl [OF I(13)]
    by (intro exI [of _ L'] exI [of _ "dn @ [bk]"] exI [of _ running] exI [of _ written]
        exI [of _ tot]) simp
qed

lemma expire_loop_write:
  assumes I: "expire_loop b t s all (bk # xs) (running, written, tot) w"
    and w: "\<not> aborted w" and due: "bucket_due t bk"
    and fresh: "txn_id x \<notin> set (map txn_id (ledger (store w)))"
      "idem_key x \<notin> set (map idem_key (ledger (store w)))"
    and x: "txn_buyer x = b" "idem_key x = expire_key (earn_txn_id bk)" "txn_amount x = - remaining bk"
      "balance_after x = i64 (running - remaining bk)"
    and w': "store w' = (store w)\<lparr>ledger := ledger (store w) @ [x]\<rparr>"
  shows "expire_loop b t s all xs
           (i64 (running - remaining bk), Suc written, i64 (tot + remaining bk)) w'"
proof -
  from I w obtain L' dn where I:
    "all = dn @ (bk # xs)"
    "accounts (store w) = accounts s" "reservations (store w) = reservations s"
    "ledger (store w) = ledger s @ L'" "ledger_ok (ledger s @ L')" "expire_rows_of b L'"
    "ledger_sum b L' = - tot" "running = ledger_sum b (ledger s) - tot" "0 \<le> tot"
    "bucket_sum (bk # xs) \<le> running" "in_i64 (ledger_sum b (ledger s))"
    "ahead_ok b (ledger s @ L') (bk # xs)" "behind_ok t (ledger s @ L') dn tot"
    unfolding expire_loop_def by blast
  have ty: "txn_type x = Expire" "txn_source_type x = ExpirationJob" "txn_source_id x = earn_txn_id bk"
    using x(2) by (simp_all add: idem_key_def expire_key_def)
  have rem: "0 \<le> remaining bk" and xs: "0 \<le> bucket_sum xs"
    using I(12) by (auto simp: ahead_ok_def buckets_nonneg_def intro: bucket_sum_nonneg)
  have bnd: "remaining bk \<le> running" using I(10) xs by simp
  have i1: "i64 (running - remaining bk) = running - remaining bk"
    using bnd rem I(8,9,11) by (intro i64_id) (auto simp: in_i64_def)
  have i2: "i64 (tot + remaining bk) = tot + remaining bk"
    using bnd rem I(8,9,11) by (intro i64_id) (auto simp: in_i64_def)
  have "row_follows (ledger s @ L') x"
  proof -
    have "closes_bucket (ledger s @ L') x"
      using I(12) x ty by (auto simp: closes_bucket_def ahead_ok_def)
    moreover have "ledger_sum b (ledger s @ L' @ [x]) = running - remaining bk"
      using I(7,8) x by (simp add: ledger_sum_def)
    moreover have "in_i64 (running - remaining bk)" by (metis i1 in_i64_i64)
    ultimately show ?thesis using x(1,4) i1 bnd by (simp add: row_follows_def)
  qed
  then have L: "ledger_ok ((ledger s @ L') @ [x])"
    unfolding ledger_ok_append using I(4,5) fresh ty x(3) rem by auto
  have "behind_ok t (ledger s @ L' @ [x]) (dn @ [bk]) (tot + remaining bk)"
    using I(13) due x(2) by (auto simp: behind_ok_def due_sum_def has_expire_row_def)
  then show ?thesis
    unfolding expire_loop_def i1 i2
    using I ahead_ok_write [OF I(12) L x(1) ty(1) ty(3)] L w' ty x rem
    by (intro exI [of _ "L' @ [x]"] exI [of _ "dn @ [bk]"] exI [of _ "running - remaining bk"]
        exI [of _ "Suc written"] exI [of _ "tot + remaining bk"])
      (auto simp: expire_rows_of_def ledger_sum_def)
qed

lemma expire_bucket_loop:
  assumes "expire_loop b t s all (bk # xs) acc w"
  shows "wp (expire_bucket cfg b t bk acc) (\<lambda>acc' w'. expire_loop b t s all xs acc' w') w"
proof -
  obtain running written tot where acc: "acc = (running, written, tot)" by (cases acc)
  show ?thesis
    unfolding expire_bucket_def acc prod.case
    apply (intro wp_intros)
    subgoal
      by (rule expire_loop_tl [OF assms [unfolded acc]]) auto
    subgoal premises p for i w1
      apply (rule wp_catchI)
       apply (intro wp_intros)
      subgoal for x w2
        by (rule expire_loop_write [where w = w1 and x = x])
          (use assms p in \<open>auto simp: acc expire_loop_def row_eval expire_key_def\<close>)
      apply (drule bind_return_error)
      apply (intro wp_intros)
      subgoal for e w2
        by (rule expire_loop_tl [OF assms [unfolded acc]])
          (use p insert_transaction_error in fastforce)+
      done
    done
qed

text \<open>What the pass leaves for its buyer when it commits.\<close>

definition expiry_done :: "string \<Rightarrow> instant \<Rightarrow> loyalty_db \<Rightarrow> loyalty_db \<Rightarrow> int \<Rightarrow> bool" where
  "expiry_done b t s s' tot \<longleftrightarrow>
     tot = due_sum t (rebuild_earn_buckets Some (history_of b (ledger s)))
     \<and> balance (account_of s' b) = balance (account_of s b) - tot
     \<and> (\<forall>x \<in> set (ledger s'). txn_buyer x = b \<longrightarrow> \<not> unprocessed_earn t (ledger s') x)"

lemma behind_ok_processed:
  assumes L: "ledger_ok (L0 @ L')" and L': "expire_rows_of b L'"
    and beh: "behind_ok t (L0 @ L') (rebuild_earn_buckets Some (history_of b L0)) tot"
    and x: "x \<in> set (L0 @ L')" "txn_buyer x = b"
  shows "\<not> unprocessed_earn t (L0 @ L') x"
proof
  assume un: "unprocessed_earn t (L0 @ L') x"
  then have ty: "txn_type x = Earn" and exp: "\<exists>e. txn_expires_at x = Some e \<and> e < t"
    and none: "\<not> has_expire_row (L0 @ L') (txn_id x)"
    by (auto simp: unprocessed_earn_def has_expire_row_def expire_key_def list_ex_iff split: option.splits)
  have "x \<in> set (history_of b L0)"
    using x ty L' by (auto simp: history_of_def expire_rows_of_def)
  moreover have "own_history_ok [] (history_of b L0)"
    using ledger_own_history [OF L, of b] by (simp add: own_history_ok_append)
  then have tags: "tags_ok (history_of b L0)
      (set (map bucket_tag (rebuild_earn_buckets Some (history_of b L0))))"
    by (rule tags_ok_replay)
  ultimately obtain bk where bk: "bk \<in> set (rebuild_earn_buckets Some (history_of b L0))"
      "earn_txn_id bk = txn_id x" "expires_at bk = txn_expires_at x"
    using ty by (fastforce simp: tags_ok_def bucket_tag_def)
  show False
  proof (cases "has_prior_expire bk")
    case True
    then have "(txn_id x, txn_expires_at x, True)
        \<in> set (map bucket_tag (rebuild_earn_buckets Some (history_of b L0)))"
      using bk by (force simp: bucket_tag_def)
    then have "expire_key (txn_id x) \<in> set (map idem_key (history_of b L0))"
      using tags unfolding tags_ok_def by blast
    with none show False by (auto simp: has_expire_row_def history_of_def)
  next
    case False
    then have "bucket_due t bk" using bk exp by (auto simp: bucket_due_def)
    with beh bk none show False by (auto simp: behind_ok_def)
  qed
qed

lemma expire_loop_start:
  assumes inv: "loyalty_inv s" and w: "store w = s"
  shows "expire_loop b t s (rebuild_earn_buckets Some (history_of b (ledger s)))
           (rebuild_earn_buckets Some (history_of b (ledger s))) (ledger_sum b (ledger s), 0, 0) w"
proof -
  let ?H = "history_of b (ledger s)"
  have H: "own_history_ok [] ?H"
    using inv by (auto simp: loyalty_inv_def intro: ledger_own_history)
  obtain idx where ok: "replay_ok ?H (rebuild_earn_buckets Some ?H) idx" by (rule rebuild_ok [OF H])
  have "distinct (map txn_id ?H)"
    using inv by (auto simp: loyalty_inv_def ledger_ok_def history_of_def intro: distinct_map_filter)
  then have "distinct (map earn_txn_id (rebuild_earn_buckets Some ?H))"
    using ok by (auto simp: replay_ok_def intro: distinct_map_filter)
  then have "ahead_ok b (ledger s) (rebuild_earn_buckets Some ?H)"
    using ok by (auto simp: ahead_ok_def replay_ok_def)
  then show ?thesis
    unfolding expire_loop_def
    using inv w ok account_in_i64 [OF inv, of b]
    by (auto simp: behind_ok_def due_sum_def expire_rows_of_def loyalty_inv_def replay_ok_def
        amount_sum_history sum_defs intro!: exI [of _ "[]"])
qed

text \<open>The end of the pass: with the delta applied, or nothing to apply.\<close>

lemma expire_finish_inv:
  assumes inv: "loyalty_inv s" and a: "accounts s b = Some a"
    and L: "ledger_ok (ledger s @ L')" "expire_rows_of b L'" "ledger_sum b L' = - tot"
    and chk: "check_account (delta_account t (no_delta\<lparr>balance_delta := - tot\<rparr>) a) = None"
    and s': "accounts s' = (accounts s)(b \<mapsto> delta_account t (no_delta\<lparr>balance_delta := - tot\<rparr>) a)"
      "reservations s' = reservations s" "ledger s' = ledger s @ L'"
  shows "loyalty_inv s'"
proof -
  have "accounts_ok s'"
    by (rule accounts_ok_step [of s b a t "no_delta\<lparr>balance_delta := - tot\<rparr>" s' L'])
      (use assms expire_rows_sums [OF L(2)] in
        \<open>auto simp: loyalty_inv_def check_account_None no_delta_def expire_rows_of_def\<close>)
  then show ?thesis
    using inv L s' by (simp add: loyalty_inv_def reservations_ok_expire_rows)
qed

lemma expire_markers_inv:
  assumes inv: "loyalty_inv s" and L: "ledger_ok (ledger s @ L')" "expire_rows_of b L'" "ledger_sum b L' = 0"
    and s': "accounts s' = accounts s" "reservations s' = reservations s" "ledger s' = ledger s @ L'"
  shows "loyalty_inv s'"
proof -
  have "account_ok (ledger s') (reservations s') c (account_of s' c)" for c
  proof -
    have "ledger_sum c L' = 0" "earned_sum c L' = 0" "redeemed_sum c L' = 0"
      using expire_rows_sums [OF L(2)] L(3) by (cases "c = b"; simp)+
    moreover have "account_ok (ledger s) (reservations s) c (account_of s c)"
      using inv by (simp add: loyalty_inv_def accounts_ok_def)
    ultimately show ?thesis using s' by (simp add: account_ok_def account_of_def sum_defs)
  qed
  then show ?thesis
    using inv L s' by (simp add: loyalty_inv_def accounts_ok_def reservations_ok_expire_rows)
qed

lemma parses_ids_history: "parses_ids parse L \<Longrightarrow> parses_ids parse (history_of b L)"
  by (auto simp: parses_ids_def history_of_def)

lemma rebuild_parse:
  assumes "loyalty_inv s" and "parses_ids parse (ledger s)"
  shows "rebuild_earn_buckets parse (history_of b (ledger s))
       = rebuild_earn_buckets Some (history_of b (ledger s))"
proof -
  have "own_history_ok [] (history_of b (ledger s))"
    using assms(1) by (auto simp: loyalty_inv_def intro: ledger_own_history)
  with replay_parse [OF this parses_ids_history [OF assms(2)]] show ?thesis
    by (simp add: rebuild_replay)
qed

lemma wp_list_chronological [wp_intros]:
  "(\<And>w'. store w' = store w \<Longrightarrow> clock w' = clock w \<Longrightarrow> Q (history_of b (ledger (store w))) w')
   \<Longrightarrow> wp (list_by_buyer_chronological b) Q w"
  unfolding list_by_buyer_chronological_def history_of_def by (intro wp_intros)

definition expiry_post ::
  "string \<Rightarrow> instant \<Rightarrow> loyalty_db \<Rightarrow> int \<times> nat \<times> int \<Rightarrow> loyalty_db world \<Rightarrow> bool" where
  "expiry_post b t s r w \<longleftrightarrow> loyalty_inv (store w) \<and>
     (\<exists>L'. ledger (store w) = ledger s @ L' \<and> expire_rows_of b L') \<and>
     (\<not> aborted w \<longrightarrow> expiry_done b t s (store w) (snd (snd r)))"

lemma expire_points_tx_post:
  assumes inv: "loyalty_inv (store w)" and parse: "parses_ids (uuid_parse cfg) (ledger (store w))"
  shows "wp (expire_points_tx cfg b t) (expiry_post b t (store w)) w"
  unfolding expire_points_tx_def Let_def
  apply (intro wp_intros)
  subgoal premises p for a w1 w2
  proof -
    let ?s = "store w1" and ?all = "rebuild_earn_buckets Some (history_of b (ledger (store w1)))"
    have inv1: "loyalty_inv ?s" and L1: "ledger ?s = ledger (store w)"
      using p inv by (simp_all add: upsert_account_inv)
    have all: "rebuild_earn_buckets (uuid_parse cfg) (history_of b (ledger ?s)) = ?all"
      using inv1 parse L1 by (intro rebuild_parse) simp_all
    have a: "accounts ?s b = Some a" and bal: "balance a = ledger_sum b (ledger ?s)"
      using p account_balance [OF inv1, of b] by (simp_all add: account_of_def)
    have bal0: "balance (account_of (store w) b) = balance a"
      using account_balance [OF inv, of b] bal L1 by simp
    show ?thesis
      unfolding all bal
      apply (rule wp_for [where I = "expire_loop b t ?s ?all"])
        apply (rule expire_loop_start [OF inv1])
        apply (use p in simp)
       apply (erule expire_bucket_loop)
      apply (intro wp_intros)
      subgoal for acc w3 running rest written tot
        using expire_markers_inv [OF inv1] behind_ok_processed [of "ledger ?s" _ b t tot] bal bal0 a L1
        by (auto simp: expire_loop_def expiry_post_def expiry_done_def behind_ok_def account_of_def)
      subgoal for acc w3 running rest written tot a' w4
        using expire_finish_inv [OF inv1 a, of _ tot "clock w3" "store w4"]
          behind_ok_processed [of "ledger ?s" _ b t tot] bal bal0 a L1
        by (auto simp: expire_loop_def expiry_post_def expiry_done_def behind_ok_def account_of_def
            delta_account_def no_delta_def)
      done
  qed
  done

end
