(* ===== verification/Transport.thy ===== *)
theory Transport
  imports Database
begin

text \<open>
  The transport layer the services share: pkg/httputil (JSON and error responses, request
  decoding), pkg/pagination, and the gRPC status codes the servers answer with. A handler is a
  transactional operation whose result is always a response: its errors are answers too.
\<close>

subsection \<open>HTTP\<close>

datatype response = Response (resp_status: nat) (resp_body: "json option")

definition error_body :: "string \<Rightarrow> string \<Rightarrow> json" where
  "error_body c m = JObj ((if c = '''' then [] else [(''code'', JStr c)]) @ [(''error'', JStr m)])"

fun http_error :: "'d error \<Rightarrow> response" where
  "http_error (AppError st c m e) = Response st (Some (error_body c m))"
| "http_error e = Response 500 (Some (error_body '''' ''internal server error''))"

text \<open>
  \<open>httputil.Decode\<close>: the body is missing, the decoder rejects it with a text, or it yields a
  request.
\<close>

definition http_decode :: "(string + 'r) option \<Rightarrow> 'd error + 'r" where
  "http_decode body =
     (case body of
        None \<Rightarrow> Inl (bad_request ''empty request body'')
      | Some (Inl text) \<Rightarrow> Inl (bad_request (''invalid request body: '' @ text))
      | Some (Inr r) \<Rightarrow> Inr r)"

text \<open>\<open>x, err := m; if err != nil { Error(w, g(err)); return }; JSON(w, \<dots>)\<close>.\<close>

definition respond ::
  "('d error \<Rightarrow> 'd error) \<Rightarrow> ('s, 'd, 'a) tx \<Rightarrow> ('a \<Rightarrow> response) \<Rightarrow> ('s, 'd, response) tx" where
  "respond g m f w =
     (case m w of
        (Inl e, w') \<Rightarrow> (Inr (http_error (g e)), w')
      | (Inr x, w') \<Rightarrow> (Inr (f x), w'))"

definition answer :: "response \<Rightarrow> ('s, 'd, response) tx" where
  "answer r = tx_return r"

subsection \<open>Pagination\<close>

text \<open>
  \<open>FromRequest\<close>; a query parameter is absent (\<open>None\<close>), not a number (\<open>Some None\<close>) or a number.
\<close>

definition page_from_request :: "int option option \<Rightarrow> int option option \<Rightarrow> int \<times> int" where
  "page_from_request lim off =
     (let l = (case lim of Some (Some v) \<Rightarrow> if v > 0 then v else 20 | _ \<Rightarrow> 20);
          l = (if l > 100 then 100 else l);
          o' = (case off of Some (Some v) \<Rightarrow> if v \<ge> 0 then v else 0 | _ \<Rightarrow> 0)
      in (l, o'))"

lemma page_bounds: "page_from_request lim off = (l, o') \<Longrightarrow> 1 \<le> l \<and> l \<le> 100 \<and> 0 \<le> o'"
  by (auto simp: page_from_request_def Let_def split: option.splits if_splits)

text \<open>
  The shapes the handlers share: an error or a status object, optional JSON fields, a list that is
  \<open>null\<close> when the Go slice is nil, a page of rows, a path parameter that has to parse, a body that has
  to decode.
\<close>

definition error_answer :: "nat \<Rightarrow> string \<Rightarrow> response" where
  "error_answer st msg = Response st (Some (JObj [(''error'', JStr msg)]))"

definition status_body :: "string \<Rightarrow> response" where
  "status_body s = Response 200 (Some (JObj [(''status'', JStr s)]))"

definition omit_empty :: "string \<Rightarrow> string \<Rightarrow> (string \<times> json) list" where
  "omit_empty k s = (if s = '''' then [] else [(k, JStr s)])"

definition omit_none :: "string \<Rightarrow> ('a \<Rightarrow> json) \<Rightarrow> 'a option \<Rightarrow> (string \<times> json) list" where
  "omit_none k f x = (case x of None \<Rightarrow> [] | Some y \<Rightarrow> [(k, f y)])"

definition json_list_or_null :: "json list \<Rightarrow> json" where
  "json_list_or_null xs = (if xs = [] then JNull else JList xs)"

definition page_answer :: "('a \<Rightarrow> json) \<Rightarrow> int \<times> int \<Rightarrow> 'a list \<times> nat \<Rightarrow> response" where
  "page_answer f p r = Response 200 (Some (JObj
     [(''items'', json_list_or_null (map f (fst r))), (''total'', JInt (int (snd r))),
      (''limit'', JInt (fst p)), (''offset'', JInt (snd p))]))"

definition parsed :: "(string \<Rightarrow> uuid option) \<Rightarrow> string \<Rightarrow> string \<Rightarrow> (uuid \<Rightarrow> ('s, 'd, response) tx) \<Rightarrow> ('s, 'd, response) tx" where
  "parsed parse raw msg h = (case parse raw of None \<Rightarrow> answer (error_answer 400 msg) | Some i \<Rightarrow> h i)"

definition decoded :: "(string + 'r) option \<Rightarrow> ('r \<Rightarrow> ('s, 'd, response) tx) \<Rightarrow> ('s, 'd, response) tx" where
  "decoded body h =
     (case (http_decode body :: 'd error + 'r) of Inl e \<Rightarrow> answer (http_error e) | Inr r \<Rightarrow> h r)"

subsection \<open>gRPC\<close>

datatype grpc_code =
  GrpcInvalidArgument | GrpcNotFound | GrpcAlreadyExists | GrpcPermissionDenied
| GrpcFailedPrecondition | GrpcUnauthenticated | GrpcInternal
| GrpcResourceExhausted | GrpcUnavailable | GrpcUnimplemented

type_synonym 'a grpc_result = "grpc_code + 'a"

definition grpc_respond ::
  "('d error \<Rightarrow> grpc_code) \<Rightarrow> ('s, 'd, 'a) tx \<Rightarrow> ('a \<Rightarrow> 'b) \<Rightarrow> ('s, 'd, 'b grpc_result) tx" where
  "grpc_respond g m f w =
     (case m w of
        (Inl e, w') \<Rightarrow> (Inr (Inl (g e)), w')
      | (Inr x, w') \<Rightarrow> (Inr (Inr (f x)), w'))"

subsection \<open>Handlers keep what their use cases keep\<close>

lemma keeps_respond [keeps_intros]: "keeps I m \<Longrightarrow> keeps I (respond g m f)"
  by (auto simp: keeps_def respond_def split: prod.splits sum.splits)

lemma keeps_answer [keeps_intros]: "keeps I (answer r)"
  by (simp add: answer_def keeps_return)

lemma keeps_grpc_respond [keeps_intros]: "keeps I m \<Longrightarrow> keeps I (grpc_respond g m f)"
  by (auto simp: keeps_def grpc_respond_def split: prod.splits sum.splits)

lemma keeps_case_sum [keeps_intros]:
  "(\<And>a. keeps I (f a)) \<Longrightarrow> (\<And>b. keeps I (g b)) \<Longrightarrow> keeps I (case x of Inl a \<Rightarrow> f a | Inr b \<Rightarrow> g b)"
  by (cases x) auto

lemma keeps_parsed [keeps_intros]: "(\<And>i. keeps I (h i)) \<Longrightarrow> keeps I (parsed parse raw msg h)"
  unfolding parsed_def by (intro keeps_intros)

lemma keeps_decoded [keeps_intros]: "(\<And>r. keeps I (h r)) \<Longrightarrow> keeps I (decoded body h)"
  unfolding decoded_def by (intro keeps_intros)

text \<open>
  \<open>fails_clean m\<close>: an error of \<open>m\<close> leaves the tables as they were; \<open>errors_clean m\<close> says so of
  a handler whose answer is an error status.
\<close>

definition fails_clean :: "('s, 'd, 'a) tx \<Rightarrow> bool" where
  "fails_clean m \<longleftrightarrow> (\<forall>w e w'. m w = (Inl e, w') \<longrightarrow> store w' = store w)"

lemma fails_cleanD: "fails_clean m \<Longrightarrow> m w = (Inl e, w') \<Longrightarrow> store w' = store w"
  by (auto simp: fails_clean_def)

lemma fails_clean_simps [keeps_intros]:
  "fails_clean (tx_throw e)" "fails_clean (tx_return x)" "fails_clean (run_tx body)"
  by (auto simp: fails_clean_def tx_throw_def tx_return_def run_tx_error_frame)

lemma fails_clean_map_error [keeps_intros]: "fails_clean m \<Longrightarrow> fails_clean (tx_map_error f m)"
  by (auto simp: fails_clean_def tx_map_error_def tx_catch_def tx_throw_def split: prod.splits sum.splits)

lemma fails_clean_bind:
  "fails_clean m \<Longrightarrow> (\<And>x w e w'. f x w \<noteq> (Inl e, w')) \<Longrightarrow> fails_clean (tx_bind m f)"
  by (fastforce simp: fails_clean_def tx_bind_def split: prod.splits sum.splits)

text \<open>After an operation that only reads, the rest decides.\<close>

lemma fails_clean_bind_read:
  assumes "\<And>I. keeps I m" and "\<And>x. fails_clean (f x)"
  shows "fails_clean (tx_bind m f)"
  unfolding fails_clean_def
proof (intro allI impI)
  fix w :: "'a world" and e w'
  assume fail: "tx_bind m f w = (Inl e, w')"
  obtain r w1 where m: "m w = (r, w1)" by fastforce
  have same: "store w1 = store w" using keepsD [OF assms(1) [of "\<lambda>s. s = store w"], of w] m by simp
  show "store w' = store w"
  proof (cases r)
    case (Inl e1)
    with fail m same show ?thesis by (simp add: tx_bind_def)
  next
    case (Inr x)
    with fail m have "f x w1 = (Inl e, w')" by (simp add: tx_bind_def)
    with assms(2) [of x] have "store w' = store w1" unfolding fails_clean_def by blast
    with same show ?thesis by simp
  qed
qed

lemma fails_clean_bind_after:
  assumes "fails_clean m"
    and "\<And>w x w1 e w'. m w = (Inr x, w1) \<Longrightarrow> f x w1 = (Inl e, w') \<Longrightarrow> store w' = store w"
  shows "fails_clean (tx_bind m f)"
  unfolding fails_clean_def
proof (intro allI impI)
  fix w :: "'a world" and e w'
  assume fail: "tx_bind m f w = (Inl e, w')"
  obtain r w1 where m: "m w = (r, w1)" by fastforce
  show "store w' = store w"
  proof (cases r)
    case (Inl e1)
    with fail m have "m w = (Inl e, w')" by (simp add: tx_bind_def)
    with assms(1) show ?thesis unfolding fails_clean_def by blast
  next
    case (Inr x)
    with fail m have "m w = (Inr x, w1)" "f x w1 = (Inl e, w')" by (simp_all add: tx_bind_def)
    then show ?thesis by (rule assms(2))
  qed
qed

lemma fails_clean_if [keeps_intros]:
  "(c \<Longrightarrow> fails_clean m) \<Longrightarrow> (\<not> c \<Longrightarrow> fails_clean n) \<Longrightarrow> fails_clean (if c then m else n)"
  by simp

lemma fails_clean_Let [keeps_intros]: "fails_clean (f v) \<Longrightarrow> fails_clean (Let v f)"
  by simp

definition errors_clean :: "('s, 'd, response) tx \<Rightarrow> bool" where
  "errors_clean h \<longleftrightarrow>
     (\<forall>w r w'. h w = (Inr r, w') \<longrightarrow> 400 \<le> resp_status r \<longrightarrow> store w' = store w)"

lemma errors_clean_respond [keeps_intros]:
  "fails_clean m \<Longrightarrow> (\<And>x. resp_status (f x) < 400) \<Longrightarrow> errors_clean (respond g m f)"
  by (auto simp: errors_clean_def fails_clean_def respond_def not_le [symmetric]
      split: prod.splits sum.splits)

lemma errors_clean_answer [keeps_intros]: "errors_clean (answer r)"
  by (auto simp: errors_clean_def answer_def tx_return_def)

lemma errors_clean_if [keeps_intros]:
  "(c \<Longrightarrow> errors_clean m) \<Longrightarrow> (\<not> c \<Longrightarrow> errors_clean n) \<Longrightarrow> errors_clean (if c then m else n)"
  by simp

lemma errors_clean_case_sum [keeps_intros]:
  "(\<And>a. errors_clean (f a)) \<Longrightarrow> (\<And>b. errors_clean (g b)) \<Longrightarrow>
   errors_clean (case x of Inl a \<Rightarrow> f a | Inr b \<Rightarrow> g b)"
  by (cases x) auto

lemma errors_clean_case_option [keeps_intros]:
  "errors_clean m \<Longrightarrow> (\<And>b. errors_clean (g b)) \<Longrightarrow>
   errors_clean (case x of None \<Rightarrow> m | Some b \<Rightarrow> g b)"
  by (cases x) auto

lemma errors_clean_case_prod [keeps_intros]:
  "(\<And>a b. errors_clean (f a b)) \<Longrightarrow> errors_clean (case p of (a, b) \<Rightarrow> f a b)"
  by (cases p) auto

end
