(* ===== verification/Loyalty_Edge.thy ===== *)
theory Loyalty_Edge
  imports Loyalty_Service Transport
begin

text \<open>
  Loyalty service, adapters: the in-cluster and buyer HTTP handlers (internal/adapter/http), the
  gRPC server (internal/adapter/grpc) and the order-events subscriber (internal/adapter/pubsub).
  URL parameters, headers and decoded bodies are arguments.
\<close>

subsection \<open>HTTP\<close>

fun loyalty_message :: "loyalty_err \<Rightarrow> string" where
  "loyalty_message ErrAccountNotFound = ''point account not found''"
| "loyalty_message ErrInsufficientPoints = ''insufficient point balance''"
| "loyalty_message ErrReservationNotFound = ''point reservation not found''"
| "loyalty_message ErrReservationAlreadyTerminal = ''point reservation no longer pending''"
| "loyalty_message ErrInvalidAmount = ''invalid point amount''"
| "loyalty_message ErrDuplicateIdempotencyKey = ''duplicate idempotency key''"
| "loyalty_message ErrOptimisticLock = ''optimistic lock contention''"
| "loyalty_message ErrExpirationInvariant = ''expiration invariant violated''"

definition loyalty_map_error :: "loyalty_err error \<Rightarrow> loyalty_err error" where
  "loyalty_map_error e =
     (case as_app_error e of Some a \<Rightarrow> a | None \<Rightarrow>
      if errors_is e (Sentinel ErrAccountNotFound) then not_found (loyalty_message ErrAccountNotFound)
      else if errors_is e (Sentinel ErrInsufficientPoints) then
        with_code (bad_request (loyalty_message ErrInsufficientPoints)) ''INSUFFICIENT_POINTS''
      else if errors_is e (Sentinel ErrReservationNotFound) then
        not_found (loyalty_message ErrReservationNotFound)
      else if errors_is e (Sentinel ErrReservationAlreadyTerminal) then
        with_code (conflict (loyalty_message ErrReservationAlreadyTerminal)) ''RESERVATION_TERMINAL''
      else if errors_is e (Sentinel ErrInvalidAmount) then
        bad_request (loyalty_message ErrInvalidAmount)
      else AppError 500 '''' ''internal error'' (Some e))"

type_synonym loyalty_handler = "(loyalty_db, loyalty_err, response) tx"

record earn_request =
  er_buyer :: string
  er_order_id :: string
  er_paid_subtotal :: int

definition handle_award_earn :: "loyalty_cfg \<Rightarrow> (string + earn_request) option \<Rightarrow> loyalty_handler" where
  "handle_award_earn cfg body =
     (case http_decode body of
        Inl e \<Rightarrow> answer (http_error (e :: loyalty_err error))
      | Inr req \<Rightarrow>
          if er_buyer req = '''' \<or> er_order_id req = '''' then
            answer (http_error (bad_request ''buyer_auth0_id and order_id are required'' :: loyalty_err error))
          else respond loyalty_map_error
            (award_earn cfg (er_buyer req) (er_order_id req) (er_paid_subtotal req))
            (\<lambda>r. case r of
                   None \<Rightarrow> Response 204 None
                 | Some x \<Rightarrow> Response 200 (Some (JObj
                     [(''transaction_id'', JStr (txn_id x)), (''amount'', JInt (txn_amount x)),
                      (''balance_after'', JInt (balance_after x))]))))"

record reserve_request =
  rr_buyer :: string
  rr_amount :: int

definition handle_reserve :: "loyalty_cfg \<Rightarrow> (string + reserve_request) option \<Rightarrow> loyalty_handler" where
  "handle_reserve cfg body =
     (case http_decode body of
        Inl e \<Rightarrow> answer (http_error (e :: loyalty_err error))
      | Inr req \<Rightarrow>
          if rr_buyer req = '''' \<or> rr_amount req \<le> 0 then
            answer (http_error (bad_request ''buyer_auth0_id and positive amount are required'' :: loyalty_err error))
          else respond loyalty_map_error (reserve_points cfg (rr_buyer req) (rr_amount req))
            (\<lambda>r. Response 200 (Some (JObj
                   [(''reservation_id'', JStr (rsv_id r)), (''amount'', JInt (rsv_amount r)),
                    (''expires_at'', JInt (rsv_expires_at r))]))))"

record commit_request =
  cr_order_id :: string
  cr_payment_intent_id :: string
  cr_paid_subtotal :: int

definition handle_commit ::
  "loyalty_cfg \<Rightarrow> string \<Rightarrow> (string + commit_request) option \<Rightarrow> loyalty_handler" where
  "handle_commit cfg id_param body =
     (case uuid_parse cfg id_param of
        None \<Rightarrow> answer (http_error (bad_request ''reservation id is not a valid UUID'' :: loyalty_err error))
      | Some i \<Rightarrow>
     (case http_decode body of
        Inl e \<Rightarrow> answer (http_error (e :: loyalty_err error))
      | Inr req \<Rightarrow>
          if cr_order_id req = '''' then
            answer (http_error (bad_request ''order_id is required'' :: loyalty_err error))
          else respond loyalty_map_error
            (commit_points_reservation cfg i (cr_order_id req) (cr_paid_subtotal req))
            (\<lambda>r. Response 200 (Some (JObj
                   [(''redeemed'', JInt (redeemed r)), (''earned'', JInt (earned r)),
                    (''new_balance'', JInt (new_balance r)),
                    (''already_committed'', JBool (already_committed r))])))))"

text \<open>The body of a release is optional; a body that does not decode is read as empty.\<close>

definition handle_release :: "loyalty_cfg \<Rightarrow> string \<Rightarrow> loyalty_handler" where
  "handle_release cfg id_param =
     (case uuid_parse cfg id_param of
        None \<Rightarrow> answer (http_error (bad_request ''reservation id is not a valid UUID'' :: loyalty_err error))
      | Some i \<Rightarrow> respond loyalty_map_error (release_points_reservation cfg i)
                   (\<lambda>b. Response 200 (Some (JObj [(''released'', JBool b)]))))"

definition balance_body :: "account \<Rightarrow> json" where
  "balance_body a = JObj
     [(''buyer_auth0_id'', JStr (acct_buyer a)), (''balance'', JInt (balance a)),
      (''pending_redemption'', JInt (pending_redemption a)), (''spendable'', JInt (spendable a)),
      (''lifetime_earned'', JInt (lifetime_earned a)),
      (''lifetime_redeemed'', JInt (lifetime_redeemed a)), (''updated_at'', JInt (updated_at a))]"

definition handle_get_balance :: "string \<Rightarrow> loyalty_handler" where
  "handle_get_balance user =
     (if user = '''' then answer (http_error (unauthorized ''missing X-User-ID'' :: loyalty_err error))
      else respond loyalty_map_error (get_balance user) (\<lambda>a. Response 200 (Some (balance_body a))))"

definition handle_admin_get_balance :: "string \<Rightarrow> loyalty_handler" where
  "handle_admin_get_balance b =
     (if b = '''' then answer (http_error (bad_request ''buyer_auth0_id is required'' :: loyalty_err error))
      else respond loyalty_map_error (get_balance b) (\<lambda>a. Response 200 (Some (balance_body a))))"

fun type_text :: "transaction_type \<Rightarrow> string" where
  "type_text Earn = ''earn''"
| "type_text Redeem = ''redeem''"
| "type_text Refund = ''refund''"
| "type_text ReverseEarn = ''reverse_earn''"
| "type_text Adjust = ''adjust''"
| "type_text Expire = ''expire''"

fun source_text :: "source_type \<Rightarrow> string" where
  "source_text OrderPaid = ''order_paid''"
| "source_text ReservationCommit = ''reservation_commit''"
| "source_text OrderCancelled = ''order_cancelled''"
| "source_text AdminAdjust = ''admin_adjust''"
| "source_text ExpirationJob = ''expiration_job''"

definition txn_body :: "transaction \<Rightarrow> json" where
  "txn_body x = JObj (
     [(''id'', JStr (txn_id x)), (''buyer_auth0_id'', JStr (txn_buyer x)),
      (''type'', JStr (type_text (txn_type x))), (''amount'', JInt (txn_amount x)),
      (''balance_after'', JInt (balance_after x)),
      (''source_type'', JStr (source_text (txn_source_type x))),
      (''source_id'', JStr (txn_source_id x))]
     @ (case txn_reservation_id x of None \<Rightarrow> [] | Some i \<Rightarrow> [(''reservation_id'', JStr i)])
     @ (case txn_expires_at x of None \<Rightarrow> [] | Some t \<Rightarrow> [(''expires_at'', JInt t)])
     @ (if txn_note x = '''' then [] else [(''note'', JStr (txn_note x))])
     @ [(''created_at'', JInt (txn_created_at x))])"

text \<open>A query parameter that is missing or not a number reads as 0.\<close>

definition handle_list :: "string \<Rightarrow> int option \<Rightarrow> int option \<Rightarrow> loyalty_handler" where
  "handle_list b lim off =
     respond loyalty_map_error
       (list_transactions b (case lim of None \<Rightarrow> 0 | Some n \<Rightarrow> n) (case off of None \<Rightarrow> 0 | Some n \<Rightarrow> n))
       (\<lambda>(rows, n). Response 200 (Some (JObj
          [(''transactions'', JList (map txn_body rows)), (''total'', JInt (int n))])))"

definition handle_list_transactions :: "string \<Rightarrow> int option \<Rightarrow> int option \<Rightarrow> loyalty_handler" where
  "handle_list_transactions user lim off =
     (if user = '''' then answer (http_error (unauthorized ''missing X-User-ID'' :: loyalty_err error))
      else handle_list user lim off)"

definition handle_admin_list_transactions :: "string \<Rightarrow> int option \<Rightarrow> int option \<Rightarrow> loyalty_handler" where
  "handle_admin_list_transactions b lim off =
     (if b = '''' then answer (http_error (bad_request ''buyer_auth0_id is required'' :: loyalty_err error))
      else handle_list b lim off)"

record adjust_request =
  ar_amount :: int
  ar_reason :: string
  ar_admin :: string

definition handle_admin_adjust :: "string \<Rightarrow> string \<Rightarrow> adjust_request option \<Rightarrow> loyalty_handler" where
  "handle_admin_adjust b user body =
     (if b = '''' then answer (http_error (bad_request ''buyer_auth0_id is required'' :: loyalty_err error))
      else case body of
        None \<Rightarrow> answer (http_error (bad_request ''invalid JSON body'' :: loyalty_err error))
      | Some req \<Rightarrow>
          respond loyalty_map_error
            (adjust_points b (ar_amount req) (ar_reason req)
               (if ar_admin req = '''' then user else ar_admin req))
            (\<lambda>(x, bal). Response 200 (Some (JObj
               [(''transaction'', txn_body x), (''new_balance'', JInt bal)]))))"

subsection \<open>gRPC\<close>

definition loyalty_grpc_error :: "loyalty_err error \<Rightarrow> grpc_code" where
  "loyalty_grpc_error e =
     (if errors_is e (Sentinel ErrInsufficientPoints) then GrpcFailedPrecondition
      else if errors_is e (Sentinel ErrInvalidAmount) then GrpcInvalidArgument
      else if errors_is e (Sentinel ErrAccountNotFound) then GrpcNotFound
      else case as_app_error e of
        None \<Rightarrow> GrpcInternal
      | Some a \<Rightarrow>
         (let is = (\<lambda>t. case unwrap a of None \<Rightarrow> False | Some c \<Rightarrow> errors_is c (Std t)) in
          if is ErrNotFound then GrpcNotFound
          else if is ErrBadRequest then GrpcInvalidArgument
          else if is ErrConflict then GrpcAlreadyExists
          else if is ErrForbidden then GrpcPermissionDenied
          else if is ErrUnauthorized then GrpcUnauthenticated
          else GrpcInternal))"

definition grpc_adjust_points ::
  "string \<Rightarrow> int \<Rightarrow> string \<Rightarrow> string \<Rightarrow> (transaction \<times> int) grpc_result ltx" where
  "grpc_adjust_points b amount reason admin =
     (if b = '''' then tx_return (Inl GrpcInvalidArgument)
      else if amount = 0 then tx_return (Inl GrpcInvalidArgument)
      else if reason = '''' then tx_return (Inl GrpcInvalidArgument)
      else grpc_respond loyalty_grpc_error (adjust_points b amount reason admin) (\<lambda>r. r))"

subsection \<open>Order events\<close>

record order_paid_payload =
  op_order_id :: string
  op_buyer :: string
  op_total_amount :: int
  op_subtotal_before_discounts :: int

record order_cancelled_payload =
  oc_order_id :: string
  oc_buyer :: string
  oc_point_discount :: int
  oc_points_earned :: int

text \<open>The envelope's type and its payload, \<open>Inl\<close> when the payload does not decode.\<close>

datatype order_event =
  OrderPaidEvent "loyalty_err error + order_paid_payload"
| OrderCancelledEvent "loyalty_err error + order_cancelled_payload"
| OtherOrderEvent

definition handle_order_paid :: "loyalty_cfg \<Rightarrow> loyalty_err error + order_paid_payload \<Rightarrow> unit ltx" where
  "handle_order_paid cfg d =
     (case d of
        Inl e \<Rightarrow> tx_throw e
      | Inr p \<Rightarrow>
          if op_buyer p = '''' \<or> op_order_id p = '''' then tx_return ()
          else
            let earn_base = (if op_subtotal_before_discounts p = 0 then op_total_amount p
                             else op_subtotal_before_discounts p)
            in tx_bind (award_earn cfg (op_buyer p) (op_order_id p) earn_base) (\<lambda>_. tx_return ()))"

definition handle_order_cancelled :: "loyalty_err error + order_cancelled_payload \<Rightarrow> unit ltx" where
  "handle_order_cancelled d =
     (case d of
        Inl e \<Rightarrow> tx_throw e
      | Inr p \<Rightarrow>
          if oc_buyer p = '''' \<or> oc_order_id p = '''' then tx_return ()
          else tx_bind (apply_cancellation (oc_buyer p) (oc_order_id p) (oc_point_discount p)
                          (oc_points_earned p)) (\<lambda>_. tx_return ()))"

fun handle_order_event :: "loyalty_cfg \<Rightarrow> order_event \<Rightarrow> unit ltx" where
  "handle_order_event cfg (OrderPaidEvent d) = handle_order_paid cfg d"
| "handle_order_event cfg (OrderCancelledEvent d) = handle_order_cancelled d"
| "handle_order_event cfg OtherOrderEvent = tx_return ()"

end
