(* ===== verification/Contracts.thy ===== *)
theory Contracts
  imports Database
begin

text \<open>
  The contracts the services share, as locales: a service whose operations keep an invariant of
  its tables, and a handler that may be called again for the same event (a webhook replay, a
  redelivery of Pub/Sub, a synchronous call followed by the event) and has its effect once.
\<close>

locale stateful_service =
  fixes start :: "'w \<Rightarrow> bool"
    and step :: "'w \<Rightarrow> 'w \<Rightarrow> bool"
    and inv :: "'w \<Rightarrow> bool"
  assumes start_inv: "start w \<Longrightarrow> inv w"
    and step_inv: "step w w' \<Longrightarrow> inv w \<Longrightarrow> inv w'"
begin

lemma steps_inv: "step\<^sup>*\<^sup>* w w' \<Longrightarrow> inv w \<Longrightarrow> inv w'"
  by (induction rule: rtranclp_induct) (auto intro: step_inv)

lemma reachable_inv: "start w \<Longrightarrow> step\<^sup>*\<^sup>* w w' \<Longrightarrow> inv w'"
  by (blast intro: steps_inv start_inv)

end

text \<open>
  \<open>view\<close> is what the service shows of its tables, \<open>done\<close> recognises a view in which the event has
  been handled, \<open>env\<close> is everything else that may happen between two deliveries.
\<close>

locale at_least_once =
  fixes handle :: "'w \<Rightarrow> ('e + 'a) \<times> 'w"
    and view :: "'w \<Rightarrow> 'v"
    and handled :: "'w \<Rightarrow> bool"
    and env :: "'w \<Rightarrow> 'w \<Rightarrow> bool"
  assumes fail_frame: "handle w = (Inl e, w') \<Longrightarrow> view w' = view w"
    and success_handled: "handle w = (Inr x, w') \<Longrightarrow> handled w'"
    and handled_noop: "handled w \<Longrightarrow> view (snd (handle w)) = view w"
    and handled_stays: "handled w \<Longrightarrow> handled (snd (handle w))"
    and env_handled: "env w w' \<Longrightarrow> handled w \<Longrightarrow> handled w'"
begin

definition evolves :: "'w \<Rightarrow> 'w \<Rightarrow> bool" where
  "evolves w w' \<longleftrightarrow> env w w' \<or> w' = snd (handle w)"

lemma evolves_handled: "evolves\<^sup>*\<^sup>* w w' \<Longrightarrow> handled w \<Longrightarrow> handled w'"
  by (induction rule: rtranclp_induct) (auto simp: evolves_def intro: env_handled handled_stays)

text \<open>Once a delivery has succeeded, no later delivery changes anything.\<close>

lemma exactly_once:
  assumes "handle w = (Inr x, w1)" and "evolves\<^sup>*\<^sup>* w1 w2"
  shows "view (snd (handle w2)) = view w2"
  using assms by (blast intro: handled_noop evolves_handled success_handled)

text \<open>\<open>n\<close> deliveries in a row.\<close>

fun deliver :: "nat \<Rightarrow> 'w \<Rightarrow> 'w" where
  "deliver 0 w = w"
| "deliver (Suc n) w = deliver n (snd (handle w))"

lemma deliver_handled: "handled w \<Longrightarrow> view (deliver n w) = view w"
  by (induction n arbitrary: w) (auto simp: handled_noop handled_stays)

text \<open>
  However many times the event is delivered, the view is the old one or the one after the first
  successful delivery.
\<close>

lemma deliver_once:
  "view (deliver n w) = view w \<or>
   (\<exists>w0 x w1. view w0 = view w \<and> handle w0 = (Inr x, w1) \<and> view (deliver n w) = view w1)"
proof (induction n arbitrary: w)
  case (Suc n)
  obtain r w1 where h: "handle w = (r, w1)" by fastforce
  show ?case
  proof (cases r)
    case (Inl e)
    with h Suc [of w1] fail_frame [of w e w1] show ?thesis by auto
  next
    case (Inr x)
    with h have "handled w1" by (simp add: success_handled)
    with h Inr show ?thesis by (auto simp: deliver_handled)
  qed
qed simp

end

end
