(* ===== verification/Loyalty_Traces.thy ===== *)
theory Loyalty_Traces
  imports Loyalty_Expiry Loyalty_Edge Contracts
begin

text \<open>
  The loyalty service as a state machine whose steps are its use cases, under arbitrary database
  failures: the ledger invariant in every reachable state, the append-only ledger, and the
  exactly-once effect of redelivered events.
\<close>

subsection \<open>Use cases keep the invariant\<close>

lemmas keeps_tx = keeps_if keeps_Let keeps_bind keeps_map_error keeps_run_tx keeps_case_option
  keeps_case_prod keeps_return keeps_throw keeps_publish keeps_now

lemma publish_keeps [keeps_intros]:
  "keeps I (publish_if cfg e)" "keeps I (publish_earned cfg x i)"
  "keeps I (publish_redeemed cfg x i)" "keeps I (publish_expired cfg b n k m)"
  unfolding publish_earned_def publish_redeemed_def publish_expired_def publish_if_def
  by (intro keeps_intros)+

lemma award_earn_keeps: "keeps loyalty_inv (award_earn cfg b order_id paid)"
  unfolding award_earn_def
  by (intro keeps_tx award_earn_tx_inv publish_keeps) auto

lemma reserve_points_keeps: "keeps loyalty_inv (reserve_points cfg b amount)"
  unfolding reserve_points_def by (intro keeps_tx reserve_points_tx_inv)

lemma commit_keeps: "keeps loyalty_inv (commit_points_reservation cfg i order_id paid)"
  unfolding commit_points_reservation_def by (intro keeps_tx commit_tx_inv publish_keeps)

lemma release_keeps: "keeps loyalty_inv (release_points_reservation cfg i)"
  unfolding release_points_reservation_def by (intro keeps_tx release_tx_inv)

lemma cancellation_keeps: "keeps loyalty_inv (apply_cancellation b order_id pd pe)"
  unfolding apply_cancellation_def by (intro keeps_tx apply_cancellation_tx_inv)

lemma adjust_keeps: "keeps loyalty_inv (adjust_points b amount reason admin)"
  unfolding adjust_points_def by (intro keeps_tx adjust_points_tx_inv)

lemma expire_stale_keeps: "keeps loyalty_inv (expire_stale_reservations cfg locked)"
  unfolding expire_stale_reservations_def by (intro keeps_tx expire_stale_reservations_tx_inv)

text \<open>The expiration pass needs the id parser on the ids of the ledger, and keeps that too.\<close>

definition expiry_inv :: "loyalty_cfg \<Rightarrow> loyalty_db \<Rightarrow> bool" where
  "expiry_inv cfg s \<longleftrightarrow> loyalty_inv s \<and> parses_ids (uuid_parse cfg) (ledger s)"

lemma expire_points_for_buyer_keeps: "keeps (expiry_inv cfg) (expire_points_for_buyer cfg b t)"
  unfolding expire_points_for_buyer_def
proof (intro keeps_tx publish_keeps)
  fix w :: "loyalty_db world"
  assume "expiry_inv cfg (store w)"
  then show "wp (expire_points_tx cfg b t) (\<lambda>_ w'. expiry_inv cfg (store w')) w"
    by (intro wp_mono [OF expire_points_tx_post])
      (auto simp: expiry_inv_def expiry_post_def parses_ids_def expire_rows_of_def)
qed

lemma expire_points_keeps: "keeps (expiry_inv cfg) (expire_points cfg)"
  unfolding expire_points_def buyers_with_expired_unprocessed_earn_def
  by (intro keeps_intros expire_points_for_buyer_keeps)

lemma reads_keep: "keeps I (get_balance b)" "keeps I (list_transactions b lim off)"
  unfolding get_balance_def list_transactions_def account_get_def list_by_buyer_def
  by (intro keeps_intros)+

subsection \<open>The state machine\<close>

inductive loyalty_step :: "loyalty_cfg \<Rightarrow> loyalty_db world \<Rightarrow> loyalty_db world \<Rightarrow> bool"
  for cfg where
  environment: "store w' = store w \<Longrightarrow> loyalty_step cfg w w'"
| balance: "loyalty_step cfg w (snd (get_balance b w))"
| history: "loyalty_step cfg w (snd (list_transactions b lim off w))"
| earn: "loyalty_step cfg w (snd (award_earn cfg b order_id paid w))"
| reserve: "loyalty_step cfg w (snd (reserve_points cfg b amount w))"
| commit: "loyalty_step cfg w (snd (commit_points_reservation cfg i order_id paid w))"
| release: "loyalty_step cfg w (snd (release_points_reservation cfg i w))"
| cancel: "loyalty_step cfg w (snd (apply_cancellation b order_id pd pe w))"
| adjust: "loyalty_step cfg w (snd (adjust_points b amount reason admin w))"
| reap: "loyalty_step cfg w (snd (expire_stale_reservations cfg locked w))"
| expire: "parses_ids (uuid_parse cfg) (ledger (store w)) \<Longrightarrow>
     loyalty_step cfg w (snd (expire_points cfg w))"

lemma loyalty_step_inv:
  assumes "loyalty_step cfg w w'" and "loyalty_inv (store w)"
  shows "loyalty_inv (store w')"
  using assms
proof cases
  case expire
  with assms(2) show ?thesis
    using keepsD [OF expire_points_keeps, of cfg w] by (simp add: expiry_inv_def)
qed (use assms(2) in \<open>simp_all add: keepsD [OF reads_keep(1)] keepsD [OF reads_keep(2)]
      keepsD [OF award_earn_keeps] keepsD [OF reserve_points_keeps] keepsD [OF commit_keeps]
      keepsD [OF release_keeps] keepsD [OF cancellation_keeps] keepsD [OF adjust_keeps]
      keepsD [OF expire_stale_keeps]\<close>)

interpretation ls: stateful_service
  "\<lambda>w. store w = empty_loyalty_db" "loyalty_step cfg" "\<lambda>w. loyalty_inv (store w)" for cfg
  by unfold_locales (auto simp: loyalty_inv_empty intro: loyalty_step_inv)

subsection \<open>The ledger is append-only\<close>

definition has_key :: "idem_key \<Rightarrow> loyalty_db \<Rightarrow> bool" where
  "has_key k s \<longleftrightarrow> k \<in> set (map idem_key (ledger s))"

definition has_row :: "transaction \<Rightarrow> loyalty_db \<Rightarrow> bool" where
  "has_row x s \<longleftrightarrow> x \<in> set (ledger s)"

lemma row_keeps_stmts [keeps_intros]:
  "keeps (has_row x) (lock_for_update b)" "keeps (has_row x) (ensure_exists b)"
  "keeps (has_row x) (apply_delta b d v)" "keeps (has_row x) (insert_transaction y)"
  "keeps (has_row x) (insert_reservation r)" "keeps (has_row x) (update_status i e n)"
  "keeps (has_row x) (claim_expired locked lim)"
  unfolding lock_for_update_def ensure_exists_def apply_delta_def insert_transaction_def
    insert_reservation_def update_status_def claim_expired_def Let_def
  by (intro keeps_intros; auto simp: has_row_def upsert_account_def apply_delta_stmt_def Let_def
      insert_transaction_stmt_def insert_reservation_stmt_def split: option.splits if_splits)+

lemma row_keeps_reads [keeps_intros]:
  "keeps (has_row x) (by_idempotency st sid ty)" "keeps (has_row x) (reservation_by_id i)"
  "keeps (has_row x) (list_by_buyer_chronological b)"
  "keeps (has_row x) (buyers_with_expired_unprocessed_earn t lim)"
  unfolding by_idempotency_def reservation_by_id_def list_by_buyer_chronological_def
    buyers_with_expired_unprocessed_earn_def
  by (intro keeps_intros)+

lemma row_keeps_use_cases:
  "keeps (has_row x) (award_earn cfg b order_id paid)"
  "keeps (has_row x) (reserve_points cfg b amount)"
  "keeps (has_row x) (commit_points_reservation cfg i order_id paid)"
  "keeps (has_row x) (release_points_reservation cfg i)"
  "keeps (has_row x) (apply_cancellation b order_id pd pe)"
  "keeps (has_row x) (adjust_points b amount reason admin)"
  "keeps (has_row x) (expire_stale_reservations cfg locked)"
  "keeps (has_row x) (expire_points cfg)"
  unfolding award_earn_def award_earn_tx_def reserve_points_def reserve_points_tx_def
    commit_points_reservation_def commit_tx_def commit_burn_def commit_accrue_def
    release_points_reservation_def release_tx_def apply_cancellation_def
    apply_cancellation_tx_def refund_part_def reverse_part_def adjust_points_def
    adjust_points_tx_def expire_stale_reservations_def expire_stale_reservations_tx_def
    expire_points_def expire_points_for_buyer_def expire_points_tx_def expire_bucket_def
  by (intro keeps_intros)+

lemma loyalty_step_row:
  assumes "loyalty_step cfg w w'" and "has_row x (store w)"
  shows "has_row x (store w')"
  using assms
  by cases (simp_all add: keepsD [OF reads_keep(1)] keepsD [OF reads_keep(2)]
      row_keeps_use_cases [THEN keepsD])

lemma loyalty_step_key:
  assumes "loyalty_step cfg w w'" and "has_key k (store w)"
  shows "has_key k (store w')"
proof -
  from assms(2) obtain x where "has_row x (store w)" "idem_key x = k"
    by (auto simp: has_key_def has_row_def)
  with loyalty_step_row [OF assms(1)] show ?thesis by (auto simp: has_key_def has_row_def)
qed

subsection \<open>Terminal reservations\<close>

definition reservation_closed :: "uuid \<Rightarrow> reservation_status \<Rightarrow> loyalty_db \<Rightarrow> bool" where
  "reservation_closed i st s \<longleftrightarrow> st \<noteq> ReservationPending
     \<and> list_ex (\<lambda>r. rsv_id r = i) (reservations s)
     \<and> list_all (\<lambda>r. rsv_id r = i \<longrightarrow> rsv_status r = st) (reservations s)"

lemma closed_update_where:
  assumes "reservation_closed i st s" and "\<And>r. rsv_id (g r) = rsv_id r"
    and "\<And>r. r \<in> set (reservations s) \<Longrightarrow> q r \<Longrightarrow> rsv_id r \<noteq> i"
  shows "reservation_closed i st (s\<lparr>reservations := update_where q g (reservations s)\<rparr>)"
  using assms by (force simp: reservation_closed_def list_ex_iff list_all_iff update_where_def)

lemma closed_not_pending:
  "reservation_closed i st s \<Longrightarrow> r \<in> set (reservations s) \<Longrightarrow> rsv_status r = ReservationPending
   \<Longrightarrow> rsv_id r \<noteq> i"
  by (auto simp: reservation_closed_def list_all_iff)

lemma closed_keeps_stmts [keeps_intros]:
  "keeps (reservation_closed i st) (lock_for_update b)"
  "keeps (reservation_closed i st) (ensure_exists b)"
  "keeps (reservation_closed i st) (apply_delta b d v)"
  "keeps (reservation_closed i st) (insert_transaction y)"
  "keeps (reservation_closed i st) (insert_reservation r)"
  unfolding lock_for_update_def ensure_exists_def apply_delta_def insert_transaction_def
    insert_reservation_def
  by (intro keeps_intros; auto simp: reservation_closed_def upsert_account_def apply_delta_stmt_def
      insert_transaction_stmt_def insert_reservation_stmt_def Let_def list_ex_iff list_all_iff
      split: option.splits if_splits)+

lemma closed_keeps_update_status [keeps_intros]:
  "keeps (reservation_closed i st) (update_status j ReservationPending next)"
  unfolding update_status_def Let_def
proof (intro keeps_intros)
  fix t s x s'
  assume closed: "reservation_closed i st s"
    and eq: "Inr (list_ex (\<lambda>r. rsv_id r = j \<and> rsv_status r = ReservationPending) (reservations s),
      s\<lparr>reservations := update_where (\<lambda>r. rsv_id r = j \<and> rsv_status r = ReservationPending)
           (set_status t next) (reservations s)\<rparr>) = Inr (x, s')"
  have "reservation_closed i st (s\<lparr>reservations := update_where
      (\<lambda>r. rsv_id r = j \<and> rsv_status r = ReservationPending) (set_status t next) (reservations s)\<rparr>)"
    using closed by (rule closed_update_where) (use closed_not_pending [OF closed] in auto)
  with eq show "reservation_closed i st s'" by simp
qed

lemma closed_keeps_claim_expired [keeps_intros]:
  "keeps (reservation_closed i st) (claim_expired locked lim)"
  unfolding claim_expired_def Let_def
proof (intro keeps_intros)
  fix t s x s'
  assume closed: "reservation_closed i st s"
    and eq: "Inr (map (\<lambda>r. (rsv_id r, rsv_buyer r, rsv_amount r)) (claimed_rows locked lim t (reservations s)),
      s\<lparr>reservations := update_where
           (\<lambda>r. rsv_id r \<in> set (map rsv_id (claimed_rows locked lim t (reservations s)))) (expire_row t)
           (reservations s)\<rparr>) = Inr (x, s')"
  let ?cl = "claimed_rows locked lim t (reservations s)"
  have "set ?cl \<subseteq> set (sort_key rsv_expires_at (filter (claimable locked t) (reservations s)))"
    unfolding claimed_rows_def by (rule set_take_subset)
  then have "i \<notin> set (map rsv_id ?cl)"
    using closed_not_pending [OF closed] by (auto simp: claimable_def)
  then have "reservation_closed i st (s\<lparr>reservations :=
      update_where (\<lambda>r. rsv_id r \<in> set (map rsv_id ?cl)) (expire_row t) (reservations s)\<rparr>)"
    by (intro closed_update_where [OF closed]) auto
  with eq show "reservation_closed i st s'" by simp
qed

lemma closed_keeps_reads [keeps_intros]:
  "keeps (reservation_closed i st) (by_idempotency so sid ty)"
  "keeps (reservation_closed i st) (reservation_by_id j)"
  "keeps (reservation_closed i st) (list_by_buyer_chronological b)"
  "keeps (reservation_closed i st) (buyers_with_expired_unprocessed_earn t lim)"
  unfolding by_idempotency_def reservation_by_id_def list_by_buyer_chronological_def
    buyers_with_expired_unprocessed_earn_def
  by (intro keeps_intros)+

lemma closed_keeps_use_cases:
  "keeps (reservation_closed i st) (award_earn cfg b order_id paid)"
  "keeps (reservation_closed i st) (reserve_points cfg b amount)"
  "keeps (reservation_closed i st) (commit_points_reservation cfg j order_id paid)"
  "keeps (reservation_closed i st) (release_points_reservation cfg j)"
  "keeps (reservation_closed i st) (apply_cancellation b order_id pd pe)"
  "keeps (reservation_closed i st) (adjust_points b amount reason admin)"
  "keeps (reservation_closed i st) (expire_stale_reservations cfg locked)"
  "keeps (reservation_closed i st) (expire_points cfg)"
  unfolding award_earn_def award_earn_tx_def reserve_points_def reserve_points_tx_def
    commit_points_reservation_def commit_tx_def commit_burn_def commit_accrue_def
    release_points_reservation_def release_tx_def apply_cancellation_def
    apply_cancellation_tx_def refund_part_def reverse_part_def adjust_points_def
    adjust_points_tx_def expire_stale_reservations_def expire_stale_reservations_tx_def
    expire_points_def expire_points_for_buyer_def expire_points_tx_def expire_bucket_def
  by (intro keeps_intros)+

lemma loyalty_step_closed:
  assumes "loyalty_step cfg w w'" and "reservation_closed i st (store w)"
  shows "reservation_closed i st (store w')"
  using assms
  by cases (simp_all add: keepsD [OF reads_keep(1)] keepsD [OF reads_keep(2)]
      closed_keeps_use_cases [THEN keepsD])

text \<open>
  A reservation that has left the pending state keeps its status for ever. As a service: the
  states with the reservation closed are never left.
\<close>

interpretation closed: stateful_service
  "\<lambda>w. reservation_closed i st (store w)" "loyalty_step cfg"
  "\<lambda>w. reservation_closed i st (store w)" for cfg i st
  by unfold_locales (auto intro: loyalty_step_closed)

subsection \<open>Redelivered events\<close>

text \<open>
  What the service shows of its tables: the counters of every buyer (a missing row reads as a
  zero account), the reservations and the ledger. The time stamp \<open>updated_at\<close> is left out.
\<close>

lemma find_key_None_iff: "find (\<lambda>x. f x = k) xs = None \<longleftrightarrow> k \<notin> set (map f xs)"
  by (auto simp: find_None_iff)

definition table_view :: "loyalty_db \<Rightarrow> (string \<Rightarrow> account) \<times> reservation list \<times> transaction list" where
  "table_view s = ((\<lambda>b. (account_of s b)\<lparr>updated_at := 0\<rparr>), reservations s, ledger s)"

lemma upsert_table_view: "table_view (snd (upsert_account t b s)) = table_view s"
  by (auto simp: table_view_def upsert_account_def account_of_def zero_account_def fun_eq_iff
      split: option.splits)

lemma award_earn_frame:
  "frame (has_key (OrderPaid, order_id, Earn)) table_view (award_earn cfg b order_id paid)"
  unfolding frame_def award_earn_def award_earn_tx_def
  apply (intro allI keeps_tx publish_keeps wp_intros)
  apply (auto simp: upsert_table_view has_key_def find_key_None_iff)
  done

lemma use_cases_fail_clean:
  "fails_clean (award_earn cfg b order_id paid)"
  "fails_clean (reserve_points cfg b amount)"
  "fails_clean (commit_points_reservation cfg i order_id paid)"
  "fails_clean (release_points_reservation cfg i)"
  "fails_clean (apply_cancellation b order_id pd pe)"
  "fails_clean (adjust_points b amount reason admin)"
  "fails_clean (expire_stale_reservations cfg locked)"
  "fails_clean (expire_points_for_buyer cfg b t)"
  unfolding award_earn_def reserve_points_def commit_points_reservation_def
    release_points_reservation_def apply_cancellation_def adjust_points_def
    expire_stale_reservations_def expire_points_for_buyer_def
  by (intro keeps_intros fails_clean_bind;
      auto simp: tx_return_def tx_bind_def publish_earned_def publish_redeemed_def
        publish_expired_def publish_if_def publish_def now_def split: if_splits option.splits)+

end
