(* ===== verification/Loyalty_Redelivery.thy ===== *)
theory Loyalty_Redelivery
  imports Loyalty_Traces
begin

text \<open>
  Redelivered events of the loyalty service. An earn, a commit and the refund half of a
  cancellation are each keyed by their source, so that the service is an instance of
  \<open>at_least_once\<close> for each of them: \<open>handled\<close> says that the ledger holds the row with the key.
\<close>

subsection \<open>A handled event changes nothing\<close>

lemma commit_frame:
  "frame (has_key (ReservationCommit, i, Redeem)) table_view
     (commit_points_reservation cfg i order_id paid)"
  unfolding frame_def commit_points_reservation_def commit_tx_def
  apply (intro allI keeps_tx publish_keeps wp_intros wp_catchI)
  apply (auto simp: upsert_table_view has_key_def find_key_None_iff by_idempotency_def query_def
      dest: sql_error)
  done

definition cancel_keys :: "string \<Rightarrow> int \<Rightarrow> int \<Rightarrow> loyalty_db \<Rightarrow> bool" where
  "cancel_keys order_id pd pe s \<longleftrightarrow>
     (pd > 0 \<longrightarrow> has_key (OrderCancelled, order_id, Refund) s)
     \<and> (pe > 0 \<longrightarrow> has_key (OrderCancelled, order_id, ReverseEarn) s)"

lemma cancellation_frame:
  "frame (cancel_keys order_id pd pe) table_view (apply_cancellation b order_id pd pe)"
  unfolding frame_def apply_cancellation_def apply_cancellation_tx_def refund_part_def
    reverse_part_def
  apply (intro allI keeps_tx publish_keeps wp_intros)
  apply (auto simp: upsert_table_view has_key_def find_key_None_iff cancel_keys_def)
  done

subsection \<open>Success leaves the key\<close>

lemma find_key_Some: "find (\<lambda>x. f x = k) xs = Some x \<Longrightarrow> k \<in> f ` set xs"
  by (auto dest: find_Some_mem)

lemma idem_key_updates [simp]: "idem_key (x\<lparr>txn_expires_at := t\<rparr>) = idem_key x"
  "idem_key (x\<lparr>txn_reservation_id := r\<rparr>) = idem_key x" "idem_key (x\<lparr>txn_note := n\<rparr>) = idem_key x"
  "idem_key (x\<lparr>txn_created_at := u\<rparr>) = idem_key x"
  by (simp_all add: idem_key_def)

lemma idem_key_new_row [simp]: "idem_key (new_row i b ty amt after st sid) = (st, sid, ty)"
  by (simp add: idem_key_def)

lemma award_earn_success:
  assumes "award_earn cfg b order_id paid w = (Inr x, w')"
  shows "compute_earn_amount paid (earn_rate_bps cfg) \<le> 0
       \<or> has_key (OrderPaid, order_id, Earn) (store w')"
proof -
  have "wp (award_earn cfg b order_id paid) (\<lambda>_ w'. compute_earn_amount paid (earn_rate_bps cfg) \<le> 0
       \<or> has_key (OrderPaid, order_id, Earn) (store w')) w"
    unfolding award_earn_def award_earn_tx_def publish_earned_def publish_if_def
      by_idempotency_def apply_delta_def lock_for_update_def
    apply (intro wp_intros)
    apply (auto simp: wp_simps has_key_def dest: find_key_Some)
    done
  from wpD [OF this assms] show ?thesis .
qed

lemma commit_success:
  assumes "commit_points_reservation cfg i order_id paid w = (Inr x, w')"
  shows "has_key (ReservationCommit, i, Redeem) (store w')"
proof -
  have "wp (commit_points_reservation cfg i order_id paid)
          (\<lambda>_ w'. has_key (ReservationCommit, i, Redeem) (store w')) w"
    unfolding commit_points_reservation_def commit_tx_def commit_burn_def commit_accrue_def
      publish_redeemed_def publish_earned_def publish_if_def
    apply (intro wp_intros wp_catchI)
    apply (auto simp: wp_simps has_key_def by_idempotency_def query_def
        dest: find_key_Some find_Some_mem [where p = "\<lambda>r. rsv_id r = i"] sql_error split: option.splits)
    done
  from wpD [OF this assms] show ?thesis .
qed

lemma refund_success:
  assumes "apply_cancellation b order_id pd 0 w = (Inr x, w')"
  shows "cancel_keys order_id pd 0 (store w')"
proof -
  have "wp (apply_cancellation b order_id pd 0) (\<lambda>_ w'. cancel_keys order_id pd 0 (store w')) w"
    unfolding apply_cancellation_def apply_cancellation_tx_def refund_part_def reverse_part_def
    apply (intro wp_intros)
    apply (auto simp: wp_simps cancel_keys_def has_key_def dest: find_key_Some)
    done
  from wpD [OF this assms] show ?thesis .
qed

subsection \<open>Instances of the redelivery contract\<close>

definition db_view :: "loyalty_db world \<Rightarrow> (string \<Rightarrow> account) \<times> reservation list \<times> transaction list" where
  "db_view w = table_view (store w)"

definition earn_handled :: "loyalty_cfg \<Rightarrow> string \<Rightarrow> int \<Rightarrow> loyalty_db world \<Rightarrow> bool" where
  "earn_handled cfg order_id paid w \<longleftrightarrow>
     compute_earn_amount paid (earn_rate_bps cfg) \<le> 0 \<or> has_key (OrderPaid, order_id, Earn) (store w)"

lemma award_earn_zero:
  "compute_earn_amount paid (earn_rate_bps cfg) \<le> 0 \<Longrightarrow>
   store (snd (award_earn cfg b order_id paid w)) = store w"
  by (simp add: award_earn_def tx_throw_def tx_return_def)

lemma loyalty_step_cancel_keys:
  "loyalty_step cfg w w' \<Longrightarrow> cancel_keys order_id pd pe (store w) \<Longrightarrow> cancel_keys order_id pd pe (store w')"
  by (auto simp: cancel_keys_def intro: loyalty_step_key)

interpretation earn: at_least_once
  "award_earn cfg b order_id paid" db_view "earn_handled cfg order_id paid" "loyalty_step cfg"
  for cfg b order_id paid
proof
  fix w :: "loyalty_db world"
  assume h: "earn_handled cfg order_id paid w"
  show "db_view (snd (award_earn cfg b order_id paid w)) = db_view w"
    using h frameD [OF award_earn_frame, of order_id w cfg b paid]
    by (auto simp: earn_handled_def db_view_def award_earn_zero)
  show "earn_handled cfg order_id paid (snd (award_earn cfg b order_id paid w))"
    using h by (auto simp: earn_handled_def intro: loyalty_step_key [OF loyalty_step.earn])
qed (auto simp: db_view_def earn_handled_def dest: fails_cleanD [OF use_cases_fail_clean(1)]
      award_earn_success intro: loyalty_step_key)

interpretation commits: at_least_once
  "commit_points_reservation cfg i order_id paid" db_view
  "\<lambda>w. has_key (ReservationCommit, i, Redeem) (store w)" "loyalty_step cfg"
  for cfg i order_id paid
proof
  fix w :: "loyalty_db world"
  assume h: "has_key (ReservationCommit, i, Redeem) (store w)"
  show "db_view (snd (commit_points_reservation cfg i order_id paid w)) = db_view w"
    using h frameD [OF commit_frame, of i w cfg order_id paid] by (simp add: db_view_def)
  show "has_key (ReservationCommit, i, Redeem) (store (snd (commit_points_reservation cfg i order_id paid w)))"
    using h by (rule loyalty_step_key [OF loyalty_step.commit])
qed (auto simp: db_view_def dest: fails_cleanD [OF use_cases_fail_clean(3)] commit_success
      intro: loyalty_step_key)

interpretation refunds: at_least_once
  "apply_cancellation b order_id pd 0" db_view "\<lambda>w. cancel_keys order_id pd 0 (store w)"
  "loyalty_step cfg"
  for cfg b order_id pd
proof
  fix w :: "loyalty_db world"
  assume h: "cancel_keys order_id pd 0 (store w)"
  show "db_view (snd (apply_cancellation b order_id pd 0 w)) = db_view w"
    using h frameD [OF cancellation_frame, of order_id pd 0 w b] by (simp add: db_view_def)
  show "cancel_keys order_id pd 0 (store (snd (apply_cancellation b order_id pd 0 w)))"
    using h by (rule loyalty_step_cancel_keys [OF loyalty_step.cancel])
qed (auto simp: db_view_def dest: fails_cleanD [OF use_cases_fail_clean(5)] refund_success
      intro: loyalty_step_cancel_keys)

text \<open>
  A commit also leaves the earn row of its order, so the \<open>order.paid\<close> event that follows it
  credits nothing.
\<close>

lemma wp_commit_accrue_earn_key:
  assumes "\<And>x w'. compute_earn_amount paid (earn_rate_bps cfg) \<le> 0
      \<or> has_key (OrderPaid, order_id, Earn) (store w') \<Longrightarrow> Q x w'"
  shows "wp (commit_accrue cfg r a after order_id paid) Q w"
  unfolding commit_accrue_def
  apply (intro wp_intros)
  apply (auto intro!: assms simp: has_key_def dest: find_key_Some)
  done

lemma commit_earn_handled:
  assumes "commit_points_reservation cfg i order_id paid w = (Inr x, w')"
    and "\<not> already_committed x"
  shows "earn_handled cfg order_id paid w'"
proof -
  have "wp (commit_points_reservation cfg i order_id paid)
          (\<lambda>x w'. \<not> already_committed x \<longrightarrow> earn_handled cfg order_id paid w') w"
    unfolding commit_points_reservation_def commit_tx_def commit_burn_def
      publish_redeemed_def publish_earned_def publish_if_def
    apply (intro wp_intros wp_catchI wp_commit_accrue_earn_key)
    apply (auto simp: wp_simps earn_handled_def by_idempotency_def query_def
        dest: sql_error split: option.splits)
    done
  from wpD [OF this assms(1)] assms(2) show ?thesis by simp
qed

end
