(* ===== verification/Samples.thy ===== *)
theory Samples
  imports Database
begin

text \<open>
  A concrete world for the witnesses: a healthy database with given tables, the clock at zero and
  a generator of pairwise different identifiers.
\<close>

definition sample_uuid :: "nat \<Rightarrow> uuid" where
  "sample_uuid n = CHR ''u'' # replicate n (CHR ''x'')"

definition sample_world :: "'s \<Rightarrow> 's world" where
  "sample_world s = \<lparr>store = s, aborted = False, faults = [], clock = 0, uuids = sample_uuid,
     uuid_next = 0, events = []\<rparr>"

lemma healthy_sample [simp]: "healthy (sample_world s)"
  by (simp add: sample_world_def healthy_def)

lemma run_ok: "\<not> isl (fst (m w)) \<Longrightarrow> \<exists>x. m w = (Inr x, snd (m w))"
  by (cases "m w"; cases "fst (m w)") auto

end
