(* ===== verification/Loyalty_Properties.thy ===== *)
theory Loyalty_Properties
  imports Loyalty_Redelivery Samples
begin

text \<open>
  The properties of the loyalty service, each with a run on a concrete world where it has
  hypotheses.
\<close>

subsection \<open>A sample world\<close>

definition sample_loyalty_cfg :: loyalty_cfg where
  "sample_loyalty_cfg = new_service
     \<lparr>earn_rate_bps = 100, reservation_ttl = 0, earn_expiration = 1000, expiration_batch_size = 0,
      has_reservations = True, has_publisher = True, uuid_parse = Some,
      expire_note = (\<lambda>_ _. ''expired'')\<rparr>"

text \<open>An earn of 10, and a reservation of 4 of them.\<close>

definition earned_world :: "loyalty_db world" where
  "earned_world = snd (award_earn sample_loyalty_cfg ''b'' ''o'' 1000 (sample_world empty_loyalty_db))"

definition reserved_world :: "loyalty_db world" where
  "reserved_world = snd (reserve_points sample_loyalty_cfg ''b'' 4 earned_world)"

lemma earned_run: "\<exists>x. award_earn sample_loyalty_cfg ''b'' ''o'' 1000 (sample_world empty_loyalty_db)
    = (Inr x, earned_world)"
  unfolding earned_world_def by (rule run_ok) code_simp

lemma reserved_run: "\<exists>x. reserve_points sample_loyalty_cfg ''b'' 4 earned_world = (Inr x, reserved_world)"
  unfolding reserved_world_def by (rule run_ok) code_simp

lemma sample_steps:
  "(loyalty_step sample_loyalty_cfg)\<^sup>*\<^sup>* (sample_world empty_loyalty_db) earned_world"
  "(loyalty_step sample_loyalty_cfg)\<^sup>*\<^sup>* earned_world reserved_world"
  unfolding earned_world_def reserved_world_def
  by (blast intro: r_into_rtranclp loyalty_step.earn loyalty_step.reserve)+

lemma sample_reachable:
  "(loyalty_step sample_loyalty_cfg)\<^sup>*\<^sup>* (sample_world empty_loyalty_db) reserved_world"
  using sample_steps by (rule rtranclp_trans)

lemma sample_inv: "loyalty_inv (store earned_world)" "loyalty_inv (store reserved_world)"
  using ls.reachable_inv [of "sample_world empty_loyalty_db"] sample_steps(1) sample_reachable
  by (simp_all add: sample_world_def)

subsection \<open>The ledger invariant\<close>

text \<open>
  C1. From an empty database, whatever use cases run in whatever order, with any arguments, any
  pattern of failing statements, any clock and any row locks: the balance of every buyer is the sum of the
  buyer's ledger rows and is never negative, the pending redemption is the sum of the buyer's
  pending reservations and never exceeds the balance, the lifetime counters are the sums of the
  earn and redeem rows, no idempotency key occurs twice, every \<open>balance_after\<close> is the running sum,
  and a reservation is committed exactly when its redeem row exists.
\<close>

theorem loyalty_ledger_invariant:
  assumes "store w0 = empty_loyalty_db" and "(loyalty_step cfg)\<^sup>*\<^sup>* w0 w"
  shows "(let a = account_of (store w) b; L = ledger (store w); R = reservations (store w) in
      balance a = ledger_sum b L \<and> pending_redemption a = pending_sum b R
      \<and> 0 \<le> pending_redemption a \<and> pending_redemption a \<le> balance a
      \<and> lifetime_earned a = earned_sum b L \<and> lifetime_redeemed a = redeemed_sum b L
      \<and> distinct (map idem_key L) \<and> history_ok [] L \<and> reservations_ok R L)"
proof -
  have inv: "loyalty_inv (store w)" using assms by (rule ls.reachable_inv)
  from account_ok_of [OF this, of b] inv show ?thesis
    by (simp add: Let_def account_ok_def account_bounds_def loyalty_inv_def ledger_ok_def)
qed

theorem loyalty_ledger_invariant_witness:
  "(let a = account_of (store reserved_world) ''b'' in
      balance a = 10 \<and> pending_redemption a = 4
      \<and> pending_redemption a = pending_sum ''b'' (reservations (store reserved_world)))"
proof -
  have "balance (account_of (store reserved_world) ''b'') = 10
      \<and> pending_redemption (account_of (store reserved_world) ''b'') = 4"
    by code_simp
  then show ?thesis
    using loyalty_ledger_invariant [OF _ sample_reachable, of "''b''"]
    by (simp add: Let_def sample_world_def)
qed

subsection \<open>Redelivery\<close>

lemma env_evolves: "(loyalty_step cfg)\<^sup>*\<^sup>* w w' \<Longrightarrow> (earn.evolves cfg b order_id paid)\<^sup>*\<^sup>* w w'"
  by (erule mono_rtranclp [rule_format, rotated]) (simp add: earn.evolves_def)

lemma order_paid_view:
  assumes "has_key (OrderPaid, order_id, Earn) (store w)" and "op_order_id p = order_id"
  shows "table_view (store (snd (handle_order_event cfg (OrderPaidEvent (Inr p)) w))) = table_view (store w)"
proof -
  have "table_view (store (snd (award_earn cfg (op_buyer p) order_id paid w))) = table_view (store w)" for paid
    using frameD [OF award_earn_frame assms(1)] .
  with assms(2) show ?thesis
    by (auto simp: handle_order_paid_def Let_def tx_bind_def tx_return_def split: prod.splits sum.splits)
      (metis snd_conv)+
qed

text \<open>
  C2. Points are credited once per order. After an earn of a positive amount has succeeded for an
  order, whatever happens in between, every later \<open>order.paid\<close> event for that order (whoever the
  buyer, whatever the amounts) and every repeated call of \<open>AwardEarn\<close> leave balances,
  reservations and ledger as they are.
\<close>

theorem order_paid_credits_once:
  assumes "award_earn cfg b order_id paid w = (Inr x, w1)"
    and "0 < compute_earn_amount paid (earn_rate_bps cfg)"
    and "(loyalty_step cfg)\<^sup>*\<^sup>* w1 w2" and "op_order_id p = order_id"
  shows "table_view (store (snd (award_earn cfg b order_id paid w2))) = table_view (store w2)
       \<and> table_view (store (snd (handle_order_event cfg (OrderPaidEvent (Inr p)) w2))) = table_view (store w2)"
proof
  note steps = env_evolves [OF assms(3), of b order_id paid]
  show "table_view (store (snd (award_earn cfg b order_id paid w2))) = table_view (store w2)"
    using earn.exactly_once [OF assms(1) steps] by (simp add: db_view_def)
  have "earn_handled cfg order_id paid w2"
    by (rule earn.evolves_handled [OF steps earn.success_handled [OF assms(1)]])
  with assms(2,4) show "table_view (store (snd (handle_order_event cfg (OrderPaidEvent (Inr p)) w2)))
      = table_view (store w2)"
    by (intro order_paid_view) (simp_all add: earn_handled_def)
qed

definition sample_paid_event :: order_paid_payload where
  "sample_paid_event = \<lparr>op_order_id = ''o'', op_buyer = ''b'', op_total_amount = 500,
     op_subtotal_before_discounts = 2000\<rparr>"

theorem order_paid_credits_once_witness:
  "table_view (store (snd (handle_order_event sample_loyalty_cfg (OrderPaidEvent (Inr sample_paid_event))
      reserved_world))) = table_view (store reserved_world)
   \<and> op_order_id sample_paid_event = ''o''"
proof -
  have "0 < compute_earn_amount 1000 (earn_rate_bps sample_loyalty_cfg)"
    and "op_order_id sample_paid_event = ''o''" by code_simp+
  with earned_run order_paid_credits_once [OF _ _ sample_steps(2)] show ?thesis by metis
qed


definition committed_world :: "loyalty_db world" where
  "committed_world = snd (commit_points_reservation sample_loyalty_cfg (sample_uuid 1) ''o2'' 1000 reserved_world)"












lemma spendable_of: "account_bounds a \<Longrightarrow> spendable a = balance a - pending_redemption a"
  unfolding spendable_def account_bounds_def by (intro i64_id) (auto simp: in_i64_def)

lemma account_of_put [simp]:
  "account_of (s\<lparr>accounts := f(b \<mapsto> x), reservations := R\<rparr>) b = x"
  by (simp add: account_of_def)

text \<open>
  C7. On a healthy database a reservation is granted exactly when the amount does not exceed the
  spendable balance: then the buyer's pending redemption grows by the amount, the balance and the
  ledger stay, and the new pending row is returned; otherwise the answer is
  \<open>ErrInsufficientPoints\<close> and the tables stay as they are.
\<close>

theorem reserve_points_grants:
  assumes "loyalty_inv (store w)" and "healthy w" and "b \<noteq> ''''" and "0 < amount"
    and "has_reservations cfg" and "a = account_of (store w) b"
    and "uuids w (uuid_next w) \<notin> set (map rsv_id (reservations (store w)))"
    and "in_i64 (lifetime_earned a)" and "in_i64 (lifetime_redeemed a)" and "in_i32 (version a + 1)"
  shows "if amount \<le> balance a - pending_redemption a
     then \<exists>r w'. reserve_points cfg b amount w = (Inr r, w') \<and> rsv_buyer r = b \<and> rsv_amount r = amount
        \<and> rsv_status r = ReservationPending \<and> reservations (store w') = reservations (store w) @ [r]
        \<and> ledger (store w') = ledger (store w)
        \<and> balance (account_of (store w') b) = balance a
        \<and> pending_redemption (account_of (store w') b) = pending_redemption a + amount
     else \<exists>w'. reserve_points cfg b amount w = (Inl (Sentinel ErrInsufficientPoints), w')
        \<and> store w' = store w"
proof -
  let ?a = "fst (upsert_account (clock w) b (store w))"
  have a: "balance ?a = balance a" "pending_redemption ?a = pending_redemption a"
    "lifetime_earned ?a = lifetime_earned a" "lifetime_redeemed ?a = lifetime_redeemed a"
    "version ?a = version a"
    using assms(6) by (auto simp: upsert_account_def account_of_def zero_account_def split: option.splits)
  have bounds: "account_bounds a"
    using account_ok_of [OF assms(1), of b] assms(6) by (simp add: account_ok_def)
  then have sp: "spendable ?a = balance a - pending_redemption a"
    using a by (simp add: spendable_of account_bounds_def)
  have chk: "check_account (delta_account (clock w) (no_delta\<lparr>pending_delta := amount\<rparr>) ?a) = None"
    if "amount \<le> balance a - pending_redemption a"
    using that bounds a assms by (auto simp: check_account_def delta_account_def no_delta_def
        account_bounds_def in_i64_def)
  have up: "upsert_account (clock w) b (store w) = (?a, snd (upsert_account (clock w) b (store w)))"
    by simp
  show ?thesis
    using assms sp chk a
    by (auto simp: delta_account_def no_delta_def reserve_points_def reserve_points_tx_def run_simps lock_for_update_def
        apply_delta_def apply_delta_stmt_def insert_reservation_def insert_reservation_stmt_def Let_def
        split_beta split: option.splits)
qed
theorem reserve_points_grants_witness:
  "(\<exists>r w'. reserve_points sample_loyalty_cfg ''b'' 10 earned_world = (Inr r, w')
       \<and> pending_redemption (account_of (store w') ''b'') = 10)
   \<and> (\<exists>w'. reserve_points sample_loyalty_cfg ''b'' 11 earned_world
              = (Inl (Sentinel ErrInsufficientPoints), w'))"
proof -
  let ?w = earned_world and ?cfg = sample_loyalty_cfg
  have h: "healthy ?w" "has_reservations ?cfg"
    "uuids ?w (uuid_next ?w) \<notin> set (map rsv_id (reservations (store ?w)))"
    "in_i64 (lifetime_earned (account_of (store ?w) ''b''))"
    "in_i64 (lifetime_redeemed (account_of (store ?w) ''b''))"
    "in_i32 (version (account_of (store ?w) ''b'') + 1)"
    "balance (account_of (store ?w) ''b'') = 10" "pending_redemption (account_of (store ?w) ''b'') = 0"
    unfolding healthy_def by code_simp+
  from reserve_points_grants [of ?w "''b''" 10 ?cfg, OF sample_inv(1) h(1) _ _ h(2) refl h(3-6)]
    reserve_points_grants [of ?w "''b''" 11 ?cfg, OF sample_inv(1) h(1) _ _ h(2) refl h(3-6)] h(7,8)
  show ?thesis by auto
qed

subsection \<open>Expiration\<close>

text \<open>
  C4. When the expiration of a buyer's points succeeds, the balance has dropped by exactly what
  the replay of the buyer's history leaves in the due buckets, it is not negative, every due earn
  of the buyer has its expire row, earlier rows are untouched, and the ledger invariant holds.
\<close>

theorem expire_points_closes_due_buckets:
  assumes "loyalty_inv (store w)" and "parses_ids (uuid_parse cfg) (ledger (store w))"
    and "run_tx (expire_points_tx cfg b t) w = (Inr (bal, n, expired), w')"
  shows "expired = due_sum t (rebuild_earn_buckets Some (history_of b (ledger (store w))))
       \<and> balance (account_of (store w') b) = balance (account_of (store w) b) - expired
       \<and> 0 \<le> balance (account_of (store w') b)
       \<and> (\<exists>rows. ledger (store w') = ledger (store w) @ rows \<and> expire_rows_of b rows)
       \<and> (\<forall>x \<in> set (ledger (store w')). txn_buyer x = b \<longrightarrow> \<not> unprocessed_earn t (ledger (store w')) x)
       \<and> loyalty_inv (store w')"
proof -
  let ?P = "\<lambda>r s. loyalty_inv s \<and> (\<exists>rows. ledger s = ledger (store w) @ rows \<and> expire_rows_of b rows)
    \<and> expiry_done b t (store w) s (snd (snd r))"
  have "?P (bal, n, expired) (store w')"
    using assms(3)
  proof (rule run_tx_wp)
    let ?w0 = "(consume_fault w)\<lparr>aborted := False\<rparr>"
    show "wp (expire_points_tx cfg b t) (\<lambda>x w1. \<not> aborted w1 \<longrightarrow> ?P x (store w1)) ?w0"
      using assms(1,2) by (intro wp_mono [OF expire_points_tx_post]) (auto simp: expiry_post_def)
  qed
  moreover from this account_ok_of [of "store w'" b] have "0 \<le> balance (account_of (store w') b)"
    by (auto simp: account_ok_def account_bounds_def)
  ultimately show ?thesis by (auto simp: expiry_done_def)
qed

definition late_world :: "loyalty_db world" where
  "late_world = earned_world\<lparr>clock := 5000\<rparr>"

theorem expire_points_closes_due_buckets_witness:
  "\<exists>bal n expired w'. run_tx (expire_points_tx sample_loyalty_cfg ''b'' 5000) late_world = (Inr (bal, n, expired), w')
     \<and> expired = 10 \<and> balance (account_of (store w') ''b'') = 0"
proof -
  let ?run = "run_tx (expire_points_tx sample_loyalty_cfg ''b'' 5000) late_world"
  have "\<not> isl (fst ?run)" and due: "due_sum 5000 (rebuild_earn_buckets Some (history_of ''b'' (ledger (store late_world)))) = 10"
    and bal: "balance (account_of (store late_world) ''b'') = 10"
    and p: "parses_ids (uuid_parse sample_loyalty_cfg) (ledger (store late_world))" by code_simp+
  then obtain bal n expired w' where r: "?run = (Inr (bal, n, expired), w')"
    using run_ok [of "run_tx (expire_points_tx sample_loyalty_cfg ''b'' 5000)" late_world] by auto
  have "loyalty_inv (store late_world)" using sample_inv(1) by (simp add: late_world_def)
  from expire_points_closes_due_buckets [OF this p r] due bal r show ?thesis by auto
qed

text \<open>
  C8. The guard of the expiration. On a ledger the service has written, the expected balance is
  the real one plus the debits that no earn bucket covered when they were made, so that the guard
  accepts exactly when these are zero (modulo the range of \<open>int64\<close>); and when it rejects, the
  buyer's points do not expire.
\<close>

theorem expiration_guard_exact:
  assumes "loyalty_inv (store w)" and "parses_ids (uuid_parse cfg) (ledger (store w))"
    and "H = history_of b (ledger (store w))"
  shows "expected_balance (rebuild_earn_buckets (uuid_parse cfg) H) H
           = balance (account_of (store w) b) + uncovered H
       \<and> 0 \<le> uncovered H
       \<and> (verify_bucket_invariant (rebuild_earn_buckets (uuid_parse cfg) H) H (balance (account_of (store w) b))
            \<longleftrightarrow> i64 (balance (account_of (store w) b) + uncovered H) = balance (account_of (store w) b))
       \<and> (uncovered H \<noteq> 0 \<longrightarrow> in_i64 (balance (account_of (store w) b) + uncovered H)
            \<longrightarrow> isl (fst (run_tx (expire_points_tx cfg b t) w)))"
proof -
  let ?a = "account_of (store w) b" and ?bs = "rebuild_earn_buckets Some H"
  have own: "own_history_ok [] H"
    using assms by (simp add: loyalty_inv_def ledger_own_history)
  have bs: "rebuild_earn_buckets (uuid_parse cfg) H = ?bs"
    using rebuild_parse [OF assms(1,2)] assms(3) by simp
  have bal: "amount_sum H = balance ?a"
    using account_balance [OF assms(1), of b] assms(3) by (simp add: amount_sum_history)
  note exp = expected_balance_history [OF own, unfolded bal]
  have ver: "verify_bucket_invariant ?bs H (balance ?a) \<longleftrightarrow> i64 (balance ?a + uncovered H) = balance ?a"
    by (simp add: verify_bucket_invariant_def exp(1))
  have "isl (fst (run_tx (expire_points_tx cfg b t) w))"
    if "uncovered H \<noteq> 0" "in_i64 (balance ?a + uncovered H)"
  proof -
    have "wp (run_tx (expire_points_tx cfg b t)) (\<lambda>_ _. False) w"
      unfolding expire_points_tx_def Let_def
      apply (intro wp_intros)
      using that ver bs assms(3) by (auto simp: upsert_account_def account_of_def zero_account_def split: option.splits)
    then show ?thesis by (auto simp: wp_def split: prod.splits sum.splits)
  qed
  with exp bs ver show ?thesis by simp
qed

definition adjusted_world :: "loyalty_db world" where
  "adjusted_world = snd (adjust_points ''b'' (-4) ''fix'' ''''
     (snd (adjust_points ''b'' 5 ''gift'' '''' (sample_world empty_loyalty_db))))"

lemma adjusted_inv: "loyalty_inv (store adjusted_world)"
proof -
  have "(loyalty_step sample_loyalty_cfg)\<^sup>*\<^sup>* (sample_world empty_loyalty_db) adjusted_world"
    unfolding adjusted_world_def
    by (rule rtranclp.rtrancl_into_rtrancl [OF r_into_rtranclp]; rule loyalty_step.adjust)
  from ls.reachable_inv [OF _ this] show ?thesis by (simp add: sample_world_def)
qed

theorem expiration_guard_exact_witness:
  "isl (fst (run_tx (expire_points_tx sample_loyalty_cfg ''b'' 0) adjusted_world))
   \<and> balance (account_of (store adjusted_world) ''b'') = 1"
proof -
  let ?H = "history_of ''b'' (ledger (store adjusted_world))"
  have "uncovered ?H = 4" "balance (account_of (store adjusted_world) ''b'') = 1"
    "parses_ids (uuid_parse sample_loyalty_cfg) (ledger (store adjusted_world))"
    by code_simp+
  with expiration_guard_exact [OF adjusted_inv _ refl, of sample_loyalty_cfg "''b''" 0] show ?thesis
    by (simp add: in_i64_def)
qed

text \<open>
  Debits consume earn buckets first in, first out: nothing is lost (what a debit takes from
  the buckets plus what is left over is the debit), no bucket becomes negative, and a bucket is
  touched only when every older one is empty.
\<close>

theorem consume_fifo_oldest_first:
  assumes "buckets_nonneg bs" and "0 \<le> amount" and "consume_fifo bs amount = (bs', left)"
  shows "bucket_sum bs = bucket_sum bs' + (amount - left) \<and> 0 \<le> left \<and> buckets_nonneg bs'
       \<and> (0 < left \<longrightarrow> bucket_sum bs' = 0) \<and> map earn_txn_id bs' = map earn_txn_id bs
       \<and> (\<forall>i j. i < j \<longrightarrow> j < length bs \<longrightarrow> bs' ! j \<noteq> bs ! j \<longrightarrow> remaining (bs' ! i) = 0)"
proof -
  note spec = consume_fifo_spec [OF assms]
  have "remaining (bs' ! i) = 0" if "i < j" "j < length bs" "bs' ! j \<noteq> bs ! j" for i j
    using drain_fifo [OF assms(1) _ _ that(1,2), of amount bs' left] assms that
    by (auto simp: consume_fifo_def split: if_splits)
  with spec bucket_sum_nonneg [OF assms(1)] assms(2) show ?thesis by auto
qed

definition sample_bucket :: "uuid \<Rightarrow> int \<Rightarrow> earn_bucket" where
  "sample_bucket i n = \<lparr>earn_txn_id = i, earned_at = 0, expires_at = None, original = n, remaining = n,
     has_prior_expire = False\<rparr>"

theorem consume_fifo_oldest_first_witness:
  "\<exists>bs' left. consume_fifo [sample_bucket ''p'' 5, sample_bucket ''q'' 5] 7 = (bs', left)
     \<and> bucket_sum bs' = 3 + left \<and> 0 \<le> left \<and> remaining (bs' ! 0) = 0"
proof -
  let ?bs = "[sample_bucket ''p'' 5, sample_bucket ''q'' 5]"
  obtain bs' left where c: "consume_fifo ?bs 7 = (bs', left)" by fastforce
  have f: "buckets_nonneg ?bs" "bucket_sum ?bs = 10"
    "fst (consume_fifo ?bs 7) ! 1 \<noteq> ?bs ! 1" by code_simp+
  from consume_fifo_oldest_first [OF f(1) _ c] f(2,3) c show ?thesis by fastforce
qed

subsection \<open>The edges\<close>


subsection \<open>Behaviour the comments do not describe\<close>

text \<open>A replayed commit reports the redeem row's signed amount where the first one reports a positive one.\<close>

lemma commit_replay_reports_negative:
  "map_sum (\<lambda>_. ()) redeemed (fst (commit_points_reservation sample_loyalty_cfg (sample_uuid 1) ''o2'' 1000 reserved_world))
     = Inr 4
   \<and> map_sum (\<lambda>_. ()) redeemed (fst (commit_points_reservation sample_loyalty_cfg (sample_uuid 1) ''o2'' 1000 committed_world))
     = Inr (-4)"
  by code_simp

text \<open>
  A cancellation that finds the balance at zero writes no reversal row, so that its redelivery
  reverses points the buyer has got since.
\<close>

definition emptied_world :: "loyalty_db world" where
  "emptied_world = snd (adjust_points ''b'' (-10) ''fix'' '''' earned_world)"

definition refilled_world :: "loyalty_db world" where
  "refilled_world = snd (adjust_points ''b'' 8 ''gift'' ''''
     (snd (apply_cancellation ''b'' ''o'' 0 10 emptied_world)))"

lemma cancellation_redelivery_reverses:
  "map_sum (\<lambda>_. ()) reversed (fst (apply_cancellation ''b'' ''o'' 0 10 emptied_world)) = Inr 0
   \<and> map_sum (\<lambda>_. ()) reversed (fst (apply_cancellation ''b'' ''o'' 0 10 refilled_world)) = Inr 8"
  by code_simp

text \<open>
  The reversal is capped by the balance, not by the spendable balance: with points reserved the
  row constraint rejects it, and the refund of the same cancellation is rolled back with it.
\<close>

lemma cancellation_of_reserved_points_fails:
  "isl (fst (apply_cancellation ''b'' ''o'' 0 10 reserved_world))
   \<and> \<not> isl (fst (apply_cancellation ''b'' ''o'' 0 10 earned_world))"
  by code_simp

text \<open>The product in \<open>ComputeEarnAmount\<close> overflows for large subtotals.\<close>

lemma earn_amount_overflows: "compute_earn_amount (2 ^ 58) 100 < 0"
  by code_simp

lemma primary_key_taken_for_idempotency_key:
  "is_duplicate_idempotency_key (UniqueViolation ''point_transactions_pkey'')"
  by code_simp

end
