(* ===== verification/Coupon_Store.thy ===== *)
theory Coupon_Store
  imports Database
begin

text \<open>
  Coupon service, data and repositories: internal/domain/coupon.go, the tables of
  infra/db/migrations/coupon with their constraints, and the statements of
  internal/adapter/postgres. \<open>VARCHAR\<close> length limits are not modelled. A repository method that
  is called outside a transaction opens one of its own (\<open>TxOrPool\<close>); \<open>tx_or_pool\<close> makes the
  difference an argument where a method is called both ways.
\<close>

definition tx_or_pool :: "bool \<Rightarrow> ('s, 'd, 'a) tx \<Rightarrow> ('s, 'd, 'a) tx" where
  "tx_or_pool in_tx m = (if in_tx then m else run_tx m)"

subsection \<open>Domain types\<close>

text \<open>\<open>IssuerType\<close> and \<open>DiscountType\<close> are strings in Go; every other text is the last constructor.\<close>

datatype issuer_type = IssuerPlatform | IssuerSeller | IssuerOther string

datatype discount_type = Percent | FixedAmount | DiscountOther string

datatype coupon_status = CouponActive | CouponRevoked

record coupon =
  cpn_id :: uuid
  cpn_code :: string
  cpn_issuer_type :: issuer_type
  cpn_issuer_id :: "uuid option"
  cpn_discount_type :: discount_type
  cpn_percent_bps :: "int option"
  cpn_amount :: "int option"
  cpn_currency :: string
  cpn_min_order :: int
  cpn_max_discount :: "int option"
  cpn_valid_from :: instant
  cpn_expires_at :: "instant option"
  cpn_limit_total :: "int option"
  cpn_limit_per_user :: "int option"
  cpn_usage_count :: int
  cpn_status :: coupon_status
  cpn_title :: string
  cpn_description :: string
  cpn_created_at :: instant
  cpn_updated_at :: instant

datatype hold_status = HoldPending | HoldCommitted | HoldReleased | HoldExpired

record coupon_reservation =
  crv_id :: uuid
  crv_coupon_id :: uuid
  crv_buyer :: string
  crv_discount :: int
  crv_currency :: string
  crv_seller_id :: "uuid option"
  crv_status :: hold_status
  crv_expires_at :: instant
  crv_created_at :: instant
  crv_committed_at :: "instant option"
  crv_released_at :: "instant option"

record coupon_redemption =
  crd_id :: uuid
  crd_coupon_id :: uuid
  crd_buyer :: string
  crd_order_id :: uuid
  crd_discount :: int
  crd_refunded :: int
  crd_reservation_id :: uuid
  crd_committed_at :: instant
  crd_refunded_at :: "instant option"
  crd_refunded_reason :: "string option"

record refund_event =
  rfe_redemption_id :: uuid
  rfe_order_id :: uuid
  rfe_share :: int
  rfe_reason :: string

type_synonym seller_subtotal = "uuid \<times> int"

definition compute_discount :: "coupon \<Rightarrow> int \<Rightarrow> int" where
  "compute_discount c subtotal =
     (if subtotal \<le> 0 then 0
      else
        let discount =
          (case cpn_discount_type c of
             FixedAmount \<Rightarrow> cpn_amount c
           | Percent \<Rightarrow>
               (case cpn_percent_bps c of
                  None \<Rightarrow> None
                | Some bps \<Rightarrow>
                    let d = i64 (subtotal * bps) sdiv 10000 in
                    Some (case cpn_max_discount c of
                            None \<Rightarrow> d
                          | Some m \<Rightarrow> if d > m then m else d))
           | DiscountOther _ \<Rightarrow> None)
        in case discount of
             None \<Rightarrow> 0
           | Some d \<Rightarrow>
               let d = (if d > subtotal then subtotal else d) in if d < 0 then 0 else d)"

text \<open>Go's zero \<open>time.Time\<close>, in nanoseconds from the Unix epoch.\<close>

definition zero_time :: instant where
  "zero_time = - 62135596800 * 10 ^ 9"

definition is_within_validity :: "coupon \<Rightarrow> instant \<Rightarrow> bool" where
  "is_within_validity c t =
     (if cpn_valid_from c \<noteq> zero_time \<and> t < cpn_valid_from c then False
      else case cpn_expires_at c of Some e \<Rightarrow> \<not> t > e | None \<Rightarrow> True)"

text \<open>
  Sentinel errors of the domain and port packages; \<open>ErrScanNull\<close> is pgx's refusal to scan a NULL,
  \<open>ErrNoRows\<close> stands for \<open>pgx.ErrNoRows\<close> and for the unnamed "not found" of \<open>SetStatus\<close>,
  \<open>ErrVanished\<close> for the unnamed "race-winner redemption vanished", \<open>ErrBadPayload\<close> for an event
  whose ids do not parse.
\<close>

datatype coupon_err =
  ErrCouponNotFound | ErrCouponExpired | ErrCouponRevoked | ErrCouponNotStarted
| ErrCouponUsageLimitHit | ErrCouponPerUserLimit | ErrMinOrderNotMet | ErrCurrencyMismatch
| ErrInvalidCouponInput | ErrHoldNotFound | ErrHoldAlreadyTerminal
| ErrUsageLimitExceeded | ErrDuplicateRedemption | ErrDuplicateRefundEvent
| ErrScanNull | ErrNoRows | ErrVanished | ErrBadPayload

record coupon_db =
  coupons :: "coupon list"
  holds :: "coupon_reservation list"
  redemptions :: "coupon_redemption list"
  refund_events :: "refund_event list"

type_synonym 'a ctx = "(coupon_db, coupon_err, 'a) tx"

definition empty_coupon_db :: coupon_db where
  "empty_coupon_db = \<lparr>coupons = [], holds = [], redemptions = [], refund_events = []\<rparr>"

text \<open>
  \<open>scan_null\<close> is what pgx does when it scans a NULL into a Go \<open>string\<close>: documented to be an error
  (\<open>None\<close>).
\<close>

record coupon_cfg =
  hold_ttl :: int
  coupon_publisher :: bool
  coupon_uuid_parse :: "string \<Rightarrow> uuid option"
  scan_null :: "string option"

subsection \<open>CouponRepository\<close>

definition check_coupon :: "coupon \<Rightarrow> pg_error option" where
  "check_coupon c =
     (if list_ex (\<lambda>x. case x of None \<Rightarrow> False | Some n \<Rightarrow> \<not> in_i32 n)
           [cpn_percent_bps c, cpn_limit_total c, cpn_limit_per_user c, Some (cpn_usage_count c)]
        then Some NumericOutOfRange
      else if cpn_issuer_type c \<notin> {IssuerPlatform, IssuerSeller} then
        Some (CheckViolation ''coupons_issuer_type_chk'')
      else if cpn_discount_type c \<notin> {Percent, FixedAmount} then
        Some (CheckViolation ''coupons_discount_type_chk'')
      else if \<not> ((cpn_discount_type c = Percent \<and> cpn_percent_bps c \<noteq> None \<and> cpn_amount c = None)
               \<or> (cpn_discount_type c = FixedAmount \<and> cpn_amount c \<noteq> None \<and> cpn_percent_bps c = None))
        then Some (CheckViolation ''coupons_discount_exactly_one_chk'')
      else if \<not> 0 \<le> cpn_usage_count c then Some (CheckViolation ''coupons_usage_count_nonneg_chk'')
      else None)"

definition coalesce_id :: "uuid option \<Rightarrow> uuid" where
  "coalesce_id i = (case i of None \<Rightarrow> nil_uuid | Some j \<Rightarrow> j)"

lemma coalesce_id_simps [simp]: "coalesce_id None = nil_uuid" "coalesce_id (Some i) = i"
  by (simp_all add: coalesce_id_def)

definition code_key :: "coupon \<Rightarrow> issuer_type \<times> uuid \<times> string" where
  "code_key c = (cpn_issuer_type c, coalesce_id (cpn_issuer_id c), to_upper (cpn_code c))"

definition insert_coupon_stmt ::
  "coupon \<Rightarrow> instant \<Rightarrow> coupon_db \<Rightarrow> pg_error + (coupon \<times> coupon_db)" where
  "insert_coupon_stmt c t s =
     (let c' = c\<lparr>cpn_created_at := t, cpn_updated_at := t, cpn_usage_count := 0\<rparr> in
      case check_coupon c' of
        Some e \<Rightarrow> Inl e
      | None \<Rightarrow>
          if cpn_id c \<in> set (map cpn_id (coupons s)) then Inl (UniqueViolation ''coupons_pkey'')
          else if code_key c \<in> set (map code_key (coupons s)) then
            Inl (UniqueViolation ''coupons_code_unique'')
          else Inr (c', s\<lparr>coupons := coupons s @ [c']\<rparr>))"

definition insert_coupon :: "coupon \<Rightarrow> coupon ctx" where
  "insert_coupon c = sql (insert_coupon_stmt c)"

definition coupon_by_id :: "uuid \<Rightarrow> coupon option ctx" where
  "coupon_by_id i = query (\<lambda>t s. find (\<lambda>c. cpn_id c = i) (coupons s))"

text \<open>The row lock of \<open>FOR UPDATE\<close> has no effect on the tables.\<close>

definition coupon_by_code :: "issuer_type \<Rightarrow> uuid option \<Rightarrow> string \<Rightarrow> coupon option ctx" where
  "coupon_by_code ty i cd =
     query (\<lambda>t s. find (\<lambda>c. code_key c = (ty, coalesce_id i, to_upper cd)) (coupons s))"

fun status_text :: "coupon_status \<Rightarrow> string" where
  "status_text CouponActive = ''active''"
| "status_text CouponRevoked = ''revoked''"

record coupon_filter =
  flt_status :: string
  flt_issuer_type :: "issuer_type option"
  flt_issuer_id :: "uuid option"
  flt_limit :: int
  flt_offset :: int

definition matches_filter :: "coupon_filter \<Rightarrow> coupon \<Rightarrow> bool" where
  "matches_filter f c \<longleftrightarrow>
     (flt_status f = '''' \<or> status_text (cpn_status c) = flt_status f)
     \<and> (case flt_issuer_type f of None \<Rightarrow> True | Some ty \<Rightarrow> cpn_issuer_type c = ty)
     \<and> (case flt_issuer_id f of None \<Rightarrow> True | Some i \<Rightarrow> cpn_issuer_id c = Some i)"

definition list_coupon_rows :: "coupon_filter \<Rightarrow> (coupon list \<times> nat) ctx" where
  "list_coupon_rows f =
     tx_bind (query (\<lambda>t s. length (filter (matches_filter f) (coupons s)))) (\<lambda>n.
     if n = 0 then tx_return ([], 0)
     else tx_bind
            (query (\<lambda>t s. take (nat (flt_limit f)) (drop (nat (flt_offset f))
               (sort_key (\<lambda>c. - cpn_created_at c) (filter (matches_filter f) (coupons s))))))
            (\<lambda>rows. tx_return (rows, n)))"

text \<open>\<open>UPDATE coupons SET g WHERE q\<close>: the row constraints on every new row, the number of rows.\<close>

definition update_coupons_stmt ::
  "(coupon \<Rightarrow> bool) \<Rightarrow> (instant \<Rightarrow> coupon \<Rightarrow> coupon) \<Rightarrow> instant \<Rightarrow> coupon_db
   \<Rightarrow> pg_error + (nat \<times> coupon_db)" where
  "update_coupons_stmt q g t s =
     (case List.map_filter (\<lambda>c. if q c then check_coupon (g t c) else None) (coupons s) of
        e # _ \<Rightarrow> Inl e
      | [] \<Rightarrow> Inr (length (filter q (coupons s)), s\<lparr>coupons := update_where q (g t) (coupons s)\<rparr>))"

definition below_limit :: "coupon \<Rightarrow> bool" where
  "below_limit c \<longleftrightarrow> (case cpn_limit_total c of None \<Rightarrow> True | Some n \<Rightarrow> cpn_usage_count c < n)"

definition take_seat :: "instant \<Rightarrow> coupon \<Rightarrow> coupon" where
  "take_seat t c = c\<lparr>cpn_usage_count := cpn_usage_count c + 1, cpn_updated_at := t\<rparr>"

definition free_seat :: "instant \<Rightarrow> coupon \<Rightarrow> coupon" where
  "free_seat t c = c\<lparr>cpn_usage_count := max 0 (cpn_usage_count c - 1), cpn_updated_at := t\<rparr>"

definition increment_usage :: "uuid \<Rightarrow> unit ctx" where
  "increment_usage i =
     tx_bind (sql (update_coupons_stmt (\<lambda>c. cpn_id c = i \<and> below_limit c) take_seat)) (\<lambda>n.
       if n = 0 then tx_throw (Sentinel ErrUsageLimitExceeded) else tx_return ())"

definition decrement_usage :: "uuid \<Rightarrow> unit ctx" where
  "decrement_usage i =
     tx_bind (sql (update_coupons_stmt (\<lambda>c. cpn_id c = i) free_seat)) (\<lambda>_. tx_return ())"

record coupon_patch =
  pat_title :: string
  pat_description :: string
  pat_min_order :: int
  pat_max_discount :: "int option"
  pat_expires_at :: "instant option"
  pat_limit_total :: "int option"
  pat_limit_per_user :: "int option"

definition patch_coupon :: "coupon_patch \<Rightarrow> instant \<Rightarrow> coupon \<Rightarrow> coupon" where
  "patch_coupon p t c =
     c\<lparr>cpn_title := pat_title p, cpn_description := pat_description p,
       cpn_min_order := pat_min_order p, cpn_max_discount := pat_max_discount p,
       cpn_expires_at := pat_expires_at p, cpn_limit_total := pat_limit_total p,
       cpn_limit_per_user := pat_limit_per_user p, cpn_updated_at := t\<rparr>"

definition update_coupon_row :: "uuid \<Rightarrow> coupon_patch \<Rightarrow> coupon option ctx" where
  "update_coupon_row i p =
     sql (\<lambda>t s. case update_coupons_stmt (\<lambda>c. cpn_id c = i) (patch_coupon p) t s of
            Inl e \<Rightarrow> Inl e
          | Inr (n, s') \<Rightarrow> Inr (find (\<lambda>c. cpn_id c = i) (coupons s'), s'))"

definition set_coupon_status :: "uuid \<Rightarrow> coupon_status \<Rightarrow> unit ctx" where
  "set_coupon_status i st =
     tx_bind (sql (update_coupons_stmt (\<lambda>c. cpn_id c = i)
                (\<lambda>t c. c\<lparr>cpn_status := st, cpn_updated_at := t\<rparr>))) (\<lambda>n.
       if n = 0 then tx_throw (Sentinel ErrNoRows) else tx_return ())"

subsection \<open>ReservationRepository\<close>

definition insert_hold_stmt ::
  "coupon_reservation \<Rightarrow> instant \<Rightarrow> coupon_db \<Rightarrow> pg_error + (coupon_reservation \<times> coupon_db)" where
  "insert_hold_stmt r t s =
     (if \<not> 0 \<le> crv_discount r then Inl (CheckViolation ''coupon_reservations_discount_nonneg_chk'')
      else if crv_id r \<in> set (map crv_id (holds s)) then
        Inl (UniqueViolation ''coupon_reservations_pkey'')
      else if crv_coupon_id r \<notin> set (map cpn_id (coupons s)) then
        Inl (ForeignKeyViolation ''coupon_reservations_coupon_id_fkey'')
      else let r' = r\<lparr>crv_created_at := t, crv_committed_at := None, crv_released_at := None\<rparr>
           in Inr (r', s\<lparr>holds := holds s @ [r']\<rparr>))"

definition insert_hold :: "coupon_reservation \<Rightarrow> coupon_reservation ctx" where
  "insert_hold r = sql (insert_hold_stmt r)"

definition hold_by_id :: "uuid \<Rightarrow> coupon_reservation option ctx" where
  "hold_by_id i = query (\<lambda>t s. find (\<lambda>r. crv_id r = i) (holds s))"

definition set_hold_status :: "instant \<Rightarrow> hold_status \<Rightarrow> coupon_reservation \<Rightarrow> coupon_reservation" where
  "set_hold_status t next r =
     r\<lparr>crv_status := next,
       crv_committed_at := (if next = HoldCommitted then Some t else crv_committed_at r),
       crv_released_at := (if next \<in> {HoldReleased, HoldExpired} then Some t else crv_released_at r)\<rparr>"

definition update_hold_status :: "uuid \<Rightarrow> hold_status \<Rightarrow> hold_status \<Rightarrow> bool ctx" where
  "update_hold_status i expect next =
     sql (\<lambda>t s. let hit = (\<lambda>r. crv_id r = i \<and> crv_status r = expect) in
       Inr (list_ex hit (holds s),
            s\<lparr>holds := update_where hit (set_hold_status t next) (holds s)\<rparr>))"

definition hold_claimable :: "(uuid \<Rightarrow> bool) \<Rightarrow> instant \<Rightarrow> coupon_reservation \<Rightarrow> bool" where
  "hold_claimable locked t r \<longleftrightarrow>
     crv_status r = HoldPending \<and> crv_expires_at r < t \<and> \<not> locked (crv_id r)"

definition claimed_holds ::
  "(uuid \<Rightarrow> bool) \<Rightarrow> nat \<Rightarrow> instant \<Rightarrow> coupon_reservation list \<Rightarrow> coupon_reservation list" where
  "claimed_holds locked lim t rs =
     take lim (sort_key crv_expires_at (filter (hold_claimable locked t) rs))"

definition expire_hold :: "instant \<Rightarrow> coupon_reservation \<Rightarrow> coupon_reservation" where
  "expire_hold t r = r\<lparr>crv_status := HoldExpired, crv_released_at := Some t\<rparr>"

definition claim_expired_holds :: "(uuid \<Rightarrow> bool) \<Rightarrow> nat \<Rightarrow> (uuid \<times> uuid) list ctx" where
  "claim_expired_holds locked lim =
     sql (\<lambda>t s. let claimed = claimed_holds locked lim t (holds s) in
       Inr (map (\<lambda>r. (crv_id r, crv_coupon_id r)) claimed,
            s\<lparr>holds := update_where (\<lambda>r. crv_id r \<in> set (map crv_id claimed)) (expire_hold t) (holds s)\<rparr>))"

definition count_pending :: "uuid \<Rightarrow> nat ctx" where
  "count_pending i =
     query (\<lambda>t s. length (filter (\<lambda>r. crv_coupon_id r = i \<and> crv_status r = HoldPending) (holds s)))"

subsection \<open>RedemptionRepository\<close>

definition is_duplicate_redemption :: "pg_error \<Rightarrow> bool" where
  "is_duplicate_redemption e =
     (str_contains (pg_message e) ''coupon_redemptions_coupon_order_unique'' \<or>
      (str_contains (pg_message e) ''duplicate key'' \<and> str_contains (pg_message e) ''coupon_redemptions''))"

definition is_duplicate_refund_event :: "pg_error \<Rightarrow> bool" where
  "is_duplicate_refund_event e =
     (str_contains (pg_message e) ''coupon_refund_events_per_order_unique'' \<or>
      (str_contains (pg_message e) ''duplicate key'' \<and> str_contains (pg_message e) ''coupon_refund_events''))"

definition insert_redemption_stmt ::
  "coupon_redemption \<Rightarrow> instant \<Rightarrow> coupon_db \<Rightarrow> pg_error + (coupon_redemption \<times> coupon_db)" where
  "insert_redemption_stmt d t s =
     (let d' = d\<lparr>crd_refunded := 0, crd_committed_at := t, crd_refunded_at := None,
                 crd_refunded_reason := None\<rparr> in
      if \<not> 0 \<le> crd_discount d then Inl (CheckViolation ''coupon_redemptions_refund_bounds_chk'')
      else if crd_id d \<in> set (map crd_id (redemptions s)) then
        Inl (UniqueViolation ''coupon_redemptions_pkey'')
      else if list_ex (\<lambda>x. crd_coupon_id x = crd_coupon_id d \<and> crd_order_id x = crd_order_id d)
                (redemptions s) then
        Inl (UniqueViolation ''coupon_redemptions_coupon_order_unique'')
      else if crd_coupon_id d \<notin> set (map cpn_id (coupons s)) then
        Inl (ForeignKeyViolation ''coupon_redemptions_coupon_id_fkey'')
      else if crd_reservation_id d \<notin> set (map crv_id (holds s)) then
        Inl (ForeignKeyViolation ''coupon_redemptions_reservation_id_fkey'')
      else Inr (d', s\<lparr>redemptions := redemptions s @ [d']\<rparr>))"

definition insert_redemption :: "coupon_redemption \<Rightarrow> coupon_redemption ctx" where
  "insert_redemption d =
     tx_map_error
       (\<lambda>e. case e of Pg p \<Rightarrow> if is_duplicate_redemption p then Sentinel ErrDuplicateRedemption else e
            | _ \<Rightarrow> e)
       (sql (insert_redemption_stmt d))"

text \<open>
  Every read of a redemption scans \<open>refunded_reason\<close>, a nullable column, into the Go \<open>string\<close>
  \<open>RefundedReason\<close>.
\<close>

definition scan_redemption :: "coupon_cfg \<Rightarrow> coupon_redemption \<Rightarrow> coupon_err error + coupon_redemption" where
  "scan_redemption cfg d =
     (case crd_refunded_reason d of
        Some _ \<Rightarrow> Inr d
      | None \<Rightarrow> (case scan_null cfg of None \<Rightarrow> Inl (Sentinel ErrScanNull) | Some _ \<Rightarrow> Inr d))"

definition scan_one :: "coupon_cfg \<Rightarrow> coupon_redemption option \<Rightarrow> coupon_redemption option ctx" where
  "scan_one cfg found =
     (case found of
        None \<Rightarrow> tx_return None
      | Some d \<Rightarrow> (case scan_redemption cfg d of Inl e \<Rightarrow> tx_throw e | Inr x \<Rightarrow> tx_return (Some x)))"

definition redemption_by_coupon_and_order :: "coupon_cfg \<Rightarrow> uuid \<Rightarrow> uuid \<Rightarrow> coupon_redemption option ctx" where
  "redemption_by_coupon_and_order cfg coupon_id order_id =
     tx_bind (query (\<lambda>t s. find (\<lambda>d. crd_coupon_id d = coupon_id \<and> crd_order_id d = order_id) (redemptions s)))
       (scan_one cfg)"

definition redemption_by_hold :: "coupon_cfg \<Rightarrow> uuid \<Rightarrow> coupon_redemption option ctx" where
  "redemption_by_hold cfg i =
     tx_bind (query (\<lambda>t s. find (\<lambda>d. crd_reservation_id d = i) (redemptions s))) (scan_one cfg)"

definition redemptions_by_buyer :: "coupon_cfg \<Rightarrow> string \<Rightarrow> int \<Rightarrow> int \<Rightarrow> (coupon_redemption list \<times> nat) ctx" where
  "redemptions_by_buyer cfg b lim off =
     tx_bind (query (\<lambda>t s. length (filter (\<lambda>d. crd_buyer d = b) (redemptions s)))) (\<lambda>n.
     if n = 0 then tx_return ([], 0)
     else tx_bind
            (query (\<lambda>t s. take (nat lim) (drop (nat off)
               (sort_key (\<lambda>d. - crd_committed_at d) (filter (\<lambda>d. crd_buyer d = b) (redemptions s))))))
            (\<lambda>rows.
             if list_ex (\<lambda>d. isl (scan_redemption cfg d)) rows then tx_throw (Sentinel ErrScanNull)
             else tx_return (rows, n)))"

definition count_by_buyer_and_coupon :: "string \<Rightarrow> uuid \<Rightarrow> nat ctx" where
  "count_by_buyer_and_coupon b i =
     query (\<lambda>t s. length (filter (\<lambda>d. crd_buyer d = b \<and> crd_coupon_id d = i) (redemptions s)))"

text \<open>A sum over \<open>BIGINT\<close> is \<open>NUMERIC\<close> in SQL; scanning it back fails outside \<open>int64\<close>.\<close>

definition stats_by_coupon :: "uuid \<Rightarrow> (nat \<times> int) ctx" where
  "stats_by_coupon i =
     tx_bind (query (\<lambda>t s. (length (filter (\<lambda>d. crd_coupon_id d = i) (redemptions s)),
                            sum_by (\<lambda>d. crd_coupon_id d = i) crd_discount (redemptions s)))) (\<lambda>(n, tot).
     if in_i64 tot then tx_return (n, tot) else tx_throw (Pg NumericOutOfRange))"

text \<open>
  \<open>ApplyPartialRefund\<close>: the update touches the row only while \<open>refunded_at\<close> is NULL, and stamps it
  when the refunds reach the discount. The result is (applied, fully refunded, already full).
\<close>

definition refund_row :: "int \<Rightarrow> string \<Rightarrow> instant \<Rightarrow> coupon_redemption \<Rightarrow> coupon_redemption" where
  "refund_row share reason t d =
     (let new = min (crd_refunded d + share) (crd_discount d) in
      d\<lparr>crd_refunded := new,
        crd_refunded_at := (if new \<ge> crd_discount d then Some t else crd_refunded_at d),
        crd_refunded_reason := (if new \<ge> crd_discount d then Some reason else crd_refunded_reason d)\<rparr>)"

definition partial_refund_stmt ::
  "uuid \<Rightarrow> int \<Rightarrow> string \<Rightarrow> instant \<Rightarrow> coupon_db
   \<Rightarrow> pg_error + ((int \<times> bool \<times> bool) option \<times> coupon_db)" where
  "partial_refund_stmt i share reason t s =
     (case find (\<lambda>d. crd_id d = i) (redemptions s) of
        None \<Rightarrow> Inr (None, s)
      | Some d \<Rightarrow>
          if crd_refunded_at d \<noteq> None then Inr (Some (0, False, True), s)
          else if \<not> in_i64 (crd_refunded d + share) then Inl NumericOutOfRange
          else let d' = refund_row share reason t d in
               if \<not> (0 \<le> crd_refunded d' \<and> crd_refunded d' \<le> crd_discount d') then
                 Inl (CheckViolation ''coupon_redemptions_refund_bounds_chk'')
               else Inr (Some (i64 (crd_refunded d' - crd_refunded d), crd_refunded_at d' \<noteq> None, False),
                         s\<lparr>redemptions := update_where (\<lambda>x. crd_id x = i) (refund_row share reason t)
                                            (redemptions s)\<rparr>))"

definition apply_partial_refund :: "uuid \<Rightarrow> int \<Rightarrow> string \<Rightarrow> (int \<times> bool \<times> bool) ctx" where
  "apply_partial_refund i share reason =
     (if share \<le> 0 then tx_return (0, False, False)
      else tx_bind (sql (partial_refund_stmt i share reason)) (\<lambda>r.
        case r of None \<Rightarrow> tx_throw (Sentinel ErrNoRows) | Some x \<Rightarrow> tx_return x))"

definition insert_refund_event_stmt ::
  "refund_event \<Rightarrow> instant \<Rightarrow> coupon_db \<Rightarrow> pg_error + (unit \<times> coupon_db)" where
  "insert_refund_event_stmt e t s =
     (if \<not> 0 \<le> rfe_share e then Inl (CheckViolation ''coupon_refund_events_share_nonneg_chk'')
      else if list_ex (\<lambda>x. rfe_redemption_id x = rfe_redemption_id e \<and> rfe_order_id x = rfe_order_id e)
                (refund_events s) then
        Inl (UniqueViolation ''coupon_refund_events_per_order_unique'')
      else if rfe_redemption_id e \<notin> set (map crd_id (redemptions s)) then
        Inl (ForeignKeyViolation ''coupon_refund_events_redemption_id_fkey'')
      else Inr ((), s\<lparr>refund_events := refund_events s @ [e]\<rparr>))"

definition insert_refund_event :: "refund_event \<Rightarrow> unit ctx" where
  "insert_refund_event e =
     tx_map_error
       (\<lambda>err. case err of
                Pg p \<Rightarrow> if is_duplicate_refund_event p then Sentinel ErrDuplicateRefundEvent else err
              | _ \<Rightarrow> err)
       (sql (insert_refund_event_stmt e))"

end
