(* ===== verification/Coupon_Service.thy ===== *)
theory Coupon_Service
  imports Coupon_Store
begin

text \<open>
  Coupon service, application layer (internal/app/coupon_service.go), one definition per use case.
  Repository calls outside a transaction run in one of their own (\<open>run_tx\<close>). Log lines are not
  modelled.
\<close>

subsection \<open>Validation\<close>

record create_coupon_input =
  cin_code :: string
  cin_issuer_type :: issuer_type
  cin_issuer_id :: "uuid option"
  cin_discount_type :: discount_type
  cin_percent_bps :: "int option"
  cin_amount :: "int option"
  cin_currency :: string
  cin_min_order :: int
  cin_max_discount :: "int option"
  cin_valid_from :: "int option"
  cin_expires_at :: "int option"
  cin_limit_total :: "int option"
  cin_limit_per_user :: "int option"
  cin_title :: string
  cin_description :: string

definition not_positive :: "int option \<Rightarrow> bool" where
  "not_positive x = (case x of None \<Rightarrow> False | Some n \<Rightarrow> n \<le> 0)"

text \<open>
  \<open>validateCreateInput\<close>; the default for an empty issuer type is assigned to the function's own
  copy of the input.
\<close>

definition check_issuer :: "create_coupon_input \<Rightarrow> coupon_err error option" where
  "check_issuer c =
     (let ty = (if cin_issuer_type c = IssuerOther '''' then IssuerPlatform else cin_issuer_type c) in
      case ty of
        IssuerPlatform \<Rightarrow> None
      | IssuerSeller \<Rightarrow>
          if cin_issuer_id c = None then Some (bad_request ''issuer_id is required for seller coupons'')
          else None
      | IssuerOther _ \<Rightarrow> Some (bad_request (''issuer_type must be 'platform' or 'seller'' @ [CHR 0x27])))"

definition check_discount :: "create_coupon_input \<Rightarrow> coupon_err error option" where
  "check_discount c =
     (case cin_discount_type c of
        Percent \<Rightarrow>
          if (case cin_percent_bps c of None \<Rightarrow> True | Some n \<Rightarrow> n \<le> 0 \<or> n > 10000) then
            Some (bad_request ''discount_percent_bps must be in (0, 10000]'')
          else if cin_amount c \<noteq> None then
            Some (bad_request ''discount_amount must be null for percent coupons'')
          else None
      | FixedAmount \<Rightarrow>
          if (case cin_amount c of None \<Rightarrow> True | Some n \<Rightarrow> n \<le> 0) then
            Some (bad_request ''discount_amount must be positive'')
          else if cin_percent_bps c \<noteq> None then
            Some (bad_request ''discount_percent_bps must be null for fixed_amount coupons'')
          else None
      | DiscountOther _ \<Rightarrow> Some (bad_request (''discount_type must be 'percent' or 'fixed_amount'' @ [CHR 0x27])))"

definition validate_create_input :: "create_coupon_input \<Rightarrow> coupon_err error option" where
  "validate_create_input c =
     (if trim_space (cin_code c) = '''' then Some (bad_request ''code is required'')
      else case check_issuer c of Some e \<Rightarrow> Some e | None \<Rightarrow>
      case check_discount c of Some e \<Rightarrow> Some e | None \<Rightarrow>
      if cin_min_order c < 0 then Some (bad_request ''min_order_amount must be non-negative'')
      else if not_positive (cin_limit_total c) then
        Some (bad_request ''usage_limit_total must be positive when set'')
      else if not_positive (cin_limit_per_user c) then
        Some (bad_request ''usage_limit_per_user must be positive when set'')
      else None)"

definition default_str :: "string \<Rightarrow> string \<Rightarrow> string" where
  "default_str s fallback = (if s = '''' then fallback else s)"

definition clamp_page :: "int \<Rightarrow> int \<Rightarrow> int \<times> int" where
  "clamp_page lim off =
     (if lim \<le> 0 \<or> lim > 100 then 50 else lim, if off < 0 then 0 else off)"

definition unix_time :: "int \<Rightarrow> instant" where
  "unix_time s = s * 10 ^ 9"

definition map_domain_error :: "coupon_err error \<Rightarrow> coupon_err error" where
  "map_domain_error e =
     (case as_app_error e of Some _ \<Rightarrow> e | None \<Rightarrow>
      if list_ex (\<lambda>d. errors_is e (Sentinel d))
           [ErrCouponNotFound, ErrCouponExpired, ErrCouponRevoked, ErrCouponNotStarted,
            ErrCouponUsageLimitHit, ErrCouponPerUserLimit, ErrMinOrderNotMet, ErrCurrencyMismatch,
            ErrInvalidCouponInput, ErrHoldNotFound, ErrHoldAlreadyTerminal]
      then e else internal ''coupon operation failed'' (Some e))"

subsection \<open>Administration\<close>

definition coupon_topic :: string where
  "coupon_topic = ''coupon-events''"

definition publish_coupon :: "coupon_cfg \<Rightarrow> string \<Rightarrow> (string \<times> json) list \<Rightarrow> unit ctx" where
  "publish_coupon cfg ty p =
     (if coupon_publisher cfg then publish \<lparr>topic = coupon_topic, event_type = ty, payload = p\<rparr>
      else tx_return ())"

fun issuer_text :: "issuer_type \<Rightarrow> string" where
  "issuer_text IssuerPlatform = ''platform''"
| "issuer_text IssuerSeller = ''seller''"
| "issuer_text (IssuerOther s) = s"

definition new_coupon :: "uuid \<Rightarrow> instant \<Rightarrow> create_coupon_input \<Rightarrow> coupon" where
  "new_coupon i t c =
     \<lparr>cpn_id = i, cpn_code = trim_space (cin_code c), cpn_issuer_type = cin_issuer_type c,
      cpn_issuer_id = cin_issuer_id c, cpn_discount_type = cin_discount_type c,
      cpn_percent_bps = cin_percent_bps c, cpn_amount = cin_amount c,
      cpn_currency = default_str (cin_currency c) ''JPY'', cpn_min_order = cin_min_order c,
      cpn_max_discount = cin_max_discount c,
      cpn_valid_from = (case cin_valid_from c of None \<Rightarrow> t | Some x \<Rightarrow> unix_time x),
      cpn_expires_at = map_option unix_time (cin_expires_at c),
      cpn_limit_total = cin_limit_total c, cpn_limit_per_user = cin_limit_per_user c,
      cpn_usage_count = 0, cpn_status = CouponActive, cpn_title = cin_title c,
      cpn_description = cin_description c, cpn_created_at = 0, cpn_updated_at = 0\<rparr>"

definition create_coupon :: "coupon_cfg \<Rightarrow> create_coupon_input \<Rightarrow> coupon ctx" where
  "create_coupon cfg c =
     (case validate_create_input c of
        Some e \<Rightarrow> tx_throw e
      | None \<Rightarrow>
          tx_bind now (\<lambda>t.
          tx_bind new_uuid (\<lambda>i.
          tx_bind (tx_map_error (\<lambda>e. internal ''failed to insert coupon'' (Some e))
                     (run_tx (insert_coupon (new_coupon i t c)))) (\<lambda>cpn.
          tx_bind (publish_coupon cfg ''coupon.issued''
                     [(''coupon_id'', JStr (cpn_id cpn)), (''code'', JStr (cpn_code cpn)),
                      (''issuer_type'', JStr (issuer_text (cpn_issuer_type cpn))),
                      (''issued_at'', JInt t)]) (\<lambda>_.
          tx_return cpn)))))"

definition list_coupons :: "coupon_filter \<Rightarrow> (coupon list \<times> nat) ctx" where
  "list_coupons f =
     (case clamp_page (flt_limit f) (flt_offset f) of (lim, off) \<Rightarrow>
        tx_map_error (\<lambda>e. internal ''failed to list coupons'' (Some e))
          (run_tx (list_coupon_rows (f\<lparr>flt_limit := lim, flt_offset := off\<rparr>))))"

definition load_coupon :: "uuid \<Rightarrow> coupon ctx" where
  "load_coupon i =
     tx_bind (tx_map_error (\<lambda>e. internal ''failed to load coupon'' (Some e)) (run_tx (coupon_by_id i)))
       (\<lambda>found. case found of None \<Rightarrow> tx_throw (Sentinel ErrCouponNotFound) | Some c \<Rightarrow> tx_return c)"

definition get_coupon :: "uuid \<Rightarrow> coupon ctx" where
  "get_coupon i = load_coupon i"

record update_coupon_input =
  uin_title :: string
  uin_description :: string
  uin_min_order :: int
  uin_max_discount :: "int option"
  uin_expires_at :: "int option"
  uin_limit_total :: "int option"
  uin_limit_per_user :: "int option"

definition coupon_patch_of :: "coupon \<Rightarrow> update_coupon_input \<Rightarrow> coupon_patch" where
  "coupon_patch_of existing u =
     \<lparr>pat_title = uin_title u, pat_description = uin_description u, pat_min_order = uin_min_order u,
      pat_max_discount = (if cpn_discount_type existing = FixedAmount then None else uin_max_discount u),
      pat_expires_at = map_option unix_time (uin_expires_at u), pat_limit_total = uin_limit_total u,
      pat_limit_per_user = uin_limit_per_user u\<rparr>"

definition update_coupon :: "uuid \<Rightarrow> update_coupon_input \<Rightarrow> coupon ctx" where
  "update_coupon i u =
     (if trim_space (uin_title u) = '''' then tx_throw (bad_request ''title is required'')
      else if uin_min_order u < 0 then tx_throw (bad_request ''min_order_amount must be non-negative'')
      else if (case uin_max_discount u of None \<Rightarrow> False | Some n \<Rightarrow> n < 0) then
        tx_throw (bad_request ''max_discount_amount must be non-negative'')
      else if not_positive (uin_limit_total u) then
        tx_throw (bad_request ''usage_limit_total must be positive when set'')
      else if not_positive (uin_limit_per_user u) then
        tx_throw (bad_request ''usage_limit_per_user must be positive when set'')
      else
        tx_bind (load_coupon i) (\<lambda>existing.
        tx_bind (tx_map_error (\<lambda>e. internal ''failed to update coupon'' (Some e))
                   (run_tx (update_coupon_row i (coupon_patch_of existing u)))) (\<lambda>updated.
        case updated of None \<Rightarrow> tx_throw (Sentinel ErrCouponNotFound) | Some c \<Rightarrow> tx_return c)))"

definition revoke_coupon :: "coupon_cfg \<Rightarrow> uuid \<Rightarrow> coupon ctx" where
  "revoke_coupon cfg i =
     tx_bind (load_coupon i) (\<lambda>c.
     if cpn_status c = CouponRevoked then tx_return c
     else
     tx_bind (tx_map_error (\<lambda>e. internal ''failed to revoke coupon'' (Some e))
                (run_tx (set_coupon_status i CouponRevoked))) (\<lambda>_.
     tx_bind now (\<lambda>t.
     tx_bind (publish_coupon cfg ''coupon.revoked''
                [(''coupon_id'', JStr (cpn_id c)), (''code'', JStr (cpn_code c)), (''revoked_at'', JInt t)]) (\<lambda>_.
     tx_return (c\<lparr>cpn_status := CouponRevoked\<rparr>)))))"

record coupon_stats =
  st_coupon_id :: uuid
  st_redeemed :: nat
  st_total_discount :: int
  st_pending :: nat

definition get_coupon_stats :: "uuid \<Rightarrow> coupon_stats ctx" where
  "get_coupon_stats i =
     tx_bind (load_coupon i) (\<lambda>_.
     tx_bind (tx_map_error (\<lambda>e. internal ''failed to load stats'' (Some e)) (run_tx (stats_by_coupon i)))
       (\<lambda>(n, tot).
     tx_bind (tx_map_error (\<lambda>e. internal ''failed to count pending reservations'' (Some e))
                (run_tx (count_pending i))) (\<lambda>p.
     tx_return \<lparr>st_coupon_id = i, st_redeemed = n, st_total_discount = tot, st_pending = p\<rparr>)))"

subsection \<open>Resolving a code\<close>

fun find_seller_coupon ::
  "bool \<Rightarrow> string \<Rightarrow> seller_subtotal list \<Rightarrow> (coupon \<times> uuid option) option ctx" where
  "find_seller_coupon in_tx cd [] = tx_return None"
| "find_seller_coupon in_tx cd ((seller, sub) # rest) =
     tx_bind (tx_map_error (\<lambda>e. internal ''failed to load coupon'' (Some e))
                (tx_or_pool in_tx (coupon_by_code IssuerSeller (Some seller) cd))) (\<lambda>candidate.
     case candidate of
       Some c \<Rightarrow> tx_return (Some (c, Some seller))
     | None \<Rightarrow> find_seller_coupon in_tx cd rest)"

definition find_coupon_by_code ::
  "bool \<Rightarrow> string \<Rightarrow> seller_subtotal list \<Rightarrow> (coupon \<times> uuid option) option ctx" where
  "find_coupon_by_code in_tx cd subs =
     tx_bind (tx_map_error (\<lambda>e. internal ''failed to load coupon'' (Some e))
                (tx_or_pool in_tx (coupon_by_code IssuerPlatform None cd))) (\<lambda>platform.
     case platform of
       Some c \<Rightarrow> tx_return (Some (c, None))
     | None \<Rightarrow> find_seller_coupon in_tx cd subs)"

definition applicable_subtotal :: "uuid option \<Rightarrow> seller_subtotal list \<Rightarrow> int" where
  "applicable_subtotal seller subs =
     (case seller of
        Some i \<Rightarrow> (case find (\<lambda>(j, _). j = i) subs of Some (_, sub) \<Rightarrow> sub | None \<Rightarrow> 0)
      | None \<Rightarrow> fold (\<lambda>(_, sub) a. i64 (a + sub)) subs 0)"

definition check_per_user :: "bool \<Rightarrow> string \<Rightarrow> coupon \<Rightarrow> unit ctx" where
  "check_per_user in_tx b c =
     (case cpn_limit_per_user c of
        None \<Rightarrow> tx_return ()
      | Some lim \<Rightarrow>
          tx_bind (tx_map_error (\<lambda>e. internal ''failed to check per-user limit'' (Some e))
                     (tx_or_pool in_tx (count_by_buyer_and_coupon b (cpn_id c)))) (\<lambda>n.
          if int n \<ge> lim then tx_throw (Sentinel ErrCouponPerUserLimit) else tx_return ()))"

definition resolve_coupon ::
  "bool \<Rightarrow> string \<Rightarrow> string \<Rightarrow> seller_subtotal list \<Rightarrow> string \<Rightarrow> (coupon \<times> uuid option \<times> int) ctx" where
  "resolve_coupon in_tx cd b subs currency =
     (let cd = trim_space cd in
      if cd = '''' then tx_throw (bad_request ''code is required'')
      else if b = '''' then tx_throw (bad_request ''buyer_auth0_id is required'')
      else let currency = default_str currency ''JPY'' in
      tx_bind (find_coupon_by_code in_tx cd subs) (\<lambda>found.
      case found of
        None \<Rightarrow> tx_throw (Sentinel ErrCouponNotFound)
      | Some (c, seller) \<Rightarrow>
          if cpn_status c = CouponRevoked then tx_throw (Sentinel ErrCouponRevoked)
          else tx_bind now (\<lambda>t.
          if \<not> is_within_validity c t then
            (if (case cpn_expires_at c of None \<Rightarrow> False | Some e \<Rightarrow> t > e)
             then tx_throw (Sentinel ErrCouponExpired) else tx_throw (Sentinel ErrCouponNotStarted))
          else if \<not> equal_fold (cpn_currency c) currency then tx_throw (Sentinel ErrCurrencyMismatch)
          else let sub = applicable_subtotal seller subs in
          if sub < cpn_min_order c then tx_throw (Sentinel ErrMinOrderNotMet)
          else tx_bind (check_per_user in_tx b c) (\<lambda>_. tx_return (c, seller, sub)))))"

record preview_result =
  pre_coupon_id :: uuid
  pre_title :: string
  pre_description :: string
  pre_discount :: int
  pre_seller :: "uuid option"
  pre_expires_at :: "instant option"

definition preview_coupon ::
  "string \<Rightarrow> string \<Rightarrow> seller_subtotal list \<Rightarrow> string \<Rightarrow> preview_result ctx" where
  "preview_coupon cd b subs currency =
     tx_bind (resolve_coupon False cd b subs currency) (\<lambda>(c, seller, sub).
     tx_return \<lparr>pre_coupon_id = cpn_id c, pre_title = cpn_title c, pre_description = cpn_description c,
                pre_discount = compute_discount c sub, pre_seller = seller,
                pre_expires_at = cpn_expires_at c\<rparr>)"

definition list_my_redemptions ::
  "coupon_cfg \<Rightarrow> string \<Rightarrow> int \<Rightarrow> int \<Rightarrow> (coupon_redemption list \<times> nat) ctx" where
  "list_my_redemptions cfg b lim off =
     (if b = '''' then tx_throw (bad_request ''buyer_auth0_id is required'')
      else case clamp_page lim off of (lim, off) \<Rightarrow>
        tx_map_error (\<lambda>e. internal ''failed to list redemptions'' (Some e))
          (run_tx (redemptions_by_buyer cfg b lim off)))"

subsection \<open>Reserve, commit, release\<close>

definition reserve_coupon_tx ::
  "coupon_cfg \<Rightarrow> string \<Rightarrow> string \<Rightarrow> seller_subtotal list \<Rightarrow> string \<Rightarrow> coupon_reservation ctx" where
  "reserve_coupon_tx cfg cd b subs currency =
     tx_bind (resolve_coupon True cd b subs currency) (\<lambda>(c, seller, sub).
     let discount = compute_discount c sub in
     if discount \<le> 0 then tx_throw (Sentinel ErrInvalidCouponInput)
     else
     tx_bind (tx_map_error (\<lambda>e. if errors_is e (Sentinel ErrUsageLimitExceeded)
                                then Sentinel ErrCouponUsageLimitHit else e)
                (increment_usage (cpn_id c))) (\<lambda>_.
     tx_bind new_uuid (\<lambda>i.
     tx_bind now (\<lambda>t.
     insert_hold \<lparr>crv_id = i, crv_coupon_id = cpn_id c, crv_buyer = b, crv_discount = discount,
       crv_currency = cpn_currency c, crv_seller_id = seller, crv_status = HoldPending,
       crv_expires_at = t + hold_ttl cfg, crv_created_at = 0, crv_committed_at = None,
       crv_released_at = None\<rparr>))))"

definition reserve_coupon ::
  "coupon_cfg \<Rightarrow> string \<Rightarrow> string \<Rightarrow> seller_subtotal list \<Rightarrow> string \<Rightarrow> coupon_reservation ctx" where
  "reserve_coupon cfg cd b subs currency =
     tx_map_error map_domain_error (run_tx (reserve_coupon_tx cfg cd b subs currency))"

text \<open>The result is the redemption's id and whether it had been committed before.\<close>

definition commit_hold_tx :: "coupon_cfg \<Rightarrow> uuid \<Rightarrow> uuid \<Rightarrow> (uuid \<times> bool) ctx" where
  "commit_hold_tx cfg hold_id order_id =
     tx_bind (hold_by_id hold_id) (\<lambda>found.
     case found of
       None \<Rightarrow> tx_throw (Sentinel ErrHoldNotFound)
     | Some r \<Rightarrow>
     tx_bind (redemption_by_coupon_and_order cfg (crv_coupon_id r) order_id) (\<lambda>existing.
     case existing of
       Some d \<Rightarrow> tx_return (crd_id d, True)
     | None \<Rightarrow>
     if crv_status r \<noteq> HoldPending then tx_throw (Sentinel ErrHoldAlreadyTerminal)
     else
     tx_bind (update_hold_status hold_id HoldPending HoldCommitted) (\<lambda>ok.
     if \<not> ok then tx_throw (Sentinel ErrHoldAlreadyTerminal)
     else
     tx_bind new_uuid (\<lambda>i.
     tx_catch
       (tx_bind (insert_redemption
          \<lparr>crd_id = i, crd_coupon_id = crv_coupon_id r, crd_buyer = crv_buyer r, crd_order_id = order_id,
           crd_discount = crv_discount r, crd_refunded = 0, crd_reservation_id = hold_id,
           crd_committed_at = 0, crd_refunded_at = None, crd_refunded_reason = None\<rparr>)
          (\<lambda>d. tx_return (crd_id d, False)))
       (\<lambda>e. if errors_is e (Sentinel ErrDuplicateRedemption) then
              tx_bind (redemption_by_coupon_and_order cfg (crv_coupon_id r) order_id) (\<lambda>winner.
              case winner of
                None \<Rightarrow> tx_throw (Sentinel ErrVanished)
              | Some d \<Rightarrow> tx_return (crd_id d, True))
            else tx_throw e)))))"

definition commit_hold :: "coupon_cfg \<Rightarrow> uuid \<Rightarrow> uuid \<Rightarrow> string \<Rightarrow> (uuid \<times> bool) ctx" where
  "commit_hold cfg hold_id order_id payment_intent =
     tx_bind (tx_map_error map_domain_error (run_tx (commit_hold_tx cfg hold_id order_id)))
       (\<lambda>(i, already).
     if already then tx_return (i, already)
     else
     tx_bind now (\<lambda>t.
     tx_bind (publish_coupon cfg ''coupon.redeemed''
                [(''redemption_id'', JStr i), (''order_id'', JStr order_id),
                 (''stripe_pi_id'', JStr payment_intent), (''committed_at'', JInt t)]) (\<lambda>_.
     tx_return (i, already))))"

definition release_hold_tx :: "uuid \<Rightarrow> bool ctx" where
  "release_hold_tx hold_id =
     tx_bind (hold_by_id hold_id) (\<lambda>found.
     case found of
       None \<Rightarrow> tx_throw (Sentinel ErrHoldNotFound)
     | Some r \<Rightarrow>
     if crv_status r \<noteq> HoldPending then tx_return False
     else
     tx_bind (update_hold_status hold_id HoldPending HoldReleased) (\<lambda>ok.
     if \<not> ok then tx_return False
     else
     tx_bind (decrement_usage (crv_coupon_id r)) (\<lambda>_. tx_return True)))"

definition release_hold :: "uuid \<Rightarrow> bool ctx" where
  "release_hold hold_id = tx_map_error map_domain_error (run_tx (release_hold_tx hold_id))"

subsection \<open>Refund on cancellation\<close>

record refund_result =
  rr_redemption_id :: uuid
  rr_applied :: int
  rr_fully :: bool
  rr_already :: bool
  rr_skipped :: bool

definition no_refund :: refund_result where
  "no_refund = \<lparr>rr_redemption_id = nil_uuid, rr_applied = 0, rr_fully = False, rr_already = False,
     rr_skipped = False\<rparr>"

definition refund_redemption_tx :: "coupon_cfg \<Rightarrow> uuid \<Rightarrow> uuid \<Rightarrow> int \<Rightarrow> string \<Rightarrow> refund_result ctx" where
  "refund_redemption_tx cfg hold_id order_id share reason =
     tx_bind (redemption_by_hold cfg hold_id) (\<lambda>found.
     case found of
       None \<Rightarrow> tx_return (no_refund\<lparr>rr_skipped := True\<rparr>)
     | Some d \<Rightarrow>
     let out = no_refund\<lparr>rr_redemption_id := crd_id d\<rparr> in
     if share = 0 then tx_return out
     else
     tx_bind (tx_catch
       (tx_bind (insert_refund_event
          \<lparr>rfe_redemption_id = crd_id d, rfe_order_id = order_id, rfe_share = share, rfe_reason = reason\<rparr>)
          (\<lambda>_. tx_return True))
       (\<lambda>e. if errors_is e (Sentinel ErrDuplicateRefundEvent) then tx_return False else tx_throw e))
       (\<lambda>claimed.
     if \<not> claimed then tx_return (out\<lparr>rr_already := True\<rparr>)
     else
     tx_bind (apply_partial_refund (crd_id d) share reason) (\<lambda>(applied, fully, already_full).
     if already_full then tx_return (out\<lparr>rr_already := True\<rparr>)
     else
     let out = out\<lparr>rr_applied := applied, rr_fully := fully\<rparr> in
     if fully then tx_bind (decrement_usage (crd_coupon_id d)) (\<lambda>_. tx_return out)
     else tx_return out)))"

definition refund_redemption :: "coupon_cfg \<Rightarrow> uuid \<Rightarrow> uuid \<Rightarrow> int \<Rightarrow> string \<Rightarrow> refund_result ctx" where
  "refund_redemption cfg hold_id order_id share reason =
     (if hold_id = nil_uuid then tx_return (no_refund\<lparr>rr_skipped := True\<rparr>)
      else if order_id = nil_uuid then tx_throw (bad_request ''order_id is required'')
      else if share < 0 then tx_throw (bad_request ''share must be non-negative'')
      else tx_map_error (\<lambda>e. internal ''failed to refund redemption'' (Some e))
             (run_tx (refund_redemption_tx cfg hold_id order_id share reason)))"

subsection \<open>The reaper\<close>

definition expire_holds_tx :: "(uuid \<Rightarrow> bool) \<Rightarrow> nat ctx" where
  "expire_holds_tx locked =
     tx_bind (claim_expired_holds locked 200) (\<lambda>rows.
     tx_bind (tx_for rows (\<lambda>(_, coupon_id) _. decrement_usage coupon_id) ()) (\<lambda>_.
     tx_return (length rows)))"

definition expire_holds :: "(uuid \<Rightarrow> bool) \<Rightarrow> nat ctx" where
  "expire_holds locked = run_tx (expire_holds_tx locked)"

end
