(* ===== verification/Coupon_Invariant.thy ===== *)
theory Coupon_Invariant
  imports Coupon_Service Contracts
begin

text \<open>
  The seat invariant of the coupon service: a coupon's usage count is the number of its pending
  reservations plus its redemptions that are not fully refunded; committed reservations and
  redemptions correspond; a redemption's refunds are its refund events, capped by its discount.
  \<open>coupon_inv_gap\<close> allows the counters to be off by a given gap, as they are between the two writes
  of an operation.
\<close>

subsection \<open>What the tables promise\<close>

definition pending_seats :: "coupon_reservation list \<Rightarrow> uuid \<Rightarrow> int" where
  "pending_seats R i = sum_by (\<lambda>r. crv_coupon_id r = i \<and> crv_status r = HoldPending) (\<lambda>_. 1) R"

definition used_seats :: "coupon_redemption list \<Rightarrow> uuid \<Rightarrow> int" where
  "used_seats D i = sum_by (\<lambda>d. crd_coupon_id d = i \<and> crd_refunded_at d = None) (\<lambda>_. 1) D"

definition seats :: "coupon_db \<Rightarrow> uuid \<Rightarrow> int" where
  "seats s i = pending_seats (holds s) i + used_seats (redemptions s) i"

definition share_sum :: "uuid \<Rightarrow> refund_event list \<Rightarrow> int" where
  "share_sum i = sum_by (\<lambda>e. rfe_redemption_id e = i) rfe_share"

definition redeems :: "coupon_redemption \<Rightarrow> coupon_reservation \<Rightarrow> bool" where
  "redeems d r \<longleftrightarrow> crd_reservation_id d = crv_id r \<and> crd_coupon_id d = crv_coupon_id r
     \<and> crd_buyer d = crv_buyer r \<and> crd_discount d = crv_discount r"

definition redemption_ok :: "refund_event list \<Rightarrow> coupon_redemption \<Rightarrow> bool" where
  "redemption_ok E d \<longleftrightarrow>
     0 < crd_discount d \<and> crd_refunded d = min (crd_discount d) (share_sum (crd_id d) E)
     \<and> (crd_refunded_at d \<noteq> None \<longleftrightarrow> crd_refunded d = crd_discount d)
     \<and> (crd_refunded_reason d \<noteq> None \<longleftrightarrow> crd_refunded_at d \<noteq> None)"

definition coupons_ok :: "(uuid \<Rightarrow> int) \<Rightarrow> coupon_db \<Rightarrow> bool" where
  "coupons_ok gap s \<longleftrightarrow> distinct (map cpn_id (coupons s))
     \<and> (\<forall>c \<in> set (coupons s). cpn_usage_count c = seats s (cpn_id c) + gap (cpn_id c))"

definition holds_ok :: "coupon_db \<Rightarrow> bool" where
  "holds_ok s \<longleftrightarrow> distinct (map crv_id (holds s))
     \<and> (\<forall>r \<in> set (holds s). crv_coupon_id r \<in> set (map cpn_id (coupons s)) \<and> 0 < crv_discount r)"

definition redemptions_ok :: "coupon_db \<Rightarrow> bool" where
  "redemptions_ok s \<longleftrightarrow> distinct (map crd_id (redemptions s))
     \<and> distinct (map crd_reservation_id (redemptions s))
     \<and> (\<forall>d \<in> set (redemptions s). redemption_ok (refund_events s) d
          \<and> (\<exists>r \<in> set (holds s). crv_status r = HoldCommitted \<and> redeems d r))
     \<and> (\<forall>r \<in> set (holds s). crv_status r = HoldCommitted \<longrightarrow> (\<exists>d \<in> set (redemptions s). redeems d r))"

definition events_ok :: "coupon_db \<Rightarrow> bool" where
  "events_ok s \<longleftrightarrow>
     (\<forall>e \<in> set (refund_events s). 0 < rfe_share e \<and> rfe_redemption_id e \<in> set (map crd_id (redemptions s)))
     \<and> distinct (map (\<lambda>e. (rfe_redemption_id e, rfe_order_id e)) (refund_events s))"

definition coupon_inv_gap :: "(uuid \<Rightarrow> int) \<Rightarrow> coupon_db \<Rightarrow> bool" where
  "coupon_inv_gap gap s \<longleftrightarrow> coupons_ok gap s \<and> holds_ok s \<and> redemptions_ok s \<and> events_ok s"

definition coupon_inv :: "coupon_db \<Rightarrow> bool" where
  "coupon_inv s \<longleftrightarrow> coupon_inv_gap (\<lambda>_. 0) s"

lemmas coupon_inv_defs = coupon_inv_gap_def coupons_ok_def holds_ok_def redemptions_ok_def events_ok_def

lemma coupon_inv_empty: "coupon_inv empty_coupon_db"
  by (simp add: coupon_inv_def coupon_inv_defs empty_coupon_db_def)

lemma seats_nonneg: "0 \<le> pending_seats R i" "0 \<le> used_seats D i" "0 \<le> seats s i"
proof -
  show "0 \<le> pending_seats R i" for R :: "coupon_reservation list"
    unfolding pending_seats_def by (rule sum_by_nonneg) simp
  moreover show "0 \<le> used_seats D i" for D :: "coupon_redemption list"
    unfolding used_seats_def by (rule sum_by_nonneg) simp
  ultimately show "0 \<le> seats s i" by (simp add: seats_def)
qed

subsection \<open>Updates of coupon rows\<close>

lemma update_coupons_result:
  "update_coupons_stmt q g t s = Inr (n, s') \<Longrightarrow>
     n = length (filter q (coupons s)) \<and> s' = s\<lparr>coupons := update_where q (g t) (coupons s)\<rparr>"
  by (auto simp: update_coupons_stmt_def split: list.splits)

lemma seats_coupons [simp]: "seats (s\<lparr>coupons := C\<rparr>) i = seats s i"
  by (simp add: seats_def)

lemma distinct_key_eq:
  "distinct (map f xs) \<Longrightarrow> x \<in> set xs \<Longrightarrow> y \<in> set xs \<Longrightarrow> f x = f y \<Longrightarrow> x = y"
  by (auto simp: distinct_map dest: inj_onD)

lemma update_where_same_keys:
  "(\<And>x. key (g x) = key x) \<Longrightarrow> key ` set (update_where q g xs) = key ` set xs"
  by (induction xs) auto

lemma coupon_inv_update_coupons:
  assumes inv: "coupon_inv_gap gap s" and id: "\<And>c. cpn_id (g c) = cpn_id c"
    and hit: "\<And>c. c \<in> set (coupons s) \<Longrightarrow> q c \<Longrightarrow>
        cpn_usage_count (g c) = cpn_usage_count c + gap' (cpn_id c) - gap (cpn_id c)"
    and miss: "\<And>c. c \<in> set (coupons s) \<Longrightarrow> \<not> q c \<Longrightarrow> gap' (cpn_id c) = gap (cpn_id c)"
  shows "coupon_inv_gap gap' (s\<lparr>coupons := update_where q g (coupons s)\<rparr>)"
proof -
  let ?s = "s\<lparr>coupons := update_where q g (coupons s)\<rparr>"
  have ids: "map cpn_id (update_where q g (coupons s)) = map cpn_id (coupons s)"
    using id by (rule update_where_keys)
  have "coupons_ok gap' ?s"
    unfolding coupons_ok_def
  proof (intro conjI ballI)
    show "distinct (map cpn_id (coupons ?s))" using inv ids by (simp add: coupon_inv_defs)
    fix c assume "c \<in> set (coupons ?s)"
    then obtain c0 where c0: "c0 \<in> set (coupons s)" "c = (if q c0 then g c0 else c0)"
      by (auto simp: update_where_def)
    then show "cpn_usage_count c = seats ?s (cpn_id c) + gap' (cpn_id c)"
      using inv hit [OF c0(1)] miss [OF c0(1)] id by (auto simp: coupon_inv_defs)
  qed
  moreover have "holds_ok ?s \<and> redemptions_ok ?s \<and> events_ok ?s"
    using inv ids update_where_same_keys [of cpn_id g q "coupons s", OF id] by (simp add: coupon_inv_defs)
  ultimately show ?thesis by (simp add: coupon_inv_gap_def)
qed

lemma wp_increment_usage:
  assumes "coupon_inv_gap gap (store w)"
    and "\<And>w'. coupon_inv_gap (gap(i := gap i + 1)) (store w') \<Longrightarrow> holds (store w') = holds (store w)
      \<Longrightarrow> redemptions (store w') = redemptions (store w)
      \<Longrightarrow> i \<in> set (map cpn_id (coupons (store w'))) \<Longrightarrow> clock w' = clock w
      \<Longrightarrow> (\<forall>c \<in> set (coupons (store w)). cpn_id c = i \<longrightarrow> below_limit c) \<Longrightarrow> Q () w'"
  shows "wp (increment_usage i) Q w"
  unfolding increment_usage_def
proof (intro wp_intros)
  fix n s' and w' :: "coupon_db world"
  assume upd: "update_coupons_stmt (\<lambda>c. cpn_id c = i \<and> below_limit c) take_seat (clock w) (store w) = Inr (n, s')"
    and w': "store w' = s'" "clock w' = clock w" and n: "n \<noteq> 0"
  let ?q = "\<lambda>c. cpn_id c = i \<and> below_limit c"
  have res: "n = length (filter ?q (coupons (store w)))"
    "store w' = (store w)\<lparr>coupons := update_where ?q (take_seat (clock w)) (coupons (store w))\<rparr>"
    using update_coupons_result [OF upd] w' by simp_all
  with n obtain c where c: "c \<in> set (coupons (store w))" "cpn_id c = i" "below_limit c"
    by (auto simp: filter_empty_conv)
  have d: "distinct (map cpn_id (coupons (store w)))"
    using assms(1) by (simp add: coupon_inv_gap_def coupons_ok_def)
  have lim: "below_limit c'" if "c' \<in> set (coupons (store w))" "cpn_id c' = i" for c'
    using distinct_key_eq [OF d that(1) c(1)] that(2) c(2,3) by simp
  have inv: "coupon_inv_gap (gap(i := gap i + 1)) (store w')"
    unfolding res(2) using assms(1)
    by (rule coupon_inv_update_coupons) (use lim in \<open>auto simp: take_seat_def\<close>)
  have "i \<in> set (map cpn_id (coupons (store w')))"
    using c update_where_same_keys [of cpn_id "take_seat (clock w)" ?q "coupons (store w)"]
    by (force simp: res(2) take_seat_def)
  from assms(2) [OF inv _ _ this w'(2)] lim show "Q () w'" by (simp add: res(2))
qed

lemma wp_decrement_usage:
  assumes "coupon_inv_gap gap (store w)" and "1 \<le> gap i"
    and "\<And>w'. coupon_inv_gap (gap(i := gap i - 1)) (store w') \<Longrightarrow> clock w' = clock w
      \<Longrightarrow> holds (store w') = holds (store w) \<Longrightarrow> redemptions (store w') = redemptions (store w)
      \<Longrightarrow> refund_events (store w') = refund_events (store w) \<Longrightarrow> Q () w'"
  shows "wp (decrement_usage i) Q w"
  unfolding decrement_usage_def
proof (intro wp_intros)
  fix n s' and w' :: "coupon_db world"
  assume upd: "update_coupons_stmt (\<lambda>c. cpn_id c = i) free_seat (clock w) (store w) = Inr (n, s')"
    and w': "store w' = s'" "clock w' = clock w"
  have res: "store w' = (store w)\<lparr>coupons := update_where (\<lambda>c. cpn_id c = i) (free_seat (clock w)) (coupons (store w))\<rparr>"
    using update_coupons_result [OF upd] w' by simp
  have "cpn_usage_count (free_seat (clock w) c) = cpn_usage_count c - 1"
    if "c \<in> set (coupons (store w))" "cpn_id c = i" for c
    using assms(1,2) that seats_nonneg(3) [of "store w" i] by (auto simp: coupon_inv_defs free_seat_def)
  then have inv: "coupon_inv_gap (gap(i := gap i - 1)) (store w')"
    unfolding res using assms(1)
    by (intro coupon_inv_update_coupons [OF assms(1)]) (auto simp: free_seat_def)
  from assms(3) [OF inv w'(2)] show "Q () w'" by (simp add: res)
qed

subsection \<open>Reservations\<close>

lemma wp_update_hold_status [wp_intros]:
  assumes "\<And>w'. store w' = (store w)\<lparr>holds :=
        update_where (\<lambda>r. crv_id r = i \<and> crv_status r = expect) (set_hold_status (clock w) next) (holds (store w))\<rparr>
      \<Longrightarrow> clock w' = clock w
      \<Longrightarrow> Q (list_ex (\<lambda>r. crv_id r = i \<and> crv_status r = expect) (holds (store w))) w'"
  shows "wp (update_hold_status i expect next) Q w"
  unfolding update_hold_status_def by (rule wp_sqlI) (auto simp: Let_def intro!: assms)

lemma wp_hold_by_id [wp_intros]:
  "(\<And>w'. store w' = store w \<Longrightarrow> clock w' = clock w \<Longrightarrow> Q (find (\<lambda>r. crv_id r = i) (holds (store w))) w')
   \<Longrightarrow> wp (hold_by_id i) Q w"
  unfolding hold_by_id_def by (rule wp_queryI)

lemma set_hold_status_simps [simp]:
  "crv_id (set_hold_status t st r) = crv_id r" "crv_coupon_id (set_hold_status t st r) = crv_coupon_id r"
  "crv_buyer (set_hold_status t st r) = crv_buyer r" "crv_discount (set_hold_status t st r) = crv_discount r"
  "crv_status (set_hold_status t st r) = st"
  by (simp_all add: set_hold_status_def)

text \<open>One pending row \<open>r\<close> leaves the pending state.\<close>

definition close_hold :: "coupon_reservation \<Rightarrow> instant \<Rightarrow> hold_status \<Rightarrow> coupon_reservation list \<Rightarrow> coupon_reservation list" where
  "close_hold r t st = update_where (\<lambda>x. crv_id x = crv_id r \<and> crv_status x = HoldPending) (set_hold_status t st)"

lemma close_hold_map: "map crv_id (close_hold r t st R) = map crv_id R"
  unfolding close_hold_def by (rule update_where_keys) simp

lemma pending_seats_close:
  assumes "distinct (map crv_id R)" and "r \<in> set R" and "crv_status r = HoldPending" and "st \<noteq> HoldPending"
  shows "pending_seats (close_hold r t st R) i
       = pending_seats R i - (if i = crv_coupon_id r then 1 else 0)"
proof -
  let ?q = "\<lambda>x. crv_id x = crv_id r \<and> crv_status x = HoldPending"
  let ?p = "\<lambda>x. crv_coupon_id x = i \<and> crv_status x = HoldPending"
  have gone: "sum_by (\<lambda>x. ?q x \<and> ?p (set_hold_status t st x)) (\<lambda>_. 1) R = (0 :: int)"
    using assms(4) by (intro sum_by_None) auto
  have "sum_by (\<lambda>x. ?q x \<and> ?p x) (\<lambda>_. 1) R = sum_by (\<lambda>x. crv_id x = crv_id r \<and> ?p x) (\<lambda>_. 1 :: int) R"
    by (rule sum_by_cong) auto
  also have "\<dots> = (if ?p r then 1 else 0)"
    by (rule sum_by_single_key [OF assms(1,2)])
  finally have one: "sum_by (\<lambda>x. ?q x \<and> ?p x) (\<lambda>_. 1) R = (if i = crv_coupon_id r then 1 else 0 :: int)"
    using assms(3) by auto
  show ?thesis
    unfolding close_hold_def pending_seats_def sum_by_update_where
    using gone one sum_by_split [of ?p "\<lambda>_. 1 :: int" R ?q] by simp
qed

lemma set_close_hold:
  assumes "distinct (map crv_id R)" and "r \<in> set R" and "crv_status r = HoldPending"
  shows "set (close_hold r t st R) = insert (set_hold_status t st r) (set R - {r})"
proof -
  have hit: "crv_id x = crv_id r \<longleftrightarrow> x = r" if "x \<in> set R" for x
    using assms(1,2) that distinct_key_eq [of crv_id R] by auto
  then have "set (close_hold r t st R) = (\<lambda>x. if x = r then set_hold_status t st r else x) ` set R"
    unfolding close_hold_def update_where_def using assms(3) by force
  with assms(2) show ?thesis by auto
qed

lemma redeems_set_hold_status [simp]: "redeems d (set_hold_status t st r) = redeems d r"
  by (simp add: redeems_def)

lemma redeems_unique:
  assumes "distinct (map crv_id R)" and "r \<in> set R" and "r' \<in> set R" and "redeems d r" and "redeems d r'"
  shows "r' = r"
  using assms distinct_key_eq [of crv_id R r r'] by (auto simp: redeems_def)

lemma redemption_hold:
  assumes "redemptions_ok s" and "d \<in> set (redemptions s)"
  obtains r where "r \<in> set (holds s)" "crv_status r = HoldCommitted" "redeems d r"
  using assms unfolding redemptions_ok_def by blast

lemma hold_redemption:
  assumes "redemptions_ok s" and "r \<in> set (holds s)" and "crv_status r = HoldCommitted"
  obtains d where "d \<in> set (redemptions s)" "redeems d r"
  using assms unfolding redemptions_ok_def by blast

lemma redemption_row: "redemptions_ok s \<Longrightarrow> d \<in> set (redemptions s) \<Longrightarrow> redemption_ok (refund_events s) d"
  unfolding redemptions_ok_def by blast

lemma release_step:
  assumes inv: "coupon_inv_gap gap s" and r: "r \<in> set (holds s)" "crv_status r = HoldPending"
    and st: "st \<in> {HoldReleased, HoldExpired}"
  shows "coupon_inv_gap (gap(crv_coupon_id r := gap (crv_coupon_id r) + 1))
           (s\<lparr>holds := close_hold r t st (holds s)\<rparr>)"
proof -
  let ?s = "s\<lparr>holds := close_hold r t st (holds s)\<rparr>"
  have d: "distinct (map crv_id (holds s))" using inv by (simp add: coupon_inv_defs)
  note set = set_close_hold [OF d r]
  have "seats ?s i = seats s i - (if i = crv_coupon_id r then 1 else 0)" for i
    using pending_seats_close [OF d r, of st t i] st by (auto simp: seats_def)
  then have "coupons_ok (gap(crv_coupon_id r := gap (crv_coupon_id r) + 1)) ?s"
    using inv by (auto simp: coupon_inv_defs)
  moreover have "holds_ok ?s" using inv r by (auto simp: coupon_inv_defs set close_hold_map)
  moreover have "redemptions_ok ?s"
    unfolding redemptions_ok_def
  proof (intro conjI ballI impI)
    have ok: "redemptions_ok s" using inv by (simp add: coupon_inv_gap_def)
    show "distinct (map crd_id (redemptions ?s))" "distinct (map crd_reservation_id (redemptions ?s))"
      using ok by (simp_all add: redemptions_ok_def)
    fix d assume d: "d \<in> set (redemptions ?s)"
    with ok show "redemption_ok (refund_events ?s) d" by (simp add: redemptions_ok_def)
    from d have "d \<in> set (redemptions s)" by simp
    from redemption_hold [OF ok this] obtain r'
      where "r' \<in> set (holds s)" "crv_status r' = HoldCommitted" "redeems d r'" .
    with r show "\<exists>r \<in> set (holds ?s). crv_status r = HoldCommitted \<and> redeems d r"
      by (intro bexI [of _ r']) (auto simp: set)
  next
    fix r' assume "r' \<in> set (holds ?s)" "crv_status r' = HoldCommitted"
    then show "\<exists>d \<in> set (redemptions ?s). redeems d r'"
      using inv st by (auto simp: set coupon_inv_defs)
  qed
  ultimately show ?thesis using inv by (simp add: coupon_inv_gap_def events_ok_def)
qed

lemma used_seats_append [simp]: "used_seats (D @ E) i = used_seats D i + used_seats E i"
  by (simp add: used_seats_def)

lemma pending_seats_append [simp]: "pending_seats (R @ S) i = pending_seats R i + pending_seats S i"
  by (simp add: pending_seats_def)

lemma share_sum_None: "i \<notin> rfe_redemption_id ` set E \<Longrightarrow> share_sum i E = 0"
  unfolding share_sum_def by (rule sum_by_None) auto

lemma commit_step:
  assumes inv: "coupon_inv_gap gap s" and r: "r \<in> set (holds s)" "crv_status r = HoldPending"
    and d: "redeems d r" "crd_refunded d = 0" "crd_refunded_at d = None" "crd_refunded_reason d = None"
    and fresh: "crd_id d \<notin> set (map crd_id (redemptions s))"
  shows "coupon_inv_gap gap
    (s\<lparr>holds := close_hold r t HoldCommitted (holds s), redemptions := redemptions s @ [d]\<rparr>)"
proof -
  let ?s = "s\<lparr>holds := close_hold r t HoldCommitted (holds s), redemptions := redemptions s @ [d]\<rparr>"
  have dist: "distinct (map crv_id (holds s))" using inv by (simp add: coupon_inv_defs)
  note set = set_close_hold [OF dist r]
  have pos: "0 < crv_discount r" and ok: "redemptions_ok s" and ev: "events_ok s"
    using inv r by (auto simp: coupon_inv_defs)
  have new: "crd_reservation_id d \<notin> crd_reservation_id ` set (redemptions s)"
  proof
    assume "crd_reservation_id d \<in> crd_reservation_id ` set (redemptions s)"
    then obtain d' where d': "d' \<in> set (redemptions s)" "crd_reservation_id d' = crv_id r"
      using d(1) by (auto simp: redeems_def)
    obtain r' where r': "r' \<in> set (holds s)" "crv_status r' = HoldCommitted" "redeems d' r'"
      using redemption_hold [OF ok d'(1)] .
    with d'(2) have "crv_id r' = crv_id r" by (simp add: redeems_def)
    from distinct_key_eq [OF dist r'(1) r(1) this] r r' show False by simp
  qed
  have share: "share_sum (crd_id d) (refund_events s) = 0"
    using ev fresh by (intro share_sum_None) (auto simp: events_ok_def)
  have "seats ?s i = seats s i" for i
    using pending_seats_close [OF dist r, of HoldCommitted t i] d
    by (auto simp: seats_def used_seats_def redeems_def)
  then have "coupons_ok gap ?s" using inv by (auto simp: coupon_inv_defs)
  moreover have "holds_ok ?s" using inv r by (auto simp: coupon_inv_defs set close_hold_map)
  moreover have "redemptions_ok ?s"
    unfolding redemptions_ok_def
  proof (intro conjI ballI impI)
    show "distinct (map crd_id (redemptions ?s))" "distinct (map crd_reservation_id (redemptions ?s))"
      using ok fresh new by (auto simp: redemptions_ok_def)
    fix x assume x: "x \<in> set (redemptions ?s)"
    then show "redemption_ok (refund_events ?s) x"
      using redemption_row [OF ok] share pos d by (auto simp: redemption_ok_def redeems_def)
    show "\<exists>r \<in> set (holds ?s). crv_status r = HoldCommitted \<and> redeems x r"
    proof (cases "x = d")
      case True
      with d show ?thesis by (intro bexI [of _ "set_hold_status t HoldCommitted r"]) (auto simp: set)
    next
      case False
      with x have "x \<in> set (redemptions s)" by simp
      from redemption_hold [OF ok this] obtain r'
        where "r' \<in> set (holds s)" "crv_status r' = HoldCommitted" "redeems x r'" .
      with r show ?thesis by (intro bexI [of _ r']) (auto simp: set)
    qed
  next
    fix r' assume "r' \<in> set (holds ?s)" "crv_status r' = HoldCommitted"
    then consider "r' = set_hold_status t HoldCommitted r" | "r' \<in> set (holds s)"
      by (auto simp: set)
    then show "\<exists>d \<in> set (redemptions ?s). redeems d r'"
    proof cases
      case 2
      from hold_redemption [OF ok this \<open>crv_status r' = HoldCommitted\<close>] obtain x
        where "x \<in> set (redemptions s)" "redeems x r'" .
      then show ?thesis by auto
    qed (use d(1) in simp)
  qed
  ultimately show ?thesis using ev by (auto simp: coupon_inv_gap_def events_ok_def)
qed

lemma reserve_step:
  assumes inv: "coupon_inv_gap (gap(i := gap i + 1)) s" and i: "i \<in> set (map cpn_id (coupons s))"
    and r: "crv_coupon_id r = i" "crv_status r = HoldPending" "0 < crv_discount r"
    and fresh: "crv_id r \<notin> set (map crv_id (holds s))"
  shows "coupon_inv_gap gap (s\<lparr>holds := holds s @ [r]\<rparr>)"
proof -
  let ?s = "s\<lparr>holds := holds s @ [r]\<rparr>"
  have "seats ?s j = seats s j + (if j = i then 1 else 0)" for j
    using r by (simp add: seats_def pending_seats_def)
  then have "coupons_ok gap ?s" using inv by (auto simp: coupon_inv_defs)
  moreover have "holds_ok ?s" using inv i r fresh by (auto simp: coupon_inv_defs)
  moreover have "redemptions_ok ?s" using inv r by (fastforce simp: coupon_inv_gap_def redemptions_ok_def)
  ultimately show ?thesis using inv by (simp add: coupon_inv_gap_def events_ok_def)
qed

subsection \<open>Refunds\<close>

lemma share_sum_append [simp]: "share_sum i (E @ F) = share_sum i E + share_sum i F"
  by (simp add: share_sum_def)

lemma share_sum_nonneg: "events_ok s \<Longrightarrow> 0 \<le> share_sum i (refund_events s)"
  unfolding share_sum_def by (rule sum_by_nonneg) (auto simp: events_ok_def)

text \<open>
  A refund event for \<open>d\<close>; while \<open>d\<close> is not fully refunded its row takes the share, and frees the
  seat when it reaches the discount.
\<close>

lemma refund_event_step:
  assumes inv: "coupon_inv_gap gap s" and d: "d \<in> set (redemptions s)"
    and e: "rfe_redemption_id e = crd_id d" "0 < rfe_share e"
    and fresh: "\<forall>x \<in> set (refund_events s). (rfe_redemption_id x, rfe_order_id x) \<noteq> (crd_id d, rfe_order_id e)"
    and full: "crd_refunded_at d \<noteq> None"
  shows "coupon_inv_gap gap (s\<lparr>refund_events := refund_events s @ [e]\<rparr>)"
proof -
  let ?s = "s\<lparr>refund_events := refund_events s @ [e]\<rparr>"
  have ok: "redemptions_ok s" and ev: "events_ok s" using inv by (simp_all add: coupon_inv_gap_def)
  have dist: "distinct (map crd_id (redemptions s))" using ok by (simp add: redemptions_ok_def)
  have "redemption_ok (refund_events ?s) x" if x: "x \<in> set (redemptions s)" for x
  proof (cases "crd_id x = crd_id d")
    case True
    then have xd: "x = d" using distinct_key_eq [OF dist x d] by simp
    have "redemption_ok (refund_events s) d" using redemption_row [OF ok d] .
    with full e xd show ?thesis by (auto simp: redemption_ok_def share_sum_def)
  next
    case False
    with redemption_row [OF ok x] e show ?thesis by (auto simp: redemption_ok_def share_sum_def)
  qed
  then have "redemptions_ok ?s" using ok by (simp add: redemptions_ok_def)
  moreover have "events_ok ?s" using ev d e fresh by (auto simp: events_ok_def)
  ultimately show ?thesis using inv by (simp add: coupon_inv_gap_def coupons_ok_def holds_ok_def seats_def)
qed

lemma refund_row_simps [simp]:
  "crd_id (refund_row share reason t d) = crd_id d" "crd_coupon_id (refund_row share reason t d) = crd_coupon_id d"
  "crd_buyer (refund_row share reason t d) = crd_buyer d" "crd_discount (refund_row share reason t d) = crd_discount d"
  "crd_order_id (refund_row share reason t d) = crd_order_id d"
  "crd_reservation_id (refund_row share reason t d) = crd_reservation_id d"
  "redeems (refund_row share reason t d) = redeems d"
  by (simp_all add: refund_row_def Let_def redeems_def fun_eq_iff)

lemma set_update_key:
  assumes "distinct (map key xs)" and "x \<in> set xs"
  shows "set (update_where (\<lambda>y. key y = key x) g xs) = insert (g x) (set xs - {x})"
proof -
  have hit: "key y = key x \<longleftrightarrow> y = x" if "y \<in> set xs" for y
    using distinct_key_eq [OF assms(1) that assms(2)] by auto
  then have "set (update_where (\<lambda>y. key y = key x) g xs) = (\<lambda>y. if y = x then g x else y) ` set xs"
    unfolding update_where_def by force
  with assms(2) show ?thesis by auto
qed

lemma used_seats_refund:
  assumes "distinct (map crd_id D)" and "d \<in> set D" and "crd_refunded_at d = None"
  shows "used_seats (update_where (\<lambda>x. crd_id x = crd_id d) (refund_row share reason t) D) i
       = used_seats D i - (if i = crd_coupon_id d \<and> crd_refunded_at (refund_row share reason t d) \<noteq> None then 1 else 0)"
proof -
  let ?q = "\<lambda>x. crd_id x = crd_id d" and ?g = "refund_row share reason t"
  let ?p = "\<lambda>x. crd_coupon_id x = i \<and> crd_refunded_at x = None"
  have "sum_by (\<lambda>x. ?q x \<and> ?p (?g x)) (\<lambda>_. 1) D = (if ?p (?g d) then 1 else 0 :: int)"
    by (rule sum_by_single_key [OF assms(1,2)])
  moreover have "sum_by (\<lambda>x. ?q x \<and> ?p x) (\<lambda>_. 1) D = (if ?p d then 1 else 0 :: int)"
    by (rule sum_by_single_key [OF assms(1,2)])
  ultimately show ?thesis
    unfolding used_seats_def sum_by_update_where
    using assms(3) sum_by_split [of ?p "\<lambda>_. 1 :: int" D ?q] by simp
qed

lemma refund_apply_step:
  assumes inv: "coupon_inv_gap gap s" and d: "d \<in> set (redemptions s)"
    and e: "rfe_redemption_id e = crd_id d" "0 < rfe_share e"
    and fresh: "\<forall>x \<in> set (refund_events s). (rfe_redemption_id x, rfe_order_id x) \<noteq> (crd_id d, rfe_order_id e)"
    and open_row: "crd_refunded_at d = None"
  shows "coupon_inv_gap
     (if crd_refunded_at (refund_row (rfe_share e) reason t d) \<noteq> None
      then gap(crd_coupon_id d := gap (crd_coupon_id d) + 1) else gap)
     (s\<lparr>refund_events := refund_events s @ [e],
        redemptions := update_where (\<lambda>x. crd_id x = crd_id d) (refund_row (rfe_share e) reason t) (redemptions s)\<rparr>)"
    (is "coupon_inv_gap ?gap ?s")
proof -
  let ?g = "refund_row (rfe_share e) reason t"
  have ok: "redemptions_ok s" and ev: "events_ok s" using inv by (simp_all add: coupon_inv_gap_def)
  have dist: "distinct (map crd_id (redemptions s))" using ok by (simp add: redemptions_ok_def)
  note set = set_update_key [OF dist d, of ?g]
  have keys: "map k (redemptions ?s) = map k (redemptions s)" if "\<And>x. k (?g x) = k x" for k :: "coupon_redemption \<Rightarrow> uuid"
    using update_where_keys [of k ?g, OF that] by simp
  have dok: "redemption_ok (refund_events s) d" using redemption_row [OF ok d] .
  have sum: "share_sum (crd_id x) (refund_events ?s) = share_sum (crd_id x) (refund_events s)
      + (if crd_id x = crd_id d then rfe_share e else 0)" for x
    using e by (simp add: share_sum_def)
  have gd: "redemption_ok (refund_events ?s) (?g d)"
    using dok open_row e(2) share_sum_nonneg [OF ev, of "crd_id d"] unfolding redemption_ok_def refund_row_simps sum
    by (auto simp: refund_row_def Let_def min_def)
  have "redemption_ok (refund_events ?s) x" if "x \<in> set (redemptions s) - {d}" for x
    using redemption_row [OF ok, of x] that sum [of x] distinct_key_eq [OF dist, of x d] d
    by (auto simp: redemption_ok_def)
  with gd have rows: "redemption_ok (refund_events ?s) x" if "x \<in> set (redemptions ?s)" for x
    using that by (auto simp: set)
  have links: "\<exists>r \<in> set (holds s). crv_status r = HoldCommitted \<and> redeems x r" if "x \<in> set (redemptions ?s)" for x
  proof -
    from that d obtain y where y: "y \<in> set (redemptions s)" "redeems x = redeems y"
      by (auto simp: set)
    from redemption_hold [OF ok y(1)] y(2) show ?thesis by auto
  qed
  have partner: "\<exists>x \<in> set (redemptions ?s). redeems x r" if "r \<in> set (holds s)" "crv_status r = HoldCommitted" for r
  proof -
    from hold_redemption [OF ok that] obtain x where "x \<in> set (redemptions s)" "redeems x r" .
    then show ?thesis by (cases "x = d") (auto simp: set)
  qed
  have "redemptions_ok ?s"
    unfolding redemptions_ok_def using ok rows links partner keys [of crd_id] keys [of crd_reservation_id]
    by (simp add: redemptions_ok_def)
  moreover have "crd_id ` set (redemptions ?s) = crd_id ` set (redemptions s)"
    using update_where_same_keys [of crd_id ?g] by simp
  then have "events_ok ?s" using ev d e fresh by (auto simp: events_ok_def)
  moreover have "coupons_ok ?gap ?s"
    using inv used_seats_refund [OF dist d open_row, of "rfe_share e" reason t]
    by (auto simp: coupon_inv_gap_def coupons_ok_def seats_def)
  ultimately show ?thesis using inv by (simp add: coupon_inv_gap_def holds_ok_def)
qed

subsection \<open>The reaper's claim\<close>

lemma expire_hold_set: "expire_hold t = set_hold_status t HoldExpired"
  by (simp add: fun_eq_iff expire_hold_def set_hold_status_def)

definition claims_of :: "(uuid \<times> uuid) list \<Rightarrow> uuid \<Rightarrow> int" where
  "claims_of rows i = sum_by (\<lambda>x. snd x = i) (\<lambda>_. 1) rows"

lemma claims_of_simps [simp]:
  "claims_of [] = (\<lambda>_. 0)"
  "claims_of (x # xs) = (claims_of xs)(snd x := claims_of xs (snd x) + 1)"
  by (auto simp: claims_of_def fun_eq_iff)

lemma claims_of_nonneg: "0 \<le> claims_of xs i"
  unfolding claims_of_def by (rule sum_by_nonneg) simp

definition claim_holds :: "instant \<Rightarrow> coupon_reservation list \<Rightarrow> coupon_reservation list \<Rightarrow> coupon_reservation list" where
  "claim_holds t K = update_where (\<lambda>r. crv_id r \<in> set (map crv_id K)) (expire_hold t)"

lemma claim_holds_Cons:
  assumes "distinct (map crv_id R)" and "r \<in> set R" and "crv_status r = HoldPending"
    and "crv_id r \<notin> set (map crv_id K)"
  shows "claim_holds t (r # K) R = close_hold r t HoldExpired (claim_holds t K R)"
proof -
  have "(if crv_id x \<in> set (map crv_id (r # K)) then expire_hold t x else x)
      = (\<lambda>y. if crv_id y = crv_id r \<and> crv_status y = HoldPending then set_hold_status t HoldExpired y else y)
          (if crv_id x \<in> set (map crv_id K) then expire_hold t x else x)" if x: "x \<in> set R" for x
  proof (cases "crv_id x = crv_id r")
    case True
    with distinct_key_eq [OF assms(1) x assms(2)] have "x = r" by simp
    with assms(3,4) show ?thesis by (simp add: expire_hold_set)
  qed (auto simp: expire_hold_set)
  then show ?thesis by (simp add: claim_holds_def close_hold_def update_where_def)
qed

lemma claim_step:
  assumes "coupon_inv s" and "distinct (map crv_id K)"
    and "\<And>r. r \<in> set K \<Longrightarrow> r \<in> set (holds s) \<and> crv_status r = HoldPending"
  shows "coupon_inv_gap (claims_of (map (\<lambda>r. (crv_id r, crv_coupon_id r)) K))
           (s\<lparr>holds := claim_holds t K (holds s)\<rparr>)"
  using assms(2,3)
proof (induction K)
  case Nil
  with assms(1) show ?case by (simp add: coupon_inv_def claim_holds_def update_where_id)
next
  case (Cons r K)
  let ?s = "s\<lparr>holds := claim_holds t K (holds s)\<rparr>"
  have dist: "distinct (map crv_id (holds s))" using assms(1) by (simp add: coupon_inv_def coupon_inv_defs)
  have r: "r \<in> set (holds s)" "crv_status r = HoldPending" "crv_id r \<notin> set (map crv_id K)"
    using Cons.prems by auto
  have IH: "coupon_inv_gap (claims_of (map (\<lambda>r. (crv_id r, crv_coupon_id r)) K)) ?s"
    using Cons by simp
  have "r \<in> set (holds ?s)"
    using r by (force simp: claim_holds_def update_where_def)
  from release_step [OF IH this r(2), of HoldExpired t] claim_holds_Cons [OF dist r, of t]
  show ?case by (simp add: fun_upd_def)
qed

lemma claimed_holds_rows:
  assumes "distinct (map crv_id R)"
  shows "distinct (map crv_id (claimed_holds locked lim t R))"
    and "r \<in> set (claimed_holds locked lim t R) \<Longrightarrow> r \<in> set R \<and> crv_status r = HoldPending"
proof -
  let ?S = "sort_key crv_expires_at (filter (hold_claimable locked t) R)"
  have "distinct (map crv_id ?S)"
    using assms by (simp add: distinct_map inj_on_def)
  then show "distinct (map crv_id (claimed_holds locked lim t R))"
    unfolding claimed_holds_def by (simp add: take_map [symmetric])
  assume "r \<in> set (claimed_holds locked lim t R)"
  then have "r \<in> set ?S" unfolding claimed_holds_def by (rule in_set_takeD)
  then show "r \<in> set R \<and> crv_status r = HoldPending" by (simp add: hold_claimable_def)
qed

lemma wp_claim_expired_holds:
  assumes "coupon_inv (store w)"
    and "\<And>rows w'. coupon_inv_gap (claims_of rows) (store w') \<Longrightarrow> clock w' = clock w \<Longrightarrow> Q rows w'"
  shows "wp (claim_expired_holds locked lim) Q w"
  unfolding claim_expired_holds_def
proof (rule wp_sqlI)
  fix x s' and w' :: "coupon_db world"
  let ?K = "claimed_holds locked lim (clock w) (holds (store w))"
  assume "(let claimed = ?K in Inr (map (\<lambda>r. (crv_id r, crv_coupon_id r)) claimed, (store w)\<lparr>holds :=
      update_where (\<lambda>r. crv_id r \<in> set (map crv_id claimed)) (expire_hold (clock w)) (holds (store w))\<rparr>)) = Inr (x, s')"
    and w': "store w' = s'" "clock w' = clock w"
  then have x: "x = map (\<lambda>r. (crv_id r, crv_coupon_id r)) ?K"
    "store w' = (store w)\<lparr>holds := claim_holds (clock w) ?K (holds (store w))\<rparr>"
    by (simp_all add: Let_def claim_holds_def)
  have dist: "distinct (map crv_id (holds (store w)))"
    using assms(1) by (simp add: coupon_inv_def coupon_inv_defs)
  have "coupon_inv_gap (claims_of x) (store w')"
    unfolding x by (rule claim_step [OF assms(1)]) (use claimed_holds_rows [OF dist] in blast)+
  with assms(2) w' show "Q x w'" by simp
qed

subsection \<open>The transactions\<close>

lemma expire_holds_tx_inv:
  assumes "coupon_inv (store w)"
  shows "wp (expire_holds_tx locked) (\<lambda>_ w'. coupon_inv (store w')) w"
  unfolding expire_holds_tx_def
proof (intro wp_intros, rule wp_claim_expired_holds [OF assms], intro wp_intros)
  fix rows :: "(uuid \<times> uuid) list" and w0 :: "coupon_db world"
  assume inv: "coupon_inv_gap (claims_of rows) (store w0)"
  show "wp (tx_for rows (\<lambda>(_, coupon_id) _. decrement_usage coupon_id) ())
          (\<lambda>x. wp (tx_return (length rows)) (\<lambda>_ w'. coupon_inv (store w'))) w0"
  proof (rule wp_for [where I = "\<lambda>rows _ w. coupon_inv_gap (claims_of rows) (store w)"])
    fix x :: "uuid \<times> uuid" and xs a and w1 :: "coupon_db world"
    assume inv: "coupon_inv_gap (claims_of (x # xs)) (store w1)"
    have gap: "(claims_of (x # xs))(snd x := claims_of (x # xs) (snd x) - 1) = claims_of xs"
      by (simp add: fun_eq_iff)
    show "wp ((case x of (_, coupon_id) \<Rightarrow> \<lambda>_. decrement_usage coupon_id) a)
            (\<lambda>_ w. coupon_inv_gap (claims_of xs) (store w)) w1"
      using wp_decrement_usage [OF inv, of "snd x" "\<lambda>_ w. coupon_inv_gap (claims_of xs) (store w)"]
        claims_of_nonneg [of xs "snd x"] gap by (cases x) simp
  qed (use inv in \<open>simp_all add: wp_simps coupon_inv_def\<close>)
qed

lemma release_hold_tx_inv:
  assumes "coupon_inv (store w)"
  shows "wp (release_hold_tx i) (\<lambda>_ w'. coupon_inv (store w')) w"
  unfolding release_hold_tx_def
  apply (intro wp_intros)
  subgoal using assms by simp
  subgoal by (auto simp: list_ex_iff dest!: find_Some_mem)
  subgoal premises p for w0 r w1
  proof -
    have r: "r \<in> set (holds (store w0))" "crv_id r = i" "crv_status r = HoldPending"
      using p find_Some_mem by fastforce+
    have inv: "coupon_inv_gap (\<lambda>_. 0) (store w0)" using assms p by (simp add: coupon_inv_def)
    have "coupon_inv_gap ((\<lambda>_. 0)(crv_coupon_id r := 1)) (store w1)"
      using release_step [OF inv r(1,3), of HoldReleased "clock w0"] p r by (simp add: close_hold_def)
    from wp_decrement_usage [OF this, of "crv_coupon_id r"] show ?thesis
      using p r by (auto simp: wp_simps list_ex_iff coupon_inv_def fun_upd_idem)
  qed
  done

text \<open>What a resolved code promises about the coupon, its scope and the subtotal it applies to.\<close>

definition in_scope :: "seller_subtotal list \<Rightarrow> coupon \<Rightarrow> uuid option \<Rightarrow> bool" where
  "in_scope subs c seller \<longleftrightarrow>
     (case seller of
        None \<Rightarrow> cpn_issuer_type c = IssuerPlatform \<and> coalesce_id (cpn_issuer_id c) = nil_uuid
      | Some i \<Rightarrow> cpn_issuer_type c = IssuerSeller \<and> coalesce_id (cpn_issuer_id c) = i \<and> i \<in> fst ` set subs)"

definition applies ::
  "coupon_db \<Rightarrow> instant \<Rightarrow> string \<Rightarrow> string \<Rightarrow> seller_subtotal list \<Rightarrow> string \<Rightarrow> coupon \<times> uuid option \<times> int \<Rightarrow> bool" where
  "applies s t cd b subs currency r \<longleftrightarrow> (case r of (c, seller, sub) \<Rightarrow>
     c \<in> set (coupons s) \<and> to_upper (cpn_code c) = to_upper (trim_space cd) \<and> in_scope subs c seller
     \<and> cpn_status c \<noteq> CouponRevoked \<and> is_within_validity c t
     \<and> equal_fold (cpn_currency c) (default_str currency ''JPY'')
     \<and> sub = applicable_subtotal seller subs \<and> cpn_min_order c \<le> sub
     \<and> (\<forall>lim. cpn_limit_per_user c = Some lim \<longrightarrow>
          int (length (filter (\<lambda>d. crd_buyer d = b \<and> crd_coupon_id d = cpn_id c) (redemptions s))) < lim))"

lemma tx_or_pool_in [simp]: "tx_or_pool True m = m"
  by (simp add: tx_or_pool_def)

lemma wp_coupon_by_code [wp_intros]:
  "(\<And>w'. store w' = store w \<Longrightarrow> clock w' = clock w \<Longrightarrow>
      Q (find (\<lambda>c. code_key c = (ty, coalesce_id i, to_upper cd)) (coupons (store w))) w')
   \<Longrightarrow> wp (coupon_by_code ty i cd) Q w"
  unfolding coupon_by_code_def by (rule wp_queryI)

definition found_ok :: "coupon_db \<Rightarrow> string \<Rightarrow> seller_subtotal list \<Rightarrow> (coupon \<times> uuid option) option \<Rightarrow> bool" where
  "found_ok s cd subs r \<longleftrightarrow> (\<forall>c seller. r = Some (c, seller) \<longrightarrow>
     c \<in> set (coupons s) \<and> to_upper (cpn_code c) = to_upper cd \<and> in_scope subs c seller)"

lemma wp_find_seller_coupon:
  assumes "\<And>r w'. store w' = store w \<Longrightarrow> clock w' = clock w \<Longrightarrow> found_ok (store w) cd subs r \<Longrightarrow> Q r w'"
  shows "wp (find_seller_coupon True cd subs) Q w"
  using assms
proof (induction subs arbitrary: w)
  case Nil
  then show ?case by (simp add: wp_simps found_ok_def)
next
  case (Cons x subs)
  obtain seller sub where x: "x = (seller, sub)" by (cases x)
  show ?case
    unfolding x
    apply (simp only: find_seller_coupon.simps tx_or_pool_in)
    apply (intro wp_intros)
    subgoal for w1
      by (rule Cons.IH) (auto intro!: Cons.prems simp: x found_ok_def in_scope_def split: option.splits)
    subgoal for w1 c
      by (rule Cons.prems) (auto simp: x found_ok_def in_scope_def code_key_def dest!: find_Some_mem)
    done
qed

lemma wp_find_coupon_by_code:
  assumes "\<And>r w'. store w' = store w \<Longrightarrow> clock w' = clock w \<Longrightarrow> found_ok (store w) cd subs r \<Longrightarrow> Q r w'"
  shows "wp (find_coupon_by_code True cd subs) Q w"
  unfolding find_coupon_by_code_def tx_or_pool_in
  apply (intro wp_intros)
  subgoal for w1
    by (rule wp_find_seller_coupon) (auto intro: assms)
  subgoal for w1 c
    by (rule assms) (auto simp: found_ok_def in_scope_def code_key_def coalesce_id_def dest!: find_Some_mem)
  done

lemma wp_resolve_coupon:
  assumes "\<And>r w'. store w' = store w \<Longrightarrow> clock w' = clock w
      \<Longrightarrow> applies (store w) (clock w) cd b subs currency r \<Longrightarrow> Q r w'"
  shows "wp (resolve_coupon True cd b subs currency) Q w"
  unfolding resolve_coupon_def check_per_user_def count_by_buyer_and_coupon_def tx_or_pool_in Let_def
  apply (intro wp_intros wp_find_coupon_by_code)
   apply (auto intro!: assms simp: applies_def found_ok_def not_less not_le)
  done

lemma wp_insert_hold:
  assumes "\<And>x w'. store w' = (store w)\<lparr>holds := holds (store w) @ [x]\<rparr> \<Longrightarrow> clock w' = clock w
      \<Longrightarrow> x = r\<lparr>crv_created_at := clock w, crv_committed_at := None, crv_released_at := None\<rparr>
      \<Longrightarrow> crv_id r \<notin> set (map crv_id (holds (store w))) \<Longrightarrow> Q x w'"
  shows "wp (insert_hold r) Q w"
  unfolding insert_hold_def
  by (rule wp_sqlI) (auto simp: insert_hold_stmt_def Let_def split: if_splits intro!: assms)

lemma reserve_coupon_tx_inv:
  assumes "coupon_inv (store w)"
  shows "wp (reserve_coupon_tx cfg cd b subs currency) (\<lambda>_ w'. coupon_inv (store w')) w"
  unfolding reserve_coupon_tx_def Let_def
  apply (intro wp_intros wp_resolve_coupon wp_increment_usage [where gap = "\<lambda>_. 0"] wp_insert_hold)
   apply (use assms in \<open>simp add: coupon_inv_def\<close>)
  subgoal premises p for x w1 c y seller sub w2 i w3 r w4
  proof -
    have "coupon_inv_gap (\<lambda>_. 0) ((store w3)\<lparr>holds := holds (store w3) @ [r]\<rparr>)"
      by (rule reserve_step [where i = "cpn_id c"]) (use p in auto)
    with p show ?thesis by (simp add: coupon_inv_def)
  qed
  done

lemma wp_scan_one [wp_intros]:
  "((\<forall>d. found = Some d \<longrightarrow> scan_null cfg = None \<longrightarrow> crd_refunded_reason d \<noteq> None) \<Longrightarrow> Q found w)
   \<Longrightarrow> wp (scan_one cfg found) Q w"
  by (auto simp: scan_one_def scan_redemption_def wp_simps split: option.splits)

lemma wp_redemption_by_coupon_and_order [wp_intros]:
  "(\<And>w'. store w' = store w \<Longrightarrow> clock w' = clock w \<Longrightarrow> \<not> aborted w
      \<Longrightarrow> Q (find (\<lambda>d. crd_coupon_id d = i \<and> crd_order_id d = j) (redemptions (store w))) w')
   \<Longrightarrow> wp (redemption_by_coupon_and_order cfg i j) Q w"
  unfolding redemption_by_coupon_and_order_def query_def by (intro wp_intros) simp

lemma wp_redemption_by_hold [wp_intros]:
  "(\<And>w'. store w' = store w \<Longrightarrow> clock w' = clock w
      \<Longrightarrow> (\<forall>d. find (\<lambda>d. crd_reservation_id d = i) (redemptions (store w)) = Some d
             \<longrightarrow> scan_null cfg = None \<longrightarrow> crd_refunded_reason d \<noteq> None)
      \<Longrightarrow> Q (find (\<lambda>d. crd_reservation_id d = i) (redemptions (store w))) w')
   \<Longrightarrow> wp (redemption_by_hold cfg i) Q w"
  unfolding redemption_by_hold_def by (intro wp_intros)

lemma wp_insert_redemption:
  assumes "\<And>x w'. store w' = (store w)\<lparr>redemptions := redemptions (store w) @ [x]\<rparr> \<Longrightarrow> clock w' = clock w
      \<Longrightarrow> x = d\<lparr>crd_refunded := 0, crd_committed_at := clock w, crd_refunded_at := None,
                crd_refunded_reason := None\<rparr>
      \<Longrightarrow> crd_id d \<notin> set (map crd_id (redemptions (store w))) \<Longrightarrow> Q x w'"
  shows "wp (insert_redemption d) Q w"
  unfolding insert_redemption_def
  by (rule wp_map_errorI, rule wp_sqlI)
    (auto simp: insert_redemption_stmt_def Let_def split: if_splits intro!: assms)

text \<open>A failed statement leaves the transaction aborted: what follows in it cannot commit.\<close>

lemma map_error_sql_aborted:
  "tx_map_error f (sql stmt) w = (Inl e, w') \<Longrightarrow> aborted w'"
  by (auto simp: tx_map_error_def tx_catch_def tx_throw_def split: prod.splits sum.splits dest: sql_error)

lemma insert_redemption_aborted: "insert_redemption d w = (Inl e, w') \<Longrightarrow> aborted w'"
  unfolding insert_redemption_def by (rule map_error_sql_aborted)

lemma insert_refund_event_aborted: "insert_refund_event e w = (Inl err, w') \<Longrightarrow> aborted w'"
  unfolding insert_refund_event_def by (rule map_error_sql_aborted)

lemma commit_hold_tx_inv:
  assumes "coupon_inv (store w)"
  shows "wp (commit_hold_tx cfg i order_id) (\<lambda>_ w'. coupon_inv (store w')) w"
  unfolding commit_hold_tx_def
  apply (intro wp_intros wp_catchI wp_insert_redemption)
  subgoal premises p for w0 r w1 w2 k w3 d w4
  proof -
    have r: "r \<in> set (holds (store w))" "crv_id r = i" "crv_status r = HoldPending"
      using p find_Some_mem by fastforce+
    have "coupon_inv_gap (\<lambda>_. 0) (store w4)"
      using commit_step [of "\<lambda>_. 0" "store w" r d "clock w"] assms p r
      by (simp add: coupon_inv_def close_hold_def redeems_def)
    then show ?thesis by (simp add: coupon_inv_def)
  qed
  subgoal by (drule bind_return_error, drule insert_redemption_aborted) simp
  subgoal using assms by simp
  done

text \<open>The refund of one order's share: only a row that can still be scanned gets this far.\<close>

lemma wp_apply_partial_refund:
  assumes "d \<in> set (redemptions (store w))" and "distinct (map crd_id (redemptions (store w)))"
    and "0 < share"
    and "\<And>w'. store w' = store w \<Longrightarrow> clock w' = clock w \<Longrightarrow> crd_refunded_at d \<noteq> None
      \<Longrightarrow> Q (0, False, True) w'"
    and "\<And>w'. store w' = (store w)\<lparr>redemptions :=
             update_where (\<lambda>x. crd_id x = crd_id d) (refund_row share reason (clock w)) (redemptions (store w))\<rparr>
      \<Longrightarrow> clock w' = clock w \<Longrightarrow> crd_refunded_at d = None
      \<Longrightarrow> Q (i64 (crd_refunded (refund_row share reason (clock w) d) - crd_refunded d),
             crd_refunded_at (refund_row share reason (clock w) d) \<noteq> None, False) w'"
  shows "wp (apply_partial_refund (crd_id d) share reason) Q w"
  unfolding apply_partial_refund_def
  apply (intro wp_intros)
  subgoal using assms(3) by simp
  subgoal for x s' w'
    using find_unique_key [OF assms(2,1)] assms(4) [of w'] assms(5) [of w']
    by (auto simp: partial_refund_stmt_def Let_def split: if_splits)
  done

lemma wp_insert_refund_event:
  assumes "\<And>w'. store w' = (store w)\<lparr>refund_events := refund_events (store w) @ [e]\<rparr> \<Longrightarrow> clock w' = clock w
      \<Longrightarrow> \<forall>x \<in> set (refund_events (store w)).
            (rfe_redemption_id x, rfe_order_id x) \<noteq> (rfe_redemption_id e, rfe_order_id e) \<Longrightarrow> Q () w'"
  shows "wp (insert_refund_event e) Q w"
  unfolding insert_refund_event_def
  by (rule wp_map_errorI, rule wp_sqlI)
    (auto simp: insert_refund_event_stmt_def Let_def list_ex_iff split: if_splits intro!: assms)

lemma refund_redemption_tx_inv:
  assumes inv: "coupon_inv (store w)" and share: "0 \<le> share"
  shows "wp (refund_redemption_tx cfg i order_id share reason) (\<lambda>_ w'. \<not> aborted w' \<longrightarrow> coupon_inv (store w')) w"
  unfolding refund_redemption_tx_def Let_def
  apply (intro wp_intros wp_catchI wp_insert_refund_event)
  subgoal using inv by simp
  subgoal using inv by simp
  subgoal by simp
  subgoal premises p for w0 d w1
  proof -
    let ?e = "\<lparr>rfe_redemption_id = crd_id d, rfe_order_id = order_id, rfe_share = share, rfe_reason = reason\<rparr>"
    have d: "d \<in> set (redemptions (store w))" using p by (auto dest!: find_Some_mem)
    have dist: "distinct (map crd_id (redemptions (store w)))" and pos: "0 < rfe_share ?e"
      and inv0: "coupon_inv_gap (\<lambda>_. 0) (store w)"
      using inv p share by (auto simp: coupon_inv_def coupon_inv_defs)
    have fresh: "\<forall>x \<in> set (refund_events (store w)).
        (rfe_redemption_id x, rfe_order_id x) \<noteq> (crd_id d, rfe_order_id ?e)"
      using p by simp
    note full = refund_event_step [OF inv0 d _ pos fresh]
    note step = refund_apply_step [OF inv0 d _ pos fresh, of reason "clock w"]
    show ?thesis
      apply (rule wp_apply_partial_refund)
      subgoal using p d by simp
      subgoal using p dist by simp
      subgoal using pos by simp
      subgoal using full p by (simp add: wp_simps coupon_inv_def)
      subgoal for w2
        apply (simp add: wp_simps)
        apply (intro conjI impI)
        subgoal
          apply (rule wp_decrement_usage [where gap = "(\<lambda>_. 0)(crd_coupon_id d := 1)"])
          using step p by (auto simp: coupon_inv_def wp_simps fun_upd_idem)
        subgoal using step p by (simp add: coupon_inv_def wp_simps)
        done
      done
  qed
  subgoal by (drule bind_return_error, drule insert_refund_event_aborted) (simp add: wp_simps)
  subgoal by simp
  done

end
