(* ===== verification/Coupon_Edge.thy ===== *)
theory Coupon_Edge
  imports Coupon_Service Transport
begin

text \<open>
  Coupon service, adapters: the HTTP handlers for administrators, sellers, buyers and the order
  service (internal/adapter/http) and the \<open>order.cancelled\<close> subscriber (internal/adapter/pubsub).
\<close>

subsection \<open>Errors and bodies\<close>

definition coupon_map_error :: "coupon_err error \<Rightarrow> coupon_err error" where
  "coupon_map_error e =
     (case as_app_error e of Some a \<Rightarrow> a | None \<Rightarrow>
      if errors_is e (Sentinel ErrCouponNotFound) then
        with_code (not_found ''coupon not found'') ''COUPON_NOT_FOUND''
      else if errors_is e (Sentinel ErrCouponExpired) then
        with_code (bad_request ''coupon has expired'') ''COUPON_EXPIRED''
      else if errors_is e (Sentinel ErrCouponRevoked) then
        with_code (bad_request ''coupon is no longer available'') ''COUPON_REVOKED''
      else if errors_is e (Sentinel ErrCouponNotStarted) then
        with_code (bad_request ''coupon is not yet valid'') ''COUPON_NOT_STARTED''
      else if errors_is e (Sentinel ErrCouponUsageLimitHit) then
        with_code (conflict ''coupon usage limit reached'') ''COUPON_USAGE_LIMIT''
      else if errors_is e (Sentinel ErrCouponPerUserLimit) then
        with_code (conflict ''you have already used this coupon'') ''COUPON_PER_USER_LIMIT''
      else if errors_is e (Sentinel ErrMinOrderNotMet) then
        with_code (bad_request ''order amount is below the coupon minimum'') ''COUPON_MIN_ORDER''
      else if errors_is e (Sentinel ErrCurrencyMismatch) then
        with_code (bad_request ''coupon currency does not match order currency'') ''COUPON_CURRENCY''
      else if errors_is e (Sentinel ErrInvalidCouponInput) then
        bad_request ''invalid coupon application''
      else if errors_is e (Sentinel ErrHoldNotFound) then not_found ''coupon reservation not found''
      else if errors_is e (Sentinel ErrHoldAlreadyTerminal) then
        with_code (conflict ''coupon reservation is no longer pending'') ''RESERVATION_TERMINAL''
      else AppError 500 '''' ''internal error'' (Some e))"

fun discount_text :: "discount_type \<Rightarrow> string" where
  "discount_text Percent = ''percent''"
| "discount_text FixedAmount = ''fixed_amount''"
| "discount_text (DiscountOther s) = s"

definition opt_field :: "string \<Rightarrow> ('a \<Rightarrow> json) \<Rightarrow> 'a option \<Rightarrow> (string \<times> json) list" where
  "opt_field k f x = (case x of None \<Rightarrow> [] | Some y \<Rightarrow> [(k, f y)])"

definition coupon_body :: "coupon \<Rightarrow> json" where
  "coupon_body c = JObj (
     [(''id'', JStr (cpn_id c)), (''code'', JStr (cpn_code c)),
      (''issuer_type'', JStr (issuer_text (cpn_issuer_type c)))]
     @ opt_field ''issuer_id'' JStr (cpn_issuer_id c)
     @ [(''discount_type'', JStr (discount_text (cpn_discount_type c)))]
     @ opt_field ''discount_percent_bps'' JInt (cpn_percent_bps c)
     @ opt_field ''discount_amount'' JInt (cpn_amount c)
     @ [(''currency'', JStr (cpn_currency c)), (''min_order_amount'', JInt (cpn_min_order c))]
     @ opt_field ''max_discount_amount'' JInt (cpn_max_discount c)
     @ [(''valid_from'', JInt (cpn_valid_from c))]
     @ opt_field ''expires_at'' JInt (cpn_expires_at c)
     @ opt_field ''usage_limit_total'' JInt (cpn_limit_total c)
     @ opt_field ''usage_limit_per_user'' JInt (cpn_limit_per_user c)
     @ [(''usage_count'', JInt (cpn_usage_count c)), (''status'', JStr (status_text (cpn_status c))),
        (''title'', JStr (cpn_title c)), (''description'', JStr (cpn_description c)),
        (''created_at'', JInt (cpn_created_at c)), (''updated_at'', JInt (cpn_updated_at c))])"

definition redemption_body :: "coupon_redemption \<Rightarrow> json" where
  "redemption_body d = JObj (
     [(''id'', JStr (crd_id d)), (''coupon_id'', JStr (crd_coupon_id d)),
      (''buyer_auth0_id'', JStr (crd_buyer d)), (''order_id'', JStr (crd_order_id d)),
      (''discount_applied'', JInt (crd_discount d)), (''refunded_amount'', JInt (crd_refunded d)),
      (''reservation_id'', JStr (crd_reservation_id d)), (''committed_at'', JInt (crd_committed_at d))]
     @ opt_field ''refunded_at'' JInt (crd_refunded_at d)
     @ (case crd_refunded_reason d of
          Some r \<Rightarrow> if r = '''' then [] else [(''refunded_reason'', JStr r)] | None \<Rightarrow> []))"

type_synonym coupon_handler = "(coupon_db, coupon_err, response) tx"

definition refuse :: "coupon_err error \<Rightarrow> coupon_handler" where
  "refuse e = answer (http_error e)"

text \<open>A path parameter that has to be a UUID.\<close>

definition with_id :: "coupon_cfg \<Rightarrow> string \<Rightarrow> string \<Rightarrow> (uuid \<Rightarrow> coupon_handler) \<Rightarrow> coupon_handler" where
  "with_id cfg text msg h =
     (case coupon_uuid_parse cfg text of None \<Rightarrow> refuse (bad_request msg) | Some i \<Rightarrow> h i)"

definition with_body :: "(string + 'r) option \<Rightarrow> ('r \<Rightarrow> coupon_handler) \<Rightarrow> coupon_handler" where
  "with_body body h = (case http_decode body of Inl e \<Rightarrow> refuse e | Inr r \<Rightarrow> h r)"

definition ok_coupon :: "nat \<Rightarrow> coupon \<Rightarrow> response" where
  "ok_coupon st c = Response st (Some (coupon_body c))"

definition ok_coupons :: "coupon list \<times> nat \<Rightarrow> response" where
  "ok_coupons r = Response 200 (Some (JObj
     [(''coupons'', JList (map coupon_body (fst r))), (''total'', JInt (int (snd r)))]))"

definition ok_stats :: "coupon_stats \<Rightarrow> response" where
  "ok_stats st = Response 200 (Some (JObj
     [(''coupon_id'', JStr (st_coupon_id st)), (''redeemed_count'', JInt (int (st_redeemed st))),
      (''total_discount_applied'', JInt (st_total_discount st)),
      (''pending_reservation_count'', JInt (int (st_pending st)))]))"

subsection \<open>Administrators\<close>

text \<open>The body of a create request: the input with the issuer id still as text.\<close>

record create_coupon_request =
  crq_input :: create_coupon_input
  crq_issuer_id :: "string option"

definition admin_create :: "coupon_cfg \<Rightarrow> (string + create_coupon_request) option \<Rightarrow> coupon_handler" where
  "admin_create cfg body = with_body body (\<lambda>req.
     let c = crq_input req;
         c = c\<lparr>cin_issuer_type :=
                (if cin_issuer_type c = IssuerOther '''' then IssuerPlatform else cin_issuer_type c)\<rparr>;
         go = (\<lambda>i. respond coupon_map_error (create_coupon cfg (c\<lparr>cin_issuer_id := i\<rparr>)) (ok_coupon 201))
     in case crq_issuer_id req of
          None \<Rightarrow> go None
        | Some t \<Rightarrow>
            if t = '''' then go None
            else (case coupon_uuid_parse cfg t of
                    None \<Rightarrow> refuse (bad_request ''issuer_id is not a valid UUID'')
                  | Some i \<Rightarrow> go (Some i)))"

definition admin_update :: "coupon_cfg \<Rightarrow> string \<Rightarrow> (string + update_coupon_input) option \<Rightarrow> coupon_handler" where
  "admin_update cfg id_param body = with_id cfg id_param ''id is not a valid UUID'' (\<lambda>i.
     with_body body (\<lambda>req. respond coupon_map_error (update_coupon i req) (ok_coupon 200)))"

definition query_int :: "int option \<Rightarrow> int" where
  "query_int x = (case x of None \<Rightarrow> 0 | Some n \<Rightarrow> n)"

definition admin_list :: "string \<Rightarrow> int option \<Rightarrow> int option \<Rightarrow> coupon_handler" where
  "admin_list st lim off = respond coupon_map_error
     (list_coupons \<lparr>flt_status = st, flt_issuer_type = None, flt_issuer_id = None,
        flt_limit = query_int lim, flt_offset = query_int off\<rparr>) ok_coupons"

definition admin_get :: "coupon_cfg \<Rightarrow> string \<Rightarrow> coupon_handler" where
  "admin_get cfg id_param = with_id cfg id_param ''id is not a valid UUID'' (\<lambda>i.
     respond coupon_map_error (get_coupon i) (ok_coupon 200))"

definition admin_revoke :: "coupon_cfg \<Rightarrow> string \<Rightarrow> coupon_handler" where
  "admin_revoke cfg id_param = with_id cfg id_param ''id is not a valid UUID'' (\<lambda>i.
     respond coupon_map_error (revoke_coupon cfg i) (ok_coupon 200))"

definition admin_stats :: "coupon_cfg \<Rightarrow> string \<Rightarrow> coupon_handler" where
  "admin_stats cfg id_param = with_id cfg id_param ''id is not a valid UUID'' (\<lambda>i.
     respond coupon_map_error (get_coupon_stats i) ok_stats)"

subsection \<open>Sellers\<close>

definition seller_id_of :: "coupon_cfg \<Rightarrow> string \<Rightarrow> coupon_err error + uuid" where
  "seller_id_of cfg header =
     (if header = '''' then Inl (unauthorized ''missing X-Seller-ID'')
      else case coupon_uuid_parse cfg header of
             None \<Rightarrow> Inl (bad_request ''X-Seller-ID is not a valid UUID'')
           | Some i \<Rightarrow> Inr i)"

definition load_owned :: "coupon_cfg \<Rightarrow> string \<Rightarrow> uuid \<Rightarrow> coupon ctx" where
  "load_owned cfg header i =
     (case seller_id_of cfg header of
        Inl e \<Rightarrow> tx_throw e
      | Inr seller \<Rightarrow>
          tx_bind (get_coupon i) (\<lambda>c.
          if cpn_issuer_type c \<noteq> IssuerSeller \<or> cpn_issuer_id c \<noteq> Some seller then
            tx_throw (with_code (not_found ''coupon not found'') ''COUPON_NOT_FOUND'')
          else tx_return c))"

text \<open>The handlers that act on one of the seller's own coupons: load it, then act.\<close>

definition owned :: "coupon_cfg \<Rightarrow> string \<Rightarrow> uuid \<Rightarrow> coupon_handler \<Rightarrow> coupon_handler" where
  "owned cfg header i h w =
     (case load_owned cfg header i w of
        (Inl e, w') \<Rightarrow> (Inr (http_error (coupon_map_error e)), w')
      | (Inr c, w') \<Rightarrow> h w')"

definition seller_update ::
  "coupon_cfg \<Rightarrow> string \<Rightarrow> string \<Rightarrow> (string + update_coupon_input) option \<Rightarrow> coupon_handler" where
  "seller_update cfg header id_param body = with_id cfg id_param ''id is not a valid UUID'' (\<lambda>i.
     owned cfg header i (with_body body (\<lambda>req.
       respond coupon_map_error (update_coupon i req) (ok_coupon 200))))"

definition seller_create ::
  "coupon_cfg \<Rightarrow> string \<Rightarrow> (string + create_coupon_request) option \<Rightarrow> coupon_handler" where
  "seller_create cfg header body =
     (case seller_id_of cfg header of
        Inl e \<Rightarrow> refuse e
      | Inr seller \<Rightarrow> with_body body (\<lambda>req. respond coupon_map_error
          (create_coupon cfg ((crq_input req)\<lparr>cin_issuer_type := IssuerSeller, cin_issuer_id := Some seller\<rparr>))
          (ok_coupon 201)))"

definition seller_list :: "coupon_cfg \<Rightarrow> string \<Rightarrow> string \<Rightarrow> int option \<Rightarrow> int option \<Rightarrow> coupon_handler" where
  "seller_list cfg header st lim off =
     (case seller_id_of cfg header of
        Inl e \<Rightarrow> refuse e
      | Inr seller \<Rightarrow> respond coupon_map_error
          (list_coupons \<lparr>flt_status = st, flt_issuer_type = Some IssuerSeller, flt_issuer_id = Some seller,
             flt_limit = query_int lim, flt_offset = query_int off\<rparr>) ok_coupons)"

definition seller_get :: "coupon_cfg \<Rightarrow> string \<Rightarrow> string \<Rightarrow> coupon_handler" where
  "seller_get cfg header id_param = with_id cfg id_param ''id is not a valid UUID'' (\<lambda>i.
     respond coupon_map_error (load_owned cfg header i) (ok_coupon 200))"

definition seller_revoke :: "coupon_cfg \<Rightarrow> string \<Rightarrow> string \<Rightarrow> coupon_handler" where
  "seller_revoke cfg header id_param = with_id cfg id_param ''id is not a valid UUID'' (\<lambda>i.
     owned cfg header i (respond coupon_map_error (revoke_coupon cfg i) (ok_coupon 200)))"

definition seller_stats :: "coupon_cfg \<Rightarrow> string \<Rightarrow> string \<Rightarrow> coupon_handler" where
  "seller_stats cfg header id_param = with_id cfg id_param ''id is not a valid UUID'' (\<lambda>i.
     owned cfg header i (respond coupon_map_error (get_coupon_stats i) ok_stats))"

subsection \<open>Buyers\<close>

text \<open>The seller ids of the cart's subtotals are parsed in order; the first bad one is refused.\<close>

fun parse_subtotals :: "coupon_cfg \<Rightarrow> (string \<times> int) list \<Rightarrow> seller_subtotal list option" where
  "parse_subtotals cfg [] = Some []"
| "parse_subtotals cfg ((t, sub) # xs) =
     (case coupon_uuid_parse cfg t of
        None \<Rightarrow> None
      | Some i \<Rightarrow> (case parse_subtotals cfg xs of None \<Rightarrow> None | Some ys \<Rightarrow> Some ((i, sub) # ys)))"

record preview_request =
  prq_code :: string
  prq_currency :: string
  prq_subtotals :: "(string \<times> int) list"

definition buyer_preview :: "coupon_cfg \<Rightarrow> string \<Rightarrow> (string + preview_request) option \<Rightarrow> coupon_handler" where
  "buyer_preview cfg user body =
     (if user = '''' then refuse (unauthorized ''missing X-User-ID'')
      else with_body body (\<lambda>req.
        case parse_subtotals cfg (prq_subtotals req) of
          None \<Rightarrow> refuse (bad_request ''seller_id is not a valid UUID'')
        | Some subs \<Rightarrow> respond coupon_map_error
            (preview_coupon (prq_code req) user subs (prq_currency req))
            (\<lambda>r. Response 200 (Some (JObj (
               [(''coupon_id'', JStr (pre_coupon_id r)), (''title'', JStr (pre_title r)),
                (''description'', JStr (pre_description r)), (''discount_amount'', JInt (pre_discount r))]
               @ opt_field ''applicable_seller_id'' JStr (pre_seller r)
               @ opt_field ''expires_at'' JInt (pre_expires_at r)))))))"

definition buyer_redemptions :: "coupon_cfg \<Rightarrow> string \<Rightarrow> int option \<Rightarrow> int option \<Rightarrow> coupon_handler" where
  "buyer_redemptions cfg user lim off =
     (if user = '''' then refuse (unauthorized ''missing X-User-ID'')
      else respond coupon_map_error (list_my_redemptions cfg user (query_int lim) (query_int off))
        (\<lambda>(rows, n). Response 200 (Some (JObj
           [(''redemptions'', JList (map redemption_body rows)), (''total'', JInt (int n))]))))"

subsection \<open>The order service\<close>

record reserve_coupon_request =
  rsq_code :: string
  rsq_buyer :: string
  rsq_currency :: string
  rsq_subtotals :: "(string \<times> int) list"

definition internal_reserve :: "coupon_cfg \<Rightarrow> (string + reserve_coupon_request) option \<Rightarrow> coupon_handler" where
  "internal_reserve cfg body = with_body body (\<lambda>req.
     case parse_subtotals cfg (rsq_subtotals req) of
       None \<Rightarrow> refuse (bad_request ''seller_id is not a valid UUID'')
     | Some subs \<Rightarrow> respond coupon_map_error
         (reserve_coupon cfg (rsq_code req) (rsq_buyer req) subs (rsq_currency req))
         (\<lambda>r. Response 200 (Some (JObj (
            [(''reservation_id'', JStr (crv_id r)), (''coupon_id'', JStr (crv_coupon_id r)),
             (''issuer_type'', JStr (case crv_seller_id r of None \<Rightarrow> ''platform'' | Some _ \<Rightarrow> ''seller''))]
            @ opt_field ''applicable_seller_id'' JStr (crv_seller_id r)
            @ [(''discount_amount'', JInt (crv_discount r)), (''currency'', JStr (crv_currency r)),
               (''expires_at'', JInt (crv_expires_at r))])))))"

record commit_coupon_request =
  cmq_order_id :: string
  cmq_payment_intent :: string

definition internal_commit ::
  "coupon_cfg \<Rightarrow> string \<Rightarrow> (string + commit_coupon_request) option \<Rightarrow> coupon_handler" where
  "internal_commit cfg id_param body =
     with_id cfg id_param ''reservation id is not a valid UUID'' (\<lambda>i. with_body body (\<lambda>req.
       with_id cfg (cmq_order_id req) ''order_id is not a valid UUID'' (\<lambda>order_id.
         respond coupon_map_error (commit_hold cfg i order_id (cmq_payment_intent req))
           (\<lambda>(d, already). Response 200 (Some (JObj
              [(''redemption_id'', JStr d), (''already_committed'', JBool already)]))))))"

definition internal_release :: "coupon_cfg \<Rightarrow> string \<Rightarrow> coupon_handler" where
  "internal_release cfg id_param =
     with_id cfg id_param ''reservation id is not a valid UUID'' (\<lambda>i.
       respond coupon_map_error (release_hold i)
         (\<lambda>b. Response 200 (Some (JObj [(''released'', JBool b)]))))"

subsection \<open>Cancelled orders\<close>

record coupon_cancel_payload =
  ccp_order_id :: string
  ccp_reservation_id :: string
  ccp_discount :: int
  ccp_reason :: string

text \<open>The event's type and payload; a text that is no UUID is an error, so that it is redelivered.\<close>

definition on_order_event ::
  "coupon_cfg \<Rightarrow> string \<Rightarrow> coupon_err error + coupon_cancel_payload \<Rightarrow> unit ctx" where
  "on_order_event cfg ty d =
     (if ty \<noteq> ''order.cancelled'' then tx_return ()
      else case d of
        Inl e \<Rightarrow> tx_throw e
      | Inr p \<Rightarrow>
          if ccp_order_id p = '''' \<or> ccp_reservation_id p = '''' then tx_return ()
          else case coupon_uuid_parse cfg (ccp_reservation_id p) of
            None \<Rightarrow> tx_throw (Sentinel ErrBadPayload)
          | Some hold_id \<Rightarrow>
          (case coupon_uuid_parse cfg (ccp_order_id p) of
            None \<Rightarrow> tx_throw (Sentinel ErrBadPayload)
          | Some order_id \<Rightarrow>
              tx_bind (refund_redemption cfg hold_id order_id (ccp_discount p) (ccp_reason p))
                (\<lambda>_. tx_return ())))"

end
