(* ===== verification/Coupon_Traces.thy ===== *)
theory Coupon_Traces
  imports Coupon_Invariant Coupon_Edge
begin

text \<open>
  The coupon service as a state machine whose steps are its use cases, the seat invariant in
  every reachable state, and the commit as a handler that may be called again.
\<close>

subsection \<open>Use cases keep the invariant\<close>

lemmas coupon_keeps_tx = keeps_if keeps_Let keeps_bind keeps_map_error keeps_run_tx_commit
  keeps_case_option keeps_case_prod keeps_return keeps_throw keeps_publish keeps_now keeps_new_uuid
  keeps_query keeps_case_sum

lemma publish_coupon_keeps [keeps_intros]: "keeps I (publish_coupon cfg ty p)"
  unfolding publish_coupon_def by (intro keeps_intros)

lemma coupon_reads_keep [keeps_intros]:
  "keeps I (coupon_by_id i)" "keeps I (coupon_by_code ty k cd)" "keeps I (list_coupon_rows f)"
  "keeps I (hold_by_id i)" "keeps I (count_pending i)" "keeps I (scan_one cfg found)"
  "keeps I (redemption_by_coupon_and_order cfg i j)" "keeps I (redemption_by_hold cfg i)"
  "keeps I (redemptions_by_buyer cfg b lim off)" "keeps I (count_by_buyer_and_coupon b i)"
  "keeps I (stats_by_coupon i)"
proof -
  show scan: "keeps I (scan_one cfg found)" for found
    unfolding scan_one_def by (intro keeps_intros)
  show "keeps I (coupon_by_id i)" "keeps I (coupon_by_code ty k cd)" "keeps I (list_coupon_rows f)"
    "keeps I (hold_by_id i)" "keeps I (count_pending i)"
    "keeps I (redemption_by_coupon_and_order cfg i j)" "keeps I (redemption_by_hold cfg i)"
    "keeps I (redemptions_by_buyer cfg b lim off)" "keeps I (count_by_buyer_and_coupon b i)"
    "keeps I (stats_by_coupon i)"
    unfolding coupon_by_id_def coupon_by_code_def list_coupon_rows_def hold_by_id_def count_pending_def
      redemption_by_coupon_and_order_def redemption_by_hold_def redemptions_by_buyer_def
      count_by_buyer_and_coupon_def stats_by_coupon_def
    by (intro keeps_intros scan)+
qed

lemma tx_or_pool_keeps [keeps_intros]: "keeps I m \<Longrightarrow> keeps I (tx_or_pool in_tx m)"
  unfolding tx_or_pool_def by (intro keeps_intros)

lemma find_seller_coupon_keeps [keeps_intros]: "keeps I (find_seller_coupon in_tx cd subs)"
proof (induction subs)
  case (Cons x subs)
  then show ?case by (cases x) (simp, intro keeps_intros, simp_all)
qed (simp add: keeps_return)

lemma resolve_coupon_keeps [keeps_intros]: "keeps I (resolve_coupon in_tx cd b subs currency)"
  unfolding resolve_coupon_def find_coupon_by_code_def check_per_user_def
  by (intro keeps_intros)

lemma coupon_queries_keep [keeps_intros]:
  "keeps I (load_coupon i)" "keeps I (get_coupon i)" "keeps I (list_coupons f)"
  "keeps I (get_coupon_stats i)" "keeps I (preview_coupon cd b subs currency)"
  "keeps I (list_my_redemptions cfg b lim off)"
  unfolding load_coupon_def get_coupon_def list_coupons_def get_coupon_stats_def preview_coupon_def
    list_my_redemptions_def
  by (intro keeps_intros)+

text \<open>A new coupon has no reservations and no redemptions.\<close>

lemma seats_unknown:
  assumes "coupon_inv_gap gap s" and "i \<notin> set (map cpn_id (coupons s))"
  shows "seats s i = 0"
proof -
  have hold: "crv_coupon_id r \<noteq> i" if "r \<in> set (holds s)" for r
    using assms that unfolding coupon_inv_gap_def holds_ok_def by blast
  have "crd_coupon_id d \<noteq> i" if d: "d \<in> set (redemptions s)" for d
  proof -
    have "redemptions_ok s" using assms(1) by (simp add: coupon_inv_gap_def)
    from redemption_hold [OF this d] obtain r where "r \<in> set (holds s)" "redeems d r" .
    with hold show ?thesis by (auto simp: redeems_def)
  qed
  with hold show ?thesis
    unfolding seats_def pending_seats_def used_seats_def
    by (simp add: sum_by_None)
qed

lemma insert_coupon_inv:
  assumes "coupon_inv s" and "insert_coupon_stmt c t s = Inr (x, s')"
  shows "coupon_inv s'"
proof -
  have inv: "coupon_inv_gap (\<lambda>_. 0) s" using assms(1) by (simp add: coupon_inv_def)
  have s': "s' = s\<lparr>coupons := coupons s @ [x]\<rparr>" "cpn_usage_count x = 0" "cpn_id x = cpn_id c"
    and new: "cpn_id c \<notin> set (map cpn_id (coupons s))"
    using assms(2) by (auto simp: insert_coupon_stmt_def Let_def split: option.splits if_splits)
  have "coupons_ok (\<lambda>_. 0) s'"
    using inv s' new seats_unknown [OF inv new] by (auto simp: coupon_inv_gap_def coupons_ok_def)
  with inv s' show ?thesis
    by (simp add: coupon_inv_def coupon_inv_gap_def holds_ok_def redemptions_ok_def events_ok_def)
qed

lemma update_coupons_inv:
  assumes "coupon_inv s" and "update_coupons_stmt q g t s = Inr (n, s')"
    and "\<And>c. cpn_id (g t c) = cpn_id c" and "\<And>c. cpn_usage_count (g t c) = cpn_usage_count c"
  shows "coupon_inv s'"
  using assms coupon_inv_update_coupons [of "\<lambda>_. 0" s "g t" q "\<lambda>_. 0"] update_coupons_result [OF assms(2)]
  by (simp add: coupon_inv_def)

lemma coupon_writes_keep [keeps_intros]:
  "keeps coupon_inv (insert_coupon c)" "keeps coupon_inv (update_coupon_row i p)"
  "keeps coupon_inv (set_coupon_status i st)"
  unfolding insert_coupon_def update_coupon_row_def set_coupon_status_def
  by (intro keeps_intros; auto simp: patch_coupon_def intro: insert_coupon_inv update_coupons_inv
      split: sum.splits prod.splits)+

lemma coupon_use_cases_keep:
  "keeps coupon_inv (create_coupon cfg c)" "keeps coupon_inv (update_coupon i u)"
  "keeps coupon_inv (revoke_coupon cfg i)" "keeps coupon_inv (reserve_coupon cfg cd b subs currency)"
  "keeps coupon_inv (commit_hold cfg i order_id pi)" "keeps coupon_inv (release_hold i)"
  "keeps coupon_inv (refund_redemption cfg i order_id share reason)"
  "keeps coupon_inv (expire_holds locked)"
proof -
  show "keeps coupon_inv (create_coupon cfg c)" "keeps coupon_inv (update_coupon i u)"
    "keeps coupon_inv (revoke_coupon cfg i)"
    unfolding create_coupon_def update_coupon_def revoke_coupon_def by (intro keeps_intros)+
  show "keeps coupon_inv (reserve_coupon cfg cd b subs currency)"
    "keeps coupon_inv (commit_hold cfg i order_id pi)" "keeps coupon_inv (release_hold i)"
    "keeps coupon_inv (expire_holds locked)"
    unfolding reserve_coupon_def commit_hold_def release_hold_def expire_holds_def
    by (intro keeps_map_error keeps_bind keeps_case_prod keeps_if keeps_return keeps_now
        publish_coupon_keeps keeps_run_tx
        reserve_coupon_tx_inv commit_hold_tx_inv release_hold_tx_inv expire_holds_tx_inv; assumption)+
  show "keeps coupon_inv (refund_redemption cfg i order_id share reason)"
    unfolding refund_redemption_def
    by (intro keeps_map_error keeps_if keeps_return keeps_throw keeps_run_tx_commit refund_redemption_tx_inv) auto
qed

subsection \<open>The state machine\<close>

inductive coupon_step :: "coupon_cfg \<Rightarrow> coupon_db world \<Rightarrow> coupon_db world \<Rightarrow> bool" for cfg where
  environment: "store w' = store w \<Longrightarrow> coupon_step cfg w w'"
| get: "coupon_step cfg w (snd (get_coupon i w))"
| listing: "coupon_step cfg w (snd (list_coupons f w))"
| stats: "coupon_step cfg w (snd (get_coupon_stats i w))"
| preview: "coupon_step cfg w (snd (preview_coupon cd b subs currency w))"
| history: "coupon_step cfg w (snd (list_my_redemptions cfg b lim off w))"
| create: "coupon_step cfg w (snd (create_coupon cfg c w))"
| update: "coupon_step cfg w (snd (update_coupon i u w))"
| revoke: "coupon_step cfg w (snd (revoke_coupon cfg i w))"
| reserve: "coupon_step cfg w (snd (reserve_coupon cfg cd b subs currency w))"
| commit: "coupon_step cfg w (snd (commit_hold cfg i order_id pi w))"
| release: "coupon_step cfg w (snd (release_hold i w))"
| refund: "coupon_step cfg w (snd (refund_redemption cfg i order_id share reason w))"
| reap: "coupon_step cfg w (snd (expire_holds locked w))"

text \<open>What every writing use case keeps, every step keeps.\<close>

lemma coupon_step_keeps:
  assumes "coupon_step cfg w w'" and "I (store w)"
    and "\<And>c. keeps I (create_coupon cfg c)" "\<And>i u. keeps I (update_coupon i u)"
    and "\<And>i. keeps I (revoke_coupon cfg i)" "\<And>cd b subs cur. keeps I (reserve_coupon cfg cd b subs cur)"
    and "\<And>i j p. keeps I (commit_hold cfg i j p)" "\<And>i. keeps I (release_hold i)"
    and "\<And>i j n r. keeps I (refund_redemption cfg i j n r)" "\<And>l. keeps I (expire_holds l)"
  shows "I (store w')"
  using assms(1)
  by cases (use assms(2) in \<open>simp_all add: coupon_queries_keep [THEN keepsD] assms(3-10) [THEN keepsD]\<close>)

lemma coupon_step_inv: "coupon_step cfg w w' \<Longrightarrow> coupon_inv (store w) \<Longrightarrow> coupon_inv (store w')"
  by (rule coupon_step_keeps) (rule coupon_use_cases_keep | assumption)+

interpretation cs: stateful_service
  "\<lambda>w. store w = empty_coupon_db" "coupon_step cfg" "\<lambda>w. coupon_inv (store w)" for cfg
  by unfold_locales (auto simp: coupon_inv_empty intro: coupon_step_inv)

end
