(* ===== verification/Coupon_Refinement.thy ===== *)
theory Coupon_Refinement
  imports Coupon_Traces
begin

text \<open>
  The abstract specification of the coupon service, and the proof that the service refines it: a
  coupon is a counter of pending and used seats under a limit; a reservation takes a seat below
  the limit, a commit turns a pending seat into a used one, a release or the reaper frees a
  pending seat and a complete refund a used one. Reservations, redemptions, refund events and
  the \<open>usage_count\<close> column are implementation.
\<close>

subsection \<open>The specification\<close>

record seat_state =
  seat_limit :: "uuid \<Rightarrow> int option option"
  seat_pending :: "uuid \<Rightarrow> int"
  seat_used :: "uuid \<Rightarrow> int"

definition seat_free :: "seat_state \<Rightarrow> uuid \<Rightarrow> bool" where
  "seat_free a i \<longleftrightarrow> (case seat_limit a i of
       None \<Rightarrow> False
     | Some None \<Rightarrow> True
     | Some (Some n) \<Rightarrow> seat_pending a i + seat_used a i < n)"

inductive seat_step :: "seat_state \<Rightarrow> seat_state \<Rightarrow> bool" where
  administer: "seat_step a (a\<lparr>seat_limit := L\<rparr>)"
| take_one: "seat_free a i \<Longrightarrow>
    seat_step a (a\<lparr>seat_pending := (seat_pending a)(i := seat_pending a i + 1)\<rparr>)"
| use_one: "0 < seat_pending a i \<Longrightarrow>
    seat_step a (a\<lparr>seat_pending := (seat_pending a)(i := seat_pending a i - 1),
                   seat_used := (seat_used a)(i := seat_used a i + 1)\<rparr>)"
| drop_one: "0 < seat_pending a i \<Longrightarrow>
    seat_step a (a\<lparr>seat_pending := (seat_pending a)(i := seat_pending a i - 1)\<rparr>)"
| refund_one: "0 < seat_used a i \<Longrightarrow>
    seat_step a (a\<lparr>seat_used := (seat_used a)(i := seat_used a i - 1)\<rparr>)"

inductive_cases seat_stepE: "seat_step a a'"

lemma seat_step_nonneg:
  "seat_step a a' \<Longrightarrow> 0 \<le> seat_pending a i \<and> 0 \<le> seat_used a i
   \<Longrightarrow> 0 \<le> seat_pending a' i \<and> 0 \<le> seat_used a' i"
  by (induction rule: seat_step.induct) auto

subsection \<open>The abstraction\<close>

definition limit_of :: "coupon_db \<Rightarrow> uuid \<Rightarrow> int option option" where
  "limit_of s i = map_option cpn_limit_total (find (\<lambda>c. cpn_id c = i) (coupons s))"

definition seats_of :: "coupon_db \<Rightarrow> seat_state" where
  "seats_of s = \<lparr>seat_limit = limit_of s, seat_pending = pending_seats (holds s),
     seat_used = used_seats (redemptions s)\<rparr>"

lemma seats_of_simps [simp]:
  "seat_limit (seats_of s) = limit_of s" "seat_pending (seats_of s) = pending_seats (holds s)"
  "seat_used (seats_of s) = used_seats (redemptions s)"
  by (simp_all add: seats_of_def)

lemma seats_of_events [simp]: "seats_of (s\<lparr>refund_events := E\<rparr>) = seats_of s"
  by (simp add: seats_of_def limit_of_def fun_eq_iff)

definition reaches :: "seat_state \<Rightarrow> coupon_db \<Rightarrow> bool" where
  "reaches a s \<longleftrightarrow> coupon_inv s \<and> seat_step\<^sup>*\<^sup>* a (seats_of s)"

lemma reachesD: "reaches a s \<Longrightarrow> coupon_inv s" "reaches a s \<Longrightarrow> coupon_inv_gap (\<lambda>_. 0) s"
  by (simp_all add: reaches_def coupon_inv_def)

lemma reaches_step:
  assumes "reaches a s" and "seat_step (seats_of s) (seats_of s')" and "coupon_inv s'"
  shows "reaches a s'"
  using assms by (auto simp: reaches_def intro: rtranclp.rtrancl_into_rtrancl)

lemma reaches_steps:
  assumes "reaches a s" and "seat_step\<^sup>*\<^sup>* (seats_of s) (seats_of s')" and "coupon_inv s'"
  shows "reaches a s'"
  using assms by (auto simp: reaches_def intro: rtranclp_trans)

text \<open>The writes of the coupons table change at most the limits.\<close>

lemma reaches_limits:
  assumes "reaches a s" and "coupon_inv s'" and "holds s' = holds s" and "redemptions s' = redemptions s"
  shows "reaches a s'"
proof (rule reaches_step [OF assms(1) _ assms(2)])
  have "seats_of s' = (seats_of s)\<lparr>seat_limit := limit_of s'\<rparr>"
    using assms(3,4) by (simp add: seats_of_def)
  then show "seat_step (seats_of s) (seats_of s')" by (metis seat_step.administer)
qed

subsection \<open>Every use case refines the specification\<close>

lemma below_limit_free:
  assumes "coupon_inv_gap (\<lambda>_. 0) s" and "i \<in> set (map cpn_id (coupons s))"
    and "\<forall>c \<in> set (coupons s). cpn_id c = i \<longrightarrow> below_limit c"
  shows "seat_free (seats_of s) i"
proof -
  obtain c where c: "c \<in> set (coupons s)" "cpn_id c = i" using assms(2) by auto
  have "distinct (map cpn_id (coupons s))" using assms(1) by (simp add: coupon_inv_defs)
  from find_unique_key [OF this c(1)] c(2) have "limit_of s i = Some (cpn_limit_total c)"
    by (simp add: limit_of_def)
  moreover have "cpn_usage_count c = seats s i" using assms(1) c by (auto simp: coupon_inv_defs)
  ultimately show ?thesis
    using assms(3) c by (auto simp: seat_free_def below_limit_def seats_def split: option.splits)
qed

lemma wp_reaches:
  assumes "reaches a (store w)" and "wp m (\<lambda>_ w'. coupon_inv (store w')) w"
    and "wp m (\<lambda>_ w'. seat_step\<^sup>*\<^sup>* (seats_of (store w)) (seats_of (store w'))) w"
  shows "wp m (\<lambda>_ w'. reaches a (store w')) w"
  using assms(2,3) by (rule wp_combine) (rule reaches_steps [OF assms(1)])

lemma pending_seats_simps [simp]:
  "pending_seats [] = (\<lambda>_. 0)"
  "pending_seats (r # R) = (\<lambda>i. (if crv_coupon_id r = i \<and> crv_status r = HoldPending then 1 else 0)
     + pending_seats R i)"
  by (simp_all add: fun_eq_iff pending_seats_def)

lemma used_seats_simps [simp]:
  "used_seats [] = (\<lambda>_. 0)"
  "used_seats (d # D) = (\<lambda>i. (if crd_coupon_id d = i \<and> crd_refunded_at d = None then 1 else 0)
     + used_seats D i)"
  by (simp_all add: fun_eq_iff used_seats_def)

lemma take_one_steps:
  assumes "seat_free (seats_of s) i" and "crv_coupon_id r = i" and "crv_status r = HoldPending"
    and "holds s' = holds s @ [r]" and "redemptions s' = redemptions s"
  shows "seat_step\<^sup>*\<^sup>* (seats_of s) (seats_of s')"
proof -
  let ?a = "(seats_of s)\<lparr>seat_pending := (pending_seats (holds s))(i := pending_seats (holds s) i + 1)\<rparr>"
  have "seat_step (seats_of s) ?a" using seat_step.take_one [OF assms(1)] by simp
  moreover have "seats_of s' = ?a\<lparr>seat_limit := limit_of s'\<rparr>"
    using assms(2-5) by (auto simp: seats_of_def fun_eq_iff)
  ultimately show ?thesis by (metis rtranclp.simps seat_step.administer)
qed

lemma reserve_reaches:
  assumes "reaches a (store w)"
  shows "wp (reserve_coupon_tx cfg cd b subs currency) (\<lambda>_ w'. reaches a (store w')) w"
proof (rule wp_reaches [OF assms reserve_coupon_tx_inv [OF reachesD(1) [OF assms]]])
  show "wp (reserve_coupon_tx cfg cd b subs currency)
     (\<lambda>_ w'. seat_step\<^sup>*\<^sup>* (seats_of (store w)) (seats_of (store w'))) w"
    unfolding reserve_coupon_tx_def Let_def
    apply (intro wp_intros wp_resolve_coupon wp_increment_usage [where gap = "\<lambda>_. 0"] wp_insert_hold)
     apply (use reachesD(2) [OF assms] in simp)
    subgoal premises p for x w1 c y seller sub w2 i w3 r w4
    proof -
      have c: "cpn_id c \<in> set (map cpn_id (coupons (store w)))"
        using p by (auto simp: applies_def)
      have "seat_free (seats_of (store w)) (cpn_id c)"
        by (rule below_limit_free [OF reachesD(2) [OF assms] c]) (use p in simp)
      from take_one_steps [OF this, of r "store w4"] p show ?thesis by simp
    qed
    done
qed

lemma pending_positive:
  assumes "r \<in> set R" and "crv_status r = HoldPending"
  shows "0 < pending_seats R (crv_coupon_id r)"
proof -
  have "(1 :: int) \<le> pending_seats R (crv_coupon_id r)"
    unfolding pending_seats_def by (rule sum_by_le_member [where f = "\<lambda>_. 1"]) (use assms in auto)
  then show ?thesis by simp
qed

lemma used_positive:
  assumes "d \<in> set D" and "crd_refunded_at d = None"
  shows "0 < used_seats D (crd_coupon_id d)"
proof -
  have "(1 :: int) \<le> used_seats D (crd_coupon_id d)"
    unfolding used_seats_def by (rule sum_by_le_member [where f = "\<lambda>_. 1"]) (use assms in auto)
  then show ?thesis by simp
qed

lemma pending_seats_close_fun:
  assumes "distinct (map crv_id R)" and "r \<in> set R" and "crv_status r = HoldPending" and "st \<noteq> HoldPending"
  shows "pending_seats (close_hold r t st R)
       = (pending_seats R)(crv_coupon_id r := pending_seats R (crv_coupon_id r) - 1)"
  using pending_seats_close [OF assms] by (simp add: fun_eq_iff)

text \<open>A pending row leaves the pending state, alone or with its redemption.\<close>

lemma drop_one_steps:
  assumes "coupon_inv_gap gap s" and "r \<in> set (holds s)" and "crv_status r = HoldPending"
    and "holds s' = close_hold r t st (holds s)" and "st \<noteq> HoldPending" and "redemptions s' = redemptions s"
  shows "seat_step\<^sup>*\<^sup>* (seats_of s) (seats_of s')"
proof -
  let ?a = "(seats_of s)\<lparr>seat_pending := (pending_seats (holds s))(crv_coupon_id r :=
      pending_seats (holds s) (crv_coupon_id r) - 1)\<rparr>"
  have d: "distinct (map crv_id (holds s))" using assms(1) by (simp add: coupon_inv_defs)
  have "seat_step (seats_of s) ?a"
    using seat_step.drop_one [of "seats_of s" "crv_coupon_id r"] pending_positive [OF assms(2,3)] by simp
  moreover have "seats_of s' = ?a\<lparr>seat_limit := limit_of s'\<rparr>"
    using pending_seats_close_fun [OF d assms(2,3,5)] assms(4,6) by (simp add: seats_of_def)
  ultimately show ?thesis by (metis rtranclp.simps seat_step.administer)
qed

lemma use_one_steps:
  assumes "coupon_inv_gap gap s" and "r \<in> set (holds s)" and "crv_status r = HoldPending"
    and "holds s' = close_hold r t HoldCommitted (holds s)" and "redemptions s' = redemptions s @ [d]"
    and "crd_coupon_id d = crv_coupon_id r" and "crd_refunded_at d = None"
  shows "seat_step\<^sup>*\<^sup>* (seats_of s) (seats_of s')"
proof -
  let ?i = "crv_coupon_id r"
  let ?a = "(seats_of s)\<lparr>seat_pending := (pending_seats (holds s))(?i := pending_seats (holds s) ?i - 1),
      seat_used := (used_seats (redemptions s))(?i := used_seats (redemptions s) ?i + 1)\<rparr>"
  have dist: "distinct (map crv_id (holds s))" using assms(1) by (simp add: coupon_inv_defs)
  have "seat_step (seats_of s) ?a"
    using seat_step.use_one [of "seats_of s" ?i] pending_positive [OF assms(2,3)] by simp
  moreover have "seats_of s' = ?a\<lparr>seat_limit := limit_of s'\<rparr>"
    using pending_seats_close_fun [OF dist assms(2,3), of HoldCommitted t] assms(4-7)
    by (auto simp: seats_of_def fun_eq_iff)
  ultimately show ?thesis by (metis rtranclp.simps seat_step.administer)
qed

lemma refund_one_steps:
  assumes "redemptions_ok s" and "d \<in> set (redemptions s)" and "crd_refunded_at d = None"
    and "redemptions s' = update_where (\<lambda>x. crd_id x = crd_id d) (refund_row share reason t) (redemptions s)"
    and "holds s' = holds s"
  shows "seat_step\<^sup>*\<^sup>* (seats_of s) (seats_of s')"
proof -
  let ?i = "crd_coupon_id d"
  let ?a = "(seats_of s)\<lparr>seat_used := (used_seats (redemptions s))(?i := used_seats (redemptions s) ?i - 1)\<rparr>"
  have dist: "distinct (map crd_id (redemptions s))" using assms(1) by (simp add: redemptions_ok_def)
  note used = used_seats_refund [OF dist assms(2,3), of share reason t]
  have step: "seat_step (seats_of s) ?a"
    using seat_step.refund_one [of "seats_of s" ?i] used_positive [OF assms(2,3)] by simp
  show ?thesis
  proof (cases "crd_refunded_at (refund_row share reason t d) = None")
    case True
    then have "seats_of s' = (seats_of s)\<lparr>seat_limit := limit_of s'\<rparr>"
      using used assms(4,5) by (simp add: seats_of_def fun_eq_iff)
    then show ?thesis by (metis rtranclp.simps seat_step.administer)
  next
    case False
    then have "seats_of s' = ?a\<lparr>seat_limit := limit_of s'\<rparr>"
      using used assms(4,5) by (simp add: seats_of_def fun_eq_iff)
    with step show ?thesis by (metis rtranclp.simps seat_step.administer)
  qed
qed

lemma release_reaches:
  assumes "reaches a (store w)"
  shows "wp (release_hold_tx i) (\<lambda>_ w'. reaches a (store w')) w"
proof (rule wp_reaches [OF assms release_hold_tx_inv [OF reachesD(1) [OF assms]]])
  show "wp (release_hold_tx i) (\<lambda>_ w'. seat_step\<^sup>*\<^sup>* (seats_of (store w)) (seats_of (store w'))) w"
    unfolding release_hold_tx_def
    apply (intro wp_intros)
    subgoal by simp
    subgoal by (auto simp: list_ex_iff dest!: find_Some_mem)
    subgoal premises p for w0 r w1
    proof -
      have r: "r \<in> set (holds (store w))" "crv_id r = i" "crv_status r = HoldPending"
        using p find_Some_mem by fastforce+
      note inv = reachesD(2) [OF assms]
      have gap: "coupon_inv_gap ((\<lambda>_. 0)(crv_coupon_id r := 1)) (store w1)"
        using release_step [OF inv r(1,3), of HoldReleased "clock w0"] p r by (simp add: close_hold_def)
      show ?thesis
        apply (rule wp_decrement_usage [OF gap])
         apply simp
        apply (rule wp_returnI)
        apply (rule drop_one_steps [OF inv r(1,3), where t = "clock w0" and st = HoldReleased])
        using p r by (simp_all add: close_hold_def)
    qed
    done
qed

lemma commit_reaches:
  assumes "reaches a (store w)"
  shows "wp (commit_hold_tx cfg i order_id) (\<lambda>_ w'. reaches a (store w')) w"
proof (rule wp_reaches [OF assms commit_hold_tx_inv [OF reachesD(1) [OF assms]]])
  show "wp (commit_hold_tx cfg i order_id)
      (\<lambda>_ w'. seat_step\<^sup>*\<^sup>* (seats_of (store w)) (seats_of (store w'))) w"
    unfolding commit_hold_tx_def
    apply (intro wp_intros wp_catchI wp_insert_redemption)
    subgoal premises p for w0 r w1 w2 k w3 d w4
    proof -
      have r: "r \<in> set (holds (store w))" "crv_id r = i" "crv_status r = HoldPending"
        using p find_Some_mem by fastforce+
      show ?thesis
        by (rule use_one_steps [OF reachesD(2) [OF assms] r(1,3), where t = "clock w1" and d = d])
          (use p r in \<open>simp_all add: close_hold_def\<close>)
    qed
    subgoal by (drule bind_return_error, drule insert_redemption_aborted) simp
    subgoal by simp
    done
qed

lemma refund_reaches:
  assumes inv: "reaches a (store w)" and share: "0 \<le> share"
  shows "wp (refund_redemption_tx cfg i order_id share reason) (\<lambda>_ w'. \<not> aborted w' \<longrightarrow> reaches a (store w')) w"
proof -
  have "wp (refund_redemption_tx cfg i order_id share reason)
     (\<lambda>_ w'. \<not> aborted w' \<longrightarrow> seat_step\<^sup>*\<^sup>* (seats_of (store w)) (seats_of (store w'))) w"
    unfolding refund_redemption_tx_def Let_def
    apply (intro wp_intros wp_catchI wp_insert_refund_event)
    subgoal by simp
    subgoal by simp
    subgoal by simp
    subgoal premises p for w0 d w1
    proof -
      have d: "d \<in> set (redemptions (store w))" using p by (auto dest!: find_Some_mem)
      have ok: "redemptions_ok (store w)" and dist: "distinct (map crd_id (redemptions (store w)))"
        and inv0: "coupon_inv_gap (\<lambda>_. 0) (store w)" and pos: "0 < share"
        using reachesD(2) [OF inv] p share by (auto simp: coupon_inv_defs)
      let ?e = "\<lparr>rfe_redemption_id = crd_id d, rfe_order_id = order_id, rfe_share = share, rfe_reason = reason\<rparr>"
      have fresh: "\<forall>x \<in> set (refund_events (store w)).
          (rfe_redemption_id x, rfe_order_id x) \<noteq> (crd_id d, rfe_order_id ?e)"
        using p by simp
      note step = refund_apply_step [OF inv0 d _ _ fresh, of reason "clock w"]
      note steps = refund_one_steps [OF ok d, where share = share and reason = reason and t = "clock w"]
      show ?thesis
        apply (rule wp_apply_partial_refund)
        subgoal using p d by simp
        subgoal using p dist by simp
        subgoal using pos by simp
        subgoal using p by (simp add: wp_simps)
        subgoal for w2
          apply (simp add: wp_simps)
          apply (intro conjI impI)
          subgoal
            apply (rule wp_decrement_usage [where gap = "(\<lambda>_. 0)(crd_coupon_id d := 1)"])
            using step p pos by (auto simp: wp_simps intro!: steps)
          subgoal using p by (auto simp: wp_simps intro!: steps)
          done
        done
    qed
    subgoal by (drule bind_return_error, drule insert_refund_event_aborted) (simp add: wp_simps)
    subgoal by simp
    done
  with refund_redemption_tx_inv [OF reachesD(1) [OF inv] share] show ?thesis
    by (rule wp_combine) (blast intro: reaches_steps [OF inv])
qed

text \<open>The reaper drops one pending seat per claimed row.\<close>

lemma claim_holds_drops:
  assumes "coupon_inv s" and "distinct (map crv_id K)"
    and "\<And>r. r \<in> set K \<Longrightarrow> r \<in> set (holds s) \<and> crv_status r = HoldPending"
  shows "seat_step\<^sup>*\<^sup>* (seats_of s) (seats_of (s\<lparr>holds := claim_holds t K (holds s)\<rparr>))"
  using assms(2,3)
proof (induction K)
  case Nil
  then show ?case by (simp add: claim_holds_def update_where_id)
next
  case (Cons r K)
  let ?s = "s\<lparr>holds := claim_holds t K (holds s)\<rparr>"
  have dist: "distinct (map crv_id (holds s))" using assms(1) by (simp add: coupon_inv_def coupon_inv_defs)
  have r: "r \<in> set (holds s)" "crv_status r = HoldPending" "crv_id r \<notin> set (map crv_id K)"
    using Cons.prems by auto
  have mem: "r \<in> set (holds ?s)" using r by (force simp: claim_holds_def update_where_def)
  have inv: "coupon_inv_gap (claims_of (map (\<lambda>r. (crv_id r, crv_coupon_id r)) K)) ?s"
    using Cons.prems by (intro claim_step [OF assms(1)]) auto
  have "seat_step\<^sup>*\<^sup>* (seats_of ?s) (seats_of (s\<lparr>holds := claim_holds t (r # K) (holds s)\<rparr>))"
    by (rule drop_one_steps [OF inv mem r(2), where t = t and st = HoldExpired])
      (simp_all add: claim_holds_Cons [OF dist r])
  moreover have "seat_step\<^sup>*\<^sup>* (seats_of s) (seats_of ?s)"
    using Cons.prems by (intro Cons.IH) auto
  ultimately show ?case by (rule rtranclp_trans [rotated])
qed

lemma decrement_usage_rows:
  "wp (decrement_usage i) (\<lambda>_ w'. holds (store w') = holds (store w) \<and> redemptions (store w') = redemptions (store w)) w"
  unfolding decrement_usage_def
  by (intro wp_intros) (auto dest: update_coupons_result)

lemma limits_steps:
  assumes "holds s' = holds s" and "redemptions s' = redemptions s"
  shows "seat_step\<^sup>*\<^sup>* (seats_of s) (seats_of s')"
proof -
  have "seats_of s' = (seats_of s)\<lparr>seat_limit := limit_of s'\<rparr>"
    using assms by (simp add: seats_of_def)
  then show ?thesis by (metis r_into_rtranclp seat_step.administer)
qed

lemma expire_reaches:
  assumes "reaches a (store w)"
  shows "wp (expire_holds_tx locked) (\<lambda>_ w'. reaches a (store w')) w"
proof (rule wp_reaches [OF assms expire_holds_tx_inv [OF reachesD(1) [OF assms]]])
  have inv: "coupon_inv (store w)" using assms by (rule reachesD)
  have dist: "distinct (map crv_id (holds (store w)))"
    using inv by (simp add: coupon_inv_def coupon_inv_defs)
  let ?K = "claimed_holds locked 200 (clock w) (holds (store w))"
  let ?s = "(store w)\<lparr>holds := claim_holds (clock w) ?K (holds (store w))\<rparr>"
  have drops: "seat_step\<^sup>*\<^sup>* (seats_of (store w)) (seats_of ?s)"
    by (rule claim_holds_drops [OF inv]) (use claimed_holds_rows [OF dist] in blast)+
  let ?I = "\<lambda>w'. holds (store w') = holds ?s \<and> redemptions (store w') = redemptions ?s"
  have loop: "wp (tx_for rows (\<lambda>(_, coupon_id) _. decrement_usage coupon_id) ()) (\<lambda>_. ?I) w'"
    if "?I w'" for rows and w' :: "coupon_db world"
    by (rule wp_for [where I = "\<lambda>_ _. ?I"])
      (use that in \<open>auto intro: wp_mono [OF decrement_usage_rows]\<close>)
  show "wp (expire_holds_tx locked) (\<lambda>_ w'. seat_step\<^sup>*\<^sup>* (seats_of (store w)) (seats_of (store w'))) w"
    unfolding expire_holds_tx_def claim_expired_holds_def
    apply (intro wp_intros)
    subgoal premises p for x s' w'
    proof -
      have s': "store w' = ?s" using p by (auto simp: Let_def claim_holds_def)
      have "wp (tx_for x (\<lambda>(_, coupon_id) _. decrement_usage coupon_id) ()) (\<lambda>_. ?I) w'"
        by (rule loop) (simp add: s')
      then show ?thesis
        by (rule wp_mono) (rule wp_returnI, rule rtranclp_trans [OF drops], rule limits_steps, simp_all)
    qed
    done
qed

subsection \<open>The simulation\<close>

lemma coupons_only_keep [keeps_intros]:
  "keeps (reaches a) (insert_coupon c)" "keeps (reaches a) (update_coupon_row i p)"
  "keeps (reaches a) (set_coupon_status i st)"
proof -
  have ins: "reaches a s'" if "reaches a s" "insert_coupon_stmt c t s = Inr (x, s')" for t s x s'
    using insert_coupon_inv [OF reachesD(1) [OF that(1)] that(2)] that(2)
    by (intro reaches_limits [OF that(1)])
      (auto simp: insert_coupon_stmt_def Let_def split: option.splits if_splits)
  have upd: "reaches a s'"
    if "reaches a s" "update_coupons_stmt q g t s = Inr (n, s')"
      "\<And>c. cpn_id (g t c) = cpn_id c" "\<And>c. cpn_usage_count (g t c) = cpn_usage_count c" for q g t s n s'
    using update_coupons_inv [OF reachesD(1) [OF that(1)] that(2-4)] update_coupons_result [OF that(2)]
    by (intro reaches_limits [OF that(1)]) auto
  show "keeps (reaches a) (insert_coupon c)" "keeps (reaches a) (update_coupon_row i p)"
    "keeps (reaches a) (set_coupon_status i st)"
    unfolding insert_coupon_def update_coupon_row_def set_coupon_status_def
    by (intro keeps_intros; auto simp: patch_coupon_def intro: ins upd split: sum.splits prod.splits)+
qed

lemma coupon_use_cases_refine:
  "keeps (reaches a) (create_coupon cfg c)" "keeps (reaches a) (update_coupon i u)"
  "keeps (reaches a) (revoke_coupon cfg i)" "keeps (reaches a) (reserve_coupon cfg cd b subs currency)"
  "keeps (reaches a) (commit_hold cfg i order_id pi)" "keeps (reaches a) (release_hold i)"
  "keeps (reaches a) (refund_redemption cfg i order_id share reason)"
  "keeps (reaches a) (expire_holds locked)"
proof -
  show "keeps (reaches a) (create_coupon cfg c)" "keeps (reaches a) (update_coupon i u)"
    "keeps (reaches a) (revoke_coupon cfg i)"
    unfolding create_coupon_def update_coupon_def revoke_coupon_def by (intro keeps_intros)+
  show "keeps (reaches a) (reserve_coupon cfg cd b subs currency)"
    "keeps (reaches a) (commit_hold cfg i order_id pi)" "keeps (reaches a) (release_hold i)"
    "keeps (reaches a) (expire_holds locked)"
    unfolding reserve_coupon_def commit_hold_def release_hold_def expire_holds_def
    by (intro keeps_map_error keeps_bind keeps_case_prod keeps_if keeps_return keeps_now
        publish_coupon_keeps keeps_run_tx
        reserve_reaches commit_reaches release_reaches expire_reaches; assumption)+
  show "keeps (reaches a) (refund_redemption cfg i order_id share reason)"
    unfolding refund_redemption_def
    by (intro keeps_map_error keeps_if keeps_return keeps_throw keeps_run_tx_commit refund_reaches) auto
qed

lemma coupon_step_refines:
  assumes "coupon_step cfg w w'" and "coupon_inv (store w)"
  shows "seat_step\<^sup>*\<^sup>* (seats_of (store w)) (seats_of (store w'))"
proof -
  have "reaches (seats_of (store w)) (store w')"
    by (rule coupon_step_keeps [OF assms(1)])
      (use assms(2) in \<open>simp_all add: coupon_use_cases_refine reaches_def [where s = "store w"]\<close>)
  then show ?thesis by (simp add: reaches_def)
qed

end
