(* ===== verification/Coupon_Redelivery.thy ===== *)
theory Coupon_Redelivery
  imports Coupon_Refinement
begin

text \<open>
  Repeated calls of the coupon service: rows are only ever added and keep their identifying columns,
  so a commit and a closed reservation stay what they are; and what the service can do with a
  redemption when the driver does not scan NULLs into strings.
\<close>

subsection \<open>Rows stay\<close>

definition hold_coupon :: "coupon_db \<Rightarrow> uuid \<Rightarrow> uuid option" where
  "hold_coupon s i = map_option crv_coupon_id (find (\<lambda>r. crv_id r = i) (holds s))"

definition redeemed_pairs :: "coupon_db \<Rightarrow> (uuid \<times> uuid) set" where
  "redeemed_pairs s = (\<lambda>d. (crd_coupon_id d, crd_order_id d)) ` set (redemptions s)"

definition closed_holds :: "coupon_db \<Rightarrow> (uuid \<times> hold_status) set" where
  "closed_holds s = (\<lambda>r. (crv_id r, crv_status r)) ` {r \<in> set (holds s). crv_status r \<noteq> HoldPending}"

definition rows_grow :: "coupon_db \<Rightarrow> coupon_db \<Rightarrow> bool" where
  "rows_grow s s' \<longleftrightarrow>
     (\<forall>i c. hold_coupon s i = Some c \<longrightarrow> hold_coupon s' i = Some c)
     \<and> redeemed_pairs s \<subseteq> redeemed_pairs s' \<and> closed_holds s \<subseteq> closed_holds s'"

lemma rows_grow_refl: "rows_grow s s"
  by (simp add: rows_grow_def)

lemma rows_grow_trans: "rows_grow a s \<Longrightarrow> rows_grow s s' \<Longrightarrow> rows_grow a s'"
  unfolding rows_grow_def by blast

lemma rows_grow_same:
  "holds s' = holds s \<Longrightarrow> redemptions s' = redemptions s \<Longrightarrow> rows_grow s s'"
  by (simp add: rows_grow_def hold_coupon_def redeemed_pairs_def closed_holds_def)

lemma find_update_where:
  "(\<And>x. key (g x) = key x) \<Longrightarrow>
   find (\<lambda>x. key x = k) (update_where q g xs)
     = map_option (\<lambda>x. if q x then g x else x) (find (\<lambda>x. key x = k) xs)"
  by (induction xs) auto

lemma rows_grow_holds:
  assumes "\<And>r. crv_id (g r) = crv_id r" "\<And>r. crv_coupon_id (g r) = crv_coupon_id r"
    and "\<And>r. r \<in> set (holds s) \<Longrightarrow> q r \<Longrightarrow> crv_status r = HoldPending"
  shows "rows_grow s (s\<lparr>holds := update_where q g (holds s)\<rparr>)"
proof -
  have "hold_coupon (s\<lparr>holds := update_where q g (holds s)\<rparr>) i = hold_coupon s i" for i
    using find_update_where [of crv_id g i q "holds s", OF assms(1)] assms(2)
    by (simp add: hold_coupon_def option.map_comp comp_def if_distrib cong: if_cong)
  moreover have "closed_holds s \<subseteq> closed_holds (s\<lparr>holds := update_where q g (holds s)\<rparr>)"
    using assms(3) by (force simp: closed_holds_def update_where_def)
  ultimately show ?thesis by (simp add: rows_grow_def redeemed_pairs_def)
qed

lemma rows_grow_append:
  "rows_grow s (s\<lparr>holds := holds s @ [r]\<rparr>)" "rows_grow s (s\<lparr>redemptions := redemptions s @ [d]\<rparr>)"
  "rows_grow s (s\<lparr>refund_events := E\<rparr>)"
  by (auto simp: rows_grow_def hold_coupon_def find_append redeemed_pairs_def closed_holds_def)

lemma rows_grow_redemptions:
  assumes "\<And>d. crd_coupon_id (g d) = crd_coupon_id d" "\<And>d. crd_order_id (g d) = crd_order_id d"
  shows "rows_grow s (s\<lparr>redemptions := update_where q g (redemptions s)\<rparr>)"
proof -
  have "(crd_coupon_id d, crd_order_id d) \<in> redeemed_pairs (s\<lparr>redemptions := update_where q g (redemptions s)\<rparr>)"
    if "d \<in> set (redemptions s)" for d
    unfolding redeemed_pairs_def
    by (rule image_eqI [where x = "if q d then g d else d"]) (use that assms in \<open>auto simp: update_where_def\<close>)
  then show ?thesis by (auto simp: rows_grow_def hold_coupon_def closed_holds_def redeemed_pairs_def)
qed

subsection \<open>Every operation lets rows grow\<close>

lemma update_coupons_grows: "update_coupons_stmt q g t s = Inr (n, s') \<Longrightarrow> rows_grow s s'"
  by (auto dest!: update_coupons_result intro: rows_grow_same)

lemma coupon_writes_grow:
  "insert_coupon_stmt c t s = Inr (x, s') \<Longrightarrow> rows_grow s s'"
  "insert_hold_stmt r t s = Inr (y, s') \<Longrightarrow> rows_grow s s'"
  "insert_redemption_stmt d t s = Inr (z, s') \<Longrightarrow> rows_grow s s'"
  "insert_refund_event_stmt e t s = Inr (u, s') \<Longrightarrow> rows_grow s s'"
  by (auto simp: insert_coupon_stmt_def insert_hold_stmt_def insert_redemption_stmt_def
      insert_refund_event_stmt_def Let_def split: option.splits if_splits
      intro: rows_grow_append rows_grow_same)

lemma partial_refund_grows: "partial_refund_stmt i share reason t s = Inr (v, s') \<Longrightarrow> rows_grow s s'"
  unfolding partial_refund_stmt_def Let_def
  by (auto split: option.splits if_splits intro!: rows_grow_refl rows_grow_redemptions [of "refund_row share reason t"])

lemma update_hold_grows:
  "rows_grow s (s\<lparr>holds := update_where (\<lambda>r. crv_id r = i \<and> crv_status r = HoldPending)
      (set_hold_status t st) (holds s)\<rparr>)"
  by (rule rows_grow_holds) auto

lemma keeps_grow: "(\<And>t s x s'. stmt t s = Inr (x, s') \<Longrightarrow> rows_grow s s') \<Longrightarrow> keeps (rows_grow a) (sql stmt)"
  by (intro keeps_sql) (blast intro: rows_grow_trans)

lemma writes_let_rows_grow [keeps_intros]:
  "keeps (rows_grow a) (insert_coupon c)" "keeps (rows_grow a) (insert_hold r)"
  "keeps (rows_grow a) (insert_redemption d)" "keeps (rows_grow a) (insert_refund_event e)"
  "keeps (rows_grow a) (apply_partial_refund i share reason)"
  "keeps (rows_grow a) (update_hold_status i HoldPending st)"
  "keeps (rows_grow a) (increment_usage i)" "keeps (rows_grow a) (decrement_usage i)"
  "keeps (rows_grow a) (update_coupon_row i p)" "keeps (rows_grow a) (set_coupon_status i cs)"
proof -
  show "keeps (rows_grow a) (insert_coupon c)" "keeps (rows_grow a) (insert_hold r)"
    unfolding insert_coupon_def insert_hold_def by (rule keeps_grow, erule coupon_writes_grow)+
  show "keeps (rows_grow a) (insert_redemption d)" "keeps (rows_grow a) (insert_refund_event e)"
    unfolding insert_redemption_def insert_refund_event_def
    by (rule keeps_map_error, rule keeps_grow, erule coupon_writes_grow)+
  show "keeps (rows_grow a) (apply_partial_refund i share reason)"
    unfolding apply_partial_refund_def
    by (intro keeps_if keeps_return keeps_bind keeps_case_option keeps_throw keeps_grow) (erule partial_refund_grows)
  show "keeps (rows_grow a) (update_hold_status i HoldPending st)"
    unfolding update_hold_status_def by (rule keeps_grow) (auto simp: Let_def intro: update_hold_grows)
  have upd: "keeps (rows_grow a) (sql (update_coupons_stmt q g))" for q g
    by (rule keeps_grow) (rule update_coupons_grows)
  show "keeps (rows_grow a) (increment_usage i)" "keeps (rows_grow a) (decrement_usage i)"
    "keeps (rows_grow a) (set_coupon_status i cs)"
    unfolding increment_usage_def decrement_usage_def set_coupon_status_def
    by (intro keeps_bind keeps_if keeps_throw keeps_return upd)+
  show "keeps (rows_grow a) (update_coupon_row i p)"
    unfolding update_coupon_row_def
    by (rule keeps_grow) (auto split: sum.splits prod.splits intro: update_coupons_grows)
qed

lemma use_cases_let_rows_grow:
  "keeps (rows_grow a) (create_coupon cfg c)" "keeps (rows_grow a) (update_coupon i u)"
  "keeps (rows_grow a) (revoke_coupon cfg i)" "keeps (rows_grow a) (reserve_coupon cfg cd b subs currency)"
  "keeps (rows_grow a) (commit_hold cfg i order_id pi)" "keeps (rows_grow a) (release_hold i)"
  "keeps (rows_grow a) (refund_redemption cfg i order_id share reason)"
  unfolding create_coupon_def update_coupon_def revoke_coupon_def reserve_coupon_def reserve_coupon_tx_def
    commit_hold_def commit_hold_tx_def release_hold_def release_hold_tx_def refund_redemption_def
    refund_redemption_tx_def
  by (intro keeps_intros)+

text \<open>The reaper finds its rows by id, which are unique.\<close>

lemma claim_holds_grow:
  assumes "distinct (map crv_id (holds s))"
  shows "rows_grow s (s\<lparr>holds := claim_holds t (claimed_holds locked lim t' (holds s)) (holds s)\<rparr>)"
  unfolding claim_holds_def
proof (rule rows_grow_holds)
  fix r assume r: "r \<in> set (holds s)" "crv_id r \<in> set (map crv_id (claimed_holds locked lim t' (holds s)))"
  then obtain x where x: "x \<in> set (claimed_holds locked lim t' (holds s))" "crv_id x = crv_id r" by auto
  from claimed_holds_rows(2) [OF assms x(1)] have "x \<in> set (holds s)" "crv_status x = HoldPending" by auto
  with distinct_key_eq [OF assms r(1) this(1)] x(2) show "crv_status r = HoldPending" by simp
qed (simp_all add: expire_hold_def)

lemma expire_holds_rows_grow: "keeps (\<lambda>s. rows_grow a s \<and> coupon_inv s) (expire_holds locked)"
proof -
  have "keeps (\<lambda>s. rows_grow a s \<and> coupon_inv s) (run_tx (expire_holds_tx locked))"
  proof (rule keeps_run_tx)
    fix w :: "coupon_db world"
    assume I: "rows_grow a (store w) \<and> coupon_inv (store w)"
    then have dist: "distinct (map crv_id (holds (store w)))"
      by (simp add: coupon_inv_def coupon_inv_defs)
    have loop: "wp (tx_for rows (\<lambda>(_, coupon_id) _. decrement_usage coupon_id) ()) (\<lambda>_ w. rows_grow a (store w)) w'"
      if "rows_grow a (store w')" for rows and w' :: "coupon_db world"
      using that by (intro wp_keeps keeps_for keeps_case_prod_app writes_let_rows_grow)
    have "wp (expire_holds_tx locked) (\<lambda>_ w'. rows_grow a (store w')) w"
      unfolding expire_holds_tx_def claim_expired_holds_def
      apply (intro wp_intros)
      subgoal premises p for x s' w'
      proof -
        have "store w' = (store w)\<lparr>holds := claim_holds (clock w)
            (claimed_holds locked 200 (clock w) (holds (store w))) (holds (store w))\<rparr>"
          using p by (auto simp: Let_def claim_holds_def)
        with rows_grow_trans [OF _ claim_holds_grow [OF dist]] I have "rows_grow a (store w')" by simp
        from loop [OF this] show ?thesis by (rule wp_mono) (simp add: wp_simps)
      qed
      done
    with expire_holds_tx_inv [of w locked] I show
      "wp (expire_holds_tx locked) (\<lambda>_ w'. rows_grow a (store w') \<and> coupon_inv (store w')) w"
      by (auto intro: wp_combine)
  qed
  then show ?thesis by (simp add: expire_holds_def)
qed

lemma coupon_step_grows:
  assumes "coupon_step cfg w w'" and "coupon_inv (store w)"
  shows "rows_grow (store w) (store w') \<and> coupon_inv (store w')"
proof -
  note conj = keeps_conj [OF use_cases_let_rows_grow(1) coupon_use_cases_keep(1)]
    keeps_conj [OF use_cases_let_rows_grow(2) coupon_use_cases_keep(2)]
    keeps_conj [OF use_cases_let_rows_grow(3) coupon_use_cases_keep(3)]
    keeps_conj [OF use_cases_let_rows_grow(4) coupon_use_cases_keep(4)]
    keeps_conj [OF use_cases_let_rows_grow(5) coupon_use_cases_keep(5)]
    keeps_conj [OF use_cases_let_rows_grow(6) coupon_use_cases_keep(6)]
    keeps_conj [OF use_cases_let_rows_grow(7) coupon_use_cases_keep(7)]
  have "rows_grow (store w) (store w) \<and> coupon_inv (store w)"
    using assms(2) by (simp add: rows_grow_refl)
  from coupon_step_keeps [OF assms(1), where I = "\<lambda>s. rows_grow (store w) s \<and> coupon_inv s",
      OF this conj expire_holds_rows_grow]
  show ?thesis .
qed

text \<open>So do the steps of a whole run.\<close>

lemma coupon_steps_grow:
  assumes "(coupon_step cfg)\<^sup>*\<^sup>* w w'" and "coupon_inv (store w)"
  shows "rows_grow (store w) (store w') \<and> coupon_inv (store w')"
  using assms(1)
proof (induction rule: rtranclp_induct)
  case base
  with assms(2) show ?case by (simp add: rows_grow_refl)
next
  case (step w1 w2)
  with coupon_step_grows [of cfg w1 w2] show ?case by (blast intro: rows_grow_trans)
qed

subsection \<open>A commit is handled once\<close>

definition coupon_committed :: "uuid \<Rightarrow> uuid \<Rightarrow> coupon_db \<Rightarrow> bool" where
  "coupon_committed i order_id s \<longleftrightarrow>
     (\<exists>c. hold_coupon s i = Some c \<and> (c, order_id) \<in> redeemed_pairs s)"

lemma committed_grows: "rows_grow s s' \<Longrightarrow> coupon_committed i j s \<Longrightarrow> coupon_committed i j s'"
  by (auto simp: coupon_committed_def rows_grow_def)

lemma commit_hold_success:
  "wp (commit_hold cfg i order_id p) (\<lambda>_ w'. coupon_committed i order_id (store w')) w"
  unfolding commit_hold_def commit_hold_tx_def publish_coupon_def
  apply (intro wp_intros wp_catchI wp_insert_redemption)
  subgoal by (auto simp: coupon_committed_def hold_coupon_def redeemed_pairs_def wp_simps
      find_update_where [where key = crv_id])
  subgoal by (drule bind_return_error, drule insert_redemption_aborted) simp
  subgoal by (auto simp: coupon_committed_def hold_coupon_def redeemed_pairs_def wp_simps
      intro: rev_image_eqI dest!: find_Some_mem [where p = "\<lambda>d. crd_coupon_id d = c \<and> crd_order_id d = order_id" for c])
  done

lemma committed_unchanged:
  assumes "coupon_committed i order_id (store w)"
  shows "store (snd (commit_hold cfg i order_id p w)) = store w"
proof -
  let ?s = "store w"
  have "keeps (\<lambda>s. s = ?s) (commit_hold cfg i order_id p)"
    unfolding commit_hold_def commit_hold_tx_def publish_coupon_def
    apply (intro keeps_bind keeps_map_error keeps_case_prod keeps_if keeps_return keeps_now keeps_publish
        keeps_run_tx wp_intros wp_catchI wp_insert_redemption)
    using assms
      apply (auto simp: coupon_committed_def hold_coupon_def redeemed_pairs_def find_None_all image_iff)
    done
  then show ?thesis by (simp add: keeps_def)
qed

lemma update_coupon_missing:
  assumes "update_coupons_stmt (\<lambda>c. cpn_id c = i) (patch_coupon p) t s = Inr (n, s')"
    and "find (\<lambda>c. cpn_id c = i) (coupons s') = None"
  shows "s' = s"
proof -
  note s' = update_coupons_result [OF assms(1)]
  then have "i \<notin> cpn_id ` set (update_where (\<lambda>c. cpn_id c = i) (patch_coupon p t) (coupons s))"
    using assms(2) by (auto simp: find_None_all)
  then have "i \<notin> cpn_id ` set (coupons s)"
    using update_where_same_keys [of cpn_id "patch_coupon p t"] by (simp add: patch_coupon_def)
  then have "update_where (\<lambda>c. cpn_id c = i) (patch_coupon p t) (coupons s) = coupons s"
    by (intro update_where_id) auto
  with s' show ?thesis by simp
qed

lemma publish_then_return:
  "tx_bind (publish_coupon cfg ty p) (\<lambda>_. tx_return x) w \<noteq> (Inl e, w')"
  "tx_bind now (\<lambda>t. tx_bind (publish_coupon cfg ty (q t)) (\<lambda>_. tx_return x)) w \<noteq> (Inl e, w')"
  by (simp_all add: publish_coupon_def tx_bind_def tx_return_def now_def publish_def)

lemma coupon_use_cases_fail_clean:
  "fails_clean (create_coupon cfg c)" "fails_clean (update_coupon i u)"
  "fails_clean (revoke_coupon cfg i)" "fails_clean (reserve_coupon cfg cd b subs currency)"
  "fails_clean (commit_hold cfg i order_id pi)" "fails_clean (release_hold i)"
  "fails_clean (refund_redemption cfg i order_id share reason)"
  "fails_clean (expire_holds locked)"
proof -
  show "fails_clean (reserve_coupon cfg cd b subs currency)" "fails_clean (release_hold i)"
    "fails_clean (refund_redemption cfg i order_id share reason)" "fails_clean (expire_holds locked)"
    unfolding reserve_coupon_def release_hold_def refund_redemption_def expire_holds_def
    by (intro keeps_intros)+
  show "fails_clean (commit_hold cfg i order_id pi)"
    unfolding commit_hold_def
    by (intro fails_clean_bind keeps_intros) (simp add: publish_then_return tx_return_def split: prod.splits)
  show "fails_clean (create_coupon cfg c)"
    unfolding create_coupon_def
    apply (cases "validate_create_input c")
     apply (simp_all add: fails_clean_simps)
    apply (rule fails_clean_bind_read [OF keeps_now], rule fails_clean_bind_read [OF keeps_new_uuid])
    apply (rule fails_clean_bind)
     apply (intro keeps_intros)
    apply (simp add: publish_then_return)
    done
  have "wp (tx_map_error f (run_tx (update_coupon_row i p))) (\<lambda>r w'. r = None \<longrightarrow> store w' = store w) w" for f p w
    unfolding update_coupon_row_def
    apply (intro wp_intros)
    subgoal for w0 x s' w1
      by (simp split: sum.splits prod.splits) (metis update_coupon_missing)
    done
  note missing = wpD [OF this]
  show "fails_clean (update_coupon i u)"
    unfolding update_coupon_def
    apply (intro fails_clean_if fails_clean_simps)
    apply (rule fails_clean_bind_read [OF coupon_queries_keep(1)])
    apply (rule fails_clean_bind_after)
     apply (intro keeps_intros)
    apply (auto simp: tx_return_def tx_throw_def dest: missing split: option.splits)
    done
  show "fails_clean (revoke_coupon cfg i)"
    unfolding revoke_coupon_def
    apply (rule fails_clean_bind_read [OF coupon_queries_keep(1)])
    apply (intro fails_clean_if fails_clean_simps)
    apply (rule fails_clean_bind)
     apply (intro keeps_intros)
    apply (simp add: publish_then_return)
    done
qed

interpretation redeem: at_least_once
  "commit_hold cfg i order_id pi" store "\<lambda>w. coupon_committed i order_id (store w)"
  "\<lambda>w w'. coupon_inv (store w) \<and> coupon_step cfg w w'"
  for cfg i order_id pi
proof
  fix w :: "coupon_db world"
  assume h: "coupon_committed i order_id (store w)"
  show "store (snd (commit_hold cfg i order_id pi w)) = store w"
    using h by (rule committed_unchanged)
  then show "coupon_committed i order_id (store (snd (commit_hold cfg i order_id pi w)))"
    using h by simp
qed (auto dest: fails_cleanD [OF coupon_use_cases_fail_clean(5)] wpD [OF commit_hold_success]
      coupon_step_grows intro: committed_grows)

subsection \<open>A driver that does not scan NULL into a string\<close>

text \<open>
  pgx documents that a NULL cannot be scanned into a Go \<open>string\<close> (\<open>scan_null cfg = None\<close>). Then no
  redemption is ever refunded, and what has to read one fails.
\<close>

definition never_refunded :: "coupon_db \<Rightarrow> bool" where
  "never_refunded s \<longleftrightarrow> refund_events s = []
     \<and> (\<forall>d \<in> set (redemptions s). crd_refunded d = 0 \<and> crd_refunded_at d = None \<and> crd_refunded_reason d = None)"

lemma never_refunded_other:
  "redemptions s' = redemptions s \<Longrightarrow> refund_events s' = refund_events s \<Longrightarrow> never_refunded s \<Longrightarrow> never_refunded s'"
  by (simp add: never_refunded_def)

lemma refund_tx_idle:
  assumes "scan_null cfg = None" and "never_refunded (store w)"
  shows "wp (refund_redemption_tx cfg i order_id share reason)
     (\<lambda>r w'. store w' = store w \<and> find (\<lambda>d. crd_reservation_id d = i) (redemptions (store w)) = None) w"
  unfolding refund_redemption_tx_def redemption_by_hold_def query_def
  apply (intro wp_intros)
   apply (use assms in \<open>auto simp: never_refunded_def dest!: find_Some_mem\<close>)
  done

lemma never_refunded_writes [keeps_intros]:
  "keeps never_refunded (insert_coupon c)" "keeps never_refunded (insert_hold r)"
  "keeps never_refunded (insert_redemption d)"
  "keeps never_refunded (update_hold_status i HoldPending st)"
  "keeps never_refunded (increment_usage i)" "keeps never_refunded (decrement_usage i)"
  "keeps never_refunded (update_coupon_row i p)" "keeps never_refunded (set_coupon_status i cs)"
  "keeps never_refunded (claim_expired_holds locked lim)"
proof -
  have upd: "keeps never_refunded (sql (update_coupons_stmt q g))" for q g
    by (rule keeps_sql) (auto dest!: update_coupons_result elim: never_refunded_other [rotated 2])
  show "keeps never_refunded (increment_usage i)" "keeps never_refunded (decrement_usage i)"
    "keeps never_refunded (set_coupon_status i cs)"
    unfolding increment_usage_def decrement_usage_def set_coupon_status_def
    by (intro keeps_bind keeps_if keeps_throw keeps_return upd)+
  show "keeps never_refunded (update_coupon_row i p)"
    unfolding update_coupon_row_def
    by (rule keeps_sql) (auto dest!: update_coupons_result split: sum.splits prod.splits
        elim: never_refunded_other [rotated 2])
  show "keeps never_refunded (insert_coupon c)" "keeps never_refunded (insert_hold r)"
    unfolding insert_coupon_def insert_hold_def
    by (rule keeps_sql, auto simp: insert_coupon_stmt_def insert_hold_stmt_def Let_def
        split: option.splits if_splits elim: never_refunded_other [rotated 2])+
  show "keeps never_refunded (insert_redemption d)"
    unfolding insert_redemption_def
    by (rule keeps_map_error, rule keeps_sql)
      (auto simp: insert_redemption_stmt_def Let_def never_refunded_def split: if_splits)
  show "keeps never_refunded (update_hold_status i HoldPending st)"
    "keeps never_refunded (claim_expired_holds locked lim)"
    unfolding update_hold_status_def claim_expired_holds_def
    by (rule keeps_sql, auto simp: Let_def elim: never_refunded_other [rotated 2])+
qed

lemma never_refunded_use_cases:
  "keeps never_refunded (create_coupon cfg c)" "keeps never_refunded (update_coupon i u)"
  "keeps never_refunded (revoke_coupon cfg i)" "keeps never_refunded (reserve_coupon cfg cd b subs currency)"
  "keeps never_refunded (commit_hold cfg i order_id pi)" "keeps never_refunded (release_hold i)"
  "keeps never_refunded (expire_holds locked)"
  unfolding create_coupon_def update_coupon_def revoke_coupon_def reserve_coupon_def reserve_coupon_tx_def
    commit_hold_def commit_hold_tx_def release_hold_def release_hold_tx_def expire_holds_def expire_holds_tx_def
  by (intro keeps_intros)+

lemma never_refunded_refund:
  assumes "scan_null cfg = None"
  shows "keeps never_refunded (refund_redemption cfg i order_id share reason)"
  unfolding refund_redemption_def
  by (intro keeps_if keeps_return keeps_throw keeps_map_error keeps_run_tx)
    (rule wp_mono [OF refund_tx_idle [OF assms]], simp_all)

lemma coupon_step_never_refunded:
  assumes "scan_null cfg = None" and "coupon_step cfg w w'" and "never_refunded (store w)"
  shows "never_refunded (store w')"
  using coupon_step_keeps [OF assms(2), where I = never_refunded, OF assms(3) never_refunded_use_cases(1-6)
      never_refunded_refund [OF assms(1)] never_refunded_use_cases(7)] .

lemma never_refunded_empty: "never_refunded empty_coupon_db"
  by (simp add: never_refunded_def empty_coupon_db_def)

interpretation unread: stateful_service
  "\<lambda>w. store w = empty_coupon_db" "\<lambda>w w'. scan_null cfg = None \<and> coupon_step cfg w w'"
  "\<lambda>w. never_refunded (store w)" for cfg
  by unfold_locales
    (auto simp: never_refunded_empty intro: coupon_step_never_refunded)

end
