(* ===== verification/Coupon_Properties.thy ===== *)
theory Coupon_Properties
  imports Coupon_Redelivery Samples
begin

text \<open>
  The properties of the coupon service, each with a run on a concrete world where it has
  hypotheses.
\<close>

subsection \<open>A sample world\<close>

definition sample_coupon_cfg :: coupon_cfg where
  "sample_coupon_cfg = \<lparr>hold_ttl = 100, coupon_publisher = True, coupon_uuid_parse = Some, scan_null = None\<rparr>"

definition sample_input :: create_coupon_input where
  "sample_input = \<lparr>cin_code = ''SAVE'', cin_issuer_type = IssuerPlatform, cin_issuer_id = None,
     cin_discount_type = Percent, cin_percent_bps = Some 1000, cin_amount = None, cin_currency = '''',
     cin_min_order = 100, cin_max_discount = Some 500, cin_valid_from = None, cin_expires_at = None,
     cin_limit_total = Some 1, cin_limit_per_user = Some 1, cin_title = ''Save'', cin_description = ''''\<rparr>"

definition issued_world :: "coupon_db world" where
  "issued_world = snd (create_coupon sample_coupon_cfg sample_input (sample_world empty_coupon_db))"

definition held_world :: "coupon_db world" where
  "held_world = snd (reserve_coupon sample_coupon_cfg ''save'' ''b'' [(''s'', 2000)] '''' issued_world)"

definition redeemed_world :: "coupon_db world" where
  "redeemed_world = snd (commit_hold sample_coupon_cfg (sample_uuid 1) ''o'' ''pi'' held_world)"

lemma held_run: "\<exists>r. reserve_coupon sample_coupon_cfg ''save'' ''b'' [(''s'', 2000)] '''' issued_world
    = (Inr r, held_world)"
  unfolding held_world_def by (rule run_ok) code_simp

lemma redeemed_run: "\<exists>x. commit_hold sample_coupon_cfg (sample_uuid 1) ''o'' ''pi'' held_world = (Inr x, redeemed_world)"
  unfolding redeemed_world_def by (rule run_ok) code_simp

lemma coupon_samples_reachable:
  "(coupon_step sample_coupon_cfg)\<^sup>*\<^sup>* (sample_world empty_coupon_db) issued_world"
  "(coupon_step sample_coupon_cfg)\<^sup>*\<^sup>* (sample_world empty_coupon_db) held_world"
  "(coupon_step sample_coupon_cfg)\<^sup>*\<^sup>* (sample_world empty_coupon_db) redeemed_world"
proof -
  have "coupon_step sample_coupon_cfg (sample_world empty_coupon_db) issued_world"
    "coupon_step sample_coupon_cfg issued_world held_world"
    "coupon_step sample_coupon_cfg held_world redeemed_world"
    unfolding issued_world_def held_world_def redeemed_world_def
    by (rule coupon_step.create coupon_step.reserve coupon_step.commit)+
  then show "(coupon_step sample_coupon_cfg)\<^sup>*\<^sup>* (sample_world empty_coupon_db) issued_world"
    "(coupon_step sample_coupon_cfg)\<^sup>*\<^sup>* (sample_world empty_coupon_db) held_world"
    "(coupon_step sample_coupon_cfg)\<^sup>*\<^sup>* (sample_world empty_coupon_db) redeemed_world"
    by (meson r_into_rtranclp rtranclp.rtrancl_into_rtrancl)+
qed

lemma coupon_samples_inv: "coupon_inv (store issued_world)" "coupon_inv (store held_world)"
  "coupon_inv (store redeemed_world)"
  using cs.reachable_inv [of "sample_world empty_coupon_db"] coupon_samples_reachable
  by (simp_all add: sample_world_def)

subsection \<open>Seats\<close>

text \<open>
  C10. From an empty database, whatever use cases run in whatever order, with any arguments, faults,
  clock and row locks: a coupon's usage count is the number of its pending reservations plus its
  redemptions that are not fully refunded, so it is never negative; a reservation is committed
  exactly when one redemption carries its coupon, buyer and discount; no reservation is redeemed
  twice; and a redemption's refunds are the sum of its refund events, capped by its discount.
\<close>

theorem coupon_seats_invariant:
  assumes "store w0 = empty_coupon_db" and "(coupon_step cfg)\<^sup>*\<^sup>* w0 w"
  shows "(\<forall>c \<in> set (coupons (store w)). cpn_usage_count c
             = pending_seats (holds (store w)) (cpn_id c) + used_seats (redemptions (store w)) (cpn_id c)
           \<and> 0 \<le> cpn_usage_count c)
       \<and> (\<forall>r \<in> set (holds (store w)). crv_status r = HoldCommitted \<longleftrightarrow>
            (\<exists>d \<in> set (redemptions (store w)). redeems d r))
       \<and> distinct (map crd_reservation_id (redemptions (store w)))
       \<and> (\<forall>d \<in> set (redemptions (store w)).
            crd_refunded d = min (crd_discount d) (share_sum (crd_id d) (refund_events (store w))))"
proof -
  let ?s = "store w"
  have inv: "coupon_inv_gap (\<lambda>_. 0) ?s"
    using cs.reachable_inv [OF assms] by (simp add: coupon_inv_def)
  then have ok: "redemptions_ok ?s" and dist: "distinct (map crv_id (holds ?s))"
    and counts: "\<forall>c \<in> set (coupons ?s). cpn_usage_count c = seats ?s (cpn_id c)"
    by (simp_all add: coupon_inv_gap_def coupons_ok_def holds_ok_def)
  have conv: "crv_status r = HoldCommitted"
    if "r \<in> set (holds ?s)" "d \<in> set (redemptions ?s)" "redeems d r" for r d
    using redemption_hold [OF ok that(2)] redeems_unique [OF dist that(1) _ that(3)] by metis
  have "crv_status r = HoldCommitted \<longleftrightarrow> (\<exists>d \<in> set (redemptions ?s). redeems d r)"
    if "r \<in> set (holds ?s)" for r
    using that conv hold_redemption [OF ok that] by blast
  moreover have "\<forall>c \<in> set (coupons ?s). cpn_usage_count c
        = pending_seats (holds ?s) (cpn_id c) + used_seats (redemptions ?s) (cpn_id c) \<and> 0 \<le> cpn_usage_count c"
    using counts seats_nonneg(3) [of ?s] by (simp add: seats_def)
  moreover have "crd_refunded d = min (crd_discount d) (share_sum (crd_id d) (refund_events ?s))"
    if "d \<in> set (redemptions ?s)" for d
    using redemption_row [OF ok that] by (simp add: redemption_ok_def)
  moreover have "distinct (map crd_reservation_id (redemptions ?s))"
    using ok by (simp add: redemptions_ok_def)
  ultimately show ?thesis by blast
qed

theorem coupon_seats_invariant_witness:
  "map cpn_usage_count (coupons (store redeemed_world)) = [1]
   \<and> (\<exists>d \<in> set (redemptions (store redeemed_world)). redeems d (hd (holds (store redeemed_world))))"
proof
  show "map cpn_usage_count (coupons (store redeemed_world)) = [1]" by code_simp
  have "hd (holds (store redeemed_world)) \<in> set (holds (store redeemed_world))"
    "crv_status (hd (holds (store redeemed_world))) = HoldCommitted" by code_simp+
  with coupon_seats_invariant [OF _ coupon_samples_reachable(3)]
  show "\<exists>d \<in> set (redemptions (store redeemed_world)). redeems d (hd (holds (store redeemed_world)))"
    by (simp add: sample_world_def)
qed



subsection \<open>Reserving and committing\<close>

lemma compute_discount_range: "0 \<le> compute_discount c sub" "compute_discount c sub \<le> max 0 sub"
  by (auto simp: compute_discount_def Let_def split: discount_type.splits option.splits)

text \<open>
  C12. A reservation that is granted is one the coupon allows: the code names, up to case and outer
  spaces, a coupon of the platform or of a seller in the cart; it is not revoked, is within its
  validity and currency, the subtotal it applies to reaches the minimum, the buyer is below the
  per-user limit of redemptions and the coupon below its total limit. The discount is the computed
  one, positive and at most that subtotal, and exactly one pending row with it is added.
\<close>

theorem reserve_coupon_sound:
  assumes "reserve_coupon cfg cd b subs cur w = (Inr r, w')" and "coupon_inv (store w)"
  shows "\<exists>c seller sub. applies (store w) (clock w) cd b subs cur (c, seller, sub) \<and> below_limit c
     \<and> crv_coupon_id r = cpn_id c \<and> crv_buyer r = b \<and> crv_seller_id r = seller
     \<and> crv_status r = HoldPending \<and> crv_expires_at r = clock w + hold_ttl cfg
     \<and> crv_discount r = compute_discount c sub \<and> 0 < crv_discount r \<and> crv_discount r \<le> sub
     \<and> holds (store w') = holds (store w) @ [r] \<and> redemptions (store w') = redemptions (store w)"
proof -
  let ?Q = "\<lambda>r s. \<exists>c seller sub. applies (store w) (clock w) cd b subs cur (c, seller, sub) \<and> below_limit c
     \<and> crv_coupon_id r = cpn_id c \<and> crv_buyer r = b \<and> crv_seller_id r = seller
     \<and> crv_status r = HoldPending \<and> crv_expires_at r = clock w + hold_ttl cfg
     \<and> crv_discount r = compute_discount c sub \<and> 0 < crv_discount r \<and> crv_discount r \<le> sub
     \<and> holds s = holds (store w) @ [r] \<and> redemptions s = redemptions (store w)"
  have "wp (reserve_coupon cfg cd b subs cur) (\<lambda>r w'. ?Q r (store w')) w"
    unfolding reserve_coupon_def reserve_coupon_tx_def Let_def
    apply (intro wp_intros wp_resolve_coupon wp_increment_usage [where gap = "\<lambda>_. 0"] wp_insert_hold)
    subgoal using assms(2) by (simp add: coupon_inv_def)
    subgoal premises p for w0 x w1 c y seller sub w2 i w3 r w4
    proof -
      have c: "c \<in> set (coupons (store w))" using p by (simp add: applies_def)
      have "below_limit c" using p c by auto
      moreover have "compute_discount c sub \<le> sub" "0 < compute_discount c sub"
        using p compute_discount_range(2) [of c sub] by auto
      ultimately show ?thesis using p by fastforce
    qed
    done
  from wpD [OF this assms(1)] show ?thesis .
qed

theorem reserve_coupon_sound_witness:
  "\<exists>r. reserve_coupon sample_coupon_cfg ''save'' ''b'' [(''s'', 2000)] '''' issued_world = (Inr r, held_world)
     \<and> 0 < crv_discount r \<and> holds (store held_world) = holds (store issued_world) @ [r]"
  using held_run reserve_coupon_sound [OF _ coupon_samples_inv(1)] by blast

text \<open>
  C13. A commit redeems once. After a commit of a reservation for an order has succeeded, whatever use
  cases run in between, every later commit of that reservation for that order leaves the tables as
  they are: no second redemption and no second state change.
\<close>

theorem commit_coupon_once:
  assumes "commit_hold cfg i order_id p w = (Inr x, w1)" and "coupon_inv (store w1)"
    and "(coupon_step cfg)\<^sup>*\<^sup>* w1 w2"
  shows "store (snd (commit_hold cfg i order_id p w2)) = store w2"
proof -
  have "coupon_committed i order_id (store w1)" by (rule redeem.success_handled [OF assms(1)])
  with coupon_steps_grow [OF assms(3,2)] have "coupon_committed i order_id (store w2)"
    by (blast intro: committed_grows)
  then show ?thesis by (rule redeem.handled_noop)
qed

theorem commit_coupon_once_witness:
  "store (snd (commit_hold sample_coupon_cfg (sample_uuid 1) ''o'' ''pi'' redeemed_world)) = store redeemed_world
   \<and> length (redemptions (store redeemed_world)) = 1"
proof
  show "store (snd (commit_hold sample_coupon_cfg (sample_uuid 1) ''o'' ''pi'' redeemed_world)) = store redeemed_world"
    using redeemed_run commit_coupon_once [OF _ coupon_samples_inv(3) rtranclp.rtrancl_refl] by blast
qed code_simp

text \<open>
  C15. The discount. For every coupon and subtotal, overflow included, it is between zero and the
  subtotal; a fixed amount is taken up to the subtotal; a percentage whose product stays in
  \<open>int64\<close> is rounded down and capped by the coupon's maximum.
\<close>

theorem compute_discount_bounds:
  "0 \<le> compute_discount c sub \<and> compute_discount c sub \<le> max 0 sub
   \<and> (0 < sub \<and> cpn_discount_type c = FixedAmount \<and> cpn_amount c = Some a \<and> 0 \<le> a \<longrightarrow>
        compute_discount c sub = min a sub)
   \<and> (0 < sub \<and> cpn_discount_type c = Percent \<and> cpn_percent_bps c = Some bps \<and> 0 \<le> bps \<and> bps \<le> 10000
        \<and> in_i64 (sub * bps) \<longrightarrow>
        compute_discount c sub = (case cpn_max_discount c of
            None \<Rightarrow> sub * bps div 10000 | Some m \<Rightarrow> max 0 (min m (sub * bps div 10000))))"
proof (intro conjI impI compute_discount_range)
  assume "0 < sub \<and> cpn_discount_type c = FixedAmount \<and> cpn_amount c = Some a \<and> 0 \<le> a"
  then show "compute_discount c sub = min a sub"
    by (auto simp: compute_discount_def Let_def)
next
  assume h: "0 < sub \<and> cpn_discount_type c = Percent \<and> cpn_percent_bps c = Some bps \<and> 0 \<le> bps \<and> bps \<le> 10000
        \<and> in_i64 (sub * bps)"
  have "0 \<le> sub * bps" using h by (intro mult_nonneg_nonneg) auto
  then have d: "sub * bps sdiv 10000 = sub * bps div 10000" and pos: "0 \<le> sub * bps div 10000"
    by (simp_all add: sdiv_pos pos_imp_zdiv_nonneg_iff)
  have "sub * bps \<le> sub * 10000" using h by (intro mult_left_mono) auto
  then have le: "sub * bps div 10000 \<le> sub" by linarith
  show "compute_discount c sub = (case cpn_max_discount c of
            None \<Rightarrow> sub * bps div 10000 | Some m \<Rightarrow> max 0 (min m (sub * bps div 10000)))"
    using h le pos by (auto simp: compute_discount_def Let_def d split: option.splits)
qed

definition sample_coupon :: coupon where
  "sample_coupon = new_coupon ''c'' 0 sample_input"

theorem compute_discount_bounds_witness:
  "compute_discount sample_coupon 2999 = 299 \<and> compute_discount sample_coupon 9000 = 500"
proof -
  have p: "cpn_discount_type sample_coupon = Percent" "cpn_percent_bps sample_coupon = Some 1000"
    "cpn_max_discount sample_coupon = Some 500" "in_i64 (2999 * 1000)" "in_i64 (9000 * 1000)" by code_simp+
  from compute_discount_bounds [of sample_coupon 2999 0 1000]
    compute_discount_bounds [of sample_coupon 9000 0 1000] p
  show ?thesis by simp
qed

subsection \<open>Refunds and the nullable column\<close>

text \<open>
  C14. With a driver that refuses to scan NULL into a string, as pgx documents, no run of the
  service ever records a refund: every redemption stays unrefunded with no reason, and the refund
  of a redemption that exists fails for every positive share and leaves the tables as they are.
\<close>

theorem refunds_never_recorded:
  assumes "scan_null cfg = None" and "store w0 = empty_coupon_db" and "(coupon_step cfg)\<^sup>*\<^sup>* w0 w"
    and "d \<in> set (redemptions (store w))" and "crd_reservation_id d = i" and "i \<noteq> nil_uuid"
  shows "crd_refunded d = 0 \<and> crd_refunded_reason d = None \<and> refund_events (store w) = []
     \<and> isl (fst (refund_redemption cfg i order_id share reason w))
     \<and> store (snd (refund_redemption cfg i order_id share reason w)) = store w"
proof -
  have "(\<lambda>w w'. scan_null cfg = None \<and> coupon_step cfg w w')\<^sup>*\<^sup>* w0 w" using assms(1,3) by simp
  from unread.reachable_inv [OF assms(2) this] have nr: "never_refunded (store w)" .
  have "wp (refund_redemption cfg i order_id share reason) (\<lambda>_ _. False) w"
    unfolding refund_redemption_def
  proof (intro wp_ifI wp_map_errorI wp_throwI wp_run_txI)
    fix w1 :: "coupon_db world"
    assume "store w1 = store w"
    with nr assms(4,5) show "wp (refund_redemption_tx cfg i order_id share reason)
        (\<lambda>x w1. \<not> aborted w1 \<longrightarrow> (\<forall>w2. store w2 = store w1 \<longrightarrow> False)) w1"
      by (intro wp_mono [OF refund_tx_idle [OF assms(1)]]) (auto simp: find_None_all)
  qed (use assms(6) in simp)
  then have fail: "isl (fst (refund_redemption cfg i order_id share reason w))"
    by (auto simp: wp_def split: prod.splits sum.splits)
  obtain e w' where "refund_redemption cfg i order_id share reason w = (Inl e, w')"
    using fail by (cases "refund_redemption cfg i order_id share reason w"; cases "fst (refund_redemption cfg i order_id share reason w)") auto
  with fails_cleanD [OF coupon_use_cases_fail_clean(7) this] fail nr assms(4) show ?thesis
    by (simp add: never_refunded_def)
qed

theorem refunds_never_recorded_witness:
  "isl (fst (refund_redemption sample_coupon_cfg (sample_uuid 1) ''o'' 5 ''cancelled'' redeemed_world))"
proof -
  let ?d = "hd (redemptions (store redeemed_world))"
  have "scan_null sample_coupon_cfg = None" "?d \<in> set (redemptions (store redeemed_world))"
    "crd_reservation_id ?d = sample_uuid 1" "sample_uuid 1 \<noteq> nil_uuid" by code_simp+
  from refunds_never_recorded [OF this(1) _ coupon_samples_reachable(3) this(2-4)] show ?thesis
    by (simp add: sample_world_def)
qed

subsection \<open>Sellers\<close>

lemma load_owned_store: "store (snd (load_owned cfg header i w)) = store w"
proof -
  have "keeps (\<lambda>s. s = store w) (load_owned cfg header i)"
    unfolding load_owned_def by (intro keeps_case_sum keeps_intros)
  then show ?thesis by (simp add: keeps_def)
qed

definition refusing :: "coupon_err error \<Rightarrow> bool" where
  "refusing e \<longleftrightarrow> 400 \<le> resp_status (http_error (coupon_map_error e))"

lemma refusing_errors [simp]:
  "refusing (internal m x)" "refusing (bad_request m)" "refusing (unauthorized m)"
  "refusing (with_code (not_found m) c)" "refusing (Sentinel ErrCouponNotFound)"
  by (simp_all add: refusing_def coupon_map_error_def error_defs)

lemma load_coupon_error: "load_coupon i w = (Inl e, w') \<Longrightarrow> refusing e"
  by (cases "run_tx (coupon_by_id i) w"; cases "fst (run_tx (coupon_by_id i) w)")
    (auto simp: load_coupon_def tx_bind_def tx_map_error_def tx_catch_def tx_throw_def tx_return_def
      split: option.splits)

lemma load_owned_error_status:
  assumes "load_owned cfg header i w = (Inl e, w')"
  shows "400 \<le> resp_status (http_error (coupon_map_error e))"
proof -
  have "refusing e"
  proof (cases "seller_id_of cfg header")
    case (Inl e1)
    then have "refusing e1" by (auto simp: seller_id_of_def split: if_splits option.splits)
    with Inl assms show ?thesis by (simp add: load_owned_def tx_throw_def)
  next
    case (Inr seller)
    obtain r w1 where l: "load_coupon i w = (r, w1)" by fastforce
    with Inr assms show ?thesis
      by (cases r) (auto simp: load_owned_def get_coupon_def tx_bind_def tx_throw_def tx_return_def
          dest: load_coupon_error split: if_splits)
  qed
  then show ?thesis by (simp add: refusing_def)
qed

lemma load_owned_foreign:
  assumes "seller_id_of cfg header = Inr seller"
    and "\<forall>c \<in> set (coupons (store w)). cpn_id c = i \<longrightarrow>
        \<not> (cpn_issuer_type c = IssuerSeller \<and> cpn_issuer_id c = Some seller)"
  obtains e w' where "load_owned cfg header i w = (Inl e, w')" and "store w' = store w"
proof -
  have "wp (load_owned cfg header i) (\<lambda>_ _. False) w"
    unfolding load_owned_def get_coupon_def load_coupon_def coupon_by_id_def
    apply (simp add: assms(1))
    apply (intro wp_intros)
    using assms(2) apply (auto simp: wp_simps dest: find_Some_mem split: option.splits)
    done
  moreover obtain r w' where "load_owned cfg header i w = (r, w')" by fastforce
  ultimately show ?thesis
    using that load_owned_store [of cfg header i w] by (cases r) (auto simp: wp_def)
qed

text \<open>
  C16. Sellers are kept apart. A seller's request for a coupon that is not the seller's own (another
  seller's, the platform's, or none) is answered with an error status and changes nothing, whether
  it reads, updates, revokes or asks for statistics.
\<close>

theorem sellers_kept_apart:
  assumes "seller_id_of cfg header = Inr seller" and "coupon_uuid_parse cfg id_text = Some i"
    and "\<forall>c \<in> set (coupons (store w)). cpn_id c = i \<longrightarrow>
        \<not> (cpn_issuer_type c = IssuerSeller \<and> cpn_issuer_id c = Some seller)"
    and "h \<in> {seller_get cfg header id_text, seller_update cfg header id_text body,
               seller_revoke cfg header id_text, seller_stats cfg header id_text}"
  shows "\<exists>r w'. h w = (Inr r, w') \<and> 400 \<le> resp_status r \<and> store w' = store w"
proof -
  obtain e w' where l: "load_owned cfg header i w = (Inl e, w')" and s: "store w' = store w"
    using load_owned_foreign [OF assms(1,3)] .
  note st = load_owned_error_status [OF l]
  from assms(4) l s st show ?thesis
    by (auto simp: seller_get_def seller_update_def seller_revoke_def seller_stats_def with_id_def
        assms(2) owned_def respond_def)
qed

theorem sellers_kept_apart_witness:
  "\<exists>r w'. seller_revoke sample_coupon_cfg ''s'' (sample_uuid 0) issued_world = (Inr r, w')
     \<and> 400 \<le> resp_status r \<and> store w' = store issued_world"
proof (rule sellers_kept_apart [where cfg = sample_coupon_cfg and header = "''s''" and id_text = "sample_uuid 0"
      and seller = "''s''" and i = "sample_uuid 0" and w = issued_world and body = None])
  show "seller_id_of sample_coupon_cfg ''s'' = Inr ''s''" "coupon_uuid_parse sample_coupon_cfg (sample_uuid 0) = Some (sample_uuid 0)"
    by code_simp+
  have "list_all (\<lambda>c. cpn_issuer_type c \<noteq> IssuerSeller) (coupons (store issued_world))" by code_simp
  then show "\<forall>c \<in> set (coupons (store issued_world)). cpn_id c = sample_uuid 0 \<longrightarrow>
        \<not> (cpn_issuer_type c = IssuerSeller \<and> cpn_issuer_id c = Some ''s'')"
    by (auto simp: list_all_iff)
qed simp

lemma errors_clean_owned:
  assumes "errors_clean h"
  shows "errors_clean (owned cfg header i h)"
  unfolding errors_clean_def
proof (intro allI impI)
  fix w :: "coupon_db world" and resp w'
  assume r: "owned cfg header i h w = (Inr resp, w')" "400 \<le> resp_status resp"
  obtain x w1 where l: "load_owned cfg header i w = (x, w1)" by fastforce
  then have same: "store w1 = store w" using load_owned_store [of cfg header i w] by simp
  show "store w' = store w"
  proof (cases x)
    case (Inl e)
    with l r same show ?thesis by (auto simp: owned_def)
  next
    case (Inr c)
    with l r have "h w1 = (Inr resp, w')" by (simp add: owned_def)
    with assms r have "store w' = store w1" unfolding errors_clean_def by blast
    with same show ?thesis by simp
  qed
qed

text \<open>
  Every answer of the coupon service with an error status, at each of its HTTP endpoints that
  write, and every order event that is not acknowledged, left the tables as they were.
\<close>

theorem coupon_errors_change_nothing:
  "errors_clean (admin_create cfg cbody) \<and> errors_clean (admin_update cfg t ubody)
   \<and> errors_clean (admin_revoke cfg t) \<and> errors_clean (seller_create cfg header cbody)
   \<and> errors_clean (seller_update cfg header t ubody) \<and> errors_clean (seller_revoke cfg header t)
   \<and> errors_clean (internal_reserve cfg rbody) \<and> errors_clean (internal_commit cfg t mbody)
   \<and> errors_clean (internal_release cfg t) \<and> fails_clean (on_order_event cfg ty d)"
proof (intro conjI)
  note defs = with_id_def with_body_def refuse_def Let_def
  note rules = errors_clean_case_option errors_clean_case_sum errors_clean_if errors_clean_answer
    errors_clean_respond errors_clean_owned coupon_use_cases_fail_clean
  show "errors_clean (admin_create cfg cbody)" "errors_clean (admin_update cfg t ubody)"
    "errors_clean (admin_revoke cfg t)" "errors_clean (seller_create cfg header cbody)"
    "errors_clean (seller_update cfg header t ubody)" "errors_clean (seller_revoke cfg header t)"
    "errors_clean (internal_reserve cfg rbody)" "errors_clean (internal_commit cfg t mbody)"
    "errors_clean (internal_release cfg t)"
    unfolding admin_create_def admin_update_def admin_revoke_def seller_create_def seller_update_def
      seller_revoke_def internal_reserve_def internal_commit_def internal_release_def defs
    by (intro rules; simp add: ok_coupon_def split: prod.splits)+
  show "fails_clean (on_order_event cfg ty d)"
    unfolding on_order_event_def
    by (auto intro!: fails_clean_bind coupon_use_cases_fail_clean simp: fails_clean_simps tx_return_def
        split: sum.splits option.splits)
qed

subsection \<open>Behaviour the comments do not describe\<close>

text \<open>A replayed commit fails instead of reporting that the reservation had been committed.\<close>

lemma commit_replay_fails:
  "isl (fst (commit_hold sample_coupon_cfg (sample_uuid 1) ''o'' ''pi'' redeemed_world))"
  by code_simp

text \<open>
  Even with a driver that scans NULL as the empty string, a redelivered refund fails: the failed
  INSERT of its refund event leaves the transaction aborted, so that its commit rolls back.
\<close>

definition scanning_cfg :: coupon_cfg where
  "scanning_cfg = sample_coupon_cfg\<lparr>scan_null := Some ''''\<rparr>"

definition part_refunded_world :: "coupon_db world" where
  "part_refunded_world = snd (refund_redemption scanning_cfg (sample_uuid 1) ''o'' 5 ''r'' redeemed_world)"

lemma refund_redelivery_fails:
  "\<not> isl (fst (refund_redemption scanning_cfg (sample_uuid 1) ''o'' 5 ''r'' redeemed_world))
   \<and> isl (fst (refund_redemption scanning_cfg (sample_uuid 1) ''o'' 5 ''r'' part_refunded_world))"
  by code_simp

text \<open>The default issuer type is set on the validator's copy only.\<close>

lemma empty_issuer_passes_validation:
  "validate_create_input (sample_input\<lparr>cin_issuer_type := IssuerOther ''''\<rparr>) = None
   \<and> isl (fst (create_coupon sample_coupon_cfg (sample_input\<lparr>cin_issuer_type := IssuerOther ''''\<rparr>)
        (sample_world empty_coupon_db)))"
  by code_simp

text \<open>The product in \<open>ComputeDiscount\<close> overflows: a full percentage of a large subtotal is no discount.\<close>

lemma percent_discount_overflows:
  "compute_discount (sample_coupon\<lparr>cpn_percent_bps := Some 10000, cpn_max_discount := None\<rparr>) (10 ^ 15) = 0"
  by code_simp

lemma redemption_key_taken_for_order_key:
  "is_duplicate_redemption (UniqueViolation ''coupon_redemptions_pkey'')"
  by code_simp

end
