(* ===== verification/Order_Store.thy ===== *)
theory Order_Store
  imports Transport
begin

text \<open>
  Order service, data and repositories: internal/domain/order.go, the tables of
  infra/db/migrations/order with their constraints, the statements of internal/adapter/postgres
  and of internal/cancellation/repository.go, and the ports to Stripe, to the coupon and loyalty
  services and to the lookups (internal/port). \<open>VARCHAR\<close> length limits are not modelled, and a
  shipping address is the text of a JSON document that Postgres accepts.

  The state holds, next to the tables, everything the service talks to: \<open>remote\<close> is the state of
  the other systems, of a type that the ports fix, and \<open>stripe_calls\<close> lists the payment operations
  that Stripe has acknowledged. No transaction body makes such a call, so that a rollback restores
  tables only.
\<close>

subsection \<open>Domain types\<close>

datatype order_status =
  StPending | StPaid | StProcessing | StShipped | StDelivered | StCompleted | StCancelled

fun order_status_text :: "order_status \<Rightarrow> string" where
  "order_status_text StPending = ''pending''"
| "order_status_text StPaid = ''paid''"
| "order_status_text StProcessing = ''processing''"
| "order_status_text StShipped = ''shipped''"
| "order_status_text StDelivered = ''delivered''"
| "order_status_text StCompleted = ''completed''"
| "order_status_text StCancelled = ''cancelled''"

datatype payout_status = PayoutPending | PayoutCompleted | PayoutFailed | PayoutReversed

record order_row =
  ord_id :: uuid
  ord_seller :: uuid
  ord_seller_name :: string
  ord_buyer :: string
  ord_status :: order_status
  ord_subtotal :: int
  ord_shipping :: int
  ord_commission :: int
  ord_total :: int
  ord_currency :: string
  ord_address :: string
  ord_intent :: "string option"
  ord_paid_at :: "instant option"
  ord_cancelled_at :: "instant option"
  ord_cancel_reason :: "string option"
  ord_created_at :: instant
  ord_updated_at :: instant
  ord_coupon_discount :: int
  ord_point_discount :: int
  ord_coupon_id :: "uuid option"
  ord_coupon_hold :: "uuid option"
  ord_point_hold :: "uuid option"
  ord_points_earned :: int
  ord_published_at :: "instant option"
  ord_claim_at :: "instant option"

record order_line =
  oln_id :: uuid
  oln_order :: uuid
  oln_sku :: uuid
  oln_product :: uuid
  oln_name :: string
  oln_code :: string
  oln_quantity :: int
  oln_price :: int
  oln_total :: int
  oln_created_at :: instant

record payout_row =
  pay_id :: uuid
  pay_seller :: uuid
  pay_order :: uuid
  pay_amount :: int
  pay_currency :: string
  pay_transfer :: "string option"
  pay_reversal :: "string option"
  pay_status :: payout_status
  pay_created_at :: instant
  pay_completed_at :: "instant option"
  pay_reversed_at :: "instant option"

record commission_rule =
  cru_id :: uuid
  cru_seller :: "uuid option"
  cru_category :: "uuid option"
  cru_rate :: int
  cru_priority :: int
  cru_from :: instant
  cru_until :: "instant option"
  cru_created_at :: instant

datatype cancel_status = CrPending | CrApproved | CrRejected | CrFailed

fun cancel_status_text :: "cancel_status \<Rightarrow> string" where
  "cancel_status_text CrPending = ''pending''"
| "cancel_status_text CrApproved = ''approved''"
| "cancel_status_text CrRejected = ''rejected''"
| "cancel_status_text CrFailed = ''failed''"

record cancel_request =
  cnr_id :: uuid
  cnr_order :: uuid
  cnr_by :: string
  cnr_reason :: string
  cnr_status :: cancel_status
  cnr_comment :: "string option"
  cnr_processed_by :: "uuid option"
  cnr_processed_at :: "instant option"
  cnr_refund :: "string option"
  cnr_failure :: "string option"
  cnr_created_at :: instant
  cnr_updated_at :: instant

definition order_can_be_cancelled :: "order_status \<Rightarrow> bool" where
  "order_can_be_cancelled st = (case st of
     StPending \<Rightarrow> True | StPaid \<Rightarrow> True | StProcessing \<Rightarrow> True | _ \<Rightarrow> False)"

definition cancel_is_terminal :: "cancel_status \<Rightarrow> bool" where
  "cancel_is_terminal st = (case st of
     CrApproved \<Rightarrow> True | CrRejected \<Rightarrow> True | CrFailed \<Rightarrow> True | _ \<Rightarrow> False)"

text \<open>
  Sentinels of the domain, port and cancellation packages. \<open>ErrOrderRow\<close> and \<open>ErrPayoutRow\<close> stand
  for the unnamed "order not found" and "payout not found" of the repositories, \<open>ErrRemote\<close> for an
  error of another system with its text.
\<close>

datatype order_err =
  ErrOrderNotFound | ErrEmptyOrder | ErrBuyerRequired | ErrInvalidQuantity
| ErrInvalidOrderStatus string | ErrOrderNotPending
| ErrCartCouponNotFound | ErrCartCouponExpired | ErrCartCouponRevoked | ErrCartCouponNotStarted
| ErrCartCouponUsageLimit | ErrCartCouponPerUserLimit | ErrCartCouponMinOrder | ErrCartCouponCurrency
| ErrCartInsufficientPoints | ErrFeatureDisabled
| ErrPendingRequestExists | ErrAlreadyProcessed | ErrOrderStatusChanged
| ErrOrderRow | ErrPayoutRow | ErrRemote string

subsection \<open>The outside\<close>

datatype stripe_call =
  StripeIntent int string "string option" string
| StripeTransfer int string string string string
| StripeRefund string int string string
| StripeReversal string int string string

record 'x order_state =
  orders :: "order_row list"
  order_lines :: "order_line list"
  payouts :: "payout_row list"
  rules :: "commission_rule list"
  cancel_requests :: "cancel_request list"
  remote :: 'x
  stripe_calls :: "stripe_call list"

type_synonym ('x, 'a) otx = "('x order_state, order_err, 'a) tx"

type_synonym ('x, 'a) call = "'x \<Rightarrow> (order_err error + 'a) \<times> 'x"

text \<open>Stripe answers with the text of an error or with an id.\<close>

type_synonym ('x, 'a) stripe_op = "'x \<Rightarrow> (string + 'a) \<times> 'x"

definition external :: "('x, 'a) call \<Rightarrow> ('x, 'a) otx" where
  "external f w =
     (case f (remote (store w)) of (r, x) \<Rightarrow> (r, w\<lparr>store := (store w)\<lparr>remote := x\<rparr>\<rparr>))"

definition stripe_op :: "('x, 'a) stripe_op \<Rightarrow> ('a \<Rightarrow> stripe_call) \<Rightarrow> ('x, string + 'a) otx" where
  "stripe_op f entry w =
     (case f (remote (store w)) of
        (Inl text, x) \<Rightarrow> (Inr (Inl text), w\<lparr>store := (store w)\<lparr>remote := x\<rparr>\<rparr>)
      | (Inr a, x) \<Rightarrow> (Inr (Inr a),
          w\<lparr>store := (store w)\<lparr>remote := x, stripe_calls := stripe_calls (store w) @ [entry a]\<rparr>\<rparr>))"

record coupon_grant =
  cgr_hold :: uuid
  cgr_coupon :: uuid
  cgr_seller :: "uuid option"
  cgr_discount :: int

record point_grant =
  pgr_hold :: uuid
  pgr_amount :: int

record 'x coupon_port =
  coupon_reserve :: "string \<Rightarrow> string \<Rightarrow> (uuid \<times> int) list \<Rightarrow> string \<Rightarrow> ('x, coupon_grant) call"
  coupon_commit :: "uuid \<Rightarrow> uuid \<Rightarrow> string \<Rightarrow> ('x, unit) call"
  coupon_release :: "uuid \<Rightarrow> string \<Rightarrow> ('x, unit) call"

text \<open>\<open>Commit\<close> of the point port yields the points earned.\<close>

record 'x point_port =
  point_reserve :: "string \<Rightarrow> int \<Rightarrow> ('x, point_grant) call"
  point_commit :: "uuid option \<Rightarrow> string \<Rightarrow> string \<Rightarrow> string \<Rightarrow> int \<Rightarrow> string \<Rightarrow> ('x, int) call"
  point_release :: "uuid \<Rightarrow> string \<Rightarrow> ('x, unit) call"

record 'x order_cfg =
  default_shipping :: int
  coupons_on :: bool
  loyalty_on :: bool
  coupon_reserver :: "'x coupon_port option"
  point_reserver :: "'x point_port option"
  has_free_shipping :: "string \<Rightarrow> ('x, bool) call"
  seller_names :: "uuid list \<Rightarrow> ('x, uuid \<Rightarrow> string option) call"
  sku_products :: "uuid list \<Rightarrow> ('x, uuid \<Rightarrow> uuid option) call"
  publish_err :: "(event \<Rightarrow> ('x, unit) call) option"
  stripe_destination_intent :: "int \<Rightarrow> string \<Rightarrow> string \<Rightarrow> ('x, string \<times> string) stripe_op"
  stripe_platform_intent :: "int \<Rightarrow> string \<Rightarrow> ('x, string \<times> string) stripe_op"
  stripe_transfer :: "int \<Rightarrow> string \<Rightarrow> string \<Rightarrow> string \<Rightarrow> ('x, string) stripe_op"
  stripe_refund :: "string \<Rightarrow> int \<Rightarrow> string \<Rightarrow> ('x, string) stripe_op"
  stripe_reverse :: "string \<Rightarrow> int \<Rightarrow> string \<Rightarrow> ('x, string) stripe_op"
  order_uuid_parse :: "string \<Rightarrow> uuid option"

definition create_destination_intent :: "'x order_cfg \<Rightarrow> int \<Rightarrow> string \<Rightarrow> string \<Rightarrow> ('x, string + string \<times> string) otx" where
  "create_destination_intent cfg amt cur account =
     stripe_op (stripe_destination_intent cfg amt cur account)
       (\<lambda>(pi, secret). StripeIntent amt cur (Some account) pi)"

definition create_platform_intent :: "'x order_cfg \<Rightarrow> int \<Rightarrow> string \<Rightarrow> ('x, string + string \<times> string) otx" where
  "create_platform_intent cfg amt cur =
     stripe_op (stripe_platform_intent cfg amt cur) (\<lambda>(pi, secret). StripeIntent amt cur None pi)"

definition create_transfer :: "'x order_cfg \<Rightarrow> int \<Rightarrow> string \<Rightarrow> string \<Rightarrow> string \<Rightarrow> ('x, string + string) otx" where
  "create_transfer cfg amt cur account pi =
     stripe_op (stripe_transfer cfg amt cur account pi) (\<lambda>tr. StripeTransfer amt cur account pi tr)"

definition create_refund :: "'x order_cfg \<Rightarrow> string \<Rightarrow> int \<Rightarrow> string \<Rightarrow> ('x, string + string) otx" where
  "create_refund cfg pi amt key = stripe_op (stripe_refund cfg pi amt key) (\<lambda>r. StripeRefund pi amt key r)"

definition reverse_transfer :: "'x order_cfg \<Rightarrow> string \<Rightarrow> int \<Rightarrow> string \<Rightarrow> ('x, string + string) otx" where
  "reverse_transfer cfg tr amt key =
     stripe_op (stripe_reverse cfg tr amt key) (\<lambda>r. StripeReversal tr amt key r)"

text \<open>\<open>PublishProtoEventWithErr\<close>; \<open>PublishProtoEvent\<close> drops the error.\<close>

definition publish_or_fail :: "'x order_cfg \<Rightarrow> event \<Rightarrow> ('x, unit) otx" where
  "publish_or_fail cfg e = (case publish_err cfg of None \<Rightarrow> tx_return ()
     | Some f \<Rightarrow> tx_bind (external (f e)) (\<lambda>_. publish e))"

definition publish_proto :: "'x order_cfg \<Rightarrow> event \<Rightarrow> ('x, unit) otx" where
  "publish_proto cfg e = tx_catch (publish_or_fail cfg e) (\<lambda>_. tx_return ())"

end
