(* ===== verification/Order_Repo.thy ===== *)
theory Order_Repo
  imports Order_Store
begin

text \<open>
  Order service, repositories: the statements of internal/adapter/postgres and of
  internal/cancellation/repository.go, one definition per method. A method that queries the pool
  directly runs in a transaction of its own, which is what Postgres does with a single statement.
\<close>

subsection \<open>OrderRepository\<close>

definition insert_order_stmt ::
  "order_row \<Rightarrow> instant \<Rightarrow> 'x order_state \<Rightarrow> pg_error + (order_row \<times> 'x order_state)" where
  "insert_order_stmt o1 t s =
     (if ord_id o1 \<in> set (map ord_id (orders s)) then Inl (UniqueViolation ''orders_pkey'')
      else let o2 = o1\<lparr>ord_created_at := t, ord_updated_at := t, ord_paid_at := None,
                      ord_cancelled_at := None, ord_cancel_reason := None,
                      ord_published_at := None, ord_claim_at := None\<rparr>
           in Inr (o2, s\<lparr>orders := orders s @ [o2]\<rparr>))"

definition insert_line_stmt ::
  "order_line \<Rightarrow> instant \<Rightarrow> 'x order_state \<Rightarrow> pg_error + (order_line \<times> 'x order_state)" where
  "insert_line_stmt l t s =
     (if \<not> in_i32 (oln_quantity l) then Inl NumericOutOfRange
      else if oln_id l \<in> set (map oln_id (order_lines s)) then Inl (UniqueViolation ''order_lines_pkey'')
      else if oln_order l \<notin> set (map ord_id (orders s)) then
        Inl (ForeignKeyViolation ''order_lines_order_id_fkey'')
      else let l = l\<lparr>oln_created_at := t\<rparr> in Inr (l, s\<lparr>order_lines := order_lines s @ [l]\<rparr>))"

definition insert_payout_stmt ::
  "payout_row \<Rightarrow> instant \<Rightarrow> 'x order_state \<Rightarrow> pg_error + (payout_row \<times> 'x order_state)" where
  "insert_payout_stmt p t s =
     (if pay_id p \<in> set (map pay_id (payouts s)) then Inl (UniqueViolation ''payouts_pkey'')
      else if pay_order p \<notin> set (map ord_id (orders s)) then
        Inl (ForeignKeyViolation ''payouts_order_id_fkey'')
      else let p = p\<lparr>pay_created_at := t, pay_reversal := None, pay_completed_at := None, pay_reversed_at := None\<rparr>
           in Inr (p, s\<lparr>payouts := payouts s @ [p]\<rparr>))"

definition insert_line :: "uuid \<Rightarrow> order_line \<Rightarrow> ('x, order_line) otx" where
  "insert_line i l = tx_bind new_uuid (\<lambda>j. sql (insert_line_stmt (l\<lparr>oln_id := j, oln_order := i\<rparr>)))"

definition insert_order_tx :: "order_row \<Rightarrow> order_line list \<Rightarrow> ('x, order_row \<times> order_line list) otx" where
  "insert_order_tx o1 ls =
     tx_bind new_uuid (\<lambda>i.
     tx_bind (sql (insert_order_stmt (o1\<lparr>ord_id := i\<rparr>))) (\<lambda>o2.
     tx_bind (tx_for ls (\<lambda>l acc. tx_bind (insert_line i l) (\<lambda>l. tx_return (acc @ [l]))) []) (\<lambda>ls.
     tx_return (o2, ls))))"

definition create_order_rows :: "order_row \<Rightarrow> order_line list \<Rightarrow> ('x, order_row \<times> order_line list) otx" where
  "create_order_rows o1 ls = run_tx (insert_order_tx o1 ls)"

type_synonym checkout_item = "order_row \<times> order_line list \<times> payout_row"

definition insert_checkout_item :: "checkout_item \<Rightarrow> ('x, checkout_item) otx" where
  "insert_checkout_item it = (case it of (o1, ls, p) \<Rightarrow>
     tx_bind (insert_order_tx o1 ls) (\<lambda>(o2, ls).
     tx_bind new_uuid (\<lambda>i.
     tx_bind (sql (insert_payout_stmt (p\<lparr>pay_id := i, pay_order := ord_id o2, pay_status := PayoutPending\<rparr>))) (\<lambda>p.
     tx_return (o2, ls, p)))))"

definition create_checkout_batch :: "checkout_item list \<Rightarrow> ('x, checkout_item list) otx" where
  "create_checkout_batch items =
     run_tx (tx_for items (\<lambda>it acc. tx_bind (insert_checkout_item it) (\<lambda>it. tx_return (acc @ [it]))) [])"

text \<open>The column list of every read of an order leaves \<open>paid_event_claim_at\<close> out.\<close>

definition read_order :: "order_row \<Rightarrow> order_row" where
  "read_order o1 = o1\<lparr>ord_claim_at := None\<rparr>"

definition order_by_id :: "uuid \<Rightarrow> ('x, (order_row \<times> order_line list) option) otx" where
  "order_by_id i = run_tx (
     tx_bind (query (\<lambda>t s. find (\<lambda>x. ord_id x = i) (orders s))) (\<lambda>found.
       case found of
         None \<Rightarrow> tx_return None
       | Some x \<Rightarrow>
           tx_bind (query (\<lambda>t s. sort_key oln_created_at (filter (\<lambda>l. oln_order l = i) (order_lines s))))
             (\<lambda>ls. tx_return (Some (read_order x, ls)))))"

definition purchased_statuses :: "order_status list" where
  "purchased_statuses = [StPaid, StProcessing, StShipped, StDelivered, StCompleted]"

definition has_purchased_sku :: "string \<Rightarrow> uuid \<Rightarrow> uuid \<Rightarrow> ('x, (uuid \<times> string \<times> string) option) otx" where
  "has_purchased_sku buyer seller sku = run_tx (query (\<lambda>t s.
     case [(x, l). x \<leftarrow> sort_key ord_created_at (orders s),
                   ord_buyer x = buyer \<and> ord_seller x = seller \<and> ord_status x \<in> set purchased_statuses,
                   l \<leftarrow> order_lines s, oln_order l = ord_id x \<and> oln_sku l = sku] of
       [] \<Rightarrow> None
     | (x, l) # _ \<Rightarrow> Some (ord_id x, oln_name l, oln_code l)))"

definition page_of :: "int \<Rightarrow> int \<Rightarrow> 'r list \<Rightarrow> 'r list" where
  "page_of lim off rows = take (nat lim) (drop (nat off) rows)"

definition list_order_rows :: "(order_row \<Rightarrow> bool) \<Rightarrow> int \<Rightarrow> int \<Rightarrow> ('x, order_row list \<times> nat) otx" where
  "list_order_rows p lim off = run_tx (
     tx_bind (query (\<lambda>t s. length (filter p (orders s)))) (\<lambda>n.
     tx_bind (query (\<lambda>t s. map read_order
       (page_of lim off (sort_key (\<lambda>x. - ord_created_at x) (filter p (orders s)))))) (\<lambda>rows.
     tx_return (rows, n))))"

definition orders_of_buyer :: "string \<Rightarrow> int \<Rightarrow> int \<Rightarrow> ('x, order_row list \<times> nat) otx" where
  "orders_of_buyer buyer = list_order_rows (\<lambda>x. ord_buyer x = buyer)"

definition orders_of_seller :: "uuid \<Rightarrow> string \<Rightarrow> int \<Rightarrow> int \<Rightarrow> ('x, order_row list \<times> nat) otx" where
  "orders_of_seller seller st = list_order_rows
     (\<lambda>x. ord_seller x = seller \<and> (st \<noteq> '''' \<longrightarrow> order_status_text (ord_status x) = st))"

text \<open>\<open>UPDATE orders SET g WHERE q\<close> and the number of rows.\<close>

definition update_orders ::
  "(instant \<Rightarrow> order_row \<Rightarrow> bool) \<Rightarrow> (instant \<Rightarrow> order_row \<Rightarrow> order_row) \<Rightarrow> ('x, nat) otx" where
  "update_orders q g = sql (\<lambda>t s.
     Inr (length (filter (q t) (orders s)), s\<lparr>orders := update_where (q t) (g t) (orders s)\<rparr>))"

definition set_order_status :: "uuid \<Rightarrow> order_status \<Rightarrow> ('x, unit) otx" where
  "set_order_status i st = run_tx (
     tx_bind (update_orders (\<lambda>t x. ord_id x = i) (\<lambda>t x. x\<lparr>ord_status := st, ord_updated_at := t\<rparr>)) (\<lambda>n.
     if n = 0 then tx_throw (Sentinel ErrOrderRow) else tx_return ()))"

definition paid_order :: "instant \<Rightarrow> string \<Rightarrow> instant \<Rightarrow> order_row \<Rightarrow> order_row" where
  "paid_order paid_at pi t x =
     x\<lparr>ord_status := StPaid, ord_paid_at := Some paid_at, ord_intent := Some pi, ord_updated_at := t\<rparr>"

definition set_paid :: "uuid \<Rightarrow> instant \<Rightarrow> string \<Rightarrow> ('x, unit) otx" where
  "set_paid i paid_at pi = run_tx (
     tx_bind (update_orders (\<lambda>t x. ord_id x = i \<and> ord_status x = StPending) (paid_order paid_at pi)) (\<lambda>n.
     if n = 0 then
       tx_bind (query (\<lambda>t s. list_ex (\<lambda>x. ord_id x = i) (orders s))) (\<lambda>found.
         tx_throw (Sentinel (if found then ErrOrderNotPending else ErrOrderRow)))
     else tx_return ()))"

definition order_by_intent :: "string \<Rightarrow> ('x, order_row option) otx" where
  "order_by_intent pi =
     run_tx (query (\<lambda>t s. map_option read_order (find (\<lambda>x. ord_intent x = Some pi) (orders s))))"

definition orders_by_intent :: "string \<Rightarrow> ('x, order_row list) otx" where
  "orders_by_intent pi = run_tx (query (\<lambda>t s.
     map read_order (sort_key ord_created_at (filter (\<lambda>x. ord_intent x = Some pi) (orders s)))))"

definition set_order_intent :: "uuid \<Rightarrow> string \<Rightarrow> ('x, unit) otx" where
  "set_order_intent i pi = run_tx (
     tx_bind (update_orders (\<lambda>t x. ord_id x = i) (\<lambda>t x. x\<lparr>ord_intent := Some pi, ord_updated_at := t\<rparr>)) (\<lambda>n.
     if n = 0 then tx_throw (Sentinel ErrOrderRow) else tx_return ()))"

definition mark_published :: "uuid \<Rightarrow> ('x, bool) otx" where
  "mark_published i = run_tx (
     tx_bind (update_orders (\<lambda>t x. ord_id x = i \<and> ord_published_at x = None)
                (\<lambda>t x. x\<lparr>ord_published_at := Some t, ord_updated_at := t\<rparr>)) (\<lambda>n. tx_return (n > 0)))"

text \<open>
  One statement: the update in the CTE, and the select, which sees the row as it was before. The
  claim is free when there is none or when it is older than \<open>ttl\<close>, in whole seconds.
\<close>

definition claim_free :: "int \<Rightarrow> instant \<Rightarrow> order_row \<Rightarrow> bool" where
  "claim_free ttl t x \<longleftrightarrow> ord_published_at x = None \<and>
     (case ord_claim_at x of None \<Rightarrow> True | Some c \<Rightarrow> c < t - ttl sdiv 10 ^ 9 * 10 ^ 9)"

definition claim_publish :: "uuid \<Rightarrow> int \<Rightarrow> ('x, bool \<times> bool) otx" where
  "claim_publish i ttl = run_tx (sql (\<lambda>t s.
     let hit = (\<lambda>x. ord_id x = i \<and> claim_free ttl t x) in
     Inr ((list_ex hit (orders s),
           case find (\<lambda>x. ord_id x = i) (orders s) of None \<Rightarrow> False | Some x \<Rightarrow> ord_published_at x \<noteq> None),
          s\<lparr>orders := update_where hit (\<lambda>x. x\<lparr>ord_claim_at := Some t, ord_updated_at := t\<rparr>) (orders s)\<rparr>)))"

definition set_points_earned :: "uuid \<Rightarrow> int \<Rightarrow> ('x, unit) otx" where
  "set_points_earned i n = run_tx (
     tx_bind (update_orders (\<lambda>t x. ord_id x = i) (\<lambda>t x. x\<lparr>ord_points_earned := n, ord_updated_at := t\<rparr>))
       (\<lambda>_. tx_return ()))"

subsection \<open>PayoutRepository\<close>

definition create_payout :: "payout_row \<Rightarrow> ('x, payout_row) otx" where
  "create_payout p = tx_bind new_uuid (\<lambda>i. run_tx (sql (insert_payout_stmt (p\<lparr>pay_id := i\<rparr>))))"

definition payout_of_order :: "uuid \<Rightarrow> ('x, payout_row option) otx" where
  "payout_of_order i = run_tx (query (\<lambda>t s. find (\<lambda>p. pay_order p = i) (payouts s)))"

definition payouts_of_seller :: "uuid \<Rightarrow> int \<Rightarrow> int \<Rightarrow> ('x, payout_row list \<times> nat) otx" where
  "payouts_of_seller seller lim off = run_tx (
     tx_bind (query (\<lambda>t s. length (filter (\<lambda>p. pay_seller p = seller) (payouts s)))) (\<lambda>n.
     tx_bind (query (\<lambda>t s. page_of lim off
       (sort_key (\<lambda>p. - pay_created_at p) (filter (\<lambda>p. pay_seller p = seller) (payouts s))))) (\<lambda>rows.
     tx_return (rows, n))))"

definition payouts_of_order :: "uuid \<Rightarrow> ('x, payout_row list) otx" where
  "payouts_of_order i = run_tx (query (\<lambda>t s. sort_key pay_created_at (filter (\<lambda>p. pay_order p = i) (payouts s))))"

definition settle_payout :: "payout_status \<Rightarrow> string option \<Rightarrow> instant \<Rightarrow> payout_row \<Rightarrow> payout_row" where
  "settle_payout st tr t p = p\<lparr>pay_status := st,
     pay_transfer := (case tr of None \<Rightarrow> pay_transfer p | Some x \<Rightarrow> Some x),
     pay_completed_at := (if st = PayoutCompleted then Some t else pay_completed_at p)\<rparr>"

definition update_payouts ::
  "(payout_row \<Rightarrow> bool) \<Rightarrow> (instant \<Rightarrow> payout_row \<Rightarrow> payout_row) \<Rightarrow> ('x, nat) otx" where
  "update_payouts q g = sql (\<lambda>t s.
     Inr (length (filter q (payouts s)), s\<lparr>payouts := update_where q (g t) (payouts s)\<rparr>))"

definition set_payout_status :: "uuid \<Rightarrow> payout_status \<Rightarrow> string option \<Rightarrow> ('x, unit) otx" where
  "set_payout_status i st tr = run_tx (
     tx_bind (update_payouts (\<lambda>p. pay_id p = i) (settle_payout st tr)) (\<lambda>n.
     if n = 0 then tx_throw (Sentinel ErrPayoutRow) else tx_return ()))"

subsection \<open>CommissionRepository\<close>

text \<open>\<open>category_id = $2\<close> is never true when \<open>$2\<close> is NULL.\<close>

definition rule_applies :: "uuid \<Rightarrow> uuid option \<Rightarrow> instant \<Rightarrow> commission_rule \<Rightarrow> bool" where
  "rule_applies seller cat t r \<longleftrightarrow>
     (cru_seller r = Some seller \<or> cru_seller r = None)
     \<and> ((case cat of None \<Rightarrow> False | Some c \<Rightarrow> cru_category r = Some c) \<or> cru_category r = None)
     \<and> cru_from r \<le> t \<and> (case cru_until r of None \<Rightarrow> True | Some u \<Rightarrow> u > t)"

definition applicable_rule :: "uuid \<Rightarrow> uuid option \<Rightarrow> ('x, commission_rule option) otx" where
  "applicable_rule seller cat = run_tx (query (\<lambda>t s.
     case sort_key (\<lambda>r. - cru_priority r) (filter (rule_applies seller cat t) (rules s)) of
       [] \<Rightarrow> None | r # _ \<Rightarrow> Some r))"

definition list_rules :: "int \<Rightarrow> int \<Rightarrow> ('x, commission_rule list \<times> nat) otx" where
  "list_rules lim off = run_tx (
     tx_bind (query (\<lambda>t s. length (rules s))) (\<lambda>n.
     tx_bind (query (\<lambda>t s. page_of lim off
       (sort_key (\<lambda>r. - cru_priority r) (sort_key (\<lambda>r. - cru_created_at r) (rules s))))) (\<lambda>rows.
     tx_return (rows, n))))"

definition create_rule :: "commission_rule \<Rightarrow> ('x, commission_rule) otx" where
  "create_rule r = tx_bind new_uuid (\<lambda>i. run_tx (sql (\<lambda>t s.
     let r = r\<lparr>cru_id := i, cru_created_at := t\<rparr> in
     if \<not> (in_i32 (cru_rate r) \<and> in_i32 (cru_priority r)) then Inl NumericOutOfRange
     else if i \<in> set (map cru_id (rules s)) then Inl (UniqueViolation ''commission_rules_pkey'')
     else Inr (r, s\<lparr>rules := rules s @ [r]\<rparr>))))"

subsection \<open>Cancellation requests\<close>

definition insert_request_stmt ::
  "cancel_request \<Rightarrow> instant \<Rightarrow> 'x order_state \<Rightarrow> pg_error + (cancel_request \<times> 'x order_state)" where
  "insert_request_stmt r t s =
     (if cnr_id r \<in> set (map cnr_id (cancel_requests s)) then
        Inl (UniqueViolation ''order_cancellation_requests_pkey'')
      else if list_ex (\<lambda>x. cnr_order x = cnr_order r \<and> cnr_status x = CrPending) (cancel_requests s) then
        Inl (UniqueViolation ''ux_cancellation_pending_per_order'')
      else if cnr_order r \<notin> set (map ord_id (orders s)) then
        Inl (ForeignKeyViolation ''order_cancellation_requests_order_id_fkey'')
      else let r = r\<lparr>cnr_created_at := t, cnr_updated_at := t\<rparr>
           in Inr (r, s\<lparr>cancel_requests := cancel_requests s @ [r]\<rparr>))"

definition new_request :: "uuid \<Rightarrow> string \<Rightarrow> string \<Rightarrow> cancel_request" where
  "new_request order by reason = \<lparr>cnr_id = nil_uuid, cnr_order = order, cnr_by = by, cnr_reason = reason,
     cnr_status = CrPending, cnr_comment = None, cnr_processed_by = None, cnr_processed_at = None,
     cnr_refund = None, cnr_failure = None, cnr_created_at = 0, cnr_updated_at = 0\<rparr>"

definition create_request :: "cancel_request \<Rightarrow> ('x, cancel_request) otx" where
  "create_request r = tx_bind new_uuid (\<lambda>i. run_tx (
     tx_map_error (\<lambda>e. if e = Pg (UniqueViolation ''ux_cancellation_pending_per_order'')
                       then Sentinel ErrPendingRequestExists else e)
       (sql (insert_request_stmt (r\<lparr>cnr_id := i, cnr_status := CrPending\<rparr>)))))"

definition request_by_id :: "uuid \<Rightarrow> ('x, cancel_request option) otx" where
  "request_by_id i = run_tx (query (\<lambda>t s. find (\<lambda>r. cnr_id r = i) (cancel_requests s)))"

definition latest_request :: "uuid \<Rightarrow> ('x, cancel_request option) otx" where
  "latest_request i = run_tx (query (\<lambda>t s.
     case sort_key (\<lambda>r. - cnr_created_at r) (filter (\<lambda>r. cnr_order r = i) (cancel_requests s)) of
       [] \<Rightarrow> None | r # _ \<Rightarrow> Some r))"

definition request_of_seller :: "'x order_state \<Rightarrow> uuid \<Rightarrow> string \<Rightarrow> cancel_request \<Rightarrow> bool" where
  "request_of_seller s seller st r \<longleftrightarrow> cancel_status_text (cnr_status r) = st \<and>
     list_ex (\<lambda>x. ord_id x = cnr_order r \<and> ord_seller x = seller) (orders s)"

definition requests_by_status :: "uuid \<Rightarrow> string \<Rightarrow> int \<Rightarrow> int \<Rightarrow> ('x, cancel_request list \<times> nat) otx" where
  "requests_by_status seller st lim off = run_tx (
     tx_bind (query (\<lambda>t s. length (filter (request_of_seller s seller st) (cancel_requests s)))) (\<lambda>n.
     tx_bind (query (\<lambda>t s. page_of lim off
       (sort_key (\<lambda>r. - cnr_created_at r) (filter (request_of_seller s seller st) (cancel_requests s))))) (\<lambda>rows.
     tx_return (rows, n))))"

definition requests_by_buyer :: "string \<Rightarrow> int \<Rightarrow> int \<Rightarrow> ('x, cancel_request list \<times> nat) otx" where
  "requests_by_buyer buyer lim off = run_tx (
     tx_bind (query (\<lambda>t s. length (filter (\<lambda>r. cnr_by r = buyer) (cancel_requests s)))) (\<lambda>n.
     tx_bind (query (\<lambda>t s. page_of lim off
       (sort_key (\<lambda>r. - cnr_created_at r) (filter (\<lambda>r. cnr_by r = buyer) (cancel_requests s))))) (\<lambda>rows.
     tx_return (rows, n))))"

text \<open>
  \<open>UPDATE \<dots> SET g WHERE id = i AND status = 'pending' RETURNING\<close>: the updated row, if any.
\<close>

definition close_request ::
  "uuid \<Rightarrow> (instant \<Rightarrow> cancel_request \<Rightarrow> cancel_request) \<Rightarrow> ('x, cancel_request option) otx" where
  "close_request i g = sql (\<lambda>t s.
     let hit = (\<lambda>r. cnr_id r = i \<and> cnr_status r = CrPending) in
     Inr (map_option (g t) (find hit (cancel_requests s)),
          s\<lparr>cancel_requests := update_where hit (g t) (cancel_requests s)\<rparr>))"

definition reject_request :: "uuid \<Rightarrow> uuid \<Rightarrow> string \<Rightarrow> ('x, cancel_request) otx" where
  "reject_request i seller comment =
     tx_bind (run_tx (close_request i (\<lambda>t r. r\<lparr>cnr_status := CrRejected, cnr_comment := Some comment,
        cnr_processed_by := Some seller, cnr_processed_at := Some t, cnr_updated_at := t\<rparr>))) (\<lambda>found.
     case found of None \<Rightarrow> tx_throw (Sentinel ErrAlreadyProcessed) | Some r \<Rightarrow> tx_return r)"

definition mark_request_failed :: "uuid \<Rightarrow> string \<Rightarrow> ('x, unit) otx" where
  "mark_request_failed i text = run_tx (
     tx_bind (close_request i (\<lambda>t r. r\<lparr>cnr_status := CrFailed, cnr_failure := Some text, cnr_updated_at := t\<rparr>)) (\<lambda>found.
     case found of None \<Rightarrow> tx_throw (Sentinel ErrAlreadyProcessed) | Some r \<Rightarrow> tx_return ()))"

record approval =
  apv_request :: uuid
  apv_order :: uuid
  apv_seller :: uuid
  apv_comment :: string
  apv_reason :: string
  apv_refund :: string
  apv_at :: instant
  apv_reversed :: "(uuid \<times> string) list"
  apv_cancellable :: "order_status list"

definition approve_row :: "approval \<Rightarrow> instant \<Rightarrow> cancel_request \<Rightarrow> cancel_request" where
  "approve_row a t r = r\<lparr>cnr_status := CrApproved,
     cnr_comment := (if apv_comment a = '''' then None else Some (apv_comment a)),
     cnr_processed_by := Some (apv_seller a), cnr_processed_at := Some (apv_at a),
     cnr_refund := Some (apv_refund a), cnr_updated_at := t\<rparr>"

definition cancel_order_row :: "approval \<Rightarrow> instant \<Rightarrow> order_row \<Rightarrow> order_row" where
  "cancel_order_row a t x = x\<lparr>ord_status := StCancelled, ord_cancelled_at := Some (apv_at a),
     ord_cancel_reason := Some (apv_reason a), ord_updated_at := t\<rparr>"

text \<open>
  The \<open>RETURNING\<close> list of the order update stops at \<open>updated_at\<close>: the discount, coupon, point and
  publication fields of the returned struct keep their zero values.
\<close>

definition returned_order :: "order_row \<Rightarrow> order_row" where
  "returned_order x = x\<lparr>ord_coupon_discount := 0, ord_point_discount := 0, ord_coupon_id := None,
     ord_coupon_hold := None, ord_point_hold := None, ord_points_earned := 0,
     ord_published_at := None, ord_claim_at := None\<rparr>"

definition cancel_order :: "approval \<Rightarrow> ('x, order_row option) otx" where
  "cancel_order a = sql (\<lambda>t s.
     let hit = (\<lambda>x. ord_id x = apv_order a \<and> ord_status x \<in> set (apv_cancellable a)) in
     Inr (map_option (\<lambda>x. returned_order (cancel_order_row a t x)) (find hit (orders s)),
          s\<lparr>orders := update_where hit (cancel_order_row a t) (orders s)\<rparr>))"

definition reverse_payout :: "approval \<Rightarrow> uuid \<times> string \<Rightarrow> ('x, unit) otx" where
  "reverse_payout a rp =
     tx_bind (update_payouts (\<lambda>p. pay_id p = fst rp)
       (\<lambda>t p. p\<lparr>pay_status := PayoutReversed, pay_reversal := Some (snd rp), pay_reversed_at := Some (apv_at a)\<rparr>))
     (\<lambda>n. if n = 0 then tx_throw (Sentinel ErrPayoutRow) else tx_return ())"

definition approve_tx :: "approval \<Rightarrow> ('x, cancel_request \<times> order_row) otx" where
  "approve_tx a = run_tx (
     tx_bind (close_request (apv_request a) (approve_row a)) (\<lambda>found.
     case found of None \<Rightarrow> tx_throw (Sentinel ErrAlreadyProcessed) | Some r \<Rightarrow>
     tx_bind (cancel_order a) (\<lambda>found.
     case found of None \<Rightarrow> tx_throw (Sentinel ErrOrderStatusChanged) | Some x \<Rightarrow>
     tx_bind (tx_for (apv_reversed a) (\<lambda>rp _. reverse_payout a rp) ()) (\<lambda>_.
     tx_return (r, x)))))"

end
