(* ===== verification/Order_Discount.thy ===== *)
theory Order_Discount
  imports Prelude
begin

text \<open>
  How the order service splits a cart-wide discount over the orders of a checkout
  (internal/domain/discount.go). Amounts are \<open>int64\<close>: sums and products wrap around.
\<close>

subsection \<open>The two functions\<close>

definition positive_total :: "int list \<Rightarrow> int" where
  "positive_total subs = fold (\<lambda>s a. if s > 0 then i64 (a + s) else a) subs 0"

definition raw_share :: "int \<Rightarrow> int \<Rightarrow> int \<Rightarrow> int" where
  "raw_share d tot s = (if s \<le> 0 then 0 else i64 (d * s) sdiv tot)"

definition assigned_total :: "int list \<Rightarrow> int list \<Rightarrow> int" where
  "assigned_total subs out = fold (\<lambda>(s, x) a. if s \<le> 0 then a else i64 (a + x)) (zip subs out) 0"

text \<open>The walk from the end: the last bucket with a positive subtotal takes the remainder.\<close>

fun add_to_first_positive :: "int \<Rightarrow> (int \<times> int) list \<Rightarrow> (int \<times> int) list" where
  "add_to_first_positive r [] = []"
| "add_to_first_positive r ((s, x) # sxs) =
     (if s > 0 then (s, i64 (x + r)) # sxs else (s, x) # add_to_first_positive r sxs)"

definition add_to_last_positive :: "int \<Rightarrow> int list \<Rightarrow> int list \<Rightarrow> int list" where
  "add_to_last_positive r subs out = map snd (rev (add_to_first_positive r (rev (zip subs out))))"

definition cap_share :: "int \<Rightarrow> int \<Rightarrow> int" where
  "cap_share s x = (if x > s then s else x)"

definition distribute_discount :: "int \<Rightarrow> int list \<Rightarrow> int list" where
  "distribute_discount d subs =
     (if d \<le> 0 \<or> subs = [] then map (\<lambda>_. 0) subs
      else
        let tot = positive_total subs in
        if tot \<le> 0 then map (\<lambda>_. 0) subs
        else
          let out = map (raw_share d tot) subs;
              remainder = i64 (d - assigned_total subs out);
              out = (if remainder > 0 then add_to_last_positive remainder subs out else out)
          in map2 cap_share subs out)"

text \<open>
  \<open>DistributeSellerDiscount\<close>: the slots of the target seller share the discount, the others get
  zero. \<open>splice_shares\<close> puts the shares of the matching slots back at their indices.
\<close>

fun splice_shares :: "bool list \<Rightarrow> int list \<Rightarrow> int list" where
  "splice_shares [] xs = []"
| "splice_shares (False # bs) xs = 0 # splice_shares bs xs"
| "splice_shares (True # bs) [] = 0 # splice_shares bs []"
| "splice_shares (True # bs) (x # xs) = x # splice_shares bs xs"

definition distribute_seller_discount :: "int \<Rightarrow> uuid list \<Rightarrow> int list \<Rightarrow> uuid \<Rightarrow> int list" where
  "distribute_seller_discount d sellers subs target =
     (if length sellers \<noteq> length subs then map (\<lambda>_. 0) subs
      else
        let matching = map snd (filter (\<lambda>(i, s). i = target) (zip sellers subs))
        in splice_shares (map (\<lambda>i. i = target) sellers) (distribute_discount d matching))"

subsection \<open>Without overflow\<close>

definition pos_sum :: "int list \<Rightarrow> int" where
  "pos_sum subs = sum_list (map (max 0) subs)"

lemma pos_sum_simps [simp]:
  "pos_sum [] = 0" "pos_sum (s # ss) = max 0 s + pos_sum ss" "pos_sum (xs @ ys) = pos_sum xs + pos_sum ys"
  by (simp_all add: pos_sum_def)

lemma pos_sum_nonneg [simp]: "0 \<le> pos_sum subs"
  by (induction subs) auto

lemma pos_sum_member: "s \<in> set subs \<Longrightarrow> s \<le> pos_sum subs"
proof (induction subs)
  case (Cons x xs)
  show ?case
  proof (cases "s = x")
    case True
    have "0 \<le> pos_sum xs" by simp
    then have "x \<le> max 0 x + pos_sum xs" by linarith
    with True show ?thesis by simp
  next
    case False
    with Cons have "s \<le> pos_sum xs" by simp
    then show ?thesis by simp
  qed
qed simp

lemma positive_total_exact:
  assumes "in_i64 (pos_sum subs)"
  shows "positive_total subs = pos_sum subs"
proof -
  have "fold (\<lambda>s a. if s > 0 then i64 (a + s) else a) subs a = a + pos_sum subs"
    if "0 \<le> a" "in_i64 (a + pos_sum subs)" for a
    using that
  proof (induction subs arbitrary: a)
    case (Cons s ss)
    show ?case
    proof (cases "s > 0")
      case True
      have "0 \<le> pos_sum ss" by simp
      with Cons.prems True have "in_i64 (a + s)"
        by (intro in_i64_nonneg [of "a + s" "a + pos_sum (s # ss)"]) auto
      with Cons.IH [of "a + s"] Cons.prems True show ?thesis by (simp add: add.assoc)
    next
      case False
      with Cons show ?thesis by (simp add: max_absorb1)
    qed
  qed simp
  from this [of 0] assms show ?thesis by (simp add: positive_total_def)
qed

text \<open>The product of the discount with every subtotal, and hence with their sum, has to fit.\<close>

definition discount_fits :: "int \<Rightarrow> int list \<Rightarrow> bool" where
  "discount_fits d subs \<longleftrightarrow> 0 \<le> d \<and> in_i64 d \<and> in_i64 (pos_sum subs) \<and> (\<forall>s \<in> set subs. in_i64 (d * max 0 s))"

lemma raw_share_exact:
  assumes "discount_fits d subs" and "s \<in> set subs" and "0 < tot"
  shows "raw_share d tot s = d * max 0 s div tot"
proof (cases "s \<le> 0")
  case False
  with assms have "in_i64 (d * s)" by (auto simp: discount_fits_def max_def)
  moreover have "0 \<le> d * s" using False assms(1) by (simp add: discount_fits_def)
  ultimately show ?thesis using False assms(3) by (simp add: raw_share_def sdiv_pos)
qed (simp add: raw_share_def max_absorb1)

lemma floor_shares_sum:
  assumes "0 \<le> d" and "0 < (tot::int)"
  shows "sum_list (map (\<lambda>s. d * max 0 s div tot) subs) * tot \<le> d * pos_sum subs"
proof (induction subs)
  case (Cons s ss)
  have "d * max 0 s div tot * tot \<le> d * max 0 s"
    using assms(2) by (simp add: minus_mod_eq_div_mult [symmetric])
  with Cons show ?case by (simp add: algebra_simps)
qed simp

lemma assigned_total_exact:
  assumes "\<And>s x. (s, x) \<in> set (zip subs out) \<Longrightarrow> 0 \<le> x \<and> (s \<le> 0 \<longrightarrow> x = 0)"
    and "length out = length subs" and "in_i64 (sum_list out)"
  shows "assigned_total subs out = sum_list out"
proof -
  have "fold (\<lambda>(s, x) a. if s \<le> 0 then a else i64 (a + x)) (zip subs out) a = a + sum_list out"
    if "0 \<le> a" "in_i64 (a + sum_list out)" for a
    using that assms(1,2)
  proof (induction subs arbitrary: out a)
    case (Cons s ss)
    then obtain x xs where out: "out = x # xs" by (cases out) auto
    have x: "0 \<le> x" "s \<le> 0 \<longrightarrow> x = 0" using Cons.prems(3) [of s x] out by auto
    have rest: "0 \<le> y" if "y \<in> set xs" for y
    proof -
      from that Cons.prems(4) out obtain t where "(t, y) \<in> set (zip ss xs)"
        by (metis in_set_impl_in_set_zip2 length_Cons nat.inject)
      with Cons.prems(3) [of t y] out show ?thesis by simp
    qed
    then have "0 \<le> sum_list xs" by (intro sum_list_nonneg) auto
    with x Cons.prems out have fit: "in_i64 (a + x)"
      by (intro in_i64_nonneg [of "a + x" "a + sum_list out"]) auto
    have "fold (\<lambda>(s, x) a. if s \<le> 0 then a else i64 (a + x)) (zip ss xs) (a + x) = a + x + sum_list xs"
      using Cons.prems out x by (intro Cons.IH) (auto simp: add.assoc)
    with out x fit show ?case by (auto simp: add.assoc)
  qed simp
  from this [of 0] assms(3) show ?thesis by (simp add: assigned_total_def)
qed

subsection \<open>The split\<close>

text \<open>The exact share of a subtotal, rounded down, and what rounding down leaves over.\<close>

definition floor_share :: "int \<Rightarrow> int list \<Rightarrow> int \<Rightarrow> int" where
  "floor_share d subs s = d * s div pos_sum subs"

definition left_over :: "int \<Rightarrow> int list \<Rightarrow> int" where
  "left_over d subs = d - sum_list (map (floor_share d subs) subs)"

lemma pos_sum_eq: "(\<And>s. s \<in> set subs \<Longrightarrow> 0 \<le> s) \<Longrightarrow> pos_sum subs = sum_list subs"
  by (induction subs) auto

lemma floor_share_bounds:
  assumes "0 \<le> d" and "d \<le> pos_sum subs" and "0 < pos_sum subs" and "0 \<le> s"
  shows "0 \<le> floor_share d subs s" and "floor_share d subs s \<le> s"
proof -
  show "0 \<le> floor_share d subs s"
    using assms by (simp add: floor_share_def pos_imp_zdiv_nonneg_iff)
  have "d * s \<le> s * pos_sum subs"
    using assms mult_right_mono [of d "pos_sum subs" s] by (simp add: mult.commute)
  then have "d * s div pos_sum subs \<le> s * pos_sum subs div pos_sum subs"
    using assms(3) by (rule zdiv_mono1)
  then show "floor_share d subs s \<le> s" using assms(3) by (simp add: floor_share_def)
qed

lemma left_over_nonneg:
  assumes "0 \<le> d" and "0 < pos_sum subs" and "\<And>s. s \<in> set subs \<Longrightarrow> 0 \<le> s"
  shows "0 \<le> left_over d subs"
proof -
  have "map (\<lambda>s. d * max 0 s div pos_sum subs) subs = map (floor_share d subs) subs"
    using assms(3) by (auto simp: floor_share_def max_absorb2)
  with floor_shares_sum [OF assms(1,2), of subs]
  have "sum_list (map (floor_share d subs) subs) * pos_sum subs \<le> d * pos_sum subs" by simp
  then show ?thesis using assms(2) by (simp add: left_over_def)
qed

text \<open>Rounding down loses less than one unit per positive subtotal.\<close>

lemma left_over_less:
  assumes "0 \<le> d" and "0 < tot" and "\<And>s. s \<in> set ss \<Longrightarrow> 0 \<le> s"
  shows "d * sum_list ss \<le> (sum_list (map (\<lambda>s. d * s div tot) ss) + int (length (filter (\<lambda>s. 0 < s) ss))) * tot"
    and "filter (\<lambda>s. 0 < s) ss \<noteq> [] \<Longrightarrow>
      d * sum_list ss < (sum_list (map (\<lambda>s. d * s div tot) ss) + int (length (filter (\<lambda>s. 0 < s) ss))) * tot"
proof -
  have one: "d * s < (d * s div tot + 1) * tot" for s
  proof -
    have "d * s div tot * tot + d * s mod tot = d * s" and "d * s mod tot < tot"
      using assms(2) by simp_all
    then show ?thesis unfolding distrib_right by linarith
  qed
  have weak: "d * sum_list ss \<le> (sum_list (map (\<lambda>s. d * s div tot) ss) + int (length (filter (\<lambda>s. 0 < s) ss))) * tot"
    if "\<And>s. s \<in> set ss \<Longrightarrow> 0 \<le> s" for ss
    using that
  proof (induction ss)
    case (Cons s ss)
    then have "0 \<le> s" and "d * sum_list ss \<le>
        (sum_list (map (\<lambda>s. d * s div tot) ss) + int (length (filter (\<lambda>s. 0 < s) ss))) * tot" by auto
    with one [of s] show ?case by (cases "s = 0") (auto simp: algebra_simps)
  qed simp
  from weak [OF assms(3)] show "d * sum_list ss \<le> (sum_list (map (\<lambda>s. d * s div tot) ss)
      + int (length (filter (\<lambda>s. 0 < s) ss))) * tot" .
  from assms(3) show "d * sum_list ss < (sum_list (map (\<lambda>s. d * s div tot) ss)
      + int (length (filter (\<lambda>s. 0 < s) ss))) * tot" if "filter (\<lambda>s. 0 < s) ss \<noteq> []"
    using that
  proof (induction ss)
    case (Cons s ss)
    then have s: "0 \<le> s" and ss: "\<And>t. t \<in> set ss \<Longrightarrow> 0 \<le> t" by auto
    show ?case
    proof (cases "s = 0")
      case True
      with Cons show ?thesis by auto
    next
      case False
      have "d * sum_list ss \<le> (sum_list (map (\<lambda>s. d * s div tot) ss) + int (length (filter (\<lambda>s. 0 < s) ss))) * tot"
        using ss by (rule weak)
      with False s one [of s] show ?thesis by (simp add: algebra_simps)
    qed
  qed simp
qed

text \<open>Where the remainder goes.\<close>

lemma add_to_first_positive_split:
  "\<exists>(s, x) \<in> set sxs. 0 < s \<Longrightarrow>
   \<exists>pre s x post. sxs = pre @ (s, x) # post \<and> 0 < s \<and> (\<forall>(t, y) \<in> set pre. t \<le> 0)
     \<and> add_to_first_positive r sxs = pre @ (s, i64 (x + r)) # post"
proof (induction sxs)
  case (Cons p sxs)
  obtain s x where p: "p = (s, x)" by fastforce
  show ?case
  proof (cases "0 < s")
    case True
    with p show ?thesis by (intro exI [of _ "[]"] exI [of _ s] exI [of _ x] exI [of _ sxs]) auto
  next
    case False
    with Cons.prems p have "\<exists>(s, x) \<in> set sxs. 0 < s" by auto
    from Cons.IH [OF this] obtain pre t y post where ih: "sxs = pre @ (t, y) # post" "0 < t"
        "\<forall>(t, y) \<in> set pre. t \<le> 0" "add_to_first_positive r sxs = pre @ (t, i64 (y + r)) # post"
      by blast
    with False p show ?thesis
      by (intro exI [of _ "p # pre"] exI [of _ t] exI [of _ y] exI [of _ post]) auto
  qed
qed simp

lemma last_positive:
  assumes "\<exists>s \<in> set subs. 0 < (s::int)"
  obtains pre s post where "subs = pre @ s # post" and "0 < s" and "\<And>t. t \<in> set post \<Longrightarrow> t \<le> 0"
  using split_list_last_prop [OF assms] by (metis not_le)

lemma add_to_first_positive_skip:
  "\<forall>(t, y) \<in> set pre. t \<le> 0 \<Longrightarrow> 0 < s \<Longrightarrow>
   add_to_first_positive r (pre @ (s, x) # post) = pre @ (s, i64 (x + r)) # post"
  by (induction pre) auto

lemma add_to_last_positive_map:
  assumes "0 < s" and "\<And>t. t \<in> set post \<Longrightarrow> t \<le> 0"
  shows "add_to_last_positive r (pre @ s # post) (map f (pre @ s # post)) =
    map f pre @ i64 (f s + r) # map f post"
proof -
  have zip: "zip xs (map f xs) = map (\<lambda>x. (x, f x)) xs" for xs by (induction xs) auto
  have "rev (zip (pre @ s # post) (map f (pre @ s # post))) =
      rev (map (\<lambda>x. (x, f x)) post) @ (s, f s) # rev (map (\<lambda>x. (x, f x)) pre)"
    by (simp add: zip)
  moreover have "add_to_first_positive r \<dots> =
      rev (map (\<lambda>x. (x, f x)) post) @ (s, i64 (f s + r)) # rev (map (\<lambda>x. (x, f x)) pre)"
    using assms by (intro add_to_first_positive_skip) auto
  ultimately show ?thesis by (simp add: add_to_last_positive_def rev_map comp_def)
qed

text \<open>
  The shape of the split: every subtotal gets its rounded share, except that the last positive one
  gets the remainder too, up to the subtotal.
\<close>

lemma distribute_discount_shape:
  assumes fits: "discount_fits d subs" and d: "0 < d" "d \<le> sum_list subs"
    and nonneg: "\<And>s. s \<in> set subs \<Longrightarrow> 0 \<le> s"
  obtains pre s post where "subs = pre @ s # post" and "0 < s" and "\<forall>t \<in> set post. t = 0"
    and "distribute_discount d subs = map (floor_share d subs) pre
           @ min s (floor_share d subs s + left_over d subs) # map (floor_share d subs) post"
proof -
  have T: "pos_sum subs = sum_list subs" "0 < pos_sum subs"
    using pos_sum_eq [OF nonneg] d by auto
  have "\<exists>s \<in> set subs. 0 < s"
  proof (rule ccontr)
    assume "\<not> (\<exists>s \<in> set subs. 0 < s)"
    then have "sum_list subs \<le> 0" by (intro sum_list_nonpos) auto
    with d show False by simp
  qed
  then obtain pre s post where split: "subs = pre @ s # post" "0 < s" "\<And>t. t \<in> set post \<Longrightarrow> t \<le> 0"
    by (rule last_positive) blast
  have tot: "positive_total subs = pos_sum subs"
    using fits by (intro positive_total_exact) (simp add: discount_fits_def)
  have raw: "map (raw_share d (pos_sum subs)) subs = map (floor_share d subs) subs"
    using raw_share_exact [OF fits _ T(2)] nonneg by (auto simp: floor_share_def max_absorb2)
  have bounds: "0 \<le> floor_share d subs t" "floor_share d subs t \<le> t" if "t \<in> set subs" for t
    using floor_share_bounds [of d subs t] nonneg [OF that] d T by auto
  have small: "in_i64 d" using fits by (simp add: discount_fits_def)
  have left: "0 \<le> left_over d subs"
    using left_over_nonneg [of d subs] nonneg d(1) T(2) by auto
  have total: "0 \<le> sum_list (map (floor_share d subs) subs)"
    using bounds by (intro sum_list_nonneg) auto
  then have fit: "in_i64 (left_over d subs)" "in_i64 (sum_list (map (floor_share d subs) subs))"
    using left small total by (auto simp: left_over_def in_i64_def)
  have assigned: "assigned_total subs (map (floor_share d subs) subs) = sum_list (map (floor_share d subs) subs)"
  proof (rule assigned_total_exact)
    fix t x assume "(t, x) \<in> set (zip subs (map (floor_share d subs) subs))"
    then have "t \<in> set subs" "x = floor_share d subs t" by (auto simp: set_zip in_set_conv_nth)
    with bounds show "0 \<le> x \<and> (t \<le> 0 \<longrightarrow> x = 0)" by force
  qed (simp_all add: fit)
  have s: "floor_share d subs s + left_over d subs \<le> d" "0 \<le> floor_share d subs s"
  proof -
    have "0 \<le> sum_list (map (floor_share d subs) pre)" "0 \<le> sum_list (map (floor_share d subs) post)"
      using bounds split(1) by (auto intro!: sum_list_nonneg)
    with split(1) show "floor_share d subs s + left_over d subs \<le> d" by (simp add: left_over_def)
    show "0 \<le> floor_share d subs s" using bounds split(1) by simp
  qed
  then have fit_s: "i64 (floor_share d subs s + left_over d subs) = floor_share d subs s + left_over d subs"
    using left small by (intro i64_id in_i64_nonneg [OF _ _ small]) simp_all
  have nonempty: "\<not> (d \<le> 0 \<or> subs = [])" "\<not> pos_sum subs \<le> 0" using d split(1) T by auto
  have dist: "distribute_discount d subs = map2 cap_share subs
     (if 0 < left_over d subs then add_to_last_positive (left_over d subs) subs (map (floor_share d subs) subs)
      else map (floor_share d subs) subs)"
    unfolding distribute_discount_def Let_def tot raw assigned if_not_P [OF nonempty(1)] if_not_P [OF nonempty(2)]
    using fit(1) by (simp add: left_over_def)
  have out: "distribute_discount d subs = map2 cap_share subs
     (map (floor_share d subs) pre @ (floor_share d subs s + left_over d subs) # map (floor_share d subs) post)"
  proof (cases "0 < left_over d subs")
    case True
    have eq: "add_to_last_positive (left_over d subs) subs (map (floor_share d subs) subs) =
        map (floor_share d subs) pre @ (floor_share d subs s + left_over d subs) # map (floor_share d subs) post"
      using add_to_last_positive_map [where r = "left_over d subs" and f = "floor_share d subs" and pre = pre, OF split(2,3)] split(1) fit_s
      by simp
    show ?thesis unfolding dist by (simp only: eq True if_True)
  next
    case False
    with left have none: "left_over d subs = 0" by simp
    have eq: "map (floor_share d subs) subs =
        map (floor_share d subs) pre @ (floor_share d subs s + left_over d subs) # map (floor_share d subs) post"
      unfolding none by (subst (2) split(1)) simp
    show ?thesis unfolding dist by (simp only: eq [symmetric] False if_False)
  qed
  have cap: "map2 cap_share xs (map (floor_share d subs) xs) = map (floor_share d subs) xs"
    if "set xs \<subseteq> set subs" for xs
    using that
  proof (induction xs)
    case (Cons x xs)
    with bounds(2) [of x] show ?case by (simp add: cap_share_def)
  qed simp
  have "distribute_discount d subs = map (floor_share d subs) pre
       @ min s (floor_share d subs s + left_over d subs) # map (floor_share d subs) post"
    unfolding out
  proof -
    have "set pre \<subseteq> set subs" "set post \<subseteq> set subs" using split(1) by auto
    moreover have "cap_share s x = min s x" for x by (simp add: cap_share_def min_def)
    ultimately show "map2 cap_share subs (map (floor_share d subs) pre
        @ (floor_share d subs s + left_over d subs) # map (floor_share d subs) post) =
      map (floor_share d subs) pre @ min s (floor_share d subs s + left_over d subs)
        # map (floor_share d subs) post"
      by (subst (1) split(1)) (simp add: cap)
  qed
  moreover have "\<forall>t \<in> set post. t = 0"
    using split nonneg by fastforce
  ultimately show ?thesis using that split(1,2) by blast
qed

text \<open>
  Every share is between zero and its subtotal, and the shares add up to the discount except for
  less than one unit per positive subtotal beyond the second.
\<close>

lemma distribute_discount_correct:
  assumes fits: "discount_fits d subs" and d: "0 < d" "d \<le> sum_list subs"
    and nonneg: "\<And>s. s \<in> set subs \<Longrightarrow> 0 \<le> s"
  shows "list_all2 (\<lambda>s x. 0 \<le> x \<and> x \<le> s) subs (distribute_discount d subs)"
    and "sum_list (distribute_discount d subs) \<le> d"
    and "d - int (length (filter (\<lambda>s. 0 < s) subs) - 2) \<le> sum_list (distribute_discount d subs)"
proof -
  obtain pre s post where split: "subs = pre @ s # post" "0 < s" "\<forall>t \<in> set post. t = 0"
    and out: "distribute_discount d subs = map (floor_share d subs) pre
           @ min s (floor_share d subs s + left_over d subs) # map (floor_share d subs) post"
    using distribute_discount_shape [OF fits d] nonneg by metis
  have T: "pos_sum subs = sum_list subs" "0 < pos_sum subs"
    using pos_sum_eq [OF nonneg] d by auto
  have bounds: "0 \<le> floor_share d subs t" "floor_share d subs t \<le> t" if "t \<in> set subs" for t
    using floor_share_bounds [of d subs t] nonneg [OF that] d T by auto
  have left: "0 \<le> left_over d subs"
    using left_over_nonneg [of d subs] nonneg d(1) T(2) by auto
  have others: "list_all2 (\<lambda>s x. 0 \<le> x \<and> x \<le> s) xs (map (floor_share d subs) xs)"
    if "set xs \<subseteq> set subs" for xs
    using that bounds by (auto simp: list_all2_map2 list_all2_same)
  show "list_all2 (\<lambda>s x. 0 \<le> x \<and> x \<le> s) subs (distribute_discount d subs)"
    unfolding out using split(1) others [of pre] others [of post] bounds [of s] left split(2)
    by (auto intro!: list_all2_appendI simp: min_def)
  let ?sum = "\<lambda>xs. sum_list (map (floor_share d subs) xs)"
  have sum: "sum_list (distribute_discount d subs) = ?sum pre + ?sum post + min s (d - ?sum pre - ?sum post)"
    unfolding out left_over_def using split(1) by (simp add: algebra_simps)
  show "sum_list (distribute_discount d subs) \<le> d" unfolding sum by simp
  let ?rest = "pre @ post" and ?n = "int (length (filter (\<lambda>s. 0 < s) (pre @ post)))"
  have rest: "\<And>t. t \<in> set ?rest \<Longrightarrow> 0 \<le> t" using nonneg split(1) by auto
  have total: "sum_list subs = sum_list ?rest + s" using split(1) by simp
  have fl: "sum_list (map (\<lambda>t. d * t div pos_sum subs) ?rest) = ?sum pre + ?sum post"
    by (simp add: floor_share_def [abs_def])
  have len: "int (length (filter (\<lambda>s. 0 < s) subs) - 2) = max 0 (?n - 1)"
    using split(1,2) by (simp add: max_def)
  have ds: "d * s \<le> s * pos_sum subs"
    using T d split(2) mult_right_mono [of d "pos_sum subs" s] by (simp add: mult.commute)
  have "d - ?sum pre - ?sum post - s \<le> max 0 (?n - 1)"
  proof (cases "filter (\<lambda>s. 0 < s) ?rest = []")
    case True
    then have "sum_list ?rest \<le> 0" by (intro sum_list_nonpos) (auto simp: filter_empty_conv not_less)
    with total d have "d \<le> s" by simp
    moreover have "0 \<le> ?sum pre" "0 \<le> ?sum post" using bounds split(1) by (auto intro!: sum_list_nonneg)
    ultimately show ?thesis by simp
  next
    case False
    have "d * sum_list ?rest < (?sum pre + ?sum post + ?n) * pos_sum subs"
      using left_over_less(2) [of d "pos_sum subs" ?rest] rest False d(1) T(2) fl by simp
    then have "d * pos_sum subs - d * s < (?sum pre + ?sum post + ?n) * pos_sum subs"
      using total T(1) by (simp add: distrib_left)
    with ds have "d * pos_sum subs < (?sum pre + ?sum post + ?n + s) * pos_sum subs"
      by (simp add: distrib_right)
    then have "d < ?sum pre + ?sum post + ?n + s" using T(2) by simp
    then show ?thesis by simp
  qed
  then show "d - int (length (filter (\<lambda>s. 0 < s) subs) - 2) \<le> sum_list (distribute_discount d subs)"
    unfolding sum len by (simp add: min_def)
qed

text \<open>\<open>splice_shares\<close> gives the matching slots their shares and the others nothing.\<close>

lemma splice_shares_sum:
  "length xs = length (filter id bs) \<Longrightarrow> sum_list (splice_shares bs xs) = sum_list xs"
  by (induction bs xs rule: splice_shares.induct) auto

lemma length_splice_shares [simp]: "length (splice_shares bs xs) = length bs"
  by (induction bs xs rule: splice_shares.induct) auto

lemma splice_shares_other: "i < length bs \<Longrightarrow> \<not> bs ! i \<Longrightarrow> splice_shares bs xs ! i = 0"
  by (induction bs xs arbitrary: i rule: splice_shares.induct) (auto simp: nth_Cons split: nat.splits)

lemma length_add_to_first_positive [simp]: "length (add_to_first_positive r sxs) = length sxs"
  by (induction r sxs rule: add_to_first_positive.induct) auto

lemma length_add_to_last_positive [simp]:
  "length out = length subs \<Longrightarrow> length (add_to_last_positive r subs out) = length subs"
  by (simp add: add_to_last_positive_def)

lemma length_distribute_discount [simp]: "length (distribute_discount d subs) = length subs"
  by (simp add: distribute_discount_def Let_def)

lemma length_distribute_seller_discount [simp]:
  "length (distribute_seller_discount d sellers subs target) = length subs"
  by (simp add: distribute_seller_discount_def Let_def)

text \<open>The shares land on the target seller's slots only, as the discount over those slots.\<close>

lemma distribute_seller_discount_correct:
  assumes "length sellers = length subs"
  shows "i < length subs \<Longrightarrow> sellers ! i \<noteq> target \<Longrightarrow> distribute_seller_discount d sellers subs target ! i = 0"
    and "sum_list (distribute_seller_discount d sellers subs target) =
      sum_list (distribute_discount d (map snd (filter (\<lambda>(i, s). i = target) (zip sellers subs))))"
proof -
  show "distribute_seller_discount d sellers subs target ! i = 0"
    if "i < length subs" "sellers ! i \<noteq> target"
    using assms that by (simp add: distribute_seller_discount_def Let_def splice_shares_other)
  have "length (filter (\<lambda>(i, s). i = target) (zip sellers subs)) = length (filter id (map (\<lambda>i. i = target) sellers))"
    using assms by (induction sellers subs rule: list_induct2) auto
  then show "sum_list (distribute_seller_discount d sellers subs target) =
      sum_list (distribute_discount d (map snd (filter (\<lambda>(i, s). i = target) (zip sellers subs))))"
    using assms by (simp add: distribute_seller_discount_def Let_def splice_shares_sum)
qed

end
