(* ===== verification/Order_Service.thy ===== *)
theory Order_Service
  imports Order_Repo Order_Discount
begin

text \<open>
  Order service, application layer (internal/app/order_service.go): one definition per use case,
  and one per step of the checkout and of the payment webhook. Log lines are not modelled. A
  \<open>continue\<close> of the webhook's loop is a return of the step.
\<close>

subsection \<open>Inputs\<close>

record line_input =
  lin_sku :: uuid
  lin_name :: string
  lin_code :: string
  lin_quantity :: int
  lin_price :: int

record create_order_input =
  coi_seller :: uuid
  coi_buyer :: string
  coi_lines :: "line_input list"
  coi_address :: string
  coi_currency :: string

text \<open>A checkout line is a line with its seller.\<close>

record checkout_input =
  cki_buyer :: string
  cki_lines :: "(uuid \<times> line_input) list"
  cki_address :: string
  cki_currency :: string
  cki_coupon :: string
  cki_points :: int

definition enable_coupons :: "'x order_cfg \<Rightarrow> bool" where
  "enable_coupons cfg \<longleftrightarrow> coupons_on cfg \<and> coupon_reserver cfg \<noteq> None"

definition enable_loyalty :: "'x order_cfg \<Rightarrow> bool" where
  "enable_loyalty cfg \<longleftrightarrow> loyalty_on cfg \<and> point_reserver cfg \<noteq> None"

subsection \<open>Amounts\<close>

definition new_line :: "line_input \<Rightarrow> order_line" where
  "new_line li = \<lparr>oln_id = nil_uuid, oln_order = nil_uuid, oln_sku = lin_sku li, oln_product = nil_uuid,
     oln_name = lin_name li, oln_code = lin_code li, oln_quantity = lin_quantity li,
     oln_price = lin_price li, oln_total = i64 (lin_price li * lin_quantity li), oln_created_at = 0\<rparr>"

definition sum_i64 :: "int list \<Rightarrow> int" where
  "sum_i64 xs = fold (\<lambda>x a. i64 (a + x)) xs 0"

definition lines_subtotal :: "order_line list \<Rightarrow> int" where
  "lines_subtotal ls = sum_i64 (map oln_total ls)"

definition commission_of :: "int \<Rightarrow> int \<Rightarrow> int" where
  "commission_of subtotal rate = i64 (subtotal * rate) sdiv 10000"

definition default_currency :: "string \<Rightarrow> string" where
  "default_currency c = (if c = '''' then ''jpy'' else c)"

definition shipping_fee :: "'x order_cfg \<Rightarrow> string \<Rightarrow> ('x, int) otx" where
  "shipping_fee cfg buyer =
     tx_catch (tx_bind (external (has_free_shipping cfg buyer)) (\<lambda>free.
                 tx_return (if free then 0 else default_shipping cfg)))
       (\<lambda>_. tx_return (default_shipping cfg))"

definition rule_rate :: "uuid \<Rightarrow> ('x, int option) otx" where
  "rule_rate seller =
     tx_bind (tx_map_error (\<lambda>e. internal ''failed to get commission rule'' (Some e)) (applicable_rule seller None))
       (\<lambda>r. tx_return (map_option cru_rate r))"

definition attach_products :: "(uuid \<Rightarrow> uuid option) \<Rightarrow> order_line list \<Rightarrow> ('x, order_line list) otx" where
  "attach_products products ls = tx_for ls (\<lambda>l acc.
     case products (oln_sku l) of
       None \<Rightarrow> tx_throw (bad_request (''sku '' @ oln_sku l @ '' has no matching product''))
     | Some p \<Rightarrow> tx_return (acc @ [l\<lparr>oln_product := p\<rparr>])) []"

definition new_order :: "uuid \<Rightarrow> string \<Rightarrow> int \<Rightarrow> int \<Rightarrow> int \<Rightarrow> string \<Rightarrow> string \<Rightarrow> order_row" where
  "new_order seller buyer subtotal ship commission cur address =
     \<lparr>ord_id = nil_uuid, ord_seller = seller, ord_seller_name = '''', ord_buyer = buyer,
      ord_status = StPending, ord_subtotal = subtotal, ord_shipping = ship,
      ord_commission = commission, ord_total = 0, ord_currency = cur, ord_address = address,
      ord_intent = None, ord_paid_at = None, ord_cancelled_at = None, ord_cancel_reason = None,
      ord_created_at = 0, ord_updated_at = 0, ord_coupon_discount = 0, ord_point_discount = 0,
      ord_coupon_id = None, ord_coupon_hold = None, ord_point_hold = None, ord_points_earned = 0,
      ord_published_at = None, ord_claim_at = None\<rparr>"

subsection \<open>CreateOrder\<close>

definition ev_order :: "string \<Rightarrow> (string \<times> json) list \<Rightarrow> event" where
  "ev_order ty kvs = \<lparr>topic = ''order-events'', event_type = ty, payload = kvs\<rparr>"

definition ev_payout :: "string \<Rightarrow> (string \<times> json) list \<Rightarrow> event" where
  "ev_payout ty kvs = \<lparr>topic = ''payout-events'', event_type = ty, payload = kvs\<rparr>"

definition stripe_or_fail :: "string \<Rightarrow> ('x, string + 'a) otx \<Rightarrow> ('x, 'a) otx" where
  "stripe_or_fail msg m = tx_bind m (\<lambda>r. case r of
     Inl text \<Rightarrow> tx_throw (internal msg (Some (Sentinel (ErrRemote text))))
   | Inr a \<Rightarrow> tx_return a)"

definition wrap :: "string \<Rightarrow> ('x, 'a) otx \<Rightarrow> ('x, 'a) otx" where
  "wrap msg m = tx_map_error (\<lambda>e. internal msg (Some e)) m"

definition name_of :: "(uuid \<Rightarrow> string option) \<Rightarrow> uuid \<Rightarrow> string" where
  "name_of names i = (case names i of None \<Rightarrow> '''' | Some n \<Rightarrow> n)"

definition create_order ::
  "'x order_cfg \<Rightarrow> create_order_input \<Rightarrow> ('x, (order_row \<times> order_line list) \<times> string) otx" where
  "create_order cfg inp =
     (if coi_lines inp = [] then tx_throw (Sentinel ErrEmptyOrder)
      else
        let ls = map new_line (coi_lines inp); subtotal = lines_subtotal ls;
            cur = default_currency (coi_currency inp) in
        tx_bind (rule_rate (coi_seller inp)) (\<lambda>rate.
        let commission = (case rate of None \<Rightarrow> 0 | Some r \<Rightarrow> commission_of subtotal r) in
        tx_bind (shipping_fee cfg (coi_buyer inp)) (\<lambda>ship.
        let amount = i64 (subtotal + ship) in
        tx_bind (stripe_or_fail ''failed to create payment intent''
                   (create_destination_intent cfg amount cur (coi_seller inp))) (\<lambda>(pi, secret).
        tx_bind (wrap ''resolve seller name'' (external (seller_names cfg [coi_seller inp]))) (\<lambda>names.
        tx_bind (wrap ''resolve sku product ids'' (external (sku_products cfg (map oln_sku ls)))) (\<lambda>products.
        tx_bind (attach_products products ls) (\<lambda>ls.
        let o1 = (new_order (coi_seller inp) (coi_buyer inp) subtotal ship commission cur (coi_address inp))
                   \<lparr>ord_seller_name := name_of names (coi_seller inp), ord_total := amount, ord_intent := Some pi\<rparr> in
        tx_bind (wrap ''failed to create order'' (create_order_rows o1 ls)) (\<lambda>(o2, ls).
        tx_bind (publish_proto cfg (ev_order ''order.created''
          [(''order_id'', JStr (ord_id o2)), (''seller_id'', JStr (ord_seller o2)),
           (''buyer_auth0_id'', JStr (ord_buyer o2)), (''total_amount'', JInt amount),
           (''currency'', JStr cur)])) (\<lambda>_.
        tx_return ((o2, ls), secret))))))))))"

subsection \<open>CreateCheckout\<close>

text \<open>The lines grouped by seller, in the order in which the sellers first appear.\<close>

definition first_sellers :: "(uuid \<times> line_input) list \<Rightarrow> uuid list" where
  "first_sellers ls = rev (remdups (rev (map fst ls)))"

definition lines_of_seller :: "uuid \<Rightarrow> (uuid \<times> line_input) list \<Rightarrow> line_input list" where
  "lines_of_seller seller ls = map snd (filter (\<lambda>(i, l). i = seller) ls)"

text \<open>One entry of \<open>batch\<close>, with its entry of \<open>commissionRateBps\<close>.\<close>

type_synonym draft = "checkout_item \<times> int"

definition new_payout :: "uuid \<Rightarrow> int \<Rightarrow> string \<Rightarrow> payout_row" where
  "new_payout seller amt cur = \<lparr>pay_id = nil_uuid, pay_seller = seller, pay_order = nil_uuid,
     pay_amount = amt, pay_currency = cur, pay_transfer = None, pay_reversal = None,
     pay_status = PayoutPending, pay_created_at = 0, pay_completed_at = None, pay_reversed_at = None\<rparr>"

definition draft_order :: "checkout_input \<Rightarrow> int \<Rightarrow> uuid \<Rightarrow> int option \<Rightarrow> draft" where
  "draft_order inp ship seller rate =
     (let ls = map new_line (lines_of_seller seller (cki_lines inp));
          subtotal = lines_subtotal ls;
          commission = (case rate of None \<Rightarrow> 0 | Some r \<Rightarrow> commission_of subtotal r);
          cur = default_currency (cki_currency inp)
      in ((new_order seller (cki_buyer inp) subtotal ship commission cur (cki_address inp), ls,
           new_payout seller (i64 (subtotal - commission)) cur),
          case rate of None \<Rightarrow> 0 | Some r \<Rightarrow> r))"

definition draft_batch :: "checkout_input \<Rightarrow> int \<Rightarrow> ('x, draft list) otx" where
  "draft_batch inp ship = tx_for (first_sellers (cki_lines inp)) (\<lambda>seller acc.
     tx_bind (rule_rate seller) (\<lambda>rate. tx_return (acc @ [draft_order inp ship seller rate]))) []"

fun item_order :: "checkout_item \<Rightarrow> order_row" where "item_order (x, ls, p) = x"
fun item_lines :: "checkout_item \<Rightarrow> order_line list" where "item_lines (x, ls, p) = ls"
fun item_payout :: "checkout_item \<Rightarrow> payout_row" where "item_payout (x, ls, p) = p"

definition draft_subtotals :: "draft list \<Rightarrow> int list" where
  "draft_subtotals ds = map (\<lambda>d. ord_subtotal (item_order (fst d))) ds"

definition draft_sellers :: "draft list \<Rightarrow> uuid list" where
  "draft_sellers ds = map (\<lambda>d. ord_seller (item_order (fst d))) ds"

definition release_holds :: "'x order_cfg \<Rightarrow> coupon_grant option \<Rightarrow> point_grant option \<Rightarrow> ('x, unit) otx" where
  "release_holds cfg c p =
     tx_bind (case (c, coupon_reserver cfg) of
                (Some g, Some port) \<Rightarrow>
                  tx_catch (external (coupon_release port (cgr_hold g) ''checkout_failed'')) (\<lambda>_. tx_return ())
              | _ \<Rightarrow> tx_return ()) (\<lambda>_.
     case (p, point_reserver cfg) of
       (Some g, Some port) \<Rightarrow>
         tx_catch (external (point_release port (pgr_hold g) ''checkout_failed'')) (\<lambda>_. tx_return ())
     | _ \<Rightarrow> tx_return ())"

text \<open>The deferred cleanup: on every error path the reservations made so far are released.\<close>

definition releasing ::
  "'x order_cfg \<Rightarrow> coupon_grant option \<Rightarrow> point_grant option \<Rightarrow> ('x, 'a) otx \<Rightarrow> ('x, 'a) otx" where
  "releasing cfg c p m = tx_catch m (\<lambda>e. tx_bind (release_holds cfg c p) (\<lambda>_. tx_throw e))"

definition reserve_cart_coupon :: "'x order_cfg \<Rightarrow> checkout_input \<Rightarrow> draft list \<Rightarrow> ('x, coupon_grant option) otx" where
  "reserve_cart_coupon cfg inp ds =
     (case (cki_coupon inp = '''', coupon_reserver cfg) of
        (False, Some port) \<Rightarrow>
          tx_bind (external (coupon_reserve port (cki_coupon inp) (cki_buyer inp)
                     (zip (draft_sellers ds) (draft_subtotals ds)) (default_currency (cki_currency inp))))
            (\<lambda>g. tx_return (Some g))
      | _ \<Rightarrow> tx_return None)"

text \<open>The points are clamped to what the coupon leaves of the cart.\<close>

definition applicable_points :: "checkout_input \<Rightarrow> int list \<Rightarrow> coupon_grant option \<Rightarrow> int" where
  "applicable_points inp subs c =
     (let m = i64 (sum_i64 subs - (case c of None \<Rightarrow> 0 | Some g \<Rightarrow> cgr_discount g));
          m = (if m < 0 then 0 else m)
      in if cki_points inp > m then m else cki_points inp)"

definition reserve_cart_points ::
  "'x order_cfg \<Rightarrow> checkout_input \<Rightarrow> draft list \<Rightarrow> coupon_grant option \<Rightarrow> ('x, point_grant option) otx" where
  "reserve_cart_points cfg inp ds c =
     (let n = applicable_points inp (draft_subtotals ds) c in
      case (cki_points inp > 0 \<and> n > 0, point_reserver cfg) of
        (True, Some port) \<Rightarrow>
          tx_bind (external (point_reserve port (cki_buyer inp) n)) (\<lambda>g. tx_return (Some g))
      | _ \<Rightarrow> tx_return None)"

definition seller_coupon :: "coupon_grant option \<Rightarrow> uuid option" where
  "seller_coupon c = (case c of None \<Rightarrow> None | Some g \<Rightarrow> cgr_seller g)"

definition coupon_shares :: "draft list \<Rightarrow> coupon_grant option \<Rightarrow> int list" where
  "coupon_shares ds c =
     (let d = (case c of None \<Rightarrow> 0 | Some g \<Rightarrow> cgr_discount g) in
      case seller_coupon c of
        Some seller \<Rightarrow> distribute_seller_discount d (draft_sellers ds) (draft_subtotals ds) seller
      | None \<Rightarrow> distribute_discount d (draft_subtotals ds))"

definition residual :: "int \<Rightarrow> int \<Rightarrow> int" where
  "residual s c = (let r = i64 (s - c) in if r < 0 then 0 else r)"

definition point_shares :: "draft list \<Rightarrow> coupon_grant option \<Rightarrow> point_grant option \<Rightarrow> int list" where
  "point_shares ds c p =
     distribute_discount (case p of None \<Rightarrow> 0 | Some g \<Rightarrow> pgr_amount g)
       (map2 residual (draft_subtotals ds) (coupon_shares ds c))"

definition order_total :: "int \<Rightarrow> int \<Rightarrow> int \<Rightarrow> int \<Rightarrow> int" where
  "order_total subtotal ship c q = (let x = i64 (subtotal + ship - c - q) in if x < 0 then 0 else x)"

text \<open>A seller-issued coupon is paid by the seller: commission and payout follow the discounted subtotal.\<close>

definition discount_item :: "coupon_grant option \<Rightarrow> draft \<Rightarrow> int \<Rightarrow> int \<Rightarrow> checkout_item" where
  "discount_item g d c q =
     (case d of ((x, ls, p), rate) \<Rightarrow>
        let x = x\<lparr>ord_coupon_discount := c, ord_point_discount := q,
                  ord_total := order_total (ord_subtotal x) (ord_shipping x) c q\<rparr>;
            x = (case g of None \<Rightarrow> x
                 | Some h \<Rightarrow> if c > 0 then x\<lparr>ord_coupon_id := Some (cgr_coupon h),
                                            ord_coupon_hold := Some (cgr_hold h)\<rparr> else x)
        in if seller_coupon g \<noteq> None \<and> c > 0 then
             let e = residual (ord_subtotal x) c; commission = commission_of e rate
             in (x\<lparr>ord_commission := commission\<rparr>, ls, p\<lparr>pay_amount := i64 (e - commission)\<rparr>)
           else (x, ls, p))"

definition anchor_points :: "point_grant option \<Rightarrow> checkout_item list \<Rightarrow> checkout_item list" where
  "anchor_points p items =
     (case (p, items) of
        (Some g, (x, ls, pay) # rest) \<Rightarrow> (x\<lparr>ord_point_hold := Some (pgr_hold g)\<rparr>, ls, pay) # rest
      | _ \<Rightarrow> items)"

definition apply_discounts :: "draft list \<Rightarrow> coupon_grant option \<Rightarrow> point_grant option \<Rightarrow> checkout_item list" where
  "apply_discounts ds c p =
     anchor_points p (map (\<lambda>(d, x, q). discount_item c d x q)
       (zip ds (zip (coupon_shares ds c) (point_shares ds c p))))"

definition resolve_item ::
  "(uuid \<Rightarrow> string option) \<Rightarrow> (uuid \<Rightarrow> uuid option) \<Rightarrow> checkout_item \<Rightarrow> ('x, checkout_item) otx" where
  "resolve_item names products it = (case it of (x, ls, p) \<Rightarrow>
     tx_bind (attach_products products ls) (\<lambda>ls.
       tx_return (x\<lparr>ord_seller_name := name_of names (ord_seller x)\<rparr>, ls, p)))"

definition resolve_items :: "'x order_cfg \<Rightarrow> checkout_item list \<Rightarrow> ('x, checkout_item list) otx" where
  "resolve_items cfg items =
     tx_bind (wrap ''resolve seller names''
       (external (seller_names cfg (remdups (map (\<lambda>it. ord_seller (item_order it)) items))))) (\<lambda>names.
     tx_bind (wrap ''resolve sku product ids''
       (external (sku_products cfg (remdups (map oln_sku (concat (map item_lines items))))))) (\<lambda>products.
     tx_for items (\<lambda>it acc. tx_bind (resolve_item names products it) (\<lambda>it. tx_return (acc @ [it]))) []))"

record checkout_result =
  ckr_orders :: "(order_row \<times> order_line list) list"
  ckr_secret :: string
  ckr_intent :: string
  ckr_total :: int
  ckr_currency :: string
  ckr_subtotal :: int
  ckr_coupon_discount :: int
  ckr_point_discount :: int
  ckr_coupon :: string

definition attach_intents :: "string \<Rightarrow> checkout_item list \<Rightarrow> ('x, checkout_item list) otx" where
  "attach_intents pi items = tx_for items (\<lambda>it acc. case it of (x, ls, p) \<Rightarrow>
     tx_bind (wrap ''failed to attach payment intent to order'' (set_order_intent (ord_id x) pi)) (\<lambda>_.
       tx_return (acc @ [(x\<lparr>ord_intent := Some pi\<rparr>, ls, p)]))) []"

definition announce_order :: "'x order_cfg \<Rightarrow> string \<Rightarrow> checkout_item \<Rightarrow> ('x, unit) otx" where
  "announce_order cfg pi it = (let x = item_order it in
     publish_proto cfg (ev_order ''order.created''
       [(''order_id'', JStr (ord_id x)), (''seller_id'', JStr (ord_seller x)),
        (''buyer_auth0_id'', JStr (ord_buyer x)), (''total_amount'', JInt (ord_total x)),
        (''currency'', JStr (ord_currency x)), (''stripe_payment_intent_id'', JStr pi),
        (''coupon_discount_amount'', JInt (ord_coupon_discount x)),
        (''point_discount_amount'', JInt (ord_point_discount x)),
        (''subtotal_before_discounts'', JInt (ord_subtotal x))]))"

text \<open>Everything after the two reservations.\<close>

definition place_orders ::
  "'x order_cfg \<Rightarrow> checkout_input \<Rightarrow> draft list \<Rightarrow> coupon_grant option \<Rightarrow> point_grant option
   \<Rightarrow> ('x, checkout_result) otx" where
  "place_orders cfg inp ds c p =
     (let items = apply_discounts ds c p;
          cart_total = sum_i64 (map (\<lambda>it. ord_total (item_order it)) items);
          cur = default_currency (cki_currency inp) in
      tx_bind (resolve_items cfg items) (\<lambda>items.
      tx_bind (wrap ''failed to create checkout batch'' (create_checkout_batch items)) (\<lambda>items.
      tx_bind (stripe_or_fail ''failed to create payment intent'' (create_platform_intent cfg cart_total cur))
        (\<lambda>(pi, secret).
      tx_bind (attach_intents pi items) (\<lambda>items.
      tx_bind (tx_for items (\<lambda>it _. announce_order cfg pi it) ()) (\<lambda>_.
      tx_return \<lparr>ckr_orders = map (\<lambda>it. (item_order it, item_lines it)) items, ckr_secret = secret,
        ckr_intent = pi, ckr_total = cart_total, ckr_currency = cur,
        ckr_subtotal = sum_i64 (draft_subtotals ds),
        ckr_coupon_discount = (case c of None \<Rightarrow> 0 | Some g \<Rightarrow> cgr_discount g),
        ckr_point_discount = (case p of None \<Rightarrow> 0 | Some g \<Rightarrow> pgr_amount g),
        ckr_coupon = cki_coupon inp\<rparr>))))))"

definition create_checkout :: "'x order_cfg \<Rightarrow> checkout_input \<Rightarrow> ('x, checkout_result) otx" where
  "create_checkout cfg inp =
     (if cki_lines inp = [] then tx_throw (Sentinel ErrEmptyOrder)
      else if cki_buyer inp = '''' then tx_throw (Sentinel ErrBuyerRequired)
      else if cki_coupon inp \<noteq> '''' \<and> \<not> enable_coupons cfg then tx_throw (Sentinel ErrFeatureDisabled)
      else if cki_points inp > 0 \<and> \<not> enable_loyalty cfg then tx_throw (Sentinel ErrFeatureDisabled)
      else if list_ex (\<lambda>(i, l). lin_quantity l \<le> 0) (cki_lines inp) then tx_throw (Sentinel ErrInvalidQuantity)
      else
        tx_bind (shipping_fee cfg (cki_buyer inp)) (\<lambda>ship.
        tx_bind (draft_batch inp ship) (\<lambda>ds.
        tx_bind (reserve_cart_coupon cfg inp ds) (\<lambda>c.
        tx_bind (releasing cfg c None (reserve_cart_points cfg inp ds c)) (\<lambda>p.
        releasing cfg c p (place_orders cfg inp ds c p))))))"

subsection \<open>HandlePaymentSuccess\<close>

definition publish_claim_ttl :: int where
  "publish_claim_ttl = 120 * 10 ^ 9"

definition seller_account :: "uuid \<Rightarrow> string" where
  "seller_account seller = ''acct_stub_'' @ seller"

definition ignore_error :: "('x, unit) otx \<Rightarrow> ('x, unit) otx" where
  "ignore_error m = tx_catch m (\<lambda>_. tx_return ())"

text \<open>Block (A): the transfer id, or \<open>None\<close> when the transfer failed and the loop goes on.\<close>

definition transfer_once ::
  "'x order_cfg \<Rightarrow> string \<Rightarrow> order_row \<Rightarrow> payout_row \<Rightarrow> ('x, string option) otx" where
  "transfer_once cfg pi x p =
     (if pay_status p = PayoutPending then
        tx_bind (create_transfer cfg (pay_amount p) (pay_currency p) (seller_account (ord_seller x)) pi) (\<lambda>r.
        case r of
          Inl text \<Rightarrow>
            tx_bind (ignore_error (set_payout_status (pay_id p) PayoutFailed None)) (\<lambda>_.
            tx_bind (publish_proto cfg (ev_payout ''payout.failed''
              [(''payout_id'', JStr (pay_id p)), (''order_id'', JStr (ord_id x)),
               (''seller_id'', JStr (ord_seller x)), (''error'', JStr text)])) (\<lambda>_.
            tx_return None))
        | Inr tr \<Rightarrow>
            tx_bind (wrap ''failed to mark payout completed''
                       (set_payout_status (pay_id p) PayoutCompleted (Some tr))) (\<lambda>_.
            tx_return (Some tr)))
      else tx_return (Some (case pay_transfer p of None \<Rightarrow> '''' | Some tr \<Rightarrow> tr)))"

text \<open>Block (B): the order with the points earned.\<close>

definition commit_coupon_hold :: "'x order_cfg \<Rightarrow> string \<Rightarrow> order_row \<Rightarrow> ('x, unit) otx" where
  "commit_coupon_hold cfg pi x =
     (case (ord_coupon_hold x, coupon_reserver cfg) of
        (Some h, Some port) \<Rightarrow>
          wrap ''failed to commit coupon reservation'' (external (coupon_commit port h (ord_id x) pi))
      | _ \<Rightarrow> tx_return ())"

definition commit_points :: "'x order_cfg \<Rightarrow> string \<Rightarrow> order_row \<Rightarrow> ('x, order_row) otx" where
  "commit_points cfg pi x =
     (case (enable_loyalty cfg, point_reserver cfg) of
        (True, Some port) \<Rightarrow>
          tx_bind (wrap ''failed to commit loyalty reservation / earn''
                     (external (point_commit port (ord_point_hold x) (ord_buyer x) (ord_id x) pi
                        (ord_subtotal x) (ord_currency x)))) (\<lambda>earned.
          if earned > 0 then
            tx_bind (ignore_error (set_points_earned (ord_id x) earned)) (\<lambda>_.
            tx_return (x\<lparr>ord_points_earned := earned\<rparr>))
          else tx_return x)
      | _ \<Rightarrow> tx_return x)"

definition paid_line_items :: "uuid \<Rightarrow> ('x, json list) otx" where
  "paid_line_items i =
     tx_bind (order_by_id i) (\<lambda>found. case found of
       None \<Rightarrow> tx_throw (Sentinel ErrOrderRow)
     | Some (x, ls) \<Rightarrow> tx_return (map (\<lambda>l. JObj [(''product_id'', JStr (oln_product l)),
         (''sku_id'', JStr (oln_sku l)), (''quantity'', JInt (oln_quantity l))]) ls))"

text \<open>Block (C).\<close>

definition announce_paid ::
  "'x order_cfg \<Rightarrow> string \<Rightarrow> order_row \<Rightarrow> payout_row \<Rightarrow> string \<Rightarrow> ('x, unit) otx" where
  "announce_paid cfg pi x p tr =
     tx_bind (tx_catch (paid_line_items (ord_id x)) (\<lambda>_. tx_return [])) (\<lambda>items.
     tx_bind (wrap ''publish order.paid'' (publish_or_fail cfg (ev_order ''order.paid''
       [(''order_id'', JStr (ord_id x)), (''seller_id'', JStr (ord_seller x)),
        (''buyer_auth0_id'', JStr (ord_buyer x)), (''total_amount'', JInt (ord_total x)),
        (''stripe_payment_intent_id'', JStr pi), (''shipping_address_json'', JStr (ord_address x)),
        (''line_items'', JList items),
        (''coupon_discount_amount'', JInt (ord_coupon_discount x)),
        (''point_discount_amount'', JInt (ord_point_discount x)),
        (''subtotal_before_discounts'', JInt (ord_subtotal x)),
        (''points_earned'', JInt (ord_points_earned x))]))) (\<lambda>_.
     tx_bind (wrap ''publish payout.completed'' (publish_or_fail cfg (ev_payout ''payout.completed''
       [(''payout_id'', JStr (pay_id p)), (''order_id'', JStr (ord_id x)),
        (''seller_id'', JStr (ord_seller x)), (''amount'', JInt (pay_amount p)),
        (''currency'', JStr (pay_currency p)), (''stripe_transfer_id'', JStr tr)]))) (\<lambda>_.
     tx_catch (tx_bind (mark_published (ord_id x)) (\<lambda>_. tx_return ())) (\<lambda>_. tx_return ()))))"

definition publish_paid ::
  "'x order_cfg \<Rightarrow> string \<Rightarrow> order_row \<Rightarrow> payout_row \<Rightarrow> string \<Rightarrow> ('x, unit) otx" where
  "publish_paid cfg pi x p tr =
     (if ord_published_at x \<noteq> None then tx_return ()
      else
        tx_bind (wrap ''claim paid event publish slot'' (claim_publish (ord_id x) publish_claim_ttl))
          (\<lambda>(claimed, already).
        if \<not> claimed then
          (if already then tx_return ()
           else tx_throw (internal ''paid event publish claim held; retry after TTL'' None))
        else announce_paid cfg pi x p tr))"

definition settle_paid :: "'x order_cfg \<Rightarrow> string \<Rightarrow> order_row \<Rightarrow> payout_row \<Rightarrow> ('x, unit) otx" where
  "settle_paid cfg pi x p =
     tx_bind (transfer_once cfg pi x p) (\<lambda>tr. case tr of
       None \<Rightarrow> tx_return ()
     | Some tr \<Rightarrow>
         tx_bind (commit_coupon_hold cfg pi x) (\<lambda>_.
         tx_bind (commit_points cfg pi x) (\<lambda>x. publish_paid cfg pi x p tr)))"

definition mark_paid :: "string \<Rightarrow> instant \<Rightarrow> order_row \<Rightarrow> ('x, unit) otx" where
  "mark_paid pi t x =
     tx_catch (set_paid (ord_id x) t pi) (\<lambda>e.
       if errors_is e (Sentinel ErrOrderNotPending) then tx_return ()
       else tx_throw (internal ''failed to update order to paid'' (Some e)))"

definition settle_order :: "'x order_cfg \<Rightarrow> string \<Rightarrow> instant \<Rightarrow> order_row \<Rightarrow> ('x, unit) otx" where
  "settle_order cfg pi t x =
     (if ord_status x = StCancelled then tx_return ()
      else
        tx_bind (mark_paid pi t x) (\<lambda>_.
        tx_bind (wrap ''failed to get payout for order'' (payout_of_order (ord_id x))) (\<lambda>found.
        case found of
          None \<Rightarrow> tx_return ()
        | Some p \<Rightarrow>
            if pay_status p \<in> {PayoutPending, PayoutCompleted} then settle_paid cfg pi x p
            else tx_return ())))"

definition handle_payment_success :: "'x order_cfg \<Rightarrow> string \<Rightarrow> ('x, unit) otx" where
  "handle_payment_success cfg pi =
     tx_bind (wrap ''failed to find orders by payment intent'' (orders_by_intent pi)) (\<lambda>xs.
     if xs = [] then tx_throw (not_found (''orders not found for payment intent: '' @ pi))
     else tx_bind now (\<lambda>t. tx_for xs (\<lambda>x _. settle_order cfg pi t x) ()))"

subsection \<open>The other use cases\<close>

definition check_purchase ::
  "string \<Rightarrow> uuid \<Rightarrow> uuid \<Rightarrow> ('x, (uuid \<times> string \<times> string) option) otx" where
  "check_purchase buyer seller sku =
     (if buyer = '''' then tx_throw (Sentinel ErrBuyerRequired)
      else wrap ''failed to check purchase'' (has_purchased_sku buyer seller sku))"

definition get_order :: "uuid \<Rightarrow> ('x, order_row \<times> order_line list) otx" where
  "get_order i = tx_bind (wrap ''failed to get order'' (order_by_id i)) (\<lambda>found.
     case found of None \<Rightarrow> tx_throw (Sentinel ErrOrderNotFound) | Some r \<Rightarrow> tx_return r)"

definition list_buyer_orders :: "string \<Rightarrow> int \<Rightarrow> int \<Rightarrow> ('x, order_row list \<times> nat) otx" where
  "list_buyer_orders buyer lim off = wrap ''failed to list buyer orders'' (orders_of_buyer buyer lim off)"

definition list_seller_orders :: "uuid \<Rightarrow> string \<Rightarrow> int \<Rightarrow> int \<Rightarrow> ('x, order_row list \<times> nat) otx" where
  "list_seller_orders seller st lim off =
     wrap ''failed to list seller orders'' (orders_of_seller seller st lim off)"

text \<open>The statuses a seller may ask for.\<close>

definition seller_status :: "string \<Rightarrow> order_status option" where
  "seller_status text = find (\<lambda>st. order_status_text st = text)
     [StProcessing, StShipped, StDelivered, StCompleted, StCancelled]"

definition update_order_status :: "'x order_cfg \<Rightarrow> uuid \<Rightarrow> uuid \<Rightarrow> string \<Rightarrow> ('x, unit) otx" where
  "update_order_status cfg seller i text =
     (case seller_status text of
        None \<Rightarrow> tx_throw (Sentinel (ErrInvalidOrderStatus text))
      | Some st \<Rightarrow>
          tx_bind (wrap ''failed to load order'' (order_by_id i)) (\<lambda>found.
          case found of
            None \<Rightarrow> tx_throw (Sentinel ErrOrderNotFound)
          | Some (x, ls) \<Rightarrow>
              if ord_seller x \<noteq> seller then tx_throw (Sentinel ErrOrderNotFound)
              else
                tx_bind (wrap ''failed to update order status'' (set_order_status i st)) (\<lambda>_.
                if st = StShipped then
                  publish_proto cfg (ev_order ''order.shipped'' [(''order_id'', JStr i)])
                else tx_return ())))"

definition list_payouts :: "uuid \<Rightarrow> int \<Rightarrow> int \<Rightarrow> ('x, payout_row list \<times> nat) otx" where
  "list_payouts seller lim off = wrap ''failed to list payouts'' (payouts_of_seller seller lim off)"

definition list_commission_rules :: "int \<Rightarrow> int \<Rightarrow> ('x, commission_rule list \<times> nat) otx" where
  "list_commission_rules lim off = wrap ''failed to list commission rules'' (list_rules lim off)"

definition create_commission_rule :: "commission_rule \<Rightarrow> ('x, commission_rule) otx" where
  "create_commission_rule r = wrap ''failed to create commission rule'' (create_rule r)"

end
