(* ===== verification/Order_Cancellation.thy ===== *)
theory Order_Cancellation
  imports Order_Service
begin

text \<open>
  Order cancellation (internal/cancellation): opening a request, the seller's decision, the refund
  and the transfer reversals on Stripe, the approval transaction and the events.
\<close>

subsection \<open>Events\<close>

definition request_event :: "cancel_request \<Rightarrow> order_row \<Rightarrow> event" where
  "request_event r x = ev_order ''order.cancellation_requested''
     [(''request_id'', JStr (cnr_id r)), (''order_id'', JStr (cnr_order r)),
      (''seller_id'', JStr (ord_seller x)), (''buyer_auth0_id'', JStr (cnr_by r)),
      (''reason'', JStr (cnr_reason r))]"

definition text_or_empty :: "string option \<Rightarrow> string" where
  "text_or_empty s = (case s of None \<Rightarrow> '''' | Some t \<Rightarrow> t)"

definition reject_event :: "cancel_request \<Rightarrow> order_row \<Rightarrow> event" where
  "reject_event r x = ev_order ''order.cancellation_rejected''
     [(''request_id'', JStr (cnr_id r)), (''order_id'', JStr (cnr_order r)),
      (''seller_id'', JStr (ord_seller x)), (''buyer_auth0_id'', JStr (cnr_by r)),
      (''seller_comment'', JStr (text_or_empty (cnr_comment r)))]"

definition approve_event :: "cancel_request \<Rightarrow> order_row \<Rightarrow> int \<Rightarrow> event" where
  "approve_event r x amount = ev_order ''order.cancellation_approved''
     [(''request_id'', JStr (cnr_id r)), (''order_id'', JStr (cnr_order r)),
      (''seller_id'', JStr (ord_seller x)), (''buyer_auth0_id'', JStr (cnr_by r)),
      (''stripe_refund_id'', JStr (text_or_empty (cnr_refund r))), (''refund_amount'', JInt amount)]"

definition id_field :: "string \<Rightarrow> uuid option \<Rightarrow> (string \<times> json) list" where
  "id_field k i = (case i of None \<Rightarrow> [] | Some u \<Rightarrow> [(k, JStr u)])"

definition cancelled_event :: "cancel_request \<Rightarrow> order_row \<Rightarrow> order_line list \<Rightarrow> event" where
  "cancelled_event r x ls = ev_order ''order.cancelled'' (
     [(''order_id'', JStr (ord_id x)), (''seller_id'', JStr (ord_seller x)),
      (''buyer_auth0_id'', JStr (ord_buyer x)), (''request_id'', JStr (cnr_id r)),
      (''reason'', JStr (cnr_reason r)),
      (''line_items'', JList (map (\<lambda>l. JObj [(''sku_id'', JStr (oln_sku l)),
         (''product_name'', JStr (oln_name l)), (''sku_code'', JStr (oln_code l)),
         (''quantity'', JInt (oln_quantity l))]) ls)),
      (''coupon_discount_amount'', JInt (ord_coupon_discount x)),
      (''point_discount_amount'', JInt (ord_point_discount x)),
      (''points_earned'', JInt (ord_points_earned x))]
     @ id_field ''coupon_id'' (ord_coupon_id x)
     @ id_field ''coupon_reservation_id'' (ord_coupon_hold x)
     @ id_field ''point_reservation_id'' (ord_point_hold x)
     @ (case ord_cancelled_at x of None \<Rightarrow> [] | Some t \<Rightarrow> [(''cancelled_at'', JInt t)]))"

subsection \<open>Opening and reading requests\<close>

definition order_not_cancellable :: "string \<Rightarrow> order_err error" where
  "order_not_cancellable msg = with_code (conflict msg) ''ORDER_NOT_CANCELLABLE''"

definition already_processed :: "order_err error" where
  "already_processed = with_code (conflict ''cancellation request is no longer pending'')
     ''CANCELLATION_REQUEST_ALREADY_PROCESSED''"

definition load_order :: "uuid \<Rightarrow> ('x, order_row \<times> order_line list) otx" where
  "load_order i = tx_bind (wrap ''failed to load order'' (order_by_id i)) (\<lambda>found.
     case found of None \<Rightarrow> tx_throw (not_found ''order not found'') | Some r \<Rightarrow> tx_return r)"

definition assert_buyer :: "order_row \<Rightarrow> string \<Rightarrow> ('x, unit) otx" where
  "assert_buyer x buyer = (if ord_buyer x \<noteq> buyer
     then tx_throw (with_code (not_found ''order not found'') ''NOT_ORDER_BUYER'') else tx_return ())"

definition assert_seller :: "order_row \<Rightarrow> uuid \<Rightarrow> ('x, unit) otx" where
  "assert_seller x seller = (if ord_seller x \<noteq> seller
     then tx_throw (with_code (not_found ''order not found'') ''NOT_ORDER_SELLER'') else tx_return ())"

definition request_cancellation ::
  "'x order_cfg \<Rightarrow> uuid \<Rightarrow> string \<Rightarrow> string \<Rightarrow> ('x, cancel_request) otx" where
  "request_cancellation cfg i buyer reason =
     (if reason = '''' then tx_throw (bad_request ''cancellation reason is required'')
      else
        tx_bind (load_order i) (\<lambda>(x, ls).
        tx_bind (assert_buyer x buyer) (\<lambda>_.
        if \<not> order_can_be_cancelled (ord_status x) then
          tx_throw (order_not_cancellable ''order cannot be cancelled in its current status'')
        else
          tx_bind (tx_map_error (\<lambda>e.
              if errors_is e (Sentinel ErrPendingRequestExists) then
                with_code (conflict ''a cancellation request is already pending for this order'')
                  ''CANCELLATION_REQUEST_ALREADY_EXISTS''
              else internal ''failed to create cancellation request'' (Some e))
            (create_request (new_request i buyer reason))) (\<lambda>r.
          tx_bind (publish_proto cfg (request_event r x)) (\<lambda>_. tx_return r)))))"

definition request_not_found :: "order_err error" where
  "request_not_found = with_code (not_found ''cancellation request not found'') ''CANCELLATION_REQUEST_NOT_FOUND''"

definition get_request :: "uuid \<Rightarrow> ('x, cancel_request) otx" where
  "get_request i = tx_bind (wrap ''failed to load cancellation request'' (request_by_id i)) (\<lambda>found.
     case found of None \<Rightarrow> tx_throw request_not_found | Some r \<Rightarrow> tx_return r)"

definition load_for_seller ::
  "uuid \<Rightarrow> uuid \<Rightarrow> ('x, cancel_request \<times> order_row \<times> order_line list) otx" where
  "load_for_seller i seller =
     tx_bind (get_request i) (\<lambda>r.
     tx_bind (load_order (cnr_order r)) (\<lambda>(x, ls).
     tx_bind (assert_seller x seller) (\<lambda>_. tx_return (r, x, ls))))"

definition get_request_for_seller :: "uuid \<Rightarrow> uuid \<Rightarrow> ('x, cancel_request) otx" where
  "get_request_for_seller seller i = tx_bind (load_for_seller i seller) (\<lambda>(r, x, ls). tx_return r)"

definition get_latest_for_order :: "uuid \<Rightarrow> string \<Rightarrow> ('x, cancel_request option) otx" where
  "get_latest_for_order i buyer =
     tx_bind (load_order i) (\<lambda>(x, ls).
     tx_bind (assert_buyer x buyer) (\<lambda>_.
     wrap ''failed to load cancellation request'' (latest_request i)))"

definition list_requests :: "uuid \<Rightarrow> string \<Rightarrow> int \<Rightarrow> int \<Rightarrow> ('x, cancel_request list \<times> nat) otx" where
  "list_requests seller st lim off =
     wrap ''failed to list cancellation requests'' (requests_by_status seller st lim off)"

definition reject_cancellation ::
  "'x order_cfg \<Rightarrow> uuid \<Rightarrow> uuid \<Rightarrow> string \<Rightarrow> ('x, cancel_request) otx" where
  "reject_cancellation cfg i seller comment =
     tx_bind (load_for_seller i seller) (\<lambda>(r, x, ls).
     if cnr_status r \<noteq> CrPending then tx_throw already_processed
     else
       tx_bind (tx_map_error (\<lambda>e. if errors_is e (Sentinel ErrAlreadyProcessed) then already_processed
                  else internal ''failed to reject cancellation request'' (Some e))
         (reject_request i seller comment)) (\<lambda>r.
       tx_bind (publish_proto cfg (reject_event r x)) (\<lambda>_. tx_return r)))"

subsection \<open>Approval\<close>

definition cancellable_statuses :: "order_status list" where
  "cancellable_statuses = [StPending, StPaid, StProcessing]"

definition refund_key :: "cancel_request \<Rightarrow> string" where
  "refund_key r = ''cancellation:'' @ cnr_id r @ '':refund''"

definition reverse_key :: "cancel_request \<Rightarrow> payout_row \<Rightarrow> string" where
  "reverse_key r p = ''cancellation:'' @ cnr_id r @ '':reverse:'' @ pay_id p"

definition mark_failed_and_throw :: "cancel_request \<Rightarrow> string \<Rightarrow> order_err error \<Rightarrow> ('x, 'a) otx" where
  "mark_failed_and_throw r text e =
     tx_bind (ignore_error (mark_request_failed (cnr_id r) text)) (\<lambda>_. tx_throw e)"

definition refund_order :: "'x order_cfg \<Rightarrow> cancel_request \<Rightarrow> order_row \<Rightarrow> ('x, string) otx" where
  "refund_order cfg r x =
     tx_bind (create_refund cfg (text_or_empty (ord_intent x)) (ord_total x) (refund_key r)) (\<lambda>res.
     case res of
       Inr refund \<Rightarrow> tx_return refund
     | Inl text \<Rightarrow> mark_failed_and_throw r (''stripe refund failed: '' @ text)
         (with_code (new_app_error 502 ''stripe refund failed'' (Some (Sentinel (ErrRemote text)))) ''REFUND_FAILED''))"

text \<open>The transfer of a payout that has to be reversed.\<close>

definition reversible :: "payout_row \<Rightarrow> string option" where
  "reversible p = (case pay_transfer p of
     Some tr \<Rightarrow> if pay_status p = PayoutCompleted \<and> tr \<noteq> '''' then Some tr else None
   | None \<Rightarrow> None)"

definition reverse_one ::
  "'x order_cfg \<Rightarrow> cancel_request \<Rightarrow> payout_row \<Rightarrow> (uuid \<times> string) list \<Rightarrow> ('x, (uuid \<times> string) list) otx" where
  "reverse_one cfg r p acc =
     (case reversible p of
        None \<Rightarrow> tx_return acc
      | Some tr \<Rightarrow>
          tx_bind (reverse_transfer cfg tr (pay_amount p) (reverse_key r p)) (\<lambda>res.
          case res of
            Inr rid \<Rightarrow> tx_return (acc @ [(pay_id p, rid)])
          | Inl text \<Rightarrow> mark_failed_and_throw r
              (''stripe transfer reversal failed for payout '' @ pay_id p @ '': '' @ text)
              (with_code (new_app_error 502 ''stripe transfer reversal failed''
                 (Some (Sentinel (ErrRemote text)))) ''TRANSFER_REVERSAL_FAILED'')))"

definition status_race_text :: string where
  "status_race_text = ''order status changed between approval read and write; stripe refund and reversals must be reconciled manually''"

text \<open>The outcomes of \<open>ApproveTx\<close> that are not success.\<close>

definition approval_failed :: "cancel_request \<Rightarrow> order_err error \<Rightarrow> ('x, 'a) otx" where
  "approval_failed r e =
     (if errors_is e (Sentinel ErrAlreadyProcessed) then tx_throw already_processed
      else if errors_is e (Sentinel ErrOrderStatusChanged) then
        mark_failed_and_throw r status_race_text
          (order_not_cancellable ''order status changed before approval could commit'')
      else tx_throw (internal ''failed to commit approval'' (Some e)))"

definition finalize_approval ::
  "'x order_cfg \<Rightarrow> cancel_request \<Rightarrow> order_row \<Rightarrow> order_line list \<Rightarrow> uuid \<Rightarrow> string \<Rightarrow> ('x, cancel_request) otx" where
  "finalize_approval cfg r x ls seller comment =
     tx_bind (wrap ''failed to load payouts'' (payouts_of_order (ord_id x))) (\<lambda>ps.
     tx_bind (refund_order cfg r x) (\<lambda>refund.
     tx_bind (tx_for ps (reverse_one cfg r) []) (\<lambda>reversed.
     tx_bind now (\<lambda>t.
     tx_bind (tx_catch
       (approve_tx \<lparr>apv_request = cnr_id r, apv_order = ord_id x, apv_seller = seller, apv_comment = comment,
          apv_reason = cnr_reason r, apv_refund = refund, apv_at = t, apv_reversed = reversed,
          apv_cancellable = cancellable_statuses\<rparr>)
       (approval_failed r)) (\<lambda>(r2, x2).
     tx_bind (publish_proto cfg (approve_event r2 x2 (ord_total x))) (\<lambda>_.
     tx_bind (publish_proto cfg (cancelled_event r2 x2 ls)) (\<lambda>_.
     tx_return r2)))))))"

text \<open>The two checks before any Stripe call.\<close>

definition check_refundable :: "order_row \<Rightarrow> ('x, unit) otx" where
  "check_refundable x =
     (if \<not> order_can_be_cancelled (ord_status x) then
        tx_throw (order_not_cancellable ''order cannot be cancelled in its current status'')
      else if text_or_empty (ord_intent x) = '''' then
        tx_throw (order_not_cancellable ''order has no stripe payment intent to refund'')
      else tx_return ())"

definition approve_cancellation ::
  "'x order_cfg \<Rightarrow> uuid \<Rightarrow> uuid \<Rightarrow> string \<Rightarrow> ('x, cancel_request) otx" where
  "approve_cancellation cfg i seller comment =
     tx_bind (load_for_seller i seller) (\<lambda>(r, x, ls).
     if cnr_status r \<noteq> CrPending then tx_throw already_processed
     else tx_bind (check_refundable x) (\<lambda>_. finalize_approval cfg r x ls seller comment))"

text \<open>The request an administrator approves: the pending one, or a new one.\<close>

definition open_for_admin :: "'x order_cfg \<Rightarrow> order_row \<Rightarrow> string \<Rightarrow> string \<Rightarrow> ('x, cancel_request) otx" where
  "open_for_admin cfg x admin reason =
     tx_bind (create_request (new_request (ord_id x) admin reason)) (\<lambda>r.
     tx_bind (publish_proto cfg (request_event r x)) (\<lambda>_. tx_return r))"

text \<open>The request could not be created; a pending one of somebody else will do.\<close>

definition reload_for_admin :: "order_row \<Rightarrow> order_err error \<Rightarrow> ('x, cancel_request) otx" where
  "reload_for_admin x e =
     (if errors_is e (Sentinel ErrPendingRequestExists) then
        tx_bind (wrap ''failed to reload cancellation request after race'' (latest_request (ord_id x))) (\<lambda>again.
        case again of
          None \<Rightarrow> tx_throw (internal ''failed to reload cancellation request after race'' None)
        | Some r \<Rightarrow> tx_return r)
      else tx_throw (internal ''failed to create cancellation request'' (Some e)))"

definition admin_request :: "'x order_cfg \<Rightarrow> order_row \<Rightarrow> string \<Rightarrow> string \<Rightarrow> ('x, cancel_request) otx" where
  "admin_request cfg x admin reason =
     tx_bind (wrap ''failed to load cancellation request'' (latest_request (ord_id x))) (\<lambda>latest.
     case latest of
       None \<Rightarrow> tx_catch (open_for_admin cfg x admin reason) (reload_for_admin x)
     | Some r \<Rightarrow>
         if cnr_status r = CrPending then tx_return r
         else tx_catch (open_for_admin cfg x admin reason) (reload_for_admin x))"

definition admin_force_cancel ::
  "'x order_cfg \<Rightarrow> uuid \<Rightarrow> string \<Rightarrow> string \<Rightarrow> ('x, cancel_request) otx" where
  "admin_force_cancel cfg i admin reason =
     (if admin = '''' then tx_throw (bad_request ''admin auth0 id is required'')
      else if reason = '''' then tx_throw (bad_request ''cancellation reason is required'')
      else
        tx_bind (load_order i) (\<lambda>(x, ls).
        tx_bind (check_refundable x) (\<lambda>_.
        tx_bind (admin_request cfg x admin reason) (\<lambda>r.
        finalize_approval cfg r x ls (ord_seller x) (''[admin:'' @ admin @ ''] '' @ reason)))))"

end
