(* ===== verification/Order_Edge.thy ===== *)
theory Order_Edge
  imports Order_Cancellation
begin

text \<open>
  Order service, adapters: the HTTP handlers (internal/adapter/http and
  internal/cancellation/http_handler.go), the Stripe webhook, the gRPC server and the shipping
  subscriber. URL parameters, the caller's identity and decoded bodies are arguments. A nil slice
  is JSON's \<open>null\<close>.
\<close>

subsection \<open>Errors and bodies\<close>

fun order_message :: "order_err \<Rightarrow> string" where
  "order_message ErrOrderNotFound = ''order not found''"
| "order_message ErrEmptyOrder = ''order must have at least one line item''"
| "order_message ErrBuyerRequired = ''buyer_auth0_id is required''"
| "order_message ErrInvalidQuantity = ''quantity must be positive''"
| "order_message (ErrInvalidOrderStatus st) = ''invalid order status: '' @ st"
| "order_message ErrOrderNotPending = ''order is not in pending status''"
| "order_message ErrCartCouponNotFound = ''coupon not found''"
| "order_message ErrCartCouponExpired = ''coupon has expired''"
| "order_message ErrCartCouponRevoked = ''coupon is no longer available''"
| "order_message ErrCartCouponNotStarted = ''coupon is not yet valid''"
| "order_message ErrCartCouponUsageLimit = ''coupon usage limit reached''"
| "order_message ErrCartCouponPerUserLimit = ''coupon already used by this buyer''"
| "order_message ErrCartCouponMinOrder = ''order subtotal is below the coupon minimum''"
| "order_message ErrCartCouponCurrency = ''coupon currency does not match order currency''"
| "order_message ErrCartInsufficientPoints = ''insufficient point balance''"
| "order_message ErrFeatureDisabled = ''coupon / loyalty feature is disabled''"
| "order_message ErrPendingRequestExists = ''pending cancellation request already exists for order''"
| "order_message ErrAlreadyProcessed = ''cancellation request already processed''"
| "order_message ErrOrderStatusChanged = ''order status changed before approval write''"
| "order_message ErrOrderRow = ''order not found''"
| "order_message ErrPayoutRow = ''payout not found''"
| "order_message (ErrRemote text) = text"

fun order_sentinel_error :: "order_err \<Rightarrow> order_err error option" where
  "order_sentinel_error ErrOrderNotFound = Some (not_found (order_message ErrOrderNotFound))"
| "order_sentinel_error ErrEmptyOrder = Some (bad_request (order_message ErrEmptyOrder))"
| "order_sentinel_error ErrBuyerRequired = Some (bad_request (order_message ErrBuyerRequired))"
| "order_sentinel_error ErrInvalidQuantity = Some (bad_request (order_message ErrInvalidQuantity))"
| "order_sentinel_error (ErrInvalidOrderStatus st) =
     Some (bad_request (order_message (ErrInvalidOrderStatus st)))"
| "order_sentinel_error ErrOrderNotPending = Some (conflict (order_message ErrOrderNotPending))"
| "order_sentinel_error ErrCartCouponNotFound =
     Some (with_code (not_found (order_message ErrCartCouponNotFound)) ''COUPON_NOT_FOUND'')"
| "order_sentinel_error ErrCartCouponExpired =
     Some (with_code (bad_request (order_message ErrCartCouponExpired)) ''COUPON_EXPIRED'')"
| "order_sentinel_error ErrCartCouponRevoked =
     Some (with_code (bad_request (order_message ErrCartCouponRevoked)) ''COUPON_REVOKED'')"
| "order_sentinel_error ErrCartCouponNotStarted =
     Some (with_code (bad_request (order_message ErrCartCouponNotStarted)) ''COUPON_NOT_STARTED'')"
| "order_sentinel_error ErrCartCouponUsageLimit =
     Some (with_code (conflict (order_message ErrCartCouponUsageLimit)) ''COUPON_USAGE_LIMIT'')"
| "order_sentinel_error ErrCartCouponPerUserLimit =
     Some (with_code (conflict (order_message ErrCartCouponPerUserLimit)) ''COUPON_PER_USER_LIMIT'')"
| "order_sentinel_error ErrCartCouponMinOrder =
     Some (with_code (bad_request (order_message ErrCartCouponMinOrder)) ''COUPON_MIN_ORDER'')"
| "order_sentinel_error ErrCartCouponCurrency =
     Some (with_code (bad_request (order_message ErrCartCouponCurrency)) ''COUPON_CURRENCY'')"
| "order_sentinel_error ErrCartInsufficientPoints =
     Some (with_code (bad_request (order_message ErrCartInsufficientPoints)) ''INSUFFICIENT_POINTS'')"
| "order_sentinel_error ErrFeatureDisabled =
     Some (with_code (bad_request (order_message ErrFeatureDisabled)) ''FEATURE_DISABLED'')"
| "order_sentinel_error _ = None"

text \<open>\<open>mapError\<close>: the first \<open>AppError\<close> of the chain, or the answer to a sentinel, or 500.\<close>

definition order_map_error :: "order_err error \<Rightarrow> order_err error" where
  "order_map_error e =
     (case as_app_error e of Some a \<Rightarrow> a | None \<Rightarrow>
      case e of
        Sentinel d \<Rightarrow> (case order_sentinel_error d of Some a \<Rightarrow> a | None \<Rightarrow> internal ''internal error'' (Some e))
      | _ \<Rightarrow> internal ''internal error'' (Some e))"

definition json_opt :: "string \<Rightarrow> ('a \<Rightarrow> json) \<Rightarrow> 'a option \<Rightarrow> (string \<times> json) list" where
  "json_opt k f x = (case x of None \<Rightarrow> [] | Some y \<Rightarrow> [(k, f y)])"

definition json_slice :: "json list \<Rightarrow> json" where
  "json_slice xs = (if xs = [] then JNull else JList xs)"

fun payout_status_text :: "payout_status \<Rightarrow> string" where
  "payout_status_text PayoutPending = ''pending''"
| "payout_status_text PayoutCompleted = ''completed''"
| "payout_status_text PayoutFailed = ''failed''"
| "payout_status_text PayoutReversed = ''reversed''"

definition order_fields :: "order_row \<Rightarrow> (string \<times> json) list" where
  "order_fields x =
     [(''id'', JStr (ord_id x)), (''seller_id'', JStr (ord_seller x)),
      (''seller_name'', JStr (ord_seller_name x)), (''buyer_auth0_id'', JStr (ord_buyer x)),
      (''status'', JStr (order_status_text (ord_status x))),
      (''subtotal_amount'', JInt (ord_subtotal x)), (''shipping_fee'', JInt (ord_shipping x)),
      (''commission_amount'', JInt (ord_commission x)), (''total_amount'', JInt (ord_total x)),
      (''currency'', JStr (ord_currency x)), (''shipping_address'', JStr (ord_address x))]
     @ json_opt ''stripe_payment_intent_id'' JStr (ord_intent x)
     @ json_opt ''paid_at'' JInt (ord_paid_at x)
     @ json_opt ''cancelled_at'' JInt (ord_cancelled_at x)
     @ json_opt ''cancellation_reason'' JStr (ord_cancel_reason x)
     @ [(''created_at'', JInt (ord_created_at x)), (''updated_at'', JInt (ord_updated_at x)),
        (''coupon_discount_amount'', JInt (ord_coupon_discount x)),
        (''point_discount_amount'', JInt (ord_point_discount x))]
     @ json_opt ''coupon_id'' JStr (ord_coupon_id x)
     @ json_opt ''coupon_reservation_id'' JStr (ord_coupon_hold x)
     @ json_opt ''point_reservation_id'' JStr (ord_point_hold x)
     @ [(''points_earned'', JInt (ord_points_earned x))]
     @ json_opt ''paid_event_published_at'' JInt (ord_published_at x)
     @ json_opt ''paid_event_claim_at'' JInt (ord_claim_at x)"

definition line_body :: "order_line \<Rightarrow> json" where
  "line_body l = JObj
     [(''id'', JStr (oln_id l)), (''order_id'', JStr (oln_order l)), (''sku_id'', JStr (oln_sku l)),
      (''product_id'', JStr (oln_product l)), (''product_name'', JStr (oln_name l)),
      (''sku_code'', JStr (oln_code l)), (''quantity'', JInt (oln_quantity l)),
      (''unit_price'', JInt (oln_price l)), (''line_total'', JInt (oln_total l)),
      (''created_at'', JInt (oln_created_at l))]"

definition order_body :: "order_row \<Rightarrow> json" where
  "order_body x = JObj (order_fields x)"

definition order_lines_body :: "order_row \<times> order_line list \<Rightarrow> json" where
  "order_lines_body r = JObj (order_fields (fst r) @ [(''lines'', json_slice (map line_body (snd r)))])"

definition payout_body :: "payout_row \<Rightarrow> json" where
  "payout_body p = JObj (
     [(''id'', JStr (pay_id p)), (''seller_id'', JStr (pay_seller p)), (''order_id'', JStr (pay_order p)),
      (''amount'', JInt (pay_amount p)), (''currency'', JStr (pay_currency p))]
     @ json_opt ''stripe_transfer_id'' JStr (pay_transfer p)
     @ json_opt ''stripe_reversal_id'' JStr (pay_reversal p)
     @ [(''status'', JStr (payout_status_text (pay_status p))), (''created_at'', JInt (pay_created_at p))]
     @ json_opt ''completed_at'' JInt (pay_completed_at p)
     @ json_opt ''reversed_at'' JInt (pay_reversed_at p))"

definition rule_body :: "commission_rule \<Rightarrow> json" where
  "rule_body r = JObj (
     [(''id'', JStr (cru_id r))]
     @ json_opt ''seller_id'' JStr (cru_seller r) @ json_opt ''category_id'' JStr (cru_category r)
     @ [(''rate_bps'', JInt (cru_rate r)), (''priority'', JInt (cru_priority r)),
        (''valid_from'', JInt (cru_from r))]
     @ json_opt ''valid_until'' JInt (cru_until r) @ [(''created_at'', JInt (cru_created_at r))])"

definition request_body :: "cancel_request \<Rightarrow> json" where
  "request_body r = JObj (
     [(''id'', JStr (cnr_id r)), (''order_id'', JStr (cnr_order r)),
      (''requested_by_auth0_id'', JStr (cnr_by r)), (''reason'', JStr (cnr_reason r)),
      (''status'', JStr (cancel_status_text (cnr_status r)))]
     @ json_opt ''seller_comment'' JStr (cnr_comment r)
     @ json_opt ''processed_by_seller_id'' JStr (cnr_processed_by r)
     @ json_opt ''processed_at'' JInt (cnr_processed_at r)
     @ json_opt ''stripe_refund_id'' JStr (cnr_refund r)
     @ json_opt ''failure_reason'' JStr (cnr_failure r)
     @ [(''created_at'', JInt (cnr_created_at r)), (''updated_at'', JInt (cnr_updated_at r))])"

definition ok_json :: "nat \<Rightarrow> json \<Rightarrow> response" where
  "ok_json st b = Response st (Some b)"

text \<open>\<open>pagination.Response\<close>.\<close>

definition page_body :: "('r \<Rightarrow> json) \<Rightarrow> int \<times> int \<Rightarrow> 'r list \<times> nat \<Rightarrow> response" where
  "page_body f p r = ok_json 200 (JObj [(''items'', json_slice (map f (fst r))),
     (''total'', JInt (int (snd r))), (''limit'', JInt (fst p)), (''offset'', JInt (snd p))])"

type_synonym 'x order_handler = "('x order_state, order_err, response) tx"

text \<open>The identity that the middleware puts into the request's context (pkg/tenant).\<close>

record identity =
  idn_user :: string
  idn_seller :: "uuid option"
  idn_roles :: "string list"

definition refuse_order :: "order_err error \<Rightarrow> 'x order_handler" where
  "refuse_order e = answer (http_error e)"

definition with_identity :: "identity option \<Rightarrow> (identity \<Rightarrow> 'x order_handler) \<Rightarrow> 'x order_handler" where
  "with_identity tc h = (case tc of None \<Rightarrow> refuse_order (bad_request ''tenant context required'') | Some c \<Rightarrow> h c)"

definition with_seller_or :: "order_err error \<Rightarrow> identity option \<Rightarrow> (uuid \<Rightarrow> 'x order_handler) \<Rightarrow> 'x order_handler" where
  "with_seller_or e tc h = with_identity tc (\<lambda>c.
     case idn_seller c of None \<Rightarrow> refuse_order e | Some s \<Rightarrow> h s)"

definition with_seller :: "identity option \<Rightarrow> (uuid \<Rightarrow> 'x order_handler) \<Rightarrow> 'x order_handler" where
  "with_seller tc h = with_seller_or (bad_request ''seller context required'') tc h"

definition with_uuid :: "'x order_cfg \<Rightarrow> string \<Rightarrow> string \<Rightarrow> (uuid \<Rightarrow> 'x order_handler) \<Rightarrow> 'x order_handler" where
  "with_uuid cfg text label h = (case order_uuid_parse cfg text of
     None \<Rightarrow> refuse_order (bad_request (''invalid '' @ label)) | Some i \<Rightarrow> h i)"

definition with_json :: "(string + 'r) option \<Rightarrow> ('r \<Rightarrow> 'x order_handler) \<Rightarrow> 'x order_handler" where
  "with_json body h = (case http_decode body of Inl e \<Rightarrow> refuse_order e | Inr r \<Rightarrow> h r)"

subsection \<open>Orders\<close>

record create_order_request =
  corq_seller :: uuid
  corq_lines :: "line_input list"
  corq_address :: string
  corq_currency :: string

definition http_create_order ::
  "'x order_cfg \<Rightarrow> identity option \<Rightarrow> (string + create_order_request) option \<Rightarrow> 'x order_handler" where
  "http_create_order cfg tc body = with_identity tc (\<lambda>c. with_json body (\<lambda>req.
     respond order_map_error
       (create_order cfg \<lparr>coi_seller = corq_seller req, coi_buyer = idn_user c, coi_lines = corq_lines req,
          coi_address = corq_address req, coi_currency = corq_currency req\<rparr>)
       (\<lambda>(r, secret). ok_json 201 (JObj [(''order'', order_lines_body r), (''stripe_client_secret'', JStr secret)]))))"

definition http_get_order :: "'x order_cfg \<Rightarrow> string \<Rightarrow> 'x order_handler" where
  "http_get_order cfg id_param = with_uuid cfg id_param ''order id'' (\<lambda>i.
     respond order_map_error (get_order i) (\<lambda>r. ok_json 200 (order_lines_body r)))"

definition http_buyer_orders ::
  "identity option \<Rightarrow> int option option \<Rightarrow> int option option \<Rightarrow> 'x order_handler" where
  "http_buyer_orders tc lim off = with_identity tc (\<lambda>c.
     let p = page_from_request lim off in
     respond order_map_error (list_buyer_orders (idn_user c) (fst p) (snd p)) (page_body order_body p))"

definition http_seller_orders ::
  "identity option \<Rightarrow> string \<Rightarrow> int option option \<Rightarrow> int option option \<Rightarrow> 'x order_handler" where
  "http_seller_orders tc st lim off = with_seller tc (\<lambda>s.
     let p = page_from_request lim off in
     respond order_map_error (list_seller_orders s st (fst p) (snd p)) (page_body order_body p))"

definition http_update_status ::
  "'x order_cfg \<Rightarrow> identity option \<Rightarrow> string \<Rightarrow> (string + string) option \<Rightarrow> 'x order_handler" where
  "http_update_status cfg tc id_param body =
     with_seller_or (forbidden ''seller context required'') tc (\<lambda>s.
       with_uuid cfg id_param ''order id'' (\<lambda>i. with_json body (\<lambda>st.
         respond order_map_error (update_order_status cfg s i st)
           (\<lambda>_. ok_json 200 (JObj [(''status'', JStr st)])))))"

subsection \<open>Other services\<close>

text \<open>\<open>RequireInternalToken\<close> (pkg/middleware) in front of the internal routes.\<close>

definition require_internal_token :: "string \<Rightarrow> string \<Rightarrow> 'x order_handler \<Rightarrow> 'x order_handler" where
  "require_internal_token secret got h =
     (if secret = '''' then answer (Response 503 (Some (error_body '''' ''internal endpoint not configured'')))
      else if got \<noteq> secret then answer (Response 401 (Some (error_body '''' ''invalid internal token'')))
      else h)"

definition http_purchase_check :: "(string + (string \<times> uuid \<times> uuid)) option \<Rightarrow> 'x order_handler" where
  "http_purchase_check body = with_json body (\<lambda>(buyer, seller, sku).
     if buyer = '''' then refuse_order (bad_request ''buyer_auth0_id is required'')
     else if seller = nil_uuid then refuse_order (bad_request ''seller_id is required'')
     else if sku = nil_uuid then refuse_order (bad_request ''sku_id is required'')
     else respond order_map_error (check_purchase buyer seller sku)
       (\<lambda>r. ok_json 200 (case r of
          None \<Rightarrow> JObj [(''purchased'', JBool False), (''earliest_order_id'', JStr nil_uuid)]
        | Some (i, name, cd) \<Rightarrow> JObj ([(''purchased'', JBool True), (''earliest_order_id'', JStr i)]
            @ (if name = '''' then [] else [(''product_name'', JStr name)])
            @ (if cd = '''' then [] else [(''sku_code'', JStr cd)])))))"

definition checkout_body :: "checkout_result \<Rightarrow> json" where
  "checkout_body r = JObj (
     [(''order_ids'', JList (map (\<lambda>(x, ls). JStr (ord_id x)) (ckr_orders r))),
      (''stripe_client_secret'', JStr (ckr_secret r)),
      (''stripe_payment_intent_id'', JStr (ckr_intent r)), (''total_amount'', JInt (ckr_total r)),
      (''currency'', JStr (ckr_currency r)), (''subtotal_before_discounts'', JInt (ckr_subtotal r)),
      (''coupon_discount_amount'', JInt (ckr_coupon_discount r)),
      (''point_discount_amount'', JInt (ckr_point_discount r))]
     @ (if ckr_coupon r = '''' then [] else [(''applied_coupon_code'', JStr (ckr_coupon r))]))"

definition http_checkout :: "'x order_cfg \<Rightarrow> (string + checkout_input) option \<Rightarrow> 'x order_handler" where
  "http_checkout cfg body = with_json body (\<lambda>req.
     if cki_buyer req = '''' then refuse_order (bad_request ''buyer_auth0_id is required'')
     else respond order_map_error (create_checkout cfg req) (\<lambda>r. ok_json 201 (checkout_body r)))"

text \<open>
  The webhook: the request body cannot be read, its signature does not verify, or it is an event
  with its type and, for \<open>payment_intent.succeeded\<close>, the id of the intent if the data decodes.
\<close>

datatype webhook_request =
  WebhookUnreadable | WebhookBadSignature | WebhookEvent string "string option"

definition http_stripe_webhook :: "'x order_cfg \<Rightarrow> webhook_request \<Rightarrow> 'x order_handler" where
  "http_stripe_webhook cfg req =
     (let ok = ok_json 200 (JObj [(''status'', JStr ''ok'')]) in
      case req of
        WebhookUnreadable \<Rightarrow> answer (Response 503 (Some (error_body '''' ''failed to read body'')))
      | WebhookBadSignature \<Rightarrow> answer (Response 400 (Some (error_body '''' ''invalid signature'')))
      | WebhookEvent ty data \<Rightarrow>
          if ty = ''payment_intent.succeeded'' then
            (case data of
               None \<Rightarrow> answer (Response 400 (Some (error_body '''' ''invalid event data'')))
             | Some pi \<Rightarrow> respond (\<lambda>e. e) (handle_payment_success cfg pi) (\<lambda>_. ok))
          else answer ok)"

subsection \<open>Payouts and commission rules\<close>

definition http_payouts :: "identity option \<Rightarrow> int option option \<Rightarrow> int option option \<Rightarrow> 'x order_handler" where
  "http_payouts tc lim off = with_seller tc (\<lambda>s.
     let p = page_from_request lim off in
     respond order_map_error (list_payouts s (fst p) (snd p)) (page_body payout_body p))"

definition http_rules :: "int option option \<Rightarrow> int option option \<Rightarrow> 'x order_handler" where
  "http_rules lim off =
     (let p = page_from_request lim off in
      respond order_map_error (list_commission_rules (fst p) (snd p)) (page_body rule_body p))"

definition http_create_rule :: "(string + commission_rule) option \<Rightarrow> 'x order_handler" where
  "http_create_rule body = with_json body (\<lambda>r.
     respond order_map_error (create_commission_rule r) (\<lambda>r. ok_json 201 (rule_body r)))"

subsection \<open>Cancellation requests\<close>

text \<open>These handlers pass the service's errors on without \<open>mapError\<close>.\<close>

definition http_create_request ::
  "'x order_cfg \<Rightarrow> identity option \<Rightarrow> string \<Rightarrow> (string + string) option \<Rightarrow> 'x order_handler" where
  "http_create_request cfg tc id_param body = with_identity tc (\<lambda>c.
     with_uuid cfg id_param ''order id'' (\<lambda>i. with_json body (\<lambda>reason.
       respond (\<lambda>e. e) (request_cancellation cfg i (idn_user c) (trim_space reason))
         (\<lambda>r. ok_json 201 (request_body r)))))"

definition http_latest_request :: "'x order_cfg \<Rightarrow> identity option \<Rightarrow> string \<Rightarrow> 'x order_handler" where
  "http_latest_request cfg tc id_param = with_identity tc (\<lambda>c.
     with_uuid cfg id_param ''order id'' (\<lambda>i.
       respond (\<lambda>e. e) (get_latest_for_order i (idn_user c))
         (\<lambda>r. case r of
            None \<Rightarrow> http_error (not_found ''no cancellation request for this order'' :: order_err error)
          | Some r \<Rightarrow> ok_json 200 (request_body r))))"

definition http_list_requests ::
  "identity option \<Rightarrow> string \<Rightarrow> int option option \<Rightarrow> int option option \<Rightarrow> 'x order_handler" where
  "http_list_requests tc st lim off = with_seller tc (\<lambda>s.
     let st = (if trim_space st = '''' then ''pending'' else trim_space st);
         p = page_from_request lim off in
     respond (\<lambda>e. e) (list_requests s st (fst p) (snd p)) (page_body request_body p))"

definition http_get_request :: "'x order_cfg \<Rightarrow> identity option \<Rightarrow> string \<Rightarrow> 'x order_handler" where
  "http_get_request cfg tc id_param = with_seller tc (\<lambda>s.
     with_uuid cfg id_param ''cancellation request id'' (\<lambda>i.
       respond (\<lambda>e. e) (get_request_for_seller s i) (\<lambda>r. ok_json 200 (request_body r))))"

text \<open>The body of an approval is optional: \<open>None\<close> when there is no content.\<close>

definition http_approve ::
  "'x order_cfg \<Rightarrow> identity option \<Rightarrow> string \<Rightarrow> (string + string) option \<Rightarrow> 'x order_handler" where
  "http_approve cfg tc id_param body = with_seller tc (\<lambda>s.
     with_uuid cfg id_param ''cancellation request id'' (\<lambda>i.
       with_json (case body of None \<Rightarrow> Some (Inr '''') | Some b \<Rightarrow> Some b) (\<lambda>comment.
         respond (\<lambda>e. e) (approve_cancellation cfg i s (trim_space comment))
           (\<lambda>r. ok_json 200 (request_body r)))))"

definition http_reject ::
  "'x order_cfg \<Rightarrow> identity option \<Rightarrow> string \<Rightarrow> (string + string) option \<Rightarrow> 'x order_handler" where
  "http_reject cfg tc id_param body = with_seller tc (\<lambda>s.
     with_uuid cfg id_param ''cancellation request id'' (\<lambda>i. with_json body (\<lambda>comment.
       if trim_space comment = '''' then
         refuse_order (bad_request ''seller_comment is required when rejecting a cancellation request'')
       else respond (\<lambda>e. e) (reject_cancellation cfg i s (trim_space comment))
         (\<lambda>r. ok_json 200 (request_body r)))))"

definition http_admin_refund ::
  "'x order_cfg \<Rightarrow> string \<Rightarrow> string \<Rightarrow> (string + string) option \<Rightarrow> 'x order_handler" where
  "http_admin_refund cfg id_param user body = with_uuid cfg id_param ''order id'' (\<lambda>i.
     if user = '''' then refuse_order (unauthorized ''missing X-User-ID'')
     else with_json body (\<lambda>reason.
       if trim_space reason = '''' then refuse_order (bad_request ''reason is required'')
       else respond (\<lambda>e. e) (admin_force_cancel cfg i user (trim_space reason))
         (\<lambda>r. ok_json 200 (request_body r))))"

end
