(* ===== verification/Order_Rpc.thy ===== *)
theory Order_Rpc
  imports Order_Edge
begin

text \<open>
  Order service, the remaining adapters: the gRPC server (internal/adapter/grpc), the subscriber to
  shipping events (internal/adapter/pubsub) and the HTTP clients of the coupon and loyalty services
  (internal/adapter/httpclient). The conversion of rows to protobuf messages is not modelled: an
  answer is the rows. A client turns the status and the JSON of a reply into a result; the
  transport, given by one function per route, may also fail with a text.
\<close>

subsection \<open>gRPC\<close>

definition lower_char :: "char \<Rightarrow> char" where
  "lower_char c = (let n = of_char c :: nat in if 65 \<le> n \<and> n \<le> 90 then char_of (n + 32) else c)"

definition has_suffix :: "string \<Rightarrow> string \<Rightarrow> bool" where
  "has_suffix s p = has_prefix (rev s) (rev p)"

fun app_error_code :: "nat \<Rightarrow> string \<Rightarrow> grpc_code" where
  "app_error_code st c =
     (if st = 400 then GrpcInvalidArgument
      else if st = 401 then GrpcUnauthenticated
      else if st = 403 then GrpcPermissionDenied
      else if st = 404 then GrpcNotFound
      else if st = 409 then
        (if has_suffix c ''_ALREADY_EXISTS'' then GrpcAlreadyExists else GrpcFailedPrecondition)
      else if st = 429 then GrpcResourceExhausted
      else if st \<in> {502, 503, 504} then GrpcUnavailable
      else GrpcInternal)"

text \<open>The text of an error that is no \<open>AppError\<close>.\<close>

fun plain_error_text :: "order_err error \<Rightarrow> string" where
  "plain_error_text (Sentinel d) = order_message d"
| "plain_error_text (Pg e) = pg_message e"
| "plain_error_text _ = ''''"

definition order_grpc_error :: "order_err error \<Rightarrow> grpc_code" where
  "order_grpc_error e =
     (case as_app_error e of
        Some (AppError st c m inner) \<Rightarrow> app_error_code st c
      | _ \<Rightarrow>
          let text = map lower_char (plain_error_text e) in
          if str_contains text ''not found'' then GrpcNotFound
          else if str_contains text ''bad request'' \<or> str_contains text ''invalid'' then GrpcInvalidArgument
          else GrpcInternal)"

type_synonym ('x, 'a) order_rpc = "('x, 'a grpc_result) otx"

definition rpc :: "('x, 'a) otx \<Rightarrow> ('x, 'a) order_rpc" where
  "rpc m = grpc_respond order_grpc_error m (\<lambda>r. r)"

definition rpc_uuid :: "'x order_cfg \<Rightarrow> string \<Rightarrow> (uuid \<Rightarrow> ('x, 'a) order_rpc) \<Rightarrow> ('x, 'a) order_rpc" where
  "rpc_uuid cfg text h = (case order_uuid_parse cfg text of
     None \<Rightarrow> tx_return (Inl GrpcInvalidArgument) | Some i \<Rightarrow> h i)"

text \<open>A line of the message has a SKU and a quantity only; a SKU that does not parse is the nil UUID.\<close>

definition rpc_line :: "'x order_cfg \<Rightarrow> string \<times> int \<Rightarrow> line_input" where
  "rpc_line cfg l = \<lparr>lin_sku = (case order_uuid_parse cfg (fst l) of None \<Rightarrow> nil_uuid | Some i \<Rightarrow> i),
     lin_name = '''', lin_code = '''', lin_quantity = snd l, lin_price = 0\<rparr>"

definition rpc_address :: "string \<Rightarrow> string" where
  "rpc_address s = (if s = '''' then ''{}'' else s)"

definition rpc_create_order ::
  "'x order_cfg \<Rightarrow> string \<Rightarrow> string \<Rightarrow> (string \<times> int) list \<Rightarrow> string
   \<Rightarrow> ('x, (order_row \<times> order_line list) \<times> string) order_rpc" where
  "rpc_create_order cfg seller buyer ls address = rpc_uuid cfg seller (\<lambda>s.
     rpc (create_order cfg \<lparr>coi_seller = s, coi_buyer = buyer, coi_lines = map (rpc_line cfg) ls,
            coi_address = rpc_address address, coi_currency = ''''\<rparr>))"

definition rpc_get_order :: "'x order_cfg \<Rightarrow> string \<Rightarrow> ('x, order_row \<times> order_line list) order_rpc" where
  "rpc_get_order cfg text = rpc_uuid cfg text (\<lambda>i. rpc (get_order i))"

definition rpc_page :: "(int \<times> int) option \<Rightarrow> int \<times> int" where
  "rpc_page p = (case p of None \<Rightarrow> (20, 0)
     | Some (l, o') \<Rightarrow> (if l > 0 then l else 20, if o' > 0 then o' else 0))"

definition rpc_buyer_orders :: "string \<Rightarrow> (int \<times> int) option \<Rightarrow> ('x, order_row list \<times> nat) order_rpc" where
  "rpc_buyer_orders buyer p = rpc (list_buyer_orders buyer (fst (rpc_page p)) (snd (rpc_page p)))"

definition rpc_seller_orders ::
  "'x order_cfg \<Rightarrow> string \<Rightarrow> string \<Rightarrow> (int \<times> int) option \<Rightarrow> ('x, order_row list \<times> nat) order_rpc" where
  "rpc_seller_orders cfg seller st p = rpc_uuid cfg seller (\<lambda>s.
     rpc (list_seller_orders s st (fst (rpc_page p)) (snd (rpc_page p))))"

definition rpc_update_status :: "'x order_cfg \<Rightarrow> string \<Rightarrow> string \<Rightarrow> ('x, order_row \<times> order_line list) order_rpc" where
  "rpc_update_status cfg text st = rpc_uuid cfg text (\<lambda>i.
     rpc (tx_bind (get_order i) (\<lambda>(x, ls).
          tx_bind (update_order_status cfg (ord_seller x) i st) (\<lambda>_. get_order i))))"

definition rpc_payouts :: "'x order_cfg \<Rightarrow> string \<Rightarrow> (int \<times> int) option \<Rightarrow> ('x, payout_row list \<times> nat) order_rpc" where
  "rpc_payouts cfg seller p = rpc_uuid cfg seller (\<lambda>s.
     rpc (list_payouts s (fst (rpc_page p)) (snd (rpc_page p))))"

text \<open>The five cancellation RPCs refuse every call.\<close>

definition rpc_cancellation :: "('x, 'a) order_rpc" where
  "rpc_cancellation = tx_return (Inl GrpcUnimplemented)"

subsection \<open>Shipping events\<close>

text \<open>The event's type and its order id, if the data decodes.\<close>

definition on_shipping_event :: "'x order_cfg \<Rightarrow> string \<Rightarrow> order_err error + string \<Rightarrow> ('x, unit) otx" where
  "on_shipping_event cfg ty data =
     (let set = (\<lambda>st. case data of
          Inl e \<Rightarrow> tx_throw e
        | Inr text \<Rightarrow> (case order_uuid_parse cfg text of
            None \<Rightarrow> tx_throw (Sentinel (ErrRemote ''parse order_id''))
          | Some i \<Rightarrow> set_order_status i st)) in
      if ty = ''shipment.shipped'' then set StShipped
      else if ty = ''shipment.delivered'' then set StDelivered
      else tx_return ())"

subsection \<open>HTTP clients\<close>

text \<open>A reply of another service: no reply (with a text), or a status and the decoded body.\<close>

type_synonym http_reply = "string + nat \<times> json option"

fun json_field :: "string \<Rightarrow> json \<Rightarrow> json option" where
  "json_field k (JObj kvs) = map_of kvs k"
| "json_field k _ = None"

text \<open>\<open>json.Unmarshal\<close> leaves a field that is missing at its zero value.\<close>

definition str_field :: "string \<Rightarrow> json \<Rightarrow> string" where
  "str_field k j = (case json_field k j of Some (JStr s) \<Rightarrow> s | _ \<Rightarrow> '''')"

definition int_field :: "string \<Rightarrow> json \<Rightarrow> int" where
  "int_field k j = (case json_field k j of Some (JInt n) \<Rightarrow> n | _ \<Rightarrow> 0)"

definition reply_code :: "json option \<Rightarrow> string" where
  "reply_code b = (case b of None \<Rightarrow> '''' | Some j \<Rightarrow> str_field ''code'' j)"

definition translate_coupon_error :: "string \<Rightarrow> order_err" where
  "translate_coupon_error c =
     (if c = ''COUPON_NOT_FOUND'' then ErrCartCouponNotFound
      else if c = ''COUPON_EXPIRED'' then ErrCartCouponExpired
      else if c = ''COUPON_REVOKED'' then ErrCartCouponRevoked
      else if c = ''COUPON_NOT_STARTED'' then ErrCartCouponNotStarted
      else if c = ''COUPON_USAGE_LIMIT'' then ErrCartCouponUsageLimit
      else if c = ''COUPON_PER_USER_LIMIT'' then ErrCartCouponPerUserLimit
      else if c = ''COUPON_MIN_ORDER'' then ErrCartCouponMinOrder
      else if c = ''COUPON_CURRENCY'' then ErrCartCouponCurrency
      else ErrRemote ''coupon service'')"

definition translate_loyalty_error :: "string \<Rightarrow> order_err" where
  "translate_loyalty_error c =
     (if c = ''INSUFFICIENT_POINTS'' then ErrCartInsufficientPoints
      else if c = ''RESERVATION_TERMINAL'' then ErrRemote ''loyalty reservation no longer pending''
      else ErrRemote ''loyalty service'')"

text \<open>\<open>postJSON\<close> and \<open>doJSON\<close>: the body of a 200 or 201, or the translated error.\<close>

definition post_json ::
  "(string \<Rightarrow> order_err) \<Rightarrow> ('x \<Rightarrow> http_reply \<times> 'x) \<Rightarrow> (json option \<Rightarrow> order_err error + 'a) \<Rightarrow> ('x, 'a) call" where
  "post_json translate send decode x =
     (case send x of
        (Inl text, x) \<Rightarrow> (Inl (Sentinel (ErrRemote text)), x)
      | (Inr (st, body), x) \<Rightarrow>
          if st = 200 \<or> st = 201 then (decode body, x)
          else (Inl (Sentinel (translate (reply_code body))), x))"

definition decoding :: "(json \<Rightarrow> order_err error + 'a) \<Rightarrow> json option \<Rightarrow> order_err error + 'a" where
  "decoding f body = (case body of None \<Rightarrow> Inl (Sentinel (ErrRemote ''decode response'')) | Some j \<Rightarrow> f j)"

definition parse_field :: "(string \<Rightarrow> uuid option) \<Rightarrow> string \<Rightarrow> json \<Rightarrow> (uuid \<Rightarrow> order_err error + 'a) \<Rightarrow> order_err error + 'a" where
  "parse_field parse k j f = (case parse (str_field k j) of
     None \<Rightarrow> Inl (Sentinel (ErrRemote (''parse '' @ k))) | Some i \<Rightarrow> f i)"

definition coupon_reserve_body :: "string \<Rightarrow> string \<Rightarrow> (uuid \<times> int) list \<Rightarrow> string \<Rightarrow> json" where
  "coupon_reserve_body cd buyer subs cur = JObj
     [(''code'', JStr cd), (''buyer_auth0_id'', JStr buyer), (''currency'', JStr cur),
      (''seller_subtotals'', json_slice (map (\<lambda>(i, n). JObj [(''seller_id'', JStr i), (''subtotal'', JInt n)]) subs))]"

definition decode_coupon_grant :: "(string \<Rightarrow> uuid option) \<Rightarrow> json \<Rightarrow> order_err error + coupon_grant" where
  "decode_coupon_grant parse j =
     parse_field parse ''reservation_id'' j (\<lambda>h. parse_field parse ''coupon_id'' j (\<lambda>c.
       let grant = (\<lambda>s. \<lparr>cgr_hold = h, cgr_coupon = c, cgr_seller = s, cgr_discount = int_field ''discount_amount'' j\<rparr>) in
       if str_field ''applicable_seller_id'' j = '''' then Inr (grant None)
       else parse_field parse ''applicable_seller_id'' j (\<lambda>s. Inr (grant (Some s)))))"

record 'x coupon_routes =
  rt_coupon_reserve :: "json \<Rightarrow> 'x \<Rightarrow> http_reply \<times> 'x"
  rt_coupon_commit :: "uuid \<Rightarrow> json \<Rightarrow> 'x \<Rightarrow> http_reply \<times> 'x"
  rt_coupon_release :: "uuid \<Rightarrow> json \<Rightarrow> 'x \<Rightarrow> http_reply \<times> 'x"

definition coupon_commit_body :: "uuid \<Rightarrow> string \<Rightarrow> json" where
  "coupon_commit_body order_id pi =
     JObj [(''order_id'', JStr order_id), (''stripe_payment_intent_id'', JStr pi)]"

definition coupon_client :: "(string \<Rightarrow> uuid option) \<Rightarrow> 'x coupon_routes \<Rightarrow> 'x coupon_port" where
  "coupon_client parse rt = \<lparr>
     coupon_reserve = (\<lambda>cd buyer subs cur. post_json translate_coupon_error
       (rt_coupon_reserve rt (coupon_reserve_body cd buyer subs cur)) (decoding (decode_coupon_grant parse))),
     coupon_commit = (\<lambda>h order_id pi. post_json translate_coupon_error
       (rt_coupon_commit rt h (coupon_commit_body order_id pi))
       (decoding (\<lambda>j. parse_field parse ''redemption_id'' j (\<lambda>_. Inr ())))),
     coupon_release = (\<lambda>h reason. post_json translate_coupon_error
       (rt_coupon_release rt h (JObj [(''reason'', JStr reason)])) (\<lambda>_. Inr ()))\<rparr>"

record 'x loyalty_routes =
  rt_point_reserve :: "json \<Rightarrow> 'x \<Rightarrow> http_reply \<times> 'x"
  rt_point_commit :: "uuid \<Rightarrow> json \<Rightarrow> 'x \<Rightarrow> http_reply \<times> 'x"
  rt_point_release :: "uuid \<Rightarrow> json \<Rightarrow> 'x \<Rightarrow> http_reply \<times> 'x"
  rt_point_earn :: "json \<Rightarrow> 'x \<Rightarrow> http_reply \<times> 'x"

text \<open>\<open>AwardEarn\<close> accepts 200 with a body and 204 without one.\<close>

definition award_earn_call :: "('x \<Rightarrow> http_reply \<times> 'x) \<Rightarrow> ('x, int) call" where
  "award_earn_call send x =
     (case send x of
        (Inl text, x) \<Rightarrow> (Inl (Sentinel (ErrRemote text)), x)
      | (Inr (st, body), x) \<Rightarrow>
          if st = 200 then
            (case body of None \<Rightarrow> (Inl (Sentinel (ErrRemote ''decode earn'')), x)
             | Some j \<Rightarrow> (Inr (int_field ''amount'' j), x))
          else if st = 204 then (Inr 0, x)
          else (Inl (Sentinel (ErrRemote ''loyalty award earn'')), x))"

definition loyalty_client :: "(string \<Rightarrow> uuid option) \<Rightarrow> 'x loyalty_routes \<Rightarrow> 'x point_port" where
  "loyalty_client parse rt = \<lparr>
     point_reserve = (\<lambda>buyer n. post_json translate_loyalty_error
       (rt_point_reserve rt (JObj [(''buyer_auth0_id'', JStr buyer), (''amount'', JInt n)]))
       (decoding (\<lambda>j. parse_field parse ''reservation_id'' j (\<lambda>h.
          Inr \<lparr>pgr_hold = h, pgr_amount = int_field ''amount'' j\<rparr>)))),
     point_commit = (\<lambda>h buyer order_id pi subtotal cur. case h of
         None \<Rightarrow> award_earn_call (rt_point_earn rt (JObj
           [(''buyer_auth0_id'', JStr buyer), (''order_id'', JStr order_id),
            (''paid_subtotal'', JInt subtotal), (''currency'', JStr cur)]))
       | Some h \<Rightarrow> post_json translate_loyalty_error
           (rt_point_commit rt h (JObj
             [(''order_id'', JStr order_id), (''stripe_payment_intent_id'', JStr pi),
              (''paid_subtotal'', JInt subtotal), (''currency'', JStr cur)]))
           (decoding (\<lambda>j. Inr (int_field ''earned'' j)))),
     point_release = (\<lambda>h reason. post_json translate_loyalty_error
       (rt_point_release rt h (JObj [(''reason'', JStr reason)])) (\<lambda>_. Inr ()))\<rparr>"

end
