(* ===== verification/Outcomes.thy ===== *)
theory Outcomes
  imports Transport
begin

text \<open>
  Reasoning about both outcomes of an operation: \<open>outcome m Q E w\<close> says that on \<open>w\<close> the operation
  succeeds with \<open>Q\<close> or fails with \<open>E\<close>. It is used where the code goes on after an error, or where
  what matters is what an error leaves behind; \<open>hkeeps\<close> is preservation on a healthy database,
  for invariants that a failed statement between two transactions would break.
\<close>

named_theorems outcome_intros "introduction rules for both outcomes of an operation"

definition outcome ::
  "('s, 'd, 'a) tx \<Rightarrow> ('a \<Rightarrow> 's world \<Rightarrow> bool) \<Rightarrow> ('d error \<Rightarrow> 's world \<Rightarrow> bool) \<Rightarrow> 's world \<Rightarrow> bool" where
  "outcome m Q E w = (case m w of (Inl e, w') \<Rightarrow> E e w' | (Inr x, w') \<Rightarrow> Q x w')"

lemma outcomeD:
  "outcome m Q E w \<Longrightarrow> m w = (Inr x, w') \<Longrightarrow> Q x w'"
  "outcome m Q E w \<Longrightarrow> m w = (Inl e, w') \<Longrightarrow> E e w'"
  by (simp_all add: outcome_def)

lemma outcomeI:
  "(\<And>x w'. m w = (Inr x, w') \<Longrightarrow> Q x w') \<Longrightarrow> (\<And>e w'. m w = (Inl e, w') \<Longrightarrow> E e w') \<Longrightarrow> outcome m Q E w"
  by (auto simp: outcome_def split: prod.splits sum.splits)

lemma outcome_snd: "outcome m (\<lambda>_. P) (\<lambda>_. P) w \<Longrightarrow> P (snd (m w))"
  by (auto simp: outcome_def split: prod.splits sum.splits)

lemma outcome_wp: "outcome m Q E w \<Longrightarrow> wp m Q w"
  by (auto simp: outcome_def wp_def split: prod.splits sum.splits)

lemma outcome_mono:
  "outcome m Q E w \<Longrightarrow> (\<And>x w'. Q x w' \<Longrightarrow> Q' x w') \<Longrightarrow> (\<And>e w'. E e w' \<Longrightarrow> E' e w') \<Longrightarrow> outcome m Q' E' w"
  by (auto simp: outcome_def split: prod.splits sum.splits)

lemma outcome_conj: "outcome m Q E w \<Longrightarrow> outcome m Q' E' w \<Longrightarrow>
   outcome m (\<lambda>x w. Q x w \<and> Q' x w) (\<lambda>e w. E e w \<and> E' e w) w"
  by (auto simp: outcome_def split: prod.splits sum.splits)

lemma outcome_returnI [outcome_intros]: "Q x w \<Longrightarrow> outcome (tx_return x) Q E w"
  by (simp add: outcome_def tx_return_def)

lemma outcome_throwI [outcome_intros]: "E e w \<Longrightarrow> outcome (tx_throw e) Q E w"
  by (simp add: outcome_def tx_throw_def)

lemma outcome_bindI [outcome_intros]:
  "outcome m (\<lambda>x. outcome (f x) Q E) E w \<Longrightarrow> outcome (tx_bind m f) Q E w"
  by (auto simp: outcome_def tx_bind_def split: prod.splits sum.splits)

text \<open>Sequencing with an intermediate condition.\<close>

lemma outcome_seq:
  "outcome m P E w \<Longrightarrow> (\<And>x w'. P x w' \<Longrightarrow> outcome (f x) Q E w') \<Longrightarrow> outcome (tx_bind m f) Q E w"
  by (rule outcome_bindI, rule outcome_mono)

lemma outcome_catchI [outcome_intros]:
  "outcome m Q (\<lambda>e. outcome (h e) Q E) w \<Longrightarrow> outcome (tx_catch m h) Q E w"
  by (auto simp: outcome_def tx_catch_def split: prod.splits sum.splits)

lemma outcome_map_errorI [outcome_intros]:
  "outcome m Q (\<lambda>e. E (f e)) w \<Longrightarrow> outcome (tx_map_error f m) Q E w"
  by (auto simp: outcome_def tx_map_error_def tx_catch_def tx_throw_def split: prod.splits sum.splits)

lemma outcome_nowI [outcome_intros]: "Q (clock w) w \<Longrightarrow> outcome now Q E w"
  by (simp add: outcome_def now_def)

lemma outcome_new_uuidI [outcome_intros]:
  "(\<And>i w'. store w' = store w \<Longrightarrow> clock w' = clock w \<Longrightarrow> aborted w' = aborted w \<Longrightarrow> faults w' = faults w
    \<Longrightarrow> events w' = events w \<Longrightarrow> Q i w') \<Longrightarrow> outcome new_uuid Q E w"
  by (simp add: outcome_def new_uuid_def)

lemma outcome_publishI [outcome_intros]:
  "(\<And>w'. store w' = store w \<Longrightarrow> clock w' = clock w \<Longrightarrow> aborted w' = aborted w \<Longrightarrow> faults w' = faults w
    \<Longrightarrow> events w' = events w @ [e] \<Longrightarrow> Q () w') \<Longrightarrow> outcome (publish e) Q E w"
  by (simp add: outcome_def publish_def)

lemma outcome_ifI [outcome_intros]:
  "(c \<Longrightarrow> outcome m Q E w) \<Longrightarrow> (\<not> c \<Longrightarrow> outcome n Q E w) \<Longrightarrow> outcome (if c then m else n) Q E w"
  by simp

lemma outcome_case_optionI [outcome_intros]:
  "(x = None \<Longrightarrow> outcome m Q E w) \<Longrightarrow> (\<And>y. x = Some y \<Longrightarrow> outcome (f y) Q E w)
   \<Longrightarrow> outcome (case x of None \<Rightarrow> m | Some y \<Rightarrow> f y) Q E w"
  by (cases x) auto

lemma outcome_case_sumI [outcome_intros]:
  "(\<And>a. x = Inl a \<Longrightarrow> outcome (f a) Q E w) \<Longrightarrow> (\<And>b. x = Inr b \<Longrightarrow> outcome (g b) Q E w)
   \<Longrightarrow> outcome (case x of Inl a \<Rightarrow> f a | Inr b \<Rightarrow> g b) Q E w"
  by (cases x) auto

lemma outcome_case_prodI [outcome_intros]:
  "(\<And>a b. p = (a, b) \<Longrightarrow> outcome (f a b) Q E w) \<Longrightarrow> outcome (case p of (a, b) \<Rightarrow> f a b) Q E w"
  by (cases p) auto

lemma outcome_LetI [outcome_intros]: "outcome (f v) Q E w \<Longrightarrow> outcome (Let v f) Q E w"
  by simp

lemma outcome_for:
  assumes "I xs a w"
    and "\<And>x xs a w. I (x # xs) a w \<Longrightarrow> outcome (f x a) (I xs) E w"
    and "\<And>a w. I [] a w \<Longrightarrow> Q a w"
  shows "outcome (tx_for xs f a) Q E w"
  using assms(1)
proof (induction xs arbitrary: a w)
  case Nil
  then show ?case by (auto intro: outcome_returnI assms(3))
next
  case (Cons x xs)
  from Cons.prems have "outcome (f x a) (I xs) E w" by (rule assms(2))
  then have "outcome (f x a) (\<lambda>a'. outcome (tx_for xs f a') Q E) E w"
    by (rule outcome_mono) (auto intro: Cons.IH)
  then show ?case by (auto intro: outcome_bindI)
qed

subsection \<open>On a healthy database\<close>

text \<open>
  A healthy statement yields what its effect says; a refused one aborts its transaction.
\<close>

lemma outcome_sql:
  assumes "healthy w"
    and "\<And>x s'. stmt (clock w) (store w) = Inr (x, s') \<Longrightarrow> Q x (w\<lparr>store := s'\<rparr>)"
    and "\<And>e. stmt (clock w) (store w) = Inl e \<Longrightarrow> E (Pg e) (w\<lparr>aborted := True\<rparr>)"
  shows "outcome (sql stmt) Q E w"
  using assms by (auto simp: outcome_def sql_healthy split: sum.splits)

lemma outcome_query:
  "healthy w \<Longrightarrow> Q (q (clock w) (store w)) w \<Longrightarrow> outcome (query q) Q E w"
  unfolding query_def by (rule outcome_sql) auto

text \<open>
  Such a transaction either commits what its body has done, or restores the tables; afterwards the
  database is healthy again. The body may not run out of its transaction.
\<close>

lemma outcome_run_tx:
  assumes "healthy w"
    and "outcome body (\<lambda>x w1. healthy w1 \<and> Q x w1)
           (\<lambda>e w1. faults w1 = [] \<and> E e (w1\<lparr>store := store w, aborted := False\<rparr>)) w"
  shows "outcome (run_tx body) Q E w"
  using assms
  by (auto simp: outcome_def run_tx_healthy split: prod.splits sum.splits)

definition hkeeps :: "('s \<Rightarrow> bool) \<Rightarrow> ('s, 'd, 'a) tx \<Rightarrow> bool" where
  "hkeeps I m \<longleftrightarrow> (\<forall>w. healthy w \<longrightarrow> I (store w) \<longrightarrow>
     healthy (snd (m w)) \<and> I (store (snd (m w))))"

lemma hkeepsD: "hkeeps I m \<Longrightarrow> healthy w \<Longrightarrow> I (store w) \<Longrightarrow> healthy (snd (m w)) \<and> I (store (snd (m w)))"
  by (simp add: hkeeps_def)

lemma hkeepsI:
  "(\<And>w. healthy w \<Longrightarrow> I (store w) \<Longrightarrow>
     outcome m (\<lambda>_ w'. healthy w' \<and> I (store w')) (\<lambda>_ w'. healthy w' \<and> I (store w')) w) \<Longrightarrow> hkeeps I m"
  by (auto simp: hkeeps_def dest: outcome_snd)

lemma outcome_hkeeps:
  "hkeeps I m \<Longrightarrow> healthy w \<Longrightarrow> I (store w) \<Longrightarrow>
   outcome m (\<lambda>_ w'. healthy w' \<and> I (store w')) (\<lambda>_ w'. healthy w' \<and> I (store w')) w"
  by (rule outcomeI) (auto dest: hkeepsD)

lemma hkeeps_bind [keeps_intros]:
  assumes "hkeeps I m" and "\<And>x. hkeeps I (f x)"
  shows "hkeeps I (tx_bind m f)"
proof (rule hkeepsI)
  fix w :: "'a world"
  assume "healthy w" and "I (store w)"
  then have "outcome m (\<lambda>_ w'. healthy w' \<and> I (store w')) (\<lambda>_ w'. healthy w' \<and> I (store w')) w"
    by (rule outcome_hkeeps [OF assms(1)])
  then show "outcome (tx_bind m f) (\<lambda>_ w'. healthy w' \<and> I (store w')) (\<lambda>_ w'. healthy w' \<and> I (store w')) w"
    by (rule outcome_bindI [OF outcome_mono]) (auto intro: outcome_hkeeps [OF assms(2)])
qed

lemma hkeeps_catch [keeps_intros]:
  assumes "hkeeps I m" and "\<And>e. hkeeps I (h e)"
  shows "hkeeps I (tx_catch m h)"
proof (rule hkeepsI)
  fix w :: "'a world"
  assume "healthy w" and "I (store w)"
  then have "outcome m (\<lambda>_ w'. healthy w' \<and> I (store w')) (\<lambda>_ w'. healthy w' \<and> I (store w')) w"
    by (rule outcome_hkeeps [OF assms(1)])
  then show "outcome (tx_catch m h) (\<lambda>_ w'. healthy w' \<and> I (store w')) (\<lambda>_ w'. healthy w' \<and> I (store w')) w"
    by (rule outcome_catchI [OF outcome_mono]) (auto intro: outcome_hkeeps [OF assms(2)])
qed

lemma hkeeps_map_error [keeps_intros]: "hkeeps I m \<Longrightarrow> hkeeps I (tx_map_error f m)"
  unfolding tx_map_error_def by (rule hkeeps_catch) (simp_all add: hkeeps_def tx_throw_def)

lemma hkeeps_basic [keeps_intros]:
  "hkeeps I (tx_return x)" "hkeeps I (tx_throw e)" "hkeeps I now" "hkeeps I new_uuid" "hkeeps I (publish ev)"
  by (simp_all add: hkeeps_def tx_return_def tx_throw_def now_def new_uuid_def publish_def)

lemma hkeeps_query [keeps_intros]: "hkeeps I (query q)"
  by (simp add: hkeeps_def query_def sql_healthy)

lemma hkeeps_if [keeps_intros]:
  "(c \<Longrightarrow> hkeeps I m) \<Longrightarrow> (\<not> c \<Longrightarrow> hkeeps I n) \<Longrightarrow> hkeeps I (if c then m else n)"
  by simp

lemma hkeeps_case_option [keeps_intros]:
  "hkeeps I m \<Longrightarrow> (\<And>y. hkeeps I (f y)) \<Longrightarrow> hkeeps I (case x of None \<Rightarrow> m | Some y \<Rightarrow> f y)"
  by (cases x) auto

lemma hkeeps_case_sum [keeps_intros]:
  "(\<And>a. hkeeps I (f a)) \<Longrightarrow> (\<And>b. hkeeps I (g b)) \<Longrightarrow> hkeeps I (case x of Inl a \<Rightarrow> f a | Inr b \<Rightarrow> g b)"
  by (cases x) auto

lemma hkeeps_case_prod [keeps_intros]:
  "(\<And>a b. hkeeps I (f a b)) \<Longrightarrow> hkeeps I (case p of (a, b) \<Rightarrow> f a b)"
  by (cases p) auto

lemma hkeeps_Let [keeps_intros]: "hkeeps I (f v) \<Longrightarrow> hkeeps I (Let v f)"
  by simp

lemma hkeeps_for [keeps_intros]: "(\<And>x a. hkeeps I (f x a)) \<Longrightarrow> hkeeps I (tx_for xs f a)"
  by (induction xs arbitrary: a) (auto intro: keeps_intros)

text \<open>A transaction whose body keeps an invariant on every world keeps it on a healthy one.\<close>

definition quiet :: "('s, 'd, 'a) tx \<Rightarrow> bool" where
  "quiet m \<longleftrightarrow> (\<forall>w. faults w = [] \<longrightarrow> faults (snd (m w)) = [])"

lemma quiet_run_tx: "quiet body \<Longrightarrow> healthy w \<Longrightarrow> healthy (snd (run_tx body w))"
proof -
  assume q: "quiet body" and h: "healthy w"
  obtain r w1 where b: "body w = (r, w1)" by fastforce
  with q h have "faults w1 = []" by (simp add: quiet_def healthy_def) (metis snd_conv)
  with h b show ?thesis
    by (cases r) (auto simp: run_tx_healthy healthy_def next_faulty_def)
qed

lemma hkeeps_run_tx:
  "quiet body \<Longrightarrow> keeps I (run_tx body) \<Longrightarrow> hkeeps I (run_tx body)"
  by (auto simp: hkeeps_def quiet_run_tx keepsD)

lemma quiet_intros [keeps_intros]:
  "quiet (tx_return x)" "quiet (tx_throw e)" "quiet now" "quiet new_uuid" "quiet (publish ev)" "quiet (sql stmt)"
  "quiet (query q)"
  by (auto simp: quiet_def tx_return_def tx_throw_def now_def new_uuid_def publish_def query_def sql_def
      next_faulty_def consume_fault_def split: sum.splits)

lemma quiet_bind [keeps_intros]: "quiet m \<Longrightarrow> (\<And>x. quiet (f x)) \<Longrightarrow> quiet (tx_bind m f)"
  unfolding quiet_def tx_bind_def by (auto split: prod.splits sum.splits)

lemma quiet_catch [keeps_intros]: "quiet m \<Longrightarrow> (\<And>e. quiet (h e)) \<Longrightarrow> quiet (tx_catch m h)"
  unfolding quiet_def tx_catch_def by (auto split: prod.splits sum.splits)

lemma quiet_map_error [keeps_intros]: "quiet m \<Longrightarrow> quiet (tx_map_error f m)"
  unfolding tx_map_error_def by (intro keeps_intros)

lemma quiet_cases [keeps_intros]:
  "(c \<Longrightarrow> quiet m) \<Longrightarrow> (\<not> c \<Longrightarrow> quiet n) \<Longrightarrow> quiet (if c then m else n)"
  "quiet m \<Longrightarrow> (\<And>y. quiet (g y)) \<Longrightarrow> quiet (case z of None \<Rightarrow> m | Some y \<Rightarrow> g y)"
  "(\<And>a b. quiet (k a b)) \<Longrightarrow> quiet (case p of (a, b) \<Rightarrow> k a b)"
  "quiet (h v) \<Longrightarrow> quiet (Let v h)"
  by (cases z; cases p; auto)+

lemma quiet_for [keeps_intros]: "(\<And>x a. quiet (f x a)) \<Longrightarrow> quiet (tx_for xs f a)"
  by (induction xs arbitrary: a) (auto intro: keeps_intros)

end
