(* ===== verification/Order_Policy.thy ===== *)
theory Order_Policy
  imports Order_Rpc Outcomes Contracts
begin

text \<open>
  What the use cases of the order service preserve, once and for all: a property of the state that
  the repositories' writes and the calls to other systems keep is kept by every use case, whatever
  fails. The locale \<open>order_policy\<close> lists the writes; the approval of a cancellation may rely on the
  refund that has been made for it.
\<close>

lemma keeps_external:
  "(\<And>s x. I s \<Longrightarrow> I (s\<lparr>remote := x\<rparr>)) \<Longrightarrow> keeps I (external f)"
  by (auto simp: keeps_def external_def split: prod.splits)

lemma keeps_stripe_op:
  assumes "\<And>s x. I s \<Longrightarrow> I (s\<lparr>remote := x\<rparr>)"
    and "\<And>s x c. I s \<Longrightarrow> I (s\<lparr>remote := x, stripe_calls := stripe_calls s @ [c]\<rparr>)"
  shows "keeps I (stripe_op f entry)"
  using assms by (auto simp: keeps_def stripe_op_def split: prod.splits sum.splits)

lemma outcome_keeps:
  "keeps J m \<Longrightarrow> J (store w) \<Longrightarrow> outcome m (\<lambda>_ w'. J (store w')) (\<lambda>_ w'. J (store w')) w"
  by (rule outcomeI) (auto dest: keepsD [of J m w])

lemma outcome_keeps_wp:
  assumes "keeps J m" and "J (store w)" and "wp m Q w"
  shows "outcome m (\<lambda>x w'. Q x w' \<and> J (store w')) (\<lambda>_ w'. J (store w')) w"
  by (rule outcomeI) (use assms keepsD [OF assms(1,2)] wpD [OF assms(3)] in auto)

lemma wp_externalI [wp_intros]:
  "(\<And>x a w'. f (remote (store w)) = (Inr a, x) \<Longrightarrow> store w' = (store w)\<lparr>remote := x\<rparr> \<Longrightarrow> clock w' = clock w
     \<Longrightarrow> Q a w') \<Longrightarrow> wp (external f) Q w"
  by (auto simp: wp_def external_def split: prod.splits sum.splits)

subsection \<open>Reads keep everything\<close>

lemma order_reads_keep [keeps_intros]:
  "keeps I (order_by_id i)" "keeps I (has_purchased_sku b s k)" "keeps I (list_order_rows p lim off)"
  "keeps I (orders_of_buyer b lim off)" "keeps I (orders_of_seller i st lim off)"
  "keeps I (order_by_intent pi)" "keeps I (orders_by_intent pi)" "keeps I (payout_of_order i)"
  "keeps I (payouts_of_seller i lim off)" "keeps I (payouts_of_order i)" "keeps I (applicable_rule i c)"
  "keeps I (list_rules lim off)" "keeps I (request_by_id i)" "keeps I (latest_request i)"
  "keeps I (requests_by_status i st lim off)" "keeps I (requests_by_buyer b lim off)"
  unfolding order_by_id_def has_purchased_sku_def list_order_rows_def orders_of_buyer_def
    orders_of_seller_def order_by_intent_def orders_by_intent_def payout_of_order_def
    payouts_of_seller_def payouts_of_order_def applicable_rule_def list_rules_def request_by_id_def
    latest_request_def requests_by_status_def requests_by_buyer_def
  by (intro keeps_intros)+

lemma wrap_keeps [keeps_intros]: "keeps I m \<Longrightarrow> keeps I (wrap msg m)"
  unfolding wrap_def by (intro keeps_intros)

lemma ignore_error_keeps [keeps_intros]: "keeps I m \<Longrightarrow> keeps I (ignore_error m)"
  unfolding ignore_error_def by (intro keeps_intros)

lemma order_queries_keep [keeps_intros]:
  "keeps I (rule_rate i)" "keeps I (attach_products f ls)" "keeps I (paid_line_items i)"
  "keeps I (check_purchase b i k)" "keeps I (get_order i)" "keeps I (list_buyer_orders b lim off)"
  "keeps I (list_seller_orders i st lim off)" "keeps I (list_payouts i lim off)"
  "keeps I (list_commission_rules lim off)" "keeps I (draft_batch inp ship)"
  "keeps I (resolve_item f g it)"
  unfolding rule_rate_def attach_products_def paid_line_items_def check_purchase_def get_order_def
    list_buyer_orders_def list_seller_orders_def list_payouts_def list_commission_rules_def
    draft_batch_def resolve_item_def
  by (intro keeps_intros)+

lemma cancellation_queries_keep [keeps_intros]:
  "keeps I (load_order i)" "keeps I (assert_buyer x b)" "keeps I (assert_seller x i)"
  "keeps I (get_request i)" "keeps I (load_for_seller i j)" "keeps I (get_request_for_seller i j)"
  "keeps I (get_latest_for_order i b)" "keeps I (list_requests i st lim off)"
  "keeps I (check_refundable x)"
  unfolding load_order_def assert_buyer_def assert_seller_def get_request_def load_for_seller_def
    get_request_for_seller_def get_latest_for_order_def list_requests_def check_refundable_def
  by (intro keeps_intros)+

subsection \<open>The writes\<close>

text \<open>What no update of an order row touches.\<close>

definition same_order :: "order_row \<Rightarrow> order_row \<Rightarrow> bool" where
  "same_order x y \<longleftrightarrow> ord_id y = ord_id x \<and> ord_seller y = ord_seller x \<and> ord_seller_name y = ord_seller_name x
     \<and> ord_buyer y = ord_buyer x
     \<and> ord_subtotal y = ord_subtotal x \<and> ord_shipping y = ord_shipping x
     \<and> ord_commission y = ord_commission x \<and> ord_total y = ord_total x
     \<and> ord_currency y = ord_currency x \<and> ord_address y = ord_address x \<and> ord_created_at y = ord_created_at x
     \<and> ord_coupon_discount y = ord_coupon_discount x \<and> ord_point_discount y = ord_point_discount x
     \<and> ord_coupon_id y = ord_coupon_id x \<and> ord_coupon_hold y = ord_coupon_hold x
     \<and> ord_point_hold y = ord_point_hold x"

text \<open>The request is for the order, and the order has been refunded for it.\<close>

definition linked :: "cancel_request \<Rightarrow> order_row \<Rightarrow> 'x order_state \<Rightarrow> bool" where
  "linked r x s \<longleftrightarrow> (\<exists>r' \<in> set (cancel_requests s). cnr_id r' = cnr_id r \<and> cnr_order r' = ord_id x)
     \<and> (\<exists>x' \<in> set (orders s). ord_id x' = ord_id x \<and> ord_total x' = ord_total x)"

definition refunded :: "uuid \<Rightarrow> int \<Rightarrow> string \<Rightarrow> 'x order_state \<Rightarrow> bool" where
  "refunded request amount refund s \<longleftrightarrow>
     (\<exists>pi. StripeRefund pi amount (''cancellation:'' @ request @ '':refund'') refund \<in> set (stripe_calls s))"

text \<open>Closing a request and calling Stripe keep the link and the refund.\<close>

lemma linked_update:
  assumes "linked r x s" and "\<And>q. cnr_id (g q) = cnr_id q \<and> cnr_order (g q) = cnr_order q"
  shows "linked r x (s\<lparr>cancel_requests := update_where h g (cancel_requests s)\<rparr>)"
proof -
  from assms(1) obtain r' where r': "r' \<in> set (cancel_requests s)" "cnr_id r' = cnr_id r" "cnr_order r' = ord_id x"
    unfolding linked_def by blast
  then have "(if h r' then g r' else r') \<in> set (update_where h g (cancel_requests s))"
    by (simp add: update_where_def)
  moreover have "cnr_id (if h r' then g r' else r') = cnr_id r \<and> cnr_order (if h r' then g r' else r') = ord_id x"
    using r' assms(2) by simp
  ultimately have "\<exists>q \<in> set (update_where h g (cancel_requests s)). cnr_id q = cnr_id r \<and> cnr_order q = ord_id x"
    by blast
  with assms(1) show ?thesis unfolding linked_def by simp
qed

lemma linked_keeps [keeps_intros]:
  "keeps (linked r x) (mark_request_failed i text)" "keeps (linked r x) (stripe_op f entry)"
  "keeps (linked r x) (external h)"
proof -
  show "keeps (linked r x) (mark_request_failed i text)"
    unfolding mark_request_failed_def close_request_def
    by (intro keeps_intros) (auto simp: Let_def linked_update)
  show "keeps (linked r x) (stripe_op f entry)" "keeps (linked r x) (external h)"
    by (intro keeps_stripe_op keeps_external; simp add: linked_def)+
qed

lemma refunded_keeps [keeps_intros]:
  "keeps (refunded i n refund) (mark_request_failed j text)" "keeps (refunded i n refund) (stripe_op f entry)"
  "keeps (refunded i n refund) (external h)"
proof -
  show "keeps (refunded i n refund) (mark_request_failed j text)"
    unfolding mark_request_failed_def close_request_def
    by (intro keeps_intros) (auto simp: Let_def refunded_def)
  show "keeps (refunded i n refund) (stripe_op f entry)" "keeps (refunded i n refund) (external h)"
    by (intro keeps_stripe_op keeps_external; auto simp: refunded_def)+
qed

lemma publish_keeps_any:
  "(\<And>s x. J s \<Longrightarrow> J (s\<lparr>remote := x\<rparr>)) \<Longrightarrow> keeps J (publish_proto cfg e)"
  unfolding publish_proto_def publish_or_fail_def
  by (intro keeps_intros keeps_external; assumption)

lemma wp_create_refund:
  "wp (create_refund cfg pi n key)
     (\<lambda>res w'. \<forall>i. res = Inr i \<longrightarrow> StripeRefund pi n key i \<in> set (stripe_calls (store w'))) w"
  by (auto simp: wp_def create_refund_def stripe_op_def split: prod.splits sum.splits)

text \<open>\<open>refund_order\<close> returns when Stripe has refunded the order's total under the request's key.\<close>

lemma wp_refund_order:
  "wp (refund_order cfg r x) (\<lambda>refund w'. refunded (cnr_id r) (ord_total x) refund (store w')) w"
  unfolding refund_order_def mark_failed_and_throw_def wp_bind
  by (rule wp_mono [OF wp_create_refund])
     (auto simp: wp_simps refunded_def refund_key_def wp_throw split: sum.splits intro!: wpI
       simp: tx_throw_def)

subsection \<open>What the reads find\<close>

definition known_order :: "order_row \<Rightarrow> 'x order_state \<Rightarrow> bool" where
  "known_order x s \<longleftrightarrow> (\<exists>x' \<in> set (orders s). ord_id x' = ord_id x \<and> ord_total x' = ord_total x)"

lemma linkedI:
  "r \<in> set (cancel_requests s) \<Longrightarrow> cnr_order r = ord_id x \<Longrightarrow> known_order x s \<Longrightarrow> linked r x s"
  unfolding linked_def known_order_def by blast

lemma wp_wrap [wp_intros]: "wp m Q w \<Longrightarrow> wp (wrap msg m) Q w"
  unfolding wrap_def by (rule wp_map_errorI)

lemma wp_order_by_id:
  "wp (order_by_id i) (\<lambda>found w'. store w' = store w \<and> (\<forall>x ls. found = Some (x, ls) \<longrightarrow>
     (\<exists>x0 \<in> set (orders (store w)). ord_id x0 = i \<and> x = read_order x0))) w"
  unfolding order_by_id_def by (intro wp_intros) (auto dest: find_Some_mem)

lemma wp_load_order:
  "wp (load_order i) (\<lambda>(x, ls) w'. store w' = store w \<and>
     (\<exists>x0 \<in> set (orders (store w)). ord_id x0 = i \<and> x = read_order x0)) w"
  unfolding load_order_def
  by (intro wp_bindI wp_wrap, rule wp_mono [OF wp_order_by_id])
     (auto simp: wp_simps split: option.splits)

lemma wp_get_request:
  "wp (get_request i) (\<lambda>r w'. store w' = store w \<and> r \<in> set (cancel_requests (store w)) \<and> cnr_id r = i) w"
  unfolding get_request_def request_by_id_def
  by (intro wp_intros) (auto dest: find_Some_mem simp: wp_simps split: option.splits)

lemma wp_load_for_seller:
  "wp (load_for_seller i seller) (\<lambda>(r, x, ls) w'. store w' = store w \<and> r \<in> set (cancel_requests (store w))
     \<and> cnr_id r = i \<and> ord_seller x = seller
     \<and> (\<exists>x0 \<in> set (orders (store w)). ord_id x0 = cnr_order r \<and> x = read_order x0)) w"
  unfolding load_for_seller_def assert_seller_def
  by (intro wp_bindI, rule wp_mono [OF wp_get_request], intro wp_bindI, rule wp_mono [OF wp_load_order])
     (auto simp: wp_simps)

lemma known_read_order: "x0 \<in> set (orders s) \<Longrightarrow> known_order (read_order x0) s"
  by (auto simp: known_order_def read_order_def)

lemma read_order_simps [simp]:
  "ord_id (read_order x) = ord_id x" "ord_total (read_order x) = ord_total x"
  "ord_status (read_order x) = ord_status x" "ord_seller (read_order x) = ord_seller x"
  "ord_buyer (read_order x) = ord_buyer x" "ord_intent (read_order x) = ord_intent x"
  "ord_published_at (read_order x) = ord_published_at x"
  by (simp_all add: read_order_def)

lemma wp_check_refundable:
  "wp (check_refundable x) (\<lambda>_ w'. w' = w \<and> order_can_be_cancelled (ord_status x)) w"
  unfolding check_refundable_def by (auto simp: wp_simps)

lemma wp_create_request:
  "wp (create_request r) (\<lambda>q w'. q \<in> set (cancel_requests (store w')) \<and> cnr_order q = cnr_order r
     \<and> orders (store w') = orders (store w)) w"
  unfolding create_request_def insert_request_stmt_def
  by (intro wp_intros) (auto simp: Let_def split: if_splits)

lemma first_of_sorted:
  "sort_key k (filter p rows) = r # rs \<Longrightarrow> r \<in> set rows \<and> p r"
proof -
  assume "sort_key k (filter p rows) = r # rs"
  then have "r \<in> set (sort_key k (filter p rows))" by simp
  then show ?thesis by simp
qed

lemma wp_latest_request:
  "wp (latest_request i) (\<lambda>found w'. store w' = store w \<and>
     (\<forall>r. found = Some r \<longrightarrow> r \<in> set (cancel_requests (store w)) \<and> cnr_order r = i)) w"
  unfolding latest_request_def
  by (intro wp_intros) (auto split: list.splits dest: first_of_sorted)

lemma publish_proto_store: "\<exists>x. store (snd (publish_proto cfg e w)) = (store w)\<lparr>remote := x\<rparr>"
proof (cases "publish_err cfg")
  case None
  then show ?thesis
    by (intro exI [of _ "remote (store w)"]) (simp add: publish_proto_def publish_or_fail_def tx_defs)
next
  case (Some f)
  then show ?thesis
    by (auto simp: publish_proto_def publish_or_fail_def external_def tx_defs split: prod.splits sum.splits)
qed

lemma wp_publish_proto:
  "wp (publish_proto cfg e) (\<lambda>_ w'. \<exists>x. store w' = (store w)\<lparr>remote := x\<rparr>) w"
  by (rule wpI) (use publish_proto_store [of cfg e w] in simp)

lemma linked_remote [simp]: "linked r x (s\<lparr>remote := z\<rparr>) = linked r x s"
  by (simp add: linked_def)

lemma known_order_remote [simp]: "known_order x (s\<lparr>remote := z\<rparr>) = known_order x s"
  by (simp add: known_order_def)

lemma known_order_same: "orders s' = orders s \<Longrightarrow> known_order x s' = known_order x s"
  by (simp add: known_order_def)

lemma wp_latest_linked:
  "known_order x (store w) \<Longrightarrow> wp (latest_request (ord_id x)) (\<lambda>found w'. known_order x (store w') \<and>
     (\<forall>r. found = Some r \<longrightarrow> linked r x (store w'))) w"
  by (rule wp_mono [OF wp_latest_request]) (auto intro: linkedI)

lemma wp_open_for_admin:
  fixes w :: "'x order_state world"
  assumes "known_order x (store w)"
  shows "wp (open_for_admin cfg x admin reason) (\<lambda>r w'. linked r x (store w')) w"
  unfolding open_for_admin_def
proof (intro wp_bindI, rule wp_mono [OF wp_create_request])
  fix r and w1 :: "'x order_state world"
  assume r: "r \<in> set (cancel_requests (store w1)) \<and> cnr_order r = cnr_order (new_request (ord_id x) admin reason)
    \<and> orders (store w1) = orders (store w)"
  then have "linked r x (store w1)"
    using assms known_order_same [of "store w1" "store w" x] by (auto simp: new_request_def intro: linkedI)
  then show "wp (tx_bind (publish_proto cfg (request_event r x)) (\<lambda>_. tx_return r)) (\<lambda>r w'. linked r x (store w')) w1"
    by (intro wp_bindI wp_mono [OF wp_publish_proto]) (auto simp: wp_simps)
qed

lemma open_for_admin_known: "keeps (known_order x) (open_for_admin cfg y admin reason)"
  unfolding open_for_admin_def create_request_def
  by (intro keeps_intros publish_keeps_any)
    (auto simp: insert_request_stmt_def Let_def known_order_def split: if_splits)

lemma wp_admin_request:
  fixes w :: "'x order_state world"
  assumes "known_order x (store w)"
  shows "wp (admin_request cfg x admin reason) (\<lambda>r w'. linked r x (store w')) w"
proof -
  have fresh: "wp (tx_catch (open_for_admin cfg x admin reason) (reload_for_admin x)) (\<lambda>r w'. linked r x (store w')) w1"
    if known: "known_order x (store w1)" for w1 :: "'x order_state world"
  proof (rule wp_catchI [OF wp_open_for_admin [OF known]])
    fix e w2
    assume "open_for_admin cfg x admin reason w1 = (Inl e, w2)"
    with keepsD [OF open_for_admin_known known, of cfg x admin reason] have "known_order x (store w2)" by simp
    then show "wp (reload_for_admin x e) (\<lambda>r w'. linked r x (store w')) w2"
      unfolding reload_for_admin_def
      by (intro wp_ifI wp_bindI wp_wrap wp_throwI wp_mono [OF wp_latest_linked])
        (auto simp: wp_simps split: option.splits)
  qed
  show ?thesis
    unfolding admin_request_def
    by (intro wp_bindI wp_wrap, rule wp_mono [OF wp_latest_linked [OF assms]])
      (auto intro!: wp_case_optionI wp_ifI wp_returnI fresh)
qed

subsection \<open>What a checkout inserts\<close>

text \<open>The payout of an item is for the order's seller and currency, and not transferred yet.\<close>

definition item_ok :: "checkout_item \<Rightarrow> bool" where
  "item_ok it \<longleftrightarrow> pay_seller (item_payout it) = ord_seller (item_order it)
     \<and> pay_currency (item_payout it) = ord_currency (item_order it)
     \<and> pay_transfer (item_payout it) = None \<and> ord_status (item_order it) = StPending
     \<and> ord_intent (item_order it) = None"

definition items_ok :: "checkout_item list \<Rightarrow> bool" where
  "items_ok items \<longleftrightarrow> (\<forall>it \<in> set items. item_ok it)"

lemma items_ok_simps [simp]:
  "items_ok []" "items_ok (it # items) \<longleftrightarrow> item_ok it \<and> items_ok items"
  "items_ok (xs @ ys) \<longleftrightarrow> items_ok xs \<and> items_ok ys"
  by (auto simp: items_ok_def)

lemma draft_order_ok: "item_ok (fst (draft_order inp ship seller rate))"
  by (simp add: draft_order_def Let_def item_ok_def new_order_def new_payout_def)

lemma wp_draft_batch: "wp (draft_batch inp ship) (\<lambda>ds w'. items_ok (map fst ds)) w"
  unfolding draft_batch_def
  by (rule wp_for [where I = "\<lambda>_ ds _. items_ok (map fst ds)"])
     (auto simp: rule_rate_def applicable_rule_def draft_order_ok intro!: wp_intros)

lemma discount_item_ok: "item_ok (fst d) \<Longrightarrow> item_ok (discount_item g d c q)"
  by (cases d; cases "fst d")
    (auto simp: discount_item_def item_ok_def Let_def split: option.splits)

lemma anchor_points_ok: "items_ok items \<Longrightarrow> items_ok (anchor_points p items)"
  by (auto simp: anchor_points_def item_ok_def split: option.splits list.splits)

lemma apply_discounts_ok:
  assumes "items_ok (map fst ds)"
  shows "items_ok (apply_discounts ds c p)"
proof -
  have "items_ok (map (\<lambda>(d, x, q). discount_item c d x q) (zip ds ys))" for ys
    using assms
  proof (induction ds arbitrary: ys)
    case (Cons d ds)
    then show ?case by (cases ys) (auto intro: discount_item_ok)
  qed simp
  then show ?thesis unfolding apply_discounts_def by (rule anchor_points_ok)
qed

lemma wp_resolve_items: "items_ok items \<Longrightarrow> wp (resolve_items cfg items) (\<lambda>items w'. items_ok items) w"
proof -
  assume ok: "items_ok items"
  have attach: "wp (attach_products f ls) (\<lambda>_ _. True) w1" for f ls and w1 :: "'a order_state world"
    by (auto simp: wp_def split: prod.splits sum.splits)
  have step: "wp (resolve_item f g it) (\<lambda>it w'. item_ok it) w1" if "item_ok it" for f g it and w1 :: "'a order_state world"
    using that unfolding resolve_item_def
    by (cases it) (auto intro!: wp_bindI wp_mono [OF attach] simp: wp_simps item_ok_def)
  show ?thesis
    unfolding resolve_items_def
    by (intro wp_intros, rule wp_for [where I = "\<lambda>rest acc _. items_ok rest \<and> items_ok acc"])
      (auto simp: ok intro!: wp_bindI wp_mono [OF step] wp_returnI)
qed

subsection \<open>What an approval and a payment rely on\<close>

lemma keeps_Ball: "(\<And>x. x \<in> A \<Longrightarrow> keeps (J x) m) \<Longrightarrow> keeps (\<lambda>s. \<forall>x \<in> A. J x s) m"
  by (auto simp: keeps_def)

text \<open>The payout of an order whose seller is known, and the transfer that has been made for it.\<close>

definition seller_known :: "order_row \<Rightarrow> 'x order_state \<Rightarrow> bool" where
  "seller_known x s \<longleftrightarrow> (\<exists>x' \<in> set (orders s). ord_id x' = ord_id x \<and> ord_seller x' = ord_seller x)"

definition payout_due :: "payout_row \<Rightarrow> order_row \<Rightarrow> 'x order_state \<Rightarrow> bool" where
  "payout_due p x s \<longleftrightarrow> p \<in> set (payouts s) \<and> pay_order p = ord_id x \<and> seller_known x s"

definition transferred :: "payout_row \<Rightarrow> order_row \<Rightarrow> string \<Rightarrow> 'x order_state \<Rightarrow> bool" where
  "transferred p x tr s \<longleftrightarrow> (\<exists>pi. StripeTransfer (pay_amount p) (pay_currency p) (seller_account (ord_seller x)) pi tr
     \<in> set (stripe_calls s))"

text \<open>A completed payout whose transfer has been reversed on Stripe.\<close>

definition reversal_made :: "uuid \<times> string \<Rightarrow> 'x order_state \<Rightarrow> bool" where
  "reversal_made rp s \<longleftrightarrow> (\<exists>p \<in> set (payouts s). pay_id p = fst rp \<and> pay_status p = PayoutCompleted
     \<and> (\<exists>tr key. pay_transfer p = Some tr \<and> StripeReversal tr (pay_amount p) key (snd rp) \<in> set (stripe_calls s)))"

lemma outcome_create_transfer:
  "outcome (create_transfer cfg n cur acc pi)
     (\<lambda>r w'. \<forall>tr. r = Inr tr \<longrightarrow> StripeTransfer n cur acc pi tr \<in> set (stripe_calls (store w'))) (\<lambda>_ _. False) w"
  by (auto simp: outcome_def create_transfer_def stripe_op_def split: prod.splits sum.splits)

lemma seller_known_update:
  assumes "seller_known x s" and "\<And>y. same_order y (g y)"
  shows "seller_known x (s\<lparr>orders := update_where q g (orders s)\<rparr>)"
proof -
  from assms(1) obtain y where y: "y \<in> set (orders s)" "ord_id y = ord_id x" "ord_seller y = ord_seller x"
    unfolding seller_known_def by blast
  then have "(if q y then g y else y) \<in> set (update_where q g (orders s))" by (simp add: update_where_def)
  moreover have "ord_id (if q y then g y else y) = ord_id x \<and> ord_seller (if q y then g y else y) = ord_seller x"
    using y assms(2) [of y] by (simp add: same_order_def)
  ultimately show ?thesis unfolding seller_known_def by auto
qed

lemma calls_keep_due [keeps_intros]:
  "keeps (seller_known x) (external f)" "keeps (seller_known x) (stripe_op h entry)"
  "keeps (payout_due p x) (stripe_op h entry)"
  by (intro keeps_external keeps_stripe_op; simp add: payout_due_def seller_known_def)+

lemma publish_keeps_due [keeps_intros]:
  "keeps (seller_known x) (publish_or_fail cfg e)" "keeps (seller_known x) (publish_proto cfg e)"
  unfolding publish_proto_def publish_or_fail_def by (intro keeps_intros)+

lemma seller_known_writes [keeps_intros]:
  "keeps (seller_known x) (set_paid i t pi)" "keeps (seller_known x) (set_points_earned i n)"
  "keeps (seller_known x) (mark_published i)" "keeps (seller_known x) (claim_publish i ttl)"
  "keeps (seller_known x) (set_payout_status i st tr)"
proof -
  have update: "keeps (seller_known x) (update_orders q g)" if "\<And>t y. same_order y (g t y)" for q g
    unfolding update_orders_def by (intro keeps_intros) (auto intro: seller_known_update that)
  have claim: "same_order y (y\<lparr>ord_claim_at := Some t, ord_updated_at := t\<rparr>)" for y t
    by (simp add: same_order_def)
  show "keeps (seller_known x) (set_paid i t pi)" "keeps (seller_known x) (set_points_earned i n)"
    "keeps (seller_known x) (mark_published i)"
    unfolding set_paid_def set_points_earned_def mark_published_def
    by (intro keeps_intros update; simp add: same_order_def paid_order_def)+
  show "keeps (seller_known x) (claim_publish i ttl)"
    unfolding claim_publish_def by (intro keeps_intros) (auto simp: Let_def intro: seller_known_update [OF _ claim])
  show "keeps (seller_known x) (set_payout_status i st tr)"
    unfolding set_payout_status_def update_payouts_def by (intro keeps_intros) (auto simp: seller_known_def)
qed

lemma settle_order_seller: "keeps (seller_known y) (settle_order cfg pi t x)"
proof -
  have commit: "keeps (seller_known y) (commit_coupon_hold cfg pi x)" "keeps (seller_known y) (commit_points cfg pi x)" for x
    unfolding commit_coupon_hold_def commit_points_def
    by (auto split: option.splits bool.splits intro!: keeps_intros)
  show ?thesis
    unfolding settle_order_def settle_paid_def transfer_once_def create_transfer_def mark_paid_def publish_paid_def
      announce_paid_def
    by (intro keeps_intros commit)
qed

lemma wp_payout_of_order:
  "wp (wrap msg (payout_of_order i)) (\<lambda>found w'. \<forall>p. found = Some p \<longrightarrow> p \<in> set (payouts (store w')) \<and> pay_order p = i) w"
  unfolding payout_of_order_def by (intro wp_intros) (auto dest: find_Some_mem)

lemma wp_orders_by_intent:
  "wp (wrap msg (orders_by_intent pi)) (\<lambda>xs w'. \<forall>x \<in> set xs. seller_known x (store w')) w"
  unfolding orders_by_intent_def by (intro wp_intros) (auto simp: seller_known_def)

lemma wp_payouts_of_order:
  "wp (wrap msg (payouts_of_order i)) (\<lambda>ps w'. set ps \<subseteq> set (payouts (store w'))) w"
  unfolding payouts_of_order_def by (intro wp_intros) auto

lemma wp_mark_failed: "wp (mark_failed_and_throw r msg e) Q w"
  by (auto simp: mark_failed_and_throw_def wp_def tx_bind_def tx_throw_def split: prod.splits sum.splits)

text \<open>The loop over the payouts: every entry of its accumulator is a reversal that Stripe has made.\<close>

definition reversals_made :: "payout_row list \<Rightarrow> (uuid \<times> string) list \<Rightarrow> 'x order_state \<Rightarrow> bool" where
  "reversals_made ps acc s \<longleftrightarrow> set ps \<subseteq> set (payouts s) \<and> (\<forall>rp \<in> set acc. reversal_made rp s)"

lemma reversal_made_call:
  "reversal_made rp s \<Longrightarrow> reversal_made rp (s\<lparr>remote := z, stripe_calls := stripe_calls s @ [c]\<rparr>)"
  unfolding reversal_made_def by auto

lemma reversal_made_now:
  "p \<in> set (payouts s) \<Longrightarrow> pay_status p = PayoutCompleted \<Longrightarrow> pay_transfer p = Some tr \<Longrightarrow>
   reversal_made (pay_id p, rid)
     (s\<lparr>remote := z, stripe_calls := stripe_calls s @ [StripeReversal tr (pay_amount p) key rid]\<rparr>)"
  unfolding reversal_made_def by auto

lemma wp_reverse_one:
  fixes w :: "'x order_state world"
  assumes "reversals_made ps acc (store w)" and "p \<in> set ps"
  shows "wp (reverse_one cfg r p acc) (\<lambda>acc w'. reversals_made ps acc (store w')) w"
proof (cases "reversible p")
  case None
  with assms show ?thesis by (simp add: reverse_one_def wp_simps)
next
  case (Some tr)
  then have p: "pay_transfer p = Some tr" "pay_status p = PayoutCompleted"
    by (auto simp: reversible_def split: option.splits if_splits)
  let ?call = "StripeReversal tr (pay_amount p) (reverse_key r p)"
  have "wp (reverse_transfer cfg tr (pay_amount p) (reverse_key r p))
      (\<lambda>res w'. \<forall>rid. res = Inr rid \<longrightarrow> (\<exists>z. store w' = (store w)\<lparr>remote := z, stripe_calls := stripe_calls (store w) @ [?call rid]\<rparr>)) w"
    by (auto simp: wp_def reverse_transfer_def stripe_op_def split: prod.splits sum.splits)
  moreover have "reversals_made ps (acc @ [(pay_id p, rid)])
      ((store w)\<lparr>remote := z, stripe_calls := stripe_calls (store w) @ [?call rid]\<rparr>)" for z rid
    using assms p by (auto simp: reversals_made_def intro: reversal_made_call reversal_made_now)
  ultimately show ?thesis
    unfolding reverse_one_def Some option.case
    by (intro wp_bindI, elim wp_mono) (auto simp: wp_simps intro: wp_mark_failed split: sum.splits)
qed

subsection \<open>The policies\<close>

locale order_writes =
  fixes I :: "'x order_state \<Rightarrow> bool"
  assumes remote_any: "I s \<Longrightarrow> I (s\<lparr>remote := z\<rparr>)"
    and call_any: "I s \<Longrightarrow> I (s\<lparr>remote := z, stripe_calls := stripe_calls s @ [c]\<rparr>)"
    and rules_any: "I s \<Longrightarrow> I (s\<lparr>rules := R\<rparr>)"
    and update_any: "(\<And>t x. same_order x (g t x)) \<Longrightarrow> keeps I (update_orders q g)"
    and claim_any: "keeps I (claim_publish i ttl)"
    and create_any: "keeps I (create_order_rows o1 ls)"
    and unpaid_any: "keeps I (set_payout_status i PayoutFailed None)"
    and open_any: "keeps I (create_request r)"
    and reject_any: "keeps I (reject_request i j comment)"
    and fail_any: "keeps I (mark_request_failed i text)"
begin

lemmas policy_keeps = claim_any create_any unpaid_any open_any reject_any fail_any

lemma order_updates_keep [keeps_intros]:
  "keeps I (set_order_status i st)" "keeps I (set_paid i t pi)" "keeps I (set_order_intent i pi)"
  "keeps I (mark_published i)" "keeps I (set_points_earned i n)"
  unfolding set_order_status_def set_paid_def set_order_intent_def mark_published_def set_points_earned_def
  by (intro keeps_intros update_any; simp add: same_order_def paid_order_def)+

lemma calls_keep [keeps_intros]:
  "keeps I (external f)" "keeps I (stripe_op h entry)"
  by (intro keeps_external keeps_stripe_op remote_any call_any; assumption)+

lemma effects_keep [keeps_intros]:
  "keeps I (create_transfer cfg n cur acc pi)" "keeps I (create_refund cfg pi n key)"
  "keeps I (reverse_transfer cfg tr n key)" "keeps I (create_platform_intent cfg n cur)"
  "keeps I (create_destination_intent cfg n cur acc)" "keeps I (publish_or_fail cfg e)"
  "keeps I (publish_proto cfg e)" "keeps I (shipping_fee cfg b)" "keeps I (create_rule r)"
proof -
  show pub: "keeps I (publish_or_fail cfg e)"
    unfolding publish_or_fail_def by (intro keeps_intros)
  show "keeps I (create_transfer cfg n cur acc pi)" "keeps I (create_refund cfg pi n key)"
    "keeps I (reverse_transfer cfg tr n key)" "keeps I (create_platform_intent cfg n cur)"
    "keeps I (create_destination_intent cfg n cur acc)" "keeps I (publish_proto cfg e)"
    "keeps I (shipping_fee cfg b)"
    unfolding create_transfer_def create_refund_def reverse_transfer_def create_platform_intent_def
      create_destination_intent_def publish_proto_def shipping_fee_def
    by (intro keeps_intros pub)+
  show "keeps I (create_rule r)"
    unfolding create_rule_def
    by (intro keeps_intros) (auto simp: Let_def rules_any split: if_splits)
qed

lemma stripe_or_fail_keeps [keeps_intros]: "keeps I m \<Longrightarrow> keeps I (stripe_or_fail msg m)"
  unfolding stripe_or_fail_def by (intro keeps_intros)

lemma create_order_keeps: "keeps I (create_order cfg inp)"
  unfolding create_order_def by (intro keeps_intros policy_keeps)

lemma update_order_status_keeps: "keeps I (update_order_status cfg seller i st)"
  unfolding update_order_status_def by (intro keeps_intros)

lemma create_commission_rule_keeps: "keeps I (create_commission_rule r)"
  unfolding create_commission_rule_def by (intro keeps_intros)

lemma request_cancellation_keeps: "keeps I (request_cancellation cfg i b reason)"
  unfolding request_cancellation_def by (intro keeps_intros policy_keeps)

lemma reject_cancellation_keeps: "keeps I (reject_cancellation cfg i j comment)"
  unfolding reject_cancellation_def by (intro keeps_intros policy_keeps)

lemma on_shipping_event_keeps: "keeps I (on_shipping_event cfg ty d)"
  unfolding on_shipping_event_def Let_def by (auto split: sum.splits option.splits intro!: keeps_intros)

lemma admin_request_keeps: "keeps I (admin_request cfg x admin reason)"
  unfolding admin_request_def open_for_admin_def reload_for_admin_def
  by (intro keeps_intros policy_keeps)

end

text \<open>
  The writes that need more: a batch of items, and a payout that is completed or an approval that
  is committed after Stripe has acknowledged the money's way.
\<close>

locale order_policy = order_writes I for I :: "'x order_state \<Rightarrow> bool" +
  assumes batch_any: "items_ok items \<Longrightarrow> keeps I (create_checkout_batch items)"
    and complete_backed: "I (store w) \<Longrightarrow> payout_due p x (store w) \<Longrightarrow> transferred p x tr (store w) \<Longrightarrow>
      I (store (snd (set_payout_status (pay_id p) PayoutCompleted (Some tr) w)))"
    and approve_backed: "I (store w) \<Longrightarrow> linked r x (store w) \<Longrightarrow>
      refunded (cnr_id r) (ord_total x) (apv_refund a) (store w) \<Longrightarrow>
      \<forall>rp \<in> set (apv_reversed a). reversal_made rp (store w) \<Longrightarrow>
      apv_request a = cnr_id r \<Longrightarrow> apv_order a = ord_id x \<Longrightarrow> I (store (snd (approve_tx a w)))"
begin

lemma create_checkout_keeps: "keeps I (create_checkout cfg inp)"
proof -
  have release: "keeps I (release_holds cfg c p)" for c p
    unfolding release_holds_def by (cases c; cases p; simp; intro keeps_intros)
  have releasing: "keeps I m \<Longrightarrow> keeps I (releasing cfg c p m)" for c p m
    unfolding releasing_def by (intro keeps_intros release)
  have reserve: "keeps I (reserve_cart_coupon cfg inp ds)" "keeps I (reserve_cart_points cfg inp ds c)" for ds c
    unfolding reserve_cart_coupon_def reserve_cart_points_def Let_def
    by (auto split: option.splits bool.splits intro!: keeps_intros)
  have resolve: "keeps I (resolve_items cfg items)" for items
    unfolding resolve_items_def by (intro keeps_intros)
  have attach: "keeps I (attach_intents pi items)" and announce: "keeps I (announce_order cfg pi it)" for pi items it
    unfolding attach_intents_def announce_order_def by (intro keeps_intros)+
  have place: "outcome (place_orders cfg inp ds c p) (\<lambda>_ w'. I (store w')) (\<lambda>_ w'. I (store w')) w"
    if "items_ok (map fst ds)" "I (store w)" for ds c p and w :: "'x order_state world"
    unfolding place_orders_def Let_def
    by (rule outcome_seq [OF outcome_keeps_wp [where J = I, OF resolve that(2) wp_resolve_items
              [OF apply_discounts_ok [OF that(1)]]]],
        rule outcome_keeps, intro keeps_intros batch_any attach announce)
       simp_all
  show ?thesis
    unfolding keeps_def
  proof (intro allI impI)
    fix w :: "'x order_state world"
    assume I: "I (store w)"
    let ?ok = "\<lambda>_ w'. I (store w')"
    have drafts: "outcome (draft_batch inp ship) (\<lambda>ds w'. items_ok (map fst ds) \<and> I (store w')) ?ok w"
      if "I (store w)" for ship and w :: "'x order_state world"
      using outcome_keeps_wp [where J = I, OF order_queries_keep(10) that wp_draft_batch] .
    have placed: "outcome (releasing cfg c p (place_orders cfg inp ds c p)) ?ok ?ok w"
      if "items_ok (map fst ds) \<and> I (store w)" for ds c p and w :: "'x order_state world"
      unfolding releasing_def
      by (rule outcome_catchI, rule outcome_mono [OF place])
        (use that in \<open>auto intro!: outcome_keeps keeps_intros release\<close>)
    have fee: "outcome (shipping_fee cfg (cki_buyer inp)) ?ok ?ok w"
      using I by (intro outcome_keeps effects_keep)
    have "outcome (create_checkout cfg inp) ?ok ?ok w"
      unfolding create_checkout_def
    proof (intro outcome_ifI outcome_throwI I, rule outcome_seq [OF fee], rule outcome_seq [OF drafts], assumption)
      fix ds :: "draft list" and w2 :: "'x order_state world"
      assume w2: "items_ok (map fst ds) \<and> I (store w2)"
      show "outcome (tx_bind (reserve_cart_coupon cfg inp ds) (\<lambda>c.
          tx_bind (releasing cfg c None (reserve_cart_points cfg inp ds c)) (\<lambda>p.
          releasing cfg c p (place_orders cfg inp ds c p)))) ?ok ?ok w2"
        by (rule outcome_seq [OF outcome_keeps [of I, OF reserve(1)]], simp add: w2,
            rule outcome_seq [OF outcome_keeps [of I, OF releasing [OF reserve(2)]]], assumption,
            rule placed, simp add: w2)
    qed
    then show "I (store (snd (create_checkout cfg inp w)))" by (rule outcome_snd)
  qed
qed

lemma settle_order_keeps:
  fixes w :: "'x order_state world"
  assumes "I (store w)" and "seller_known x (store w)"
  shows "outcome (settle_order cfg pi t x) (\<lambda>_ w'. I (store w')) (\<lambda>_ w'. I (store w')) w"
proof -
  let ?ok = "\<lambda>_ w'. I (store w')"
  have commit: "keeps I (commit_coupon_hold cfg pi x)" "keeps I (commit_points cfg pi x)" for x
    unfolding commit_coupon_hold_def commit_points_def
    by (auto split: option.splits bool.splits intro!: keeps_intros)
  have publish: "keeps I (publish_paid cfg pi x p tr)" for x p tr
    unfolding publish_paid_def announce_paid_def by (intro keeps_intros policy_keeps)
  have failed: "keeps I (ignore_error (set_payout_status i PayoutFailed None))" for i
    by (intro keeps_intros policy_keeps)
  have made: "outcome (create_transfer cfg n cur acc pi)
      (\<lambda>r w'. (I (store w') \<and> payout_due p x (store w'))
        \<and> (\<forall>tr. r = Inr tr \<longrightarrow> StripeTransfer n cur acc pi tr \<in> set (stripe_calls (store w')))) ?ok w1"
    if "I (store w1) \<and> payout_due p x (store w1)" for p n cur acc and w1 :: "'x order_state world"
    by (rule outcome_mono [OF outcome_conj [OF outcome_keeps [where J = "\<lambda>s. I s \<and> payout_due p x s"]
          outcome_create_transfer]])
      (auto simp: that create_transfer_def intro!: keeps_conj keeps_intros)
  have completed: "outcome (wrap msg (set_payout_status (pay_id p) PayoutCompleted (Some tr))) ?ok ?ok w1"
    if "I (store w1) \<and> payout_due p x (store w1)" "transferred p x tr (store w1)"
    for p tr msg and w1 :: "'x order_state world"
    unfolding wrap_def using complete_backed that
    by (intro outcome_map_errorI outcomeI) (metis snd_conv)+
  have transfer: "outcome (transfer_once cfg pi x p) ?ok ?ok w1"
    if due: "I (store w1) \<and> payout_due p x (store w1)" for p and w1 :: "'x order_state world"
    unfolding transfer_once_def
  proof (rule outcome_ifI, rule outcome_seq [OF made [OF due]], goal_cases)
    case (1 r w2)
    then show ?case
    proof (cases r)
      case (Inl msg)
      have "keeps I (publish_proto cfg e)" for e by (intro keeps_intros)
      with 1 Inl show ?thesis
        by (auto intro!: outcome_seq [OF outcome_keeps [OF failed]] outcome_returnI intro: outcome_seq [OF outcome_keeps])
    next
      case (Inr tr)
      with 1 show ?thesis
        by (auto simp: transferred_def intro!: outcome_seq [OF completed] outcome_returnI)
    qed
  qed (use due in \<open>auto intro: outcome_returnI\<close>)
  have paid: "outcome (settle_paid cfg pi x p) ?ok ?ok w1"
    if "I (store w1) \<and> payout_due p x (store w1)" for p and w1 :: "'x order_state world"
    unfolding settle_paid_def
    by (rule outcome_seq [OF transfer [OF that]], rule outcome_keeps, intro keeps_intros commit publish, assumption)
  have mark: "keeps (\<lambda>s. I s \<and> seller_known x s) (mark_paid pi t x)"
    unfolding mark_paid_def by (intro keeps_conj keeps_intros)
  have read: "outcome (wrap msg (payout_of_order (ord_id x)))
      (\<lambda>found w'. I (store w') \<and> (\<forall>p. found = Some p \<longrightarrow> payout_due p x (store w'))) ?ok w1"
    if "I (store w1) \<and> seller_known x (store w1)" for msg and w1 :: "'x order_state world"
    by (rule outcome_mono [OF outcome_keeps_wp [where J = "\<lambda>s. I s \<and> seller_known x s", OF _ that wp_payout_of_order]])
      (auto simp: payout_due_def intro!: keeps_intros)
  show ?thesis
    unfolding settle_order_def
    by (intro outcome_ifI, rule outcome_returnI, rule assms,
        rule outcome_seq [OF outcome_mono [OF outcome_keeps [OF mark]]], simp add: assms, assumption, simp,
        rule outcome_seq [OF read], assumption)
       (auto intro!: outcome_case_optionI outcome_returnI outcome_ifI paid)
qed

lemma handle_payment_keeps: "keeps I (handle_payment_success cfg pi)"
  unfolding keeps_def
proof (intro allI impI)
  fix w :: "'x order_state world"
  assume I: "I (store w)"
  let ?ok = "\<lambda>_ w'. I (store w')"
  have orders: "outcome (wrap msg (orders_by_intent pi))
      (\<lambda>xs w'. I (store w') \<and> (\<forall>x \<in> set xs. seller_known x (store w'))) ?ok w" for msg
    by (rule outcome_mono [OF outcome_keeps_wp [where J = I, OF _ I wp_orders_by_intent]])
      (auto intro!: keeps_intros)
  have loop: "outcome (tx_for xs (\<lambda>x _. settle_order cfg pi t x) ()) ?ok ?ok w1"
    if "I (store w1)" "\<forall>x \<in> set xs. seller_known x (store w1)" for xs t and w1 :: "'x order_state world"
  proof (rule outcome_for [where I = "\<lambda>xs _ w. I (store w) \<and> (\<forall>x \<in> set xs. seller_known x (store w))"])
    fix x xs and w2 :: "'x order_state world"
    assume w2: "I (store w2) \<and> (\<forall>x \<in> set (x # xs). seller_known x (store w2))"
    have "keeps (\<lambda>s. \<forall>x \<in> set xs. seller_known x s) (settle_order cfg pi t x)"
      by (intro keeps_Ball settle_order_seller)
    then have "outcome (settle_order cfg pi t x) (\<lambda>_ w'. \<forall>x \<in> set xs. seller_known x (store w')) (\<lambda>_ _. True) w2"
      by (rule outcome_mono [OF outcome_keeps]) (use w2 in auto)
    from outcome_conj [OF settle_order_keeps this]
    show "outcome (settle_order cfg pi t x)
        (\<lambda>_ w. I (store w) \<and> (\<forall>x \<in> set xs. seller_known x (store w))) ?ok w2"
      by (rule outcome_mono) (use w2 in auto)
  qed (use that in auto)
  have "outcome (handle_payment_success cfg pi) ?ok ?ok w"
    unfolding handle_payment_success_def
    by (rule outcome_seq [OF orders]) (auto intro!: outcome_ifI outcome_throwI outcome_bindI outcome_nowI loop)
  then show "I (store (snd (handle_payment_success cfg pi w)))" by (rule outcome_snd)
qed

lemma finalize_approval_keeps:
  assumes "I (store w)" and "linked r x (store w)"
  shows "outcome (finalize_approval cfg r x ls seller comment) (\<lambda>_ w'. I (store w')) (\<lambda>_ w'. I (store w')) w"
proof -
  let ?J = "\<lambda>s. I s \<and> linked r x s"
  let ?K = "\<lambda>refund s. ?J s \<and> refunded (cnr_id r) (ord_total x) refund s"
  let ?ok = "\<lambda>_ w'. I (store w')"
  have mark: "keeps I (mark_failed_and_throw r msg e)" "keeps ?J (mark_failed_and_throw r msg e)"
    "keeps (?K refund) (mark_failed_and_throw r msg e)" for msg e refund
    unfolding mark_failed_and_throw_def by (intro keeps_intros policy_keeps keeps_conj)+
  have refund: "keeps ?J (refund_order cfg r x)"
    unfolding refund_order_def create_refund_def by (intro keeps_intros mark keeps_conj)
  have reverse: "keeps (?K refund) (reverse_one cfg r p acc)" for refund p acc
    unfolding reverse_one_def reverse_transfer_def by (intro keeps_intros mark keeps_conj)
  have failed: "keeps I (approval_failed r e)" for e
    unfolding approval_failed_def by (intro keeps_intros mark)
  have approve: "outcome (tx_catch (approve_tx a) (approval_failed r)) ?ok ?ok w"
    if "?K (apv_refund a) (store w)" "\<forall>rp \<in> set (apv_reversed a). reversal_made rp (store w)"
      "apv_request a = cnr_id r" "apv_order a = ord_id x" for a w
  proof (rule outcome_catchI)
    have "I (store (snd (approve_tx a w)))" using approve_backed [of w r x a] that by simp
    then have "outcome (approve_tx a) ?ok ?ok w" by (intro outcomeI) auto
    then show "outcome (approve_tx a) ?ok (\<lambda>e. outcome (approval_failed r e) ?ok ?ok) w"
      by (rule outcome_mono) (auto intro: outcome_keeps [OF failed])
  qed
  have payouts: "outcome (wrap msg (payouts_of_order (ord_id x)))
      (\<lambda>ps w'. ?J (store w') \<and> reversals_made ps [] (store w')) ?ok w" for msg
    by (rule outcome_mono [OF outcome_keeps_wp [where J = ?J, OF _ _ wp_payouts_of_order]])
      (use assms in \<open>auto simp: reversals_made_def intro!: keeps_intros\<close>)
  have kept: "keeps (reversals_made ps []) (refund_order cfg r x)" for ps
    unfolding refund_order_def create_refund_def mark_failed_and_throw_def
    by (intro keeps_intros keeps_stripe_op)
      (auto simp: reversals_made_def mark_request_failed_def close_request_def Let_def intro!: keeps_intros)
  have refunds: "outcome (refund_order cfg r x)
      (\<lambda>refund w'. ?K refund (store w') \<and> reversals_made ps [] (store w')) ?ok w"
    if "?J (store w) \<and> reversals_made ps [] (store w)" for ps w
    by (rule outcome_mono [OF outcome_keeps_wp [where J = "\<lambda>s. ?J s \<and> reversals_made ps [] s",
          OF keeps_conj [OF refund kept] that wp_refund_order]]) auto
  have reverses: "outcome (tx_for ps (reverse_one cfg r) [])
      (\<lambda>acc w'. ?K refund (store w') \<and> reversals_made ps acc (store w')) ?ok w"
    if "?K refund (store w) \<and> reversals_made ps [] (store w)" for ps refund w
  proof (rule outcome_for [where I = "\<lambda>rest acc w. ?K refund (store w) \<and> reversals_made ps acc (store w) \<and> set rest \<subseteq> set ps"])
    fix p rest acc and w :: "'x order_state world"
    assume w: "?K refund (store w) \<and> reversals_made ps acc (store w) \<and> set (p # rest) \<subseteq> set ps"
    show "outcome (reverse_one cfg r p acc)
        (\<lambda>acc w. ?K refund (store w) \<and> reversals_made ps acc (store w) \<and> set rest \<subseteq> set ps) ?ok w"
      by (rule outcome_mono [OF outcome_keeps_wp [where J = "?K refund", OF reverse _ wp_reverse_one]]) (use w in auto)
  qed (use that in auto)
  have events: "keeps I (publish_proto cfg e)" for e by (intro keeps_intros)
  show ?thesis
    unfolding finalize_approval_def
    by (rule outcome_seq [OF payouts], rule outcome_seq [OF refunds], assumption,
        rule outcome_seq [OF reverses], assumption, intro outcome_bindI outcome_nowI,
        rule outcome_mono [OF approve])
       (auto simp: reversals_made_def intro!: outcome_bindI outcome_returnI
          intro: outcome_mono [OF outcome_keeps [OF events]])
qed

lemma approve_cancellation_keeps: "keeps I (approve_cancellation cfg i seller comment)"
  unfolding keeps_def
proof (intro allI impI)
  fix w :: "'x order_state world"
  assume I: "I (store w)"
  have load: "outcome (load_for_seller i seller) (\<lambda>(r, x, ls) w'. I (store w') \<and> linked r x (store w'))
      (\<lambda>_ w'. I (store w')) w"
    by (rule outcome_mono [OF outcome_keeps_wp [where J = I, OF cancellation_queries_keep(5) I wp_load_for_seller]])
      (auto intro!: linkedI known_read_order)
  have "outcome (approve_cancellation cfg i seller comment) (\<lambda>_ w'. I (store w')) (\<lambda>_ w'. I (store w')) w"
    unfolding approve_cancellation_def
  proof (rule outcome_seq [OF load], clarsimp, intro conjI impI)
    fix r x ls and w1 :: "'x order_state world"
    assume "I (store w1)" "linked r x (store w1)"
    then show "outcome (tx_throw already_processed) (\<lambda>_ w'. I (store w')) (\<lambda>_ w'. I (store w')) w1"
      by (intro outcome_throwI)
  next
    fix r x ls and w1 :: "'x order_state world"
    assume w1: "I (store w1)" "linked r x (store w1)"
    have "outcome (check_refundable x) (\<lambda>_ w'. w' = w1) (\<lambda>_ w'. I (store w')) w1"
      unfolding check_refundable_def by (intro outcome_intros w1(1) refl)
    then show "outcome (tx_bind (check_refundable x) (\<lambda>_. finalize_approval cfg r x ls seller comment))
        (\<lambda>_ w'. I (store w')) (\<lambda>_ w'. I (store w')) w1"
      by (rule outcome_seq) (simp add: finalize_approval_keeps [OF w1])
  qed
  then show "I (store (snd (approve_cancellation cfg i seller comment w)))" by (rule outcome_snd)
qed

lemma admin_force_cancel_keeps: "keeps I (admin_force_cancel cfg i admin reason)"
  unfolding keeps_def
proof (intro allI impI)
  fix w :: "'x order_state world"
  assume I: "I (store w)"
  have load: "outcome (load_order i) (\<lambda>(x, ls) w'. I (store w') \<and> known_order x (store w')) (\<lambda>_ w'. I (store w')) w"
    by (rule outcome_mono [OF outcome_keeps_wp [where J = I, OF cancellation_queries_keep(1) I wp_load_order]])
      (auto intro!: known_read_order)
  have "outcome (admin_force_cancel cfg i admin reason) (\<lambda>_ w'. I (store w')) (\<lambda>_ w'. I (store w')) w"
    unfolding admin_force_cancel_def
  proof (intro outcome_ifI outcome_throwI I, rule outcome_seq [OF load], rule outcome_case_prodI)
    fix p x and ls :: "order_line list" and w1 :: "'x order_state world"
    assume "(case p of (x, ls) \<Rightarrow> \<lambda>w'. I (store w') \<and> known_order x (store w')) w1" "p = (x, ls)"
    then have w1: "I (store w1)" "known_order x (store w1)" by simp_all
    have check: "outcome (check_refundable x) (\<lambda>_ w'. w' = w1) (\<lambda>_ w'. I (store w')) w1"
      unfolding check_refundable_def by (intro outcome_intros w1(1) refl)
    have request: "outcome (admin_request cfg x admin reason)
        (\<lambda>r w'. linked r x (store w') \<and> I (store w')) (\<lambda>_ w'. I (store w')) w1"
      by (rule outcome_keeps_wp [where J = I, OF admin_request_keeps w1(1) wp_admin_request [OF w1(2)]])
    show "outcome (tx_bind (check_refundable x) (\<lambda>_. tx_bind (admin_request cfg x admin reason)
        (\<lambda>r. finalize_approval cfg r x ls (ord_seller x) (''[admin:'' @ admin @ ''] '' @ reason))))
        (\<lambda>_ w'. I (store w')) (\<lambda>_ w'. I (store w')) w1"
      by (rule outcome_seq [OF check], simp, rule outcome_seq [OF request])
        (simp add: finalize_approval_keeps)
  qed
  then show "I (store (snd (admin_force_cancel cfg i admin reason w)))" by (rule outcome_snd)
qed

end

text \<open>A property that every write keeps, whatever it writes: a fact about the tables' history.\<close>

locale order_history = order_writes I for I :: "'x order_state \<Rightarrow> bool" +
  assumes batch_all: "keeps I (create_checkout_batch items)"
    and settle_all: "keeps I (set_payout_status i st tr)"
    and approve_all: "keeps I (approve_tx a)"

sublocale order_history \<subseteq> order_policy I
  by unfold_locales (auto intro: batch_all settle_all [THEN keepsD] approve_all [THEN keepsD])

end
