(* ===== verification/Order_Approval.thy ===== *)
theory Order_Approval
  imports Order_Policy Coupon_Edge Loyalty_Edge
begin

text \<open>
  Approval is all or nothing: what an approval that reports an error leaves behind, and what the
  events of one that succeeds tell the coupon service (internal/cancellation/service.go and events.go,
  coupon internal/adapter/pubsub/order_subscriber.go).
\<close>

subsection \<open>What an error leaves\<close>

definition approved_requests :: "'x order_state \<Rightarrow> cancel_request list" where
  "approved_requests s = filter (\<lambda>r. cnr_status r = CrApproved) (cancel_requests s)"

definition undecided :: "'x order_state \<Rightarrow> 'x order_state \<Rightarrow> bool" where
  "undecided s0 s \<longleftrightarrow> orders s = orders s0 \<and> order_lines s = order_lines s0 \<and> payouts s = payouts s0
     \<and> rules s = rules s0 \<and> approved_requests s = approved_requests s0"

lemma undecided_refl [simp]: "undecided s s"
  by (simp add: undecided_def)

lemma undecided_calls [simp]:
  "undecided s0 (s\<lparr>remote := z\<rparr>) = undecided s0 s"
  "undecided s0 (s\<lparr>remote := z, stripe_calls := cs\<rparr>) = undecided s0 s"
  by (simp_all add: undecided_def approved_requests_def)

lemma close_undecided:
  assumes "\<And>r. cnr_status (g r) = CrFailed"
  shows "undecided s0 (s\<lparr>cancel_requests := update_where (\<lambda>r. cnr_id r = i \<and> cnr_status r = CrPending) g (cancel_requests s)\<rparr>)
    = undecided s0 s"
proof -
  have "filter (\<lambda>r. cnr_status r = CrApproved) (update_where (\<lambda>r. cnr_id r = i \<and> cnr_status r = CrPending) g rs)
      = filter (\<lambda>r. cnr_status r = CrApproved) rs" for rs
    by (induction rs) (auto simp: assms)
  then show ?thesis by (simp add: undecided_def approved_requests_def)
qed

lemma mark_failed_undecided: "keeps (undecided s0) (mark_request_failed i msg)"
  unfolding mark_request_failed_def close_request_def Let_def
  by (intro keeps_intros) (auto simp: close_undecided)

lemma create_request_undecided: "cnr_status r = CrPending \<Longrightarrow> keeps (undecided s0) (create_request r)"
  unfolding create_request_def
  by (intro keeps_intros) (auto simp: insert_request_stmt_def undecided_def approved_requests_def Let_def split: if_splits)

lemma publish_undecided [keeps_intros]: "keeps (undecided s0) (publish_proto cfg e)"
  by (rule publish_keeps_any) simp

lemma throw_undecided: "keeps (undecided s0) (mark_failed_and_throw r msg e)"
  unfolding mark_failed_and_throw_def by (intro keeps_intros mark_failed_undecided)

lemma calls_undecided:
  "keeps (undecided s0) (refund_order cfg r x)" "keeps (undecided s0) (reverse_one cfg r p acc)"
  unfolding refund_order_def create_refund_def reverse_one_def reverse_transfer_def
  by (intro keeps_intros keeps_stripe_op throw_undecided; simp)+

lemma publish_proto_returns: "fst (publish_proto cfg e w) = Inr ()"
  by (auto simp: publish_proto_def tx_catch_def tx_return_def split: prod.splits sum.splits)

lemma finalize_error_undecided:
  assumes "undecided s0 (store w)"
  shows "outcome (finalize_approval cfg r x ls seller comment) (\<lambda>_ _. True) (\<lambda>_ w'. undecided s0 (store w')) w"
proof -
  let ?E = "\<lambda>_ w'. undecided s0 (store w')"
  have failed: "keeps (undecided s0) (approval_failed r e)" for e
    unfolding approval_failed_def by (intro keeps_intros throw_undecided)
  have approve: "outcome (tx_catch (approve_tx a) (approval_failed r)) (\<lambda>_ _. True) ?E w"
    if "undecided s0 (store w)" for a w
  proof (rule outcome_catchI, rule outcomeI, rule TrueI)
    fix e w' assume "approve_tx a w = (Inl e, w')"
    then have "undecided s0 (store w')" using that by (simp add: approve_tx_def run_tx_error_frame)
    from outcome_keeps [OF failed this, of e]
    show "outcome (approval_failed r e) (\<lambda>_ _. True) ?E w'" by (rule outcome_mono) auto
  qed
  have events: "outcome (publish_proto cfg e) (\<lambda>_ _. True) ?E w" for e w
    using publish_proto_returns [of cfg e w] by (intro outcomeI) simp_all
  show ?thesis
    unfolding finalize_approval_def
    by (rule outcome_seq [OF outcome_keeps [where J = "undecided s0"]], intro keeps_intros, rule assms,
        rule outcome_seq [OF outcome_keeps [OF calls_undecided(1)]], assumption,
        rule outcome_seq [OF outcome_keeps [where J = "undecided s0"]], intro keeps_intros calls_undecided, assumption,
        intro outcome_bindI outcome_nowI, rule outcome_mono [OF approve])
       (auto intro!: outcome_bindI outcome_returnI outcome_mono [OF events])
qed

text \<open>An operation that keeps the tables and goes on with one that does so unless it succeeds.\<close>

lemma undecided_seq:
  assumes "keeps (undecided s0) m" and "undecided s0 (store w)"
    and "\<And>y w'. undecided s0 (store w') \<Longrightarrow> outcome (f y) (\<lambda>_ _. True) (\<lambda>_ w'. undecided s0 (store w')) w'"
  shows "outcome (tx_bind m f) (\<lambda>_ _. True) (\<lambda>_ w'. undecided s0 (store w')) w"
  by (rule outcome_seq [OF outcome_keeps [OF assms(1,2)]]) (rule assms(3))

lemma check_refundable_keeps: "keeps I (check_refundable x)"
  unfolding check_refundable_def by (intro keeps_intros)

lemma approve_error_undecided:
  "outcome (approve_cancellation cfg i seller comment) (\<lambda>_ _. True) (\<lambda>_ w'. undecided (store w) (store w')) w"
  unfolding approve_cancellation_def
  by (rule undecided_seq [OF cancellation_queries_keep(5)])
     (auto intro!: outcome_ifI outcome_throwI undecided_seq [OF check_refundable_keeps] finalize_error_undecided)

lemma admin_request_undecided: "keeps (undecided s0) (admin_request cfg x admin reason)"
  unfolding admin_request_def open_for_admin_def reload_for_admin_def
  by (intro keeps_intros create_request_undecided) (simp_all add: new_request_def)

lemma admin_error_undecided:
  "outcome (admin_force_cancel cfg i admin reason) (\<lambda>_ _. True) (\<lambda>_ w'. undecided (store w) (store w')) w"
  unfolding admin_force_cancel_def
  by (intro outcome_ifI outcome_throwI undecided_refl, rule undecided_seq [OF cancellation_queries_keep(1)])
     (auto intro!: undecided_seq [OF check_refundable_keeps] undecided_seq [OF admin_request_undecided]
        finalize_error_undecided)

subsection \<open>The event of a cancelled order\<close>

text \<open>\<open>emits P m\<close>: every event that \<open>m\<close> hands to the publisher satisfies \<open>P\<close>.\<close>

definition emits :: "(event \<Rightarrow> bool) \<Rightarrow> ('s, 'd, 'a) tx \<Rightarrow> bool" where
  "emits P m \<longleftrightarrow> (\<forall>w. \<exists>es. events (snd (m w)) = events w @ es \<and> list_all P es)"

lemma emitsD: "emits P m \<Longrightarrow> m w = (r, w') \<Longrightarrow> \<exists>es. events w' = events w @ es \<and> list_all P es"
  by (metis emits_def snd_conv)

lemma emitsI: "(\<And>w r w'. m w = (r, w') \<Longrightarrow> \<exists>es. events w' = events w @ es \<and> list_all P es) \<Longrightarrow> emits P m"
  by (metis emits_def prod.collapse)

lemma emits_seq:
  assumes "emits P m" and "\<And>w. wp m (\<lambda>x _. R x) w" and "\<And>x. R x \<Longrightarrow> emits P (f x)"
  shows "emits P (tx_bind m f)"
proof (rule emitsI)
  fix w r w' assume run: "tx_bind m f w = (r, w')"
  obtain r1 w1 where m: "m w = (r1, w1)" by fastforce
  with assms(1) obtain es where es: "events w1 = events w @ es" "list_all P es" by (meson emitsD)
  show "\<exists>es. events w' = events w @ es \<and> list_all P es"
  proof (cases r1)
    case (Inl e)
    with run m es show ?thesis by (simp add: tx_bind_def)
  next
    case (Inr x)
    with assms(2) [of w] m have "R x" by (simp add: wp_def)
    moreover from run m Inr have "f x w1 = (r, w')" by (simp add: tx_bind_def)
    ultimately obtain es' where "events w' = events w1 @ es'" "list_all P es'"
      using assms(3) by (meson emitsD)
    with es show ?thesis by simp
  qed
qed

lemma emits_bind [keeps_intros]: "emits P m \<Longrightarrow> (\<And>x. emits P (f x)) \<Longrightarrow> emits P (tx_bind m f)"
  by (rule emits_seq [where R = "\<lambda>_. True"]) (simp_all add: wp_def split: prod.splits sum.splits)

lemma emits_catch [keeps_intros]:
  assumes "emits P m" and "\<And>e. emits P (h e)"
  shows "emits P (tx_catch m h)"
proof (rule emitsI)
  fix w r w' assume run: "tx_catch m h w = (r, w')"
  obtain r1 w1 where m: "m w = (r1, w1)" by fastforce
  with assms(1) obtain es where es: "events w1 = events w @ es" "list_all P es" by (meson emitsD)
  show "\<exists>es. events w' = events w @ es \<and> list_all P es"
  proof (cases r1)
    case (Inl e)
    with run m have "h e w1 = (r, w')" by (simp add: tx_catch_def)
    with assms(2) obtain es' where "events w' = events w1 @ es'" "list_all P es'" by (meson emitsD)
    with es show ?thesis by simp
  qed (use run m es in \<open>simp add: tx_catch_def\<close>)
qed

lemma emits_basic [keeps_intros]:
  "emits P (tx_return x)" "emits P (tx_throw e)" "emits P now" "emits P new_uuid" "emits P (sql stmt)" "emits P (query q)"
  "emits P (external f)" "emits P (stripe_op g entry)"
  by (auto simp: emits_def tx_return_def tx_throw_def now_def new_uuid_def query_def sql_def external_def stripe_op_def
      consume_fault_def split: prod.splits sum.splits)

lemma emits_map_error [keeps_intros]: "emits P m \<Longrightarrow> emits P (tx_map_error f m)"
  unfolding tx_map_error_def by (intro keeps_intros)

lemma emits_publish: "P e \<Longrightarrow> emits P (publish e)"
  by (simp add: emits_def publish_def)

lemma emits_run_tx [keeps_intros]: "emits P body \<Longrightarrow> emits P (run_tx body)"
proof (rule emitsI)
  fix w r w' assume P: "emits P body" and run: "run_tx body w = (r, w')"
  obtain r1 w1 where b: "body ((consume_fault w)\<lparr>aborted := False\<rparr>) = (r1, w1)" by fastforce
  from emitsD [OF P b] obtain es where "events w1 = events w @ es" "list_all P es" by auto
  with run b show "\<exists>es. events w' = events w @ es \<and> list_all P es"
    by (auto simp: run_tx_def split: if_splits sum.splits)
qed

lemma emits_cases [keeps_intros]:
  "(c \<Longrightarrow> emits P m) \<Longrightarrow> (\<not> c \<Longrightarrow> emits P n) \<Longrightarrow> emits P (if c then m else n)"
  "(z = None \<Longrightarrow> emits P m) \<Longrightarrow> (\<And>y. z = Some y \<Longrightarrow> emits P (g y)) \<Longrightarrow> emits P (case z of None \<Rightarrow> m | Some y \<Rightarrow> g y)"
  "(\<And>a. emits P (f1 a)) \<Longrightarrow> (\<And>b. emits P (f2 b)) \<Longrightarrow> emits P (case su of Inl a \<Rightarrow> f1 a | Inr b \<Rightarrow> f2 b)"
  "(\<And>a b. emits P (k a b)) \<Longrightarrow> emits P (case p of (a, b) \<Rightarrow> k a b)"
  "emits P (h v) \<Longrightarrow> emits P (Let v h)"
  by (cases z; cases p; cases su; auto)+

lemma emits_for [keeps_intros]: "(\<And>x a. emits P (f x a)) \<Longrightarrow> emits P (tx_for xs f a)"
  by (induction xs arbitrary: a) (auto intro: keeps_intros)

lemma emits_publish_proto: "P e \<Longrightarrow> emits P (publish_proto cfg e)"
  unfolding publish_proto_def publish_or_fail_def by (intro keeps_intros emits_publish)

text \<open>
  What the two subscribers read from the event: an absent field is empty or zero, which is also how
  the publisher writes an empty or zero one. Amounts are 64-bit integers written as text.
\<close>

definition event_text :: "string \<Rightarrow> event \<Rightarrow> string" where
  "event_text k ev = (case map_of (payload ev) k of Some (JStr s) \<Rightarrow> s | _ \<Rightarrow> '''')"

definition event_int :: "string \<Rightarrow> event \<Rightarrow> int" where
  "event_int k ev = (case map_of (payload ev) k of Some (JInt n) \<Rightarrow> n | _ \<Rightarrow> 0)"

definition coupon_cancel_of :: "event \<Rightarrow> coupon_cancel_payload" where
  "coupon_cancel_of ev = \<lparr>ccp_order_id = event_text ''order_id'' ev,
     ccp_reservation_id = event_text ''coupon_reservation_id'' ev,
     ccp_discount = event_int ''coupon_discount_amount'' ev, ccp_reason = event_text ''reason'' ev\<rparr>"

definition loyalty_cancel_of :: "event \<Rightarrow> order_cancelled_payload" where
  "loyalty_cancel_of ev = \<lparr>oc_order_id = event_text ''order_id'' ev, oc_buyer = event_text ''buyer_auth0_id'' ev,
     oc_point_discount = event_int ''point_discount_amount'' ev, oc_points_earned = event_int ''points_earned'' ev\<rparr>"

definition gives_back_nothing :: "event \<Rightarrow> bool" where
  "gives_back_nothing ev \<longleftrightarrow> event_type ev = ''order.cancelled'' \<longrightarrow>
     ccp_reservation_id (coupon_cancel_of ev) = '''' \<and> oc_point_discount (loyalty_cancel_of ev) = 0
     \<and> oc_points_earned (loyalty_cancel_of ev) = 0"

lemma returned_order_event: "gives_back_nothing (cancelled_event r (returned_order x) ls)"
  by (simp add: gives_back_nothing_def coupon_cancel_of_def loyalty_cancel_of_def event_text_def event_int_def
      cancelled_event_def returned_order_def id_field_def ev_order_def split: option.split)

lemma other_cancellation_events:
  "gives_back_nothing (request_event r x)" "gives_back_nothing (approve_event r x n)"
  by (simp_all add: gives_back_nothing_def request_event_def approve_event_def ev_order_def)

lemma wp_trivial: "wp m (\<lambda>_ _. True) w"
  by (simp add: wp_def split: prod.splits sum.splits)

lemma wp_approve_tx: "wp (approve_tx a) (\<lambda>rx _. \<exists>y. snd rx = returned_order y) w"
proof -
  have cancel: "wp (cancel_order a) (\<lambda>found _. \<forall>x. found = Some x \<longrightarrow> (\<exists>y. x = returned_order y)) w1"
    for w1 :: "'a order_state world"
    unfolding cancel_order_def Let_def by (intro wp_intros) auto
  show ?thesis
    unfolding approve_tx_def
    by (intro wp_run_txI wp_bindI, unfold close_request_def Let_def, intro wp_sqlI wp_case_optionI wp_throwI wp_bindI,
        rule wp_mono [OF cancel], intro wp_case_optionI wp_throwI wp_bindI wp_mono [OF wp_trivial] wp_returnI)
       simp
qed

lemma mark_failed_emits: "emits P (mark_failed_and_throw r msg e)"
  unfolding mark_failed_and_throw_def ignore_error_def mark_request_failed_def close_request_def Let_def
  by (intro keeps_intros)

lemma finalize_emits: "emits gives_back_nothing (finalize_approval cfg r x ls seller comment)"
proof -
  have calls: "emits gives_back_nothing (refund_order cfg r x)" "emits gives_back_nothing (reverse_one cfg r p acc)" for p acc
    unfolding refund_order_def create_refund_def reverse_one_def reverse_transfer_def
    by (intro keeps_intros mark_failed_emits)+
  have approve: "emits gives_back_nothing (approve_tx a)" for a
    unfolding approve_tx_def close_request_def cancel_order_def reverse_payout_def update_payouts_def Let_def
    by (intro keeps_intros)
  have failed: "emits gives_back_nothing (approval_failed r e)" "wp (approval_failed r e) Q w"
    for e and Q :: "cancel_request \<times> order_row \<Rightarrow> 'a order_state world \<Rightarrow> bool" and w
    unfolding approval_failed_def by (intro keeps_intros mark_failed_emits wp_ifI wp_throwI wp_mark_failed)+
  have decided: "wp (tx_catch (approve_tx a) (approval_failed r)) (\<lambda>rx _. \<exists>y. snd rx = returned_order y) w"
    for a and w :: "'a order_state world"
    by (rule wp_catchI [OF wp_approve_tx failed(2)])
  show ?thesis
    unfolding finalize_approval_def payouts_of_order_def wrap_def
    by (rule emits_bind, (intro keeps_intros)[1], rule emits_bind [OF calls(1)],
        rule emits_bind [OF emits_for [OF calls(2)]], rule emits_bind [OF emits_basic(3)], rule emits_seq [where R = "\<lambda>rx. \<exists>y. snd rx = returned_order y", OF _ decided])
       (auto intro!: keeps_intros approve failed(1) emits_publish_proto returned_order_event other_cancellation_events)
qed

lemma reads_emit [keeps_intros]:
  "emits P (load_order i)" "emits P (load_for_seller i j)" "emits P (check_refundable x)" "emits P (latest_request i)"
  unfolding load_order_def load_for_seller_def check_refundable_def get_request_def assert_seller_def wrap_def
    order_by_id_def request_by_id_def latest_request_def
  by (intro keeps_intros)+

lemma approve_emits: "emits gives_back_nothing (approve_cancellation cfg i seller comment)"
  unfolding approve_cancellation_def by (intro keeps_intros finalize_emits)

lemma admin_emits: "emits gives_back_nothing (admin_force_cancel cfg i admin reason)"
proof -
  have "emits gives_back_nothing (admin_request cfg x admin reason)" for x
    unfolding admin_request_def open_for_admin_def reload_for_admin_def create_request_def wrap_def
    by (intro keeps_intros emits_publish_proto other_cancellation_events)
  then show ?thesis
    unfolding admin_force_cancel_def by (intro keeps_intros finalize_emits)
qed

text \<open>The two subscribers, given such an event, do nothing.\<close>

lemma coupon_ignores:
  assumes "gives_back_nothing ev" and "event_type ev = ''order.cancelled''"
  shows "on_order_event ccfg ''order.cancelled'' (Inr (coupon_cancel_of ev)) w = (Inr (), w)"
  using assms by (simp add: on_order_event_def gives_back_nothing_def tx_return_def)

lemma loyalty_ignores:
  assumes "gives_back_nothing ev" and "event_type ev = ''order.cancelled''"
  shows "handle_order_cancelled (Inr (loyalty_cancel_of ev)) w = (Inr (), w)"
proof -
  have "oc_point_discount (loyalty_cancel_of ev) = 0" "oc_points_earned (loyalty_cancel_of ev) = 0"
    using assms by (simp_all add: gives_back_nothing_def)
  then show ?thesis
    by (simp add: handle_order_cancelled_def apply_cancellation_def tx_bind_def tx_return_def)
qed

end
