(* ===== verification/Order_Guards.thy ===== *)
theory Order_Guards
  imports Order_Approval
begin

text \<open>
  What the order service refuses: a redelivered payment whose payouts are no longer pending moves no
  money, and a party that does not own an order can neither change it nor read its requests.
\<close>

subsection \<open>Redelivered payments\<close>

definition money_fixed :: "'x order_state \<Rightarrow> 'x order_state \<Rightarrow> bool" where
  "money_fixed s0 s \<longleftrightarrow> payouts s = payouts s0 \<and> stripe_calls s = stripe_calls s0"

lemma money_fixed_simps [simp]:
  "money_fixed s s" "money_fixed s0 (s\<lparr>remote := z\<rparr>) = money_fixed s0 s"
  "money_fixed s0 (s\<lparr>orders := xs\<rparr>) = money_fixed s0 s"
  by (simp_all add: money_fixed_def)

lemma money_fixed_writes [keeps_intros]:
  "keeps (money_fixed s0) (external f)" "keeps (money_fixed s0) (update_orders q g)"
  "keeps (money_fixed s0) (claim_publish i ttl)"
proof -
  show "keeps (money_fixed s0) (external f)" by (rule keeps_external) simp
  show "keeps (money_fixed s0) (update_orders q g)" "keeps (money_fixed s0) (claim_publish i ttl)"
    unfolding update_orders_def claim_publish_def Let_def by (intro keeps_intros; auto)+
qed

lemma settlement_keeps_money:
  "keeps (money_fixed s0) (mark_paid pi t x)" "keeps (money_fixed s0) (commit_coupon_hold cfg pi x)"
  "keeps (money_fixed s0) (commit_points cfg pi x)" "keeps (money_fixed s0) (publish_paid cfg pi x p tr)"
proof -
  show "keeps (money_fixed s0) (mark_paid pi t x)" "keeps (money_fixed s0) (publish_paid cfg pi x p tr)"
    unfolding mark_paid_def set_paid_def publish_paid_def announce_paid_def publish_or_fail_def mark_published_def
    by (intro keeps_intros)+
  show "keeps (money_fixed s0) (commit_coupon_hold cfg pi x)" "keeps (money_fixed s0) (commit_points cfg pi x)"
    unfolding commit_coupon_hold_def commit_points_def set_points_earned_def
    by (auto split: option.splits bool.splits intro!: keeps_intros)
qed

lemma settle_paid_fixed:
  assumes "pay_status p \<noteq> PayoutPending"
  shows "keeps (money_fixed s0) (settle_paid cfg pi x p)"
  unfolding settle_paid_def transfer_once_def using assms
  by (auto intro!: keeps_intros settlement_keeps_money)

lemma settle_order_fixed:
  assumes "money_fixed s0 (store w)"
    and "\<forall>p \<in> set (payouts s0). pay_order p = ord_id x \<longrightarrow> pay_status p \<noteq> PayoutPending"
  shows "outcome (settle_order cfg pi t x) (\<lambda>_ w'. money_fixed s0 (store w')) (\<lambda>_ w'. money_fixed s0 (store w')) w"
proof -
  let ?ok = "\<lambda>_ w'. money_fixed s0 (store w')"
  have read: "outcome (wrap msg (payout_of_order (ord_id x))) (\<lambda>found w'. money_fixed s0 (store w')
      \<and> (\<forall>p. found = Some p \<longrightarrow> pay_status p \<noteq> PayoutPending)) ?ok w1"
    if "money_fixed s0 (store w1)" for msg and w1 :: "'a order_state world"
    by (rule outcome_mono [OF outcome_keeps_wp [where J = "money_fixed s0", OF _ that wp_payout_of_order]])
       (use assms(2) in \<open>auto simp: money_fixed_def intro!: keeps_intros\<close>)
  show ?thesis
    unfolding settle_order_def
    by (intro outcome_ifI, rule outcome_returnI, rule assms(1),
        rule outcome_seq [OF outcome_keeps [OF settlement_keeps_money(1) assms(1)]],
        rule outcome_seq [OF read], assumption, rule outcome_keeps [where J = "money_fixed s0"])
       (auto split: option.split intro!: keeps_intros settle_paid_fixed)
qed

lemma handle_payment_fixed:
  assumes "\<forall>x \<in> set (orders (store w)). ord_intent x = Some pi \<longrightarrow>
      (\<forall>p \<in> set (payouts (store w)). pay_order p = ord_id x \<longrightarrow> pay_status p \<noteq> PayoutPending)"
  shows "money_fixed (store w) (store (snd (handle_payment_success cfg pi w)))"
proof -
  let ?ok = "\<lambda>_ w'. money_fixed (store w) (store w')"
  let ?quiet = "\<lambda>x. \<forall>p \<in> set (payouts (store w)). pay_order p = ord_id x \<longrightarrow> pay_status p \<noteq> PayoutPending"
  have wp: "wp (wrap msg (orders_by_intent pi)) (\<lambda>xs w'. \<forall>x \<in> set xs. ?quiet x) w" for msg
    unfolding orders_by_intent_def by (intro wp_intros) (use assms in auto)
  have orders: "outcome (wrap msg (orders_by_intent pi)) (\<lambda>xs w'. (\<forall>x \<in> set xs. ?quiet x) \<and> money_fixed (store w) (store w')) ?ok w" for msg
    by (rule outcome_keeps_wp [where J = "money_fixed (store w)", OF _ _ wp]) (auto intro!: keeps_intros)
  have loop: "outcome (tx_for xs (\<lambda>x _. settle_order cfg pi t x) ()) ?ok ?ok w1"
    if "(\<forall>x \<in> set xs. ?quiet x) \<and> money_fixed (store w) (store w1)" for xs t and w1 :: "'a order_state world"
    by (rule outcome_for [where I = "\<lambda>xs _ w1. (\<forall>x \<in> set xs. ?quiet x) \<and> money_fixed (store w) (store w1)"])
       (use that in \<open>auto intro!: outcome_mono [OF settle_order_fixed]\<close>)
  have "outcome (handle_payment_success cfg pi) ?ok ?ok w"
    unfolding handle_payment_success_def
    by (rule outcome_seq [OF orders]) (auto intro!: outcome_ifI outcome_throwI outcome_bindI outcome_nowI loop)
  then show ?thesis by (rule outcome_snd)
qed

subsection \<open>Parties\<close>

text \<open>An operation is refused: it reports an error, and no table, call or event is new.\<close>

definition refused :: "('x, 'a) otx \<Rightarrow> 'x order_state world \<Rightarrow> bool" where
  "refused m w \<longleftrightarrow> (\<exists>e w'. m w = (Inl e, w') \<and> store w' = store w \<and> events w' = events w)"

definition same_world :: "'s world \<Rightarrow> 's world \<Rightarrow> bool" where
  "same_world w w' \<longleftrightarrow> store w' = store w \<and> events w' = events w"

lemma refusedI: "outcome m (\<lambda>_ _. False) (\<lambda>_. same_world w) w \<Longrightarrow> refused m w"
  by (auto simp: refused_def outcome_def same_world_def split: prod.splits sum.splits)

lemma same_world_refl [simp]: "same_world w w"
  by (simp add: same_world_def)

text \<open>A step that only reads.\<close>

lemma outcome_read:
  assumes "\<And>s. keeps (\<lambda>s'. s' = s) m" and "emits (\<lambda>_. False) m" and "same_world w0 w" and "wp m Q w"
  shows "outcome m (\<lambda>x w'. Q x w' \<and> same_world w0 w') (\<lambda>_. same_world w0) w"
proof -
  obtain r w1 where m: "m w = (r, w1)" by fastforce
  have "store w1 = store w" using keepsD [OF assms(1) refl, of w] m by simp
  moreover have "events w1 = events w" using emitsD [OF assms(2) m] by (auto simp: list_all_iff)
  ultimately show ?thesis
    using assms(3,4) m by (cases r) (auto simp: outcome_def wp_def same_world_def)
qed

text \<open>Neither of the two is a party of the order with identifier \<open>i\<close>.\<close>

definition stranger :: "uuid \<Rightarrow> string \<Rightarrow> uuid \<Rightarrow> 'x order_state \<Rightarrow> bool" where
  "stranger seller buyer i s \<longleftrightarrow> (\<forall>x \<in> set (orders s). ord_id x = i \<longrightarrow> ord_seller x \<noteq> seller \<and> ord_buyer x \<noteq> buyer)"

lemma outcome_load_order:
  assumes "stranger seller buyer i (store w0)" and "same_world w0 w"
  shows "outcome (load_order i) (\<lambda>y w'. (ord_seller (fst y) \<noteq> seller \<and> ord_buyer (fst y) \<noteq> buyer) \<and> same_world w0 w')
     (\<lambda>_. same_world w0) w"
  by (rule outcome_read [OF _ _ assms(2)])
     (use assms in \<open>auto intro!: keeps_intros wp_mono [OF wp_load_order] simp: stranger_def same_world_def read_order_def\<close>)

lemma more_reads_emit [keeps_intros]: "emits P (wrap msg (order_by_id i))" "emits P (get_request j)"
  unfolding wrap_def order_by_id_def get_request_def request_by_id_def by (intro keeps_intros)+

lemma update_status_refused:
  assumes "stranger seller buyer i (store w)"
  shows "refused (update_order_status cfg seller i st) w"
proof (rule refusedI)
  have load: "outcome (wrap msg (order_by_id i)) (\<lambda>found w'. (\<forall>x ls. found = Some (x, ls) \<longrightarrow> ord_seller x \<noteq> seller) \<and> same_world w w')
      (\<lambda>_. same_world w) w" for msg
    by (rule outcome_read, intro keeps_intros, intro keeps_intros, simp, rule wp_wrap, rule wp_mono [OF wp_order_by_id])
       (use assms in \<open>fastforce simp: stranger_def read_order_def\<close>)
  show "outcome (update_order_status cfg seller i st) (\<lambda>_ _. False) (\<lambda>_. same_world w) w"
    unfolding update_order_status_def
    by (intro outcome_case_optionI outcome_throwI same_world_refl, rule outcome_seq [OF load])
       (auto intro!: outcome_case_optionI outcome_throwI)
qed

lemma request_refused:
  assumes "stranger seller buyer i (store w)"
  shows "refused (request_cancellation cfg i buyer reason) w" "refused (get_latest_for_order i buyer) w"
proof -
  note load = outcome_load_order [OF assms same_world_refl]
  show "refused (request_cancellation cfg i buyer reason) w"
    unfolding request_cancellation_def
    by (intro refusedI outcome_ifI outcome_throwI same_world_refl, rule outcome_seq [OF load])
       (auto simp: assert_buyer_def intro!: outcome_bindI outcome_throwI)
  show "refused (get_latest_for_order i buyer) w"
    unfolding get_latest_for_order_def
    by (intro refusedI, rule outcome_seq [OF load]) (auto simp: assert_buyer_def intro!: outcome_bindI outcome_throwI)
qed

lemma outcome_load_for_seller:
  assumes "\<forall>r \<in> set (cancel_requests (store w)). cnr_id r = j \<longrightarrow> stranger seller buyer (cnr_order r) (store w)"
  shows "outcome (load_for_seller j seller) (\<lambda>_ _. False) (\<lambda>_. same_world w) w"
proof -
  have request: "outcome (get_request j) (\<lambda>r w'. stranger seller buyer (cnr_order r) (store w) \<and> same_world w w') (\<lambda>_. same_world w) w"
    by (rule outcome_read, intro keeps_intros, intro keeps_intros, simp, rule wp_mono [OF wp_get_request])
       (use assms in auto)
  show ?thesis
    unfolding load_for_seller_def assert_seller_def
    by (rule outcome_seq [OF request], rule outcome_seq [OF outcome_load_order])
       (auto intro!: outcome_bindI outcome_ifI outcome_throwI)
qed

lemma decision_refused:
  assumes "\<forall>r \<in> set (cancel_requests (store w)). cnr_id r = j \<longrightarrow> stranger seller buyer (cnr_order r) (store w)"
  shows "refused (approve_cancellation cfg j seller comment) w" "refused (reject_cancellation cfg j seller comment) w"
    "refused (get_request_for_seller seller j) w"
  unfolding approve_cancellation_def reject_cancellation_def get_request_for_seller_def
  by (rule refusedI, rule outcome_seq [OF outcome_load_for_seller [OF assms]], simp)+

end
