(* ===== verification/Order_Checkout.thy ===== *)
theory Order_Checkout
  imports Order_Policy
begin

text \<open>
  What a successful checkout has done (internal/app/order_service.go, \<open>CreateCheckout\<close>): the orders,
  line items and payouts it inserts, the amounts on them, and the one payment intent. The conditions
  below follow an item through the stages of the checkout.
\<close>

subsection \<open>The conditions on one order\<close>

definition line_input_of :: "order_line \<Rightarrow> line_input" where
  "line_input_of l = \<lparr>lin_sku = oln_sku l, lin_name = oln_name l, lin_code = oln_code l,
     lin_quantity = oln_quantity l, lin_price = oln_price l\<rparr>"

definition line_priced :: "order_line \<Rightarrow> bool" where
  "line_priced l \<longleftrightarrow> oln_total l = i64 (oln_price l * oln_quantity l)"

text \<open>
  The order of one seller: its lines are the seller's lines of the cart, its subtotal their sum; its
  payout is the subtotal less the commission, or, where the seller pays for a coupon, the discounted
  subtotal less the commission.
\<close>

definition drafted :: "checkout_input \<Rightarrow> checkout_item \<Rightarrow> bool" where
  "drafted inp it \<longleftrightarrow> (case it of (x, ls, p) \<Rightarrow>
     ord_buyer x = cki_buyer inp \<and> ord_status x = StPending \<and> ord_address x = cki_address inp
     \<and> ord_currency x = default_currency (cki_currency inp)
     \<and> map line_input_of ls = lines_of_seller (ord_seller x) (cki_lines inp)
     \<and> list_all line_priced ls \<and> ord_subtotal x = lines_subtotal ls
     \<and> pay_seller p = ord_seller x \<and> pay_currency p = ord_currency x \<and> pay_transfer p = None)"

definition undiscounted :: "checkout_item \<Rightarrow> bool" where
  "undiscounted it \<longleftrightarrow> (case it of (x, ls, p) \<Rightarrow> pay_amount p = i64 (ord_subtotal x - ord_commission x))"

definition totalled :: "checkout_item \<Rightarrow> bool" where
  "totalled it \<longleftrightarrow> (case it of (x, ls, p) \<Rightarrow>
     ord_total x = order_total (ord_subtotal x) (ord_shipping x) (ord_coupon_discount x) (ord_point_discount x)
     \<and> (pay_amount p = i64 (ord_subtotal x - ord_commission x)
        \<or> ord_coupon_discount x > 0
          \<and> pay_amount p = i64 (residual (ord_subtotal x) (ord_coupon_discount x) - ord_commission x)))"

definition cart_sellers :: "checkout_item list \<Rightarrow> uuid list" where
  "cart_sellers its = map (\<lambda>it. ord_seller (item_order it)) its"

definition cart_totals :: "checkout_item list \<Rightarrow> int list" where
  "cart_totals its = map (\<lambda>it. ord_total (item_order it)) its"

definition split_cart :: "checkout_input \<Rightarrow> checkout_item list \<Rightarrow> bool" where
  "split_cart inp its \<longleftrightarrow> cart_sellers its = first_sellers (cki_lines inp)
     \<and> list_all (\<lambda>it. drafted inp it \<and> totalled it) its"

lemma line_input_of_new [simp]: "line_input_of (new_line l) = l"
  by (simp add: line_input_of_def new_line_def)

lemma line_priced_new [simp]: "line_priced (new_line l)"
  by (simp add: line_priced_def new_line_def)

lemma draft_order_drafted:
  "drafted inp (fst (draft_order inp ship seller rate))"
  "undiscounted (fst (draft_order inp ship seller rate))"
  "ord_seller (item_order (fst (draft_order inp ship seller rate))) = seller"
  by (simp_all add: drafted_def undiscounted_def draft_order_def Let_def new_order_def new_payout_def list_all_iff comp_def)

lemma wp_draft_cart:
  "wp (draft_batch inp ship) (\<lambda>ds _. cart_sellers (map fst ds) = first_sellers (cki_lines inp)
     \<and> list_all (\<lambda>d. drafted inp (fst d) \<and> undiscounted (fst d)) ds) w"
  unfolding draft_batch_def
  by (rule wp_for [where I = "\<lambda>rest ds _. cart_sellers (map fst ds) @ rest = first_sellers (cki_lines inp)
        \<and> list_all (\<lambda>d. drafted inp (fst d) \<and> undiscounted (fst d)) ds"])
     (auto simp: rule_rate_def applicable_rule_def draft_order_drafted cart_sellers_def intro!: wp_intros)

subsection \<open>Discounts and names\<close>

lemma discount_item_drafted:
  assumes "drafted inp (fst d)" "undiscounted (fst d)"
  shows "drafted inp (discount_item g d c q)" "totalled (discount_item g d c q)"
    "ord_seller (item_order (discount_item g d c q)) = ord_seller (item_order (fst d))"
proof -
  obtain x ls p rate where d: "d = ((x, ls, p), rate)" by (metis surj_pair)
  note defs = d drafted_def undiscounted_def totalled_def discount_item_def Let_def seller_coupon_def
  consider "g = None" | h where "g = Some h" "c \<le> 0"
    | h where "g = Some h" "0 < c" "cgr_seller h = None" | h i where "g = Some h" "0 < c" "cgr_seller h = Some i"
    by (cases g) (auto simp: not_le [symmetric] split: option.splits)
  note four = this
  show "drafted inp (discount_item g d c q)"
    using assms by (cases rule: four) (simp_all add: defs)
  show "totalled (discount_item g d c q)" using assms(2) by (cases rule: four) (simp_all add: defs)
  show "ord_seller (item_order (discount_item g d c q)) = ord_seller (item_order (fst d))"
    by (cases rule: four) (simp_all add: defs)
qed

lemma anchor_points_split:
  "split_cart inp its \<Longrightarrow> split_cart inp (anchor_points p its)"
  by (auto simp: anchor_points_def split_cart_def drafted_def totalled_def cart_sellers_def Let_def
      split: option.splits list.splits)

lemma discount_zip_split:
  assumes "length ys = length ds" and "list_all (\<lambda>d. drafted inp (fst d) \<and> undiscounted (fst d)) ds"
  shows "cart_sellers (map (\<lambda>(d, x, q). discount_item c d x q) (zip ds ys)) = cart_sellers (map fst ds)
    \<and> list_all (\<lambda>it. drafted inp it \<and> totalled it) (map (\<lambda>(d, x, q). discount_item c d x q) (zip ds ys))"
  using assms
  by (induction ys ds rule: list_induct2) (auto simp: cart_sellers_def discount_item_drafted)

lemma apply_discounts_split:
  assumes "cart_sellers (map fst ds) = first_sellers (cki_lines inp)" "list_all (\<lambda>d. drafted inp (fst d) \<and> undiscounted (fst d)) ds"
  shows "split_cart inp (apply_discounts ds c p)"
proof -
  have "length (coupon_shares ds c) = length ds"
    by (auto simp: coupon_shares_def Let_def draft_subtotals_def split: option.splits)
  then have "length (zip (coupon_shares ds c) (point_shares ds c p)) = length ds"
    by (simp add: point_shares_def draft_subtotals_def)
  with discount_zip_split [OF this assms(2)] assms(1) show ?thesis
    unfolding apply_discounts_def by (intro anchor_points_split) (simp add: split_cart_def)
qed

lemma wp_attach_products:
  "wp (attach_products f ls) (\<lambda>ls' _. map line_input_of ls' = map line_input_of ls
     \<and> map oln_total ls' = map oln_total ls \<and> (list_all line_priced ls \<longrightarrow> list_all line_priced ls')) w"
  unfolding attach_products_def
  by (rule wp_for [where I = "\<lambda>rest acc _. map line_input_of (acc @ rest) = map line_input_of ls
        \<and> map oln_total (acc @ rest) = map oln_total ls
        \<and> (list_all line_priced ls \<longrightarrow> list_all line_priced (acc @ rest))"])
     (auto simp: line_input_of_def line_priced_def intro!: wp_intros)

lemma wp_resolve_item:
  assumes "drafted inp it" "totalled it"
  shows "wp (resolve_item f g it) (\<lambda>it' _. drafted inp it' \<and> totalled it'
     \<and> ord_seller (item_order it') = ord_seller (item_order it)
     \<and> ord_total (item_order it') = ord_total (item_order it)) w"
  using assms unfolding resolve_item_def
  by (cases it) (auto intro!: wp_bindI wp_mono [OF wp_attach_products] wp_returnI
      simp: drafted_def totalled_def lines_subtotal_def Let_def)

lemma wp_resolve_cart:
  assumes "split_cart inp its"
  shows "wp (resolve_items cfg its) (\<lambda>its' _. split_cart inp its' \<and> cart_totals its' = cart_totals its) w"
  unfolding resolve_items_def
  by (intro wp_intros, rule wp_for [where I = "\<lambda>rest acc _. cart_sellers (acc @ rest) = first_sellers (cki_lines inp)
        \<and> list_all (\<lambda>it. drafted inp it \<and> totalled it) (acc @ rest) \<and> cart_totals (acc @ rest) = cart_totals its"])
     (use assms in \<open>auto simp: split_cart_def cart_sellers_def cart_totals_def intro!: wp_bindI wp_mono [OF wp_resolve_item] wp_returnI\<close>)

subsection \<open>The inserts\<close>

text \<open>The two tables of orders and the calls, apart from the rows being inserted.\<close>

definition attached :: "checkout_item \<Rightarrow> bool" where
  "attached it \<longleftrightarrow> (case it of (x, ls, p) \<Rightarrow>
     (\<forall>l \<in> set ls. oln_order l = ord_id x) \<and> pay_order p = ord_id x \<and> pay_status p = PayoutPending)"

definition grown :: "'x order_state \<Rightarrow> order_row list \<Rightarrow> order_line list \<Rightarrow> payout_row list \<Rightarrow> 'x order_state \<Rightarrow> bool" where
  "grown s0 xs ls ps s \<longleftrightarrow> orders s = orders s0 @ xs \<and> order_lines s = order_lines s0 @ ls
     \<and> payouts s = payouts s0 @ ps \<and> rules s = rules s0 \<and> cancel_requests s = cancel_requests s0
     \<and> stripe_calls s = stripe_calls s0"

definition fresh_order :: "'x order_state \<Rightarrow> order_row list \<Rightarrow> order_row \<Rightarrow> bool" where
  "fresh_order s0 xs x \<longleftrightarrow> ord_id x \<notin> set (map ord_id (orders s0 @ xs))"

lemma insert_order_done:
  "insert_order_stmt o1 t s = Inr (x, s') \<Longrightarrow> ord_id o1 \<notin> set (map ord_id (orders s))
    \<and> x = o1\<lparr>ord_created_at := t, ord_updated_at := t, ord_paid_at := None, ord_cancelled_at := None,
           ord_cancel_reason := None, ord_published_at := None, ord_claim_at := None\<rparr>
    \<and> s' = s\<lparr>orders := orders s @ [x]\<rparr>"
  by (auto simp: insert_order_stmt_def Let_def split: if_splits)

lemma insert_payout_done:
  "insert_payout_stmt p t s = Inr (p', s') \<Longrightarrow>
    p' = p\<lparr>pay_created_at := t, pay_reversal := None, pay_completed_at := None, pay_reversed_at := None\<rparr>
    \<and> s' = s\<lparr>payouts := payouts s @ [p']\<rparr>"
  by (auto simp: insert_payout_stmt_def Let_def split: if_splits)

lemma grown_orders: "grown s0 xs ls ps s \<Longrightarrow> grown s0 (xs @ [x]) ls ps (s\<lparr>orders := orders s @ [x]\<rparr>)"
  by (simp add: grown_def)

lemma grown_payouts: "grown s0 xs ls ps s \<Longrightarrow> grown s0 xs ls (ps @ [p]) (s\<lparr>payouts := payouts s @ [p]\<rparr>)"
  by (simp add: grown_def)

lemma wp_insert_line:
  assumes "grown s0 xs ls ps (store w)"
  shows "wp (insert_line i l) (\<lambda>l' w'. grown s0 xs (ls @ [l']) ps (store w') \<and> oln_order l' = i
     \<and> line_input_of l' = line_input_of l \<and> oln_total l' = oln_total l \<and> line_priced l' = line_priced l) w"
  unfolding insert_line_def
proof (intro wp_bindI wp_new_uuidI wp_sqlI, goal_cases)
  case (1 j w1 l' s2 w2)
  then have "l' = l\<lparr>oln_id := j, oln_order := i, oln_created_at := clock w1\<rparr>
      \<and> s2 = (store w)\<lparr>order_lines := order_lines (store w) @ [l']\<rparr>"
    by (auto simp: insert_line_stmt_def Let_def split: if_splits)
  with assms 1(5) show ?case by (simp add: grown_def line_input_of_def line_priced_def)
qed

lemma wp_insert_lines:
  assumes "grown s0 xs ls ps (store w)"
  shows "wp (tx_for new (\<lambda>l acc. tx_bind (insert_line i l) (\<lambda>l. tx_return (acc @ [l]))) [])
     (\<lambda>ls' w'. grown s0 xs (ls @ ls') ps (store w') \<and> (\<forall>l \<in> set ls'. oln_order l = i)
        \<and> map line_input_of ls' = map line_input_of new \<and> map oln_total ls' = map oln_total new
        \<and> (list_all line_priced new \<longrightarrow> list_all line_priced ls')) w"
  by (rule wp_for [where I = "\<lambda>rest acc w'. grown s0 xs (ls @ acc) ps (store w') \<and> (\<forall>l \<in> set acc. oln_order l = i)
        \<and> map line_input_of (acc @ rest) = map line_input_of new \<and> map oln_total (acc @ rest) = map oln_total new
        \<and> (list_all line_priced new \<longrightarrow> list_all line_priced (acc @ rest))"])
     (use assms in \<open>auto intro!: wp_bindI wp_mono [OF wp_insert_line] wp_returnI\<close>)

lemma wp_insert_item:
  assumes "grown s0 xs ls ps (store w)" and "drafted inp it" and "totalled it" and "ord_intent (item_order it) = None"
  shows "wp (insert_checkout_item it) (\<lambda>it' w'. drafted inp it' \<and> totalled it' \<and> attached it'
     \<and> ord_intent (item_order it') = None \<and> fresh_order s0 xs (item_order it')
     \<and> ord_seller (item_order it') = ord_seller (item_order it) \<and> ord_total (item_order it') = ord_total (item_order it)
     \<and> grown s0 (xs @ [item_order it']) (ls @ item_lines it') (ps @ [item_payout it']) (store w')) w"
proof -
  obtain o1 new p where it: "it = (o1, new, p)" by (cases it)
  show ?thesis
    unfolding insert_checkout_item_def insert_order_tx_def it prod.case
  proof (intro wp_bindI wp_new_uuidI wp_sqlI, goal_cases)
    case (1 i w1 x s2 w2)
    have x: "x = o1\<lparr>ord_id := i, ord_created_at := clock w1, ord_updated_at := clock w1, ord_paid_at := None,
        ord_cancelled_at := None, ord_cancel_reason := None, ord_published_at := None, ord_claim_at := None\<rparr>"
      and s2: "grown s0 (xs @ [x]) ls ps (store w2)" and fresh: "fresh_order s0 xs x"
      using insert_order_done [OF 1(4)] 1(1,2,5) assms(1) by (auto simp: fresh_order_def grown_def)
    show ?case
    proof (rule wp_mono [OF wp_insert_lines [OF s2]], goal_cases)
      case (1 ls' w3)
      note ls' = this
      show ?case
        unfolding wp_simps prod.case
      proof (intro wp_sqlI, goal_cases)
        case (1 p' s4 w4)
        then have p': "p' = p\<lparr>pay_id := uuids w3 (uuid_next w3), pay_order := ord_id x, pay_status := PayoutPending,
            pay_created_at := clock w3, pay_reversal := None, pay_completed_at := None, pay_reversed_at := None\<rparr>"
          and s4: "grown s0 (xs @ [x]) (ls @ ls') (ps @ [p']) (store w4)"
          using insert_payout_done [OF 1(1)] 1(2) ls' by (auto simp: grown_def)
        show ?case
          using assms(2-4) ls' fresh s4 unfolding p'
          by (auto simp: wp_simps it drafted_def totalled_def attached_def x lines_subtotal_def)
      qed
    qed
  qed
qed

definition new_ids :: "'x order_state \<Rightarrow> checkout_item list \<Rightarrow> bool" where
  "new_ids s0 its \<longleftrightarrow> distinct (map (\<lambda>it. ord_id (item_order it)) its)
     \<and> (\<forall>it \<in> set its. ord_id (item_order it) \<notin> set (map ord_id (orders s0)))"

text \<open>The items of the cart, as they stand in the tables.\<close>

definition inserted :: "checkout_input \<Rightarrow> 'x order_state \<Rightarrow> checkout_item list \<Rightarrow> bool" where
  "inserted inp s0 its \<longleftrightarrow> split_cart inp its \<and> list_all attached its \<and> new_ids s0 its"

lemma new_ids_snoc:
  "new_ids s0 its \<Longrightarrow> fresh_order s0 (map item_order its) (item_order it) \<Longrightarrow> new_ids s0 (its @ [it])"
  by (auto simp: new_ids_def fresh_order_def)

lemma wp_create_cart:
  assumes "split_cart inp its" and "\<forall>it \<in> set its. ord_intent (item_order it) = None"
  shows "wp (create_checkout_batch its) (\<lambda>its' w'. inserted inp (store w) its' \<and> cart_totals its' = cart_totals its
     \<and> grown (store w) (map item_order its') (concat (map item_lines its')) (map item_payout its') (store w')) w"
  unfolding create_checkout_batch_def
proof (rule wp_run_txI)
  fix w0 :: "'a order_state world"
  let ?P = "\<lambda>rest acc w1. cart_sellers (acc @ rest) = first_sellers (cki_lines inp)
      \<and> list_all (\<lambda>it. drafted inp it \<and> totalled it) (acc @ rest) \<and> (\<forall>it \<in> set rest. ord_intent (item_order it) = None)
      \<and> list_all attached acc \<and> new_ids (store w) acc \<and> cart_totals (acc @ rest) = cart_totals its
      \<and> grown (store w) (map item_order acc) (concat (map item_lines acc)) (map item_payout acc) (store w1)"
  assume "store w0 = store w"
  then have "grown (store w) [] [] [] (store w0)" by (simp add: grown_def)
  with assms have "?P its [] w0" by (simp add: split_cart_def new_ids_def)
  then show "wp (tx_for its (\<lambda>it acc. tx_bind (insert_checkout_item it) (\<lambda>it. tx_return (acc @ [it]))) [])
      (\<lambda>its' w1. \<not> aborted w1 \<longrightarrow> (\<forall>w2. store w2 = store w1 \<longrightarrow> inserted inp (store w) its'
        \<and> cart_totals its' = cart_totals its \<and> grown (store w) (map item_order its') (concat (map item_lines its')) (map item_payout its') (store w2))) w0"
  proof (rule wp_for [where I = ?P])
    fix it rest acc and w1 :: "'a order_state world"
    assume P: "?P (it # rest) acc w1"
    then have one: "grown (store w) (map item_order acc) (concat (map item_lines acc)) (map item_payout acc) (store w1)"
      "drafted inp it" "totalled it" "ord_intent (item_order it) = None" by simp_all
    show "wp (tx_bind (insert_checkout_item it) (\<lambda>it. tx_return (acc @ [it]))) (?P rest) w1"
      by (rule wp_bindI, rule wp_mono [OF wp_insert_item [OF one]])
         (use P in \<open>simp add: wp_simps cart_sellers_def cart_totals_def new_ids_snoc\<close>)
  qed (simp add: inserted_def split_cart_def)
qed

subsection \<open>The payment intent\<close>

text \<open>The code's copy of an order has the intent, but not the new \<open>updated_at\<close> of its row.\<close>

definition same_but_updated :: "order_row \<Rightarrow> order_row \<Rightarrow> bool" where
  "same_but_updated y x \<longleftrightarrow> (\<exists>t. y = x\<lparr>ord_updated_at := t\<rparr>)"

lemma same_but_updated_id: "same_but_updated y x \<Longrightarrow> ord_id y = ord_id x"
  by (auto simp: same_but_updated_def)

lemma same_but_updated_refl: "same_but_updated x x"
  unfolding same_but_updated_def by (rule exI [of _ "ord_updated_at x"]) simp

definition stamped :: "'x order_state \<Rightarrow> checkout_item list \<Rightarrow> 'x order_state \<Rightarrow> bool" where
  "stamped s0 its s \<longleftrightarrow> (\<exists>rows. list_all2 (\<lambda>y it. same_but_updated y (item_order it)) rows its
     \<and> grown s0 rows (concat (map item_lines its)) (map item_payout its) s)"

lemma stamped_remote [simp]: "stamped s0 its (s\<lparr>remote := z\<rparr>) = stamped s0 its s"
  by (simp add: stamped_def grown_def)

fun with_intent :: "string \<Rightarrow> checkout_item \<Rightarrow> checkout_item" where
  "with_intent pi (x, ls, p) = (x\<lparr>ord_intent := Some pi\<rparr>, ls, p)"

lemma with_intent_simps [simp]:
  "drafted inp (with_intent pi it) = drafted inp it" "totalled (with_intent pi it) = totalled it"
  "attached (with_intent pi it) = attached it" "ord_id (item_order (with_intent pi it)) = ord_id (item_order it)"
  "ord_seller (item_order (with_intent pi it)) = ord_seller (item_order it)"
  "ord_total (item_order (with_intent pi it)) = ord_total (item_order it)"
  "item_lines (with_intent pi it) = item_lines it" "item_payout (with_intent pi it) = item_payout it"
  by (cases it; simp add: drafted_def totalled_def attached_def)+

lemma inserted_with_intent: "inserted inp s0 (map (with_intent pi) its) = inserted inp s0 its"
  by (simp add: inserted_def split_cart_def cart_sellers_def new_ids_def list.pred_map comp_def)

text \<open>The update of one row leaves the others alone, because the identifiers are distinct.\<close>

lemma update_one_order:
  assumes "new_ids s0 (as @ it # bs)" and "list_all2 (\<lambda>y it. same_but_updated y (item_order it)) rows (as @ it # bs)"
    and "\<And>y. same_but_updated y (item_order it) \<Longrightarrow> same_but_updated (g y) (item_order it')"
    and "q = (\<lambda>x. ord_id x = ord_id (item_order it))"
  shows "update_where q g (orders s0) = orders s0"
    and "list_all2 (\<lambda>y it. same_but_updated y (item_order it)) (update_where q g rows) (as @ it' # bs)"
proof -
  have "ord_id (item_order it) \<notin> set (map ord_id (orders s0))" using assms(1) by (simp add: new_ids_def)
  then show "update_where q g (orders s0) = orders s0"
    unfolding assms(4) by (intro update_where_id) (metis image_eqI set_map)
  from assms(2) obtain r1 y r2 where rows: "rows = r1 @ y # r2" and y: "same_but_updated y (item_order it)"
    and r: "list_all2 (\<lambda>y it. same_but_updated y (item_order it)) r1 as"
      "list_all2 (\<lambda>y it. same_but_updated y (item_order it)) r2 bs"
    by (auto simp: list_all2_append2 list_all2_Cons2)
  have other: "update_where q g zs = zs"
    if "list_all2 (\<lambda>y it. same_but_updated y (item_order it)) zs is" "ord_id (item_order it) \<notin> (\<lambda>it. ord_id (item_order it)) ` set is" for zs "is"
  proof (rule update_where_id)
    fix z assume "z \<in> set zs"
    with that(1) obtain j where "j \<in> set is" "same_but_updated z (item_order j)"
      by (metis list_all2_conv_all_nth in_set_conv_nth)
    with that(2) show "\<not> q z" by (auto simp: assms(4) dest!: same_but_updated_id)
  qed
  have "ord_id (item_order it) \<notin> (\<lambda>it. ord_id (item_order it)) ` set as"
    "ord_id (item_order it) \<notin> (\<lambda>it. ord_id (item_order it)) ` set bs"
    using assms(1) by (auto simp: new_ids_def)
  with other [OF r(1)] other [OF r(2)] y have "update_where q g rows = r1 @ g y # r2"
    by (simp add: rows update_where_def assms(4) same_but_updated_id)
  with r assms(3) [OF y] show "list_all2 (\<lambda>y it. same_but_updated y (item_order it)) (update_where q g rows) (as @ it' # bs)"
    by (simp add: list_all2_appendI)
qed

lemma wp_attach_intent:
  assumes "stamped s0 (as @ it # bs) (store w)" and "new_ids s0 (as @ it # bs)"
  shows "wp (set_order_intent (ord_id (item_order it)) pi)
     (\<lambda>_ w'. stamped s0 (as @ with_intent pi it # bs) (store w')) w"
  unfolding set_order_intent_def update_orders_def
proof (intro wp_run_txI wp_bindI wp_sqlI, goal_cases)
  case (1 w0 n s1 w1)
  let ?q = "\<lambda>x. ord_id x = ord_id (item_order it)" and ?g = "\<lambda>x. x\<lparr>ord_intent := Some pi, ord_updated_at := clock w0\<rparr>"
  obtain rows where rows: "list_all2 (\<lambda>y it. same_but_updated y (item_order it)) rows (as @ it # bs)"
    and s: "grown s0 rows (concat (map item_lines (as @ it # bs))) (map item_payout (as @ it # bs)) (store w)"
    using assms(1) by (auto simp: stamped_def)
  have g: "same_but_updated y (item_order it) \<Longrightarrow> same_but_updated (?g y) (item_order (with_intent pi it))" for y
    by (cases it) (auto simp: same_but_updated_def)
  note one = update_one_order [OF assms(2) rows g refl]
  have "store w1 = (store w)\<lparr>orders := orders s0 @ update_where ?q ?g rows\<rparr>"
    using 1(1,4,5) s one(1) by (auto simp: grown_def update_where_def)
  with s have "grown s0 (update_where ?q ?g rows) (concat (map item_lines (as @ it # bs)))
      (map item_payout (as @ it # bs)) (store w1)"
    by (simp add: grown_def)
  with one(2) have "stamped s0 (as @ with_intent pi it # bs) (store w1)"
    unfolding stamped_def by (intro exI conjI) auto
  then show ?case by (auto intro!: wp_intros)
qed

lemma wp_attach_cart:
  assumes "stamped s0 its (store w)" and "new_ids s0 its"
  shows "wp (attach_intents pi its) (\<lambda>its' w'. its' = map (with_intent pi) its \<and> stamped s0 its' (store w')) w"
proof -
  let ?P = "\<lambda>rest acc w1. acc @ map (with_intent pi) rest = map (with_intent pi) its \<and> length acc + length rest = length its
      \<and> stamped s0 (acc @ rest) (store w1) \<and> new_ids s0 (acc @ rest)"
  show ?thesis
    unfolding attach_intents_def
  proof (rule wp_for [where I = ?P])
    show "?P its [] w" using assms by simp
  next
    fix it rest acc and w1 :: "'a order_state world"
    assume P: "?P (it # rest) acc w1"
    obtain x ls p where it: "it = (x, ls, p)" by (cases it)
    have "new_ids s0 (acc @ with_intent pi it # rest)" using P by (simp add: new_ids_def)
    with P show "wp (case it of (x, ls, p) \<Rightarrow>
        tx_bind (wrap ''failed to attach payment intent to order'' (set_order_intent (ord_id x) pi))
          (\<lambda>_. tx_return (acc @ [(x\<lparr>ord_intent := Some pi\<rparr>, ls, p)]))) (?P rest) w1"
      unfolding it prod.case
      by (intro wp_bindI wp_wrap, intro wp_mono [OF wp_attach_intent [where it = "(x, ls, p)", simplified]])
         (auto simp: wp_simps)
  next
    fix acc and w1 :: "'a order_state world"
    assume "?P [] acc w1"
    then show "acc = map (with_intent pi) its \<and> stamped s0 acc (store w1)" by auto
  qed
qed

subsection \<open>The whole checkout\<close>

text \<open>
  \<open>checkout_complete\<close>: one new order per seller, in the order of the cart, each with its lines, its
  amounts, its pending payout and the payment intent; the tables have grown by these rows only; and
  Stripe has one more payment intent, over the sum of the totals.
\<close>

definition checkout_complete ::
  "checkout_input \<Rightarrow> checkout_result \<Rightarrow> 'x order_state \<Rightarrow> 'x order_state \<Rightarrow> bool" where
  "checkout_complete inp r s s' \<longleftrightarrow> (\<exists>its rows.
     ckr_orders r = map (\<lambda>it. (item_order it, item_lines it)) its
     \<and> inserted inp s its
     \<and> list_all (\<lambda>it. ord_intent (item_order it) = Some (ckr_intent r)) its
     \<and> ckr_total r = sum_i64 (cart_totals its)
     \<and> ckr_currency r = default_currency (cki_currency inp)
     \<and> list_all2 (\<lambda>y it. same_but_updated y (item_order it)) rows its
     \<and> orders s' = orders s @ rows
     \<and> order_lines s' = order_lines s @ concat (map item_lines its)
     \<and> payouts s' = payouts s @ map item_payout its
     \<and> cancel_requests s' = cancel_requests s
     \<and> stripe_calls s' = stripe_calls s @ [StripeIntent (ckr_total r) (ckr_currency r) None (ckr_intent r)])"

definition same_tables :: "'x order_state \<Rightarrow> 'x order_state \<Rightarrow> bool" where
  "same_tables s s' \<longleftrightarrow> grown s [] [] [] s'"

lemma same_tables_refl [simp]: "same_tables s s"
  by (simp add: same_tables_def grown_def)

lemma same_tables_remote [simp]: "same_tables s (s'\<lparr>remote := z\<rparr>) = same_tables s s'"
  by (simp add: same_tables_def grown_def)

lemma external_same_tables [keeps_intros]: "keeps (same_tables s) (external f)"
  by (rule keeps_external) simp

lemma publish_stamped:
  "keeps (stamped s0 its) (announce_order cfg pi it)"
  unfolding announce_order_def Let_def by (rule publish_keeps_any) simp

lemma wp_platform_intent:
  assumes "stamped s0 its (store w)"
  shows "wp (stripe_or_fail msg (create_platform_intent cfg n cur))
     (\<lambda>(pi, secret) w'. stamped (s0\<lparr>stripe_calls := stripe_calls s0 @ [StripeIntent n cur None pi]\<rparr>) its (store w')) w"
  using assms
  by (auto simp: wp_def stripe_or_fail_def create_platform_intent_def stripe_op_def tx_defs stamped_def grown_def
      split: prod.splits sum.splits)

lemma inserted_frame: "orders s = orders s' \<Longrightarrow> inserted inp s its = inserted inp s' its"
  by (simp add: inserted_def new_ids_def)

lemma checkout_completeI:
  assumes "inserted inp s0 its" and "ckr_total r = sum_i64 (cart_totals its)" and "ckr_intent r = pi"
    and "ckr_currency r = default_currency (cki_currency inp)"
    and "ckr_orders r = map (\<lambda>it. (item_order it, item_lines it)) (map (with_intent pi) its)"
    and "stamped (s0\<lparr>stripe_calls := stripe_calls s0 @ [StripeIntent (ckr_total r) (ckr_currency r) None pi]\<rparr>)
           (map (with_intent pi) its) s"
  shows "checkout_complete inp r s0 s"
proof -
  obtain rows where rows: "list_all2 (\<lambda>y it. same_but_updated y (item_order it)) rows (map (with_intent pi) its)"
    and grown: "grown (s0\<lparr>stripe_calls := stripe_calls s0 @ [StripeIntent (ckr_total r) (ckr_currency r) None pi]\<rparr>)
      rows (concat (map item_lines (map (with_intent pi) its))) (map item_payout (map (with_intent pi) its)) s"
    using assms(6) by (auto simp: stamped_def)
  have "cart_totals (map (with_intent pi) its) = cart_totals its" by (simp add: cart_totals_def)
  moreover have "list_all (\<lambda>it. ord_intent (item_order it) = Some pi) (map (with_intent pi) its)"
    by (auto simp: list_all_iff)
  ultimately show ?thesis
    unfolding checkout_complete_def using assms(1-5) rows grown
    by (intro exI [of _ "map (with_intent pi) its"] exI [of _ rows]) (simp add: inserted_with_intent grown_def)
qed

lemma wp_place_orders:
  assumes "cart_sellers (map fst ds) = first_sellers (cki_lines inp)"
    and "list_all (\<lambda>d. drafted inp (fst d) \<and> undiscounted (fst d)) ds" and "items_ok (map fst ds)"
    and "same_tables s0 (store w)"
  shows "wp (place_orders cfg inp ds c p) (\<lambda>r w'. checkout_complete inp r s0 (store w')) w"
proof -
  let ?items = "apply_discounts ds c p" and ?cur = "default_currency (cki_currency inp)"
  let ?n = "sum_i64 (cart_totals ?items)"
  have resolve: "wp (resolve_items cfg ?items) (\<lambda>its w'. (split_cart inp its \<and> cart_totals its = cart_totals ?items)
      \<and> items_ok its \<and> same_tables s0 (store w')) w"
    by (rule wp_combine [OF wp_combine [OF wp_resolve_cart [OF apply_discounts_split [OF assms(1,2)]]
          wp_resolve_items [OF apply_discounts_ok [OF assms(3)]]] wp_keeps [where I = "same_tables s0"]])
       (auto intro!: assms(4) keeps_intros simp: resolve_items_def)
  show ?thesis
    unfolding place_orders_def Let_def
  proof (rule wp_bindI, rule wp_mono [OF resolve], goal_cases)
    case (1 its w1)
    then have its: "split_cart inp its" "\<forall>it \<in> set its. ord_intent (item_order it) = None"
      and tables: "same_tables s0 (store w1)" "cart_totals its = cart_totals ?items" by (auto simp: items_ok_def item_ok_def)
    show ?case
    proof (intro wp_bindI wp_wrap, rule wp_mono [OF wp_create_cart [OF its]], goal_cases)
      case (1 its2 w2)
      have grown: "grown s0 (map item_order its2) (concat (map item_lines its2)) (map item_payout its2) (store w2)"
        and ok: "inserted inp s0 its2" and totals: "cart_totals its2 = cart_totals ?items"
        using 1 tables by (auto simp: same_tables_def grown_def intro: inserted_frame [THEN iffD1, rotated])
      have "stamped s0 its2 (store w2)"
        unfolding stamped_def
        by (intro exI [of _ "map item_order its2"] conjI grown) (auto simp: list_all2_conv_all_nth same_but_updated_refl)
      note intent = wp_platform_intent [OF this]
      show ?case
        unfolding cart_totals_def [symmetric]
      proof (rule wp_bindI, rule wp_mono [OF intent], clarify, goal_cases)
        case (1 pi secret w3)
        let ?s = "s0\<lparr>stripe_calls := stripe_calls s0 @ [StripeIntent ?n ?cur None pi]\<rparr>"
        have ids: "new_ids ?s its2" using ok by (simp add: inserted_def new_ids_def)
        show ?case
          unfolding wp_bind
          by (rule wp_mono [OF wp_attach_cart [OF 1 ids]], clarify,
              rule wp_mono [OF wp_keeps [where I = "stamped ?s (map (with_intent pi) its2)"]])
             (auto intro!: keeps_intros publish_stamped checkout_completeI [OF ok] wp_returnI
               simp: totals cart_totals_def [symmetric])
      qed
    qed
  qed
qed

lemma wp_releasing: "wp m Q w \<Longrightarrow> wp (releasing cfg c p m) Q w"
  unfolding releasing_def by (rule wp_catchI) (auto simp: wp_simps wp_def tx_bind_def tx_throw_def split: prod.splits sum.splits)

lemma reservations_same_tables:
  "keeps (same_tables s) (reserve_cart_coupon cfg inp ds)" "keeps (same_tables s) (reserve_cart_points cfg inp ds c)"
  unfolding reserve_cart_coupon_def reserve_cart_points_def Let_def
  by (auto split: option.splits bool.splits intro!: keeps_intros)

lemma wp_create_checkout: "wp (create_checkout cfg inp) (\<lambda>r w'. checkout_complete inp r (store w) (store w')) w"
proof -
  have fee: "wp (shipping_fee cfg b) (\<lambda>_ w'. same_tables (store w) (store w')) w" for b
    by (rule wp_keeps [where I = "same_tables (store w)"]) (auto simp: shipping_fee_def intro!: keeps_intros)
  have drafts: "wp (draft_batch inp ship) (\<lambda>ds w2. (cart_sellers (map fst ds) = first_sellers (cki_lines inp)
      \<and> list_all (\<lambda>d. drafted inp (fst d) \<and> undiscounted (fst d)) ds) \<and> items_ok (map fst ds)
      \<and> same_tables (store w) (store w2)) w1"
    if "same_tables (store w) (store w1)" for ship and w1 :: "'a order_state world"
    by (rule wp_combine [OF wp_draft_cart wp_combine [OF wp_draft_batch
          wp_keeps [where I = "same_tables (store w)", OF order_queries_keep(10) that]]]) auto
  have coupon: "wp (reserve_cart_coupon cfg inp ds) (\<lambda>_ w2. same_tables (store w) (store w2)) w1"
    and points: "wp (releasing cfg c None (reserve_cart_points cfg inp ds c)) (\<lambda>_ w2. same_tables (store w) (store w2)) w1"
    if "same_tables (store w) (store w1)" for ds c and w1 :: "'a order_state world"
    using that by (auto intro!: wp_releasing wp_keeps [where I = "same_tables (store w)"] reservations_same_tables)
  show ?thesis
    unfolding create_checkout_def
    by (intro wp_ifI wp_throwI, unfold wp_bind, rule wp_mono [OF fee], rule wp_mono [OF drafts], assumption,
        rule wp_mono [OF coupon], simp, rule wp_mono [OF points], assumption, rule wp_releasing, rule wp_place_orders)
       simp_all
qed

end
