(* ===== verification/Order_Invariant.thy ===== *)
theory Order_Invariant
  imports Order_Policy
begin

text \<open>
  The invariant of the order service's tables, kept by every use case whatever fails: keys are
  unique and references resolve, an order has at most one payout, and it is for the order's seller
  and in its currency, an order has at most one pending cancellation request, and the money is
  where the tables say: a completed payout has been transferred to its seller, the transfer of a
  reversed one has been reversed, and the order of an approved request has been refunded its total
  under that request's idempotency key.
\<close>

subsection \<open>The invariant\<close>

text \<open>What the invariant sees of the orders.\<close>

definition order_key :: "order_row \<Rightarrow> uuid \<times> uuid \<times> string \<times> int" where
  "order_key x = (ord_id x, ord_seller x, ord_currency x, ord_total x)"

definition lines_ok :: "'x order_state \<Rightarrow> bool" where
  "lines_ok s \<longleftrightarrow> distinct (map oln_id (order_lines s))
     \<and> (\<forall>l \<in> set (order_lines s). \<exists>x \<in> set (orders s). ord_id x = oln_order l)"

definition payout_for :: "payout_row \<Rightarrow> order_row \<Rightarrow> bool" where
  "payout_for p x \<longleftrightarrow> ord_id x = pay_order p \<and> ord_seller x = pay_seller p \<and> ord_currency x = pay_currency p"

text \<open>What Stripe has acknowledged, \<open>calls\<close>, for a payout that has been made.\<close>

definition payout_backed :: "stripe_call list \<Rightarrow> payout_row \<Rightarrow> bool" where
  "payout_backed calls p \<longleftrightarrow> pay_status p \<in> {PayoutCompleted, PayoutReversed} \<longrightarrow>
     (\<exists>tr pi. pay_transfer p = Some tr
       \<and> StripeTransfer (pay_amount p) (pay_currency p) (seller_account (pay_seller p)) pi tr \<in> set calls
       \<and> (pay_status p = PayoutReversed \<longrightarrow>
            (\<exists>rid key. pay_reversal p = Some rid \<and> StripeReversal tr (pay_amount p) key rid \<in> set calls)))"

definition payouts_ok :: "'x order_state \<Rightarrow> bool" where
  "payouts_ok s \<longleftrightarrow> distinct (map pay_id (payouts s)) \<and> distinct (map pay_order (payouts s))
     \<and> (\<forall>p \<in> set (payouts s). payout_backed (stripe_calls s) p \<and> (\<exists>x \<in> set (orders s). payout_for p x))"

definition approved_refunded :: "'x order_state \<Rightarrow> cancel_request \<Rightarrow> order_row \<Rightarrow> bool" where
  "approved_refunded s r x \<longleftrightarrow> cnr_status r = CrApproved \<longrightarrow>
     (\<exists>refund. cnr_refund r = Some refund \<and> refunded (cnr_id r) (ord_total x) refund s)"

definition requests_ok :: "'x order_state \<Rightarrow> bool" where
  "requests_ok s \<longleftrightarrow> distinct (map cnr_id (cancel_requests s))
     \<and> distinct (map cnr_order (filter (\<lambda>r. cnr_status r = CrPending) (cancel_requests s)))
     \<and> (\<forall>r \<in> set (cancel_requests s). \<exists>x \<in> set (orders s). ord_id x = cnr_order r \<and> approved_refunded s r x)"

definition order_inv :: "'x order_state \<Rightarrow> bool" where
  "order_inv s \<longleftrightarrow> distinct (map ord_id (orders s)) \<and> lines_ok s \<and> payouts_ok s \<and> requests_ok s"

definition empty_order_state :: "'x \<Rightarrow> 'x order_state" where
  "empty_order_state z = \<lparr>orders = [], order_lines = [], payouts = [], rules = [], cancel_requests = [],
     remote = z, stripe_calls = []\<rparr>"

lemma order_inv_empty: "order_inv (empty_order_state z)"
  by (simp add: order_inv_def lines_ok_def payouts_ok_def requests_ok_def empty_order_state_def)

subsection \<open>What a component does not depend on\<close>

lemma refunded_frame [simp]:
  "refunded i n r (s\<lparr>orders := a\<rparr>) = refunded i n r s"
  "refunded i n r (s\<lparr>order_lines := b\<rparr>) = refunded i n r s"
  "refunded i n r (s\<lparr>payouts := c\<rparr>) = refunded i n r s"
  "refunded i n r (s\<lparr>rules := d\<rparr>) = refunded i n r s"
  "refunded i n r (s\<lparr>cancel_requests := e\<rparr>) = refunded i n r s"
  "refunded i n r (s\<lparr>remote := z\<rparr>) = refunded i n r s"
  by (simp_all add: refunded_def)

lemma refunded_call: "refunded i n r s \<Longrightarrow> refunded i n r (s\<lparr>remote := z, stripe_calls := stripe_calls s @ [c]\<rparr>)"
  by (auto simp: refunded_def)

lemma approved_refunded_frame [simp]:
  "approved_refunded (s\<lparr>orders := a\<rparr>) r x = approved_refunded s r x"
  "approved_refunded (s\<lparr>order_lines := b\<rparr>) r x = approved_refunded s r x"
  "approved_refunded (s\<lparr>payouts := c\<rparr>) r x = approved_refunded s r x"
  "approved_refunded (s\<lparr>rules := d\<rparr>) r x = approved_refunded s r x"
  "approved_refunded (s\<lparr>cancel_requests := e\<rparr>) r x = approved_refunded s r x"
  "approved_refunded (s\<lparr>remote := z\<rparr>) r x = approved_refunded s r x"
  by (simp_all add: approved_refunded_def)

lemma approved_refunded_call:
  "approved_refunded s r x \<Longrightarrow> approved_refunded (s\<lparr>remote := z, stripe_calls := stripe_calls s @ [c]\<rparr>) r x"
  unfolding approved_refunded_def by (blast intro: refunded_call)

lemma payout_backed_call: "payout_backed calls p \<Longrightarrow> payout_backed (calls @ [c]) p"
  unfolding payout_backed_def by auto

lemmas order_inv_defs = order_inv_def lines_ok_def payouts_ok_def requests_ok_def

subsection \<open>Single writes\<close>

lemma update_where_Ball:
  "(\<And>x. x \<in> set xs \<Longrightarrow> P x) \<Longrightarrow> (\<And>x. x \<in> set xs \<Longrightarrow> q x \<Longrightarrow> P (g x)) \<Longrightarrow>
   \<forall>y \<in> set (update_where q g xs). P y"
  by (auto simp: update_where_def)

lemma same_order_key: "same_order x y \<Longrightarrow> order_key y = order_key x"
  by (simp add: same_order_def order_key_def)

text \<open>An order with the same key is found after an update that keeps the keys.\<close>

lemma order_survives:
  assumes "\<And>x. same_order x (g x)" and "x \<in> set (orders s)"
  obtains y where "y \<in> set (update_where q g (orders s))" and "order_key y = order_key x"
proof
  show "(if q x then g x else x) \<in> set (update_where q g (orders s))"
    using assms(2) by (simp add: update_where_def)
  show "order_key (if q x then g x else x) = order_key x"
    using same_order_key [OF assms(1)] by simp
qed

lemma order_inv_orders:
  assumes inv: "order_inv s" and ids: "distinct (map ord_id xs)"
    and old: "\<And>x. x \<in> set (orders s) \<Longrightarrow> \<exists>y \<in> set xs. order_key y = order_key x"
  shows "order_inv (s\<lparr>orders := xs\<rparr>)"
proof -
  have one: "\<exists>y \<in> set xs. ord_id y = i" if "\<exists>x \<in> set (orders s). ord_id x = i" for i
    using that old by (fastforce simp: order_key_def)
  have "\<exists>y \<in> set xs. payout_for p y" if "\<exists>x \<in> set (orders s). payout_for p x" for p
    using that old by (fastforce simp: order_key_def payout_for_def)
  moreover have "\<exists>y \<in> set xs. ord_id y = cnr_order r \<and> approved_refunded (s\<lparr>orders := xs\<rparr>) r y"
    if "\<exists>x \<in> set (orders s). ord_id x = cnr_order r \<and> approved_refunded s r x" for r
  proof -
    from that obtain x where x: "x \<in> set (orders s)" "ord_id x = cnr_order r" "approved_refunded s r x" by blast
    from old [OF x(1)] obtain y where "y \<in> set xs" "order_key y = order_key x" by blast
    with x have "ord_id y = cnr_order r \<and> approved_refunded s r y"
      by (simp add: order_key_def approved_refunded_def)
    with \<open>y \<in> set xs\<close> show ?thesis by auto
  qed
  ultimately show ?thesis
    using inv ids one unfolding order_inv_defs by simp
qed

lemma order_inv_update:
  assumes "order_inv s" and "\<And>x. same_order x (g x)"
  shows "order_inv (s\<lparr>orders := update_where q g (orders s)\<rparr>)"
proof (rule order_inv_orders [OF assms(1)])
  have "map ord_id (update_where q g (orders s)) = map ord_id (orders s)"
    by (rule update_where_keys) (use assms(2) in \<open>simp add: same_order_def\<close>)
  then show "distinct (map ord_id (update_where q g (orders s)))"
    using assms(1) by (simp add: order_inv_def)
  show "\<exists>y \<in> set (update_where q g (orders s)). order_key y = order_key x" if "x \<in> set (orders s)" for x
    using order_survives [OF assms(2) that, of q] by blast
qed

lemma order_inv_frame:
  assumes "order_inv s"
  shows "order_inv (s\<lparr>remote := z\<rparr>)" "order_inv (s\<lparr>rules := R\<rparr>)"
    "order_inv (s\<lparr>remote := z, stripe_calls := stripe_calls s @ [c]\<rparr>)"
proof -
  show "order_inv (s\<lparr>remote := z\<rparr>)" "order_inv (s\<lparr>rules := R\<rparr>)"
    using assms unfolding order_inv_defs by simp_all
  show "order_inv (s\<lparr>remote := z, stripe_calls := stripe_calls s @ [c]\<rparr>)"
    using assms unfolding order_inv_defs by simp (blast intro: approved_refunded_call payout_backed_call)
qed

lemma insert_order_inv:
  assumes "order_inv s" and "insert_order_stmt o1 t s = Inr (x, s')"
  shows "order_inv s'" and "ord_id x = ord_id o1" and "ord_seller x = ord_seller o1"
    and "ord_currency x = ord_currency o1" and "orders s' = orders s @ [x]" and "payouts s' = payouts s"
    and "ord_id o1 \<notin> set (map ord_id (orders s))"
proof -
  show s': "ord_id x = ord_id o1" "ord_seller x = ord_seller o1" "ord_currency x = ord_currency o1"
    "orders s' = orders s @ [x]" "payouts s' = payouts s" "ord_id o1 \<notin> set (map ord_id (orders s))"
    using assms(2) by (auto simp: insert_order_stmt_def Let_def split: if_splits)
  have "s' = s\<lparr>orders := orders s @ [x]\<rparr>"
    using assms(2) by (auto simp: insert_order_stmt_def Let_def split: if_splits)
  moreover have "order_inv (s\<lparr>orders := orders s @ [x]\<rparr>)"
    by (rule order_inv_orders [OF assms(1)]) (use assms(1) s' in \<open>auto simp: order_inv_def\<close>)
  ultimately show "order_inv s'" by simp
qed

lemma insert_line_inv:
  assumes "order_inv s" and "insert_line_stmt l t s = Inr (y, s')"
  shows "order_inv s'" and "orders s' = orders s" and "payouts s' = payouts s"
proof -
  from assms(2) have s': "s' = s\<lparr>order_lines := order_lines s @ [y]\<rparr>" "oln_id y = oln_id l" "oln_order y = oln_order l"
    and new: "oln_id l \<notin> set (map oln_id (order_lines s))" and ref: "oln_order l \<in> set (map ord_id (orders s))"
    by (auto simp: insert_line_stmt_def Let_def split: if_splits)
  from ref obtain x where "x \<in> set (orders s)" "ord_id x = oln_order y" using s' by auto
  with assms(1) s' new show "order_inv s'"
    unfolding order_inv_defs by auto
  from s' show "orders s' = orders s" "payouts s' = payouts s" by simp_all
qed

lemma insert_payout_inv:
  assumes "order_inv s" and "insert_payout_stmt p t s = Inr (y, s')"
    and "x \<in> set (orders s)" and "payout_for p x" and "pay_status p = PayoutPending" and "\<And>q. q \<in> set (payouts s) \<Longrightarrow> pay_order q \<noteq> pay_order p"
  shows "order_inv s'"
proof -
  from assms(2) have s': "s' = s\<lparr>payouts := payouts s @ [y]\<rparr>" "pay_id y = pay_id p" "pay_order y = pay_order p"
      "pay_seller y = pay_seller p" "pay_currency y = pay_currency p" "pay_status y = pay_status p"
    and new: "pay_id p \<notin> set (map pay_id (payouts s))"
    by (auto simp: insert_payout_stmt_def Let_def split: if_splits)
  have fresh: "pay_order y \<notin> pay_order ` set (payouts s)" using assms(6) s'(3) by (metis imageE)
  have "payout_backed (stripe_calls s) y" using assms(5) s' by (simp add: payout_backed_def)
  moreover have "payout_for y x" using assms(4) s' by (simp add: payout_for_def)
  ultimately show ?thesis
    using assms(1,3) s' new fresh unfolding order_inv_defs by auto
qed

subsection \<open>The repositories' writes\<close>

lemma claim_publish_inv: "keeps order_inv (claim_publish i ttl)"
proof -
  have same: "same_order x (x\<lparr>ord_claim_at := Some t, ord_updated_at := t\<rparr>)" for x t
    by (simp add: same_order_def)
  show ?thesis
    unfolding claim_publish_def
    by (intro keeps_intros) (auto simp: Let_def intro: order_inv_update [OF _ same])
qed

lemma update_orders_inv:
  "(\<And>t x. same_order x (g t x)) \<Longrightarrow> keeps order_inv (update_orders q g)"
  unfolding update_orders_def by (intro keeps_intros) (auto intro: order_inv_update)

lemma insert_line_keeps: "keeps order_inv (insert_line i l)"
  unfolding insert_line_def by (intro keeps_intros) (rule insert_line_inv(1))

lemma create_order_rows_inv: "keeps order_inv (create_order_rows o1 ls)"
  unfolding create_order_rows_def insert_order_tx_def
  by (intro keeps_intros insert_line_keeps) (rule insert_order_inv(1))

text \<open>An order that a payout can be inserted for: it is there and has none.\<close>

definition unpaid_order :: "order_row \<Rightarrow> 'x order_state \<Rightarrow> bool" where
  "unpaid_order x s \<longleftrightarrow> order_inv s \<and> x \<in> set (orders s) \<and> (\<forall>p \<in> set (payouts s). pay_order p \<noteq> ord_id x)"

lemma insert_order_unpaid:
  assumes "order_inv s" and "insert_order_stmt o1 t s = Inr (x, s')"
  shows "unpaid_order x s' \<and> ord_seller x = ord_seller o1 \<and> ord_currency x = ord_currency o1"
proof -
  have "pay_order p \<noteq> ord_id x" if "p \<in> set (payouts s)" for p
  proof -
    from assms(1) that obtain y where "y \<in> set (orders s)" "ord_id y = pay_order p"
      by (auto simp: order_inv_def payouts_ok_def payout_for_def)
    then have "pay_order p \<in> set (map ord_id (orders s))" by force
    with insert_order_inv(2,7) [OF assms] show ?thesis by metis
  qed
  with insert_order_inv [OF assms] show ?thesis by (simp add: unpaid_order_def)
qed

lemma insert_line_unpaid: "keeps (unpaid_order x) (insert_line i l)"
  unfolding insert_line_def
  by (intro keeps_intros) (auto simp: unpaid_order_def dest: insert_line_inv)

lemma wp_insert_order:
  fixes w :: "'x order_state world"
  assumes "order_inv (store w)"
  shows "wp (insert_order_tx o1 ls) (\<lambda>(x, ls) w'. unpaid_order x (store w')
    \<and> ord_seller x = ord_seller o1 \<and> ord_currency x = ord_currency o1) w"
proof -
  have lines: "wp (tx_for ls (\<lambda>l acc. tx_bind (insert_line i l) (\<lambda>l. tx_return (acc @ [l]))) acc)
      (\<lambda>_ w'. unpaid_order x (store w')) w1" if "unpaid_order x (store w1)" for i x ls acc and w1 :: "'x order_state world"
    by (rule wp_keeps [where I = "unpaid_order x"], intro keeps_intros insert_line_unpaid, rule that)
  show ?thesis
    unfolding insert_order_tx_def
    by (intro wp_bindI wp_new_uuidI wp_sqlI, drule insert_order_unpaid [rotated])
       (auto simp: assms wp_simps intro!: wp_mono [OF lines])
qed

lemma insert_item_inv:
  fixes w :: "'x order_state world"
  assumes "order_inv (store w)" and "item_ok it"
  shows "wp (insert_checkout_item it) (\<lambda>_ w'. order_inv (store w')) w"
proof -
  obtain o1 ls p where it: "it = (o1, ls, p)" by (cases it)
  have pay: "wp (sql (insert_payout_stmt (p\<lparr>pay_id := i, pay_order := ord_id x, pay_status := PayoutPending\<rparr>)))
      (\<lambda>_ w'. order_inv (store w')) w1"
    if "unpaid_order x (store w1)" "ord_seller x = ord_seller o1" "ord_currency x = ord_currency o1"
    for i x and w1 :: "'x order_state world"
  proof (rule wp_sqlI)
    fix y s' and w2 :: "'x order_state world"
    assume stmt: "insert_payout_stmt (p\<lparr>pay_id := i, pay_order := ord_id x, pay_status := PayoutPending\<rparr>)
      (clock w1) (store w1) = Inr (y, s')" and "store w2 = s'"
    then show "order_inv (store w2)"
      using insert_payout_inv [OF _ stmt, of x] that assms(2) by (auto simp: unpaid_order_def payout_for_def it item_ok_def)
  qed
  show ?thesis
    unfolding insert_checkout_item_def it
    by (auto simp: wp_simps intro!: wp_mono [OF wp_insert_order [OF assms(1)]] wp_mono [OF pay])
qed

lemma create_checkout_batch_inv:
  "items_ok items \<Longrightarrow> keeps order_inv (create_checkout_batch items)"
  unfolding create_checkout_batch_def
  by (rule keeps_run_tx, rule wp_for [where I = "\<lambda>rest _ w. items_ok rest \<and> order_inv (store w)"])
     (auto simp: wp_simps intro: wp_mono [OF insert_item_inv])

lemma order_inv_payouts:
  assumes inv: "order_inv s"
    and keys: "\<And>p. pay_id (g p) = pay_id p \<and> pay_order (g p) = pay_order p \<and> pay_seller (g p) = pay_seller p
      \<and> pay_currency (g p) = pay_currency p"
    and backed: "\<And>p. p \<in> set (payouts s) \<Longrightarrow> q p \<Longrightarrow> payout_backed (stripe_calls s) (g p)"
  shows "order_inv (s\<lparr>payouts := update_where q g (payouts s)\<rparr>)"
proof -
  have "map pay_id (update_where q g (payouts s)) = map pay_id (payouts s)"
    "map pay_order (update_where q g (payouts s)) = map pay_order (payouts s)"
    using keys by (simp_all add: update_where_keys)
  moreover have "payout_for (g p) = payout_for p" for p
    using keys by (simp add: payout_for_def fun_eq_iff)
  then have "\<forall>p \<in> set (update_where q g (payouts s)).
      payout_backed (stripe_calls s) p \<and> (\<exists>x \<in> set (orders s). payout_for p x)"
    using inv by (intro update_where_Ball) (auto simp: order_inv_def payouts_ok_def intro: backed)
  ultimately show ?thesis using inv unfolding order_inv_defs by simp
qed

lemma wp_update_payouts:
  assumes "order_inv (store w)"
    and "\<And>t p. pay_id (g t p) = pay_id p \<and> pay_order (g t p) = pay_order p \<and> pay_seller (g t p) = pay_seller p
      \<and> pay_currency (g t p) = pay_currency p"
    and "\<And>t p. p \<in> set (payouts (store w)) \<Longrightarrow> q p \<Longrightarrow> payout_backed (stripe_calls (store w)) (g t p)"
  shows "wp (update_payouts q g) (\<lambda>_ w'. order_inv (store w')) w"
  unfolding update_payouts_def by (rule wp_sqlI) (auto intro!: order_inv_payouts [OF assms(1,2)] assms(3))

text \<open>A property of the tables after a transaction, when its body ensures it.\<close>

lemma run_tx_keeps_at:
  assumes "I (store w)" and "wp (run_tx body) (\<lambda>_ w'. I (store w')) w"
  shows "I (store (snd (run_tx body w)))"
proof -
  obtain r w' where run: "run_tx body w = (r, w')" by fastforce
  show ?thesis
  proof (cases r)
    case (Inl e)
    with run assms(1) show ?thesis by (simp add: run_tx_error_frame)
  next
    case (Inr x)
    with run wpD [OF assms(2)] show ?thesis by simp
  qed
qed

lemma set_payout_status_at:
  assumes "order_inv (store w)"
    and "\<And>t p. p \<in> set (payouts (store w)) \<Longrightarrow> pay_id p = i \<Longrightarrow> payout_backed (stripe_calls (store w)) (settle_payout st tr t p)"
  shows "order_inv (store (snd (set_payout_status i st tr w)))"
  unfolding set_payout_status_def
  by (rule run_tx_keeps_at, rule assms(1), intro wp_run_txI wp_bindI, rule wp_mono [OF wp_update_payouts])
    (use assms in \<open>auto simp: settle_payout_def wp_simps\<close>)

lemma payout_failed_inv: "keeps order_inv (set_payout_status i PayoutFailed None)"
  unfolding keeps_def by (auto intro!: set_payout_status_at simp: payout_backed_def settle_payout_def)

lemma payout_completed_inv:
  assumes inv: "order_inv (store w)" and due: "payout_due p x (store w)" and tr: "transferred p x tr (store w)"
  shows "order_inv (store (snd (set_payout_status (pay_id p) PayoutCompleted (Some tr) w)))"
proof (rule set_payout_status_at [OF inv])
  fix t p' assume p': "p' \<in> set (payouts (store w))" "pay_id p' = pay_id p"
  from due have p: "p \<in> set (payouts (store w))" by (simp add: payout_due_def)
  with p' inv have "p' = p" by (auto simp: order_inv_def payouts_ok_def distinct_map inj_on_def)
  from p inv obtain y where y: "y \<in> set (orders (store w))" "ord_id y = pay_order p" "ord_seller y = pay_seller p"
    by (auto simp: order_inv_def payouts_ok_def payout_for_def)
  from due obtain x' where "x' \<in> set (orders (store w))" "ord_id x' = pay_order p" "ord_seller x' = ord_seller x"
    by (auto simp: payout_due_def seller_known_def)
  with y inv have "ord_seller x = pay_seller p" by (auto simp: order_inv_def distinct_map inj_on_def)
  with tr \<open>p' = p\<close> show "payout_backed (stripe_calls (store w)) (settle_payout PayoutCompleted (Some tr) t p')"
    by (auto simp: payout_backed_def settle_payout_def transferred_def)
qed

lemma insert_request_inv:
  assumes "order_inv s" and "cnr_status r = CrPending" and "insert_request_stmt r t s = Inr (q, s')"
  shows "order_inv s'"
proof -
  from assms(3) have s': "s' = s\<lparr>cancel_requests := cancel_requests s @ [q]\<rparr>" "cnr_id q = cnr_id r"
      "cnr_order q = cnr_order r" "cnr_status q = cnr_status r"
    and new: "cnr_id r \<notin> set (map cnr_id (cancel_requests s))"
      "\<not> list_ex (\<lambda>x. cnr_order x = cnr_order r \<and> cnr_status x = CrPending) (cancel_requests s)"
    and ref: "cnr_order r \<in> set (map ord_id (orders s))"
    by (auto simp: insert_request_stmt_def Let_def split: if_splits)
  have alone: "cnr_order q \<notin> cnr_order ` {x \<in> set (cancel_requests s). cnr_status x = CrPending}"
    using new(2) s' by (auto simp: list_ex_iff)
  from ref s'(3) obtain x where x: "x \<in> set (orders s)" "ord_id x = cnr_order q" by auto
  moreover have "approved_refunded s q x" using assms(2) s'(4) by (simp add: approved_refunded_def)
  ultimately show ?thesis
    using assms(1,2) s' new(1) alone unfolding order_inv_defs by auto
qed

lemma create_request_inv: "keeps order_inv (create_request r)"
  unfolding create_request_def by (intro keeps_intros) (rule insert_request_inv, auto)

text \<open>Closing a pending request.\<close>

lemma order_inv_close:
  assumes inv: "order_inv s"
    and keys: "\<And>r. cnr_id (g r) = cnr_id r \<and> cnr_order (g r) = cnr_order r \<and> cnr_status (g r) \<noteq> CrPending"
    and backed: "\<And>r x. r \<in> set (cancel_requests s) \<Longrightarrow> q r \<Longrightarrow> x \<in> set (orders s) \<Longrightarrow> ord_id x = cnr_order r
      \<Longrightarrow> approved_refunded s (g r) x"
  shows "order_inv (s\<lparr>cancel_requests := update_where q g (cancel_requests s)\<rparr>)"
proof -
  have ids: "map cnr_id (update_where q g (cancel_requests s)) = map cnr_id (cancel_requests s)"
    using keys by (simp add: update_where_keys)
  have "map cnr_order (filter (\<lambda>r. cnr_status r = CrPending) (update_where q g rs))
      = map cnr_order (filter (\<lambda>r. \<not> q r) (filter (\<lambda>r. cnr_status r = CrPending) rs))" for rs
    using keys by (induction rs) (auto simp: update_where_def)
  then have pending: "distinct (map cnr_order (filter (\<lambda>r. cnr_status r = CrPending) (update_where q g (cancel_requests s))))"
    using inv by (simp add: order_inv_def requests_ok_def distinct_map_filter del: filter_filter)
  have "\<forall>r \<in> set (update_where q g (cancel_requests s)).
      \<exists>x \<in> set (orders s). ord_id x = cnr_order r \<and> approved_refunded s r x"
  proof (rule update_where_Ball)
    show old: "\<exists>x \<in> set (orders s). ord_id x = cnr_order r \<and> approved_refunded s r x"
      if "r \<in> set (cancel_requests s)" for r
      using inv that by (simp add: order_inv_def requests_ok_def)
    show "\<exists>x \<in> set (orders s). ord_id x = cnr_order (g r) \<and> approved_refunded s (g r) x"
      if "r \<in> set (cancel_requests s)" "q r" for r
      using old [OF that(1)] backed [OF that] keys by metis
  qed
  with inv ids pending show ?thesis unfolding order_inv_defs by simp
qed

lemma close_request_inv:
  assumes "\<And>t r. cnr_id (g t r) = cnr_id r \<and> cnr_order (g t r) = cnr_order r \<and> cnr_status (g t r) \<noteq> CrPending
    \<and> cnr_status (g t r) \<noteq> CrApproved"
  shows "keeps order_inv (close_request i g)"
  unfolding close_request_def
  by (intro keeps_intros) (auto simp: Let_def assms approved_refunded_def intro!: order_inv_close)

lemma reject_request_inv: "keeps order_inv (reject_request i seller comment)"
  unfolding reject_request_def by (intro keeps_intros close_request_inv) simp

lemma mark_request_failed_inv: "keeps order_inv (mark_request_failed i text)"
  unfolding mark_request_failed_def by (intro keeps_intros close_request_inv) simp

text \<open>The approval, when the order has been refunded for the request.\<close>

lemma approve_close_inv:
  fixes w :: "'x order_state world"
  assumes inv: "order_inv (store w)" and link: "linked r x (store w)"
    and paid: "refunded (cnr_id r) (ord_total x) (apv_refund a) (store w)" and a: "apv_request a = cnr_id r"
    and made: "\<forall>rp \<in> set (apv_reversed a). reversal_made rp (store w)"
  shows "wp (close_request (apv_request a) (approve_row a)) (\<lambda>_ w'. order_inv (store w')
    \<and> (\<forall>rp \<in> set (apv_reversed a). reversal_made rp (store w'))) w"
proof -
  have backed: "approved_refunded (store w) (approve_row a t q) y"
    if "q \<in> set (cancel_requests (store w))" "cnr_id q = apv_request a" "y \<in> set (orders (store w))"
      "ord_id y = cnr_order q" for q y t
  proof -
    from link obtain r' x' where r': "r' \<in> set (cancel_requests (store w))" "cnr_id r' = cnr_id r" "cnr_order r' = ord_id x"
      and x': "x' \<in> set (orders (store w))" "ord_id x' = ord_id x" "ord_total x' = ord_total x"
      unfolding linked_def by blast
    have "q = r'"
      using inv r' that a by (auto simp: order_inv_def requests_ok_def distinct_map inj_on_def)
    moreover have "y = x'"
      using inv r' x' that \<open>q = r'\<close> by (auto simp: order_inv_def distinct_map inj_on_def)
    ultimately have "ord_total y = ord_total x" "cnr_id q = cnr_id r" using x' that a by auto
    with paid show ?thesis by (simp add: approved_refunded_def approve_row_def)
  qed
  have keys: "cnr_id (approve_row a t q) = cnr_id q \<and> cnr_order (approve_row a t q) = cnr_order q
      \<and> cnr_status (approve_row a t q) \<noteq> CrPending" for t q
    by (simp add: approve_row_def)
  show ?thesis
    unfolding close_request_def
    by (rule wp_sqlI) (use made in \<open>auto simp: Let_def reversal_made_def intro!: order_inv_close [OF inv keys] backed\<close>)
qed

text \<open>The payouts of the approval, one after the other: what is reversed stays backed.\<close>

definition reversal_backed :: "'x order_state \<Rightarrow> uuid \<times> string \<Rightarrow> bool" where
  "reversal_backed s rp \<longleftrightarrow> (\<forall>p \<in> set (payouts s). pay_id p = fst rp \<longrightarrow>
     payout_backed (stripe_calls s) (p\<lparr>pay_status := PayoutReversed, pay_reversal := Some (snd rp)\<rparr>))"

lemma reversal_made_backed:
  assumes "order_inv s" and "reversal_made rp s"
  shows "reversal_backed s rp"
  unfolding reversal_backed_def
proof (intro ballI impI)
  fix p assume p: "p \<in> set (payouts s)" "pay_id p = fst rp"
  from assms(2) obtain q tr key where q: "q \<in> set (payouts s)" "pay_id q = fst rp" "pay_status q = PayoutCompleted"
    "pay_transfer q = Some tr" "StripeReversal tr (pay_amount q) key (snd rp) \<in> set (stripe_calls s)"
    by (auto simp: reversal_made_def)
  from p q(1,2) assms(1) have "p = q" by (auto simp: order_inv_def payouts_ok_def distinct_map inj_on_def)
  moreover from q(1) assms(1) have "payout_backed (stripe_calls s) q"
    by (auto simp: order_inv_def payouts_ok_def)
  ultimately show "payout_backed (stripe_calls s) (p\<lparr>pay_status := PayoutReversed, pay_reversal := Some (snd rp)\<rparr>)"
    using q by (auto simp: payout_backed_def)
qed

lemma reverse_payout_inv:
  fixes w :: "'x order_state world"
  assumes inv: "order_inv (store w)" and backed: "\<forall>rp \<in> set (rp # rps). reversal_backed (store w) rp"
  shows "wp (reverse_payout a rp)
    (\<lambda>_ w'. order_inv (store w') \<and> (\<forall>rp \<in> set rps. reversal_backed (store w') rp)) w"
proof -
  let ?g = "\<lambda>p. p\<lparr>pay_status := PayoutReversed, pay_reversal := Some (snd rp), pay_reversed_at := Some (apv_at a)\<rparr>"
  have here: "payout_backed (stripe_calls (store w)) (?g p)"
    if "p \<in> set (payouts (store w))" "pay_id p = fst rp" for p
    using backed that by (simp add: reversal_backed_def payout_backed_def)
  have "reversal_backed ((store w)\<lparr>payouts := update_where (\<lambda>p. pay_id p = fst rp) ?g (payouts (store w))\<rparr>) rp'"
    if "rp' \<in> set rps" for rp'
    unfolding reversal_backed_def using backed that
    by (simp, intro update_where_Ball) (auto simp: reversal_backed_def payout_backed_def)
  moreover have "order_inv ((store w)\<lparr>payouts := update_where (\<lambda>p. pay_id p = fst rp) ?g (payouts (store w))\<rparr>)"
    by (rule order_inv_payouts [OF inv]) (auto intro: here)
  ultimately show ?thesis
    unfolding reverse_payout_def update_payouts_def
    by (intro wp_bindI wp_sqlI) (auto simp: wp_simps)
qed

lemma approve_tx_inv:
  fixes w :: "'x order_state world"
  assumes "order_inv (store w)" and "linked r x (store w)"
    and "refunded (cnr_id r) (ord_total x) (apv_refund a) (store w)" and "apv_request a = cnr_id r"
    and "\<forall>rp \<in> set (apv_reversed a). reversal_made rp (store w)"
  shows "order_inv (store (snd (approve_tx a w)))"
proof -
  let ?J = "\<lambda>s. order_inv s \<and> (\<forall>rp \<in> set (apv_reversed a). reversal_made rp s)"
  have cancel: "keeps ?J (cancel_order a)"
  proof -
    have same: "same_order x (cancel_order_row a t x)" for x t
      by (simp add: same_order_def cancel_order_row_def)
    show ?thesis
      unfolding cancel_order_def
      by (intro keeps_intros) (auto simp: Let_def reversal_made_def intro: order_inv_update [OF _ same])
  qed
  have reverse: "wp (tx_for (apv_reversed a) (\<lambda>rp _. reverse_payout a rp) ()) (\<lambda>_ w'. order_inv (store w')) w1"
    if "?J (store w1)" for w1 :: "'x order_state world"
    by (rule wp_for [where I = "\<lambda>rps _ w. order_inv (store w) \<and> (\<forall>rp \<in> set rps. reversal_backed (store w) rp)"],
        use that in \<open>blast intro: reversal_made_backed\<close>, rule reverse_payout_inv) auto
  have rest: "wp (case found of None \<Rightarrow> tx_throw (Sentinel ErrAlreadyProcessed) | Some r \<Rightarrow>
     tx_bind (cancel_order a) (\<lambda>found.
     case found of None \<Rightarrow> tx_throw (Sentinel ErrOrderStatusChanged) | Some x \<Rightarrow>
     tx_bind (tx_for (apv_reversed a) (\<lambda>rp _. reverse_payout a rp) ()) (\<lambda>_.
     tx_return (r, x)))) (\<lambda>_ w'. order_inv (store w')) w1"
    if "?J (store w1)" for found and w1 :: "'x order_state world"
    by (intro wp_case_optionI wp_throwI wp_bindI, rule wp_mono [OF wp_keeps [where I = ?J, OF cancel that]])
      (auto intro!: wp_case_optionI wp_throwI wp_bindI wp_returnI wp_mono [OF reverse])
  show ?thesis
    unfolding approve_tx_def
    by (rule run_tx_keeps_at, rule assms(1), intro wp_run_txI wp_bindI, rule wp_mono [OF approve_close_inv])
       (use assms in \<open>auto intro!: wp_mono [OF rest]\<close>)
qed

interpretation op: order_policy order_inv
  by unfold_locales
     (auto intro: order_inv_frame update_orders_inv claim_publish_inv create_order_rows_inv
       create_checkout_batch_inv payout_failed_inv payout_completed_inv create_request_inv reject_request_inv
       mark_request_failed_inv approve_tx_inv)

end
