(* ===== verification/Order_Traces.thy ===== *)
theory Order_Traces
  imports Order_Invariant
begin

text \<open>
  The order service as a state machine whose steps are its use cases: the invariant of its tables
  in every reachable state, and what no step undoes: an order keeps its parties and amounts, a
  payout its amount, a closed cancellation request everything, and Stripe forgets nothing.
\<close>

subsection \<open>The state machine\<close>

inductive order_step :: "'x order_cfg \<Rightarrow> 'x order_state world \<Rightarrow> 'x order_state world \<Rightarrow> bool" for cfg where
  environment: "store w' = (store w)\<lparr>remote := z\<rparr> \<Longrightarrow> order_step cfg w w'"
| read_order: "order_step cfg w (snd (get_order i w))"
| read_purchase: "order_step cfg w (snd (check_purchase b i k w))"
| read_buyer: "order_step cfg w (snd (list_buyer_orders b lim off w))"
| read_seller: "order_step cfg w (snd (list_seller_orders i st lim off w))"
| read_payouts: "order_step cfg w (snd (list_payouts i lim off w))"
| read_rules: "order_step cfg w (snd (list_commission_rules lim off w))"
| read_request: "order_step cfg w (snd (get_request_for_seller i j w))"
| read_latest: "order_step cfg w (snd (get_latest_for_order i b w))"
| read_requests: "order_step cfg w (snd (list_requests i st lim off w))"
| create: "order_step cfg w (snd (create_order cfg inp w))"
| checkout: "order_step cfg w (snd (create_checkout cfg cart w))"
| payment: "order_step cfg w (snd (handle_payment_success cfg pi w))"
| status: "order_step cfg w (snd (update_order_status cfg i j st w))"
| rule: "order_step cfg w (snd (create_commission_rule r w))"
| request: "order_step cfg w (snd (request_cancellation cfg i b reason w))"
| reject: "order_step cfg w (snd (reject_cancellation cfg i j comment w))"
| approve: "order_step cfg w (snd (approve_cancellation cfg i j comment w))"
| force: "order_step cfg w (snd (admin_force_cancel cfg i admin reason w))"
| shipping: "order_step cfg w (snd (on_shipping_event cfg ty d w))"

context order_policy
begin

lemmas use_cases_keep = create_order_keeps create_checkout_keeps handle_payment_keeps
  update_order_status_keeps create_commission_rule_keeps request_cancellation_keeps
  reject_cancellation_keeps approve_cancellation_keeps admin_force_cancel_keeps on_shipping_event_keeps

lemma step_keeps: "order_step cfg w w' \<Longrightarrow> I (store w) \<Longrightarrow> I (store w')"
  by (induction rule: order_step.induct)
    (simp_all add: remote_any order_queries_keep [THEN keepsD] cancellation_queries_keep [THEN keepsD]
      use_cases_keep [THEN keepsD])

lemma steps_keep: "(order_step cfg)\<^sup>*\<^sup>* w w' \<Longrightarrow> I (store w) \<Longrightarrow> I (store w')"
  by (induction rule: rtranclp_induct) (auto intro: step_keeps)

end

interpretation os: stateful_service
  "\<lambda>w. \<exists>z. store w = empty_order_state z" "order_step cfg" "\<lambda>w. order_inv (store w)" for cfg
  by unfold_locales (auto simp: order_inv_empty intro: op.step_keeps)

subsection \<open>History\<close>

definition same_payout :: "payout_row \<Rightarrow> payout_row \<Rightarrow> bool" where
  "same_payout p q \<longleftrightarrow> pay_id q = pay_id p \<and> pay_order q = pay_order p \<and> pay_seller q = pay_seller p
     \<and> pay_amount q = pay_amount p \<and> pay_currency q = pay_currency p"

definition same_request :: "cancel_request \<Rightarrow> cancel_request \<Rightarrow> bool" where
  "same_request r q \<longleftrightarrow> cnr_id q = cnr_id r \<and> cnr_order q = cnr_order r \<and> cnr_by q = cnr_by r
     \<and> cnr_reason q = cnr_reason r \<and> (cancel_is_terminal (cnr_status r) \<longrightarrow> q = r)"

definition order_evolves :: "'x order_state \<Rightarrow> 'x order_state \<Rightarrow> bool" where
  "order_evolves s s' \<longleftrightarrow> (\<forall>x \<in> set (orders s). \<exists>y \<in> set (orders s'). same_order x y)
     \<and> set (order_lines s) \<subseteq> set (order_lines s')
     \<and> (\<forall>p \<in> set (payouts s). \<exists>q \<in> set (payouts s'). same_payout p q)
     \<and> (\<forall>r \<in> set (cancel_requests s). \<exists>q \<in> set (cancel_requests s'). same_request r q)
     \<and> set (stripe_calls s) \<subseteq> set (stripe_calls s')"

lemma same_refl [simp]: "same_order x x" "same_payout p p" "same_request r r"
  by (simp_all add: same_order_def same_payout_def same_request_def)

lemma same_trans:
  "same_order x y \<Longrightarrow> same_order y z \<Longrightarrow> same_order x z"
  "same_payout p q \<Longrightarrow> same_payout q p' \<Longrightarrow> same_payout p p'"
  "same_request r u \<Longrightarrow> same_request u v \<Longrightarrow> same_request r v"
proof -
  show "same_order x y \<Longrightarrow> same_order y z \<Longrightarrow> same_order x z"
    "same_payout p q \<Longrightarrow> same_payout q p' \<Longrightarrow> same_payout p p'"
    by (simp_all add: same_order_def same_payout_def)
  show "same_request r u \<Longrightarrow> same_request u v \<Longrightarrow> same_request r v"
    by (cases "cancel_is_terminal (cnr_status r)") (auto simp: same_request_def)
qed

lemma order_evolves_refl: "order_evolves s s"
  unfolding order_evolves_def using same_refl by blast

lemma order_evolves_trans: "order_evolves s t \<Longrightarrow> order_evolves t u \<Longrightarrow> order_evolves s u"
  unfolding order_evolves_def by (meson same_trans subset_trans)

lemma update_where_evolves:
  "(\<And>x. x \<in> set xs \<Longrightarrow> R x x) \<Longrightarrow> (\<And>x. x \<in> set xs \<Longrightarrow> q x \<Longrightarrow> R x (g x)) \<Longrightarrow>
   \<forall>x \<in> set xs. \<exists>y \<in> set (update_where q g xs). R x y"
  by (rule ballI, rule_tac x = "if q x then g x else x" in bexI) (auto simp: update_where_def)

lemma order_evolves_writes:
  "order_evolves s (s\<lparr>remote := z\<rparr>)" "order_evolves s (s\<lparr>remote := z, stripe_calls := stripe_calls s @ [c]\<rparr>)"
  "order_evolves s (s\<lparr>rules := R\<rparr>)" "order_evolves s (s\<lparr>orders := orders s @ [x]\<rparr>)"
  "order_evolves s (s\<lparr>order_lines := order_lines s @ [l]\<rparr>)" "order_evolves s (s\<lparr>payouts := payouts s @ [p]\<rparr>)"
  "order_evolves s (s\<lparr>cancel_requests := cancel_requests s @ [r]\<rparr>)"
  unfolding order_evolves_def using same_refl by (simp_all; blast)+

lemma order_evolves_updates:
  "(\<And>x. same_order x (g x)) \<Longrightarrow> order_evolves s (s\<lparr>orders := update_where q g (orders s)\<rparr>)"
  "(\<And>p. same_payout p (h p)) \<Longrightarrow> order_evolves s (s\<lparr>payouts := update_where q' h (payouts s)\<rparr>)"
  "(\<And>r. q'' r \<Longrightarrow> same_request r (k r)) \<Longrightarrow>
     order_evolves s (s\<lparr>cancel_requests := update_where q'' k (cancel_requests s)\<rparr>)"
proof -
  have refl: "\<forall>x \<in> set xs. \<exists>y \<in> set xs. same_order x y" "\<forall>p \<in> set ps. \<exists>q \<in> set ps. same_payout p q"
    "\<forall>r \<in> set rs. \<exists>q \<in> set rs. same_request r q" for xs ps rs
    using same_refl by blast+
  show "(\<And>x. same_order x (g x)) \<Longrightarrow> order_evolves s (s\<lparr>orders := update_where q g (orders s)\<rparr>)"
    "(\<And>p. same_payout p (h p)) \<Longrightarrow> order_evolves s (s\<lparr>payouts := update_where q' h (payouts s)\<rparr>)"
    "(\<And>r. q'' r \<Longrightarrow> same_request r (k r)) \<Longrightarrow>
       order_evolves s (s\<lparr>cancel_requests := update_where q'' k (cancel_requests s)\<rparr>)"
    unfolding order_evolves_def by (simp_all add: refl update_where_evolves)
qed

text \<open>A statement that only moves forward.\<close>

lemma keeps_evolves:
  "(\<And>t s x s'. stmt t s = Inr (x, s') \<Longrightarrow> order_evolves s s') \<Longrightarrow> keeps (order_evolves s0) (sql stmt)"
  by (intro keeps_sql) (blast intro: order_evolves_trans)

lemma statements_evolve [keeps_intros]:
  "(\<And>t x. same_order x (g t x)) \<Longrightarrow> keeps (order_evolves s0) (update_orders q g)"
  "(\<And>t p. same_payout p (h t p)) \<Longrightarrow> keeps (order_evolves s0) (update_payouts q' h)"
  "(\<And>t r. cnr_status r = CrPending \<Longrightarrow> same_request r (k t r)) \<Longrightarrow> keeps (order_evolves s0) (close_request i k)"
  "keeps (order_evolves s0) (sql (insert_order_stmt x))" "keeps (order_evolves s0) (sql (insert_line_stmt l))"
  "keeps (order_evolves s0) (sql (insert_payout_stmt p))" "keeps (order_evolves s0) (sql (insert_request_stmt r))"
  unfolding update_orders_def update_payouts_def close_request_def
  by (intro keeps_evolves; auto simp: Let_def insert_order_stmt_def insert_line_stmt_def insert_payout_stmt_def
      insert_request_stmt_def intro: order_evolves_writes order_evolves_updates split: if_splits)+

lemma claim_publish_evolves: "keeps (order_evolves s0) (claim_publish i ttl)"
  unfolding claim_publish_def
  by (intro keeps_run_tx_body keeps_evolves)
    (auto simp: Let_def intro!: order_evolves_updates(1) simp: same_order_def)

lemma inserts_evolve:
  "keeps (order_evolves s0) (insert_order_tx x ls)" "keeps (order_evolves s0) (insert_checkout_item it)"
proof -
  show tx: "keeps (order_evolves s0) (insert_order_tx x ls)" for x ls
    unfolding insert_order_tx_def insert_line_def by (intro keeps_intros)
  show "keeps (order_evolves s0) (insert_checkout_item it)"
    unfolding insert_checkout_item_def by (intro keeps_intros tx)
qed

lemma approve_tx_evolves: "keeps (order_evolves s0) (approve_tx a)"
proof -
  have "keeps (order_evolves s0) (cancel_order a)"
    unfolding cancel_order_def
    by (intro keeps_evolves)
      (auto simp: Let_def intro!: order_evolves_updates(1) simp: same_order_def cancel_order_row_def)
  then show ?thesis
    unfolding approve_tx_def reverse_payout_def
    by (intro keeps_intros) (simp_all add: same_payout_def same_request_def approve_row_def cancel_is_terminal_def)
qed

interpretation oh: order_history "order_evolves s0" for s0
proof (unfold_locales, goal_cases)
  case (1 s z) then show ?case by (blast intro: order_evolves_trans order_evolves_writes(1))
next
  case (2 s z c) then show ?case by (blast intro: order_evolves_trans order_evolves_writes(2))
next
  case (3 s R) then show ?case by (blast intro: order_evolves_trans order_evolves_writes(3))
next
  case (4 g q) then show ?case by (rule statements_evolve(1))
next
  case (5 i ttl) show ?case by (rule claim_publish_evolves)
next
  case (6 x ls) show ?case unfolding create_order_rows_def by (intro keeps_intros inserts_evolve)
next
  case (7 i) show ?case unfolding set_payout_status_def
    by (intro keeps_intros) (simp add: same_payout_def settle_payout_def)
next
  case (8 r) show ?case unfolding create_request_def by (intro keeps_intros)
next
  case (9 i j comment) show ?case unfolding reject_request_def
    by (intro keeps_intros) (simp add: same_request_def cancel_is_terminal_def)
next
  case (10 i msg) show ?case unfolding mark_request_failed_def
    by (intro keeps_intros) (simp add: same_request_def cancel_is_terminal_def)
next
  case (11 items) show ?case unfolding create_checkout_batch_def by (intro keeps_intros inserts_evolve)
next
  case (12 i st tr) show ?case unfolding set_payout_status_def
    by (intro keeps_intros) (simp add: same_payout_def settle_payout_def)
next
  case (13 a) show ?case by (rule approve_tx_evolves)
qed

text \<open>Whatever the use cases and the faults, history only grows.\<close>

lemma order_history_grows: "(order_step cfg)\<^sup>*\<^sup>* w w' \<Longrightarrow> order_evolves (store w) (store w')"
  by (rule oh.steps_keep [OF _ order_evolves_refl])

end
