(* ===== verification/Order_Samples.thy ===== *)
theory Order_Samples
  imports Order_Traces Samples
begin

text \<open>
  Concrete runs of the order service for the witnesses: a buyer with two sellers in the cart, a
  Stripe account that acknowledges everything, no coupons and no points.
\<close>

definition stripe_ok :: "string \<Rightarrow> (nat, string) stripe_op" where
  "stripe_ok name n = (Inr (name @ sample_uuid n), Suc n)"

definition sample_order_cfg :: "nat order_cfg" where
  "sample_order_cfg = \<lparr>default_shipping = 50, coupons_on = False, loyalty_on = False,
     coupon_reserver = None, point_reserver = None, has_free_shipping = (\<lambda>b n. (Inr False, n)),
     seller_names = (\<lambda>ids n. (Inr (\<lambda>i. Some ''shop''), n)),
     sku_products = (\<lambda>ids n. (Inr (\<lambda>i. Some ''product''), n)), publish_err = Some (\<lambda>e n. (Inr (), n)),
     stripe_destination_intent = (\<lambda>a c acc n. (Inr (''pi'' @ sample_uuid n, ''secret''), Suc n)),
     stripe_platform_intent = (\<lambda>a c n. (Inr (''pi'' @ sample_uuid n, ''secret''), Suc n)),
     stripe_transfer = (\<lambda>a c acc pi. stripe_ok ''tr''), stripe_refund = (\<lambda>pi a key. stripe_ok ''re''),
     stripe_reverse = (\<lambda>tr a key. stripe_ok ''rev''), order_uuid_parse = Some\<rparr>"

definition sample_cart :: checkout_input where
  "sample_cart = \<lparr>cki_buyer = ''buyer'',
     cki_lines = [(''seller1'', \<lparr>lin_sku = ''sku1'', lin_name = ''cup'', lin_code = ''C'', lin_quantity = 2, lin_price = 100\<rparr>),
                  (''seller2'', \<lparr>lin_sku = ''sku2'', lin_name = ''pot'', lin_code = ''P'', lin_quantity = 1, lin_price = 300\<rparr>)],
     cki_address = ''{}'', cki_currency = ''jpy'', cki_coupon = '''', cki_points = 0\<rparr>"

definition new_shop :: "nat order_state world" where
  "new_shop = sample_world (empty_order_state 0)"

definition checked_out :: "nat order_state world" where
  "checked_out = snd (create_checkout sample_order_cfg sample_cart new_shop)"

definition sample_pi :: string where
  "sample_pi = ''pi'' @ sample_uuid 0"

definition paid_world :: "nat order_state world" where
  "paid_world = snd (handle_payment_success sample_order_cfg sample_pi checked_out)"

text \<open>The first seller's order has id 0 and the cancellation request id 6.\<close>

definition requested :: "nat order_state world" where
  "requested = snd (request_cancellation sample_order_cfg (sample_uuid 0) ''buyer'' ''late'' paid_world)"

definition approved :: "nat order_state world" where
  "approved = snd (approve_cancellation sample_order_cfg (sample_uuid 6) ''seller1'' ''fine'' requested)"

end
