(* ===== verification/Order_Coupon.thy ===== *)
theory Order_Coupon
  imports Order_Guards Order_Checkout Order_Rpc Order_Samples Coupon_Properties
begin

text \<open>
  The order service and the coupon service together: the order service's HTTP client
  (internal/adapter/httpclient/coupon_client.go) over the coupon service's internal handlers, whose
  world is then the order service's \<open>remote\<close> state.
\<close>

subsection \<open>The routes\<close>

text \<open>A handler always answers.\<close>

definition served :: "('s, 'd, response) tx \<Rightarrow> 's world \<Rightarrow> http_reply \<times> 's world" where
  "served h w = (case h w of
     (Inr (Response st body), w') \<Rightarrow> (Inr (st, body), w')
   | (Inl e, w') \<Rightarrow> (Inl '''', w'))"

text \<open>Decoding a request: what \<open>json.Decode\<close> puts into the handler's structs.\<close>

definition decode_subtotal :: "json \<Rightarrow> string \<times> int" where
  "decode_subtotal j = (str_field ''seller_id'' j, int_field ''subtotal'' j)"

definition decode_reserve_request :: "json \<Rightarrow> reserve_coupon_request" where
  "decode_reserve_request j = \<lparr>rsq_code = str_field ''code'' j, rsq_buyer = str_field ''buyer_auth0_id'' j,
     rsq_currency = str_field ''currency'' j,
     rsq_subtotals = (case json_field ''seller_subtotals'' j of Some (JList xs) \<Rightarrow> map decode_subtotal xs | _ \<Rightarrow> [])\<rparr>"

definition decode_commit_request :: "json \<Rightarrow> commit_coupon_request" where
  "decode_commit_request j = \<lparr>cmq_order_id = str_field ''order_id'' j,
     cmq_payment_intent = str_field ''stripe_payment_intent_id'' j\<rparr>"

definition coupon_service_routes :: "coupon_cfg \<Rightarrow> coupon_db world coupon_routes" where
  "coupon_service_routes ccfg = \<lparr>
     rt_coupon_reserve = (\<lambda>j. served (internal_reserve ccfg (Some (Inr (decode_reserve_request j))))),
     rt_coupon_commit = (\<lambda>h j. served (internal_commit ccfg h (Some (Inr (decode_commit_request j))))),
     rt_coupon_release = (\<lambda>h j. served (internal_release ccfg h))\<rparr>"

definition coupon_service_port :: "coupon_cfg \<Rightarrow> coupon_db world coupon_port" where
  "coupon_service_port ccfg = coupon_client (coupon_uuid_parse ccfg) (coupon_service_routes ccfg)"

lemma decode_subtotals:
  "map decode_subtotal (map (\<lambda>(i, n). JObj [(''seller_id'', JStr i), (''subtotal'', JInt n)]) subs) = subs"
  by (induction subs) (auto simp: decode_subtotal_def str_field_def int_field_def)

lemma decode_reserve_body:
  "decode_reserve_request (coupon_reserve_body cd buyer subs cur) =
     \<lparr>rsq_code = cd, rsq_buyer = buyer, rsq_currency = cur, rsq_subtotals = subs\<rparr>"
  using decode_subtotals [of subs]
  by (simp add: decode_reserve_request_def coupon_reserve_body_def str_field_def json_slice_def)

lemma parse_subtotals_id:
  "\<forall>p \<in> set subs. coupon_uuid_parse ccfg (fst p) = Some (fst p) \<Longrightarrow> parse_subtotals ccfg subs = Some subs"
  by (induction subs) auto

text \<open>The grant that the client reads off a granted reservation.\<close>

definition grant_of :: "coupon_reservation \<Rightarrow> coupon_grant" where
  "grant_of r = \<lparr>cgr_hold = crv_id r, cgr_coupon = crv_coupon_id r, cgr_seller = crv_seller_id r,
     cgr_discount = crv_discount r\<rparr>"

text \<open>The sentinel of the order service for one of the coupon service.\<close>

fun cart_error :: "coupon_err \<Rightarrow> order_err" where
  "cart_error ErrCouponNotFound = ErrCartCouponNotFound"
| "cart_error ErrCouponExpired = ErrCartCouponExpired"
| "cart_error ErrCouponRevoked = ErrCartCouponRevoked"
| "cart_error ErrCouponNotStarted = ErrCartCouponNotStarted"
| "cart_error ErrCouponUsageLimitHit = ErrCartCouponUsageLimit"
| "cart_error ErrCouponPerUserLimit = ErrCartCouponPerUserLimit"
| "cart_error ErrMinOrderNotMet = ErrCartCouponMinOrder"
| "cart_error ErrCurrencyMismatch = ErrCartCouponCurrency"
| "cart_error _ = ErrRemote ''coupon service''"

text \<open>
  The errors a handler can get: a sentinel, or an application error without a code of its own and
  with an error status. Inside a transaction the driver's errors come as well.
\<close>

definition plain_error :: "'d error \<Rightarrow> bool" where
  "plain_error e = (case e of AppError st c m x \<Rightarrow> c = '''' \<and> 400 \<le> st | _ \<Rightarrow> True)"

definition answerable :: "'d error \<Rightarrow> bool" where
  "answerable e = (case e of AppError st c m x \<Rightarrow> c = '''' \<and> 400 \<le> st | Sentinel d \<Rightarrow> True | _ \<Rightarrow> False)"

definition errs :: "('d error \<Rightarrow> bool) \<Rightarrow> ('s, 'd, 'a) tx \<Rightarrow> bool" where
  "errs E m \<longleftrightarrow> (\<forall>w e w'. m w = (Inl e, w') \<longrightarrow> E e)"

lemma errs_intros:
  "errs E (tx_return x)" "E e \<Longrightarrow> errs E (tx_throw e)" "errs E now" "errs E new_uuid"
  "errs E m \<Longrightarrow> (\<And>x. errs E (f x)) \<Longrightarrow> errs E (tx_bind m f)"
  "(\<And>e. D e \<Longrightarrow> E (g e)) \<Longrightarrow> errs D m \<Longrightarrow> errs E (tx_map_error g m)"
  "(c \<Longrightarrow> errs E m) \<Longrightarrow> (\<not> c \<Longrightarrow> errs E n) \<Longrightarrow> errs E (if c then m else n)"
  by (auto simp: errs_def tx_return_def tx_throw_def now_def new_uuid_def tx_bind_def tx_map_error_def tx_catch_def
      split: prod.splits sum.splits)

lemma errs_cases:
  "errs E m \<Longrightarrow> (\<And>y. errs E (f y)) \<Longrightarrow> errs E (case z of None \<Rightarrow> m | Some y \<Rightarrow> f y)"
  "(\<And>a b. errs E (k a b)) \<Longrightarrow> errs E (case p of (a, b) \<Rightarrow> k a b)"
  "errs E (h v) \<Longrightarrow> errs E (Let v h)"
  by (cases z; cases p; auto)+

lemma errs_database:
  "errs plain_error (sql stmt)" "errs plain_error (query q)" "errs plain_error body \<Longrightarrow> errs plain_error (run_tx body)"
  by (auto simp: errs_def sql_def query_def run_tx_def plain_error_def split: if_splits sum.splits prod.splits)

lemmas plain_intros = errs_intros errs_cases errs_database

lemma plain_errors [simp]:
  "plain_error (Sentinel d)" "plain_error (internal msg x)" "plain_error (bad_request msg)" "plain_error (Pg p)"
  by (simp_all add: plain_error_def error_defs)

lemma answerable_domain: "plain_error e \<Longrightarrow> answerable (map_domain_error e)"
  by (cases e) (auto simp: plain_error_def answerable_def map_domain_error_def error_defs)

lemma reserve_answerable: "errs answerable (reserve_coupon ccfg cd buyer subs cur)"
proof -
  have all: "errs (\<lambda>_. True) m" for m :: "'x ctx" by (simp add: errs_def)
  have seller: "errs plain_error (find_seller_coupon True cd subs)" for cd subs
    by (induction subs) (auto intro!: plain_intros(1-5,7-) errs_intros(6) [OF _ all])
  have resolve: "errs plain_error (resolve_coupon True cd buyer subs cur)"
    unfolding resolve_coupon_def find_coupon_by_code_def check_per_user_def Let_def
    by (auto intro!: plain_intros(1-5,7-) errs_intros(6) [OF _ all] seller)
  have stmts: "errs plain_error (increment_usage i)" "errs plain_error (insert_hold h)" for i h
    unfolding increment_usage_def insert_hold_def
    by (auto intro!: plain_intros)
  show ?thesis
    unfolding reserve_coupon_def
    by (rule errs_intros(6) [where D = plain_error], erule answerable_domain, unfold reserve_coupon_tx_def Let_def,
        intro plain_intros(1-5,7-) resolve stmts errs_intros(6) [OF _ stmts(1)]) auto
qed

definition cart_error_of :: "coupon_err error \<Rightarrow> order_err" where
  "cart_error_of e = (case e of Sentinel d \<Rightarrow> cart_error d | _ \<Rightarrow> ErrRemote ''coupon service'')"

text \<open>An id survives its text form.\<close>

definition id_text :: "coupon_cfg \<Rightarrow> uuid \<Rightarrow> bool" where
  "id_text ccfg i \<longleftrightarrow> i \<noteq> '''' \<and> coupon_uuid_parse ccfg i = Some i"

definition reserve_reply :: "coupon_reservation \<Rightarrow> json" where
  "reserve_reply r = JObj (
     [(''reservation_id'', JStr (crv_id r)), (''coupon_id'', JStr (crv_coupon_id r)),
      (''issuer_type'', JStr (case crv_seller_id r of None \<Rightarrow> ''platform'' | Some _ \<Rightarrow> ''seller''))]
     @ opt_field ''applicable_seller_id'' JStr (crv_seller_id r)
     @ [(''discount_amount'', JInt (crv_discount r)), (''currency'', JStr (crv_currency r)),
        (''expires_at'', JInt (crv_expires_at r))])"

lemma decode_reserve_reply:
  assumes "id_text ccfg (crv_id r)" "id_text ccfg (crv_coupon_id r)"
    and "\<And>i. crv_seller_id r = Some i \<Longrightarrow> id_text ccfg i"
  shows "decode_coupon_grant (coupon_uuid_parse ccfg) (reserve_reply r) = Inr (grant_of r)"
  using assms
  by (cases "crv_seller_id r")
     (simp_all add: decode_coupon_grant_def parse_field_def str_field_def int_field_def reserve_reply_def
       opt_field_def grant_of_def id_text_def)

lemma internal_reserve_run:
  assumes "\<forall>p \<in> set subs. id_text ccfg (fst p)"
  shows "internal_reserve ccfg (Some (Inr (decode_reserve_request (coupon_reserve_body cd buyer subs cur)))) =
    respond coupon_map_error (reserve_coupon ccfg cd buyer subs cur) (\<lambda>r. Response 200 (Some (reserve_reply r)))"
  using parse_subtotals_id [of subs ccfg] assms
  by (simp add: internal_reserve_def with_body_def http_decode_def decode_reserve_body id_text_def reserve_reply_def)

lemma client_reserve:
  assumes "\<forall>p \<in> set subs. id_text ccfg (fst p)"
  shows "coupon_reserve (coupon_service_port ccfg) cd buyer subs cur w =
    post_json translate_coupon_error
      (served (respond coupon_map_error (reserve_coupon ccfg cd buyer subs cur) (\<lambda>r. Response 200 (Some (reserve_reply r)))))
      (decoding (decode_coupon_grant (coupon_uuid_parse ccfg))) w"
  by (simp add: coupon_service_port_def coupon_client_def coupon_service_routes_def internal_reserve_run [OF assms])

lemma client_reserve_granted:
  assumes "\<forall>p \<in> set subs. id_text ccfg (fst p)"
    and "reserve_coupon ccfg cd buyer subs cur w = (Inr r, w')"
    and "id_text ccfg (crv_id r)" "id_text ccfg (crv_coupon_id r)" "\<And>i. crv_seller_id r = Some i \<Longrightarrow> id_text ccfg i"
  shows "coupon_reserve (coupon_service_port ccfg) cd buyer subs cur w = (Inr (grant_of r), w')"
  using assms(2) decode_reserve_reply [OF assms(3-5)]
  by (simp add: client_reserve [OF assms(1)] post_json_def served_def respond_def decoding_def)

lemma http_error_reply:
  assumes "answerable e"
  obtains st b where "http_error (coupon_map_error e) = Response st b" "st \<noteq> 200" "st \<noteq> 201"
    "translate_coupon_error (reply_code b) = cart_error_of e"
proof (cases e)
  case (Sentinel d)
  have "resp_status (http_error (coupon_map_error (Sentinel d))) \<noteq> 200"
    "resp_status (http_error (coupon_map_error (Sentinel d))) \<noteq> 201"
    "translate_coupon_error (reply_code (resp_body (http_error (coupon_map_error (Sentinel d))))) = cart_error d"
    by (cases d; simp add: coupon_map_error_def error_defs with_code.simps error_body_def reply_code_def str_field_def
        translate_coupon_error_def)+
  with Sentinel show ?thesis
    using that by (cases "http_error (coupon_map_error (Sentinel d))") (auto simp: cart_error_of_def)
next
  case (AppError st c m x)
  with assms have "c = ''''" "400 \<le> st" by (simp_all add: answerable_def)
  with AppError show ?thesis
    using that by (auto simp: coupon_map_error_def error_body_def reply_code_def str_field_def
        translate_coupon_error_def cart_error_of_def)
qed (use assms in \<open>simp_all add: answerable_def\<close>)

lemma client_reserve_refused:
  assumes "\<forall>p \<in> set subs. id_text ccfg (fst p)"
    and "reserve_coupon ccfg cd buyer subs cur w = (Inl e, w')"
  shows "coupon_reserve (coupon_service_port ccfg) cd buyer subs cur w = (Inl (Sentinel (cart_error_of e)), w')"
proof -
  have "answerable e" using reserve_answerable assms(2) unfolding errs_def by blast
  then obtain st b where "http_error (coupon_map_error e) = Response st b" "st \<noteq> 200" "st \<noteq> 201"
    "translate_coupon_error (reply_code b) = cart_error_of e"
    by (rule http_error_reply)
  with assms(2) show ?thesis
    by (simp add: client_reserve [OF assms(1)] post_json_def served_def respond_def)
qed

subsection \<open>A cart-wide coupon over two sellers\<close>

text \<open>The sample shop with the sample coupon service: ten percent off the whole cart.\<close>

definition coupon_shop_cfg :: "coupon_db world order_cfg" where
  "coupon_shop_cfg = \<lparr>default_shipping = 50, coupons_on = True, loyalty_on = False,
     coupon_reserver = Some (coupon_service_port sample_coupon_cfg), point_reserver = None,
     has_free_shipping = (\<lambda>b x. (Inr False, x)), seller_names = (\<lambda>ids x. (Inr (\<lambda>i. Some ''shop''), x)),
     sku_products = (\<lambda>ids x. (Inr (\<lambda>i. Some ''product''), x)), publish_err = None,
     stripe_destination_intent = (\<lambda>a c acc x. (Inr (''pi'', ''secret''), x)),
     stripe_platform_intent = (\<lambda>a c x. (Inr (''pi'', ''secret''), x)),
     stripe_transfer = (\<lambda>a c acc pi x. (Inr (''tr'' @ acc), x)), stripe_refund = (\<lambda>pi a key x. (Inr ''re'', x)),
     stripe_reverse = (\<lambda>tr a key x. (Inr ''rev'', x)), order_uuid_parse = Some\<rparr>"

definition coupon_shop :: "coupon_db world order_state world" where
  "coupon_shop = sample_world (empty_order_state issued_world)"

definition coupon_checkout :: "coupon_db world order_state world" where
  "coupon_checkout = snd (create_checkout coupon_shop_cfg (sample_cart\<lparr>cki_coupon := ''save''\<rparr>) coupon_shop)"

text \<open>
  The coupon is held once and stamped on both orders; committing it for the first order closes the
  hold, so that committing it for the second is refused and the delivery fails before the second
  order's event is published.
\<close>

lemma coupon_cart_stuck:
  "case handle_payment_success coupon_shop_cfg ''pi'' coupon_checkout of (r, w) \<Rightarrow>
     isl r \<and> map ord_coupon_discount (orders (store w)) = [20, 30]
     \<and> ord_coupon_hold (orders (store w) ! 0) = ord_coupon_hold (orders (store w) ! 1)
     \<and> map ord_published_at (orders (store w)) = [Some 0, None]"
  by code_simp

end
