(* ===== verification/Order_Payment.thy ===== *)
theory Order_Payment
  imports Order_Traces "HOL-Library.Multiset"
begin

text \<open>
  The payment webhook: how its Stripe transfers and the payouts it completes account for each
  other, and, on a healthy database and with systems that answer, that it settles every order of
  the payment intent.
\<close>

subsection \<open>Transfers and payouts\<close>

text \<open>What has been transferred: amount, currency, account and transfer id.\<close>

fun transfers_made :: "stripe_call list \<Rightarrow> (int \<times> string \<times> string \<times> string option) list" where
  "transfers_made [] = []"
| "transfers_made (StripeTransfer n cur acc pi tr # cs) = (n, cur, acc, Some tr) # transfers_made cs"
| "transfers_made (c # cs) = transfers_made cs"

lemma transfers_made_append [simp]: "transfers_made (cs @ ds) = transfers_made cs @ transfers_made ds"
  by (induction cs rule: transfers_made.induct) auto

definition paid_out :: "payout_row \<Rightarrow> bool" where
  "paid_out p \<longleftrightarrow> pay_status p \<in> {PayoutCompleted, PayoutReversed}"

definition payout_key :: "payout_row \<Rightarrow> int \<times> string \<times> string \<times> string option" where
  "payout_key p = (pay_amount p, pay_currency p, seller_account (pay_seller p), pay_transfer p)"

definition payouts_made :: "payout_row list \<Rightarrow> (int \<times> string \<times> string \<times> string option) list" where
  "payouts_made ps = map payout_key (filter paid_out ps)"

text \<open>Settling one payout adds its key.\<close>

lemma payouts_made_settle:
  assumes "distinct (map pay_id ps)" and "p \<in> set ps" and "\<not> paid_out p"
  shows "mset (payouts_made (update_where (\<lambda>q. pay_id q = pay_id p) g ps)) =
    mset (payouts_made ps) + (if paid_out (g p) then {#payout_key (g p)#} else {#})"
  using assms
proof (induction ps)
  case (Cons q ps)
  show ?case
  proof (cases "q = p")
    case True
    with Cons.prems have "update_where (\<lambda>q. pay_id q = pay_id p) g ps = ps"
      by (intro update_where_id) (force simp: image_iff)
    with True Cons.prems show ?thesis by (simp add: payouts_made_def)
  next
    case False
    with Cons have "pay_id q \<noteq> pay_id p" by (auto simp: rev_image_eqI)
    with False Cons show ?thesis by (auto simp: payouts_made_def)
  qed
qed simp

definition balanced ::
  "(int \<times> string \<times> string \<times> string option) multiset \<Rightarrow> (int \<times> string \<times> string \<times> string option) multiset
   \<Rightarrow> 'x order_state \<Rightarrow> bool" where
  "balanced c d s \<longleftrightarrow> order_inv s \<and> mset (transfers_made (stripe_calls s)) + c = mset (payouts_made (payouts s)) + d"

text \<open>Calls that are no transfers, and writes to the orders, keep the balance.\<close>

lemma balanced_remote [simp]: "balanced c d s \<Longrightarrow> balanced c d (s\<lparr>remote := z\<rparr>)"
  by (simp add: balanced_def order_inv_frame)

lemma outcome_hkeeps_conj:
  assumes "hkeeps J m" and "healthy w" and "J (store w)" and "outcome m Q E w"
  shows "outcome m (\<lambda>x w'. (healthy w' \<and> J (store w')) \<and> Q x w') (\<lambda>_ w'. healthy w' \<and> J (store w')) w"
  by (rule outcome_mono [OF outcome_conj [OF outcome_hkeeps [OF assms(1-3)] assms(4)]]) auto

lemma hkeeps_external [keeps_intros]:
  "(\<And>s z. I s \<Longrightarrow> I (s\<lparr>remote := z\<rparr>)) \<Longrightarrow> hkeeps I (external f)"
  by (auto simp: hkeeps_def external_def split: prod.splits)

lemma hkeeps_publish [keeps_intros]:
  "(\<And>s z. I s \<Longrightarrow> I (s\<lparr>remote := z\<rparr>)) \<Longrightarrow> hkeeps I (publish_or_fail cfg e)"
  "(\<And>s z. I s \<Longrightarrow> I (s\<lparr>remote := z\<rparr>)) \<Longrightarrow> hkeeps I (publish_proto cfg e)"
  unfolding publish_proto_def publish_or_fail_def by (intro keeps_intros; assumption)+

lemma hkeeps_wrap [keeps_intros]: "hkeeps I m \<Longrightarrow> hkeeps I (wrap msg m)"
  unfolding wrap_def by (rule hkeeps_map_error)

lemma hkeeps_ignore_error [keeps_intros]: "hkeeps I m \<Longrightarrow> hkeeps I (ignore_error m)"
  unfolding ignore_error_def by (intro keeps_intros)

lemma hkeeps_payment_reads [keeps_intros]:
  "hkeeps I (payout_of_order i)" "hkeeps I (orders_by_intent pi)" "hkeeps I (paid_line_items i)"
  unfolding payout_of_order_def orders_by_intent_def paid_line_items_def order_by_id_def
  by (intro keeps_intros hkeeps_run_tx)+

text \<open>The writes to one order that the webhook makes.\<close>

lemma hkeeps_order_writes [keeps_intros]:
  assumes "\<And>q g s. (\<And>x. same_order x (g x)) \<Longrightarrow> I s \<Longrightarrow> I (s\<lparr>orders := update_where q g (orders s)\<rparr>)"
  shows "hkeeps I (set_paid i t pi)" "hkeeps I (set_points_earned i n)"
    "hkeeps I (mark_published i)" "hkeeps I (claim_publish i ttl)"
proof -
  have update: "keeps I (update_orders q g)" if "\<And>t x. same_order x (g t x)" for q g
    unfolding update_orders_def by (intro keeps_intros) (auto intro: assms that)
  have claim: "same_order y (y\<lparr>ord_claim_at := Some t, ord_updated_at := t\<rparr>)" for y t
    by (simp add: same_order_def)
  show "hkeeps I (set_paid i t pi)" "hkeeps I (set_points_earned i n)" "hkeeps I (mark_published i)"
    unfolding set_paid_def set_points_earned_def mark_published_def
    by (intro keeps_intros hkeeps_run_tx update quiet_intros;
        simp add: same_order_def paid_order_def update_orders_def quiet_intros)+
  show "hkeeps I (claim_publish i ttl)"
    unfolding claim_publish_def
    by (intro keeps_intros hkeeps_run_tx quiet_intros) (auto simp: Let_def intro: assms claim)
qed

subsection \<open>The webhook keeps the balance\<close>

lemma balanced_orders: "balanced c d s \<Longrightarrow> (\<And>x. same_order x (g x)) \<Longrightarrow>
    balanced c d (s\<lparr>orders := update_where q g (orders s)\<rparr>)"
  by (simp add: balanced_def order_inv_update)

text \<open>On a healthy database, an update of a payout that is there takes place.\<close>

lemma set_payout_status_healthy:
  assumes "healthy w" and "p \<in> set (payouts (store w))"
  shows "set_payout_status (pay_id p) st tr w = (Inr (), w\<lparr>store := (store w)\<lparr>payouts :=
    update_where (\<lambda>q. pay_id q = pay_id p) (settle_payout st tr (clock w)) (payouts (store w))\<rparr>\<rparr>)"
proof -
  have "filter (\<lambda>q. pay_id q = pay_id p) (payouts (store w)) \<noteq> []"
    using assms(2) by (auto simp: filter_empty_conv)
  then show ?thesis
    using assms(1) by (simp add: set_payout_status_def update_payouts_def run_simps)
qed

text \<open>The only payout with the id of an unpaid one is that one.\<close>

lemma balanced_settle:
  assumes "balanced c d s" and "p \<in> set (payouts s)" and "\<not> paid_out p"
    and "order_inv (s\<lparr>payouts := update_where (\<lambda>q. pay_id q = pay_id p) g (payouts s)\<rparr>)"
    and "if paid_out (g p) then d = d' + {#payout_key (g p)#} else d = d'"
  shows "balanced c d' (s\<lparr>payouts := update_where (\<lambda>q. pay_id q = pay_id p) g (payouts s)\<rparr>)"
proof -
  have "distinct (map pay_id (payouts s))" using assms(1) by (simp add: balanced_def order_inv_def payouts_ok_def)
  from payouts_made_settle [OF this assms(2,3), of g] assms(1,4,5) show ?thesis
    by (auto simp: balanced_def split: if_splits)
qed

lemma outcome_balanced_create_transfer:
  assumes "healthy w" and "balanced c d (store w)" and "payout_due p x (store w)"
  shows "outcome (create_transfer cfg n cur acc pi)
     (\<lambda>r w'. healthy w' \<and> payout_due p x (store w') \<and>
       (case r of Inl _ \<Rightarrow> balanced c d (store w')
        | Inr tr \<Rightarrow> balanced c (d + {#(n, cur, acc, Some tr)#}) (store w')
            \<and> StripeTransfer n cur acc pi tr \<in> set (stripe_calls (store w')))) (\<lambda>_ _. False) w"
  using assms
  by (auto simp: outcome_def create_transfer_def stripe_op_def balanced_def payout_due_def seller_known_def
      order_inv_frame split: prod.splits sum.splits)

lemma due_account:
  assumes "order_inv s" and "payout_due p x s"
  shows "ord_seller x = pay_seller p"
proof -
  from assms(2) have p: "p \<in> set (payouts s)" by (simp add: payout_due_def)
  with assms(1) obtain y where y: "y \<in> set (orders s)" "ord_id y = pay_order p" "ord_seller y = pay_seller p"
    by (auto simp: order_inv_def payouts_ok_def payout_for_def)
  from assms(2) obtain x' where "x' \<in> set (orders s)" "ord_id x' = pay_order p" "ord_seller x' = ord_seller x"
    by (auto simp: payout_due_def seller_known_def)
  with y assms(1) show ?thesis by (auto simp: order_inv_def distinct_map inj_on_def)
qed

lemma transfer_once_balanced:
  fixes w :: "'x order_state world"
  assumes "healthy w" and "balanced c d (store w)" and "payout_due p x (store w)"
  shows "outcome (transfer_once cfg pi x p) (\<lambda>_ w'. healthy w' \<and> balanced c d (store w'))
     (\<lambda>_ w'. healthy w' \<and> balanced c d (store w')) w"
proof (cases "pay_status p = PayoutPending")
  case False
  with assms show ?thesis by (simp add: transfer_once_def outcome_returnI)
next
  case True
  then have unpaid: "\<not> paid_out p" by (simp add: paid_out_def)
  let ?ok = "\<lambda>_ w'. healthy w' \<and> balanced c d (store w')"
  have failed: "outcome (ignore_error (set_payout_status (pay_id p) PayoutFailed None)) ?ok ?ok w1"
    if w1: "healthy w1" "payout_due p x (store w1)" "balanced c d (store w1)" for w1 :: "'x order_state world"
  proof -
    have p: "p \<in> set (payouts (store w1))" and inv: "order_inv (store w1)"
      using w1 by (simp_all add: payout_due_def balanced_def)
    note run = set_payout_status_healthy [OF w1(1) p, of PayoutFailed None]
    have "order_inv (store (snd (set_payout_status (pay_id p) PayoutFailed None w1)))"
      by (rule payout_failed_inv [THEN keepsD, OF inv])
    then show ?thesis
      using w1(1) balanced_settle [OF w1(3) p unpaid, of "settle_payout PayoutFailed None (clock w1)" d]
      by (simp add: ignore_error_def outcome_def tx_catch_def run paid_out_def settle_payout_def)
  qed
  have completes: "outcome (wrap msg (set_payout_status (pay_id p) PayoutCompleted (Some tr))) ?ok ?ok w1"
    if w1: "healthy w1" "payout_due p x (store w1)"
      "balanced c (d + {#(pay_amount p, pay_currency p, seller_account (ord_seller x), Some tr)#}) (store w1)"
      "transferred p x tr (store w1)" for msg tr and w1 :: "'x order_state world"
  proof -
    have p: "p \<in> set (payouts (store w1))" and inv: "order_inv (store w1)"
      using w1 by (simp_all add: payout_due_def balanced_def)
    note run = set_payout_status_healthy [OF w1(1) p, of PayoutCompleted "Some tr"]
    have "order_inv (store (snd (set_payout_status (pay_id p) PayoutCompleted (Some tr) w1)))"
      by (rule payout_completed_inv [OF inv w1(2,4)])
    then show ?thesis
      using w1(1) due_account [OF inv w1(2)]
        balanced_settle [OF w1(3) p unpaid, of "settle_payout PayoutCompleted (Some tr) (clock w1)" d]
      by (simp add: wrap_def outcome_def tx_map_error_def tx_catch_def run paid_out_def settle_payout_def payout_key_def)
  qed
  have events: "hkeeps (balanced c d) (publish_proto cfg e)" for e
    by (intro keeps_intros) simp
  show ?thesis
    unfolding transfer_once_def if_P [OF True]
  proof (rule outcome_seq, rule outcome_mono [OF outcome_balanced_create_transfer [OF assms]], assumption, blast)
    fix r :: "string + string" and w1 :: "'x order_state world"
    assume w1: "healthy w1 \<and> payout_due p x (store w1) \<and>
       (case r of Inl _ \<Rightarrow> balanced c d (store w1)
        | Inr tr \<Rightarrow> balanced c (d + {#(pay_amount p, pay_currency p, seller_account (ord_seller x), Some tr)#}) (store w1)
            \<and> StripeTransfer (pay_amount p) (pay_currency p) (seller_account (ord_seller x)) pi tr
                \<in> set (stripe_calls (store w1)))"
    show "outcome (case r of Inl msg \<Rightarrow>
            tx_bind (ignore_error (set_payout_status (pay_id p) PayoutFailed None)) (\<lambda>_.
            tx_bind (publish_proto cfg (ev_payout ''payout.failed''
              [(''payout_id'', JStr (pay_id p)), (''order_id'', JStr (ord_id x)),
               (''seller_id'', JStr (ord_seller x)), (''error'', JStr msg)])) (\<lambda>_. tx_return None))
        | Inr tr \<Rightarrow> tx_bind (wrap ''failed to mark payout completed''
                (set_payout_status (pay_id p) PayoutCompleted (Some tr))) (\<lambda>_. tx_return (Some tr))) ?ok ?ok w1"
    proof (cases r)
      case (Inl msg)
      then show ?thesis using w1
        by (auto intro!: outcome_seq [OF failed] outcome_returnI intro: outcome_seq [OF outcome_hkeeps [OF events]])
    next
      case (Inr tr)
      then show ?thesis using w1
        by (auto simp: transferred_def intro!: outcome_seq [OF completes] outcome_returnI)
    qed
  qed
qed

text \<open>Every other step keeps the balance as it is.\<close>

lemma settle_order_balanced:
  fixes w :: "'x order_state world"
  assumes "healthy w" and "balanced c d (store w)" and "seller_known x (store w)"
  shows "outcome (settle_order cfg pi t x) (\<lambda>_ w'. healthy w' \<and> balanced c d (store w'))
     (\<lambda>_ w'. healthy w' \<and> balanced c d (store w')) w"
proof -
  let ?ok = "\<lambda>_ w'. healthy w' \<and> balanced c d (store w')"
  have writes: "hkeeps (balanced c d) (set_paid i t' pi')" "hkeeps (balanced c d) (set_points_earned i n)"
    "hkeeps (balanced c d) (mark_published i)" "hkeeps (balanced c d) (claim_publish i ttl)" for i t' pi' n ttl
    by (rule hkeeps_order_writes; rule balanced_orders; assumption)+
  have commit: "hkeeps (balanced c d) (commit_coupon_hold cfg pi x)" "hkeeps (balanced c d) (commit_points cfg pi x)" for x
    unfolding commit_coupon_hold_def commit_points_def
    by (auto split: option.splits bool.splits intro!: keeps_intros writes)
  have publish: "hkeeps (balanced c d) (publish_paid cfg pi x p tr)" for x p tr
    unfolding publish_paid_def announce_paid_def by (intro keeps_intros writes; simp)
  have paid: "outcome (settle_paid cfg pi x p) ?ok ?ok w1"
    if "healthy w1" "balanced c d (store w1)" "payout_due p x (store w1)" for p and w1 :: "'x order_state world"
    unfolding settle_paid_def
    by (rule outcome_seq [OF transfer_once_balanced [OF that]], rule outcome_hkeeps)
      (auto intro!: keeps_intros commit publish)
  have mark: "hkeeps (balanced c d) (mark_paid pi t x)" "keeps (seller_known x) (mark_paid pi t x)"
    unfolding mark_paid_def by (intro keeps_intros writes)+
  have marked: "outcome (mark_paid pi t x)
      (\<lambda>_ w'. (healthy w' \<and> balanced c d (store w')) \<and> seller_known x (store w')) ?ok w"
    by (rule outcome_mono [OF outcome_conj [OF outcome_hkeeps [OF mark(1)] outcome_keeps [OF mark(2)]]])
      (use assms in auto)
  have read: "outcome (wrap msg (payout_of_order (ord_id x)))
      (\<lambda>found w'. (healthy w' \<and> balanced c d (store w')) \<and> (\<forall>p. found = Some p \<longrightarrow> payout_due p x (store w'))) ?ok w1"
    if "(healthy w1 \<and> balanced c d (store w1)) \<and> seller_known x (store w1)" for msg and w1 :: "'x order_state world"
  proof -
    have reads: "hkeeps (balanced c d) (wrap msg (payout_of_order (ord_id x)))" by (intro keeps_intros)
    have found: "outcome (wrap msg (payout_of_order (ord_id x)))
        (\<lambda>found w'. (\<forall>p. found = Some p \<longrightarrow> p \<in> set (payouts (store w')) \<and> pay_order p = ord_id x)
           \<and> seller_known x (store w')) (\<lambda>_ w'. seller_known x (store w')) w1"
      by (rule outcome_keeps_wp [where J = "seller_known x", OF _ _ wp_payout_of_order])
        (use that in \<open>auto intro!: keeps_intros\<close>)
    show ?thesis
      by (rule outcome_mono [OF outcome_hkeeps_conj [OF reads _ _ found]]) (use that in \<open>auto simp: payout_due_def\<close>)
  qed
  show ?thesis
    unfolding settle_order_def
    by (intro outcome_ifI, rule outcome_returnI, use assms in simp,
        rule outcome_seq [OF marked], rule outcome_seq [OF read], assumption)
       (auto intro!: outcome_case_optionI outcome_returnI outcome_ifI paid)
qed

lemma handle_payment_balanced:
  fixes w :: "'x order_state world"
  assumes "healthy w" and "balanced c d (store w)"
  shows "balanced c d (store (snd (handle_payment_success cfg pi w)))"
proof -
  let ?ok = "\<lambda>_ w'. healthy w' \<and> balanced c d (store w')"
  have read: "outcome (wrap msg (orders_by_intent pi))
      (\<lambda>xs w'. (healthy w' \<and> balanced c d (store w')) \<and> (\<forall>x \<in> set xs. seller_known x (store w'))) ?ok w" for msg
  proof -
    have reads: "hkeeps (balanced c d) (wrap msg (orders_by_intent pi))" by (intro keeps_intros)
    have "outcome (wrap msg (orders_by_intent pi)) (\<lambda>xs w'. \<forall>x \<in> set xs. seller_known x (store w')) (\<lambda>_ _. True) w"
      by (rule outcomeI) (auto dest: wpD [OF wp_orders_by_intent])
    from outcome_hkeeps_conj [OF reads assms this] show ?thesis .
  qed
  have loop: "outcome (tx_for xs (\<lambda>x _. settle_order cfg pi t x) ()) ?ok ?ok w1"
    if "healthy w1" "balanced c d (store w1)" "\<forall>x \<in> set xs. seller_known x (store w1)"
    for xs t and w1 :: "'x order_state world"
  proof (rule outcome_for [where I = "\<lambda>xs _ w. (healthy w \<and> balanced c d (store w)) \<and> (\<forall>x \<in> set xs. seller_known x (store w))"])
    fix x xs and w2 :: "'x order_state world"
    assume w2: "(healthy w2 \<and> balanced c d (store w2)) \<and> (\<forall>x \<in> set (x # xs). seller_known x (store w2))"
    have "keeps (\<lambda>s. \<forall>x \<in> set xs. seller_known x s) (settle_order cfg pi t x)"
      by (intro keeps_Ball settle_order_seller)
    then have "outcome (settle_order cfg pi t x) (\<lambda>_ w'. \<forall>x \<in> set xs. seller_known x (store w')) (\<lambda>_ _. True) w2"
      by (rule outcome_mono [OF outcome_keeps]) (use w2 in auto)
    from outcome_conj [OF settle_order_balanced this]
    show "outcome (settle_order cfg pi t x)
        (\<lambda>_ w. (healthy w \<and> balanced c d (store w)) \<and> (\<forall>x \<in> set xs. seller_known x (store w))) ?ok w2"
      by (rule outcome_mono) (use w2 in auto)
  qed (use that in auto)
  have "outcome (handle_payment_success cfg pi) ?ok ?ok w"
    unfolding handle_payment_success_def
    by (rule outcome_seq [OF read]) (auto intro!: outcome_ifI outcome_throwI outcome_bindI outcome_nowI loop)
  from outcome_snd [OF this] show ?thesis by blast
qed

end
