(* ===== verification/Order_Settlement.thy ===== *)
theory Order_Settlement
  imports Order_Payment
begin

text \<open>
  The payment webhook gets its work done: on a healthy database, when Stripe, the publisher and the
  coupon and loyalty services answer, it returns, and every order of the payment intent is paid,
  its payout completed and its event published.
\<close>

subsection \<open>Operations that leave the clock alone\<close>

definition steady :: "('s, 'd, 'a) tx \<Rightarrow> bool" where
  "steady m \<longleftrightarrow> (\<forall>w. clock (snd (m w)) = clock w)"

lemma steadyD: "steady m \<Longrightarrow> m w = (r, w') \<Longrightarrow> clock w' = clock w"
  unfolding steady_def by (metis snd_conv)

lemma steady_intros [keeps_intros]:
  "steady (tx_return x)" "steady (tx_throw e)" "steady now" "steady new_uuid" "steady (publish ev)"
  "steady (sql stmt)" "steady (query q)"
  by (auto simp: steady_def tx_return_def tx_throw_def now_def new_uuid_def publish_def query_def sql_def
      consume_fault_def split: sum.splits)

lemma steady_bind [keeps_intros]:
  assumes "steady m" and "\<And>x. steady (f x)"
  shows "steady (tx_bind m f)"
  unfolding steady_def
proof
  fix w :: "'a world"
  obtain r w1 where m: "m w = (r, w1)" by fastforce
  from steadyD [OF assms(1) this] m assms(2) show "clock (snd (tx_bind m f w)) = clock w"
    by (cases r) (simp_all add: tx_bind_def steady_def)
qed

lemma steady_catch [keeps_intros]:
  assumes "steady m" and "\<And>e. steady (h e)"
  shows "steady (tx_catch m h)"
  unfolding steady_def
proof
  fix w :: "'a world"
  obtain r w1 where m: "m w = (r, w1)" by fastforce
  from steadyD [OF assms(1) this] m assms(2) show "clock (snd (tx_catch m h w)) = clock w"
    by (cases r) (simp_all add: tx_catch_def steady_def)
qed

lemma steady_map_error [keeps_intros]: "steady m \<Longrightarrow> steady (tx_map_error f m)"
  unfolding tx_map_error_def by (intro keeps_intros)

lemma steady_run_tx [keeps_intros]:
  assumes "steady body"
  shows "steady (run_tx body)"
  unfolding steady_def
proof
  fix w :: "'a world"
  obtain r w1 where b: "body ((consume_fault w)\<lparr>aborted := False\<rparr>) = (r, w1)" by fastforce
  have "clock w1 = clock w" using steadyD [OF assms b] by (simp add: consume_fault_def)
  with b show "clock (snd (run_tx body w)) = clock w"
    by (cases r) (simp_all add: run_tx_def consume_fault_def)
qed

lemma steady_cases [keeps_intros]:
  "(c \<Longrightarrow> steady m) \<Longrightarrow> (\<not> c \<Longrightarrow> steady n) \<Longrightarrow> steady (if c then m else n)"
  "steady m \<Longrightarrow> (\<And>y. steady (g y)) \<Longrightarrow> steady (case z of None \<Rightarrow> m | Some y \<Rightarrow> g y)"
  "(\<And>a b. steady (k a b)) \<Longrightarrow> steady (case p of (a, b) \<Rightarrow> k a b)"
  "(\<And>a. steady (h1 a)) \<Longrightarrow> (\<And>b. steady (h2 b)) \<Longrightarrow> steady (case v of Inl a \<Rightarrow> h1 a | Inr b \<Rightarrow> h2 b)"
  "steady (h u) \<Longrightarrow> steady (Let u h)"
  by (cases z; cases p; cases v; auto)+

lemma steady_calls [keeps_intros]: "steady (external f)" "steady (stripe_op op entry)"
  by (auto simp: steady_def external_def stripe_op_def split: prod.splits sum.splits)

lemma outcome_steady: "steady m \<Longrightarrow> outcome m Q E w \<Longrightarrow> outcome m (\<lambda>x w'. clock w' = clock w \<and> Q x w') E w"
  by (auto simp: outcome_def dest: steadyD split: prod.splits sum.splits)

lemma commits_steady: "steady (commit_coupon_hold cfg pi x)" "steady (commit_points cfg pi x)"
  unfolding commit_coupon_hold_def commit_points_def ignore_error_def wrap_def set_points_earned_def update_orders_def
  by (auto split: option.splits bool.splits intro!: keeps_intros)

lemma transfer_once_steady: "steady (transfer_once cfg pi x p)"
  unfolding transfer_once_def create_transfer_def wrap_def ignore_error_def set_payout_status_def
    update_payouts_def publish_proto_def publish_or_fail_def
  by (intro keeps_intros)

lemma publish_paid_steady: "steady (publish_paid cfg pi x p tr)"
  unfolding publish_paid_def announce_paid_def wrap_def publish_or_fail_def claim_publish_def
    mark_published_def paid_line_items_def order_by_id_def update_orders_def
  by (intro keeps_intros)

subsection \<open>What settling one order touches\<close>

definition touches :: "uuid \<Rightarrow> 'x order_state \<Rightarrow> 'x order_state \<Rightarrow> bool" where
  "touches i s s' \<longleftrightarrow> map ord_id (orders s') = map ord_id (orders s)
     \<and> (\<forall>y. ord_id y \<noteq> i \<longrightarrow> (y \<in> set (orders s') \<longleftrightarrow> y \<in> set (orders s)))
     \<and> (\<forall>p. pay_order p \<noteq> i \<longrightarrow> (p \<in> set (payouts s') \<longleftrightarrow> p \<in> set (payouts s)))"

definition order_paid :: "uuid \<Rightarrow> 'x order_state \<Rightarrow> bool" where
  "order_paid i s \<longleftrightarrow> (\<forall>y \<in> set (orders s). ord_id y = i \<longrightarrow> ord_status y \<noteq> StPending)"

definition order_published :: "uuid \<Rightarrow> 'x order_state \<Rightarrow> bool" where
  "order_published i s \<longleftrightarrow> (\<forall>y \<in> set (orders s). ord_id y = i \<longrightarrow> ord_published_at y \<noteq> None)"

definition payout_completed :: "uuid \<Rightarrow> 'x order_state \<Rightarrow> bool" where
  "payout_completed i s \<longleftrightarrow> (\<exists>p \<in> set (payouts s). pay_order p = i)
     \<and> (\<forall>p \<in> set (payouts s). pay_order p = i \<longrightarrow> pay_status p = PayoutCompleted)"

lemma touches_refl: "touches i s s"
  by (simp add: touches_def)

lemma touches_trans: "touches i s t \<Longrightarrow> touches i t u \<Longrightarrow> touches i s u"
  by (simp add: touches_def)

lemma touches_frame [simp]: "touches i s0 (s\<lparr>remote := z\<rparr>) = touches i s0 s"
  "touches i s0 (s\<lparr>remote := z, stripe_calls := cs\<rparr>) = touches i s0 s"
  by (simp_all add: touches_def)

lemma touches_orders:
  assumes "touches i s0 s" and "\<And>y. q y \<Longrightarrow> ord_id y = i" and "\<And>y. ord_id (g y) = ord_id y"
  shows "touches i s0 (s\<lparr>orders := update_where q g (orders s)\<rparr>)"
proof -
  have "y \<in> set (update_where q g (orders s)) \<longleftrightarrow> y \<in> set (orders s)" if "ord_id y \<noteq> i" for y
    using that assms(2,3) by (force simp: update_where_def)
  moreover have "map ord_id (update_where q g (orders s)) = map ord_id (orders s)"
    by (rule update_where_keys) (rule assms(3))
  ultimately show ?thesis using assms(1) by (simp add: touches_def)
qed

lemma touches_payouts:
  assumes "touches i s0 s" and "\<And>p. p \<in> set (payouts s) \<Longrightarrow> q p \<Longrightarrow> pay_order p = i"
    and "\<And>p. pay_order (g p) = pay_order p"
  shows "touches i s0 (s\<lparr>payouts := update_where q g (payouts s)\<rparr>)"
proof -
  have "p \<in> set (update_where q g (payouts s)) \<longleftrightarrow> p \<in> set (payouts s)" if "pay_order p \<noteq> i" for p
    using that assms(2,3) by (force simp: update_where_def)
  then show ?thesis using assms(1) by (simp add: touches_def)
qed

text \<open>The order of another id stays as it is.\<close>

lemma touches_other:
  assumes "touches i s s'" and "j \<noteq> i"
  shows "order_paid j s' = order_paid j s" "order_published j s' = order_published j s"
    "payout_completed j s' = payout_completed j s"
  using assms unfolding touches_def order_paid_def order_published_def payout_completed_def by metis+

subsection \<open>Settling one order\<close>

definition answers :: "('x, 'a) call \<Rightarrow> bool" where
  "answers f \<longleftrightarrow> (\<forall>z. \<exists>a z'. f z = (Inr a, z'))"

text \<open>Stripe, the publisher and the coupon and loyalty services answer.\<close>

definition cooperative :: "'x order_cfg \<Rightarrow> bool" where
  "cooperative cfg \<longleftrightarrow> (\<forall>n cur acc pi z. \<exists>tr z'. stripe_transfer cfg n cur acc pi z = (Inr tr, z'))
     \<and> (\<forall>f. publish_err cfg = Some f \<longrightarrow> (\<forall>e. answers (f e)))
     \<and> (\<forall>port. coupon_reserver cfg = Some port \<longrightarrow> (\<forall>h i pi. answers (coupon_commit port h i pi)))
     \<and> (\<forall>port. point_reserver cfg = Some port \<longrightarrow> (\<forall>h b i pi n cur. answers (point_commit port h b i pi n cur)))"

text \<open>The orders can be settled: not cancelled, with a payout to make, and no delivery holds the claim.\<close>

definition claimable :: "int \<Rightarrow> instant \<Rightarrow> order_row \<Rightarrow> order_row \<Rightarrow> bool" where
  "claimable ttl t x y \<longleftrightarrow> ord_published_at y = ord_published_at x
     \<and> (ord_published_at x = None \<longrightarrow> claim_free ttl t y)"

definition settleable :: "instant \<Rightarrow> order_row \<Rightarrow> 'x order_state \<Rightarrow> bool" where
  "settleable t x s \<longleftrightarrow> ord_status x \<noteq> StCancelled
     \<and> (\<exists>y \<in> set (orders s). ord_id y = ord_id x \<and> claimable publish_claim_ttl t x y \<and> ord_seller y = ord_seller x)
     \<and> (\<exists>p \<in> set (payouts s). pay_order p = ord_id x \<and> pay_status p \<in> {PayoutPending, PayoutCompleted})"

lemma settleable_other:
  assumes "touches i s s'" and "ord_id x \<noteq> i"
  shows "settleable t x s' = settleable t x s"
  using assms unfolding touches_def settleable_def by (intro conj_cong refl iffI) (elim conjE bexE; force)+

text \<open>What holds from the transfer on.\<close>

definition settling :: "uuid \<Rightarrow> 'x order_state \<Rightarrow> 'x order_state \<Rightarrow> bool" where
  "settling i s0 s \<longleftrightarrow> order_inv s \<and> touches i s0 s \<and> order_paid i s \<and> payout_completed i s"

lemma settling_remote: "settling i s0 s \<Longrightarrow> settling i s0 (s\<lparr>remote := z\<rparr>)"
  by (simp add: settling_def order_inv_frame order_paid_def payout_completed_def)

lemma settling_orders:
  assumes "settling i s0 s" and "\<And>y. q y \<Longrightarrow> ord_id y = i"
    and "\<And>y. same_order y (g y)" and "\<And>y. ord_status (g y) = ord_status y"
  shows "settling i s0 (s\<lparr>orders := update_where q g (orders s)\<rparr>)"
proof -
  have ids: "ord_id (g y) = ord_id y" for y using assms(3) by (simp add: same_order_def)
  have "order_paid i (s\<lparr>orders := update_where q g (orders s)\<rparr>)"
    using assms(1,4) ids by (auto simp: settling_def order_paid_def update_where_def)
  moreover have "touches i s0 (s\<lparr>orders := update_where q g (orders s)\<rparr>)"
    using assms(1,2) ids by (intro touches_orders) (simp_all add: settling_def)
  moreover have "order_inv (s\<lparr>orders := update_where q g (orders s)\<rparr>)"
    using assms(1,3) by (intro order_inv_update) (simp_all add: settling_def)
  ultimately show ?thesis using assms(1) by (simp add: settling_def payout_completed_def)
qed

lemma outcome_external:
  "answers f \<Longrightarrow> healthy w \<Longrightarrow> outcome (external f)
     (\<lambda>_ w'. healthy w' \<and> (\<exists>z. store w' = (store w)\<lparr>remote := z\<rparr>)) (\<lambda>_ _. False) w"
  unfolding answers_def outcome_def external_def
  by (auto split: prod.splits sum.splits) (metis Inl_Inr_False Pair_inject)+

lemma outcome_publish_or_fail:
  assumes "cooperative cfg" and "healthy w"
  shows "outcome (publish_or_fail cfg e)
     (\<lambda>_ w'. healthy w' \<and> (\<exists>z. store w' = (store w)\<lparr>remote := z\<rparr>)) (\<lambda>_ _. False) w"
proof (cases "publish_err cfg")
  case None
  with assms(2) show ?thesis
    by (auto simp: publish_or_fail_def intro!: outcome_returnI exI [of _ "remote (store w)"])
next
  case (Some f)
  then have "answers (f e)" using assms(1) by (simp add: cooperative_def)
  from outcome_external [OF this assms(2)] show ?thesis
    unfolding publish_or_fail_def Some option.case
    by (rule outcome_seq) (auto simp: outcome_def publish_def)
qed

lemma mark_paid_healthy:
  assumes "healthy w" and "y \<in> set (orders (store w))" and "ord_id y = ord_id x"
  shows "mark_paid pi t x w = (Inr (), w\<lparr>store := (store w)\<lparr>orders :=
    update_where (\<lambda>y. ord_id y = ord_id x \<and> ord_status y = StPending) (paid_order t pi (clock w)) (orders (store w))\<rparr>\<rparr>)"
proof (cases "filter (\<lambda>y. ord_id y = ord_id x \<and> ord_status y = StPending) (orders (store w)) = []")
  case True
  then have "update_where (\<lambda>y. ord_id y = ord_id x \<and> ord_status y = StPending) g (orders (store w)) = orders (store w)" for g
    by (intro update_where_id) (auto simp: filter_empty_conv)
  moreover have "list_ex (\<lambda>y. ord_id y = ord_id x) (orders (store w))"
    using assms(2,3) by (auto simp: list_ex_iff)
  moreover have "w\<lparr>aborted := False\<rparr> = w" using assms(1) by simp
  ultimately show ?thesis
    using assms(1) True
    by (simp add: mark_paid_def set_paid_def update_orders_def query_def run_simps)
next
  case False
  then show ?thesis
    using assms(1) by (simp add: mark_paid_def set_paid_def update_orders_def query_def run_simps)
qed

lemma payout_of_order_healthy:
  assumes "healthy w" and "order_inv (store w)" and "p \<in> set (payouts (store w))"
  shows "payout_of_order (pay_order p) w = (Inr (Some p), w)"
proof -
  have "find (\<lambda>q. pay_order q = pay_order p) (payouts (store w)) = Some p"
    using assms(2,3) by (intro find_unique_key) (simp_all add: order_inv_def payouts_ok_def)
  then show ?thesis using assms(1) by (simp add: payout_of_order_def query_def run_simps)
qed

lemma payout_completed_update:
  assumes "p \<in> set (payouts s)" and "pay_order p = i" and "q p" and "pay_status (g p) = PayoutCompleted"
    and "\<And>p'. pay_order (g p') = pay_order p'" and "\<And>p'. p' \<in> set (payouts s) \<Longrightarrow> pay_order p' = i \<Longrightarrow> p' = p"
  shows "payout_completed i (s\<lparr>payouts := update_where q g (payouts s)\<rparr>)"
proof -
  have "g p \<in> set (update_where q g (payouts s))"
    using assms(1,3) by (auto simp: update_where_def image_iff)
  moreover have "pay_status p' = PayoutCompleted" if "p' \<in> set (update_where q g (payouts s))" "pay_order p' = i" for p'
    using that assms(3-6) by (auto simp: update_where_def split: if_splits)
  ultimately show ?thesis using assms(2,5) by (auto simp: payout_completed_def)
qed

lemma transfer_once_settles:
  fixes w :: "'x order_state world"
  assumes w: "healthy w" "order_inv (store w)" "touches (ord_id x) s0 (store w)" "order_paid (ord_id x) (store w)"
    and coop: "cooperative cfg" and due: "payout_due p x (store w)"
    and st: "pay_status p \<in> {PayoutPending, PayoutCompleted}"
  shows "outcome (transfer_once cfg pi x p)
    (\<lambda>r w'. r \<noteq> None \<and> healthy w' \<and> settling (ord_id x) s0 (store w') \<and> orders (store w') = orders (store w)) (\<lambda>_ _. False) w"
proof -
  have p: "p \<in> set (payouts (store w))" "pay_order p = ord_id x" using due by (simp_all add: payout_due_def)
  have only: "q = p" if "q \<in> set (payouts (store w))" "pay_order q = ord_id x \<or> pay_id q = pay_id p" for q
    using that p w(2) by (auto simp: order_inv_def payouts_ok_def distinct_map inj_on_def)
  show ?thesis
  proof (cases "pay_status p = PayoutPending")
    case False
    then have "settling (ord_id x) s0 (store w)"
      using w p only st by (auto simp: settling_def payout_completed_def)
    with False w(1) show ?thesis by (simp add: transfer_once_def outcome_returnI)
  next
    case True
    have made: "outcome (create_transfer cfg (pay_amount p) (pay_currency p) (seller_account (ord_seller x)) pi)
        (\<lambda>r w'. \<exists>tr z. r = Inr tr \<and> healthy w' \<and> store w' = (store w)\<lparr>remote := z, stripe_calls := stripe_calls (store w) @
           [StripeTransfer (pay_amount p) (pay_currency p) (seller_account (ord_seller x)) pi tr]\<rparr>) (\<lambda>_ _. False) w"
    proof -
      obtain tr z where "stripe_transfer cfg (pay_amount p) (pay_currency p) (seller_account (ord_seller x)) pi
          (remote (store w)) = (Inr tr, z)"
        using coop unfolding cooperative_def by blast
      then show ?thesis using w(1) by (simp add: outcome_def create_transfer_def stripe_op_def) blast
    qed
    have completes: "outcome (wrap msg (set_payout_status (pay_id p) PayoutCompleted (Some tr)))
        (\<lambda>_ w'. healthy w' \<and> settling (ord_id x) s0 (store w') \<and> orders (store w') = orders (store w)) (\<lambda>_ _. False) w1"
      if w1: "healthy w1" "store w1 = (store w)\<lparr>remote := z, stripe_calls := stripe_calls (store w) @
           [StripeTransfer (pay_amount p) (pay_currency p) (seller_account (ord_seller x)) pi tr]\<rparr>"
      for msg tr z and w1 :: "'x order_state world"
    proof -
      let ?s = "(store w1)\<lparr>payouts := update_where (\<lambda>q. pay_id q = pay_id p)
        (settle_payout PayoutCompleted (Some tr) (clock w1)) (payouts (store w1))\<rparr>"
      have p1: "p \<in> set (payouts (store w1))" using p w1 by simp
      note run = set_payout_status_healthy [OF w1(1) p1, of PayoutCompleted "Some tr"]
      have "order_inv (store w1)" using w(2) w1(2) order_inv_frame(3) by metis
      moreover have "payout_due p x (store w1)" "transferred p x tr (store w1)"
        using due w1(2) by (auto simp: payout_due_def seller_known_def transferred_def)
      ultimately have "order_inv (store (snd (set_payout_status (pay_id p) PayoutCompleted (Some tr) w1)))"
        by (rule payout_completed_inv)
      then have "order_inv ?s" by (simp add: run)
      moreover have "touches (ord_id x) s0 ?s"
        by (rule touches_payouts) (use w(3) w1 only p in \<open>auto simp: settle_payout_def\<close>)
      moreover have "payout_completed (ord_id x) ?s"
        using p w1(2) only by (intro payout_completed_update) (auto simp: settle_payout_def)
      ultimately have "settling (ord_id x) s0 ?s" using w(4) w1(2) by (simp add: settling_def order_paid_def)
      then show ?thesis using w1 by (simp add: wrap_def outcome_def tx_map_error_def tx_catch_def run)
    qed
    show ?thesis
      unfolding transfer_once_def if_P [OF True]
      by (rule outcome_seq [OF made], elim exE conjE, simp only: sum.case, rule outcome_seq [OF completes],
          assumption, assumption, rule outcome_returnI, simp)
  qed
qed

text \<open>The commits keep the row as the publication needs it.\<close>

definition publishable :: "instant \<Rightarrow> order_row \<Rightarrow> 'x order_state \<Rightarrow> 'x order_state \<Rightarrow> bool" where
  "publishable t x s0 s \<longleftrightarrow> settling (ord_id x) s0 s
     \<and> (\<exists>y \<in> set (orders s). ord_id y = ord_id x \<and> claimable publish_claim_ttl t x y)"

lemma publishable_remote: "publishable t x s0 s \<Longrightarrow> publishable t x s0 (s\<lparr>remote := z\<rparr>)"
  by (simp add: publishable_def settling_remote)

lemma commit_coupon_settles:
  fixes w :: "'x order_state world"
  assumes "healthy w" and "publishable t x s0 (store w)" and "cooperative cfg"
  shows "outcome (commit_coupon_hold cfg pi x) (\<lambda>_ w'. healthy w' \<and> publishable t x s0 (store w')) (\<lambda>_ _. False) w"
proof -
  have call: "outcome (wrap msg (external (coupon_commit port h i pi)))
      (\<lambda>_ w'. healthy w' \<and> publishable t x s0 (store w')) (\<lambda>_ _. False) w"
    if "coupon_reserver cfg = Some port" for msg port h i
    unfolding wrap_def
    by (rule outcome_map_errorI, rule outcome_mono [OF outcome_external])
      (use that assms in \<open>auto simp: cooperative_def intro: publishable_remote\<close>)
  show ?thesis
    unfolding commit_coupon_hold_def using assms(1,2)
    by (auto intro: outcome_returnI call split: option.splits)
qed

lemma publishable_orders:
  assumes "publishable t x s0 s" and "\<And>y. q y \<Longrightarrow> ord_id y = ord_id x"
    and "\<And>y. same_order y (g y)" and "\<And>y. ord_status (g y) = ord_status y"
    and "\<And>y. claimable publish_claim_ttl t x y \<Longrightarrow> claimable publish_claim_ttl t x (g y)"
  shows "publishable t x s0 (s\<lparr>orders := update_where q g (orders s)\<rparr>)"
proof -
  from assms(1) obtain y where y: "y \<in> set (orders s)" "ord_id y = ord_id x" "claimable publish_claim_ttl t x y"
    by (auto simp: publishable_def)
  let ?y = "if q y then g y else y"
  have "?y \<in> set (update_where q g (orders s))" using y(1) by (simp add: update_where_def)
  moreover have "ord_id ?y = ord_id x" using y(2) assms(3) [of y] by (simp add: same_order_def)
  moreover have "claimable publish_claim_ttl t x ?y" using y(3) assms(5) by simp
  ultimately have "\<exists>y \<in> set (update_where q g (orders s)). ord_id y = ord_id x \<and> claimable publish_claim_ttl t x y"
    by blast
  with settling_orders [OF _ assms(2-4), where s = s and ?s0.0 = s0] assms(1) show ?thesis
    by (simp add: publishable_def)
qed

lemma set_points_publishable: "hkeeps (publishable t x s0) (ignore_error (set_points_earned (ord_id x) n))"
  unfolding set_points_earned_def update_orders_def
  by (intro keeps_intros hkeeps_run_tx)
    (auto intro!: publishable_orders simp: same_order_def claimable_def claim_free_def)

lemma outcome_returned: "fst (m w) = Inr x \<Longrightarrow> Q x (snd (m w)) \<Longrightarrow> outcome m Q E w"
  by (cases "m w") (simp add: outcome_def)

lemma ignore_error_returns: "fst (ignore_error m w) = Inr ()"
  by (simp add: ignore_error_def tx_catch_def tx_return_def split: prod.splits sum.splits)

lemma commit_points_settles:
  fixes w :: "'x order_state world"
  assumes "healthy w" and "publishable t x s0 (store w)" and "cooperative cfg"
  shows "outcome (commit_points cfg pi x)
    (\<lambda>x' w'. ord_id x' = ord_id x \<and> ord_published_at x' = ord_published_at x \<and> healthy w'
       \<and> publishable t x s0 (store w')) (\<lambda>_ _. False) w"
proof (cases "enable_loyalty cfg")
  case True
  then have on: "enable_loyalty cfg = True" by simp
  from True obtain port where port: "point_reserver cfg = Some port" by (auto simp: enable_loyalty_def)
  have call: "outcome (wrap msg (external (point_commit port (ord_point_hold x) (ord_buyer x) (ord_id x) pi
        (ord_subtotal x) (ord_currency x)))) (\<lambda>_ w'. healthy w' \<and> publishable t x s0 (store w')) (\<lambda>_ _. False) w" for msg
    unfolding wrap_def
    by (rule outcome_map_errorI, rule outcome_mono [OF outcome_external])
      (use port assms in \<open>auto simp: cooperative_def intro: publishable_remote\<close>)
  have noted: "outcome (ignore_error (set_points_earned (ord_id x) n))
      (\<lambda>_ w'. healthy w' \<and> publishable t x s0 (store w')) (\<lambda>_ _. False) w1"
    if "healthy w1 \<and> publishable t x s0 (store w1)" for n and w1 :: "'x order_state world"
  proof -
    have "healthy (snd (ignore_error (set_points_earned (ord_id x) n) w1))
        \<and> publishable t x s0 (store (snd (ignore_error (set_points_earned (ord_id x) n) w1)))"
      using hkeepsD [OF set_points_publishable] that by blast
    then show ?thesis by (rule outcome_returned [OF ignore_error_returns])
  qed
  show ?thesis
    unfolding commit_points_def on port bool.case option.case case_prod_conv
    by (rule outcome_seq [OF call], rule outcome_ifI, rule outcome_seq [OF noted])
      (auto intro: outcome_returnI)
next
  case False
  with assms show ?thesis by (auto simp: commit_points_def intro: outcome_returnI split: option.splits)
qed

subsection \<open>Publication\<close>

lemma outcome_caught:
  assumes "hkeeps J m" and "healthy w" and "J (store w)"
  shows "outcome (tx_catch m (\<lambda>_. tx_return d)) (\<lambda>_ w'. healthy w' \<and> J (store w')) (\<lambda>_ _. False) w"
  by (rule outcome_catchI, rule outcome_mono [OF outcome_hkeeps [OF assms]]) (auto intro: outcome_returnI)

lemma claim_publish_healthy:
  assumes "healthy w" and "order_inv (store w)" and y: "y \<in> set (orders (store w))" "ord_id y = i"
    and "claim_free ttl (clock w) y"
  shows "claim_publish i ttl w = (Inr (True, False), w\<lparr>store := (store w)\<lparr>orders :=
    update_where (\<lambda>x. ord_id x = i \<and> claim_free ttl (clock w) x)
      (\<lambda>x. x\<lparr>ord_claim_at := Some (clock w), ord_updated_at := clock w\<rparr>) (orders (store w))\<rparr>\<rparr>)"
proof -
  have "find (\<lambda>x. ord_id x = i) (orders (store w)) = Some y"
    using find_unique_key [of ord_id "orders (store w)" y] assms by (simp add: order_inv_def)
  moreover have "list_ex (\<lambda>x. ord_id x = i \<and> claim_free ttl (clock w) x) (orders (store w))"
    using assms by (auto simp: list_ex_iff)
  moreover have "ord_published_at y = None" using assms by (simp add: claim_free_def)
  ultimately show ?thesis using assms(1) by (simp add: claim_publish_def Let_def run_simps)
qed

lemma update_where_all:
  "(\<And>x. \<not> q x \<Longrightarrow> P x) \<Longrightarrow> (\<And>x. q x \<Longrightarrow> P (g x)) \<Longrightarrow> \<forall>y \<in> set (update_where q g xs). P y"
  by (auto simp: update_where_def)

lemma mark_published_healthy:
  fixes w :: "'x order_state world"
  assumes "healthy w" and "settling i s0 (store w)"
  shows "outcome (tx_catch (tx_bind (mark_published i) (\<lambda>_. tx_return ())) (\<lambda>_. tx_return ()))
    (\<lambda>_ w'. healthy w' \<and> settling i s0 (store w') \<and> order_published i (store w')) (\<lambda>_ _. False) w"
proof -
  let ?s = "(store w)\<lparr>orders := update_where (\<lambda>x. ord_id x = i \<and> ord_published_at x = None)
      (\<lambda>x. x\<lparr>ord_published_at := Some (clock w), ord_updated_at := clock w\<rparr>) (orders (store w))\<rparr>"
  have "settling i s0 ?s"
    using assms(2) by (intro settling_orders) (auto simp: same_order_def)
  moreover have "order_published i ?s"
    unfolding order_published_def by (simp, rule update_where_all) auto
  moreover have "mark_published i w =
      (Inr (length (filter (\<lambda>x. ord_id x = i \<and> ord_published_at x = None) (orders (store w))) > 0), w\<lparr>store := ?s\<rparr>)"
    using assms(1) unfolding mark_published_def update_orders_def
    by (simp add: run_tx_healthy tx_bind_def sql_healthy tx_return_def)
  ultimately show ?thesis
    using assms(1) by (simp add: outcome_def tx_catch_def tx_bind_def tx_return_def)
qed

lemma announce_paid_settles:
  fixes w :: "'x order_state world"
  assumes w: "healthy w" "settling (ord_id x) s0 (store w)" and coop: "cooperative cfg"
  shows "outcome (announce_paid cfg pi x p tr)
    (\<lambda>_ w'. healthy w' \<and> settling (ord_id x) s0 (store w') \<and> order_published (ord_id x) (store w')) (\<lambda>_ _. False) w"
proof -
  have items: "hkeeps (settling (ord_id x) s0) (paid_line_items i)" for i by (intro keeps_intros)
  have event: "outcome (wrap msg (publish_or_fail cfg e))
      (\<lambda>_ w'. healthy w' \<and> settling (ord_id x) s0 (store w')) (\<lambda>_ _. False) w1"
    if "healthy w1 \<and> settling (ord_id x) s0 (store w1)" for msg e and w1 :: "'x order_state world"
    unfolding wrap_def
    by (rule outcome_map_errorI, rule outcome_mono [OF outcome_publish_or_fail [OF coop]])
      (use that in \<open>auto intro: settling_remote\<close>)
  show ?thesis
    unfolding announce_paid_def
    by (rule outcome_seq [OF outcome_caught [OF items w]], rule outcome_seq [OF event], assumption,
        rule outcome_seq [OF event], assumption, rule mark_published_healthy) simp_all
qed

lemma publish_paid_settles:
  fixes w :: "'x order_state world"
  assumes w: "healthy w" "publishable (clock w) x s0 (store w)" and coop: "cooperative cfg"
  shows "outcome (publish_paid cfg pi x p tr)
    (\<lambda>_ w'. healthy w' \<and> settling (ord_id x) s0 (store w') \<and> order_published (ord_id x) (store w')) (\<lambda>_ _. False) w"
proof -
  from w(2) obtain y where y: "y \<in> set (orders (store w))" "ord_id y = ord_id x"
    "claimable publish_claim_ttl (clock w) x y" and s: "settling (ord_id x) s0 (store w)"
    by (auto simp: publishable_def)
  then have inv: "order_inv (store w)" by (simp add: settling_def)
  show ?thesis
  proof (cases "ord_published_at x = None")
    case False
    have "order_published (ord_id x) (store w)"
      using y inv False by (auto simp: order_published_def claimable_def order_inv_def distinct_map inj_on_def)
    with False w(1) s show ?thesis by (simp add: publish_paid_def outcome_returnI)
  next
    case True
    then have free: "claim_free publish_claim_ttl (clock w) y" using y(3) by (simp add: claimable_def)
    let ?w = "w\<lparr>store := (store w)\<lparr>orders :=
      update_where (\<lambda>z. ord_id z = ord_id x \<and> claim_free publish_claim_ttl (clock w) z)
      (\<lambda>z. z\<lparr>ord_claim_at := Some (clock w), ord_updated_at := clock w\<rparr>) (orders (store w))\<rparr>\<rparr>"
    have claim: "outcome (wrap msg (claim_publish (ord_id x) publish_claim_ttl))
        (\<lambda>r w'. r = (True, False) \<and> w' = ?w) (\<lambda>_ _. False) w" for msg
      using claim_publish_healthy [OF w(1) inv y(1,2) free]
      by (simp add: wrap_def outcome_def tx_map_error_def tx_catch_def)
    have "settling (ord_id x) s0 (store ?w)"
      using s by (simp, intro settling_orders) (auto simp: same_order_def)
    then show ?thesis
      unfolding publish_paid_def using True w(1)
      by (simp, intro outcome_seq [OF claim]) (auto intro: announce_paid_settles coop)
  qed
qed

subsection \<open>The whole webhook\<close>

definition order_settled :: "uuid \<Rightarrow> 'x order_state \<Rightarrow> bool" where
  "order_settled i s \<longleftrightarrow> order_paid i s \<and> payout_completed i s \<and> order_published i s"

lemma settle_order_settles:
  fixes w :: "'x order_state world"
  assumes w: "healthy w" "order_inv (store w)" and coop: "cooperative cfg"
    and x: "settleable (clock w) x (store w)"
  shows "outcome (settle_order cfg pi t x)
    (\<lambda>_ w'. clock w' = clock w \<and> healthy w' \<and> order_inv (store w') \<and> touches (ord_id x) (store w) (store w')
       \<and> order_settled (ord_id x) (store w')) (\<lambda>_ _. False) w"
proof -
  from x obtain y p where y: "y \<in> set (orders (store w))" "ord_id y = ord_id x"
      "claimable publish_claim_ttl (clock w) x y" "ord_seller y = ord_seller x"
    and p: "p \<in> set (payouts (store w))" "pay_order p = ord_id x" "pay_status p \<in> {PayoutPending, PayoutCompleted}"
    and live: "ord_status x \<noteq> StCancelled"
    by (auto simp: settleable_def)
  let ?q = "\<lambda>y. ord_id y = ord_id x \<and> ord_status y = StPending"
  let ?g = "paid_order t pi (clock w)"
  let ?w = "w\<lparr>store := (store w)\<lparr>orders := update_where ?q ?g (orders (store w))\<rparr>\<rparr>"
  have same: "same_order y (?g y)" for y by (simp add: same_order_def paid_order_def)
  have paid: "outcome (mark_paid pi t x) (\<lambda>_ w'. w' = ?w) (\<lambda>_ _. False) w"
    using mark_paid_healthy [OF w(1) y(1,2)] by (simp add: outcome_def)
  have inv: "order_inv (store ?w)" using w(2) same by (simp add: order_inv_update)
  have touch: "touches (ord_id x) (store w) (store ?w)"
    by (simp, rule touches_orders [OF touches_refl]) (auto simp: paid_order_def)
  have marked: "order_paid (ord_id x) (store ?w)"
    by (auto simp: order_paid_def update_where_def paid_order_def)
  have row: "(if ?q y then ?g y else y) \<in> set (orders (store ?w))" using y(1) by (simp add: update_where_def)
  have rowx: "ord_id (if ?q y then ?g y else y) = ord_id x" "ord_seller (if ?q y then ?g y else y) = ord_seller x"
    "claimable publish_claim_ttl (clock w) x (if ?q y then ?g y else y)"
    using y by (simp_all add: paid_order_def claimable_def claim_free_def)
  have due: "payout_due p x (store ?w)"
    using p row rowx unfolding payout_due_def seller_known_def by (simp, blast)
  have found: "outcome (wrap msg (payout_of_order (ord_id x))) (\<lambda>r w'. r = Some p \<and> w' = ?w) (\<lambda>_ _. False) ?w" for msg
    using payout_of_order_healthy [of ?w p] w(1) inv p
    by (simp add: wrap_def outcome_def tx_map_error_def tx_catch_def)
  have transfer: "outcome (transfer_once cfg pi x p)
      (\<lambda>r w'. r \<noteq> None \<and> healthy w' \<and> publishable (clock w) x (store w) (store w')) (\<lambda>_ _. False) ?w"
    by (rule outcome_mono [OF transfer_once_settles [OF _ inv touch marked coop due p(3)]])
      (use w(1) row rowx in \<open>auto simp: publishable_def\<close>)
  have rest: "outcome (tx_bind (commit_coupon_hold cfg pi x) (\<lambda>_.
         tx_bind (commit_points cfg pi x) (\<lambda>x. publish_paid cfg pi x p tr)))
      (\<lambda>_ w'. healthy w' \<and> settling (ord_id x) (store w) (store w') \<and> order_published (ord_id x) (store w')) (\<lambda>_ _. False) w1"
    if w1: "healthy w1" "publishable (clock w) x (store w) (store w1)" "clock w1 = clock w" for tr and w1 :: "'x order_state world"
  proof -
    have points: "outcome (tx_bind (commit_points cfg pi x) (\<lambda>x. publish_paid cfg pi x p tr))
        (\<lambda>_ w'. healthy w' \<and> settling (ord_id x) (store w) (store w') \<and> order_published (ord_id x) (store w')) (\<lambda>_ _. False) w2"
      if w2: "healthy w2" "publishable (clock w) x (store w) (store w2)" "clock w2 = clock w" for w2 :: "'x order_state world"
    proof (rule outcome_seq [OF outcome_steady [OF commits_steady(2) commit_points_settles [OF w2(1,2) coop]]])
      fix x' :: order_row and w3 :: "'x order_state world"
      assume w3: "clock w3 = clock w2 \<and> ord_id x' = ord_id x \<and> ord_published_at x' = ord_published_at x \<and>
        healthy w3 \<and> publishable (clock w) x (store w) (store w3)"
      then have "publishable (clock w3) x' (store w) (store w3)"
        using w2(3) by (simp add: publishable_def claimable_def)
      from publish_paid_settles [OF _ this coop] w3
      show "outcome (publish_paid cfg pi x' p tr)
        (\<lambda>_ w'. healthy w' \<and> settling (ord_id x) (store w) (store w') \<and> order_published (ord_id x) (store w')) (\<lambda>_ _. False) w3"
        by simp
    qed
    show ?thesis
      by (rule outcome_seq [OF outcome_steady [OF commits_steady(1) commit_coupon_settles [OF w1(1,2) coop]]])
        (use w1(3) points in auto)
  qed
  have settled: "outcome (settle_paid cfg pi x p)
      (\<lambda>_ w'. healthy w' \<and> settling (ord_id x) (store w) (store w') \<and> order_published (ord_id x) (store w')) (\<lambda>_ _. False) ?w"
    unfolding settle_paid_def
    by (rule outcome_seq [OF outcome_steady [OF transfer_once_steady transfer]]) (auto intro: rest)
  have steady: "steady (settle_paid cfg pi x p)"
    unfolding settle_paid_def by (intro keeps_intros transfer_once_steady commits_steady publish_paid_steady)
  show ?thesis
    unfolding settle_order_def if_not_P [OF live]
    by (rule outcome_seq [OF paid], hypsubst, rule outcome_seq [OF found], elim conjE, hypsubst,
        simp only: option.case if_P [OF p(3)], rule outcome_mono [OF outcome_steady [OF steady settled]])
      (auto simp: order_settled_def settling_def)
qed

text \<open>The orders of the intent as they are read, one row per id.\<close>

definition orders_of_intent :: "string \<Rightarrow> 'x order_state \<Rightarrow> order_row list" where
  "orders_of_intent pi s =
     map read_order (sort_key ord_created_at (filter (\<lambda>x. ord_intent x = Some pi) (orders s)))"

lemma settle_all:
  fixes w :: "'x order_state world"
  assumes "healthy w" "order_inv (store w)" and coop: "cooperative cfg" and "distinct (map ord_id xs)"
    and "\<forall>x \<in> set xs. settleable (clock w) x (store w)" and "\<forall>i \<in> A - ord_id ` set xs. order_settled i (store w)"
  shows "outcome (tx_for xs (\<lambda>x _. settle_order cfg pi t x) ())
    (\<lambda>_ w'. healthy w' \<and> (\<forall>i \<in> A. order_settled i (store w'))) (\<lambda>_ _. False) w"
  using assms
proof (induction xs arbitrary: w)
  case Nil
  then show ?case by (auto intro: outcome_returnI)
next
  case (Cons x xs)
  from Cons.prems have x: "settleable (clock w) x (store w)" by simp
  show ?case
    unfolding tx_for.simps
  proof (rule outcome_seq [OF settle_order_settles [OF Cons.prems(1,2) coop x]])
    fix u and w1 :: "'x order_state world"
    assume w1: "clock w1 = clock w \<and> healthy w1 \<and> order_inv (store w1) \<and> touches (ord_id x) (store w) (store w1)
       \<and> order_settled (ord_id x) (store w1)"
    then have touch: "touches (ord_id x) (store w) (store w1)" by blast
    have "settleable (clock w1) x' (store w1)" if "x' \<in> set xs" for x'
    proof -
      have "ord_id x' \<noteq> ord_id x" using that Cons.prems(4) by (auto simp: image_iff)
      from settleable_other [OF touch this, of "clock w"] that Cons.prems(5) w1 show ?thesis by simp
    qed
    moreover have "order_settled i (store w1)" if "i \<in> A - ord_id ` set xs" for i
    proof (cases "i = ord_id x")
      case True
      then show ?thesis using w1 by simp
    next
      case False
      then show ?thesis
        using that Cons.prems(6) touches_other [OF touch False] by (simp add: order_settled_def)
    qed
    ultimately show "outcome (tx_for xs (\<lambda>x _. settle_order cfg pi t x) u)
        (\<lambda>_ w'. healthy w' \<and> (\<forall>i \<in> A. order_settled i (store w'))) (\<lambda>_ _. False) w1"
      using w1 Cons.prems(4) coop Cons.IH [of w1] by simp
  qed
qed

lemma handle_payment_settles:
  fixes w :: "'x order_state world"
  assumes w: "healthy w" "order_inv (store w)" and coop: "cooperative cfg"
    and some: "\<exists>x \<in> set (orders (store w)). ord_intent x = Some pi"
    and ready: "\<forall>x \<in> set (orders_of_intent pi (store w)). settleable (clock w) x (store w)"
  shows "\<exists>w'. handle_payment_success cfg pi w = (Inr (), w') \<and>
    (\<forall>x \<in> set (orders (store w)). ord_intent x = Some pi \<longrightarrow> order_settled (ord_id x) (store w'))"
proof -
  let ?xs = "orders_of_intent pi (store w)"
  let ?A = "ord_id ` set ?xs"
  have ids: "map ord_id ?xs = map ord_id (sort_key ord_created_at (filter (\<lambda>x. ord_intent x = Some pi) (orders (store w))))"
    by (simp add: orders_of_intent_def)
  have "distinct (map ord_id (orders (store w)))" using w(2) by (simp add: order_inv_def)
  then have "distinct (map ord_id ?xs)" unfolding ids by (simp add: distinct_map inj_on_def)
  then have loop: "outcome (tx_for ?xs (\<lambda>x _. settle_order cfg pi t x) ())
      (\<lambda>_ w'. healthy w' \<and> (\<forall>i \<in> ?A. order_settled i (store w'))) (\<lambda>_ _. False) w" for t
    using w coop ready by (intro settle_all) auto
  have ne: "?xs \<noteq> []"
  proof
    assume "?xs = []"
    then have "set (sort_key ord_created_at (filter (\<lambda>x. ord_intent x = Some pi) (orders (store w)))) = {}"
      by (simp add: orders_of_intent_def)
    with some show False by auto
  qed
  have run: "handle_payment_success cfg pi w = tx_for ?xs (\<lambda>x _. settle_order cfg pi (clock w) x) () w"
    using w(1) ne
    by (simp add: handle_payment_success_def wrap_def orders_by_intent_def query_def run_simps orders_of_intent_def)
  have mem: "ord_id x \<in> ?A" if "x \<in> set (orders (store w))" "ord_intent x = Some pi" for x
    using that by (force simp: orders_of_intent_def image_iff)
  obtain r w' where r: "tx_for ?xs (\<lambda>x _. settle_order cfg pi (clock w) x) () w = (r, w')" by fastforce
  with loop [of "clock w"] have r': "r = Inr ()" and all: "\<forall>i \<in> ?A. order_settled i (store w')"
    by (auto simp: outcome_def split: sum.splits)
  have "\<forall>x \<in> set (orders (store w)). ord_intent x = Some pi \<longrightarrow> order_settled (ord_id x) (store w')"
    using all mem by blast
  with run r r' show ?thesis by simp
qed

end
