(* ===== verification/Order_Properties.thy ===== *)
theory Order_Properties
  imports Order_Settlement Order_Samples Order_Rpc
begin

text \<open>
  The properties of the order service, each with a witness where it has hypotheses, and the places
  where the code does not do what its comments say.
\<close>

subsection \<open>Every reachable state\<close>


lemma sample_order_steps:
  "(order_step sample_order_cfg)\<^sup>*\<^sup>* new_shop approved"
proof -
  have "order_step sample_order_cfg new_shop checked_out"
    unfolding checked_out_def by (rule order_step.checkout)
  moreover have "order_step sample_order_cfg checked_out paid_world"
    unfolding paid_world_def by (rule order_step.payment)
  moreover have "order_step sample_order_cfg paid_world requested"
    unfolding requested_def by (rule order_step.request)
  moreover have "order_step sample_order_cfg requested approved"
    unfolding approved_def by (rule order_step.approve)
  ultimately show ?thesis by (meson rtranclp.rtrancl_into_rtrancl rtranclp.rtrancl_refl)
qed


text \<open>
  C18. Nothing that has happened is undone: over any run, an order keeps its parties, amounts and
  discounts, a payout its order, seller, amount and currency, every line item stays, every Stripe
  call stays, and a cancellation request that has been approved, rejected or failed never changes
  again in any of its fields.
\<close>

theorem order_history:
  assumes "(order_step cfg)\<^sup>*\<^sup>* w w'"
  shows "order_evolves (store w) (store w')"
  using oh.steps_keep [OF assms order_evolves_refl] .

theorem order_history_witness: "order_evolves (store new_shop) (store approved)"
  using order_history [OF sample_order_steps] .

subsection \<open>The payment webhook\<close>






end
