(* ===== verification/Order_Rules.thy ===== *)
theory Order_Rules
  imports Order_Coupon Order_Properties
begin

text \<open>
  More properties of the order service: the checkout, the discounts, the decisions on cancellations,
  and the order service together with the coupon and loyalty services.
\<close>

subsection \<open>Checkout\<close>

text \<open>
  C21. A checkout that succeeds has inserted exactly one order per seller of the cart, in the cart's
  order, each with its seller's lines, a total of subtotal plus shipping less its discounts, and a
  pending payout of what is left after the commission; it has changed nothing else in the tables, and
  has opened exactly one payment intent, over the sum of the orders' totals, which every order carries.
  This holds whatever the database, Stripe and the other services answer on the way.
\<close>

theorem checkout_adds_up:
  assumes "create_checkout cfg inp w = (Inr r, w')"
  shows "checkout_complete inp r (store w) (store w')"
  using wpD [OF wp_create_checkout assms] .

theorem checkout_adds_up_witness:
  "\<exists>r. checkout_complete sample_cart r (store new_shop) (store checked_out)"
proof -
  have "\<exists>r. create_checkout sample_order_cfg sample_cart new_shop = (Inr r, checked_out)"
    unfolding checked_out_def by (rule run_ok) code_simp
  then show ?thesis using checkout_adds_up by blast
qed

text \<open>
  C27. When no product overflows and the discount is within the sum of the subtotals, every share of
  a split discount is between zero and its subtotal, and the shares add up to the discount, short of
  it by at most one unit for every positive subtotal beyond the second.
\<close>

theorem discount_split_bounds:
  assumes "discount_fits d subs" and "0 < d" and "d \<le> sum_list subs" and "\<forall>s \<in> set subs. 0 \<le> s"
  shows "list_all2 (\<lambda>s x. 0 \<le> x \<and> x \<le> s) subs (distribute_discount d subs)
    \<and> sum_list (distribute_discount d subs) \<le> d
    \<and> d - int (length (filter (\<lambda>s. 0 < s) subs) - 2) \<le> sum_list (distribute_discount d subs)"
  using distribute_discount_correct [OF assms(1-3)] assms(4) by blast

theorem discount_split_bounds_witness:
  "list_all2 (\<lambda>s x. 0 \<le> x \<and> x \<le> s) [200, 0, 300, 500] (distribute_discount 99 [200, 0, 300, 500])
    \<and> sum_list (distribute_discount 99 [200, 0, 300, 500]) \<le> 99
    \<and> 99 - int (length (filter (\<lambda>s. 0 < s) [200, 0, 300, 500::int]) - 2) \<le> sum_list (distribute_discount 99 [200, 0, 300, 500])"
  by (rule discount_split_bounds) (simp_all add: discount_fits_def in_i64_def)

text \<open>The cap makes the sum fall short: a comment of the code says that it is exact.\<close>

lemma capped_split_loses_a_unit: "distribute_discount 2 [1, 1, 1] = [0, 0, 1]"
  by code_simp

text \<open>Without the condition on products, a large order gets a negative share.\<close>

lemma overflowing_split: "distribute_discount 4000000000 [3000000000, 1000000000] \<noteq> [3000000000, 1000000000]"
  by code_simp

subsection \<open>Cancellation\<close>

text \<open>
  C22. An approval that reports an error, by a seller or by an administrator, wherever it failed,
  leaves every order, line item, payout and commission rule as it was, and approves no request.
\<close>

theorem failed_approval_keeps_orders:
  assumes "approve_cancellation cfg i seller comment w = (Inl e, w') \<or> admin_force_cancel cfg j admin reason w = (Inl e, w')"
  shows "undecided (store w) (store w')"
  using assms outcomeD(2) [OF approve_error_undecided] outcomeD(2) [OF admin_error_undecided] by blast

text \<open>Stripe declines the refund: the request that the administrator opened is marked failed.\<close>

definition declining_cfg :: "nat order_cfg" where
  "declining_cfg = sample_order_cfg\<lparr>stripe_refund := \<lambda>pi a key n. (Inl ''declined'', n)\<rparr>"

definition declined :: "nat order_state world" where
  "declined = snd (admin_force_cancel declining_cfg (sample_uuid 0) ''admin'' ''fraud'' checked_out)"

theorem failed_approval_keeps_orders_witness:
  "undecided (store checked_out) (store declined) \<and> map cnr_status (cancel_requests (store declined)) = [CrFailed]"
proof
  have "isl (fst (admin_force_cancel declining_cfg (sample_uuid 0) ''admin'' ''fraud'' checked_out))" by code_simp
  then obtain e where "admin_force_cancel declining_cfg (sample_uuid 0) ''admin'' ''fraud'' checked_out = (Inl e, declined)"
    unfolding declined_def by (metis prod.collapse isl_def)
  with failed_approval_keeps_orders show "undecided (store checked_out) (store declined)" by blast
  show "map cnr_status (cancel_requests (store declined)) = [CrFailed]" by code_simp
qed

text \<open>
  C23. A seller and a buyer who are not the parties of an order can neither change its status, nor
  open a cancellation request for it, nor approve, reject or read one: each attempt is answered with
  an error, changes no table and publishes no event.
\<close>

theorem order_parties_kept_apart:
  assumes "stranger seller buyer i (store w)"
    and "\<forall>r \<in> set (cancel_requests (store w)). cnr_id r = j \<longrightarrow> cnr_order r = i"
  shows "refused (update_order_status cfg seller i st) w \<and> refused (request_cancellation cfg i buyer reason) w
    \<and> refused (get_latest_for_order i buyer) w \<and> refused (approve_cancellation cfg j seller comment) w
    \<and> refused (reject_cancellation cfg j seller comment) w \<and> refused (get_request_for_seller seller j) w"
proof -
  have "\<forall>r \<in> set (cancel_requests (store w)). cnr_id r = j \<longrightarrow> stranger seller buyer (cnr_order r) (store w)"
    using assms by auto
  with update_status_refused [OF assms(1)] request_refused [OF assms(1)] decision_refused show ?thesis by blast
qed

theorem order_parties_kept_apart_witness:
  "refused (update_order_status sample_order_cfg ''seller2'' (sample_uuid 0) ''shipped'') checked_out"
proof -
  have "list_all (\<lambda>x. ord_id x = sample_uuid 0 \<longrightarrow> ord_seller x \<noteq> ''seller2'' \<and> ord_buyer x \<noteq> ''nobody'') (orders (store checked_out))"
    "cancel_requests (store checked_out) = []" by code_simp+
  then have "stranger ''seller2'' ''nobody'' (sample_uuid 0) (store checked_out)"
    "\<forall>r \<in> set (cancel_requests (store checked_out)). cnr_id r = '''' \<longrightarrow> cnr_order r = sample_uuid 0"
    by (simp_all add: stranger_def list_all_iff)
  from order_parties_kept_apart [OF this] show ?thesis by blast
qed

text \<open>
  C24. Whatever a cancellation does and however it ends, the coupon and loyalty services give nothing
  back for it: every \<open>order.cancelled\<close> event that it publishes makes the coupon service's subscriber
  and the loyalty service's handler return at once, although the order may carry coupon and point
  discounts.
\<close>

theorem cancellation_gives_back_nothing:
  assumes "approve_cancellation cfg i seller comment w = (r, w') \<or> admin_force_cancel cfg j admin reason w = (r, w')"
  shows "\<exists>es. events w' = events w @ es \<and> list_all (\<lambda>ev. event_type ev = ''order.cancelled'' \<longrightarrow>
      (\<forall>ccfg cw. on_order_event ccfg ''order.cancelled'' (Inr (coupon_cancel_of ev)) cw = (Inr (), cw))
      \<and> (\<forall>lw. handle_order_cancelled (Inr (loyalty_cancel_of ev)) lw = (Inr (), lw))) es"
proof -
  obtain es where es: "events w' = events w @ es" "list_all gives_back_nothing es"
    using assms emitsD [OF approve_emits] emitsD [OF admin_emits] by blast
  then show ?thesis
    by (intro exI [of _ es]) (auto simp: list_all_iff coupon_ignores loyalty_ignores)
qed

text \<open>The order here carries a coupon discount of 20.\<close>

definition coupon_refunded :: "coupon_db world order_state world" where
  "coupon_refunded = snd (admin_force_cancel coupon_shop_cfg (sample_uuid 0) ''admin'' ''fraud'' coupon_checkout)"

theorem cancellation_gives_back_nothing_witness:
  "(\<exists>es. events coupon_refunded = events coupon_checkout @ es
    \<and> list_all (\<lambda>ev. event_type ev = ''order.cancelled'' \<longrightarrow>
      (\<forall>ccfg cw. on_order_event ccfg ''order.cancelled'' (Inr (coupon_cancel_of ev)) cw = (Inr (), cw))
      \<and> (\<forall>lw. handle_order_cancelled (Inr (loyalty_cancel_of ev)) lw = (Inr (), lw))) es)
    \<and> map (\<lambda>x. (order_status_text (ord_status x), ord_coupon_discount x)) (orders (store coupon_refunded))
      = [(''cancelled'', 20), (''pending'', 30)]"
proof
  have "admin_force_cancel coupon_shop_cfg (sample_uuid 0) ''admin'' ''fraud'' coupon_checkout =
      (fst (admin_force_cancel coupon_shop_cfg (sample_uuid 0) ''admin'' ''fraud'' coupon_checkout), coupon_refunded)"
    by (simp add: coupon_refunded_def)
  from cancellation_gives_back_nothing [OF disjI2 [OF this]]
  show "\<exists>es. events coupon_refunded = events coupon_checkout @ es
    \<and> list_all (\<lambda>ev. event_type ev = ''order.cancelled'' \<longrightarrow>
      (\<forall>ccfg cw. on_order_event ccfg ''order.cancelled'' (Inr (coupon_cancel_of ev)) cw = (Inr (), cw))
      \<and> (\<forall>lw. handle_order_cancelled (Inr (loyalty_cancel_of ev)) lw = (Inr (), lw))) es" .
  show "map (\<lambda>x. (order_status_text (ord_status x), ord_coupon_discount x)) (orders (store coupon_refunded))
      = [(''cancelled'', 20), (''pending'', 30)]" by code_simp
qed

subsection \<open>Redelivered payments\<close>

text \<open>
  C25. A delivery of the payment webhook for orders whose payouts are all completed, failed or
  reversed moves no money, whatever fails on the way: no Stripe call is made and no payout changes.
\<close>

theorem redelivery_moves_no_money:
  assumes "\<forall>x \<in> set (orders (store w)). ord_intent x = Some pi \<longrightarrow>
      (\<forall>p \<in> set (payouts (store w)). pay_order p = ord_id x \<longrightarrow> pay_status p \<noteq> PayoutPending)"
  shows "money_fixed (store w) (store (snd (handle_payment_success cfg pi w)))"
  by (rule handle_payment_fixed [OF assms])

text \<open>The transfer of the first order failed, the second one's was made and reversed.\<close>

definition settled_shop :: "nat order_state world" where
  "settled_shop = checked_out\<lparr>store := (store checked_out)\<lparr>payouts :=
     map2 (\<lambda>p st. p\<lparr>pay_status := st\<rparr>) (payouts (store checked_out)) [PayoutFailed, PayoutReversed]\<rparr>\<rparr>"

theorem redelivery_moves_no_money_witness:
  "money_fixed (store settled_shop) (store (snd (handle_payment_success sample_order_cfg sample_pi settled_shop)))
   \<and> length (payouts (store settled_shop)) = 2"
proof
  have "list_all (\<lambda>p. pay_status p \<noteq> PayoutPending) (payouts (store settled_shop))" by code_simp
  then show "money_fixed (store settled_shop) (store (snd (handle_payment_success sample_order_cfg sample_pi settled_shop)))"
    by (intro redelivery_moves_no_money) (simp add: list_all_iff)
  show "length (payouts (store settled_shop)) = 2" by code_simp
qed

subsection \<open>With the coupon service\<close>

text \<open>
  C26. The order service's coupon client over the coupon service's handlers is the coupon service:
  what reserving a coupon grants comes back through the request and the reply as it was granted, and
  a refusal comes back as the order service's error for the same reason. Identifiers are assumed to
  survive their text form.
\<close>

theorem coupon_client_round_trip:
  assumes "\<forall>p \<in> set subs. id_text ccfg (fst p)"
    and "\<forall>r w'. reserve_coupon ccfg cd buyer subs cur w = (Inr r, w') \<longrightarrow>
      id_text ccfg (crv_id r) \<and> id_text ccfg (crv_coupon_id r) \<and> (\<forall>i. crv_seller_id r = Some i \<longrightarrow> id_text ccfg i)"
  shows "coupon_reserve (coupon_service_port ccfg) cd buyer subs cur w =
    (case reserve_coupon ccfg cd buyer subs cur w of
       (Inr r, w') \<Rightarrow> (Inr (grant_of r), w')
     | (Inl e, w') \<Rightarrow> (Inl (Sentinel (cart_error_of e)), w'))"
proof (cases "reserve_coupon ccfg cd buyer subs cur w")
  case (Pair res w')
  show ?thesis
  proof (cases res)
    case (Inl e)
    with client_reserve_refused [OF assms(1)] Pair show ?thesis by simp
  next
    case (Inr r)
    with client_reserve_granted [OF assms(1)] assms(2) Pair show ?thesis by simp
  qed
qed

theorem coupon_client_round_trip_witness:
  "\<exists>r. reserve_coupon sample_coupon_cfg ''save'' ''b'' [(''s'', 2000)] '''' issued_world = (Inr r, held_world)
    \<and> coupon_reserve (coupon_service_port sample_coupon_cfg) ''save'' ''b'' [(''s'', 2000)] '''' issued_world
      = (Inr (grant_of r), held_world)"
proof -
  obtain r where r: "reserve_coupon sample_coupon_cfg ''save'' ''b'' [(''s'', 2000)] '''' issued_world = (Inr r, held_world)"
    using held_run by blast
  have "case fst (reserve_coupon sample_coupon_cfg ''save'' ''b'' [(''s'', 2000)] '''' issued_world) of
      Inr r \<Rightarrow> crv_id r \<noteq> '''' \<and> crv_coupon_id r \<noteq> '''' \<and> crv_seller_id r = None | Inl e \<Rightarrow> False" by code_simp
  with r have ids: "crv_id r \<noteq> ''''" "crv_coupon_id r \<noteq> ''''" "crv_seller_id r = None" by simp_all
  have "coupon_reserve (coupon_service_port sample_coupon_cfg) ''save'' ''b'' [(''s'', 2000)] '''' issued_world =
    (case reserve_coupon sample_coupon_cfg ''save'' ''b'' [(''s'', 2000)] '''' issued_world of
       (Inr r, w') \<Rightarrow> (Inr (grant_of r), w')
     | (Inl e, w') \<Rightarrow> (Inl (Sentinel (cart_error_of e)), w'))"
    by (rule coupon_client_round_trip) (use ids r in \<open>auto simp: id_text_def sample_coupon_cfg_def\<close>)
  with r show ?thesis by simp
qed

end
