(* ===== verification/Auth_Store.thy ===== *)
theory Auth_Store
  imports Database
begin

text \<open>
  Auth service, data and repositories: internal/domain, the tables of infra/db/migrations/auth with
  their constraints, and the statements of internal/adapter/postgres. \<open>VARCHAR\<close> length limits are
  not modelled. A repository method whose context carries the service's transaction joins it
  (\<open>withTx\<close>), and otherwise opens one of its own; the methods that always open their own
  (\<open>database.Tx(ctx, r.pool, \<dots>)\<close>) run on another connection even inside \<open>RunTx\<close>, where they see
  the committed tables and not the transaction's own writes.
\<close>

subsection \<open>Roles\<close>

text \<open>Roles are strings in Go; every other text, the empty one included, is the last constructor.\<close>

datatype seller_role = SellerOwner | SellerAdmin | SellerMember | SellerRoleOther string

datatype platform_role = SuperAdmin | PlatformAdmin | PlatformSupport | PlatformRoleOther string

fun seller_role_text :: "seller_role \<Rightarrow> string" where
  "seller_role_text SellerOwner = ''owner''"
| "seller_role_text SellerAdmin = ''admin''"
| "seller_role_text SellerMember = ''member''"
| "seller_role_text (SellerRoleOther s) = s"

fun platform_role_text :: "platform_role \<Rightarrow> string" where
  "platform_role_text SuperAdmin = ''super_admin''"
| "platform_role_text PlatformAdmin = ''admin''"
| "platform_role_text PlatformSupport = ''support''"
| "platform_role_text (PlatformRoleOther s) = s"

fun seller_rank :: "seller_role \<Rightarrow> nat" where
  "seller_rank SellerOwner = 3"
| "seller_rank SellerAdmin = 2"
| "seller_rank SellerMember = 1"
| "seller_rank (SellerRoleOther s) = 0"

definition seller_at_least :: "seller_role \<Rightarrow> seller_role \<Rightarrow> bool" where
  "seller_at_least r m \<longleftrightarrow> seller_rank m \<le> seller_rank r"

definition seller_role_valid :: "seller_role \<Rightarrow> bool" where
  "seller_role_valid r \<longleftrightarrow> 0 < seller_rank r"

fun platform_rank :: "platform_role \<Rightarrow> nat" where
  "platform_rank SuperAdmin = 3"
| "platform_rank PlatformAdmin = 2"
| "platform_rank PlatformSupport = 1"
| "platform_rank (PlatformRoleOther s) = 0"

definition platform_at_least :: "platform_role \<Rightarrow> platform_role \<Rightarrow> bool" where
  "platform_at_least r m \<longleftrightarrow> platform_rank m \<le> platform_rank r"

definition platform_role_valid :: "platform_role \<Rightarrow> bool" where
  "platform_role_valid r \<longleftrightarrow> 0 < platform_rank r"

subsection \<open>Domain types\<close>

datatype seller_state = SellerPending | SellerApproved | SellerRejected | SellerSuspended

fun seller_state_text :: "seller_state \<Rightarrow> string" where
  "seller_state_text SellerPending = ''pending''"
| "seller_state_text SellerApproved = ''approved''"
| "seller_state_text SellerRejected = ''rejected''"
| "seller_state_text SellerSuspended = ''suspended''"

record seller =
  sel_id :: uuid
  sel_org :: string
  sel_name :: string
  sel_slug :: string
  sel_state :: seller_state
  sel_stripe :: string
  sel_commission :: int
  sel_settings :: "string option"
  sel_created :: instant
  sel_updated :: instant

record seller_user =
  su_id :: uuid
  su_seller :: uuid
  su_user :: string
  su_role :: seller_role
  su_created :: instant

record platform_admin =
  pa_id :: uuid
  pa_user :: string
  pa_role :: platform_role
  pa_created :: instant
  pa_updated :: instant

datatype audit_scope = SellerUserScope | PlatformAdminScope

datatype audit_action = Grant | Revoke | RoleChange | TransferOwnership

fun audit_scope_text :: "audit_scope \<Rightarrow> string" where
  "audit_scope_text SellerUserScope = ''seller_user''"
| "audit_scope_text PlatformAdminScope = ''platform_admin''"

fun audit_action_text :: "audit_action \<Rightarrow> string" where
  "audit_action_text Grant = ''grant''"
| "audit_action_text Revoke = ''revoke''"
| "audit_action_text RoleChange = ''role_change''"
| "audit_action_text TransferOwnership = ''transfer_ownership''"

record audit_entry =
  aud_id :: uuid
  aud_actor :: string
  aud_target :: string
  aud_scope :: audit_scope
  aud_scope_id :: "uuid option"
  aud_action :: audit_action
  aud_before :: "string option"
  aud_after :: "string option"
  aud_created :: instant

record buyer =
  buy_id :: uuid
  buy_sub :: string
  buy_email :: string
  buy_display :: string
  buy_created :: instant
  buy_updated :: instant

subsection \<open>API tokens\<close>

datatype token_scope =
  ProductsRead | ProductsWrite | OrdersRead | OrdersWrite | InventoryRead | InventoryWrite
| ScopeOther string

definition all_token_scopes :: "token_scope list" where
  "all_token_scopes =
     [ProductsRead, ProductsWrite, OrdersRead, OrdersWrite, InventoryRead, InventoryWrite]"

definition token_scope_valid :: "token_scope \<Rightarrow> bool" where
  "token_scope_valid s = (case s of ScopeOther _ \<Rightarrow> False | _ \<Rightarrow> True)"

fun token_scope_text :: "token_scope \<Rightarrow> string" where
  "token_scope_text ProductsRead = ''products:read''"
| "token_scope_text ProductsWrite = ''products:write''"
| "token_scope_text OrdersRead = ''orders:read''"
| "token_scope_text OrdersWrite = ''orders:write''"
| "token_scope_text InventoryRead = ''inventory:read''"
| "token_scope_text InventoryWrite = ''inventory:write''"
| "token_scope_text (ScopeOther s) = s"

definition scopes_for_seller_role :: "seller_role \<Rightarrow> token_scope list" where
  "scopes_for_seller_role r = (if r = SellerOwner then all_token_scopes else [])"

record api_token =
  tok_id :: uuid
  tok_seller :: uuid
  tok_name :: string
  tok_prefix :: string
  tok_lookup :: string
  tok_hash :: "int list"
  tok_scopes :: "token_scope list"
  tok_rps :: "int option"
  tok_burst :: "int option"
  tok_issuer :: string
  tok_expires :: "instant option"
  tok_revoked :: "instant option"
  tok_revoked_by :: string
  tok_last_used :: "instant option"
  tok_created :: instant
  tok_updated :: instant

definition token_expired :: "api_token \<Rightarrow> instant \<Rightarrow> bool" where
  "token_expired k t = (case tok_expires k of None \<Rightarrow> False | Some e \<Rightarrow> \<not> t < e)"

definition token_active :: "api_token \<Rightarrow> instant \<Rightarrow> bool" where
  "token_active k t =
     (if tok_revoked k \<noteq> None then False else if token_expired k t then False else True)"

definition token_status :: "api_token \<Rightarrow> instant \<Rightarrow> string" where
  "token_status k t =
     (if tok_revoked k \<noteq> None then ''revoked''
      else if token_expired k t then ''expired'' else ''active'')"

text \<open>
  The sentinel errors of the domain package; \<open>ErrRowMissing\<close> stands for the unnamed "seller_user
  not found", "platform_admin not found" and "seller not found" of the updates that hit no row,
  \<open>ErrMissingField\<close> for the unnamed "auth0_sub is required" and "email is required", \<open>ErrRandom\<close>
  for a failure of \<open>crypto/rand\<close>.
\<close>

datatype auth_err =
  ErrLastOwner | ErrLastSuperAdmin | ErrSelfRoleChange | ErrInsufficientRole
| ErrTargetNotFound | ErrInvalidRole | ErrOwnerRoleByRoleChange
| ErrAPITokenNotFound | ErrAPITokenRevoked | ErrAPITokenExpired | ErrAPITokenInvalidFormat
| ErrAPITokenScopeNotGranted | ErrRowMissing | ErrMissingField | ErrRandom

record auth_db =
  sellers :: "seller list"
  seller_users :: "seller_user list"
  platform_admins :: "platform_admin list"
  audit_log :: "audit_entry list"
  api_tokens :: "api_token list"
  buyers :: "buyer list"

type_synonym 'a atx = "(auth_db, auth_err, 'a) tx"

definition empty_auth_db :: auth_db where
  "empty_auth_db = \<lparr>sellers = [], seller_users = [], platform_admins = [], audit_log = [],
     api_tokens = [], buyers = []\<rparr>"

subsection \<open>Transactions\<close>

text \<open>
  \<open>run_tx_pool body\<close>: \<open>RunTx\<close> whose body also gets the committed tables, for the repository
  methods that read them through the pool; \<open>on_pool c m\<close> runs such a method.
\<close>

definition run_tx_pool :: "(auth_db \<Rightarrow> 'a atx) \<Rightarrow> 'a atx" where
  "run_tx_pool body w = run_tx (body (store w)) w"

definition on_pool :: "auth_db \<Rightarrow> 'a atx \<Rightarrow> 'a atx" where
  "on_pool committed m w =
     (case run_tx m (w\<lparr>store := committed\<rparr>) of (r, w') \<Rightarrow> (r, w'\<lparr>store := store w\<rparr>))"

subsection \<open>SellerRepository\<close>

definition insert_seller_stmt :: "seller \<Rightarrow> instant \<Rightarrow> auth_db \<Rightarrow> pg_error + (seller \<times> auth_db)" where
  "insert_seller_stmt x t s =
     (let x' = x\<lparr>sel_settings := Some (case sel_settings x of None \<Rightarrow> ''{}'' | Some j \<Rightarrow> j)\<rparr>;
          row = x'\<lparr>sel_created := t, sel_updated := t\<rparr> in
      if \<not> in_i32 (sel_commission x) then Inl NumericOutOfRange
      else if sel_id x \<in> set (map sel_id (sellers s)) then Inl (UniqueViolation ''sellers_pkey'')
      else if sel_slug x \<in> set (map sel_slug (sellers s)) then
        Inl (UniqueViolation ''sellers_slug_key'')
      else Inr (x\<lparr>sel_created := t, sel_updated := t\<rparr>, s\<lparr>sellers := sellers s @ [row]\<rparr>))"

definition insert_seller :: "seller \<Rightarrow> seller atx" where
  "insert_seller x =
     tx_bind (if sel_id x = nil_uuid then new_uuid else tx_return (sel_id x)) (\<lambda>i.
     sql (insert_seller_stmt (x\<lparr>sel_id := i\<rparr>)))"

definition seller_by_id :: "uuid \<Rightarrow> seller option atx" where
  "seller_by_id i = run_tx (query (\<lambda>t s. find (\<lambda>x. sel_id x = i) (sellers s)))"

definition seller_by_slug :: "string \<Rightarrow> seller option atx" where
  "seller_by_slug g = run_tx (query (\<lambda>t s. find (\<lambda>x. sel_slug x = g) (sellers s)))"

definition list_seller_rows :: "int \<Rightarrow> int \<Rightarrow> (seller list \<times> nat) atx" where
  "list_seller_rows lim off =
     run_tx (tx_bind (query (\<lambda>t s. length (sellers s))) (\<lambda>n.
     tx_bind (query (\<lambda>t s. take (nat lim) (drop (nat off) (sort_key (\<lambda>x. - sel_created x) (sellers s))))) (\<lambda>rows.
     tx_return (rows, n))))"

definition update_sellers ::
  "(seller \<Rightarrow> bool) \<Rightarrow> (instant \<Rightarrow> seller \<Rightarrow> seller) \<Rightarrow> nat atx" where
  "update_sellers q g =
     sql (\<lambda>t s. Inr (length (filter q (sellers s)), s\<lparr>sellers := update_where q (g t) (sellers s)\<rparr>))"

definition update_seller_status :: "uuid \<Rightarrow> seller_state \<Rightarrow> unit atx" where
  "update_seller_status i st =
     run_tx (tx_bind (update_sellers (\<lambda>x. sel_id x = i) (\<lambda>t x. x\<lparr>sel_state := st, sel_updated := t\<rparr>)) (\<lambda>n.
     if n = 0 then tx_throw (Sentinel ErrRowMissing) else tx_return ()))"

definition update_seller_row :: "seller \<Rightarrow> unit atx" where
  "update_seller_row x =
     run_tx (tx_bind (sql (\<lambda>t s.
       let hit = (\<lambda>y. sel_id y = sel_id x);
           g = (\<lambda>y. y\<lparr>sel_name := sel_name x, sel_slug := sel_slug x, sel_org := sel_org x,
                     sel_stripe := sel_stripe x, sel_commission := sel_commission x,
                     sel_settings := sel_settings x, sel_updated := t\<rparr>) in
       if \<not> in_i32 (sel_commission x) then Inl NumericOutOfRange
       else if list_ex hit (sellers s) \<and> list_ex (\<lambda>y. sel_id y \<noteq> sel_id x \<and> sel_slug y = sel_slug x) (sellers s)
         then Inl (UniqueViolation ''sellers_slug_key'')
       else Inr (length (filter hit (sellers s)), s\<lparr>sellers := update_where hit g (sellers s)\<rparr>))) (\<lambda>n.
     if n = 0 then tx_throw (Sentinel ErrRowMissing) else tx_return ()))"

text \<open>No transaction: a single statement on the pool.\<close>

definition sellers_by_ids :: "uuid list \<Rightarrow> seller list atx" where
  "sellers_by_ids is =
     (if is = [] then tx_return []
      else query (\<lambda>t s. filter (\<lambda>x. sel_id x \<in> set is) (sellers s)))"

subsection \<open>SellerUserRepository\<close>

definition insert_seller_user_stmt ::
  "seller_user \<Rightarrow> instant \<Rightarrow> auth_db \<Rightarrow> pg_error + (seller_user \<times> auth_db)" where
  "insert_seller_user_stmt u t s =
     (let u' = u\<lparr>su_created := t\<rparr> in
      if \<not> seller_role_valid (su_role u) then Inl (CheckViolation ''seller_users_role_check'')
      else if su_id u \<in> set (map su_id (seller_users s)) then
        Inl (UniqueViolation ''seller_users_pkey'')
      else if su_user u \<in> set (map su_user (seller_users s)) then
        Inl (UniqueViolation ''seller_users_auth0_user_id_key'')
      else if su_seller u \<notin> set (map sel_id (sellers s)) then
        Inl (ForeignKeyViolation ''seller_users_seller_id_fkey'')
      else Inr (u', s\<lparr>seller_users := seller_users s @ [u']\<rparr>))"

text \<open>Every caller passes a user without an id, for which the repository makes one.\<close>

definition insert_seller_user :: "uuid \<Rightarrow> string \<Rightarrow> seller_role \<Rightarrow> seller_user atx" where
  "insert_seller_user seller u r =
     tx_bind new_uuid (\<lambda>i. sql (insert_seller_user_stmt
       \<lparr>su_id = i, su_seller = seller, su_user = u, su_role = r, su_created = 0\<rparr>))"

definition seller_user_by_id :: "uuid \<Rightarrow> seller_user option atx" where
  "seller_user_by_id i = query (\<lambda>t s. find (\<lambda>u. su_id u = i) (seller_users s))"

definition seller_user_by_auth0 :: "uuid \<Rightarrow> string \<Rightarrow> seller_user option atx" where
  "seller_user_by_auth0 seller a =
     query (\<lambda>t s. find (\<lambda>u. su_seller u = seller \<and> su_user u = a) (seller_users s))"

definition list_by_seller :: "uuid \<Rightarrow> seller_user list atx" where
  "list_by_seller seller =
     run_tx (query (\<lambda>t s. sort_key su_created (filter (\<lambda>u. su_seller u = seller) (seller_users s))))"

definition update_seller_role_stmt ::
  "uuid \<Rightarrow> seller_role \<Rightarrow> instant \<Rightarrow> auth_db \<Rightarrow> pg_error + (nat \<times> auth_db)" where
  "update_seller_role_stmt i r t s =
     (let hits = filter (\<lambda>u. su_id u = i) (seller_users s) in
      if hits \<noteq> [] \<and> \<not> seller_role_valid r then Inl (CheckViolation ''seller_users_role_check'')
      else Inr (length hits,
        s\<lparr>seller_users := update_where (\<lambda>u. su_id u = i) (\<lambda>u. u\<lparr>su_role := r\<rparr>) (seller_users s)\<rparr>))"

definition update_seller_user_row :: "uuid \<Rightarrow> seller_role \<Rightarrow> unit atx" where
  "update_seller_user_row i r =
     tx_bind (sql (update_seller_role_stmt i r)) (\<lambda>n.
     if n = 0 then tx_throw (Sentinel ErrRowMissing) else tx_return ())"

definition delete_seller_user :: "uuid \<Rightarrow> unit atx" where
  "delete_seller_user i =
     tx_bind (sql (\<lambda>t s. Inr (length (filter (\<lambda>u. su_id u = i) (seller_users s)),
                s\<lparr>seller_users := filter (\<lambda>u. su_id u \<noteq> i) (seller_users s)\<rparr>))) (\<lambda>n.
     if n = 0 then tx_throw (Sentinel ErrRowMissing) else tx_return ())"

definition count_seller_role :: "uuid \<Rightarrow> seller_role \<Rightarrow> nat atx" where
  "count_seller_role seller r =
     query (\<lambda>t s. length (filter (\<lambda>u. su_seller u = seller \<and> su_role u = r) (seller_users s)))"

text \<open>\<open>CheckRole\<close>: \<open>None\<close> is the empty role of a user who is not a member.\<close>

definition check_seller_role :: "uuid \<Rightarrow> string \<Rightarrow> seller_role option atx" where
  "check_seller_role seller a =
     query (\<lambda>t s. map_option su_role
       (find (\<lambda>u. su_seller u = seller \<and> su_user u = a) (seller_users s)))"

subsection \<open>PlatformAdminRepository\<close>

definition insert_admin_stmt ::
  "platform_admin \<Rightarrow> instant \<Rightarrow> auth_db \<Rightarrow> pg_error + (platform_admin \<times> auth_db)" where
  "insert_admin_stmt p t s =
     (let p' = p\<lparr>pa_created := t, pa_updated := t\<rparr> in
      if \<not> platform_role_valid (pa_role p) then Inl (CheckViolation ''platform_admins_role_check'')
      else if pa_id p \<in> set (map pa_id (platform_admins s)) then
        Inl (UniqueViolation ''platform_admins_pkey'')
      else if pa_user p \<in> set (map pa_user (platform_admins s)) then
        Inl (UniqueViolation ''platform_admins_auth0_user_id_key'')
      else Inr (p', s\<lparr>platform_admins := platform_admins s @ [p']\<rparr>))"

definition insert_admin :: "string \<Rightarrow> platform_role \<Rightarrow> platform_admin atx" where
  "insert_admin a r =
     tx_bind new_uuid (\<lambda>i. sql (insert_admin_stmt
       \<lparr>pa_id = i, pa_user = a, pa_role = r, pa_created = 0, pa_updated = 0\<rparr>))"

definition admin_by_id :: "uuid \<Rightarrow> platform_admin option atx" where
  "admin_by_id i = query (\<lambda>t s. find (\<lambda>p. pa_id p = i) (platform_admins s))"

definition admin_by_auth0 :: "string \<Rightarrow> platform_admin option atx" where
  "admin_by_auth0 a = query (\<lambda>t s. find (\<lambda>p. pa_user p = a) (platform_admins s))"

definition list_admin_rows :: "platform_admin list atx" where
  "list_admin_rows = run_tx (query (\<lambda>t s. sort_key pa_created (platform_admins s)))"

definition update_admin_role_stmt ::
  "uuid \<Rightarrow> platform_role \<Rightarrow> instant \<Rightarrow> auth_db \<Rightarrow> pg_error + (nat \<times> auth_db)" where
  "update_admin_role_stmt i r t s =
     (let hits = filter (\<lambda>p. pa_id p = i) (platform_admins s) in
      if hits \<noteq> [] \<and> \<not> platform_role_valid r then
        Inl (CheckViolation ''platform_admins_role_check'')
      else Inr (length hits, s\<lparr>platform_admins :=
        update_where (\<lambda>p. pa_id p = i) (\<lambda>p. p\<lparr>pa_role := r, pa_updated := t\<rparr>) (platform_admins s)\<rparr>))"

definition update_admin_row :: "uuid \<Rightarrow> platform_role \<Rightarrow> unit atx" where
  "update_admin_row i r =
     tx_bind (sql (update_admin_role_stmt i r)) (\<lambda>n.
     if n = 0 then tx_throw (Sentinel ErrRowMissing) else tx_return ())"

definition delete_admin :: "uuid \<Rightarrow> unit atx" where
  "delete_admin i =
     tx_bind (sql (\<lambda>t s. Inr (length (filter (\<lambda>p. pa_id p = i) (platform_admins s)),
                s\<lparr>platform_admins := filter (\<lambda>p. pa_id p \<noteq> i) (platform_admins s)\<rparr>))) (\<lambda>n.
     if n = 0 then tx_throw (Sentinel ErrRowMissing) else tx_return ())"

definition count_admin_role :: "platform_role \<Rightarrow> nat atx" where
  "count_admin_role r =
     query (\<lambda>t s. length (filter (\<lambda>p. pa_role p = r) (platform_admins s)))"

definition check_admin_role :: "string \<Rightarrow> platform_role option atx" where
  "check_admin_role a =
     query (\<lambda>t s. map_option pa_role (find (\<lambda>p. pa_user p = a) (platform_admins s)))"

subsection \<open>RBACAuditRepository\<close>

text \<open>\<open>NULLIF(\<dots>, '')\<close>; the callers pass \<open>string(role)\<close>, or nothing.\<close>

definition null_if_empty :: "string \<Rightarrow> string option" where
  "null_if_empty s = (if s = '''' then None else Some s)"

definition append_audit ::
  "string \<Rightarrow> string \<Rightarrow> audit_scope \<Rightarrow> uuid option \<Rightarrow> audit_action \<Rightarrow> string \<Rightarrow> string \<Rightarrow> unit atx" where
  "append_audit actor target sc sid act before after =
     tx_bind new_uuid (\<lambda>i. sql (\<lambda>t s.
       if i \<in> set (map aud_id (audit_log s)) then Inl (UniqueViolation ''rbac_audit_log_pkey'')
       else Inr ((), s\<lparr>audit_log := audit_log s @
         [\<lparr>aud_id = i, aud_actor = actor, aud_target = target, aud_scope = sc, aud_scope_id = sid,
           aud_action = act, aud_before = null_if_empty before, aud_after = null_if_empty after,
           aud_created = t\<rparr>]\<rparr>)))"

definition list_audit_rows :: "int \<Rightarrow> int \<Rightarrow> (audit_entry list \<times> nat) atx" where
  "list_audit_rows lim off =
     run_tx (tx_bind (query (\<lambda>t s. length (audit_log s))) (\<lambda>n.
     tx_bind (query (\<lambda>t s. take (nat lim) (drop (nat off) (sort_key (\<lambda>e. - aud_created e) (audit_log s))))) (\<lambda>rows.
     tx_return (rows, n))))"

subsection \<open>APITokenRepository\<close>

definition insert_token_stmt :: "api_token \<Rightarrow> instant \<Rightarrow> auth_db \<Rightarrow> pg_error + (api_token \<times> auth_db)" where
  "insert_token_stmt k t s =
     (let k' = k\<lparr>tok_created := t, tok_updated := t\<rparr> in
      if list_ex (\<lambda>x. case x of None \<Rightarrow> False | Some n \<Rightarrow> \<not> in_i32 n) [tok_rps k, tok_burst k] then
        Inl NumericOutOfRange
      else if tok_scopes k = [] then Inl (CheckViolation ''seller_api_tokens_scopes_check'')
      else if \<not> list_all token_scope_valid (tok_scopes k) then
        Inl (CheckViolation ''seller_api_tokens_scopes_valid'')
      else if tok_id k \<in> set (map tok_id (api_tokens s)) then
        Inl (UniqueViolation ''seller_api_tokens_pkey'')
      else if (tok_prefix k, tok_lookup k) \<in> set (map (\<lambda>x. (tok_prefix x, tok_lookup x)) (api_tokens s)) then
        Inl (UniqueViolation ''idx_seller_api_tokens_lookup'')
      else if tok_seller k \<notin> set (map sel_id (sellers s)) then
        Inl (ForeignKeyViolation ''seller_api_tokens_seller_id_fkey'')
      else Inr (k', s\<lparr>api_tokens := api_tokens s @ [k']\<rparr>))"

definition insert_token :: "api_token \<Rightarrow> api_token atx" where
  "insert_token k = tx_bind new_uuid (\<lambda>i. sql (insert_token_stmt (k\<lparr>tok_id := i\<rparr>)))"

definition token_by_id :: "uuid \<Rightarrow> api_token option atx" where
  "token_by_id i = run_tx (query (\<lambda>t s. find (\<lambda>k. tok_id k = i) (api_tokens s)))"

definition tokens_by_seller :: "uuid \<Rightarrow> int \<Rightarrow> int \<Rightarrow> (api_token list \<times> nat) atx" where
  "tokens_by_seller seller lim off =
     (let lim = (if lim \<le> 0 then 20 else lim); off = (if off < 0 then 0 else off) in
      run_tx (tx_bind (query (\<lambda>t s. length (filter (\<lambda>k. tok_seller k = seller) (api_tokens s)))) (\<lambda>n.
      tx_bind (query (\<lambda>t s. take (nat lim) (drop (nat off)
        (sort_key (\<lambda>k. - tok_created k) (filter (\<lambda>k. tok_seller k = seller) (api_tokens s)))))) (\<lambda>rows.
      tx_return (rows, n)))))"

definition revoke_token :: "uuid \<Rightarrow> string \<Rightarrow> unit atx" where
  "revoke_token i actor =
     tx_bind (sql (\<lambda>t s. let hit = (\<lambda>k. tok_id k = i \<and> tok_revoked k = None) in
       Inr (length (filter hit (api_tokens s)),
            s\<lparr>api_tokens := update_where hit
               (\<lambda>k. k\<lparr>tok_revoked := Some t, tok_revoked_by := actor, tok_updated := t\<rparr>) (api_tokens s)\<rparr>))) (\<lambda>n.
     if n = 0 then
       tx_bind (query (\<lambda>t s. list_ex (\<lambda>k. tok_id k = i) (api_tokens s))) (\<lambda>found.
       if found then tx_return () else tx_throw (Sentinel ErrAPITokenNotFound))
     else tx_return ())"

text \<open>Single statements on the pool.\<close>

definition token_by_lookup :: "string \<Rightarrow> string \<Rightarrow> api_token option atx" where
  "token_by_lookup p l = query (\<lambda>t s. find (\<lambda>k. tok_prefix k = p \<and> tok_lookup k = l) (api_tokens s))"

definition touch_last_used :: "uuid \<Rightarrow> unit atx" where
  "touch_last_used i =
     sql (\<lambda>t s. Inr ((), s\<lparr>api_tokens :=
       update_where (\<lambda>k. tok_id k = i) (\<lambda>k. k\<lparr>tok_last_used := Some t\<rparr>) (api_tokens s)\<rparr>))"

subsection \<open>BuyerRepository\<close>

definition upsert_buyer_stmt :: "buyer \<Rightarrow> instant \<Rightarrow> auth_db \<Rightarrow> pg_error + (buyer \<times> auth_db)" where
  "upsert_buyer_stmt b t s =
     (let hit = (\<lambda>x. buy_sub x = buy_sub b);
          refresh = (\<lambda>x. x\<lparr>buy_email := buy_email b, buy_display := buy_display b, buy_updated := t\<rparr>) in
      case find hit (buyers s) of
        Some x \<Rightarrow> Inr (refresh x, s\<lparr>buyers := update_where hit refresh (buyers s)\<rparr>)
      | None \<Rightarrow>
          if buy_id b \<in> set (map buy_id (buyers s)) then Inl (UniqueViolation ''buyers_pkey'')
          else let row = b\<lparr>buy_created := t, buy_updated := t\<rparr>
               in Inr (row, s\<lparr>buyers := buyers s @ [row]\<rparr>))"

definition upsert_buyer_row :: "string \<Rightarrow> string \<Rightarrow> string \<Rightarrow> buyer atx" where
  "upsert_buyer_row sub email display =
     tx_bind new_uuid (\<lambda>i. run_tx (sql (upsert_buyer_stmt
       \<lparr>buy_id = i, buy_sub = sub, buy_email = email, buy_display = display,
        buy_created = 0, buy_updated = 0\<rparr>)))"

end
