(* ===== verification/Sha256.thy ===== *)
theory Sha256
  imports Prelude
begin

text \<open>
  SHA-256 as FIPS 180-4 defines it and Go's \<open>crypto/sha256.Sum256\<close> computes it, on texts of
  bytes, with the constant-time comparison of \<open>crypto/subtle\<close>. The auth service stores this hash of
  an access token's secret (services/auth/internal/app/credential.go).
\<close>

unbundle bit_operations_syntax

text \<open>A \<open>uint32\<close> as an \<open>int\<close> between 0 and \<open>2^32 - 1\<close>; additions wrap around.\<close>

type_synonym w32 = int

definition add32 :: "w32 \<Rightarrow> w32 \<Rightarrow> w32" where
  "add32 a b = take_bit 32 (a + b)"

definition round_constants :: "w32 list" where
  "round_constants =
    [1116352408, 1899447441, 3049323471, 3921009573, 961987163, 1508970993, 2453635748, 2870763221,
     3624381080, 310598401, 607225278, 1426881987, 1925078388, 2162078206, 2614888103, 3248222580,
     3835390401, 4022224774, 264347078, 604807628, 770255983, 1249150122, 1555081692, 1996064986,
     2554220882, 2821834349, 2952996808, 3210313671, 3336571891, 3584528711, 113926993, 338241895,
     666307205, 773529912, 1294757372, 1396182291, 1695183700, 1986661051, 2177026350, 2456956037,
     2730485921, 2820302411, 3259730800, 3345764771, 3516065817, 3600352804, 4094571909, 275423344,
     430227734, 506948616, 659060556, 883997877, 958139571, 1322822218, 1537002063, 1747873779,
     1955562222, 2024104815, 2227730452, 2361852424, 2428436474, 2756734187, 3204031479, 3329325298]"

definition initial_hash :: "w32 list" where
  "initial_hash =
    [1779033703, 3144134277, 1013904242, 2773480762, 1359893119, 2600822924, 528734635, 1541459225]"

definition rotr :: "nat \<Rightarrow> w32 \<Rightarrow> w32" where
  "rotr n x = drop_bit n x + push_bit (32 - n) (take_bit n x)"

text \<open>One step of the message schedule: the window holds the last sixteen words, oldest first.\<close>

definition schedule_word :: "w32 list \<Rightarrow> w32" where
  "schedule_word ws =
     (let w15 = ws ! 1; w2 = ws ! 14;
          s0 = rotr 7 w15 XOR rotr 18 w15 XOR drop_bit 3 w15;
          s1 = rotr 17 w2 XOR rotr 19 w2 XOR drop_bit 10 w2
      in add32 (add32 (add32 (ws ! 0) s0) (ws ! 9)) s1)"

definition compress_round :: "w32 \<Rightarrow> w32 \<Rightarrow> w32 list \<Rightarrow> w32 list" where
  "compress_round k w v =
     (case v of
        [a, b, c, d, e, f, g, h] \<Rightarrow>
          let s1 = rotr 6 e XOR rotr 11 e XOR rotr 25 e;
              ch = (e AND f) XOR (NOT e AND g);
              t1 = add32 (add32 (add32 (add32 h s1) ch) k) w;
              s0 = rotr 2 a XOR rotr 13 a XOR rotr 22 a;
              maj = (a AND b) XOR (a AND c) XOR (b AND c)
          in [add32 (add32 t1 s0) maj, a, b, c, add32 d t1, e, f, g]
      | _ \<Rightarrow> v)"

fun compress_rounds :: "w32 list \<Rightarrow> w32 list \<Rightarrow> w32 list \<Rightarrow> w32 list" where
  "compress_rounds [] ws v = v"
| "compress_rounds (k # ks) ws v =
     compress_rounds ks (tl ws @ [schedule_word ws]) (compress_round k (hd ws) v)"

definition compress :: "w32 list \<Rightarrow> w32 list \<Rightarrow> w32 list" where
  "compress h block = map2 add32 h (compress_rounds round_constants block h)"

fun words_of_bytes :: "int list \<Rightarrow> w32 list" where
  "words_of_bytes (a # b # c # d # bs) =
     (a * 2 ^ 24 + b * 2 ^ 16 + c * 2 ^ 8 + d) # words_of_bytes bs"
| "words_of_bytes _ = []"

definition bytes_of_word :: "w32 \<Rightarrow> int list" where
  "bytes_of_word w = [w div 2 ^ 24, w div 2 ^ 16 mod 256, w div 2 ^ 8 mod 256, w mod 256]"

definition length_bytes :: "nat \<Rightarrow> int list" where
  "length_bytes n = map (\<lambda>i. (8 * int n) div 256 ^ i mod 256) [7, 6, 5, 4, 3, 2, 1, 0]"

definition sha_pad :: "int list \<Rightarrow> int list" where
  "sha_pad bs = bs @ [128] @ replicate ((119 - length bs mod 64) mod 64) 0 @ length_bytes (length bs)"

fun sha_blocks :: "nat \<Rightarrow> w32 list \<Rightarrow> w32 list \<Rightarrow> w32 list" where
  "sha_blocks 0 ws h = h"
| "sha_blocks (Suc n) ws h = sha_blocks n (drop 16 ws) (compress h (take 16 ws))"

definition sha256_bytes :: "int list \<Rightarrow> int list" where
  "sha256_bytes bs =
     (let ws = words_of_bytes (sha_pad bs)
      in concat (map bytes_of_word (sha_blocks (length ws div 16) ws initial_hash)))"

definition sha256 :: "string \<Rightarrow> int list" where
  "sha256 s = sha256_bytes (map of_char s)"

text \<open>\<open>subtle.ConstantTimeCompare\<close> is 1 just when the two slices are equal.\<close>

definition constant_time_equal :: "int list \<Rightarrow> int list \<Rightarrow> bool" where
  "constant_time_equal a b \<longleftrightarrow> a = b"

lemma sha256_abc:
  "sha256 ''abc'' =
    [0xba, 0x78, 0x16, 0xbf, 0x8f, 0x01, 0xcf, 0xea, 0x41, 0x41, 0x40, 0xde, 0x5d, 0xae, 0x22, 0x23,
     0xb0, 0x03, 0x61, 0xa3, 0x96, 0x17, 0x7a, 0x9c, 0xb4, 0x10, 0xff, 0x61, 0xf2, 0x00, 0x15, 0xad]"
  by code_simp

end
