(* ===== verification/Request_Context.thy ===== *)
theory Request_Context
  imports Transport
begin

text \<open>
  The identity a request carries (pkg/tenant, pkg/middleware/internal_context.go) and the idioms the
  use cases of several services share: wrapping an error as internal, a single statement on the pool,
  a publisher that may be absent, the fields of a protobuf payload (protojson leaves out zero values).
\<close>

record caller_ctx =
  idn_seller :: "uuid option"
  idn_user :: string
  idn_roles :: "string list"

definition identity_has_role :: "caller_ctx option \<Rightarrow> string \<Rightarrow> bool" where
  "identity_has_role ctx r = (case ctx of None \<Rightarrow> False | Some i \<Rightarrow> r \<in> set (idn_roles i))"

text \<open>\<open>strings.Split(s, ",")\<close>.\<close>

fun split_on :: "char \<Rightarrow> string \<Rightarrow> string list" where
  "split_on c [] = [[]]"
| "split_on c (x # xs) =
     (if x = c then [] # split_on c xs
      else case split_on c xs of [] \<Rightarrow> [[x]] | p # ps \<Rightarrow> (x # p) # ps)"

text \<open>\<open>InternalContext\<close>: the headers are empty when absent.\<close>

definition internal_context ::
  "(string \<Rightarrow> uuid option) \<Rightarrow> caller_ctx option \<Rightarrow> string \<Rightarrow> string \<Rightarrow> string \<Rightarrow> caller_ctx option" where
  "internal_context parse ctx user_header seller_header roles_header =
     (case ctx of
        Some i \<Rightarrow> Some i
      | None \<Rightarrow>
          if user_header = '''' then None
          else Some \<lparr>idn_seller = (if seller_header = '''' then None else parse seller_header),
                     idn_user = user_header,
                     idn_roles = (if roles_header = '''' then [] else split_on (CHR '','') roles_header)\<rparr>)"

definition context_user :: "caller_ctx option \<Rightarrow> string option" where
  "context_user ctx = map_option idn_user ctx"

definition caller_identity :: "string option \<Rightarrow> string option" where
  "caller_identity caller =
     (case caller of None \<Rightarrow> None | Some u \<Rightarrow> if u = '''' then None else Some u)"

text \<open>A handler for sellers: the context has an identity, and with it a seller.\<close>

definition seller_handler :: "caller_ctx option \<Rightarrow> ('d error \<Rightarrow> 'd error) \<Rightarrow> 'd \<Rightarrow> string
    \<Rightarrow> (uuid \<Rightarrow> ('s, 'd, response) tx) \<Rightarrow> ('s, 'd, response) tx" where
  "seller_handler ctx g no_user msg h =
     (case ctx of
        None \<Rightarrow> answer (http_error (g (Sentinel no_user)))
      | Some i \<Rightarrow> (case idn_seller i of None \<Rightarrow> answer (error_answer 403 msg) | Some s \<Rightarrow> h s))"

text \<open>\<open>return apperrors.Internal(msg, err)\<close>.\<close>

definition or_internal :: "string \<Rightarrow> ('s, 'd, 'a) tx \<Rightarrow> ('s, 'd, 'a) tx" where
  "or_internal msg m = tx_map_error (\<lambda>e. internal msg (Some e)) m"

definition pool_stmt :: "('s, 'd, 'a) tx \<Rightarrow> ('s, 'd, 'a) tx" where
  "pool_stmt m w = (case m (w\<lparr>aborted := False\<rparr>) of (r, w') \<Rightarrow> (r, w'\<lparr>aborted := aborted w\<rparr>))"

definition publish_when :: "bool \<Rightarrow> event \<Rightarrow> ('s, 'd, unit) tx" where
  "publish_when has_publisher e = (if has_publisher then publish e else tx_return ())"

definition int32 :: "int \<Rightarrow> int" where
  "int32 x = (x + 2 ^ 31) mod 2 ^ 32 - 2 ^ 31"

definition proto_int :: "string \<Rightarrow> int \<Rightarrow> (string \<times> json) list" where
  "proto_int k n = (if n = 0 then [] else [(k, JInt n)])"

text \<open>Go's \<open>%d\<close>.\<close>

fun decimal_nat :: "nat \<Rightarrow> string" where
  "decimal_nat n = (if n < 10 then [char_of (48 + n)] else decimal_nat (n div 10) @ [char_of (48 + n mod 10)])"

definition decimal :: "int \<Rightarrow> string" where
  "decimal x = (if x < 0 then CHR ''-'' # decimal_nat (nat (- x)) else decimal_nat (nat x))"

text \<open>A text that is required, of a limited length.\<close>

definition check_text :: "string \<Rightarrow> nat \<Rightarrow> string \<Rightarrow> 'd error option" where
  "check_text field limit s =
     (if s = '''' then Some (bad_request (field @ '' is required''))
      else if length s > limit then
        Some (bad_request (field @ '' must be at most '' @ decimal (int limit) @ '' characters''))
      else None)"

text \<open>
  What a request to another service yields: the error of the transport, or a status, the raw body and
  what the decoder makes of it.
\<close>

type_synonym 'r client_reply = "string + nat \<times> string \<times> (string + 'r)"

definition status_failed :: "string \<Rightarrow> nat \<Rightarrow> string \<Rightarrow> 'd error" where
  "status_failed msg st raw = internal (msg @ '': status='' @ decimal (int st) @ '' body='' @ raw) None"

text \<open>
  The handlers of the review and the inquiry service: the identity they need, an id in the path, and
  \<open>parsePagination\<close>, where a parameter that is absent or no number is 0.
\<close>

definition signed_in :: "'d error \<Rightarrow> caller_ctx option \<Rightarrow> (caller_ctx \<Rightarrow> ('s, 'd, response) tx) \<Rightarrow> ('s, 'd, response) tx" where
  "signed_in e ctx h = (case ctx of None \<Rightarrow> answer (http_error e) | Some c \<Rightarrow> h c)"

definition signed_in_seller ::
  "'d error \<Rightarrow> caller_ctx option \<Rightarrow> (caller_ctx \<Rightarrow> uuid \<Rightarrow> ('s, 'd, response) tx) \<Rightarrow> ('s, 'd, response) tx" where
  "signed_in_seller e ctx h = signed_in e ctx (\<lambda>c.
     case idn_seller c of
       None \<Rightarrow> answer (http_error (forbidden ''seller context required'' :: 'd error))
     | Some s \<Rightarrow> h c s)"

definition path_id :: "(string \<Rightarrow> uuid option) \<Rightarrow> string \<Rightarrow> string \<Rightarrow> (uuid \<Rightarrow> ('s, 'd, response) tx) \<Rightarrow> ('s, 'd, response) tx" where
  "path_id parse raw msg h =
     (case parse raw of None \<Rightarrow> answer (http_error (bad_request msg :: 'd error)) | Some i \<Rightarrow> h i)"

definition parse_pagination :: "int option \<Rightarrow> int option \<Rightarrow> int \<times> int" where
  "parse_pagination lim off =
     (let l = (case lim of None \<Rightarrow> 0 | Some v \<Rightarrow> v); l = (if l \<le> 0 then 20 else l); l = (if l > 100 then 100 else l);
          d = (case off of None \<Rightarrow> 0 | Some v \<Rightarrow> v)
      in (l, if d < 0 then 0 else d))"

lemma int32_id [simp]: "in_i32 x \<Longrightarrow> int32 x = x"
  by (simp add: int32_def in_i32_def)

lemma keeps_or_internal [keeps_intros]: "keeps I m \<Longrightarrow> keeps I (or_internal msg m)"
  unfolding or_internal_def by (rule keeps_map_error)

lemma keeps_publish_when [keeps_intros]: "keeps I (publish_when p e)"
  unfolding publish_when_def by (intro keeps_intros)

lemma keeps_signed_in [keeps_intros]:
  "(\<And>c. keeps I (h c)) \<Longrightarrow> keeps I (signed_in e ctx h)"
  "(\<And>c s. keeps I (k c s)) \<Longrightarrow> keeps I (signed_in_seller e ctx k)"
  "(\<And>i. keeps I (g i)) \<Longrightarrow> keeps I (path_id parse raw msg g)"
  unfolding signed_in_seller_def signed_in_def path_id_def by (auto intro!: keeps_intros)

end
