(* ===== verification/Auth_Service.thy ===== *)
theory Auth_Service
  imports Auth_Store Sha256 Request_Context
begin

text \<open>
  Auth service, use cases: sellers (internal/app/identity.go), roles and their audit trail
  (internal/app/rbac.go), API access tokens (internal/app/credential.go) and buyer profiles
  (internal/app/buyer_service.go). The caller's identity in the context is \<open>string option\<close>
  (\<open>tenant.FromContext\<close>, pkg/tenant). Log lines are left out.
\<close>

text \<open>\<open>if err != nil || tc.UserID == "" { return Unauthorized(msg) }\<close>.\<close>

definition with_caller :: "string option \<Rightarrow> string \<Rightarrow> (string \<Rightarrow> 'a atx) \<Rightarrow> 'a atx" where
  "with_caller caller msg f =
     (case caller_identity caller of None \<Rightarrow> tx_throw (unauthorized msg) | Some u \<Rightarrow> f u)"

subsection \<open>Sellers\<close>

definition create_seller :: "string option \<Rightarrow> seller \<Rightarrow> seller atx" where
  "create_seller caller x =
     with_caller caller ''caller identity required to create seller'' (\<lambda>u.
     tx_bind (or_internal ''failed to check seller slug'' (seller_by_slug (sel_slug x))) (\<lambda>existing.
     if existing \<noteq> None then tx_throw (conflict ''seller slug already exists'')
     else or_internal ''failed to create seller'' (run_tx (
       tx_bind (insert_seller (x\<lparr>sel_state := SellerPending\<rparr>)) (\<lambda>x'.
       tx_bind (insert_seller_user (sel_id x') u SellerOwner) (\<lambda>_. tx_return x'))))))"

definition get_seller :: "uuid \<Rightarrow> seller atx" where
  "get_seller i =
     tx_bind (or_internal ''failed to get seller'' (seller_by_id i)) (\<lambda>x.
     case x of None \<Rightarrow> tx_throw (not_found ''seller not found'') | Some y \<Rightarrow> tx_return y)"

definition list_sellers :: "int \<Rightarrow> int \<Rightarrow> (seller list \<times> nat) atx" where
  "list_sellers lim off = or_internal ''failed to list sellers'' (list_seller_rows lim off)"

definition batch_get_sellers :: "uuid list \<Rightarrow> seller list atx" where
  "batch_get_sellers is = or_internal ''failed to batch get sellers'' (pool_stmt (sellers_by_ids is))"

definition approve_seller :: "uuid \<Rightarrow> unit atx" where
  "approve_seller i =
     tx_bind (or_internal ''failed to get seller'' (seller_by_id i)) (\<lambda>x.
     case x of
       None \<Rightarrow> tx_throw (not_found ''seller not found'')
     | Some y \<Rightarrow>
         if sel_state y \<noteq> SellerPending then tx_throw (bad_request ''seller is not in pending status'')
         else or_internal ''failed to approve seller'' (update_seller_status i SellerApproved))"

subsection \<open>Error mapping\<close>

fun auth_err_text :: "auth_err \<Rightarrow> string" where
  "auth_err_text ErrLastOwner = ''cannot remove or demote the last owner of a seller''"
| "auth_err_text ErrLastSuperAdmin = ''cannot remove or demote the last super_admin''"
| "auth_err_text ErrSelfRoleChange = ''cannot change own role''"
| "auth_err_text ErrInsufficientRole = ''insufficient role for this action''"
| "auth_err_text ErrTargetNotFound = ''target user not found''"
| "auth_err_text ErrInvalidRole = ''invalid role''"
| "auth_err_text ErrOwnerRoleByRoleChange = ''use transfer-ownership to promote to owner''"
| "auth_err_text _ = ''''"

definition map_rbac_error :: "string \<Rightarrow> auth_err error \<Rightarrow> auth_err error" where
  "map_rbac_error msg e =
     (case as_app_error e of Some a \<Rightarrow> a | None \<Rightarrow>
      if errors_is e (Sentinel ErrLastOwner) then conflict (auth_err_text ErrLastOwner)
      else if errors_is e (Sentinel ErrLastSuperAdmin) then conflict (auth_err_text ErrLastSuperAdmin)
      else if errors_is e (Sentinel ErrSelfRoleChange) then forbidden (auth_err_text ErrSelfRoleChange)
      else if errors_is e (Sentinel ErrInsufficientRole) then forbidden (auth_err_text ErrInsufficientRole)
      else if errors_is e (Sentinel ErrTargetNotFound) then not_found (auth_err_text ErrTargetNotFound)
      else if errors_is e (Sentinel ErrInvalidRole) then bad_request (auth_err_text ErrInvalidRole)
      else if errors_is e (Sentinel ErrOwnerRoleByRoleChange) then
        bad_request (auth_err_text ErrOwnerRoleByRoleChange)
      else internal msg (Some e))"

definition map_api_token_error :: "string \<Rightarrow> auth_err error \<Rightarrow> auth_err error" where
  "map_api_token_error msg e =
     (case as_app_error e of Some a \<Rightarrow> a | None \<Rightarrow>
      if errors_is e (Sentinel ErrAPITokenNotFound) then not_found ''api token not found''
      else if errors_is e (Sentinel ErrAPITokenRevoked) then forbidden ''api token has been revoked''
      else if errors_is e (Sentinel ErrAPITokenExpired) then forbidden ''api token has expired''
      else if errors_is e (Sentinel ErrAPITokenInvalidFormat) then bad_request ''api token malformed''
      else if errors_is e (Sentinel ErrAPITokenScopeNotGranted) then
        forbidden ''requested scope is not permitted for the issuing role''
      else if errors_is e (Sentinel ErrInsufficientRole) then
        forbidden ''owner role is required to manage api tokens''
      else internal msg (Some e))"

subsection \<open>Role lookups\<close>

text \<open>The empty role of a user without one is \<open>None\<close>.\<close>

definition lookup_seller_role :: "uuid \<Rightarrow> string \<Rightarrow> seller_role option atx" where
  "lookup_seller_role seller a =
     tx_bind (or_internal ''failed to lookup seller role'' (run_tx (seller_user_by_auth0 seller a))) (\<lambda>u.
     tx_return (map_option su_role u))"

definition lookup_platform_role :: "string \<Rightarrow> platform_role option atx" where
  "lookup_platform_role a =
     tx_bind (or_internal ''failed to lookup platform admin role'' (run_tx (admin_by_auth0 a))) (\<lambda>p.
     tx_return (map_option pa_role p))"

definition require_seller_role :: "uuid \<Rightarrow> string \<Rightarrow> seller_role \<Rightarrow> unit atx" where
  "require_seller_role seller actor m =
     tx_bind (check_seller_role seller actor) (\<lambda>r.
     case r of
       None \<Rightarrow> tx_throw (Sentinel ErrInsufficientRole)
     | Some r \<Rightarrow> if r = SellerRoleOther '''' \<or> \<not> seller_at_least r m then
                  tx_throw (Sentinel ErrInsufficientRole) else tx_return ())"

definition require_platform_role :: "string \<Rightarrow> platform_role \<Rightarrow> unit atx" where
  "require_platform_role actor m =
     tx_bind (check_admin_role actor) (\<lambda>r.
     case r of
       None \<Rightarrow> tx_throw (Sentinel ErrInsufficientRole)
     | Some r \<Rightarrow> if r = PlatformRoleOther '''' \<or> \<not> platform_at_least r m then
                  tx_throw (Sentinel ErrInsufficientRole) else tx_return ())"

subsection \<open>Seller teams\<close>

definition list_seller_team :: "uuid \<Rightarrow> seller_user list atx" where
  "list_seller_team seller = or_internal ''failed to list seller team'' (list_by_seller seller)"

definition add_seller_user_tx :: "uuid \<Rightarrow> string \<Rightarrow> string \<Rightarrow> seller_role \<Rightarrow> seller_user atx" where
  "add_seller_user_tx seller actor new_user r =
     tx_bind (require_seller_role seller actor SellerOwner) (\<lambda>_.
     tx_bind (seller_user_by_auth0 seller new_user) (\<lambda>existing.
     if existing \<noteq> None then tx_throw (conflict ''user already belongs to this seller'')
     else
       tx_bind (insert_seller_user seller new_user r) (\<lambda>created.
       tx_bind (append_audit actor new_user SellerUserScope (Some seller) Grant '''' (seller_role_text r))
         (\<lambda>_. tx_return created))))"

definition add_seller_user :: "string option \<Rightarrow> uuid \<Rightarrow> string \<Rightarrow> seller_role \<Rightarrow> seller_user atx" where
  "add_seller_user caller seller new_user r =
     (if \<not> seller_role_valid r then tx_throw (bad_request ''invalid role'')
      else if r = SellerOwner then tx_throw (bad_request ''use transfer-ownership to assign owner role'')
      else if new_user = '''' then tx_throw (bad_request ''auth0_user_id is required'')
      else with_caller caller ''caller identity required'' (\<lambda>u.
        tx_map_error (map_rbac_error ''failed to add seller user'')
          (run_tx (add_seller_user_tx seller u new_user r))))"

text \<open>
  \<open>target == nil || target.SellerID != sellerID\<close>, the actor's own row, and the last owner: the
  checks the changes of a team share.
\<close>

definition seller_target ::
  "auth_db \<Rightarrow> uuid \<Rightarrow> uuid \<Rightarrow> seller_user atx" where
  "seller_target committed seller i =
     tx_bind (on_pool committed (seller_user_by_id i)) (\<lambda>t.
     case t of
       None \<Rightarrow> tx_throw (Sentinel ErrTargetNotFound)
     | Some t \<Rightarrow> if su_seller t \<noteq> seller then tx_throw (Sentinel ErrTargetNotFound) else tx_return t)"

definition guard_last_owner :: "uuid \<Rightarrow> seller_user \<Rightarrow> unit atx" where
  "guard_last_owner seller t =
     (if su_role t = SellerOwner then
        tx_bind (count_seller_role seller SellerOwner) (\<lambda>n.
        if n \<le> 1 then tx_throw (Sentinel ErrLastOwner) else tx_return ())
      else tx_return ())"

definition update_seller_role_tx :: "uuid \<Rightarrow> string \<Rightarrow> uuid \<Rightarrow> seller_role \<Rightarrow> auth_db \<Rightarrow> unit atx" where
  "update_seller_role_tx seller actor i r committed =
     tx_bind (require_seller_role seller actor SellerOwner) (\<lambda>_.
     tx_bind (seller_target committed seller i) (\<lambda>t.
     if su_user t = actor then tx_throw (Sentinel ErrSelfRoleChange)
     else if su_role t = r then tx_return ()
     else
       tx_bind (guard_last_owner seller t) (\<lambda>_.
       tx_bind (update_seller_user_row i r) (\<lambda>_.
       append_audit actor (su_user t) SellerUserScope (Some seller) RoleChange
         (seller_role_text (su_role t)) (seller_role_text r)))))"

definition update_seller_user_role :: "string option \<Rightarrow> uuid \<Rightarrow> uuid \<Rightarrow> seller_role \<Rightarrow> unit atx" where
  "update_seller_user_role caller seller i r =
     (if \<not> seller_role_valid r then tx_throw (bad_request ''invalid role'')
      else if r = SellerOwner then tx_throw (bad_request ''use transfer-ownership to assign owner role'')
      else with_caller caller ''caller identity required'' (\<lambda>u.
        tx_map_error (map_rbac_error ''failed to update seller user role'')
          (run_tx_pool (update_seller_role_tx seller u i r))))"

definition remove_seller_user_tx :: "uuid \<Rightarrow> string \<Rightarrow> uuid \<Rightarrow> auth_db \<Rightarrow> unit atx" where
  "remove_seller_user_tx seller actor i committed =
     tx_bind (require_seller_role seller actor SellerOwner) (\<lambda>_.
     tx_bind (seller_target committed seller i) (\<lambda>t.
     if su_user t = actor then tx_throw (Sentinel ErrSelfRoleChange)
     else
       tx_bind (guard_last_owner seller t) (\<lambda>_.
       tx_bind (delete_seller_user i) (\<lambda>_.
       append_audit actor (su_user t) SellerUserScope (Some seller) Revoke
         (seller_role_text (su_role t)) ''''))))"

definition remove_seller_user :: "string option \<Rightarrow> uuid \<Rightarrow> uuid \<Rightarrow> unit atx" where
  "remove_seller_user caller seller i =
     with_caller caller ''caller identity required'' (\<lambda>u.
       tx_map_error (map_rbac_error ''failed to remove seller user'')
         (run_tx_pool (remove_seller_user_tx seller u i)))"

definition transfer_ownership_tx :: "uuid \<Rightarrow> string \<Rightarrow> uuid \<Rightarrow> auth_db \<Rightarrow> unit atx" where
  "transfer_ownership_tx seller actor i committed =
     tx_bind (seller_user_by_auth0 seller actor) (\<lambda>a.
     case a of
       None \<Rightarrow> tx_throw (Sentinel ErrInsufficientRole)
     | Some a \<Rightarrow>
         if su_role a \<noteq> SellerOwner then tx_throw (Sentinel ErrInsufficientRole)
         else
           tx_bind (seller_target committed seller i) (\<lambda>t.
           if su_id t = su_id a then tx_throw (Sentinel ErrSelfRoleChange)
           else
             tx_bind (update_seller_user_row (su_id a) SellerAdmin) (\<lambda>_.
             tx_bind (update_seller_user_row (su_id t) SellerOwner) (\<lambda>_.
             tx_bind (append_audit actor (su_user t) SellerUserScope (Some seller) TransferOwnership
                        (seller_role_text (su_role t)) (seller_role_text SellerOwner)) (\<lambda>_.
             append_audit actor (su_user a) SellerUserScope (Some seller) RoleChange
               (seller_role_text SellerOwner) (seller_role_text SellerAdmin))))))"

definition transfer_seller_ownership :: "string option \<Rightarrow> uuid \<Rightarrow> uuid \<Rightarrow> unit atx" where
  "transfer_seller_ownership caller seller i =
     with_caller caller ''caller identity required'' (\<lambda>u.
       tx_map_error (map_rbac_error ''failed to transfer ownership'')
         (run_tx_pool (transfer_ownership_tx seller u i)))"

subsection \<open>Platform administrators\<close>

definition list_platform_admins :: "platform_admin list atx" where
  "list_platform_admins = or_internal ''failed to list platform admins'' list_admin_rows"

definition grant_admin_tx :: "string \<Rightarrow> string \<Rightarrow> platform_role \<Rightarrow> platform_admin atx" where
  "grant_admin_tx actor new_user r =
     tx_bind (require_platform_role actor SuperAdmin) (\<lambda>_.
     tx_bind (admin_by_auth0 new_user) (\<lambda>existing.
     if existing \<noteq> None then tx_throw (conflict ''user is already a platform admin'')
     else
       tx_bind (insert_admin new_user r) (\<lambda>created.
       tx_bind (append_audit actor new_user PlatformAdminScope None Grant '''' (platform_role_text r))
         (\<lambda>_. tx_return created))))"

definition grant_platform_admin :: "string option \<Rightarrow> string \<Rightarrow> platform_role \<Rightarrow> platform_admin atx" where
  "grant_platform_admin caller new_user r =
     (if \<not> platform_role_valid r then tx_throw (bad_request ''invalid role'')
      else if new_user = '''' then tx_throw (bad_request ''auth0_user_id is required'')
      else with_caller caller ''caller identity required'' (\<lambda>u.
        tx_map_error (map_rbac_error ''failed to grant platform admin'')
          (run_tx (grant_admin_tx u new_user r))))"

definition admin_target :: "auth_db \<Rightarrow> uuid \<Rightarrow> platform_admin atx" where
  "admin_target committed i =
     tx_bind (on_pool committed (admin_by_id i)) (\<lambda>t.
     case t of None \<Rightarrow> tx_throw (Sentinel ErrTargetNotFound) | Some t \<Rightarrow> tx_return t)"

definition guard_last_super :: "platform_admin \<Rightarrow> unit atx" where
  "guard_last_super t =
     (if pa_role t = SuperAdmin then
        tx_bind (count_admin_role SuperAdmin) (\<lambda>n.
        if n \<le> 1 then tx_throw (Sentinel ErrLastSuperAdmin) else tx_return ())
      else tx_return ())"

definition update_admin_role_tx :: "string \<Rightarrow> uuid \<Rightarrow> platform_role \<Rightarrow> auth_db \<Rightarrow> unit atx" where
  "update_admin_role_tx actor i r committed =
     tx_bind (require_platform_role actor SuperAdmin) (\<lambda>_.
     tx_bind (admin_target committed i) (\<lambda>t.
     if pa_user t = actor then tx_throw (Sentinel ErrSelfRoleChange)
     else if pa_role t = r then tx_return ()
     else
       tx_bind (guard_last_super t) (\<lambda>_.
       tx_bind (update_admin_row i r) (\<lambda>_.
       append_audit actor (pa_user t) PlatformAdminScope None RoleChange
         (platform_role_text (pa_role t)) (platform_role_text r)))))"

definition update_platform_admin_role :: "string option \<Rightarrow> uuid \<Rightarrow> platform_role \<Rightarrow> unit atx" where
  "update_platform_admin_role caller i r =
     (if \<not> platform_role_valid r then tx_throw (bad_request ''invalid role'')
      else with_caller caller ''caller identity required'' (\<lambda>u.
        tx_map_error (map_rbac_error ''failed to update platform admin role'')
          (run_tx_pool (update_admin_role_tx u i r))))"

definition revoke_admin_tx :: "string \<Rightarrow> uuid \<Rightarrow> auth_db \<Rightarrow> unit atx" where
  "revoke_admin_tx actor i committed =
     tx_bind (require_platform_role actor SuperAdmin) (\<lambda>_.
     tx_bind (admin_target committed i) (\<lambda>t.
     if pa_user t = actor then tx_throw (Sentinel ErrSelfRoleChange)
     else
       tx_bind (guard_last_super t) (\<lambda>_.
       tx_bind (delete_admin i) (\<lambda>_.
       append_audit actor (pa_user t) PlatformAdminScope None Revoke
         (platform_role_text (pa_role t)) ''''))))"

definition revoke_platform_admin :: "string option \<Rightarrow> uuid \<Rightarrow> unit atx" where
  "revoke_platform_admin caller i =
     with_caller caller ''caller identity required'' (\<lambda>u.
       tx_map_error (map_rbac_error ''failed to revoke platform admin'')
         (run_tx_pool (revoke_admin_tx u i)))"

definition list_rbac_audit_log :: "int \<Rightarrow> int \<Rightarrow> (audit_entry list \<times> nat) atx" where
  "list_rbac_audit_log lim off = or_internal ''failed to list audit log'' (list_audit_rows lim off)"

definition bootstrap_super_admin :: "string \<Rightarrow> unit atx" where
  "bootstrap_super_admin a =
     (if a = '''' then tx_throw (bad_request ''bootstrap auth0_user_id is required'')
      else
        tx_bind (or_internal ''failed to count platform admins'' (run_tx (count_admin_role SuperAdmin))) (\<lambda>n.
        if 0 < n then tx_return ()
        else or_internal ''failed to bootstrap super_admin'' (run_tx (
          tx_bind (insert_admin a SuperAdmin) (\<lambda>_.
          append_audit ''system:bootstrap'' a PlatformAdminScope None Grant ''''
            (platform_role_text SuperAdmin))))))"

subsection \<open>Generating a token\<close>

text \<open>
  \<open>crypto/rand\<close> is a sequence of reads: read \<open>k\<close> fills the buffer (position \<open>j\<close> gets byte
  \<open>buf j\<close>) or fails. The loop of \<open>generateBase62\<close> draws again for every rejected byte, so it ends
  only if the source keeps giving accepted bytes; \<open>None\<close> is a loop that never returns. The result
  carries the number of the next read.
\<close>

type_synonym rng = "nat \<Rightarrow> (nat \<Rightarrow> nat) option"

definition base62_alphabet :: string where
  "base62_alphabet = ''0123456789ABCDEFGHIJKLMNOPQRSTUVWXYZabcdefghijklmnopqrstuvwxyz''"

definition base62_reject_threshold :: nat where
  "base62_reject_threshold = 248"

partial_function (option) base62_loop ::
  "rng \<Rightarrow> nat \<Rightarrow> nat \<Rightarrow> nat \<Rightarrow> (nat \<Rightarrow> nat) \<Rightarrow> nat \<Rightarrow> string \<Rightarrow> (unit + string \<times> nat) option" where
  "base62_loop rng n buf_len k buf pos out =
     (if n \<le> length out then Some (Inr (out, k))
      else if buf_len \<le> pos then
        (case rng k of
           None \<Rightarrow> Some (Inl ())
         | Some buf' \<Rightarrow> base62_loop rng n buf_len (Suc k) buf' 0 out)
      else if base62_reject_threshold \<le> buf pos then base62_loop rng n buf_len k buf (Suc pos) out
      else base62_loop rng n buf_len k buf (Suc pos) (out @ [base62_alphabet ! (buf pos mod 62)]))"

declare base62_loop.simps [code]

definition generate_base62 :: "rng \<Rightarrow> nat \<Rightarrow> nat \<Rightarrow> (unit + string \<times> nat) option" where
  "generate_base62 rng k n =
     (let buf_len = (if n * 2 < 16 then 16 else n * 2)
      in base62_loop rng n buf_len k (\<lambda>_. 0) buf_len [])"

definition api_token_lookup_chars :: nat where
  "api_token_lookup_chars = 12"

definition api_token_secret_chars :: nat where
  "api_token_secret_chars = 43"

definition generate_api_token ::
  "rng \<Rightarrow> string \<Rightarrow> (auth_err error + string \<times> string \<times> int list) option" where
  "generate_api_token rng prefix =
     (case generate_base62 rng 0 api_token_lookup_chars of
        None \<Rightarrow> None
      | Some (Inl _) \<Rightarrow> Some (Inl (Sentinel ErrRandom))
      | Some (Inr (lookup, k)) \<Rightarrow>
          (case generate_base62 rng k api_token_secret_chars of
             None \<Rightarrow> None
           | Some (Inl _) \<Rightarrow> Some (Inl (Sentinel ErrRandom))
           | Some (Inr (secret, _)) \<Rightarrow>
               Some (Inr (prefix @ lookup @ ''_'' @ secret, lookup, sha256 secret))))"

text \<open>\<open>strings.IndexByte(rest, '_')\<close>, -1 when there is none.\<close>

fun index_byte :: "string \<Rightarrow> char \<Rightarrow> int" where
  "index_byte [] c = - 1"
| "index_byte (x # xs) c = (if x = c then 0 else let i = index_byte xs c in if i < 0 then - 1 else i + 1)"

definition parse_api_token :: "string \<Rightarrow> string \<Rightarrow> auth_err + (string \<times> string)" where
  "parse_api_token raw prefix =
     (if prefix = '''' \<or> \<not> has_prefix raw prefix then Inl ErrAPITokenInvalidFormat
      else
        let rest = drop (length prefix) raw; sep = index_byte rest (CHR ''_'') in
        if sep \<le> 0 \<or> sep = int (length rest) - 1 then Inl ErrAPITokenInvalidFormat
        else Inr (take (nat sep) rest, drop (nat sep + 1) rest))"

subsection \<open>API tokens\<close>

text \<open>Validation and removal of duplicates; \<open>Inl\<close> is the first invalid scope.\<close>

fun clean_scopes :: "token_scope list \<Rightarrow> token_scope list \<Rightarrow> token_scope + token_scope list" where
  "clean_scopes [] acc = Inr acc"
| "clean_scopes (s # ss) acc =
     (if \<not> token_scope_valid s then Inl s
      else if s \<in> set acc then clean_scopes ss acc
      else clean_scopes ss (acc @ [s]))"

definition limit_not_positive :: "int option \<Rightarrow> bool" where
  "limit_not_positive x = (case x of None \<Rightarrow> False | Some n \<Rightarrow> n \<le> 0)"

definition issue_token_tx :: "uuid \<Rightarrow> string \<Rightarrow> api_token \<Rightarrow> api_token atx" where
  "issue_token_tx seller actor k =
     tx_bind (require_seller_role seller actor SellerOwner) (\<lambda>_.
     if \<not> list_all (\<lambda>s. s \<in> set (scopes_for_seller_role SellerOwner)) (tok_scopes k) then
       tx_throw (Sentinel ErrAPITokenScopeNotGranted)
     else insert_token k)"

text \<open>The checks of \<open>IssueAPIToken\<close> before the token is generated; the clock is \<open>time.Now()\<close>.\<close>

definition issue_checks ::
  "string option \<Rightarrow> string \<Rightarrow> token_scope list \<Rightarrow> int option \<Rightarrow> int option \<Rightarrow> instant option \<Rightarrow> instant
   \<Rightarrow> auth_err error + (string \<times> token_scope list \<times> string)" where
  "issue_checks caller name scopes rps burst expires t =
     (let name = trim_space name in
      if name = '''' then Inl (bad_request ''name is required'')
      else if length name > 120 then Inl (bad_request ''name must be 120 characters or fewer'')
      else if scopes = [] then Inl (bad_request ''at least one scope is required'')
      else case clean_scopes scopes [] of
        Inl s \<Rightarrow> Inl (bad_request (''invalid scope: '' @ token_scope_text s))
      | Inr cs \<Rightarrow>
          if (case expires of None \<Rightarrow> False | Some e \<Rightarrow> \<not> e > t) then
            Inl (bad_request ''expires_at must be in the future'')
          else if limit_not_positive rps then Inl (bad_request ''rate_limit_rps must be positive'')
          else if limit_not_positive burst then Inl (bad_request ''rate_limit_burst must be positive'')
          else case caller_identity caller of
            None \<Rightarrow> Inl (unauthorized ''caller identity required'')
          | Some u \<Rightarrow> Inr (name, cs, u))"

definition issue_api_token ::
  "rng \<Rightarrow> string option \<Rightarrow> uuid \<Rightarrow> string \<Rightarrow> token_scope list \<Rightarrow> int option \<Rightarrow> int option
   \<Rightarrow> instant option \<Rightarrow> string \<Rightarrow> auth_db world
   \<Rightarrow> ((auth_err error + api_token \<times> string) \<times> auth_db world) option" where
  "issue_api_token rng caller seller name scopes rps burst expires prefix w =
     (case issue_checks caller name scopes rps burst expires (clock w) of
        Inl e \<Rightarrow> Some (Inl e, w)
      | Inr (name', cs, u) \<Rightarrow>
          (case generate_api_token rng prefix of
             None \<Rightarrow> None
           | Some (Inl e) \<Rightarrow> Some (Inl (internal ''failed to generate api token'' (Some e)), w)
           | Some (Inr (plaintext, lookup, hash)) \<Rightarrow>
               let k = \<lparr>tok_id = nil_uuid, tok_seller = seller, tok_name = name', tok_prefix = prefix,
                 tok_lookup = lookup, tok_hash = hash, tok_scopes = cs, tok_rps = rps, tok_burst = burst,
                 tok_issuer = u, tok_expires = expires, tok_revoked = None, tok_revoked_by = '''',
                 tok_last_used = None, tok_created = 0, tok_updated = 0\<rparr>
               in Some (tx_map_error (map_api_token_error ''failed to issue api token'')
                    (tx_bind (run_tx (issue_token_tx seller u k)) (\<lambda>k'. tx_return (k', plaintext))) w)))"

definition list_api_tokens :: "uuid \<Rightarrow> int \<Rightarrow> int \<Rightarrow> (api_token list \<times> nat) atx" where
  "list_api_tokens seller lim off = or_internal ''failed to list api tokens'' (tokens_by_seller seller lim off)"

definition get_api_token :: "uuid \<Rightarrow> uuid \<Rightarrow> api_token atx" where
  "get_api_token seller i =
     tx_bind (or_internal ''failed to get api token'' (token_by_id i)) (\<lambda>k.
     case k of
       None \<Rightarrow> tx_throw (not_found ''api token not found'')
     | Some k \<Rightarrow> if tok_seller k \<noteq> seller then tx_throw (not_found ''api token not found'') else tx_return k)"

definition revoke_token_tx :: "uuid \<Rightarrow> string \<Rightarrow> uuid \<Rightarrow> unit atx" where
  "revoke_token_tx seller actor i =
     tx_bind (require_seller_role seller actor SellerOwner) (\<lambda>_. revoke_token i actor)"

definition revoke_api_token :: "string option \<Rightarrow> uuid \<Rightarrow> uuid \<Rightarrow> (string \<times> string) atx" where
  "revoke_api_token caller seller i =
     with_caller caller ''caller identity required'' (\<lambda>u.
     tx_bind (get_api_token seller i) (\<lambda>k.
     tx_bind (tx_map_error (map_api_token_error ''failed to revoke api token'')
                (run_tx (revoke_token_tx seller u i))) (\<lambda>_.
     tx_return (tok_prefix k, tok_lookup k))))"

text \<open>
  The gateway's lookup. The update of \<open>last_used_at\<close> that it starts in the background is
  \<open>touch_last_used\<close>, a step of its own.
\<close>

definition lookup_api_token :: "string \<Rightarrow> string \<Rightarrow> string \<Rightarrow> api_token atx" where
  "lookup_api_token prefix lookup secret =
     (if prefix = '''' \<or> lookup = '''' \<or> secret = '''' then tx_throw (Sentinel ErrAPITokenInvalidFormat)
      else
        tx_bind (or_internal ''failed to look up api token'' (pool_stmt (token_by_lookup prefix lookup))) (\<lambda>k.
        case k of
          None \<Rightarrow> tx_throw (Sentinel ErrAPITokenNotFound)
        | Some k \<Rightarrow>
            if \<not> constant_time_equal (sha256 secret) (tok_hash k) then
              tx_throw (Sentinel ErrAPITokenNotFound)
            else tx_bind now (\<lambda>t.
              if tok_revoked k \<noteq> None then tx_throw (Sentinel ErrAPITokenRevoked)
              else if token_expired k t then tx_throw (Sentinel ErrAPITokenExpired)
              else tx_return k)))"

definition touch_api_token :: "uuid \<Rightarrow> unit atx" where
  "touch_api_token i = pool_stmt (touch_last_used i)"

subsection \<open>Buyers\<close>

definition upsert_buyer :: "string \<Rightarrow> string \<Rightarrow> string \<Rightarrow> buyer atx" where
  "upsert_buyer sub email display =
     (let sub = trim_space sub; email = trim_space email; display = trim_space display in
      if sub = '''' \<or> email = '''' then tx_throw (Sentinel ErrMissingField)
      else upsert_buyer_row sub email display)"

end
