(* ===== verification/Auth_Edge.thy ===== *)
theory Auth_Edge
  imports Auth_Service
begin

text \<open>
  Auth service, adapters: the HTTP handlers (internal/adapter/http). Headers, URL parameters and
  decoded bodies are arguments; \<open>uuid.Parse\<close> is one of them, \<open>parse\<close>. A nil slice is JSON's \<open>null\<close>,
  a time its instant.
\<close>

type_synonym auth_handler = "(auth_db, auth_err, response) tx"

subsection \<open>Bodies\<close>

definition role_option_text :: "('r \<Rightarrow> string) \<Rightarrow> 'r option \<Rightarrow> string" where
  "role_option_text f r = (case r of None \<Rightarrow> '''' | Some r \<Rightarrow> f r)"

definition seller_body :: "seller \<Rightarrow> json" where
  "seller_body x = JObj (
     [(''id'', JStr (sel_id x)), (''auth0_org_id'', JStr (sel_org x)), (''name'', JStr (sel_name x)),
      (''slug'', JStr (sel_slug x)), (''status'', JStr (seller_state_text (sel_state x)))]
     @ omit_empty ''stripe_account_id'' (sel_stripe x)
     @ [(''commission_rate_bps'', JInt (sel_commission x))]
     @ omit_none ''settings'' JStr (sel_settings x)
     @ [(''created_at'', JInt (sel_created x)), (''updated_at'', JInt (sel_updated x))])"

definition seller_user_body :: "seller_user \<Rightarrow> json" where
  "seller_user_body u = JObj
     [(''id'', JStr (su_id u)), (''seller_id'', JStr (su_seller u)), (''auth0_user_id'', JStr (su_user u)),
      (''role'', JStr (seller_role_text (su_role u))), (''created_at'', JInt (su_created u))]"

definition admin_body :: "platform_admin \<Rightarrow> json" where
  "admin_body p = JObj
     [(''id'', JStr (pa_id p)), (''auth0_user_id'', JStr (pa_user p)),
      (''role'', JStr (platform_role_text (pa_role p))), (''created_at'', JInt (pa_created p)),
      (''updated_at'', JInt (pa_updated p))]"

definition audit_body :: "audit_entry \<Rightarrow> json" where
  "audit_body e = JObj (
     [(''id'', JStr (aud_id e)), (''actor_auth0_user_id'', JStr (aud_actor e)),
      (''target_auth0_user_id'', JStr (aud_target e)), (''scope'', JStr (audit_scope_text (aud_scope e)))]
     @ omit_none ''scope_id'' JStr (aud_scope_id e)
     @ [(''action'', JStr (audit_action_text (aud_action e)))]
     @ omit_none ''before_role'' JStr (aud_before e) @ omit_none ''after_role'' JStr (aud_after e)
     @ [(''created_at'', JInt (aud_created e))])"

definition token_fields :: "api_token \<Rightarrow> (string \<times> json) list" where
  "token_fields k =
     [(''id'', JStr (tok_id k)), (''seller_id'', JStr (tok_seller k)), (''name'', JStr (tok_name k)),
      (''token_prefix'', JStr (tok_prefix k)), (''token_lookup'', JStr (tok_lookup k)),
      (''scopes'', JList (map (JStr \<circ> token_scope_text) (tok_scopes k)))]
     @ omit_none ''rate_limit_rps'' JInt (tok_rps k) @ omit_none ''rate_limit_burst'' JInt (tok_burst k)
     @ [(''issued_by_auth0_user_id'', JStr (tok_issuer k))]
     @ omit_none ''expires_at'' JInt (tok_expires k) @ omit_none ''revoked_at'' JInt (tok_revoked k)
     @ omit_empty ''revoked_by_auth0_user_id'' (tok_revoked_by k)
     @ omit_none ''last_used_at'' JInt (tok_last_used k)
     @ [(''created_at'', JInt (tok_created k)), (''updated_at'', JInt (tok_updated k))]"

definition buyer_body :: "buyer \<Rightarrow> json" where
  "buyer_body b = JObj (
     [(''id'', JStr (buy_id b)), (''auth0_sub'', JStr (buy_sub b)), (''email'', JStr (buy_email b))]
     @ omit_empty ''display_name'' (buy_display b)
     @ [(''created_at'', JInt (buy_created b)), (''updated_at'', JInt (buy_updated b))])"

subsection \<open>Shared secrets\<close>

text \<open>The three \<open>requireSharedSecret\<close> middlewares differ in the text for a missing configuration.\<close>

definition require_shared_secret :: "string \<Rightarrow> string \<Rightarrow> string \<Rightarrow> auth_handler \<Rightarrow> auth_handler" where
  "require_shared_secret unconfigured secret header h =
     (if secret = '''' then answer (error_answer 503 unconfigured)
      else if header \<noteq> secret then answer (error_answer 401 ''invalid internal token'')
      else h)"

subsection \<open>Sellers\<close>

record create_seller_request =
  csr_name :: string
  csr_slug :: string
  csr_org :: string
  csr_stripe :: string
  csr_commission :: int

definition http_create_seller ::
  "caller_ctx option \<Rightarrow> (string + create_seller_request) option \<Rightarrow> auth_handler" where
  "http_create_seller ctx body = decoded body (\<lambda>req. respond id
     (create_seller (context_user ctx)
        \<lparr>sel_id = nil_uuid, sel_org = csr_org req, sel_name = csr_name req, sel_slug = csr_slug req,
         sel_state = SellerPending, sel_stripe = csr_stripe req, sel_commission = csr_commission req,
         sel_settings = None, sel_created = 0, sel_updated = 0\<rparr>)
     (\<lambda>x. Response 201 (Some (seller_body x))))"

definition http_get_seller :: "(string \<Rightarrow> uuid option) \<Rightarrow> string \<Rightarrow> auth_handler" where
  "http_get_seller parse raw = parsed parse raw ''invalid seller id'' (\<lambda>i.
     respond id (get_seller i) (\<lambda>x. Response 200 (Some (seller_body x))))"

definition http_list_sellers :: "int option option \<Rightarrow> int option option \<Rightarrow> auth_handler" where
  "http_list_sellers lim off =
     (let p = page_from_request lim off
      in respond id (list_sellers (fst p) (snd p)) (page_answer seller_body p))"

definition http_approve_seller :: "(string \<Rightarrow> uuid option) \<Rightarrow> string \<Rightarrow> auth_handler" where
  "http_approve_seller parse raw = parsed parse raw ''invalid seller id'' (\<lambda>i.
     respond id (approve_seller i) (\<lambda>_. status_body ''approved''))"

subsection \<open>Seller teams\<close>

definition http_list_team :: "(string \<Rightarrow> uuid option) \<Rightarrow> string \<Rightarrow> auth_handler" where
  "http_list_team parse raw = parsed parse raw ''invalid seller id'' (\<lambda>seller.
     respond id (list_seller_team seller)
       (\<lambda>us. Response 200 (Some (json_list_or_null (map seller_user_body us)))))"

definition http_add_member ::
  "(string \<Rightarrow> uuid option) \<Rightarrow> caller_ctx option \<Rightarrow> string \<Rightarrow> (string + string \<times> seller_role) option
   \<Rightarrow> auth_handler" where
  "http_add_member parse ctx raw body = parsed parse raw ''invalid seller id'' (\<lambda>seller.
     decoded body (\<lambda>(u, r). respond id (add_seller_user (context_user ctx) seller u r)
       (\<lambda>x. Response 201 (Some (seller_user_body x)))))"

definition http_update_member ::
  "(string \<Rightarrow> uuid option) \<Rightarrow> caller_ctx option \<Rightarrow> string \<Rightarrow> string \<Rightarrow> (string + seller_role) option
   \<Rightarrow> auth_handler" where
  "http_update_member parse ctx raw raw_id body = parsed parse raw ''invalid seller id'' (\<lambda>seller.
     parsed parse raw_id ''invalid user id'' (\<lambda>i.
     decoded body (\<lambda>r. respond id (update_seller_user_role (context_user ctx) seller i r)
       (\<lambda>_. status_body ''updated''))))"

definition http_remove_member ::
  "(string \<Rightarrow> uuid option) \<Rightarrow> caller_ctx option \<Rightarrow> string \<Rightarrow> string \<Rightarrow> auth_handler" where
  "http_remove_member parse ctx raw raw_id = parsed parse raw ''invalid seller id'' (\<lambda>seller.
     parsed parse raw_id ''invalid user id'' (\<lambda>i.
     respond id (remove_seller_user (context_user ctx) seller i) (\<lambda>_. status_body ''removed'')))"

definition http_transfer_ownership ::
  "(string \<Rightarrow> uuid option) \<Rightarrow> caller_ctx option \<Rightarrow> string \<Rightarrow> (string + uuid) option \<Rightarrow> auth_handler" where
  "http_transfer_ownership parse ctx raw body = parsed parse raw ''invalid seller id'' (\<lambda>seller.
     decoded body (\<lambda>i. respond id (transfer_seller_ownership (context_user ctx) seller i)
       (\<lambda>_. status_body ''transferred'')))"

definition me_body :: "string \<Rightarrow> string \<Rightarrow> response" where
  "me_body u r = Response 200 (Some (JObj [(''auth0_user_id'', JStr u), (''role'', JStr r)]))"

definition http_member_me :: "(string \<Rightarrow> uuid option) \<Rightarrow> caller_ctx option \<Rightarrow> string \<Rightarrow> auth_handler" where
  "http_member_me parse ctx raw = parsed parse raw ''invalid seller id'' (\<lambda>seller.
     case caller_identity (context_user ctx) of
       None \<Rightarrow> answer (error_answer 401 ''caller identity required'')
     | Some u \<Rightarrow> respond id (lookup_seller_role seller u)
         (\<lambda>r. me_body u (role_option_text seller_role_text r)))"

subsection \<open>Platform administrators\<close>

definition http_list_admins :: auth_handler where
  "http_list_admins = respond id list_platform_admins
     (\<lambda>ps. Response 200 (Some (json_list_or_null (map admin_body ps))))"

definition http_grant_admin :: "caller_ctx option \<Rightarrow> (string + string \<times> platform_role) option \<Rightarrow> auth_handler" where
  "http_grant_admin ctx body = decoded body (\<lambda>(u, r).
     respond id (grant_platform_admin (context_user ctx) u r) (\<lambda>x. Response 201 (Some (admin_body x))))"

definition http_update_admin ::
  "(string \<Rightarrow> uuid option) \<Rightarrow> caller_ctx option \<Rightarrow> string \<Rightarrow> (string + platform_role) option \<Rightarrow> auth_handler" where
  "http_update_admin parse ctx raw body = parsed parse raw ''invalid admin id'' (\<lambda>i.
     decoded body (\<lambda>r. respond id (update_platform_admin_role (context_user ctx) i r)
       (\<lambda>_. status_body ''updated'')))"

definition http_revoke_admin :: "(string \<Rightarrow> uuid option) \<Rightarrow> caller_ctx option \<Rightarrow> string \<Rightarrow> auth_handler" where
  "http_revoke_admin parse ctx raw = parsed parse raw ''invalid admin id'' (\<lambda>i.
     respond id (revoke_platform_admin (context_user ctx) i) (\<lambda>_. status_body ''revoked''))"

definition http_admin_me :: "caller_ctx option \<Rightarrow> auth_handler" where
  "http_admin_me ctx =
     (case caller_identity (context_user ctx) of
        None \<Rightarrow> answer (error_answer 401 ''caller identity required'')
      | Some u \<Rightarrow> respond id (lookup_platform_role u)
          (\<lambda>r. me_body u (role_option_text platform_role_text r)))"

definition http_list_audit :: "int option option \<Rightarrow> int option option \<Rightarrow> auth_handler" where
  "http_list_audit lim off =
     (let p = page_from_request lim off
      in respond id (list_rbac_audit_log (fst p) (snd p)) (page_answer audit_body p))"

subsection \<open>API tokens\<close>

record issue_token_request =
  itr_name :: string
  itr_scopes :: "token_scope list"
  itr_expires :: "instant option"
  itr_rps :: "int option"
  itr_burst :: "int option"

text \<open>\<open>None\<close>: the token generation never returns, and neither does the handler.\<close>

definition http_issue_token ::
  "(string \<Rightarrow> uuid option) \<Rightarrow> rng \<Rightarrow> string \<Rightarrow> caller_ctx option \<Rightarrow> string
   \<Rightarrow> (string + issue_token_request) option \<Rightarrow> auth_db world \<Rightarrow> (response \<times> auth_db world) option" where
  "http_issue_token parse rng prefix ctx raw body w =
     (case parse raw of
        None \<Rightarrow> Some (error_answer 400 ''invalid seller id'', w)
      | Some seller \<Rightarrow>
          (case http_decode body of
             Inl e \<Rightarrow> Some (http_error (e :: auth_err error), w)
           | Inr req \<Rightarrow>
               map_option (\<lambda>(r, w').
                 (case r of
                    Inl e \<Rightarrow> http_error e
                  | Inr (k, plaintext) \<Rightarrow>
                      Response 201 (Some (JObj (token_fields k @ [(''token'', JStr plaintext)]))), w'))
                 (issue_api_token rng (context_user ctx) seller (itr_name req) (itr_scopes req)
                    (itr_rps req) (itr_burst req) (itr_expires req) prefix w)))"

definition http_list_tokens ::
  "(string \<Rightarrow> uuid option) \<Rightarrow> string \<Rightarrow> int option option \<Rightarrow> int option option \<Rightarrow> auth_handler" where
  "http_list_tokens parse raw lim off = parsed parse raw ''invalid seller id'' (\<lambda>seller.
     let p = page_from_request lim off
     in respond id (list_api_tokens seller (fst p) (snd p)) (page_answer (JObj \<circ> token_fields) p))"

definition http_get_token :: "(string \<Rightarrow> uuid option) \<Rightarrow> string \<Rightarrow> string \<Rightarrow> auth_handler" where
  "http_get_token parse raw raw_id = parsed parse raw ''invalid seller id'' (\<lambda>seller.
     parsed parse raw_id ''invalid token id'' (\<lambda>i.
     respond id (get_api_token seller i) (\<lambda>k. Response 200 (Some (JObj (token_fields k))))))"

definition http_revoke_token ::
  "(string \<Rightarrow> uuid option) \<Rightarrow> caller_ctx option \<Rightarrow> string \<Rightarrow> string \<Rightarrow> auth_handler" where
  "http_revoke_token parse ctx raw raw_id = parsed parse raw ''invalid seller id'' (\<lambda>seller.
     parsed parse raw_id ''invalid token id'' (\<lambda>i.
     respond id (revoke_api_token (context_user ctx) seller i) (\<lambda>(p, l). Response 200 (Some (JObj
       [(''status'', JStr ''revoked''), (''token_prefix'', JStr p), (''token_lookup'', JStr l)])))))"

subsection \<open>Internal endpoints\<close>

definition http_internal_seller_role ::
  "(string \<Rightarrow> uuid option) \<Rightarrow> string \<Rightarrow> string \<Rightarrow> string \<Rightarrow> string \<Rightarrow> auth_handler" where
  "http_internal_seller_role parse secret header raw sub =
     require_shared_secret ''internal authz not configured'' secret header (
     if raw = '''' \<or> sub = '''' then answer (error_answer 400 ''seller_id and sub are required'')
     else parsed parse raw ''invalid seller_id'' (\<lambda>seller.
       respond id (lookup_seller_role seller sub)
         (\<lambda>r. Response 200 (Some (JObj [(''role'', JStr (role_option_text seller_role_text r))])))))"

definition http_internal_admin_role :: "string \<Rightarrow> string \<Rightarrow> string \<Rightarrow> auth_handler" where
  "http_internal_admin_role secret header sub =
     require_shared_secret ''internal authz not configured'' secret header (
     if sub = '''' then answer (error_answer 400 ''sub is required'')
     else respond id (lookup_platform_role sub)
       (\<lambda>r. Response 200 (Some (JObj [(''role'', JStr (role_option_text platform_role_text r))]))))"

definition token_summary :: "api_token \<Rightarrow> json" where
  "token_summary k = JObj (
     [(''id'', JStr (tok_id k)), (''seller_id'', JStr (tok_seller k)),
      (''scopes'', JList (map (JStr \<circ> token_scope_text) (tok_scopes k)))]
     @ omit_none ''rate_limit_rps'' JInt (tok_rps k) @ omit_none ''rate_limit_burst'' JInt (tok_burst k)
     @ [(''issued_by_auth0_user_id'', JStr (tok_issuer k))])"

text \<open>A lookup that fails for a reason the token gives is an answer with status 200.\<close>

definition lookup_error_answer :: "auth_err error \<Rightarrow> response" where
  "lookup_error_answer e =
     (if errors_is e (Sentinel ErrAPITokenNotFound) then status_body ''not_found''
      else if errors_is e (Sentinel ErrAPITokenRevoked) then status_body ''revoked''
      else if errors_is e (Sentinel ErrAPITokenExpired) then status_body ''expired''
      else if errors_is e (Sentinel ErrAPITokenInvalidFormat) then status_body ''invalid''
      else http_error e)"

definition http_internal_lookup ::
  "string \<Rightarrow> string \<Rightarrow> (string + string \<times> string \<times> string) option \<Rightarrow> auth_handler" where
  "http_internal_lookup secret header body =
     require_shared_secret ''internal authz not configured'' secret header (
     decoded body (\<lambda>(prefix, lookup, token_secret).
     if prefix = '''' \<or> lookup = '''' \<or> token_secret = '''' then answer (status_body ''invalid'')
     else (\<lambda>w. case lookup_api_token prefix lookup token_secret w of
        (Inl e, w') \<Rightarrow> (Inr (lookup_error_answer e), w')
      | (Inr k, w') \<Rightarrow> (Inr (Response 200 (Some (JObj
          [(''status'', JStr ''active''), (''token'', token_summary k)]))), w'))))"

definition http_internal_upsert_buyer ::
  "string \<Rightarrow> string \<Rightarrow> (string + string \<times> string \<times> string) option \<Rightarrow> auth_handler" where
  "http_internal_upsert_buyer secret header body =
     require_shared_secret ''internal buyer endpoint not configured'' secret header (
     decoded body (\<lambda>(sub, email, display).
     respond id (upsert_buyer sub email display) (\<lambda>b. Response 200 (Some (buyer_body b)))))"

text \<open>The ids of a batch, or the first that does not parse.\<close>

fun parse_all :: "(string \<Rightarrow> uuid option) \<Rightarrow> string list \<Rightarrow> string + uuid list" where
  "parse_all parse [] = Inr []"
| "parse_all parse (r # rs) =
     (case parse r of
        None \<Rightarrow> Inl r
      | Some i \<Rightarrow> (case parse_all parse rs of Inl e \<Rightarrow> Inl e | Inr is \<Rightarrow> Inr (i # is)))"

definition http_internal_batch_sellers ::
  "(string \<Rightarrow> uuid option) \<Rightarrow> string \<Rightarrow> string \<Rightarrow> (string + string list) option \<Rightarrow> auth_handler" where
  "http_internal_batch_sellers parse secret header body =
     require_shared_secret ''internal seller endpoint not configured'' secret header (
     decoded body (\<lambda>raws.
     case parse_all parse raws of
       Inl raw \<Rightarrow> answer (error_answer 400 (''invalid id: '' @ raw))
     | Inr is \<Rightarrow> respond id (batch_get_sellers is) (\<lambda>xs. Response 200 (Some (JObj
         [(''sellers'', JList (map (\<lambda>x. JObj
            [(''id'', JStr (sel_id x)), (''name'', JStr (sel_name x)), (''slug'', JStr (sel_slug x))]) xs))])))))"

end
