(* ===== verification/Effect_Rules.thy ===== *)
theory Effect_Rules
  imports Request_Context
begin

text \<open>
  Operations that only read, and operations with an effect: \<open>does P E m\<close> says that on tables with \<open>P\<close>,
  whatever the outcome of \<open>m\<close> and of the faults, the tables are as they were or have changed by \<open>E\<close>.
  The rules follow the shape of a use case: checks, reads, one transaction, a notice.
\<close>

subsection \<open>Reading\<close>

definition reads :: "('s, 'd, 'a) tx \<Rightarrow> bool" where
  "reads m \<longleftrightarrow> (\<forall>I. keeps I m)"

lemma readsI [intro]: "(\<And>I. keeps I m) \<Longrightarrow> reads m"
  by (simp add: reads_def)

lemma reads_store: "reads m \<Longrightarrow> store (snd (m w)) = store w"
  unfolding reads_def by (drule spec [of _ "\<lambda>s. s = store w"]) (simp add: keeps_def)

lemma reads_or_internal: "reads m \<Longrightarrow> reads (or_internal msg m)"
  by (simp add: reads_def or_internal_def keeps_map_error)

lemma reads_pool_stmt:
  assumes "reads m"
  shows "reads (pool_stmt m)"
proof (rule readsI)
  fix I
  have "store (snd (m (w\<lparr>aborted := False\<rparr>))) = store w" for w
    using reads_store [OF assms, of "w\<lparr>aborted := False\<rparr>"] by simp
  then show "keeps I (pool_stmt m)"
    by (auto simp: keeps_def pool_stmt_def split: prod.splits) (metis snd_conv)
qed

lemma reads_bind: "reads m \<Longrightarrow> (\<And>x. reads (f x)) \<Longrightarrow> reads (tx_bind m f)"
  by (simp add: reads_def keeps_bind)

lemma reads_simps:
  "reads (tx_return x)" "reads (tx_throw e)" "reads now"
  by (rule readsI; intro keeps_intros)+

lemma reads_if: "reads m \<Longrightarrow> reads n \<Longrightarrow> reads (if c then m else n)"
  by simp

lemma reads_case_option: "reads m \<Longrightarrow> (\<And>y. reads (f y)) \<Longrightarrow> reads (case x of None \<Rightarrow> m | Some y \<Rightarrow> f y)"
  by (cases x) auto

lemma reads_publish: "reads (publish_when pub e)"
  by (rule readsI) (rule keeps_publish_when)

lemma reads_run_tx: "(\<And>I. keeps I body) \<Longrightarrow> reads (run_tx body)"
  by (rule readsI) (rule keeps_run_tx_body)

lemma reads_cases:
  "(\<And>a b. reads (k a b)) \<Longrightarrow> reads (case p of (a, b) \<Rightarrow> k a b)"
  "(\<And>a. reads (f a)) \<Longrightarrow> (\<And>b. reads (g b)) \<Longrightarrow> reads (case z of Inl a \<Rightarrow> f a | Inr b \<Rightarrow> g b)"
  by (cases p; cases z; auto)+

lemmas reads_intros = reads_bind reads_simps reads_if reads_case_option reads_or_internal reads_pool_stmt
  reads_publish reads_cases

subsection \<open>Effects\<close>

definition does :: "('s \<Rightarrow> bool) \<Rightarrow> ('s \<Rightarrow> 's \<Rightarrow> bool) \<Rightarrow> ('s, 'd, 'a) tx \<Rightarrow> bool" where
  "does P E m \<longleftrightarrow> (\<forall>w. P (store w) \<longrightarrow> store (snd (m w)) = store w \<or> E (store w) (store (snd (m w))))"

lemma doesD: "does P E m \<Longrightarrow> P (store w) \<Longrightarrow> store (snd (m w)) = store w \<or> E (store w) (store (snd (m w)))"
  by (simp add: does_def)

lemma does_reads: "reads m \<Longrightarrow> does P E m"
  by (simp add: does_def reads_store)

lemma does_weaken: "does P E m \<Longrightarrow> (\<And>s. P' s \<Longrightarrow> P s) \<Longrightarrow> does P' E m"
  by (auto simp: does_def)

lemma does_bind_read:
  assumes "reads m" and "\<And>w. P (store w) \<Longrightarrow> wp m (\<lambda>x _. Q x (store w)) w"
    and "\<And>x. does (\<lambda>s. P s \<and> Q x s) E (f x)"
  shows "does P E (tx_bind m f)"
  unfolding does_def
proof (intro allI impI)
  fix w :: "'a world"
  assume p: "P (store w)"
  obtain r w' where m: "m w = (r, w')" by fastforce
  with reads_store [OF assms(1), of w] have same: "store w' = store w" by simp
  show "store (snd (tx_bind m f w)) = store w \<or> E (store w) (store (snd (tx_bind m f w)))"
  proof (cases r)
    case (Inl e)
    with m same show ?thesis by (simp add: tx_bind_def)
  next
    case (Inr x)
    with m wpD [OF assms(2) [OF p]] p same have "P (store w') \<and> Q x (store w')" by simp
    from doesD [OF assms(3) this] m Inr same show ?thesis by (simp add: tx_bind_def)
  qed
qed

lemma does_bind_then:
  assumes "does P E m" and "\<And>x. reads (f x)"
  shows "does P E (tx_bind m f)"
  unfolding does_def
proof (intro allI impI)
  fix w :: "'a world"
  assume p: "P (store w)"
  obtain r w' where m: "m w = (r, w')" by fastforce
  show "store (snd (tx_bind m f w)) = store w \<or> E (store w) (store (snd (tx_bind m f w)))"
    using doesD [OF assms(1) p] reads_store [OF assms(2)] by (cases r) (auto simp: tx_bind_def m)
qed

lemma does_run_tx:
  assumes "\<And>w. P (store w) \<Longrightarrow> \<not> aborted w \<Longrightarrow> wp body (\<lambda>_ w'. E (store w) (store w')) w"
  shows "does P E (run_tx body)"
  unfolding does_def
proof (intro allI impI)
  fix w :: "'a world"
  assume p: "P (store w)"
  obtain r w' where r: "run_tx body w = (r, w')" by fastforce
  have "wp (run_tx body) (\<lambda>_ w'. E (store w) (store w')) w"
    by (rule wp_run_tx) (rule wp_mono [OF assms], simp_all add: p)
  with r show "store (snd (run_tx body w)) = store w \<or> E (store w) (store (snd (run_tx body w)))"
    by (cases r) (auto dest: run_tx_error_frame wpD)
qed

lemma does_map_error: "does P E m \<Longrightarrow> does P E (tx_map_error g m)"
  by (fastforce simp: does_def tx_map_error_def tx_catch_def tx_throw_def split: prod.splits sum.splits)

lemma does_or_internal: "does P E m \<Longrightarrow> does P E (or_internal msg m)"
  unfolding or_internal_def by (rule does_map_error)

lemma does_basic: "does P E (tx_throw e)" "does P E (tx_return x)"
  by (rule does_reads, rule reads_simps)+

lemma does_cases:
  "(c \<Longrightarrow> does P E m) \<Longrightarrow> (\<not> c \<Longrightarrow> does P E n) \<Longrightarrow> does P E (if c then m else n)"
  "(x = None \<Longrightarrow> does P E m) \<Longrightarrow> (\<And>y. x = Some y \<Longrightarrow> does P E (k y)) \<Longrightarrow> does P E (case x of None \<Rightarrow> m | Some y \<Rightarrow> k y)"
  "(\<And>a. z = Inl a \<Longrightarrow> does P E (f a)) \<Longrightarrow> (\<And>b. z = Inr b \<Longrightarrow> does P E (g b)) \<Longrightarrow> does P E (case z of Inl a \<Rightarrow> f a | Inr b \<Rightarrow> g b)"
  "(\<And>a b. p = (a, b) \<Longrightarrow> does P E (h a b)) \<Longrightarrow> does P E (case p of (a, b) \<Rightarrow> h a b)"
  "does P E (l v) \<Longrightarrow> does P E (Let v l)"
  by (cases x; cases z; cases p; auto)+

lemmas does_intros = does_basic does_cases does_or_internal

end
