(* ===== verification/Auth_Spec.thy ===== *)
theory Auth_Spec
  imports Auth_Edge Contracts Effect_Rules
begin

text \<open>
  What the auth service promises, as an abstract specification: \<open>auth_effect a s s'\<close> lists the
  changes of the tables a request of caller \<open>a\<close> may make, each with the conditions under which it
  is allowed. The lemmas show that every use case, with any input, clock, identifiers and faults of
  the database, has one of these effects; the properties of the service are then facts about
  \<open>auth_effect\<close>.
\<close>

subsection \<open>Effects\<close>

definition is_owner :: "auth_db \<Rightarrow> uuid \<Rightarrow> string \<Rightarrow> bool" where
  "is_owner s seller a \<longleftrightarrow>
     (\<exists>u \<in> set (seller_users s). su_seller u = seller \<and> su_user u = a \<and> su_role u = SellerOwner)"

definition is_super :: "auth_db \<Rightarrow> string \<Rightarrow> bool" where
  "is_super s a \<longleftrightarrow> (\<exists>p \<in> set (platform_admins s). pa_user p = a \<and> pa_role p = SuperAdmin)"

definition owners :: "auth_db \<Rightarrow> uuid \<Rightarrow> seller_user list" where
  "owners s seller = filter (\<lambda>u. su_seller u = seller \<and> su_role u = SellerOwner) (seller_users s)"

definition supers :: "auth_db \<Rightarrow> platform_admin list" where
  "supers s = filter (\<lambda>p. pa_role p = SuperAdmin) (platform_admins s)"

definition seller_entry :: "audit_entry \<Rightarrow> uuid \<Rightarrow> string \<Rightarrow> string \<Rightarrow> audit_action \<Rightarrow> string option \<Rightarrow> string option \<Rightarrow> bool" where
  "seller_entry e seller actor target act before after \<longleftrightarrow>
     aud_actor e = actor \<and> aud_target e = target \<and> aud_scope e = SellerUserScope \<and>
     aud_scope_id e = Some seller \<and> aud_action e = act \<and> aud_before e = before \<and> aud_after e = after"

definition admin_entry :: "audit_entry \<Rightarrow> string \<Rightarrow> string \<Rightarrow> audit_action \<Rightarrow> string option \<Rightarrow> string option \<Rightarrow> bool" where
  "admin_entry e actor target act before after \<longleftrightarrow>
     aud_actor e = actor \<and> aud_target e = target \<and> aud_scope e = PlatformAdminScope \<and>
     aud_scope_id e = None \<and> aud_action e = act \<and> aud_before e = before \<and> aud_after e = after"

definition set_member_role :: "uuid \<Rightarrow> seller_role \<Rightarrow> seller_user list \<Rightarrow> seller_user list" where
  "set_member_role i r = update_where (\<lambda>u. su_id u = i) (\<lambda>u. u\<lparr>su_role := r\<rparr>)"

definition set_admin_role :: "uuid \<Rightarrow> platform_role \<Rightarrow> instant \<Rightarrow> platform_admin list \<Rightarrow> platform_admin list" where
  "set_admin_role i r t = update_where (\<lambda>p. pa_id p = i) (\<lambda>p. p\<lparr>pa_role := r, pa_updated := t\<rparr>)"

definition token_well_formed :: "api_token \<Rightarrow> bool" where
  "token_well_formed k \<longleftrightarrow>
     tok_name k \<noteq> '''' \<and> length (tok_name k) \<le> 120
     \<and> length (tok_lookup k) = api_token_lookup_chars \<and> set (tok_lookup k) \<subseteq> set base62_alphabet
     \<and> length (tok_hash k) = 32
     \<and> tok_scopes k \<noteq> [] \<and> distinct (tok_scopes k) \<and> list_all token_scope_valid (tok_scopes k)
     \<and> \<not> limit_not_positive (tok_rps k) \<and> \<not> limit_not_positive (tok_burst k) \<and> tok_issuer k \<noteq> ''''"

inductive auth_effect :: "string \<Rightarrow> auth_db \<Rightarrow> auth_db \<Rightarrow> bool" for a s where
  nothing: "auth_effect a s s"
| register: "\<lbrakk>sel_id x \<notin> sel_id ` set (sellers s); sel_slug x \<notin> sel_slug ` set (sellers s);
     sel_state x = SellerPending; su_id u \<notin> su_id ` set (seller_users s);
     su_user u \<notin> su_user ` set (seller_users s); su_seller u = sel_id x; su_user u = a;
     su_role u = SellerOwner\<rbrakk>
   \<Longrightarrow> auth_effect a s (s\<lparr>sellers := sellers s @ [x], seller_users := seller_users s @ [u]\<rparr>)"
| approve: "\<lbrakk>y \<in> set (sellers s); sel_id y = i; sel_state y = SellerPending\<rbrakk>
   \<Longrightarrow> auth_effect a s (s\<lparr>sellers := update_where (\<lambda>x. sel_id x = i)
         (\<lambda>x. x\<lparr>sel_state := SellerApproved, sel_updated := t\<rparr>) (sellers s)\<rparr>)"
| member_added: "\<lbrakk>is_owner s (su_seller u) a; seller_role_valid (su_role u); su_role u \<noteq> SellerOwner;
     su_id u \<notin> su_id ` set (seller_users s); su_user u \<notin> su_user ` set (seller_users s);
     su_seller u \<in> sel_id ` set (sellers s);
     seller_entry e (su_seller u) a (su_user u) Grant None (null_if_empty (seller_role_text (su_role u)))\<rbrakk>
   \<Longrightarrow> auth_effect a s (s\<lparr>seller_users := seller_users s @ [u], audit_log := audit_log s @ [e]\<rparr>)"
| member_changed: "\<lbrakk>is_owner s (su_seller u) a; u \<in> set (seller_users s); su_id u = i; su_user u \<noteq> a;
     su_role u \<noteq> r; seller_role_valid r; r \<noteq> SellerOwner;
     su_role u = SellerOwner \<Longrightarrow> 1 < length (owners s (su_seller u));
     seller_entry e (su_seller u) a (su_user u) RoleChange (null_if_empty (seller_role_text (su_role u)))
       (null_if_empty (seller_role_text r))\<rbrakk>
   \<Longrightarrow> auth_effect a s (s\<lparr>seller_users := set_member_role i r (seller_users s),
         audit_log := audit_log s @ [e]\<rparr>)"
| member_removed: "\<lbrakk>is_owner s (su_seller u) a; u \<in> set (seller_users s); su_id u = i; su_user u \<noteq> a;
     su_role u = SellerOwner \<Longrightarrow> 1 < length (owners s (su_seller u));
     seller_entry e (su_seller u) a (su_user u) Revoke (null_if_empty (seller_role_text (su_role u))) None\<rbrakk>
   \<Longrightarrow> auth_effect a s (s\<lparr>seller_users := filter (\<lambda>x. su_id x \<noteq> i) (seller_users s),
         audit_log := audit_log s @ [e]\<rparr>)"
| transferred: "\<lbrakk>o' \<in> set (seller_users s); su_user o' = a; su_role o' = SellerOwner;
     u \<in> set (seller_users s); su_seller u = su_seller o'; su_id u \<noteq> su_id o';
     seller_entry e (su_seller u) a (su_user u) TransferOwnership
       (null_if_empty (seller_role_text (su_role u))) (null_if_empty (seller_role_text SellerOwner));
     seller_entry e' (su_seller u) a a RoleChange (null_if_empty (seller_role_text SellerOwner))
       (null_if_empty (seller_role_text SellerAdmin))\<rbrakk>
   \<Longrightarrow> auth_effect a s (s\<lparr>seller_users := set_member_role (su_id u) SellerOwner
         (set_member_role (su_id o') SellerAdmin (seller_users s)), audit_log := audit_log s @ [e, e']\<rparr>)"
| admin_granted: "\<lbrakk>is_super s a \<or> supers s = [] \<and> a = ''system:bootstrap'' \<and> pa_role p = SuperAdmin;
     platform_role_valid (pa_role p);
     pa_id p \<notin> pa_id ` set (platform_admins s); pa_user p \<notin> pa_user ` set (platform_admins s);
     admin_entry e a (pa_user p) Grant None (null_if_empty (platform_role_text (pa_role p)))\<rbrakk>
   \<Longrightarrow> auth_effect a s (s\<lparr>platform_admins := platform_admins s @ [p], audit_log := audit_log s @ [e]\<rparr>)"
| admin_changed: "\<lbrakk>is_super s a; p \<in> set (platform_admins s); pa_id p = i; pa_user p \<noteq> a;
     pa_role p \<noteq> pr; platform_role_valid pr; pa_role p = SuperAdmin \<Longrightarrow> 1 < length (supers s);
     admin_entry e a (pa_user p) RoleChange (null_if_empty (platform_role_text (pa_role p)))
       (null_if_empty (platform_role_text pr))\<rbrakk>
   \<Longrightarrow> auth_effect a s (s\<lparr>platform_admins := set_admin_role i pr t (platform_admins s),
         audit_log := audit_log s @ [e]\<rparr>)"
| admin_revoked: "\<lbrakk>is_super s a; p \<in> set (platform_admins s); pa_id p = i; pa_user p \<noteq> a;
     pa_role p = SuperAdmin \<Longrightarrow> 1 < length (supers s);
     admin_entry e a (pa_user p) Revoke (null_if_empty (platform_role_text (pa_role p))) None\<rbrakk>
   \<Longrightarrow> auth_effect a s (s\<lparr>platform_admins := filter (\<lambda>x. pa_id x \<noteq> i) (platform_admins s),
         audit_log := audit_log s @ [e]\<rparr>)"
| token_issued: "\<lbrakk>is_owner s (tok_seller k) a; tok_issuer k = a; token_well_formed k;
     tok_revoked k = None; tok_id k \<notin> tok_id ` set (api_tokens s);
     (tok_prefix k, tok_lookup k) \<notin> (\<lambda>x. (tok_prefix x, tok_lookup x)) ` set (api_tokens s);
     tok_seller k \<in> sel_id ` set (sellers s)\<rbrakk>
   \<Longrightarrow> auth_effect a s (s\<lparr>api_tokens := api_tokens s @ [k]\<rparr>)"
| token_revoked: "\<lbrakk>k \<in> set (api_tokens s); tok_id k = i; is_owner s (tok_seller k) a\<rbrakk>
   \<Longrightarrow> auth_effect a s (s\<lparr>api_tokens := update_where (\<lambda>k. tok_id k = i \<and> tok_revoked k = None)
         (\<lambda>k. k\<lparr>tok_revoked := Some t, tok_revoked_by := a, tok_updated := t\<rparr>) (api_tokens s)\<rparr>)"
| token_touched:
   "auth_effect a s (s\<lparr>api_tokens := update_where (\<lambda>k. tok_id k = i)
      (\<lambda>k. k\<lparr>tok_last_used := Some t\<rparr>) (api_tokens s)\<rparr>)"
| buyer_saved: "auth_effect a s (s\<lparr>buyers := bs\<rparr>)"

subsection \<open>Operations that have an effect\<close>

definition effects :: "string \<Rightarrow> 'a atx \<Rightarrow> bool" where
  "effects a m \<longleftrightarrow> (\<forall>w. auth_effect a (store w) (store (snd (m w))))"

lemma effects_reads: "reads m \<Longrightarrow> effects a m"
  by (simp add: effects_def reads_store auth_effect.nothing)

text \<open>After a read that tells \<open>P\<close> of the tables.\<close>

lemma effects_bind:
  assumes "reads m" and "\<And>w. wp m (\<lambda>x _. P x (store w)) w"
    and "\<And>x w. P x (store w) \<Longrightarrow> auth_effect a (store w) (store (snd (f x w)))"
  shows "effects a (tx_bind m f)"
  unfolding effects_def
proof
  fix w :: "auth_db world"
  obtain r w' where m: "m w = (r, w')" by fastforce
  with reads_store [OF assms(1), of w] have same: "store w' = store w" by simp
  show "auth_effect a (store w) (store (snd (tx_bind m f w)))"
  proof (cases r)
    case (Inl e)
    with m same show ?thesis by (simp add: tx_bind_def auth_effect.nothing)
  next
    case (Inr x)
    with m wpD [OF assms(2) [of w]] same have "P x (store w')" by simp
    from assms(3) [OF this] m Inr same show ?thesis by (simp add: tx_bind_def)
  qed
qed

lemma effects_bind_read: "reads m \<Longrightarrow> (\<And>x. effects a (f x)) \<Longrightarrow> effects a (tx_bind m f)"
  by (rule effects_bind [where P = "\<lambda>_ _. True"]) (auto simp: effects_def wp_def split: prod.splits sum.splits)

lemma effects_map_error: "effects a m \<Longrightarrow> effects a (tx_map_error g m)"
  by (auto simp: effects_def tx_map_error_def tx_catch_def tx_throw_def split: prod.splits sum.splits)
     (metis snd_conv)+

lemma effects_then_return: "effects a m \<Longrightarrow> effects a (tx_bind m (\<lambda>x. tx_return (f x)))"
  by (auto simp: effects_def tx_bind_def tx_return_def split: prod.splits sum.splits)
     (metis snd_conv)+

lemma run_tx_effect:
  assumes "\<And>w0. store w0 = store w \<Longrightarrow> \<not> aborted w0 \<Longrightarrow>
      wp body (\<lambda>_ w'. auth_effect a (store w) (store w')) w0"
  shows "auth_effect a (store w) (store (snd (run_tx body w)))"
proof (cases "run_tx body w")
  case (Pair r w')
  show ?thesis
  proof (cases r)
    case (Inl e)
    with Pair show ?thesis by (simp add: run_tx_error_frame auth_effect.nothing)
  next
    case (Inr x)
    have "wp (run_tx body) (\<lambda>_ w'. auth_effect a (store w) (store w')) w"
      by (rule wp_run_tx) (rule wp_mono [OF assms], simp_all)
    from wpD [OF this] Pair Inr show ?thesis by simp
  qed
qed

lemma effects_run_tx:
  assumes "\<And>w. \<not> aborted w \<Longrightarrow> wp body (\<lambda>_ w'. auth_effect a (store w) (store w')) w"
  shows "effects a (run_tx body)"
  unfolding effects_def
proof
  fix w
  show "auth_effect a (store w) (store (snd (run_tx body w)))"
    by (rule run_tx_effect) (use assms in force)
qed

lemma effects_run_tx_pool:
  assumes "\<And>w. \<not> aborted w \<Longrightarrow> wp (body (store w)) (\<lambda>_ w'. auth_effect a (store w) (store w')) w"
  shows "effects a (run_tx_pool body)"
  unfolding effects_def run_tx_pool_def
proof
  fix w
  show "auth_effect a (store w) (store (snd (run_tx (body (store w)) w)))"
    by (rule run_tx_effect) (use assms in force)
qed

lemma effects_if: "(c \<Longrightarrow> effects a m) \<Longrightarrow> (\<not> c \<Longrightarrow> effects a n) \<Longrightarrow> effects a (if c then m else n)"
  by simp

lemma effects_throw: "effects a (tx_throw e)" and effects_return: "effects a (tx_return x)"
  by (simp_all add: effects_def tx_throw_def tx_return_def auth_effect.nothing)

lemma effects_case_option:
  "effects a m \<Longrightarrow> (\<And>y. effects a (f y)) \<Longrightarrow> effects a (case x of None \<Rightarrow> m | Some y \<Rightarrow> f y)"
  by (cases x) auto

lemma effects_pool_stmt:
  assumes "\<And>w. auth_effect a (store w) (store (snd (m w)))"
  shows "effects a (pool_stmt m)"
  using assms [of "w\<lparr>aborted := False\<rparr>" for w]
  by (auto simp: effects_def pool_stmt_def split: prod.splits) (metis snd_conv)+

lemmas effects_intros = effects_if effects_throw effects_return effects_case_option effects_map_error

text \<open>A read through the pool inside a transaction.\<close>

lemma wp_on_pool_query:
  fixes q :: "instant \<Rightarrow> auth_db \<Rightarrow> 'a"
  assumes "\<And>t w'. store w' = store w \<Longrightarrow> aborted w' = aborted w \<Longrightarrow> Q (q t c) w'"
  shows "wp (on_pool c (query q)) Q w"
proof (rule wpI)
  fix x w'
  assume on: "on_pool c (query q) w = (Inr x, w')"
  obtain r w1 where r: "run_tx (query q :: 'a atx) (w\<lparr>store := c\<rparr>) = (r, w1)" by fastforce
  with on have x: "r = Inr x" and w': "w' = w1\<lparr>store := store w\<rparr>" by (simp_all add: on_pool_def)
  from r x have "x = q (clock w) c" and "aborted w1 = aborted w"
    by (auto simp: run_tx_def query_def sql_def split: if_splits prod.splits sum.splits)
  with assms [of w' "clock w"] w' show "Q x w'" by simp
qed

end
