(* ===== verification/Auth_Tokens.thy ===== *)
theory Auth_Tokens
  imports Auth_Service
begin

text \<open>
  Access tokens as texts: what \<open>generateBase62\<close> returns and when it does, that \<open>ParseAPIToken\<close>
  takes a generated token apart again, and the width of the stored hash.
\<close>

subsection \<open>The generator\<close>

declare base62_loop.simps [simp del]

lemma base62_loop_result:
  assumes "base62_loop rng n buf_len k buf pos out = Some (Inr (s, k'))"
    and "length out \<le> n" and "set out \<subseteq> set base62_alphabet"
  shows "length s = n \<and> set s \<subseteq> set base62_alphabet"
proof -
  have "\<forall>s k'. r = Inr (s, k') \<longrightarrow> length out \<le> n \<longrightarrow> set out \<subseteq> set base62_alphabet
      \<longrightarrow> length s = n \<and> set s \<subseteq> set base62_alphabet"
    if "base62_loop rng n buf_len k buf pos out = Some r" for r
    using that
  proof (rule base62_loop.raw_induct [rotated])
    fix f :: "rng \<Rightarrow> nat \<Rightarrow> nat \<Rightarrow> nat \<Rightarrow> (nat \<Rightarrow> nat) \<Rightarrow> nat \<Rightarrow> string \<Rightarrow> (unit + string \<times> nat) option"
    fix rng n buf_len k buf pos out r
    assume IH: "\<And>rng n buf_len k buf pos out r. f rng n buf_len k buf pos out = Some r \<Longrightarrow>
        \<forall>s k'. r = Inr (s, k') \<longrightarrow> length out \<le> n \<longrightarrow> set out \<subseteq> set base62_alphabet
          \<longrightarrow> length s = n \<and> set s \<subseteq> set base62_alphabet"
      and step: "(if n \<le> length out then Some (Inr (out, k))
        else if buf_len \<le> pos then
          (case rng k of None \<Rightarrow> Some (Inl ()) | Some buf' \<Rightarrow> f rng n buf_len (Suc k) buf' 0 out)
        else if base62_reject_threshold \<le> buf pos then f rng n buf_len k buf (Suc pos) out
        else f rng n buf_len k buf (Suc pos) (out @ [base62_alphabet ! (buf pos mod 62)])) = Some r"
    have digit: "base62_alphabet ! (buf pos mod 62) \<in> set base62_alphabet"
      by (rule nth_mem) (simp add: base62_alphabet_def)
    show "\<forall>s k'. r = Inr (s, k') \<longrightarrow> length out \<le> n \<longrightarrow> set out \<subseteq> set base62_alphabet
        \<longrightarrow> length s = n \<and> set s \<subseteq> set base62_alphabet"
      using step digit by (auto split: if_splits option.splits dest!: IH)
  qed
  with assms show ?thesis by blast
qed

lemma generate_base62_result:
  "generate_base62 rng k n = Some (Inr (s, k')) \<Longrightarrow> length s = n \<and> set s \<subseteq> set base62_alphabet"
  unfolding generate_base62_def Let_def by (drule base62_loop_result) simp_all

text \<open>
  \<open>useful\<close>: a read that fails or brings at least one accepted byte. The rest of a buffer is
  scanned to its end, or the text is complete before.
\<close>

definition useful :: "nat \<Rightarrow> (nat \<Rightarrow> nat) option \<Rightarrow> bool" where
  "useful buf_len r \<longleftrightarrow> (case r of None \<Rightarrow> True | Some buf \<Rightarrow> \<exists>j < buf_len. buf j < base62_reject_threshold)"

lemma useful_mono: "useful m r \<Longrightarrow> m \<le> n \<Longrightarrow> useful n r"
  by (cases r) (auto simp: useful_def intro: less_le_trans)

lemma base62_scan:
  assumes "pos \<le> buf_len"
  shows "(\<exists>r. base62_loop rng n buf_len k buf pos out = Some r) \<or>
    (\<exists>out'. base62_loop rng n buf_len k buf pos out = base62_loop rng n buf_len k buf buf_len out' \<and>
       length out' < n \<and> length out \<le> length out' \<and>
       ((\<exists>j. pos \<le> j \<and> j < buf_len \<and> buf j < base62_reject_threshold) \<longrightarrow> length out < length out'))"
  using assms
proof (induction "buf_len - pos" arbitrary: pos out)
  case 0
  then have "pos = buf_len" by simp
  then show ?case by (cases "n \<le> length out") (auto simp: base62_loop.simps)
next
  case (Suc m)
  show ?case
  proof (cases "n \<le> length out")
    case True
    then show ?thesis by (simp add: base62_loop.simps)
  next
    case False
    from Suc.hyps(2) have pos: "pos < buf_len" and m: "m = buf_len - Suc pos" by simp_all
    define out1 where "out1 = (if base62_reject_threshold \<le> buf pos then out
      else out @ [base62_alphabet ! (buf pos mod 62)])"
    have step: "base62_loop rng n buf_len k buf pos out = base62_loop rng n buf_len k buf (Suc pos) out1"
      using False pos by (subst base62_loop.simps) (simp add: out1_def)
    have grow: "length out \<le> length out1" "buf pos < base62_reject_threshold \<Longrightarrow> length out < length out1"
      by (simp_all add: out1_def)
    from Suc.hyps(1) [OF m, of out1] pos
    consider (returns) r where "base62_loop rng n buf_len k buf (Suc pos) out1 = Some r"
      | (scanned) out' where "base62_loop rng n buf_len k buf (Suc pos) out1 = base62_loop rng n buf_len k buf buf_len out'"
          "length out' < n" "length out1 \<le> length out'"
          "(\<exists>j. Suc pos \<le> j \<and> j < buf_len \<and> buf j < base62_reject_threshold) \<longrightarrow> length out1 < length out'"
      by auto
    then show ?thesis
    proof cases
      case returns
      with step show ?thesis by simp
    next
      case scanned
      have "length out < length out'" if "pos \<le> j" "j < buf_len" "buf j < base62_reject_threshold" for j
        using that scanned(3,4) grow by (cases "j = pos") force+
      with scanned step grow(1) show ?thesis by (intro disjI2 exI [of _ out']) auto
    qed
  qed
qed

lemma base62_loop_returns:
  assumes source: "\<And>k. \<exists>k' \<ge> k. useful buf_len (rng k')"
  shows "\<exists>r. base62_loop rng n buf_len k buf buf_len out = Some r"
proof (induction "n - length out" arbitrary: k buf out rule: less_induct)
  case outer: less
  obtain k0 where "k \<le> k0" and k0: "useful buf_len (rng k0)" using source by blast
  have "\<exists>r. base62_loop rng n buf_len k buf buf_len out1 = Some r"
    if "k \<le> k0" "length out1 = length out" for k buf out1
    using that
  proof (induction "k0 - k" arbitrary: k buf out1 rule: less_induct)
    case inner: less
    show ?case
    proof (cases "n \<le> length out1 \<or> rng k = None")
      case True
      then show ?thesis by (subst base62_loop.simps) auto
    next
      case False
      then obtain buf' where buf': "rng k = Some buf'" by auto
      have step: "base62_loop rng n buf_len k buf buf_len out1 = base62_loop rng n buf_len (Suc k) buf' 0 out1"
        using False buf' by (subst base62_loop.simps) simp
      from base62_scan [of 0 buf_len rng n "Suc k" buf' out1]
      consider (returns) r where "base62_loop rng n buf_len (Suc k) buf' 0 out1 = Some r"
        | (longer) out' where "base62_loop rng n buf_len (Suc k) buf' 0 out1 = base62_loop rng n buf_len (Suc k) buf' buf_len out'"
            "length out' < n" "length out1 < length out'"
        | (same) out' where "base62_loop rng n buf_len (Suc k) buf' 0 out1 = base62_loop rng n buf_len (Suc k) buf' buf_len out'"
            "length out' = length out1" "\<not> useful buf_len (rng k)"
        using buf' by (force simp: useful_def)
      then show ?thesis
      proof cases
        case returns
        with step show ?thesis by simp
      next
        case longer
        with inner.prems have "n - length out' < n - length out" by simp
        from outer.hyps [OF this] longer(1) step show ?thesis by simp
      next
        case same
        then have "k \<noteq> k0" using k0 by auto
        with inner.prems have "k0 - Suc k < k0 - k" "Suc k \<le> k0" by simp_all
        from inner.hyps [OF this] same(1,2) step inner.prems show ?thesis by simp
      qed
    qed
  qed
  with \<open>k \<le> k0\<close> show ?case by simp
qed

text \<open>A source that keeps giving bytes that are rejected is never left.\<close>

lemma base62_loop_stuck:
  assumes "\<And>k. \<exists>buf. rng k = Some buf \<and> (\<forall>j. base62_reject_threshold \<le> buf j)"
    and "length out < n" and "buf_len \<le> pos \<or> (\<forall>j. base62_reject_threshold \<le> buf j)"
  shows "base62_loop rng n buf_len k buf pos out = None"
proof (rule ccontr)
  assume "base62_loop rng n buf_len k buf pos out \<noteq> None"
  then obtain r where "base62_loop rng n buf_len k buf pos out = Some r" by auto
  then have "(\<forall>k. \<exists>buf. rng k = Some buf \<and> (\<forall>j. base62_reject_threshold \<le> buf j)) \<longrightarrow>
      length out < n \<longrightarrow> buf_len \<le> pos \<or> (\<forall>j. base62_reject_threshold \<le> buf j) \<longrightarrow> False"
  proof (rule base62_loop.raw_induct [rotated])
    fix f :: "rng \<Rightarrow> nat \<Rightarrow> nat \<Rightarrow> nat \<Rightarrow> (nat \<Rightarrow> nat) \<Rightarrow> nat \<Rightarrow> string \<Rightarrow> (unit + string \<times> nat) option"
    fix rng :: rng and n buf_len k buf pos out r
    assume IH: "\<And>rng n buf_len k buf pos out r. f rng n buf_len k buf pos out = Some r \<Longrightarrow>
        (\<forall>k. \<exists>buf. rng k = Some buf \<and> (\<forall>j. base62_reject_threshold \<le> buf j)) \<longrightarrow>
        length out < n \<longrightarrow> buf_len \<le> pos \<or> (\<forall>j. base62_reject_threshold \<le> buf j) \<longrightarrow> False"
      and step: "(if n \<le> length out then Some (Inr (out, k))
        else if buf_len \<le> pos then
          (case rng k of None \<Rightarrow> Some (Inl ()) | Some buf' \<Rightarrow> f rng n buf_len (Suc k) buf' 0 out)
        else if base62_reject_threshold \<le> buf pos then f rng n buf_len k buf (Suc pos) out
        else f rng n buf_len k buf (Suc pos) (out @ [base62_alphabet ! (buf pos mod 62)])) = Some r"
    show "(\<forall>k. \<exists>buf. rng k = Some buf \<and> (\<forall>j. base62_reject_threshold \<le> buf j)) \<longrightarrow>
        length out < n \<longrightarrow> buf_len \<le> pos \<or> (\<forall>j. base62_reject_threshold \<le> buf j) \<longrightarrow> False"
    proof (intro impI)
      assume rej: "\<forall>k. \<exists>buf. rng k = Some buf \<and> (\<forall>j. base62_reject_threshold \<le> buf j)"
        and short: "length out < n" and pos: "buf_len \<le> pos \<or> (\<forall>j. base62_reject_threshold \<le> buf j)"
      from rej obtain buf' where buf': "rng k = Some buf'" "\<forall>j. base62_reject_threshold \<le> buf' j" by blast
      show False
      proof (cases "buf_len \<le> pos")
        case True
        with step short buf' have "f rng n buf_len (Suc k) buf' 0 out = Some r" by simp
        from IH [OF this] rej short buf' show False by blast
      next
        case False
        with pos have all: "\<forall>j. base62_reject_threshold \<le> buf j" by simp
        with False step short have "f rng n buf_len k buf (Suc pos) out = Some r" by simp
        from IH [OF this] rej short all show False by blast
      qed
    qed
  qed
  with assms show False by blast
qed

subsection \<open>Taking a token apart\<close>

lemma has_prefix_drop: "has_prefix (p @ s) p \<and> drop (length p) (p @ s) = s"
  by (simp add: has_prefix_append)

lemma index_byte_append:
  "c \<notin> set a \<Longrightarrow> index_byte (a @ c # b) c = int (length a)"
  by (induction a) (auto simp: Let_def)

lemma underscore_not_base62: "CHR ''_'' \<notin> set base62_alphabet"
  by (simp add: base62_alphabet_def)

lemma parse_joined:
  assumes "prefix \<noteq> ''''" and "lookup \<noteq> ''''" and "secret \<noteq> ''''" and "CHR ''_'' \<notin> set lookup"
  shows "parse_api_token (prefix @ lookup @ ''_'' @ secret) prefix = Inr (lookup, secret)"
proof -
  have i: "index_byte (lookup @ CHR ''_'' # secret) (CHR ''_'') = int (length lookup)"
    using assms(4) by (rule index_byte_append)
  have "length lookup \<noteq> 0" "length secret \<noteq> 0" using assms by simp_all
  with i has_prefix_drop [of prefix "lookup @ ''_'' @ secret"] assms(1) show ?thesis
    by (simp add: parse_api_token_def Let_def nat_add_distrib)
qed

lemma generate_api_token_parts:
  assumes "generate_api_token rng prefix = Some (Inr (plaintext, lookup, hash))"
  obtains secret where "plaintext = prefix @ lookup @ ''_'' @ secret" and "hash = sha256 secret"
    and "length lookup = api_token_lookup_chars" and "set lookup \<subseteq> set base62_alphabet"
    and "length secret = api_token_secret_chars" and "set secret \<subseteq> set base62_alphabet"
  using assms
  by (auto simp: generate_api_token_def split: option.splits sum.splits prod.splits
      dest!: generate_base62_result)

subsection \<open>The hash\<close>

lemma compress_round_length: "length (compress_round k w v) = length v"
  by (auto simp: compress_round_def Let_def split: list.splits)

lemma compress_rounds_length: "length (compress_rounds ks ws v) = length v"
  by (induction ks ws v rule: compress_rounds.induct) (simp_all add: compress_round_length)

lemma sha_blocks_length: "length (sha_blocks n ws h) = length h"
  by (induction n ws h rule: sha_blocks.induct) (simp_all add: compress_def compress_rounds_length)

lemma sha256_length: "length (sha256 s) = 32"
proof -
  have "length (concat (map bytes_of_word ws)) = 4 * length ws" for ws
    by (induction ws) (simp_all add: bytes_of_word_def Let_def)
  then show ?thesis
    by (simp add: sha256_def sha256_bytes_def Let_def sha_blocks_length initial_hash_def)
qed

end
