(* ===== verification/Auth_Effects.thy ===== *)
theory Auth_Effects
  imports Auth_Spec Auth_Tokens
begin

text \<open>
  The use cases of the auth service have the effects of theory Auth_Spec: first what the repository
  operations and the shared checks do to the tables, then each use case.
\<close>

subsection \<open>Repository operations\<close>

lemma wp_require_seller_role [wp_intros]:
  assumes "\<And>w'. store w' = store w \<Longrightarrow> clock w' = clock w \<Longrightarrow> is_owner (store w) seller a \<Longrightarrow> Q () w'"
  shows "wp (require_seller_role seller a SellerOwner) Q w"
  unfolding require_seller_role_def check_seller_role_def
proof (intro wp_intros)
  fix w' :: "auth_db world" and r
  assume w': "store w' = store w" "clock w' = clock w"
    and r: "map_option su_role (find (\<lambda>u. su_seller u = seller \<and> su_user u = a) (seller_users (store w))) = Some r"
    and rank: "\<not> (r = SellerRoleOther '''' \<or> \<not> seller_at_least r SellerOwner)"
  from rank have "r = SellerOwner" by (cases r) (simp_all add: seller_at_least_def)
  with r have "is_owner (store w) seller a"
    unfolding is_owner_def by (auto dest: find_Some_mem)
  with w' show "Q () w'" by (rule assms)
qed

lemma wp_require_platform_role [wp_intros]:
  assumes "\<And>w'. store w' = store w \<Longrightarrow> clock w' = clock w \<Longrightarrow> is_super (store w) a \<Longrightarrow> Q () w'"
  shows "wp (require_platform_role a SuperAdmin) Q w"
  unfolding require_platform_role_def check_admin_role_def
proof (intro wp_intros)
  fix w' :: "auth_db world" and r
  assume w': "store w' = store w" "clock w' = clock w"
    and r: "map_option pa_role (find (\<lambda>p. pa_user p = a) (platform_admins (store w))) = Some r"
    and rank: "\<not> (r = PlatformRoleOther '''' \<or> \<not> platform_at_least r SuperAdmin)"
  from rank have "r = SuperAdmin" by (cases r) (simp_all add: platform_at_least_def)
  with r have "is_super (store w) a"
    unfolding is_super_def by (auto dest: find_Some_mem)
  with w' show "Q () w'" by (rule assms)
qed

lemma wp_seller_target [wp_intros]:
  assumes "\<And>u w'. store w' = store w \<Longrightarrow> u \<in> set (seller_users c) \<Longrightarrow> su_id u = i \<Longrightarrow>
    su_seller u = seller \<Longrightarrow> Q u w'"
  shows "wp (seller_target c seller i) Q w"
  unfolding seller_target_def seller_user_by_id_def
  by (intro wp_bindI wp_on_pool_query wp_case_optionI wp_ifI wp_throwI wp_returnI assms)
     (auto dest: find_Some_mem)

lemma wp_admin_target [wp_intros]:
  assumes "\<And>p w'. store w' = store w \<Longrightarrow> p \<in> set (platform_admins c) \<Longrightarrow> pa_id p = i \<Longrightarrow> Q p w'"
  shows "wp (admin_target c i) Q w"
  unfolding admin_target_def admin_by_id_def
  by (intro wp_bindI wp_on_pool_query wp_case_optionI wp_throwI wp_returnI assms)
     (auto dest: find_Some_mem)

lemma wp_guard_last_owner [wp_intros]:
  assumes "\<And>w'. store w' = store w \<Longrightarrow>
    (su_role u = SellerOwner \<Longrightarrow> 1 < length (owners (store w) seller)) \<Longrightarrow> Q () w'"
  shows "wp (guard_last_owner seller u) Q w"
  unfolding guard_last_owner_def count_seller_role_def
  by (intro wp_intros assms) (auto simp: owners_def)

lemma wp_guard_last_super [wp_intros]:
  assumes "\<And>w'. store w' = store w \<Longrightarrow>
    (pa_role p = SuperAdmin \<Longrightarrow> 1 < length (supers (store w))) \<Longrightarrow> Q () w'"
  shows "wp (guard_last_super p) Q w"
  unfolding guard_last_super_def count_admin_role_def
  by (intro wp_intros assms) (auto simp: supers_def)

lemma wp_append_audit:
  assumes "\<And>e w'. store w' = (store w)\<lparr>audit_log := audit_log (store w) @ [e]\<rparr> \<Longrightarrow>
    aud_actor e = actor \<Longrightarrow> aud_target e = target \<Longrightarrow> aud_scope e = sc \<Longrightarrow> aud_scope_id e = sid \<Longrightarrow>
    aud_action e = act \<Longrightarrow> aud_before e = null_if_empty b \<Longrightarrow> aud_after e = null_if_empty r \<Longrightarrow> Q () w'"
  shows "wp (append_audit actor target sc sid act b r) Q w"
  unfolding append_audit_def
proof (intro wp_bindI wp_new_uuidI wp_sqlI)
  fix i x s' and w1 w2 :: "auth_db world"
  let ?e = "\<lparr>aud_id = i, aud_actor = actor, aud_target = target, aud_scope = sc, aud_scope_id = sid,
    aud_action = act, aud_before = null_if_empty b, aud_after = null_if_empty r,
    aud_created = clock w1\<rparr>"
  assume "store w1 = store w" and "store w2 = s'"
    and "(if i \<in> set (map aud_id (audit_log (store w1))) then Inl (UniqueViolation ''rbac_audit_log_pkey'')
       else Inr ((), (store w1)\<lparr>audit_log := audit_log (store w1) @ [?e]\<rparr>)) = Inr (x, s')"
  then have "store w2 = (store w)\<lparr>audit_log := audit_log (store w) @ [?e]\<rparr>"
    by (auto split: if_splits)
  then show "Q x w2" using assms [of w2 ?e] by simp
qed

lemma wp_append_seller [wp_intros]:
  assumes "\<And>e w'. store w' = (store w)\<lparr>audit_log := audit_log (store w) @ [e]\<rparr> \<Longrightarrow>
    seller_entry e seller actor target act (null_if_empty b) (null_if_empty r) \<Longrightarrow> Q () w'"
  shows "wp (append_audit actor target SellerUserScope (Some seller) act b r) Q w"
  by (rule wp_append_audit) (rule assms, simp_all add: seller_entry_def)

lemma wp_append_admin [wp_intros]:
  assumes "\<And>e w'. store w' = (store w)\<lparr>audit_log := audit_log (store w) @ [e]\<rparr> \<Longrightarrow>
    admin_entry e actor target act (null_if_empty b) (null_if_empty r) \<Longrightarrow> Q () w'"
  shows "wp (append_audit actor target PlatformAdminScope None act b r) Q w"
  by (rule wp_append_audit) (rule assms, simp_all add: admin_entry_def)

lemma wp_update_seller_user_row [wp_intros]:
  assumes "\<And>w'. store w' = (store w)\<lparr>seller_users := set_member_role i r (seller_users (store w))\<rparr> \<Longrightarrow> Q () w'"
  shows "wp (update_seller_user_row i r) Q w"
  unfolding update_seller_user_row_def
  by (intro wp_bindI wp_sqlI wp_ifI wp_throwI wp_returnI assms)
     (auto simp: update_seller_role_stmt_def set_member_role_def Let_def split: if_splits)

lemma wp_delete_seller_user [wp_intros]:
  assumes "\<And>w'. store w' = (store w)\<lparr>seller_users := filter (\<lambda>u. su_id u \<noteq> i) (seller_users (store w))\<rparr> \<Longrightarrow> Q () w'"
  shows "wp (delete_seller_user i) Q w"
  unfolding delete_seller_user_def
  by (intro wp_bindI wp_sqlI wp_ifI wp_throwI wp_returnI assms) auto

lemma wp_update_admin_row [wp_intros]:
  assumes "\<And>t w'. store w' = (store w)\<lparr>platform_admins := set_admin_role i r t (platform_admins (store w))\<rparr> \<Longrightarrow> Q () w'"
  shows "wp (update_admin_row i r) Q w"
  unfolding update_admin_row_def
  by (intro wp_bindI wp_sqlI wp_ifI wp_throwI wp_returnI, rule assms [of _ "clock w"])
     (auto simp: update_admin_role_stmt_def set_admin_role_def Let_def split: if_splits)

lemma wp_delete_admin [wp_intros]:
  assumes "\<And>w'. store w' = (store w)\<lparr>platform_admins := filter (\<lambda>p. pa_id p \<noteq> i) (platform_admins (store w))\<rparr> \<Longrightarrow> Q () w'"
  shows "wp (delete_admin i) Q w"
  unfolding delete_admin_def
  by (intro wp_bindI wp_sqlI wp_ifI wp_throwI wp_returnI assms) auto

lemma insert_seller_user_result:
  "insert_seller_user_stmt u t s = Inr (u', s') \<Longrightarrow>
     u' = u\<lparr>su_created := t\<rparr> \<and> s' = s\<lparr>seller_users := seller_users s @ [u']\<rparr> \<and> seller_role_valid (su_role u)
     \<and> su_id u \<notin> su_id ` set (seller_users s) \<and> su_user u \<notin> su_user ` set (seller_users s)
     \<and> su_seller u \<in> sel_id ` set (sellers s)"
  by (auto simp: insert_seller_user_stmt_def Let_def split: if_splits)

lemma wp_insert_seller_user [wp_intros]:
  assumes "\<And>u w'. store w' = (store w)\<lparr>seller_users := seller_users (store w) @ [u]\<rparr> \<Longrightarrow>
    su_seller u = seller \<Longrightarrow> su_user u = x \<Longrightarrow> su_role u = r \<Longrightarrow> seller_role_valid r \<Longrightarrow>
    su_id u \<notin> su_id ` set (seller_users (store w)) \<Longrightarrow> x \<notin> su_user ` set (seller_users (store w)) \<Longrightarrow>
    seller \<in> sel_id ` set (sellers (store w)) \<Longrightarrow> Q u w'"
  shows "wp (insert_seller_user seller x r) Q w"
  unfolding insert_seller_user_def
  by (intro wp_bindI wp_new_uuidI wp_sqlI, drule insert_seller_user_result, rule assms) auto

lemma insert_admin_result:
  "insert_admin_stmt p t s = Inr (p', s') \<Longrightarrow>
     p' = p\<lparr>pa_created := t, pa_updated := t\<rparr> \<and> s' = s\<lparr>platform_admins := platform_admins s @ [p']\<rparr>
     \<and> platform_role_valid (pa_role p)
     \<and> pa_id p \<notin> pa_id ` set (platform_admins s) \<and> pa_user p \<notin> pa_user ` set (platform_admins s)"
  by (auto simp: insert_admin_stmt_def Let_def split: if_splits)

lemma wp_insert_admin [wp_intros]:
  assumes "\<And>p w'. store w' = (store w)\<lparr>platform_admins := platform_admins (store w) @ [p]\<rparr> \<Longrightarrow>
    pa_user p = x \<Longrightarrow> pa_role p = r \<Longrightarrow> platform_role_valid r \<Longrightarrow>
    pa_id p \<notin> pa_id ` set (platform_admins (store w)) \<Longrightarrow> x \<notin> pa_user ` set (platform_admins (store w)) \<Longrightarrow>
    Q p w'"
  shows "wp (insert_admin x r) Q w"
  unfolding insert_admin_def
  by (intro wp_bindI wp_new_uuidI wp_sqlI, drule insert_admin_result, rule assms) auto

subsection \<open>Transactions\<close>

text \<open>The audit rows of an effect speak of the tables as they were.\<close>

lemma owners_audit [simp]: "owners (s\<lparr>audit_log := es\<rparr>) i = owners s i"
  by (simp add: owners_def)

lemma add_seller_user_effect:
  assumes "r \<noteq> SellerOwner"
  shows "effects a (run_tx (add_seller_user_tx seller a x r))"
  unfolding add_seller_user_tx_def seller_user_by_auth0_def
  by (intro effects_run_tx wp_intros) (simp add: auth_effect.member_added null_if_empty_def assms)

lemma update_seller_role_effect:
  assumes "r \<noteq> SellerOwner" and "seller_role_valid r"
  shows "effects a (run_tx_pool (update_seller_role_tx seller a i r))"
  unfolding update_seller_role_tx_def
  by (intro effects_run_tx_pool wp_intros)
     (auto simp: assms auth_effect.nothing intro!: auth_effect.member_changed)

lemma remove_seller_user_effect: "effects a (run_tx_pool (remove_seller_user_tx seller a i))"
  unfolding remove_seller_user_tx_def
  by (intro effects_run_tx_pool wp_intros)
     (auto simp: null_if_empty_def intro!: auth_effect.member_removed)

lemma transfer_ownership_effect: "effects a (run_tx_pool (transfer_ownership_tx seller a i))"
  unfolding transfer_ownership_tx_def seller_user_by_auth0_def
  by (intro effects_run_tx_pool wp_intros) (auto dest!: find_Some_mem intro!: auth_effect.transferred)

lemma grant_admin_effect: "effects a (run_tx (grant_admin_tx a x r))"
  unfolding grant_admin_tx_def admin_by_auth0_def
  by (intro effects_run_tx wp_intros) (simp add: auth_effect.admin_granted null_if_empty_def)

lemma update_admin_role_effect:
  assumes "platform_role_valid r"
  shows "effects a (run_tx_pool (update_admin_role_tx a i r))"
  unfolding update_admin_role_tx_def
  by (intro effects_run_tx_pool wp_intros)
     (auto simp: assms auth_effect.nothing intro!: auth_effect.admin_changed)

lemma revoke_admin_effect: "effects a (run_tx_pool (revoke_admin_tx a i))"
  unfolding revoke_admin_tx_def
  by (intro effects_run_tx_pool wp_intros)
     (auto simp: null_if_empty_def intro!: auth_effect.admin_revoked)

lemma insert_seller_result:
  "insert_seller_stmt x t s = Inr (x', s') \<Longrightarrow>
     \<exists>row. s' = s\<lparr>sellers := sellers s @ [row]\<rparr> \<and> sel_id row = sel_id x \<and> sel_slug row = sel_slug x
       \<and> sel_state row = sel_state x \<and> sel_id x' = sel_id x
       \<and> sel_id x \<notin> sel_id ` set (sellers s) \<and> sel_slug x \<notin> sel_slug ` set (sellers s)"
  by (auto simp: insert_seller_stmt_def Let_def split: if_splits)

lemma wp_insert_seller:
  assumes "\<And>row x' w'. store w' = (store w)\<lparr>sellers := sellers (store w) @ [row]\<rparr> \<Longrightarrow>
    sel_id x' = sel_id row \<Longrightarrow> sel_slug row = sel_slug x \<Longrightarrow> sel_state row = sel_state x \<Longrightarrow>
    sel_id row \<notin> sel_id ` set (sellers (store w)) \<Longrightarrow>
    sel_slug row \<notin> sel_slug ` set (sellers (store w)) \<Longrightarrow> Q x' w'"
  shows "wp (insert_seller x) Q w"
proof -
  have ok: "Q x' w'" if "insert_seller_stmt (x\<lparr>sel_id := i\<rparr>) (clock w1) (store w1) = Inr (x', s')"
    "store w' = s'" "store w1 = store w" for i x' s' and w' w1 :: "auth_db world"
  proof -
    from insert_seller_result [OF that(1)] obtain row where row: "s' = (store w1)\<lparr>sellers := sellers (store w1) @ [row]\<rparr>"
      "sel_id row = i" "sel_slug row = sel_slug x" "sel_state row = sel_state x" "sel_id x' = i"
      "i \<notin> sel_id ` set (sellers (store w1))" "sel_slug x \<notin> sel_slug ` set (sellers (store w1))"
      by auto
    show ?thesis by (rule assms [of w' row x']) (use row that in simp_all)
  qed
  show ?thesis
    unfolding insert_seller_def
    by (intro wp_bindI wp_ifI wp_new_uuidI wp_returnI wp_sqlI) (rule ok, assumption, simp, simp)+
qed

lemma create_seller_effect:
  assumes "sel_state x = SellerPending"
  shows "effects a (run_tx (
    tx_bind (insert_seller x) (\<lambda>x'. tx_bind (insert_seller_user (sel_id x') a SellerOwner) (\<lambda>_. tx_return x'))))"
  by (intro effects_run_tx wp_bindI wp_insert_seller wp_insert_seller_user wp_returnI)
     (simp add: auth_effect.register assms)

lemma bootstrap_effect:
  assumes "supers (store w) = []"
  shows "auth_effect ''system:bootstrap'' (store w) (store (snd (run_tx (
    tx_bind (insert_admin u SuperAdmin) (\<lambda>_.
    append_audit ''system:bootstrap'' u PlatformAdminScope None Grant '''' (platform_role_text SuperAdmin))) w)))"
  by (intro run_tx_effect wp_intros)
     (simp add: auth_effect.admin_granted null_if_empty_def assms)

lemma update_status_effect:
  assumes "y \<in> set (sellers (store w))" and "sel_id y = i" and "sel_state y = SellerPending"
  shows "auth_effect a (store w) (store (snd (update_seller_status i SellerApproved w)))"
  unfolding update_seller_status_def update_sellers_def
  by (intro run_tx_effect wp_bindI wp_sqlI wp_ifI wp_throwI wp_returnI)
     (auto intro: auth_effect.approve [of y] assms)

lemma issue_token_effect:
  assumes "token_well_formed k" and "tok_issuer k = a" and "tok_revoked k = None" and "tok_seller k = seller"
  shows "effects a (run_tx (issue_token_tx seller a k))"
proof -
  have wf: "token_well_formed (k\<lparr>tok_id := i, tok_created := t, tok_updated := t\<rparr>)" for i t
    using assms(1) by (simp add: token_well_formed_def)
  show ?thesis
    unfolding issue_token_tx_def insert_token_def
    by (intro effects_run_tx wp_bindI wp_require_seller_role wp_ifI wp_throwI wp_new_uuidI wp_sqlI)
       (auto simp: insert_token_stmt_def Let_def assms wf split: if_splits
         intro!: auth_effect.token_issued)
qed

lemma revoke_token_effect:
  assumes "k \<in> set (api_tokens (store w))" and "tok_id k = i" and "tok_seller k = seller"
  shows "auth_effect a (store w) (store (snd (run_tx (revoke_token_tx seller a i) w)))"
proof -
  have eff: "auth_effect a (store w) ((store w)\<lparr>api_tokens := update_where (\<lambda>k. tok_id k = i \<and> tok_revoked k = None)
         (\<lambda>k. k\<lparr>tok_revoked := Some t, tok_revoked_by := a, tok_updated := t\<rparr>) (api_tokens (store w))\<rparr>)"
    if "is_owner (store w) seller a" for t
    using that assms by (intro auth_effect.token_revoked [of k]) auto
  show ?thesis
    unfolding revoke_token_tx_def revoke_token_def Let_def
    by (intro run_tx_effect wp_bindI wp_require_seller_role wp_sqlI wp_ifI wp_queryI wp_throwI wp_returnI)
       (auto intro!: eff)
qed

end
