(* ===== verification/Auth_Traces.thy ===== *)
theory Auth_Traces
  imports Auth_Effects
begin

text \<open>
  The auth service as a state machine: a step is one use case by one caller (\<open>''\<close> without an
  identity, \<open>system:bootstrap\<close> for the bootstrap at startup), the background update of a token's
  last use, or anything the environment does to the clock, the identifiers and the faults. Every
  step has an effect of theory Auth_Spec.
\<close>

subsection \<open>Use cases have their effects\<close>

definition caller_name :: "string option \<Rightarrow> string" where
  "caller_name caller = (case caller of None \<Rightarrow> '''' | Some u \<Rightarrow> u)"

lemma effects_with_caller:
  "(\<And>u. caller_name caller = u \<Longrightarrow> u \<noteq> '''' \<Longrightarrow> effects u (f u)) \<Longrightarrow>
   effects (caller_name caller) (with_caller caller msg f)"
  by (auto simp: with_caller_def caller_identity_def caller_name_def effects_throw split: option.splits)

lemma auth_reads:
  "reads (seller_by_id i)" "reads (seller_by_slug g)" "reads (list_seller_rows lim off)"
  "reads (sellers_by_ids is)" "reads (list_by_seller seller)" "reads list_admin_rows"
  "reads (list_audit_rows lim off)" "reads (token_by_id i)" "reads (tokens_by_seller seller lim off)"
  "reads (token_by_lookup p l)" "reads (run_tx (seller_user_by_auth0 seller u))"
  "reads (run_tx (admin_by_auth0 u))" "reads (run_tx (count_admin_role r))"
  unfolding seller_by_id_def seller_by_slug_def list_seller_rows_def sellers_by_ids_def list_by_seller_def
    list_admin_rows_def list_audit_rows_def token_by_id_def tokens_by_seller_def token_by_lookup_def
    seller_user_by_auth0_def admin_by_auth0_def count_admin_role_def
  by (rule readsI; intro keeps_intros)+

lemmas auth_reads_intros = reads_intros auth_reads

lemma auth_queries_read:
  "reads (get_seller i)" "reads (list_sellers lim off)" "reads (batch_get_sellers is)"
  "reads (lookup_seller_role seller u)" "reads (lookup_platform_role u)" "reads (list_seller_team seller)"
  "reads list_platform_admins" "reads (list_rbac_audit_log lim off)" "reads (list_api_tokens seller lim off)"
  "reads (get_api_token seller i)" "reads (lookup_api_token p l secret)"
  unfolding get_seller_def list_sellers_def batch_get_sellers_def lookup_seller_role_def
    lookup_platform_role_def list_seller_team_def list_platform_admins_def list_rbac_audit_log_def
    list_api_tokens_def get_api_token_def lookup_api_token_def
  by (intro auth_reads_intros)+

lemma create_seller_effects: "effects (caller_name caller) (create_seller caller x)"
  unfolding create_seller_def
  by (intro effects_with_caller effects_bind_read reads_or_internal auth_reads effects_if effects_throw)
     (auto simp: or_internal_def intro!: effects_map_error create_seller_effect)

lemma approve_seller_effects: "effects a (approve_seller i)"
  unfolding approve_seller_def
proof (rule effects_bind [where P = "\<lambda>x s. \<forall>y. x = Some y \<longrightarrow> y \<in> set (sellers s) \<and> sel_id y = i"])
  show "reads (or_internal ''failed to get seller'' (seller_by_id i))"
    by (intro auth_reads_intros)
  show "wp (or_internal ''failed to get seller'' (seller_by_id i))
      (\<lambda>x _. \<forall>y. x = Some y \<longrightarrow> y \<in> set (sellers (store w)) \<and> sel_id y = i) w" for w
    unfolding or_internal_def seller_by_id_def by (intro wp_intros) (auto dest: find_Some_mem)
next
  fix x and w :: "auth_db world"
  assume found: "\<forall>y. x = Some y \<longrightarrow> y \<in> set (sellers (store w)) \<and> sel_id y = i"
  have "auth_effect a (store w) (store (snd (update_seller_status i SellerApproved w)))"
    if "x = Some y" "sel_state y = SellerPending" for y
    using update_status_effect [of y w i a] found that by simp
  then show "auth_effect a (store w) (store (snd ((case x of
      None \<Rightarrow> tx_throw (not_found ''seller not found'')
    | Some y \<Rightarrow> if sel_state y \<noteq> SellerPending then tx_throw (bad_request ''seller is not in pending status'')
              else or_internal ''failed to approve seller'' (update_seller_status i SellerApproved)) w)))"
    by (auto simp: tx_throw_def auth_effect.nothing or_internal_def tx_map_error_def tx_catch_def
        split: option.splits prod.splits sum.splits)
qed

lemma seller_team_effects:
  "effects (caller_name caller) (add_seller_user caller seller x r)"
  "effects (caller_name caller) (update_seller_user_role caller seller i r)"
  "effects (caller_name caller) (remove_seller_user caller seller i)"
  "effects (caller_name caller) (transfer_seller_ownership caller seller i)"
  unfolding add_seller_user_def update_seller_user_role_def remove_seller_user_def transfer_seller_ownership_def
  by (intro effects_if effects_throw effects_with_caller effects_map_error add_seller_user_effect
      update_seller_role_effect remove_seller_user_effect transfer_ownership_effect; simp)+

lemma platform_admin_effects:
  "effects (caller_name caller) (grant_platform_admin caller x pr)"
  "effects (caller_name caller) (update_platform_admin_role caller i pr)"
  "effects (caller_name caller) (revoke_platform_admin caller i)"
  unfolding grant_platform_admin_def update_platform_admin_role_def revoke_platform_admin_def
  by (intro effects_if effects_throw effects_with_caller effects_map_error grant_admin_effect
      update_admin_role_effect revoke_admin_effect; simp)+

lemma bootstrap_effects: "effects ''system:bootstrap'' (bootstrap_super_admin u)"
  unfolding bootstrap_super_admin_def
proof (intro effects_if effects_throw, rule effects_bind [where P = "\<lambda>n s. n = length (supers s)"])
  show "reads (or_internal ''failed to count platform admins'' (run_tx (count_admin_role SuperAdmin)))"
    by (intro auth_reads_intros)
  show "wp (or_internal ''failed to count platform admins'' (run_tx (count_admin_role SuperAdmin)))
      (\<lambda>n _. n = length (supers (store w))) w" for w :: "auth_db world"
    unfolding or_internal_def count_admin_role_def by (intro wp_intros) (simp_all add: supers_def)
next
  fix n and w :: "auth_db world"
  assume n: "n = length (supers (store w))"
  let ?body = "tx_bind (insert_admin u SuperAdmin) (\<lambda>_.
    append_audit ''system:bootstrap'' u PlatformAdminScope None Grant '''' (platform_role_text SuperAdmin))"
  show "auth_effect ''system:bootstrap'' (store w) (store (snd ((if 0 < n then tx_return ()
      else or_internal ''failed to bootstrap super_admin'' (run_tx ?body)) w)))"
    using bootstrap_effect [of w u] n
    by (auto simp: tx_return_def auth_effect.nothing or_internal_def tx_map_error_def tx_catch_def tx_throw_def
        split: prod.splits sum.splits)
qed

lemma clean_scopes_result:
  "clean_scopes ss acc = Inr cs \<Longrightarrow> distinct acc \<Longrightarrow> list_all token_scope_valid acc \<Longrightarrow>
     distinct cs \<and> list_all token_scope_valid cs \<and> set cs = set acc \<union> set ss"
  by (induction ss acc rule: clean_scopes.induct) (auto split: if_splits)

lemma issue_checks_result:
  assumes "issue_checks caller name scopes rps burst expires t = Inr (n, cs, u)"
  shows "n \<noteq> ''''" and "length n \<le> 120" and "cs \<noteq> []" and "distinct cs" and "list_all token_scope_valid cs"
    and "\<not> limit_not_positive rps" and "\<not> limit_not_positive burst" and "caller_name caller = u" and "u \<noteq> ''''"
  using assms
  by (auto simp: issue_checks_def Let_def caller_identity_def caller_name_def
      split: if_splits sum.splits option.splits dest: clean_scopes_result)

lemma issue_effect:
  assumes "issue_api_token rng caller seller name scopes rps burst expires prefix w = Some (r, w')"
  shows "auth_effect (caller_name caller) (store w) (store w')"
proof (cases "issue_checks caller name scopes rps burst expires (clock w)")
  case (Inl e)
  with assms show ?thesis by (auto simp: issue_api_token_def intro: auth_effect.nothing)
next
  case (Inr checked)
  obtain n cs u where c: "checked = (n, cs, u)" by (cases checked) auto
  note checks = issue_checks_result [OF Inr [unfolded c]]
  from assms Inr c obtain g where g: "generate_api_token rng prefix = Some g"
    by (auto simp: issue_api_token_def split: option.splits)
  show ?thesis
  proof (cases g)
    case (Inl e)
    with assms Inr c g show ?thesis by (auto simp: issue_api_token_def intro: auth_effect.nothing)
  next
    case (Inr made)
    obtain plain look hash where m: "made = (plain, look, hash)" by (cases made) auto
    let ?k = "\<lparr>tok_id = nil_uuid, tok_seller = seller, tok_name = n, tok_prefix = prefix,
       tok_lookup = look, tok_hash = hash, tok_scopes = cs, tok_rps = rps, tok_burst = burst,
       tok_issuer = u, tok_expires = expires, tok_revoked = None, tok_revoked_by = '''',
       tok_last_used = None, tok_created = 0, tok_updated = 0\<rparr>"
    let ?op = "tx_map_error (map_api_token_error ''failed to issue api token'')
       (tx_bind (run_tx (issue_token_tx seller u ?k)) (\<lambda>k'. tx_return (k', plain)))"
    have w': "?op w = (r, w')"
      using assms \<open>issue_checks _ _ _ _ _ _ _ = Inr checked\<close> c g Inr m by (simp add: issue_api_token_def Let_def)
    from g Inr m have "generate_api_token rng prefix = Some (Inr (plain, look, hash))" by simp
    then obtain secret where "hash = sha256 secret" "length look = api_token_lookup_chars"
      "set look \<subseteq> set base62_alphabet" by (rule generate_api_token_parts)
    with checks have "token_well_formed ?k"
      by (simp add: token_well_formed_def sha256_length)
    then have "effects u ?op"
      by (intro effects_map_error effects_then_return issue_token_effect) simp_all
    with w' checks(8) show ?thesis unfolding effects_def by (metis snd_conv)
  qed
qed

lemma revoke_token_effects: "effects (caller_name caller) (revoke_api_token caller seller i)"
  unfolding revoke_api_token_def
proof (rule effects_with_caller,
    rule effects_bind [where P = "\<lambda>k s. k \<in> set (api_tokens s) \<and> tok_id k = i \<and> tok_seller k = seller"])
  show "reads (get_api_token seller i)"
    by (rule auth_queries_read)
  show "wp (get_api_token seller i)
      (\<lambda>k _. k \<in> set (api_tokens (store w)) \<and> tok_id k = i \<and> tok_seller k = seller) w" for w
    unfolding get_api_token_def or_internal_def token_by_id_def
    by (intro wp_intros) (auto intro!: wp_case_optionI wp_ifI wp_throwI wp_returnI dest: find_Some_mem)
next
  fix u k and w :: "auth_db world"
  assume "k \<in> set (api_tokens (store w)) \<and> tok_id k = i \<and> tok_seller k = seller"
  with revoke_token_effect [of k w i seller u]
  show "auth_effect u (store w) (store (snd (tx_bind (tx_map_error (map_api_token_error ''failed to revoke api token'')
      (run_tx (revoke_token_tx seller u i))) (\<lambda>_. tx_return (tok_prefix k, tok_lookup k)) w)))"
    by (auto simp: tx_bind_def tx_map_error_def tx_catch_def tx_throw_def tx_return_def split: prod.splits sum.splits)
qed

lemma touch_effects: "effects a (touch_api_token i)"
  unfolding touch_api_token_def touch_last_used_def
  by (rule effects_pool_stmt) (auto simp: sql_def auth_effect.nothing auth_effect.token_touched split: prod.splits)

lemma upsert_buyer_effects: "effects a (upsert_buyer sub email display)"
  unfolding upsert_buyer_def upsert_buyer_row_def Let_def
proof (intro effects_if effects_throw effects_bind_read)
  show "reads new_uuid" by (rule readsI) (intro keeps_intros)
  show "effects a (run_tx (sql (upsert_buyer_stmt b)))" for b
    by (intro effects_run_tx wp_sqlI)
       (auto simp: upsert_buyer_stmt_def Let_def auth_effect.buyer_saved split: option.splits if_splits)
qed

subsection \<open>The state machine\<close>

inductive auth_step :: "string \<Rightarrow> auth_db world \<Rightarrow> auth_db world \<Rightarrow> bool" where
  environment: "store w' = store w \<Longrightarrow> auth_step a w w'"
| get_one_seller: "auth_step a w (snd (get_seller i w))"
| get_sellers: "auth_step a w (snd (list_sellers lim off w))"
| get_batch: "auth_step a w (snd (batch_get_sellers is w))"
| get_seller_role: "auth_step a w (snd (lookup_seller_role seller u w))"
| get_platform_role: "auth_step a w (snd (lookup_platform_role u w))"
| get_team: "auth_step a w (snd (list_seller_team seller w))"
| get_admins: "auth_step a w (snd (list_platform_admins w))"
| get_audit: "auth_step a w (snd (list_rbac_audit_log lim off w))"
| get_tokens: "auth_step a w (snd (list_api_tokens seller lim off w))"
| get_token: "auth_step a w (snd (get_api_token seller i w))"
| lookup: "auth_step a w (snd (lookup_api_token p l secret w))"
| create: "auth_step (caller_name c) w (snd (create_seller c x w))"
| approval: "auth_step (caller_name c) w (snd (approve_seller i w))"
| add_member: "auth_step (caller_name c) w (snd (add_seller_user c seller u r w))"
| update_member: "auth_step (caller_name c) w (snd (update_seller_user_role c seller i r w))"
| remove_member: "auth_step (caller_name c) w (snd (remove_seller_user c seller i w))"
| transfer: "auth_step (caller_name c) w (snd (transfer_seller_ownership c seller i w))"
| grant: "auth_step (caller_name c) w (snd (grant_platform_admin c u pr w))"
| update_admin: "auth_step (caller_name c) w (snd (update_platform_admin_role c i pr w))"
| revoke_admin: "auth_step (caller_name c) w (snd (revoke_platform_admin c i w))"
| bootstrap: "auth_step ''system:bootstrap'' w (snd (bootstrap_super_admin u w))"
| issue: "issue_api_token rng c seller name scopes rps burst expires prefix w = Some (r, w')
    \<Longrightarrow> auth_step (caller_name c) w w'"
| revoke: "auth_step (caller_name c) w (snd (revoke_api_token c seller i w))"
| touch: "auth_step a w (snd (touch_api_token i w))"
| buyer: "auth_step a w (snd (upsert_buyer sub email display w))"

lemma auth_step_effect: "auth_step a w w' \<Longrightarrow> auth_effect a (store w) (store w')"
proof (induction rule: auth_step.induct)
  case (environment w' w a)
  then show ?case by (simp add: auth_effect.nothing)
next
  case issue
  then show ?case by (rule issue_effect)
qed (use create_seller_effects approve_seller_effects seller_team_effects platform_admin_effects
      bootstrap_effects revoke_token_effects touch_effects upsert_buyer_effects
      in \<open>auto simp: effects_def auth_queries_read [THEN reads_store] auth_effect.nothing\<close>)

text \<open>A run of the service: steps of any callers.\<close>

definition auth_moves :: "auth_db world \<Rightarrow> auth_db world \<Rightarrow> bool" where
  "auth_moves w w' \<longleftrightarrow> (\<exists>a. auth_step a w w')"

lemma auth_moves_effect: "auth_moves w w' \<Longrightarrow> \<exists>a. auth_effect a (store w) (store w')"
  unfolding auth_moves_def by (blast dest: auth_step_effect)

end
