(* ===== verification/Auth_Audit.thy ===== *)
theory Auth_Audit
  imports Auth_Invariant
begin

text \<open>
  The audit log of role changes, replayed: starting from the founders of the sellers, whose first
  ownership the code does not log, applying the entries in order gives every user's current role,
  and each entry's \<open>before_role\<close> is the role at that moment.
\<close>

type_synonym role_key = "audit_scope \<times> uuid option \<times> string"
type_synonym role_map = "role_key \<Rightarrow> string option"

definition member_roles :: "seller_user list \<Rightarrow> uuid \<Rightarrow> string \<Rightarrow> string option" where
  "member_roles us i x = map_option (\<lambda>u. seller_role_text (su_role u))
     (find (\<lambda>u. su_seller u = i \<and> su_user u = x) us)"

definition admin_roles :: "platform_admin list \<Rightarrow> string \<Rightarrow> string option" where
  "admin_roles ps x = map_option (\<lambda>p. platform_role_text (pa_role p)) (find (\<lambda>p. pa_user p = x) ps)"

definition roles_map :: "seller_user list \<Rightarrow> platform_admin list \<Rightarrow> role_map" where
  "roles_map us ps k =
     (case k of
        (SellerUserScope, Some i, x) \<Rightarrow> member_roles us i x
      | (PlatformAdminScope, None, x) \<Rightarrow> admin_roles ps x
      | _ \<Rightarrow> None)"

definition current_roles :: "auth_db \<Rightarrow> role_map" where
  "current_roles s = roles_map (seller_users s) (platform_admins s)"

definition entry_key :: "audit_entry \<Rightarrow> role_key" where
  "entry_key e = (aud_scope e, aud_scope_id e, aud_target e)"

fun replay_log :: "audit_entry list \<Rightarrow> role_map \<Rightarrow> role_map option" where
  "replay_log [] m = Some m"
| "replay_log (e # es) m =
     (if m (entry_key e) = aud_before e then replay_log es (m(entry_key e := aud_after e)) else None)"

definition founder_roles :: "(uuid \<Rightarrow> string) \<Rightarrow> uuid set \<Rightarrow> role_map" where
  "founder_roles f ids k =
     (case k of
        (SellerUserScope, Some i, x) \<Rightarrow> if i \<in> ids \<and> x = f i then Some ''owner'' else None
      | _ \<Rightarrow> None)"

subsection \<open>Replaying\<close>

lemma replay_append: "replay_log (es @ fs) m = (case replay_log es m of None \<Rightarrow> None | Some m' \<Rightarrow> replay_log fs m')"
  by (induction es arbitrary: m) auto

lemma replay_other_key:
  "(\<And>e. e \<in> set es \<Longrightarrow> entry_key e \<noteq> k) \<Longrightarrow> replay_log es (m(k := v)) = map_option (\<lambda>m'. m'(k := v)) (replay_log es m)"
proof (induction es arbitrary: m)
  case (Cons e es)
  then have ne: "entry_key e \<noteq> k" by simp
  have IH: "replay_log es ((m(entry_key e := aud_after e))(k := v)) =
      map_option (\<lambda>m'. m'(k := v)) (replay_log es (m(entry_key e := aud_after e)))"
    by (rule Cons.IH) (simp add: Cons.prems)
  show ?case
  proof (cases "m (entry_key e) = aud_before e")
    case True
    with ne have "replay_log (e # es) (m(k := v)) = replay_log es ((m(k := v))(entry_key e := aud_after e))"
      by simp
    also have "(m(k := v))(entry_key e := aud_after e) = (m(entry_key e := aud_after e))(k := v)"
      using ne by (intro fun_upd_twist) simp
    finally show ?thesis unfolding IH using True by (simp only: replay_log.simps if_True simp_thms)
  next
    case False
    with ne show ?thesis by simp
  qed
qed simp

lemma founder_roles_insert:
  "i \<notin> ids \<Longrightarrow> founder_roles (f(i := x)) (insert i ids)
     = (founder_roles f ids)((SellerUserScope, Some i, x) := Some ''owner'')"
  by (rule ext) (auto simp: founder_roles_def split: prod.splits audit_scope.splits option.splits)

subsection \<open>Roles after a change\<close>

lemma option_eqI: "(\<And>t. a = Some t \<longleftrightarrow> b = Some t) \<Longrightarrow> a = b"
  by (cases a; cases b) auto

lemma member_roles_Some:
  assumes "distinct (map su_user us)"
  shows "member_roles us i x = Some t \<longleftrightarrow>
    (\<exists>u \<in> set us. su_seller u = i \<and> su_user u = x \<and> seller_role_text (su_role u) = t)"
  using assms by (induction us) (auto simp: member_roles_def image_iff)

lemma admin_roles_Some:
  assumes "distinct (map pa_user ps)"
  shows "admin_roles ps x = Some t \<longleftrightarrow> (\<exists>p \<in> set ps. pa_user p = x \<and> platform_role_text (pa_role p) = t)"
  using assms by (induction ps) (auto simp: admin_roles_def image_iff)

lemma member_roles_new:
  "x \<notin> su_user ` set us \<Longrightarrow> member_roles us i x = None"
  by (auto simp: member_roles_def find_None_all)

lemma admin_roles_new: "x \<notin> pa_user ` set ps \<Longrightarrow> admin_roles ps x = None"
  by (auto simp: admin_roles_def find_None_all)

lemma roles_map_add_member:
  assumes "su_user u \<notin> su_user ` set us"
  shows "roles_map (us @ [u]) ps = (roles_map us ps)
    ((SellerUserScope, Some (su_seller u), su_user u) := Some (seller_role_text (su_role u)))"
proof -
  have "su_user x \<noteq> su_user u" if "x \<in> set us" for x using assms that by (metis imageI)
  then show ?thesis
    by (intro ext) (auto simp: roles_map_def member_roles_def find_append find_None_all
      split: prod.splits audit_scope.splits option.splits dest!: find_Some_mem)
qed

lemma roles_map_add_admin:
  assumes "pa_user p \<notin> pa_user ` set ps"
  shows "roles_map us (ps @ [p]) = (roles_map us ps)
    ((PlatformAdminScope, None, pa_user p) := Some (platform_role_text (pa_role p)))"
proof -
  have "x \<in> set ps \<Longrightarrow> pa_user x \<noteq> pa_user p" for x using assms by (metis imageI)
  then show ?thesis
    by (intro ext) (auto simp: roles_map_def admin_roles_def find_append find_None_all
      split: prod.splits audit_scope.splits option.splits dest!: find_Some_mem)
qed

lemma roles_map_updI:
  assumes "\<And>i x. member_roles us' i x = (if P i x then v else member_roles us i x)"
    and "\<And>i x. P i x \<longleftrightarrow> i = j \<and> x = y"
  shows "roles_map us' ps = (roles_map us ps)((SellerUserScope, Some j, y) := v)"
  by (rule ext) (use assms in \<open>auto simp: roles_map_def split: prod.splits audit_scope.splits option.splits\<close>)

lemma set_member_role_bex:
  "(\<exists>v \<in> set (set_member_role i r us). P v) \<longleftrightarrow> (\<exists>u \<in> set us. P (if su_id u = i then u\<lparr>su_role := r\<rparr> else u))"
  by (auto simp: set_member_role_def update_where_def)

lemma set_admin_role_bex:
  "(\<exists>v \<in> set (set_admin_role i pr t ps). P v) \<longleftrightarrow>
     (\<exists>p \<in> set ps. P (if pa_id p = i then p\<lparr>pa_role := pr, pa_updated := t\<rparr> else p))"
  by (auto simp: set_admin_role_def update_where_def)

lemma roles_map_set_member:
  assumes ids: "distinct (map su_id us)" and users: "distinct (map su_user us)" and u: "u \<in> set us"
  shows "roles_map (set_member_role (su_id u) r us) ps =
    (roles_map us ps)((SellerUserScope, Some (su_seller u), su_user u) := Some (seller_role_text r))"
proof (rule roles_map_updI)
  have one: "v = u" if "v \<in> set us" "su_id v = su_id u \<or> su_user v = su_user u" for v
    using that u same_key [OF ids] same_key [OF users] by blast
  show "member_roles (set_member_role (su_id u) r us) i x =
      (if i = su_seller u \<and> x = su_user u then Some (seller_role_text r) else member_roles us i x)" for i x
  proof (rule option_eqI)
    fix t
    have "member_roles (set_member_role (su_id u) r us) i x = Some t \<longleftrightarrow>
        (\<exists>v \<in> set us. su_seller v = i \<and> su_user v = x \<and>
           (if su_id v = su_id u then seller_role_text r else seller_role_text (su_role v)) = t)"
      using users by (simp only: member_roles_Some member_role_keys set_member_role_bex) (auto intro!: bex_cong)
    also have "\<dots> \<longleftrightarrow> (if i = su_seller u \<and> x = su_user u then Some (seller_role_text r) else member_roles us i x) = Some t"
      using u one by (auto simp: member_roles_Some [OF users])
    finally show "member_roles (set_member_role (su_id u) r us) i x = Some t \<longleftrightarrow>
        (if i = su_seller u \<and> x = su_user u then Some (seller_role_text r) else member_roles us i x) = Some t" .
  qed
qed simp

lemma roles_map_remove_member:
  assumes ids: "distinct (map su_id us)" and users: "distinct (map su_user us)" and u: "u \<in> set us"
  shows "roles_map (filter (\<lambda>x. su_id x \<noteq> su_id u) us) ps =
    (roles_map us ps)((SellerUserScope, Some (su_seller u), su_user u) := None)"
proof (rule roles_map_updI)
  have one: "v = u" if "v \<in> set us" "su_id v = su_id u \<or> su_user v = su_user u" for v
    using that u same_key [OF ids] same_key [OF users] by blast
  show "member_roles (filter (\<lambda>x. su_id x \<noteq> su_id u) us) i x =
      (if i = su_seller u \<and> x = su_user u then None else member_roles us i x)" for i x
  proof (rule option_eqI)
    fix t
    have "member_roles (filter (\<lambda>x. su_id x \<noteq> su_id u) us) i x = Some t \<longleftrightarrow>
        (\<exists>v \<in> set us. su_id v \<noteq> su_id u \<and> su_seller v = i \<and> su_user v = x \<and> seller_role_text (su_role v) = t)"
      using distinct_map_filter [OF users] by (subst member_roles_Some) auto
    also have "\<dots> \<longleftrightarrow> (if i = su_seller u \<and> x = su_user u then None else member_roles us i x) = Some t"
      using u one by (auto simp: member_roles_Some [OF users])
    finally show "member_roles (filter (\<lambda>x. su_id x \<noteq> su_id u) us) i x = Some t \<longleftrightarrow>
        (if i = su_seller u \<and> x = su_user u then None else member_roles us i x) = Some t" .
  qed
qed simp

lemma roles_map_set_admin:
  assumes ids: "distinct (map pa_id ps)" and users: "distinct (map pa_user ps)" and p: "p \<in> set ps"
  shows "roles_map us (set_admin_role (pa_id p) pr t ps) =
    (roles_map us ps)((PlatformAdminScope, None, pa_user p) := Some (platform_role_text pr))"
proof -
  have one: "q = p" if "q \<in> set ps" "pa_id q = pa_id p \<or> pa_user q = pa_user p" for q
    using that p same_key [OF ids] same_key [OF users] by blast
  have "admin_roles (set_admin_role (pa_id p) pr t ps) x =
      (if x = pa_user p then Some (platform_role_text pr) else admin_roles ps x)" for x
  proof (rule option_eqI)
    fix r
    have "admin_roles (set_admin_role (pa_id p) pr t ps) x = Some r \<longleftrightarrow>
        (\<exists>q \<in> set ps. pa_user q = x \<and>
           (if pa_id q = pa_id p then platform_role_text pr else platform_role_text (pa_role q)) = r)"
      using users by (simp only: admin_roles_Some admin_role_keys set_admin_role_bex) (auto intro!: bex_cong)
    also have "\<dots> \<longleftrightarrow> (if x = pa_user p then Some (platform_role_text pr) else admin_roles ps x) = Some r"
      using p one by (auto simp: admin_roles_Some [OF users])
    finally show "admin_roles (set_admin_role (pa_id p) pr t ps) x = Some r \<longleftrightarrow>
        (if x = pa_user p then Some (platform_role_text pr) else admin_roles ps x) = Some r" .
  qed
  then show ?thesis
    by (auto simp: roles_map_def fun_eq_iff split: audit_scope.splits option.splits)
qed

lemma roles_map_remove_admin:
  assumes ids: "distinct (map pa_id ps)" and users: "distinct (map pa_user ps)" and p: "p \<in> set ps"
  shows "roles_map us (filter (\<lambda>x. pa_id x \<noteq> pa_id p) ps) =
    (roles_map us ps)((PlatformAdminScope, None, pa_user p) := None)"
proof -
  have one: "q = p" if "q \<in> set ps" "pa_id q = pa_id p \<or> pa_user q = pa_user p" for q
    using that p same_key [OF ids] same_key [OF users] by blast
  have "admin_roles (filter (\<lambda>x. pa_id x \<noteq> pa_id p) ps) x = (if x = pa_user p then None else admin_roles ps x)" for x
  proof (rule option_eqI)
    fix r
    have "admin_roles (filter (\<lambda>x. pa_id x \<noteq> pa_id p) ps) x = Some r \<longleftrightarrow>
        (\<exists>q \<in> set ps. pa_id q \<noteq> pa_id p \<and> pa_user q = x \<and> platform_role_text (pa_role q) = r)"
      using distinct_map_filter [OF users] by (subst admin_roles_Some) auto
    also have "\<dots> \<longleftrightarrow> (if x = pa_user p then None else admin_roles ps x) = Some r"
      using p one by (auto simp: admin_roles_Some [OF users])
    finally show "admin_roles (filter (\<lambda>x. pa_id x \<noteq> pa_id p) ps) x = Some r \<longleftrightarrow>
        (if x = pa_user p then None else admin_roles ps x) = Some r" .
  qed
  then show ?thesis
    by (auto simp: roles_map_def fun_eq_iff split: audit_scope.splits option.splits)
qed

subsection \<open>The log explains the roles\<close>

definition audit_explains :: "auth_db \<Rightarrow> (uuid \<Rightarrow> string) \<Rightarrow> bool" where
  "audit_explains s f \<longleftrightarrow>
     replay_log (audit_log s) (founder_roles f (sel_id ` set (sellers s))) = Some (current_roles s)"

definition audit_scoped :: "auth_db \<Rightarrow> bool" where
  "audit_scoped s \<longleftrightarrow>
     (\<forall>e \<in> set (audit_log s). aud_scope e = SellerUserScope \<longrightarrow> (\<exists>i \<in> sel_id ` set (sellers s). aud_scope_id e = Some i))"

lemma role_texts_nonempty [simp]:
  "seller_role_valid r \<Longrightarrow> null_if_empty (seller_role_text r) = Some (seller_role_text r)"
  "platform_role_valid pr \<Longrightarrow> null_if_empty (platform_role_text pr) = Some (platform_role_text pr)"
  by (cases r; simp add: null_if_empty_def seller_role_valid_def)
     (cases pr; simp add: null_if_empty_def platform_role_valid_def)

text \<open>One more entry whose \<open>before\<close> is the current role.\<close>

lemma audit_explains_append:
  assumes "audit_explains s f" and "current_roles s (entry_key e) = aud_before e"
    and "sel_id ` set (sellers s') = sel_id ` set (sellers s)" and "audit_log s' = audit_log s @ [e]"
    and "current_roles s' = (current_roles s)(entry_key e := aud_after e)"
  shows "audit_explains s' f"
  using assms by (simp add: audit_explains_def replay_append)

lemma current_roles_simps [simp]:
  "current_roles (s\<lparr>sellers := xs\<rparr>) = current_roles s"
  "current_roles (s\<lparr>audit_log := es\<rparr>) = current_roles s"
  "current_roles (s\<lparr>api_tokens := ks\<rparr>) = current_roles s"
  "current_roles (s\<lparr>buyers := bs\<rparr>) = current_roles s"
  "current_roles (s\<lparr>seller_users := us\<rparr>) = roles_map us (platform_admins s)"
  "current_roles (s\<lparr>platform_admins := ps\<rparr>) = roles_map (seller_users s) ps"
  by (simp_all add: current_roles_def)

lemma current_member:
  "auth_keys s \<Longrightarrow> u \<in> set (seller_users s) \<Longrightarrow>
     roles_map (seller_users s) (platform_admins s) (SellerUserScope, Some (su_seller u), su_user u)
       = Some (seller_role_text (su_role u))"
  by (auto simp: roles_map_def member_roles_Some auth_keys_def)

lemma current_admin:
  "auth_keys s \<Longrightarrow> p \<in> set (platform_admins s) \<Longrightarrow>
     roles_map (seller_users s) (platform_admins s) (PlatformAdminScope, None, pa_user p)
       = Some (platform_role_text (pa_role p))"
  by (auto simp: roles_map_def admin_roles_Some auth_keys_def)

lemma seller_entry_key:
  "seller_entry e i a x act b r \<Longrightarrow> entry_key e = (SellerUserScope, Some i, x) \<and> aud_before e = b \<and> aud_after e = r"
  by (simp add: seller_entry_def entry_key_def)

lemma admin_entry_key:
  "admin_entry e a x act b r \<Longrightarrow> entry_key e = (PlatformAdminScope, None, x) \<and> aud_before e = b \<and> aud_after e = r"
  by (simp add: admin_entry_def entry_key_def)

lemma audit_scoped_effect:
  "auth_effect a s s' \<Longrightarrow> auth_typed s \<Longrightarrow> audit_scoped s \<Longrightarrow> audit_scoped s'"
proof (induction rule: auth_effect.induct)
  case (approve y i t)
  let ?xs = "update_where (\<lambda>x. sel_id x = i) (\<lambda>x. x\<lparr>sel_state := SellerApproved, sel_updated := t\<rparr>) (sellers s)"
  have "map sel_id ?xs = map sel_id (sellers s)" by (rule update_where_keys) simp
  then have "sel_id ` set ?xs = sel_id ` set (sellers s)" by (metis set_map)
  with approve show ?case by (simp add: audit_scoped_def)
qed (auto simp: audit_scoped_def auth_typed_def seller_entry_def admin_entry_def)

lemma audit_explains_effect:
  assumes "auth_effect a s s'" and keys: "auth_keys s" and typed: "auth_typed s"
    and scoped: "audit_scoped s" and old: "audit_explains s f"
  shows "\<exists>f. audit_explains s' f"
  using assms(1)
proof cases
  case (register x u)
  let ?ids = "sel_id ` set (sellers s)"
  let ?k = "(SellerUserScope, Some (sel_id x), a)"
  have other: "entry_key e \<noteq> ?k" if e: "e \<in> set (audit_log s)" for e
  proof
    assume "entry_key e = ?k"
    then have "aud_scope e = SellerUserScope" "aud_scope_id e = Some (sel_id x)" by (simp_all add: entry_key_def)
    moreover from this e scoped obtain i where "i \<in> sel_id ` set (sellers s)" "aud_scope_id e = Some i"
      unfolding audit_scoped_def by blast
    ultimately have "sel_id x \<in> sel_id ` set (sellers s)" by simp
    with register(2) show False by simp
  qed
  have roles: "roles_map (seller_users s @ [u]) (platform_admins s) =
      (roles_map (seller_users s) (platform_admins s))(?k := Some ''owner'')"
    using register roles_map_add_member [of u "seller_users s" "platform_admins s"] by simp
  have "replay_log (audit_log s) ((founder_roles f ?ids)(?k := Some ''owner'')) = Some ((current_roles s)(?k := Some ''owner''))"
    using replay_other_key [OF other] old by (simp add: audit_explains_def)
  then have "audit_explains s' (f(sel_id x := a))"
    using register founder_roles_insert [of "sel_id x" ?ids f a]
    by (simp add: audit_explains_def current_roles_def roles)
  then show ?thesis by (intro exI [of "audit_explains s'" "f(sel_id x := a)"])
next
  case (approve y i t)
  let ?xs = "update_where (\<lambda>x. sel_id x = i) (\<lambda>x. x\<lparr>sel_state := SellerApproved, sel_updated := t\<rparr>) (sellers s)"
  have "map sel_id ?xs = map sel_id (sellers s)" by (rule update_where_keys) simp
  then have "sel_id ` set ?xs = sel_id ` set (sellers s)" by (metis set_map)
  with approve old show ?thesis by (auto simp: audit_explains_def current_roles_def)
next
  case (member_added u e)
  note k = seller_entry_key [OF member_added(8)]
  have "audit_explains s' f"
  proof (rule audit_explains_append [OF old, of e])
    show "current_roles s (entry_key e) = aud_before e"
      using k member_added(6) by (simp add: current_roles_def roles_map_def member_roles_new)
    show "current_roles s' = (current_roles s)(entry_key e := aud_after e)"
      using k member_added by (simp add: current_roles_def roles_map_add_member)
  qed (use member_added in simp_all)
  then show ?thesis by (intro exI [of "audit_explains s'" f])
next
  case (member_changed u i r e)
  note k = seller_entry_key [OF member_changed(10)]
  have valid: "seller_role_valid (su_role u)" using typed member_changed(3) by (simp add: auth_typed_def)
  have "audit_explains s' f"
  proof (rule audit_explains_append [OF old, of e])
    show "current_roles s (entry_key e) = aud_before e"
      using k member_changed(3) valid by (simp add: current_roles_def current_member [OF keys])
    show "current_roles s' = (current_roles s)(entry_key e := aud_after e)"
      using k member_changed keys roles_map_set_member [of "seller_users s" u r "platform_admins s"]
      by (simp add: current_roles_def auth_keys_def)
  qed (use member_changed in simp_all)
  then show ?thesis by (intro exI [of "audit_explains s'" f])
next
  case (member_removed u i e)
  note k = seller_entry_key [OF member_removed(7)]
  have valid: "seller_role_valid (su_role u)" using typed member_removed(3) by (simp add: auth_typed_def)
  have "audit_explains s' f"
  proof (rule audit_explains_append [OF old, of e])
    show "current_roles s (entry_key e) = aud_before e"
      using k member_removed(3) valid by (simp add: current_roles_def current_member [OF keys])
    show "current_roles s' = (current_roles s)(entry_key e := aud_after e)"
      using k member_removed keys roles_map_remove_member [of "seller_users s" u "platform_admins s"]
      by (simp add: current_roles_def auth_keys_def)
  qed (use member_removed in simp_all)
  then show ?thesis by (intro exI [of "audit_explains s'" f])
next
  case (transferred o' u e e')
  note k = seller_entry_key [OF transferred(8)] and k' = seller_entry_key [OF transferred(9)]
  have valid: "seller_role_valid (su_role u)" using typed transferred(5) by (simp add: auth_typed_def)
  let ?us = "set_member_role (su_id o') SellerAdmin (seller_users s)"
  have dist: "distinct (map su_id (seller_users s))" "distinct (map su_user (seller_users s))"
    using keys by (simp_all add: auth_keys_def)
  have u': "u \<in> set ?us" using member_role_mem [OF transferred(5), of "su_id o'" SellerAdmin] transferred(7) by simp
  have ne: "su_user u \<noteq> su_user o'" using same_key [OF dist(2) transferred(5,2)] transferred(7) by blast
  have after: "roles_map (set_member_role (su_id u) SellerOwner ?us) (platform_admins s) =
      ((current_roles s)((SellerUserScope, Some (su_seller o'), su_user o') := Some ''admin''))
        ((SellerUserScope, Some (su_seller u), su_user u) := Some ''owner'')"
    using roles_map_set_member [of ?us u SellerOwner "platform_admins s"] dist u'
      roles_map_set_member [OF dist transferred(2), of SellerAdmin "platform_admins s"]
    by (simp add: current_roles_def)
  have texts: "null_if_empty ''owner'' = Some ''owner''" "null_if_empty ''admin'' = Some ''admin''"
    by (simp_all add: null_if_empty_def)
  have "audit_explains s' f"
    using old k k' transferred ne valid current_member [OF keys transferred(5)] current_member [OF keys transferred(2)]
    by (simp add: audit_explains_def replay_append after current_roles_def fun_upd_twist texts)
  then show ?thesis by (intro exI [of "audit_explains s'" f])
next
  case (admin_granted p e)
  note k = admin_entry_key [OF admin_granted(6)]
  have "audit_explains s' f"
  proof (rule audit_explains_append [OF old, of e])
    show "current_roles s (entry_key e) = aud_before e"
      using k admin_granted(5) by (simp add: current_roles_def roles_map_def admin_roles_new)
    show "current_roles s' = (current_roles s)(entry_key e := aud_after e)"
      using k admin_granted by (simp add: current_roles_def roles_map_add_admin)
  qed (use admin_granted in simp_all)
  then show ?thesis by (intro exI [of "audit_explains s'" f])
next
  case (admin_changed p i pr e t)
  note k = admin_entry_key [OF admin_changed(9)]
  have valid: "platform_role_valid (pa_role p)" using typed admin_changed(3) by (simp add: auth_typed_def)
  have "audit_explains s' f"
  proof (rule audit_explains_append [OF old, of e])
    show "current_roles s (entry_key e) = aud_before e"
      using k admin_changed(3) valid by (simp add: current_roles_def current_admin [OF keys])
    show "current_roles s' = (current_roles s)(entry_key e := aud_after e)"
      using k admin_changed keys roles_map_set_admin [of "platform_admins s" p "seller_users s" pr t]
      by (simp add: current_roles_def auth_keys_def)
  qed (use admin_changed in simp_all)
  then show ?thesis by (intro exI [of "audit_explains s'" f])
next
  case (admin_revoked p i e)
  note k = admin_entry_key [OF admin_revoked(7)]
  have valid: "platform_role_valid (pa_role p)" using typed admin_revoked(3) by (simp add: auth_typed_def)
  have "audit_explains s' f"
  proof (rule audit_explains_append [OF old, of e])
    show "current_roles s (entry_key e) = aud_before e"
      using k admin_revoked(3) valid by (simp add: current_roles_def current_admin [OF keys])
    show "current_roles s' = (current_roles s)(entry_key e := aud_after e)"
      using k admin_revoked keys roles_map_remove_admin [of "platform_admins s" p "seller_users s"]
      by (simp add: current_roles_def auth_keys_def)
  qed (use admin_revoked in simp_all)
  then show ?thesis by (intro exI [of "audit_explains s'" f])
qed (use old in \<open>auto simp: audit_explains_def current_roles_def\<close>)

subsection \<open>Who may change roles\<close>

lemma seller_key_neq: "u \<in> set us \<Longrightarrow> v \<in> set us \<Longrightarrow> distinct (map su_user us) \<Longrightarrow> su_id u \<noteq> su_id v \<Longrightarrow> su_user u \<noteq> su_user v"
  by (blast dest: same_key)

definition authorised :: "auth_db \<Rightarrow> string \<Rightarrow> role_map \<Rightarrow> role_key \<Rightarrow> bool" where
  "authorised s a after k \<longleftrightarrow>
     (case k of (sc, i, x) \<Rightarrow>
       (\<exists>j. sc = SellerUserScope \<and> i = Some j \<and>
          (is_owner s j a \<and> (x = a \<longrightarrow> after k = Some ''admin'')
           \<or> j \<notin> sel_id ` set (sellers s) \<and> x = a))
       \<or> (sc = PlatformAdminScope \<and> i = None \<and>
          (is_super s a \<and> x \<noteq> a \<or> supers s = [] \<and> a = ''system:bootstrap'')))"

text \<open>An update at one authorised key is authorised wherever it shows.\<close>

lemma authorised_upd:
  assumes "after = before(k0 := v)" and "after k \<noteq> before k" and "authorised s a after k0"
  shows "authorised s a after k"
  using assms by (cases "k = k0") simp_all

lemma authorised_seller:
  "is_owner s j a \<Longrightarrow> x \<noteq> a \<or> after (SellerUserScope, Some j, x) = Some ''admin'' \<Longrightarrow>
     authorised s a after (SellerUserScope, Some j, x)"
  by (simp add: authorised_def)

lemma authorised_admin:
  "is_super s a \<and> x \<noteq> a \<or> supers s = [] \<and> a = ''system:bootstrap'' \<Longrightarrow>
     authorised s a after (PlatformAdminScope, None, x)"
  by (simp add: authorised_def)

lemma effect_authorised:
  assumes "auth_effect a s s'" and keys: "auth_keys s" and "current_roles s' k \<noteq> current_roles s k"
  shows "authorised s a (current_roles s') k"
proof -
  have dist: "distinct (map su_id (seller_users s))" "distinct (map su_user (seller_users s))"
    "distinct (map pa_id (platform_admins s))" "distinct (map pa_user (platform_admins s))"
    using keys by (simp_all add: auth_keys_def)
  from assms(1) show ?thesis
  proof cases
    case (register x u)
    have "current_roles s' = (current_roles s)((SellerUserScope, Some (sel_id x), a) := Some ''owner'')"
      using register roles_map_add_member [of u "seller_users s" "platform_admins s"] by (simp add: current_roles_def)
    then show ?thesis by (rule authorised_upd) (use assms(3) register in \<open>simp_all add: authorised_def\<close>)
  next
    case (member_added u e)
    have "current_roles s' = (current_roles s)((SellerUserScope, Some (su_seller u), su_user u) := Some (seller_role_text (su_role u)))"
      using member_added roles_map_add_member [of u "seller_users s" "platform_admins s"] by (simp add: current_roles_def)
    then show ?thesis
      by (rule authorised_upd) (use assms(3) member_added in \<open>auto simp: is_owner_def intro!: authorised_seller\<close>)
  next
    case (member_changed u i r e)
    have "current_roles s' = (current_roles s)((SellerUserScope, Some (su_seller u), su_user u) := Some (seller_role_text r))"
      using member_changed dist roles_map_set_member [of "seller_users s" u r "platform_admins s"]
      by (simp add: current_roles_def)
    then show ?thesis
      by (rule authorised_upd) (use assms(3) member_changed in \<open>simp_all add: authorised_seller\<close>)
  next
    case (member_removed u i e)
    have "current_roles s' = (current_roles s)((SellerUserScope, Some (su_seller u), su_user u) := None)"
      using member_removed dist roles_map_remove_member [of "seller_users s" u "platform_admins s"]
      by (simp add: current_roles_def)
    then show ?thesis
      by (rule authorised_upd) (use assms(3) member_removed in \<open>simp_all add: authorised_seller\<close>)
  next
    case (transferred o' u e e')
    let ?us = "set_member_role (su_id o') SellerAdmin (seller_users s)"
    let ?k1 = "(SellerUserScope, Some (su_seller o'), su_user o')" and ?k2 = "(SellerUserScope, Some (su_seller u), su_user u)"
    have u': "u \<in> set ?us" using member_role_mem [OF transferred(5), of "su_id o'" SellerAdmin] transferred(7) by simp
    have ne: "su_user u \<noteq> a" using seller_key_neq [OF transferred(5,2) dist(2) transferred(7)] transferred(3) by simp
    have owner: "is_owner s (su_seller o') a" using transferred by (auto simp: is_owner_def)
    have after: "current_roles s' = ((current_roles s)(?k1 := Some ''admin''))(?k2 := Some ''owner'')"
      using roles_map_set_member [of ?us u SellerOwner "platform_admins s"] dist u' transferred(1)
        roles_map_set_member [OF dist(1,2) transferred(2), of SellerAdmin "platform_admins s"]
      by (simp add: current_roles_def)
    with assms(3) have "k = ?k1 \<or> k = ?k2" by (auto split: if_splits)
    with owner ne after transferred show ?thesis by (auto intro!: authorised_seller)
  next
    case (admin_granted p e)
    have "current_roles s' = (current_roles s)((PlatformAdminScope, None, pa_user p) := Some (platform_role_text (pa_role p)))"
      using admin_granted roles_map_add_admin [of p "platform_admins s" "seller_users s"] by (simp add: current_roles_def)
    then show ?thesis
      by (rule authorised_upd) (use assms(3) admin_granted in \<open>auto simp: is_super_def intro!: authorised_admin\<close>)
  next
    case (admin_changed p i pr e t)
    have "current_roles s' = (current_roles s)((PlatformAdminScope, None, pa_user p) := Some (platform_role_text pr))"
      using admin_changed dist roles_map_set_admin [of "platform_admins s" p "seller_users s" pr t]
      by (simp add: current_roles_def)
    then show ?thesis
      by (rule authorised_upd) (use assms(3) admin_changed in \<open>simp_all add: authorised_admin\<close>)
  next
    case (admin_revoked p i e)
    have "current_roles s' = (current_roles s)((PlatformAdminScope, None, pa_user p) := None)"
      using admin_revoked dist roles_map_remove_admin [of "platform_admins s" p "seller_users s"]
      by (simp add: current_roles_def)
    then show ?thesis
      by (rule authorised_upd) (use assms(3) admin_revoked in \<open>simp_all add: authorised_admin\<close>)
  qed (use assms(3) in \<open>simp_all add: current_roles_def\<close>)
qed

end
