(* ===== verification/Auth_Credentials.thy ===== *)
theory Auth_Credentials
  imports Auth_Audit
begin

text \<open>
  The life of an access token: what issuing leaves in the table, what a lookup accepts, and that a
  revocation is for good.
\<close>

subsection \<open>Lookup\<close>

lemma pool_stmt_healthy:
  "healthy w \<Longrightarrow> pool_stmt (query q) w = (Inr (q (clock w) (store w)), w)"
  by (cases w) (simp add: pool_stmt_def query_def sql_def healthy_def next_faulty_def consume_fault_def)

lemma wp_pool_stmt_query [wp_intros]:
  fixes q :: "instant \<Rightarrow> auth_db \<Rightarrow> 'a"
  assumes "\<And>w'. store w' = store w \<Longrightarrow> clock w' = clock w \<Longrightarrow> Q (q (clock w) (store w)) w'"
  shows "wp (pool_stmt (query q) :: 'a atx) Q w"
proof (rule wpI)
  fix x w'
  assume p: "(pool_stmt (query q) :: 'a atx) w = (Inr x, w')"
  obtain r w1 where r: "(query q :: 'a atx) (w\<lparr>aborted := False\<rparr>) = (r, w1)" by fastforce
  with p have x: "r = Inr x" and w': "w' = w1\<lparr>aborted := aborted w\<rparr>" by (simp_all add: pool_stmt_def)
  from r x have "x = q (clock w) (store w)" "store w1 = store w" "clock w1 = clock w"
    by (auto simp: query_def sql_def split: if_splits)
  with assms [of w'] w' show "Q x w'" by simp
qed

text \<open>A lookup that succeeds found a live token with this secret's hash.\<close>

lemma lookup_success:
  assumes "lookup_api_token p l secret w = (Inr k, w')"
  shows "find (\<lambda>k. tok_prefix k = p \<and> tok_lookup k = l) (api_tokens (store w)) = Some k"
    and "tok_hash k = sha256 secret" and "tok_revoked k = None" and "\<not> token_expired k (clock w)"
proof -
  have "wp (lookup_api_token p l secret) (\<lambda>k _.
      find (\<lambda>k. tok_prefix k = p \<and> tok_lookup k = l) (api_tokens (store w)) = Some k
      \<and> tok_hash k = sha256 secret \<and> tok_revoked k = None \<and> \<not> token_expired k (clock w)) w"
    unfolding lookup_api_token_def or_internal_def token_by_lookup_def
    by (intro wp_intros) (auto simp: constant_time_equal_def)
  from wpD [OF this assms]
  show "find (\<lambda>k. tok_prefix k = p \<and> tok_lookup k = l) (api_tokens (store w)) = Some k"
    and "tok_hash k = sha256 secret" and "tok_revoked k = None" and "\<not> token_expired k (clock w)"
    by simp_all
qed

lemma lookup_healthy:
  assumes "healthy w" and "p \<noteq> ''''" and "l \<noteq> ''''" and "secret \<noteq> ''''"
    and "find (\<lambda>k. tok_prefix k = p \<and> tok_lookup k = l) (api_tokens (store w)) = Some k"
    and "tok_hash k = sha256 secret" and "tok_revoked k = None" and "\<not> token_expired k (clock w)"
  shows "lookup_api_token p l secret w = (Inr k, w)"
  using assms
  by (simp add: lookup_api_token_def or_internal_def tx_map_error_def tx_catch_def tx_bind_def
      token_by_lookup_def pool_stmt_healthy constant_time_equal_def now_def tx_return_def)

subsection \<open>Issue\<close>

lemma insert_token_result:
  "insert_token_stmt k t s = Inr (k', s') \<Longrightarrow>
     k' = k\<lparr>tok_created := t, tok_updated := t\<rparr> \<and> s' = s\<lparr>api_tokens := api_tokens s @ [k']\<rparr>
     \<and> (tok_prefix k, tok_lookup k) \<notin> (\<lambda>x. (tok_prefix x, tok_lookup x)) ` set (api_tokens s)"
  by (auto simp: insert_token_stmt_def Let_def split: if_splits)

lemma issue_token_tx_result:
  assumes "run_tx (issue_token_tx seller u k) w = (Inr k', w')"
  shows "\<exists>i t. k' = k\<lparr>tok_id := i, tok_created := t, tok_updated := t\<rparr>"
    and "find (\<lambda>x. tok_prefix x = tok_prefix k \<and> tok_lookup x = tok_lookup k) (api_tokens (store w')) = Some k'"
proof -
  have "wp (run_tx (issue_token_tx seller u k)) (\<lambda>k' w'.
      (\<exists>i t. k' = k\<lparr>tok_id := i, tok_created := t, tok_updated := t\<rparr>) \<and>
      find (\<lambda>x. tok_prefix x = tok_prefix k \<and> tok_lookup x = tok_lookup k) (api_tokens (store w')) = Some k') w"
    unfolding issue_token_tx_def insert_token_def
  proof (intro wp_run_txI wp_bindI wp_require_seller_role wp_ifI wp_throwI wp_new_uuidI wp_sqlI impI allI)
    fix i k' s' and w1 w2 w3 :: "auth_db world"
    assume "insert_token_stmt (k\<lparr>tok_id := i\<rparr>) (clock w1) (store w1) = Inr (k', s')"
      and s: "store w2 = s'" "store w3 = store w2"
    from insert_token_result [OF this(1)]
    have k': "k' = k\<lparr>tok_id := i, tok_created := clock w1, tok_updated := clock w1\<rparr>"
      and s': "s' = (store w1)\<lparr>api_tokens := api_tokens (store w1) @ [k']\<rparr>"
      and new: "(tok_prefix k, tok_lookup k) \<notin> (\<lambda>x. (tok_prefix x, tok_lookup x)) ` set (api_tokens (store w1))"
      by simp_all
    from new have "find (\<lambda>x. tok_prefix x = tok_prefix k \<and> tok_lookup x = tok_lookup k) (api_tokens (store w1)) = None"
      unfolding find_None_all by (metis (mono_tags, lifting) imageI)
    with k' s' s show "(\<exists>i t. k' = k\<lparr>tok_id := i, tok_created := t, tok_updated := t\<rparr>) \<and>
        find (\<lambda>x. tok_prefix x = tok_prefix k \<and> tok_lookup x = tok_lookup k) (api_tokens (store w3)) = Some k'"
      by (auto simp: find_append)
  qed
  from wpD [OF this assms]
  show "\<exists>i t. k' = k\<lparr>tok_id := i, tok_created := t, tok_updated := t\<rparr>"
    and "find (\<lambda>x. tok_prefix x = tok_prefix k \<and> tok_lookup x = tok_lookup k) (api_tokens (store w')) = Some k'"
    by simp_all
qed

lemma issue_success:
  assumes "issue_api_token rng c seller name scopes rps burst expires prefix w = Some (Inr (k, plaintext), w')"
  obtains secret where "plaintext = prefix @ tok_lookup k @ ''_'' @ secret"
    and "length (tok_lookup k) = api_token_lookup_chars" and "set (tok_lookup k) \<subseteq> set base62_alphabet"
    and "length secret = api_token_secret_chars" and "tok_hash k = sha256 secret"
    and "find (\<lambda>x. tok_prefix x = prefix \<and> tok_lookup x = tok_lookup k) (api_tokens (store w')) = Some k"
    and "tok_seller k = seller" and "set (tok_scopes k) = set scopes" and "tok_expires k = expires" and "tok_revoked k = None"
proof -
  obtain n cs u where chk: "issue_checks c name scopes rps burst expires (clock w) = Inr (n, cs, u)"
    using assms by (auto simp: issue_api_token_def split: sum.splits prod.splits)
  from assms chk obtain look hash where gen: "generate_api_token rng prefix = Some (Inr (plaintext, look, hash))"
    by (auto simp: issue_api_token_def Let_def tx_map_error_def tx_catch_def tx_bind_def tx_return_def tx_throw_def
        split: option.splits sum.splits prod.splits)
  let ?k = "\<lparr>tok_id = nil_uuid, tok_seller = seller, tok_name = n, tok_prefix = prefix,
     tok_lookup = look, tok_hash = hash, tok_scopes = cs, tok_rps = rps, tok_burst = burst,
     tok_issuer = u, tok_expires = expires, tok_revoked = None, tok_revoked_by = '''',
     tok_last_used = None, tok_created = 0, tok_updated = 0\<rparr>"
  from assms chk gen have run: "run_tx (issue_token_tx seller u ?k) w = (Inr k, w')"
    by (auto simp: issue_api_token_def Let_def tx_map_error_def tx_catch_def tx_bind_def tx_return_def tx_throw_def
        split: sum.splits prod.splits)
  from issue_token_tx_result(1) [OF run] obtain i t where k: "k = ?k\<lparr>tok_id := i, tok_created := t, tok_updated := t\<rparr>"
    by blast
  from generate_api_token_parts [OF gen] obtain secret where parts: "plaintext = prefix @ look @ ''_'' @ secret"
    "hash = sha256 secret" "length look = api_token_lookup_chars" "set look \<subseteq> set base62_alphabet"
    "length secret = api_token_secret_chars" by blast
  have "set cs = set scopes"
    using chk by (auto simp: issue_checks_def Let_def split: if_splits sum.splits option.splits dest: clean_scopes_result)
  with that [of secret] parts k issue_token_tx_result(2) [OF run] show thesis by simp
qed

subsection \<open>Revocation\<close>

definition dead_token :: "string \<Rightarrow> string \<Rightarrow> auth_db \<Rightarrow> bool" where
  "dead_token p l s \<longleftrightarrow> (\<exists>k \<in> set (api_tokens s). tok_prefix k = p \<and> tok_lookup k = l \<and> tok_revoked k \<noteq> None)"

lemma dead_token_update:
  assumes "dead_token p l s" and "\<And>k. tok_prefix (g k) = tok_prefix k \<and> tok_lookup (g k) = tok_lookup k"
    and "\<And>k. tok_revoked k \<noteq> None \<Longrightarrow> tok_revoked (g k) \<noteq> None"
  shows "dead_token p l (s\<lparr>api_tokens := update_where q g (api_tokens s)\<rparr>)"
proof -
  from assms(1) obtain k where k: "k \<in> set (api_tokens s)" "tok_prefix k = p" "tok_lookup k = l" "tok_revoked k \<noteq> None"
    unfolding dead_token_def by blast
  then have "(if q k then g k else k) \<in> set (update_where q g (api_tokens s))" by (auto simp: update_where_def)
  moreover have "tok_prefix (if q k then g k else k) = p" "tok_lookup (if q k then g k else k) = l"
    "tok_revoked (if q k then g k else k) \<noteq> None"
    using k assms(2,3) by auto
  ultimately show ?thesis unfolding dead_token_def by auto
qed

lemma dead_token_effect: "auth_effect a s s' \<Longrightarrow> dead_token p l s \<Longrightarrow> dead_token p l s'"
proof (induction rule: auth_effect.induct)
  case (token_revoked k i t)
  show ?case by (rule dead_token_update [OF token_revoked.prems]) auto
next
  case (token_touched i t)
  show ?case by (rule dead_token_update [OF token_touched]) auto
qed (auto simp: dead_token_def)

lemma wp_get_api_token:
  assumes "\<And>k w'. store w' = store w \<Longrightarrow> k \<in> set (api_tokens (store w)) \<Longrightarrow> tok_id k = i \<Longrightarrow> Q k w'"
  shows "wp (get_api_token seller i) Q w"
  unfolding get_api_token_def or_internal_def token_by_id_def
  by (intro wp_intros) (auto intro!: wp_case_optionI wp_ifI wp_throwI wp_returnI assms dest: find_Some_mem)

lemma revoked_is_dead:
  assumes "k \<in> set (api_tokens s)" and "tok_id k = i"
  shows "dead_token (tok_prefix k) (tok_lookup k) (s\<lparr>api_tokens := update_where (\<lambda>k. tok_id k = i \<and> tok_revoked k = None)
      (\<lambda>k. k\<lparr>tok_revoked := Some t, tok_revoked_by := u, tok_updated := t\<rparr>) (api_tokens s)\<rparr>)"
proof -
  let ?g = "\<lambda>k. k\<lparr>tok_revoked := Some t, tok_revoked_by := u, tok_updated := t\<rparr>"
  let ?k = "if tok_id k = i \<and> tok_revoked k = None then ?g k else k"
  have "?k \<in> set (update_where (\<lambda>k. tok_id k = i \<and> tok_revoked k = None) ?g (api_tokens s))"
    using assms(1) by (auto simp: update_where_def)
  moreover have "tok_revoked ?k \<noteq> None" using assms(2) by simp
  ultimately show ?thesis unfolding dead_token_def by (intro bexI [of _ ?k]) simp_all
qed

lemma wp_revoke_token_tx:
  "wp (run_tx (revoke_token_tx seller u i))
     (\<lambda>_ w'. \<forall>k \<in> set (api_tokens (store w)). tok_id k = i \<longrightarrow> dead_token (tok_prefix k) (tok_lookup k) (store w')) w"
  unfolding revoke_token_tx_def revoke_token_def Let_def
  by (intro wp_run_txI wp_bindI wp_require_seller_role wp_sqlI wp_ifI wp_queryI wp_throwI wp_returnI)
     (auto intro!: revoked_is_dead)

lemma revoke_success:
  assumes "revoke_api_token c seller i w = (Inr (p, l), w')"
  shows "dead_token p l (store w')"
proof -
  have "wp (revoke_api_token c seller i) (\<lambda>x w'. dead_token (fst x) (snd x) (store w')) w"
  proof (cases "caller_identity c")
    case None
    then show ?thesis by (simp add: revoke_api_token_def with_caller_def wp_simps)
  next
    case (Some u)
    have step: "wp (tx_bind (tx_map_error g (run_tx (revoke_token_tx seller u i))) (\<lambda>_. tx_return (tok_prefix k, tok_lookup k)))
        (\<lambda>x w'. dead_token (fst x) (snd x) (store w')) w1"
      if "store w1 = store w" "k \<in> set (api_tokens (store w))" "tok_id k = i" for k g and w1 :: "auth_db world"
      by (intro wp_bindI wp_map_errorI wp_returnI, rule wp_mono [OF wp_revoke_token_tx]) (use that in \<open>simp add: wp_simps\<close>)
    show ?thesis
      unfolding revoke_api_token_def with_caller_def Some option.case
      by (intro wp_bindI wp_get_api_token) (use step in \<open>simp add: wp_simps\<close>)
  qed
  from wpD [OF this assms] show ?thesis by simp
qed

end
