(* ===== verification/Auth_Properties.thy ===== *)
theory Auth_Properties
  imports Auth_Credentials Samples
begin

text \<open>
  What the auth service guarantees, over every run of its use cases from empty tables: sellers are
  never without an owner, the tables stay well-typed, the audit log explains every role, roles
  change only by those who may change them, and access tokens authenticate exactly while they live.
\<close>

subsection \<open>Reachable tables\<close>

definition auth_inv :: "auth_db \<Rightarrow> bool" where
  "auth_inv s \<longleftrightarrow> auth_keys s \<and> auth_typed s \<and> sellers_owned s \<and> audit_scoped s \<and> (\<exists>f. audit_explains s f)"

lemma auth_inv_empty: "auth_inv empty_auth_db"
proof -
  have "audit_explains empty_auth_db f" for f
    by (auto simp: audit_explains_def empty_auth_db_def current_roles_def roles_map_def founder_roles_def
        member_roles_def admin_roles_def fun_eq_iff split: prod.splits audit_scope.splits option.splits)
  then show ?thesis
    by (auto simp: auth_inv_def auth_keys_def auth_typed_def sellers_owned_def audit_scoped_def empty_auth_db_def)
qed

lemma auth_inv_moves: "auth_moves w w' \<Longrightarrow> auth_inv (store w) \<Longrightarrow> auth_inv (store w')"
  unfolding auth_inv_def
  by (blast dest: auth_moves_effect intro: auth_keys_effect auth_typed_effect sellers_owned_effect
      audit_scoped_effect audit_explains_effect)

interpretation auth: stateful_service
  "\<lambda>w. store w = empty_auth_db" auth_moves "\<lambda>w. auth_inv (store w)"
  by unfold_locales (auto simp: auth_inv_empty intro: auth_inv_moves)

lemma supers_run:
  "auth_moves\<^sup>*\<^sup>* w w' \<Longrightarrow> auth_inv (store w) \<Longrightarrow> supers (store w) \<noteq> [] \<Longrightarrow> supers (store w') \<noteq> []"
proof (induction rule: rtranclp_induct)
  case (step w1 w2)
  then have "auth_keys (store w1)" using auth.steps_inv unfolding auth_inv_def by blast
  moreover from step(2) obtain a where "auth_effect a (store w1) (store w2)"
    by (blast dest: auth_moves_effect)
  ultimately show ?case using step.IH step.prems by (simp add: supers_effect)
qed simp

subsection \<open>Sample run\<close>

text \<open>Alice registers a seller, adds Bob to its team and hands the ownership to him.\<close>

definition sample_seller :: seller where
  "sample_seller = \<lparr>sel_id = nil_uuid, sel_org = '''', sel_name = ''S'', sel_slug = ''s'', sel_state = SellerPending,
     sel_stripe = '''', sel_commission = 1000, sel_settings = None, sel_created = 0, sel_updated = 0\<rparr>"

definition registered :: "auth_db world" where
  "registered = snd (create_seller (Some ''alice'') sample_seller (sample_world empty_auth_db))"

definition with_member :: "auth_db world" where
  "with_member = snd (add_seller_user (Some ''alice'') (sample_uuid 0) ''bob'' SellerMember registered)"

definition handed_over :: "auth_db world" where
  "handed_over = snd (transfer_seller_ownership (Some ''alice'') (sample_uuid 0) (sample_uuid 2) with_member)"

lemma sample_moves:
  "auth_moves (sample_world empty_auth_db) registered" "auth_moves registered with_member"
  "auth_moves with_member handed_over"
  unfolding registered_def with_member_def handed_over_def auth_moves_def
  by (blast intro: auth_step.intros)+

lemma sample_run:
  "auth_moves\<^sup>*\<^sup>* (sample_world empty_auth_db) registered"
  "auth_moves\<^sup>*\<^sup>* (sample_world empty_auth_db) with_member"
  "auth_moves\<^sup>*\<^sup>* (sample_world empty_auth_db) handed_over"
proof -
  show r: "auth_moves\<^sup>*\<^sup>* (sample_world empty_auth_db) registered"
    by (rule r_into_rtranclp) (rule sample_moves)
  from r sample_moves(2) show m: "auth_moves\<^sup>*\<^sup>* (sample_world empty_auth_db) with_member"
    by (rule rtranclp.rtrancl_into_rtrancl)
  from m sample_moves(3) show "auth_moves\<^sup>*\<^sup>* (sample_world empty_auth_db) handed_over"
    by (rule rtranclp.rtrancl_into_rtrancl)
qed

lemma sample_store: "store (sample_world s) = s"
  by (simp add: sample_world_def)

lemma sample_facts:
  "map su_role (seller_users (store handed_over)) = [SellerAdmin, SellerOwner]"
  "map su_user (seller_users (store handed_over)) = [''alice'', ''bob'']"
  "length (audit_log (store handed_over)) = 3"
  by code_simp+

subsection \<open>Roles\<close>

text \<open>
  C28. In every reachable state every seller has an owner, and from a state with a super_admin on
  there is always one, whatever the requests, the order in which their transactions run (each as a
  whole) and the faults of the database.
\<close>

theorem never_without_owner:
  assumes "store w0 = empty_auth_db" and "auth_moves\<^sup>*\<^sup>* w0 w"
  shows "(\<forall>x \<in> set (sellers (store w)). \<exists>u \<in> set (seller_users (store w)).
            su_seller u = sel_id x \<and> su_role u = SellerOwner)
    \<and> (\<forall>w'. auth_moves\<^sup>*\<^sup>* w w' \<longrightarrow> is_super (store w) a \<longrightarrow> (\<exists>b. is_super (store w') b))"
proof -
  have inv: "auth_inv (store w)" using assms by (rule auth.reachable_inv)
  have "supers (store w') \<noteq> []" if "auth_moves\<^sup>*\<^sup>* w w'" "is_super (store w) a" for w'
    using supers_run [OF that(1) inv] that(2) by (auto simp: supers_iff is_super_def)
  with inv show ?thesis
    by (auto simp: auth_inv_def sellers_owned_def owned_iff supers_iff is_super_def) (metis owned_iff)
qed

theorem never_without_owner_witness:
  "\<exists>u \<in> set (seller_users (store handed_over)). su_seller u = sample_uuid 0 \<and> su_role u = SellerOwner"
proof -
  have "\<exists>x \<in> set (sellers (store handed_over)). sel_id x = sample_uuid 0" by code_simp
  then obtain x where "x \<in> set (sellers (store handed_over))" "sel_id x = sample_uuid 0" by blast
  with never_without_owner [OF sample_store sample_run(3), THEN conjunct1] show ?thesis by force
qed



text \<open>
  C30. The audit log is equivalent to the role tables: replaying it from the founders of the sellers
  gives everybody's current role, and every entry's recorded old role was the role at that moment.
\<close>

theorem audit_log_explains_roles:
  assumes "store w0 = empty_auth_db" and "auth_moves\<^sup>*\<^sup>* w0 w"
  shows "\<exists>founder. replay_log (audit_log (store w)) (founder_roles founder (sel_id ` set (sellers (store w))))
    = Some (current_roles (store w))"
  using auth.reachable_inv [OF assms] by (auto simp: auth_inv_def audit_explains_def)

theorem audit_log_explains_roles_witness:
  "\<exists>m. replay_log (audit_log (store handed_over)) m = Some (current_roles (store handed_over))
     \<and> length (audit_log (store handed_over)) = 3"
proof -
  have "length (audit_log (store handed_over)) = 3" by code_simp
  with audit_log_explains_roles [OF sample_store sample_run(3)] show ?thesis by blast
qed

text \<open>
  C31. Only authority changes roles. If a request of caller \<open>a\<close> changes the role a user has, then in
  a seller's team the caller owned that seller (and changes the own role only by stepping down to
  admin), or has just founded it; among the platform administrators the caller was a super_admin
  other than the user, or it is the bootstrap of a platform without one.
\<close>

theorem roles_change_by_authority:
  assumes "store w0 = empty_auth_db" and "auth_moves\<^sup>*\<^sup>* w0 w" and "auth_step a w w'"
    and "current_roles (store w') (sc, i, x) \<noteq> current_roles (store w) (sc, i, x)"
  shows "(\<exists>j. sc = SellerUserScope \<and> i = Some j \<and>
      (is_owner (store w) j a \<and> (x = a \<longrightarrow> current_roles (store w') (sc, i, x) = Some ''admin'')
       \<or> j \<notin> sel_id ` set (sellers (store w)) \<and> x = a))
    \<or> (sc = PlatformAdminScope \<and> i = None \<and>
      (is_super (store w) a \<and> x \<noteq> a \<or> supers (store w) = [] \<and> a = ''system:bootstrap''))"
proof -
  have keys: "auth_keys (store w)" using auth.reachable_inv [OF assms(1,2)] by (simp add: auth_inv_def)
  from assms(3) have "auth_effect a (store w) (store w')" by (rule auth_step_effect)
  from effect_authorised [OF this keys assms(4)] show ?thesis by (simp add: authorised_def)
qed

theorem roles_change_by_authority_witness:
  "is_owner (store registered) (sample_uuid 0) ''alice''
   \<and> current_roles (store with_member) (SellerUserScope, Some (sample_uuid 0), ''bob'') = Some ''member''"
proof -
  have step: "auth_step ''alice'' registered with_member"
    using auth_step.add_member [of "Some ''alice''" registered] by (simp add: with_member_def caller_name_def)
  have new: "current_roles (store with_member) (SellerUserScope, Some (sample_uuid 0), ''bob'') = Some ''member''"
    and old: "current_roles (store registered) (SellerUserScope, Some (sample_uuid 0), ''bob'') = None"
    and known: "list_ex (\<lambda>x. sel_id x = sample_uuid 0) (sellers (store registered))"
    by code_simp+
  from known have "sample_uuid 0 \<in> sel_id ` set (sellers (store registered))" by (force simp: list_ex_iff)
  with roles_change_by_authority [OF sample_store sample_run(1) step, of SellerUserScope "Some (sample_uuid 0)" "''bob''"]
    new old show ?thesis by auto
qed

subsection \<open>Access tokens\<close>

text \<open>
  C32. Issuing a token and presenting it fit together: the plaintext that issuing returns is taken
  apart by \<open>ParseAPIToken\<close> into the stored lookup key and the secret, and with these the lookup
  answers the issued token, with the requested scopes, until it expires.
\<close>

theorem issued_token_authenticates:
  assumes "issue_api_token rng c seller name scopes rps burst expires prefix w = Some (Inr (k, plaintext), w')"
    and "prefix \<noteq> ''''" and "healthy w''" and "store w'' = store w'"
    and "case expires of None \<Rightarrow> True | Some e \<Rightarrow> clock w'' < e"
  shows "\<exists>secret. parse_api_token plaintext prefix = Inr (tok_lookup k, secret)
    \<and> lookup_api_token prefix (tok_lookup k) secret w'' = (Inr k, w'')
    \<and> tok_seller k = seller \<and> set (tok_scopes k) = set scopes"
proof -
  from issue_success [OF assms(1)] obtain secret where t: "plaintext = prefix @ tok_lookup k @ ''_'' @ secret"
    "length (tok_lookup k) = api_token_lookup_chars" "set (tok_lookup k) \<subseteq> set base62_alphabet"
    "length secret = api_token_secret_chars" "tok_hash k = sha256 secret"
    "find (\<lambda>x. tok_prefix x = prefix \<and> tok_lookup x = tok_lookup k) (api_tokens (store w')) = Some k"
    "tok_seller k = seller" "set (tok_scopes k) = set scopes" "tok_expires k = expires" "tok_revoked k = None" .
  have ne: "tok_lookup k \<noteq> ''''" "secret \<noteq> ''''"
    using t(2,4) by (auto simp: api_token_lookup_chars_def api_token_secret_chars_def)
  have "CHR ''_'' \<notin> set (tok_lookup k)" using t(3) underscore_not_base62 by blast
  then have "parse_api_token plaintext prefix = Inr (tok_lookup k, secret)"
    unfolding t(1) by (rule parse_joined [OF assms(2) ne])
  moreover have "\<not> token_expired k (clock w'')" using assms(5) t(9) by (simp add: token_expired_def split: option.splits)
  then have "lookup_api_token prefix (tok_lookup k) secret w'' = (Inr k, w'')"
    by (intro lookup_healthy) (use assms t ne in simp_all)
  ultimately show ?thesis using t(7,8) by blast
qed

text \<open>A random source for the witnesses: every read brings the bytes 0, 1, 2, \<dots>\<close>

definition counting_rng :: rng where
  "counting_rng k = Some (\<lambda>j. j)"

definition issued :: "((auth_err error + api_token \<times> string) \<times> auth_db world) option" where
  "issued = issue_api_token counting_rng (Some ''alice'') (sample_uuid 0) ''erp'' [OrdersRead, OrdersRead, ProductsWrite]
     None (Some 5) None ''sk_'' registered"

lemma issued_ok: "\<exists>k plaintext w'. issued = Some (Inr (k, plaintext), w') \<and> healthy w'"
proof -
  have "case issued of Some (Inr _, w') \<Rightarrow> faults w' = [] \<and> \<not> aborted w' | _ \<Rightarrow> False"
    by code_simp
  then show ?thesis by (auto simp: healthy_def split: option.splits prod.splits sum.splits)
qed

theorem issued_token_authenticates_witness:
  "\<exists>k w'. tok_seller k = sample_uuid 0 \<and> set (tok_scopes k) = {OrdersRead, ProductsWrite}
     \<and> (\<exists>secret. lookup_api_token ''sk_'' (tok_lookup k) secret w' = (Inr k, w'))"
proof -
  from issued_ok obtain k plaintext w' where i: "issued = Some (Inr (k, plaintext), w')" and h: "healthy w'"
    by blast
  from issued_token_authenticates [OF i [unfolded issued_def] _ h] show ?thesis by auto
qed

text \<open>
  C33. Issuing a token returns: as long as the random source keeps bringing, every now and then, a
  read that fails or has one accepted byte among its first 16, both rejection-sampling loops end.
\<close>

theorem issuing_returns:
  assumes "\<And>k. \<exists>k' \<ge> k. useful 16 (rng k')"
  shows "\<exists>r w'. issue_api_token rng c seller name scopes rps burst expires prefix w = Some (r, w')"
proof -
  have more: "\<exists>k' \<ge> k. useful n (rng k')" if "16 \<le> n" for n k
    using assms [of k] useful_mono [OF _ that] by blast
  have gen: "\<exists>r. generate_base62 rng k n = Some r" for k n
    unfolding generate_base62_def Let_def by (rule base62_loop_returns, rule more) simp
  have "\<exists>r. generate_api_token rng prefix = Some r"
  proof -
    obtain r1 where r1: "generate_base62 rng 0 api_token_lookup_chars = Some r1" using gen by blast
    show ?thesis
    proof (cases r1)
      case (Inl e)
      with r1 show ?thesis by (simp add: generate_api_token_def)
    next
      case (Inr x)
      obtain look k where x: "x = (look, k)" by fastforce
      obtain r2 where "generate_base62 rng k api_token_secret_chars = Some r2" using gen by blast
      with r1 Inr x show ?thesis
        by (cases r2) (auto simp: generate_api_token_def split: prod.splits)
    qed
  qed
  then obtain r where r: "generate_api_token rng prefix = Some r" ..
  have "\<exists>out. issue_api_token rng c seller name scopes rps burst expires prefix w = Some out"
    by (cases r) (auto simp: issue_api_token_def Let_def r split: sum.splits prod.splits)
  then show ?thesis by (metis surj_pair)
qed

theorem issuing_returns_witness:
  "(\<exists>r w'. issue_api_token counting_rng None (sample_uuid 0) ''erp'' [OrdersRead] None None None ''sk_'' registered = Some (r, w'))
   \<and> generate_base62 (\<lambda>_. Some (\<lambda>_. 255)) 0 12 = None"
proof -
  have "\<exists>k' \<ge> k. useful 16 (counting_rng k')" for k
    by (intro exI [of _ k]) (auto simp: counting_rng_def useful_def base62_reject_threshold_def intro!: exI [of _ 0])
  from issuing_returns [of counting_rng, OF this]
  have "\<exists>r w'. issue_api_token counting_rng None (sample_uuid 0) ''erp'' [OrdersRead] None None None ''sk_'' registered = Some (r, w')" .
  moreover have "generate_base62 (\<lambda>_. Some (\<lambda>_. 255)) 0 12 = None"
    unfolding generate_base62_def Let_def
    by (rule base62_loop_stuck) (auto simp: base62_reject_threshold_def)
  ultimately show ?thesis ..
qed

text \<open>
  C34. A revoked token stays revoked: after \<open>RevokeAPIToken\<close> has answered its prefix and lookup key,
  no lookup with them succeeds in any later state, with any secret.
\<close>

theorem revoked_token_never_authenticates:
  assumes "store w0 = empty_auth_db" and "auth_moves\<^sup>*\<^sup>* w0 w"
    and "revoke_api_token c seller i w = (Inr (p, l), w1)" and "auth_moves\<^sup>*\<^sup>* w1 w2"
  shows "lookup_api_token p l secret w2 \<noteq> (Inr k, w3)"
proof
  assume found: "lookup_api_token p l secret w2 = (Inr k, w3)"
  have "auth_moves w w1"
    using auth_step.revoke [of c w seller i] assms(3) by (auto simp: auth_moves_def)
  with assms(2) have "auth_moves\<^sup>*\<^sup>* w0 w1" by (rule rtranclp.rtrancl_into_rtrancl)
  then have "auth_moves\<^sup>*\<^sup>* w0 w2" using assms(4) by (rule rtranclp_trans)
  with auth.reachable_inv assms(1) have keys: "auth_keys (store w2)" by (auto simp: auth_inv_def)
  from assms(4) have "dead_token p l (store w2)"
    by (induction rule: rtranclp_induct)
       (auto intro: revoke_success [OF assms(3)] dead_token_effect dest!: auth_moves_effect)
  then obtain d where d: "d \<in> set (api_tokens (store w2))" "tok_prefix d = p" "tok_lookup d = l" "tok_revoked d \<noteq> None"
    unfolding dead_token_def by blast
  from lookup_success(1) [OF found] have "k \<in> set (api_tokens (store w2))" "tok_prefix k = p" "tok_lookup k = l"
    by (auto dest: find_Some_mem)
  with d keys have "k = d" by (auto simp: auth_keys_def intro: same_key)
  with d lookup_success(3) [OF found] show False by simp
qed

definition token_world :: "auth_db world" where
  "token_world = (case issued of None \<Rightarrow> registered | Some out \<Rightarrow> snd out)"

lemma issued_run: "auth_moves\<^sup>*\<^sup>* (sample_world empty_auth_db) token_world"
proof -
  from issued_ok obtain k plaintext w' where i: "issued = Some (Inr (k, plaintext), w')" by blast
  then have "auth_step (caller_name (Some ''alice'')) registered token_world"
    unfolding token_world_def by (auto simp: issued_def intro: auth_step.issue)
  then have "auth_moves registered token_world" by (auto simp: auth_moves_def)
  with sample_run(1) show ?thesis by (rule rtranclp.rtrancl_into_rtrancl)
qed

theorem revoked_token_never_authenticates_witness:
  "\<exists>p l w1. revoke_api_token (Some ''alice'') (sample_uuid 0) (sample_uuid 2) token_world = (Inr (p, l), w1)
     \<and> (\<forall>secret k w3. lookup_api_token p l secret w1 \<noteq> (Inr k, w3))"
proof -
  have "\<not> isl (fst (revoke_api_token (Some ''alice'') (sample_uuid 0) (sample_uuid 2) token_world))"
    by code_simp
  from run_ok [of "revoke_api_token (Some ''alice'') (sample_uuid 0) (sample_uuid 2)" token_world, OF this] obtain p l w1
    where r: "revoke_api_token (Some ''alice'') (sample_uuid 0) (sample_uuid 2) token_world = (Inr (p, l), w1)"
    by (metis surj_pair)
  from revoked_token_never_authenticates [OF sample_store issued_run r rtranclp.rtrancl_refl] r
  show ?thesis by blast
qed

end
