(* ===== verification/Inventory_Store.thy ===== *)
theory Inventory_Store
  imports Request_Context
begin

text \<open>
  Inventory service, data and repository: internal/domain, the two tables of
  infra/db/migrations/inventory and the methods of \<open>InventoryRepository\<close>
  (internal/adapter/postgres/inventory_repo.go). A repository's own errors are sentinels with their
  text; \<open>ErrWrapped\<close> is a failed statement with the prefix the repository gives it. A column of type
  \<open>INT\<close> refuses values outside 32 bits, on the way in (the driver) and as a result (Postgres).
\<close>

subsection \<open>Domain types\<close>

datatype movement_type =
  MovementReceived | MovementReserved | MovementReleased | MovementSold | MovementAdjusted

record inventory =
  inv_id :: uuid
  inv_sku :: uuid
  inv_seller :: uuid
  inv_available :: int
  inv_reserved :: int
  inv_threshold :: int
  inv_updated :: instant

record cancellation_line =
  cl_sku :: uuid
  cl_quantity :: int

text \<open>\<open>mov_ref_id\<close> is the text of a UUID, or \<open>None\<close> for Go's empty string.\<close>

record stock_movement =
  mov_id :: uuid
  mov_sku :: uuid
  mov_type :: movement_type
  mov_quantity :: int
  mov_ref_type :: string
  mov_ref_id :: "uuid option"
  mov_created :: instant

datatype inventory_err =
  ErrInventoryNotFound
| ErrInvalidQuantity
| ErrNoInventoryRow uuid
| ErrInsufficientStock int int
| ErrInsufficientReserved int int
| ErrWrapped string pg_error
| ErrBadPayload string

record inventory_db =
  stocks :: "inventory list"
  movements :: "stock_movement list"

type_synonym 'a itx = "(inventory_db, inventory_err, 'a) tx"

definition empty_inventory_db :: inventory_db where
  "empty_inventory_db = \<lparr>stocks = [], movements = []\<rparr>"

text \<open>\<open>fmt.Errorf("prefix: %w", err)\<close> around a statement.\<close>

definition wrapped :: "string \<Rightarrow> 'a itx \<Rightarrow> 'a itx" where
  "wrapped p m = tx_map_error (\<lambda>e. case e of Pg x \<Rightarrow> Sentinel (ErrWrapped p x) | _ \<Rightarrow> e) m"

subsection \<open>InventoryRepository\<close>

definition get_by_sku :: "uuid \<Rightarrow> inventory option itx" where
  "get_by_sku k = run_tx (wrapped ''get inventory by sku_id''
     (query (\<lambda>t s. find (\<lambda>x. inv_sku x = k) (stocks s))))"

definition list_stock :: "uuid \<Rightarrow> int \<Rightarrow> int \<Rightarrow> (inventory list \<times> nat) itx" where
  "list_stock seller lim off = run_tx (
     tx_bind (wrapped ''count inventory'' (query (\<lambda>t s. length (filter (\<lambda>x. inv_seller x = seller) (stocks s))))) (\<lambda>n.
     tx_bind (wrapped ''list inventory'' (query (\<lambda>t s. take (nat lim) (drop (nat off)
       (sort_key (\<lambda>x. - inv_updated x) (filter (\<lambda>x. inv_seller x = seller) (stocks s))))))) (\<lambda>rows.
     tx_return (rows, n))))"

text \<open>\<open>ON CONFLICT (sku_id)\<close> keeps the row's id, seller and reserved quantity.\<close>

definition upsert_stmt :: "inventory \<Rightarrow> instant \<Rightarrow> inventory_db \<Rightarrow> pg_error + (inventory \<times> inventory_db)" where
  "upsert_stmt x t s =
     (let hit = (\<lambda>y. inv_sku y = inv_sku x);
          g = (\<lambda>y. y\<lparr>inv_available := inv_available x, inv_threshold := inv_threshold x, inv_updated := t\<rparr>) in
      if \<not> (in_i32 (inv_available x) \<and> in_i32 (inv_reserved x) \<and> in_i32 (inv_threshold x)) then Inl NumericOutOfRange
      else case find hit (stocks s) of
        Some y \<Rightarrow> Inr (x\<lparr>inv_id := inv_id y, inv_updated := t\<rparr>, s\<lparr>stocks := update_where hit g (stocks s)\<rparr>)
      | None \<Rightarrow>
          if inv_id x \<in> set (map inv_id (stocks s)) then Inl (UniqueViolation ''inventory_pkey'')
          else Inr (x\<lparr>inv_updated := t\<rparr>, s\<lparr>stocks := stocks s @ [x\<lparr>inv_updated := t\<rparr>]\<rparr>))"

definition upsert :: "inventory \<Rightarrow> inventory itx" where
  "upsert x = run_tx (
     tx_bind (if inv_id x = nil_uuid then new_uuid else tx_return (inv_id x)) (\<lambda>i.
     wrapped ''upsert inventory'' (sql (upsert_stmt (x\<lparr>inv_id := i\<rparr>)))))"

text \<open>
  The three updates of a locked row: \<open>da\<close> and \<open>dr\<close> are added to the available and the reserved
  quantity, \<open>q\<close> is the parameter.
\<close>

definition move_stmt :: "uuid \<Rightarrow> int \<Rightarrow> int \<Rightarrow> int \<Rightarrow> instant \<Rightarrow> inventory_db \<Rightarrow> pg_error + (nat \<times> inventory_db)" where
  "move_stmt k q da dr t s =
     (let hit = (\<lambda>y. inv_sku y = k);
          g = (\<lambda>y. y\<lparr>inv_available := inv_available y + da, inv_reserved := inv_reserved y + dr, inv_updated := t\<rparr>) in
      if \<not> in_i32 q \<or> \<not> list_all (\<lambda>y. in_i32 (inv_available y + da) \<and> in_i32 (inv_reserved y + dr)) (filter hit (stocks s))
      then Inl NumericOutOfRange
      else Inr (length (filter hit (stocks s)), s\<lparr>stocks := update_where hit g (stocks s)\<rparr>))"

definition lock_stock :: "uuid \<Rightarrow> inventory itx" where
  "lock_stock k =
     tx_bind (wrapped ''lock inventory row'' (query (\<lambda>t s. find (\<lambda>x. inv_sku x = k) (stocks s)))) (\<lambda>x.
     case x of None \<Rightarrow> tx_throw (Sentinel (ErrNoInventoryRow k)) | Some y \<Rightarrow> tx_return y)"

definition reserve :: "uuid \<Rightarrow> int \<Rightarrow> unit itx" where
  "reserve k q = run_tx (
     tx_bind (lock_stock k) (\<lambda>x.
     if inv_available x < q then tx_throw (Sentinel (ErrInsufficientStock (inv_available x) q))
     else tx_bind (wrapped ''reserve stock'' (sql (move_stmt k q (- q) q))) (\<lambda>_. tx_return ())))"

definition release :: "uuid \<Rightarrow> int \<Rightarrow> unit itx" where
  "release k q = run_tx (
     tx_bind (lock_stock k) (\<lambda>x.
     if inv_reserved x < q then tx_throw (Sentinel (ErrInsufficientReserved (inv_reserved x) q))
     else tx_bind (wrapped ''release stock'' (sql (move_stmt k q q (- q)))) (\<lambda>_. tx_return ())))"

definition confirm_sold_row :: "uuid \<Rightarrow> int \<Rightarrow> unit itx" where
  "confirm_sold_row k q = run_tx (
     tx_bind (lock_stock k) (\<lambda>x.
     if inv_reserved x < q then tx_throw (Sentinel (ErrInsufficientReserved (inv_reserved x) q))
     else tx_bind (wrapped ''confirm sold'' (sql (move_stmt k q 0 (- q)))) (\<lambda>_. tx_return ())))"

definition adjust_stock :: "uuid \<Rightarrow> int \<Rightarrow> unit itx" where
  "adjust_stock k q = run_tx (
     tx_bind (wrapped ''adjust stock'' (sql (move_stmt k q q 0))) (\<lambda>n.
     if n = 0 then tx_throw (Sentinel (ErrNoInventoryRow k)) else tx_return ()))"

text \<open>The empty text is no \<open>UUID\<close>: Postgres refuses it as a reference id.\<close>

definition insert_movement_stmt ::
  "stock_movement \<Rightarrow> instant \<Rightarrow> inventory_db \<Rightarrow> pg_error + (stock_movement \<times> inventory_db)" where
  "insert_movement_stmt m t s =
     (let m' = m\<lparr>mov_created := t\<rparr> in
      if mov_ref_id m = None then Inl (InvalidTextRepresentation '''')
      else if \<not> in_i32 (mov_quantity m) then Inl NumericOutOfRange
      else if mov_id m \<in> set (map mov_id (movements s)) then Inl (UniqueViolation ''stock_movements_pkey'')
      else Inr (m', s\<lparr>movements := movements s @ [m']\<rparr>))"

definition record_movement :: "stock_movement \<Rightarrow> stock_movement itx" where
  "record_movement m = run_tx (tx_bind new_uuid (\<lambda>i.
     wrapped ''record movement'' (sql (insert_movement_stmt (m\<lparr>mov_id := i\<rparr>)))))"

text \<open>
  \<open>ReleaseForOrderCancellation\<close>: the answer is whether an earlier call has done it. A SKU without a
  row is recorded all the same.
\<close>

definition cancellation_recorded :: "uuid \<Rightarrow> inventory_db \<Rightarrow> bool" where
  "cancellation_recorded i s =
     list_ex (\<lambda>m. mov_ref_type m = ''order_cancellation'' \<and> mov_ref_id m = Some i) (movements s)"

definition release_line :: "uuid \<Rightarrow> cancellation_line \<Rightarrow> unit itx" where
  "release_line i l =
     (if cl_quantity l \<le> 0 then tx_return ()
      else
        tx_bind (wrapped ''release stock for sku'' (sql (move_stmt (cl_sku l) (cl_quantity l) (cl_quantity l) 0))) (\<lambda>_.
        tx_bind new_uuid (\<lambda>u.
        tx_bind (wrapped ''record cancellation movement for sku'' (sql (insert_movement_stmt
          \<lparr>mov_id = u, mov_sku = cl_sku l, mov_type = MovementReleased, mov_quantity = cl_quantity l,
           mov_ref_type = ''order_cancellation'', mov_ref_id = Some i, mov_created = 0\<rparr>))) (\<lambda>_.
        tx_return ()))))"

definition release_for_cancellation :: "uuid \<Rightarrow> cancellation_line list \<Rightarrow> bool itx" where
  "release_for_cancellation i ls = run_tx (
     tx_bind (wrapped ''check prior cancellation movement'' (query (\<lambda>t s. cancellation_recorded i s))) (\<lambda>done.
     if done then tx_return True
     else tx_bind (tx_for ls (\<lambda>l _. release_line i l) ()) (\<lambda>_. tx_return False)))"

end
