(* ===== verification/Inventory_Service.thy ===== *)
theory Inventory_Service
  imports Inventory_Store
begin

text \<open>
  Inventory service, use cases (internal/app/inventory_service.go) and adapters: the HTTP handlers
  (internal/adapter/http), the gRPC server (internal/adapter/grpc) and the subscriber to order events
  (internal/adapter/pubsub). \<open>pub\<close> says whether a publisher is configured. A movement that cannot be
  recorded is only logged.
\<close>

subsection \<open>Use cases\<close>

fun inventory_err_text :: "inventory_err \<Rightarrow> string" where
  "inventory_err_text ErrInventoryNotFound = ''inventory not found''"
| "inventory_err_text ErrInvalidQuantity = ''quantity must be positive''"
| "inventory_err_text (ErrNoInventoryRow k) = ''inventory not found for sku '' @ k"
| "inventory_err_text (ErrInsufficientStock a q) =
     ''insufficient stock: available='' @ decimal a @ '', requested='' @ decimal q"
| "inventory_err_text (ErrInsufficientReserved r q) =
     ''insufficient reserved stock: reserved='' @ decimal r @ '', requested='' @ decimal q"
| "inventory_err_text (ErrWrapped p e) = p @ '': '' @ pg_message e"
| "inventory_err_text (ErrBadPayload m) = m"

fun inventory_error_text :: "inventory_err error \<Rightarrow> string" where
  "inventory_error_text (Sentinel e) = inventory_err_text e"
| "inventory_error_text (Pg e) = pg_message e"
| "inventory_error_text (Std e) = ''''"
| "inventory_error_text (AppError st c m e) = m"

definition get_inventory :: "uuid \<Rightarrow> inventory itx" where
  "get_inventory k =
     tx_bind (or_internal ''failed to get inventory'' (get_by_sku k)) (\<lambda>x.
     case x of None \<Rightarrow> tx_throw (Sentinel ErrInventoryNotFound) | Some y \<Rightarrow> tx_return y)"

definition list_inventory :: "uuid \<Rightarrow> int \<Rightarrow> int \<Rightarrow> (inventory list \<times> nat) itx" where
  "list_inventory seller lim off = or_internal ''failed to list inventory'' (list_stock seller lim off)"

definition note_movement :: "uuid \<Rightarrow> movement_type \<Rightarrow> int \<Rightarrow> string \<Rightarrow> unit itx" where
  "note_movement k ty q ref =
     tx_catch (tx_bind (record_movement \<lparr>mov_id = nil_uuid, mov_sku = k, mov_type = ty, mov_quantity = q,
                          mov_ref_type = ref, mov_ref_id = None, mov_created = 0\<rparr>) (\<lambda>_. tx_return ()))
       (\<lambda>_. tx_return ())"

definition stock_event :: "string \<Rightarrow> inventory \<Rightarrow> (string \<times> json) list \<Rightarrow> event" where
  "stock_event ty x extra = \<lparr>topic = ''inventory-events'', event_type = ty,
     payload = [(''sku_id'', JStr (inv_sku x)), (''seller_id'', JStr (inv_seller x))]
       @ proto_int ''quantity_available'' (int32 (inv_available x))
       @ proto_int ''quantity_reserved'' (int32 (inv_reserved x)) @ extra\<rparr>"

definition update_stock :: "bool \<Rightarrow> inventory \<Rightarrow> inventory itx" where
  "update_stock pub x =
     tx_bind (or_internal ''failed to update stock'' (upsert x)) (\<lambda>x'.
     tx_bind (note_movement (inv_sku x') MovementAdjusted (inv_available x') ''stock_update'') (\<lambda>_.
     tx_bind (publish_when pub (stock_event ''inventory.updated'' x' [])) (\<lambda>_.
     tx_return x')))"

text \<open>The error of the repository becomes the text of a conflict.\<close>

definition or_conflict :: "string \<Rightarrow> 'a itx \<Rightarrow> 'a itx" where
  "or_conflict msg m = tx_map_error (\<lambda>e. conflict (msg @ inventory_error_text e)) m"

definition reserve_stock :: "bool \<Rightarrow> uuid \<Rightarrow> int \<Rightarrow> unit itx" where
  "reserve_stock pub k q =
     (if q \<le> 0 then tx_throw (Sentinel ErrInvalidQuantity)
      else
        tx_bind (or_conflict ''failed to reserve stock: '' (reserve k q)) (\<lambda>_.
        tx_bind (note_movement k MovementReserved q ''reservation'') (\<lambda>_.
        tx_bind (tx_catch (get_by_sku k) (\<lambda>_. tx_return None)) (\<lambda>x.
        case x of
          None \<Rightarrow> tx_return ()
        | Some y \<Rightarrow>
            if inv_available y \<le> inv_threshold y then
              publish_when pub (stock_event ''inventory.low_stock'' y
                (proto_int ''low_stock_threshold'' (int32 (inv_threshold y))))
            else tx_return ()))))"

definition release_stock :: "uuid \<Rightarrow> int \<Rightarrow> unit itx" where
  "release_stock k q =
     (if q \<le> 0 then tx_throw (Sentinel ErrInvalidQuantity)
      else
        tx_bind (or_conflict ''failed to release stock: '' (release k q)) (\<lambda>_.
        note_movement k MovementReleased q ''release''))"

definition release_for_order_cancellation :: "uuid \<Rightarrow> cancellation_line list \<Rightarrow> unit itx" where
  "release_for_order_cancellation i ls =
     (if ls = [] then tx_return ()
      else tx_bind (or_internal ''release stock for order cancellation'' (release_for_cancellation i ls))
             (\<lambda>_. tx_return ()))"

definition confirm_sold :: "uuid \<Rightarrow> int \<Rightarrow> unit itx" where
  "confirm_sold k q =
     (if q \<le> 0 then tx_throw (Sentinel ErrInvalidQuantity)
      else
        tx_bind (or_conflict ''failed to confirm sold: '' (confirm_sold_row k q)) (\<lambda>_.
        note_movement k MovementSold q ''sale''))"

subsection \<open>HTTP\<close>

type_synonym inventory_handler = "(inventory_db, inventory_err, response) tx"

definition inventory_map_error :: "inventory_err error \<Rightarrow> inventory_err error" where
  "inventory_map_error e =
     (case as_app_error e of Some a \<Rightarrow> a | None \<Rightarrow>
      if errors_is e (Sentinel ErrInventoryNotFound) then not_found (inventory_error_text e)
      else if errors_is e (Sentinel ErrInvalidQuantity) then bad_request (inventory_error_text e)
      else internal ''internal error'' (Some e))"

definition inventory_body :: "inventory \<Rightarrow> json" where
  "inventory_body x = JObj
     [(''id'', JStr (inv_id x)), (''sku_id'', JStr (inv_sku x)), (''seller_id'', JStr (inv_seller x)),
      (''quantity_available'', JInt (inv_available x)), (''quantity_reserved'', JInt (inv_reserved x)),
      (''low_stock_threshold'', JInt (inv_threshold x)), (''updated_at'', JInt (inv_updated x))]"

definition http_list_inventory ::
  "(string \<Rightarrow> uuid option) \<Rightarrow> string \<Rightarrow> int option option \<Rightarrow> int option option \<Rightarrow> inventory_handler" where
  "http_list_inventory parse raw lim off =
     (if raw = '''' then answer (error_answer 400 ''seller_id query parameter is required'')
      else parsed parse raw ''invalid seller_id'' (\<lambda>seller.
        let p = page_from_request lim off
        in respond inventory_map_error (list_inventory seller (fst p) (snd p)) (page_answer inventory_body p)))"

definition http_get_inventory :: "(string \<Rightarrow> uuid option) \<Rightarrow> string \<Rightarrow> inventory_handler" where
  "http_get_inventory parse raw = parsed parse raw ''invalid sku id'' (\<lambda>k.
     respond inventory_map_error (get_inventory k) (\<lambda>x. Response 200 (Some (inventory_body x))))"

record update_stock_request =
  usr_seller :: uuid
  usr_available :: int
  usr_threshold :: int

definition http_update_stock ::
  "bool \<Rightarrow> (string \<Rightarrow> uuid option) \<Rightarrow> string \<Rightarrow> (string + update_stock_request) option \<Rightarrow> inventory_handler" where
  "http_update_stock pub parse raw body = parsed parse raw ''invalid sku id'' (\<lambda>k. decoded body (\<lambda>req.
     respond inventory_map_error
       (update_stock pub \<lparr>inv_id = nil_uuid, inv_sku = k, inv_seller = usr_seller req,
          inv_available = usr_available req, inv_reserved = 0, inv_threshold = usr_threshold req, inv_updated = 0\<rparr>)
       (\<lambda>x. Response 200 (Some (inventory_body x)))))"

definition http_quantity ::
  "(string \<Rightarrow> uuid option) \<Rightarrow> (uuid \<Rightarrow> int \<Rightarrow> unit itx) \<Rightarrow> string \<Rightarrow> string \<Rightarrow> (string + int) option \<Rightarrow> inventory_handler" where
  "http_quantity parse f done raw body = parsed parse raw ''invalid sku id'' (\<lambda>k. decoded body (\<lambda>q.
     respond inventory_map_error (f k q) (\<lambda>_. status_body done)))"

definition http_reserve ::
  "bool \<Rightarrow> (string \<Rightarrow> uuid option) \<Rightarrow> string \<Rightarrow> (string + int) option \<Rightarrow> inventory_handler" where
  "http_reserve pub parse = http_quantity parse (reserve_stock pub) ''reserved''"

definition http_release :: "(string \<Rightarrow> uuid option) \<Rightarrow> string \<Rightarrow> (string + int) option \<Rightarrow> inventory_handler" where
  "http_release parse = http_quantity parse release_stock ''released''"

definition http_confirm_sold :: "(string \<Rightarrow> uuid option) \<Rightarrow> string \<Rightarrow> (string + int) option \<Rightarrow> inventory_handler" where
  "http_confirm_sold parse = http_quantity parse confirm_sold ''sold_confirmed''"

subsection \<open>gRPC\<close>

text \<open>An answer's item is the inventory with its quantities cut to 32 bits.\<close>

definition inventory_proto :: "inventory \<Rightarrow> inventory" where
  "inventory_proto x = x\<lparr>inv_available := int32 (inv_available x), inv_reserved := int32 (inv_reserved x),
     inv_threshold := int32 (inv_threshold x)\<rparr>"

definition inventory_grpc_error :: "inventory_err error \<Rightarrow> grpc_code" where
  "inventory_grpc_error e =
     (case as_app_error e of
        None \<Rightarrow> GrpcInternal
      | Some a \<Rightarrow>
          (let is = (\<lambda>s. case unwrap a of None \<Rightarrow> False | Some c \<Rightarrow> errors_is c (Std s)) in
           if is ErrNotFound then GrpcNotFound
           else if is ErrBadRequest then GrpcInvalidArgument
           else if is ErrConflict then GrpcAlreadyExists
           else if is ErrForbidden then GrpcPermissionDenied
           else if is ErrUnauthorized then GrpcUnauthenticated
           else GrpcInternal))"

type_synonym 'a inventory_rpc = "'a grpc_result itx"

definition inventory_rpc :: "(string \<Rightarrow> uuid option) \<Rightarrow> string \<Rightarrow> (uuid \<Rightarrow> 'a itx) \<Rightarrow> 'a inventory_rpc" where
  "inventory_rpc parse raw f =
     (case parse raw of
        None \<Rightarrow> tx_return (Inl GrpcInvalidArgument)
      | Some k \<Rightarrow> grpc_respond inventory_grpc_error (f k) (\<lambda>x. x))"

definition rpc_get_inventory :: "(string \<Rightarrow> uuid option) \<Rightarrow> string \<Rightarrow> inventory inventory_rpc" where
  "rpc_get_inventory parse raw = inventory_rpc parse raw (\<lambda>k.
     tx_bind (get_inventory k) (\<lambda>x. tx_return (inventory_proto x)))"

definition rpc_list_inventory ::
  "(string \<Rightarrow> uuid option) \<Rightarrow> string \<Rightarrow> (int \<times> int) option \<Rightarrow> (inventory list \<times> int \<times> int \<times> int) inventory_rpc" where
  "rpc_list_inventory parse raw page = inventory_rpc parse raw (\<lambda>seller.
     let lim = (case page of Some (l, _) \<Rightarrow> if l > 0 then l else 20 | None \<Rightarrow> 20);
         off = (case page of Some (_, d) \<Rightarrow> d | None \<Rightarrow> 0)
     in tx_bind (list_inventory seller lim off) (\<lambda>(xs, n). tx_return (map inventory_proto xs, int32 (int n), lim, off)))"

text \<open>An id that does not parse is the nil UUID.\<close>

definition rpc_update_stock ::
  "bool \<Rightarrow> (string \<Rightarrow> uuid option) \<Rightarrow> string \<Rightarrow> string \<Rightarrow> int \<Rightarrow> int \<Rightarrow> inventory inventory_rpc" where
  "rpc_update_stock pub parse sku seller q threshold =
     (let or_nil = (\<lambda>r. case parse r of None \<Rightarrow> nil_uuid | Some i \<Rightarrow> i) in
      grpc_respond inventory_grpc_error
        (tx_bind (update_stock pub \<lparr>inv_id = nil_uuid, inv_sku = or_nil sku, inv_seller = or_nil seller,
            inv_available = q, inv_reserved = 0, inv_threshold = threshold, inv_updated = 0\<rparr>) (\<lambda>x.
         tx_bind (get_inventory (inv_sku x)) (\<lambda>y. tx_return (inventory_proto y)))) (\<lambda>x. x))"

definition rpc_then_get :: "(string \<Rightarrow> uuid option) \<Rightarrow> string \<Rightarrow> (uuid \<Rightarrow> unit itx) \<Rightarrow> inventory inventory_rpc" where
  "rpc_then_get parse raw f = inventory_rpc parse raw (\<lambda>k.
     tx_bind (f k) (\<lambda>_. tx_bind (get_inventory k) (\<lambda>x. tx_return (inventory_proto x))))"

definition rpc_reserve_stock :: "bool \<Rightarrow> (string \<Rightarrow> uuid option) \<Rightarrow> string \<Rightarrow> int \<Rightarrow> inventory inventory_rpc" where
  "rpc_reserve_stock pub parse raw q = rpc_then_get parse raw (\<lambda>k. reserve_stock pub k q)"

definition rpc_release_stock :: "(string \<Rightarrow> uuid option) \<Rightarrow> string \<Rightarrow> int \<Rightarrow> inventory inventory_rpc" where
  "rpc_release_stock parse raw q = rpc_then_get parse raw (\<lambda>k. release_stock k q)"

definition rpc_confirm_sold :: "(string \<Rightarrow> uuid option) \<Rightarrow> string \<Rightarrow> int \<Rightarrow> inventory inventory_rpc" where
  "rpc_confirm_sold parse raw q = rpc_then_get parse raw (\<lambda>k. confirm_sold k q)"

subsection \<open>Order events\<close>

text \<open>
  The payload of \<open>order.cancelled\<close>: its order id and the SKU ids of its lines, or the text of a
  decoding error. The stock is deliberately not released.
\<close>

definition inventory_order_event ::
  "(string \<Rightarrow> uuid option) \<Rightarrow> string \<Rightarrow> string + string \<times> string list \<Rightarrow> unit itx" where
  "inventory_order_event parse ty body =
     (if ty \<noteq> ''order.cancelled'' then tx_return ()
      else case body of
        Inl m \<Rightarrow> tx_throw (Sentinel (ErrBadPayload m))
      | Inr (order, skus) \<Rightarrow>
          if parse order = None then tx_throw (Sentinel (ErrBadPayload ''invalid order_id''))
          else if list_ex (\<lambda>k. k \<noteq> '''' \<and> parse k = None) skus then
            tx_throw (Sentinel (ErrBadPayload ''invalid sku_id''))
          else tx_return ())"

end
