(* ===== verification/Inventory_Ledger.thy ===== *)
theory Inventory_Ledger
  imports Inventory_Service Contracts
begin

text \<open>
  Inventory service: the tables refine a ledger. The ledger has the available and the reserved
  quantity of every SKU and the cancelled orders whose stock has been given back; each request that
  succeeds is one step of it, and a request that fails changes nothing.
\<close>

subsection \<open>The ledger\<close>

record ledger =
  levels :: "uuid \<Rightarrow> (int \<times> int) option"
  returned :: "uuid set"

definition level :: "inventory_db \<Rightarrow> uuid \<Rightarrow> (int \<times> int) option" where
  "level s k = map_option (\<lambda>x. (inv_available x, inv_reserved x)) (find (\<lambda>x. inv_sku x = k) (stocks s))"

definition ledger_of :: "inventory_db \<Rightarrow> ledger" where
  "ledger_of s = \<lparr>levels = level s, returned = {i. cancellation_recorded i s}\<rparr>"

definition empty_ledger :: ledger where
  "empty_ledger = \<lparr>levels = \<lambda>_. None, returned = {}\<rparr>"

datatype stock_request =
  SetStock uuid update_stock_request
| ReserveStock uuid int
| ReleaseStock uuid int
| ConfirmSold uuid int
| OrderCancelled uuid "cancellation_line list"

definition set_stock :: "uuid \<Rightarrow> update_stock_request \<Rightarrow> inventory" where
  "set_stock k q = \<lparr>inv_id = nil_uuid, inv_sku = k, inv_seller = usr_seller q, inv_available = usr_available q,
     inv_reserved = 0, inv_threshold = usr_threshold q, inv_updated = 0\<rparr>"

fun exec_request :: "bool \<Rightarrow> stock_request \<Rightarrow> unit itx" where
  "exec_request pub (SetStock k q) = tx_bind (update_stock pub (set_stock k q)) (\<lambda>_. tx_return ())"
| "exec_request pub (ReserveStock k q) = reserve_stock pub k q"
| "exec_request pub (ReleaseStock k q) = release_stock k q"
| "exec_request pub (ConfirmSold k q) = confirm_sold k q"
| "exec_request pub (OrderCancelled i ls) = release_for_order_cancellation i ls"

text \<open>\<open>serve\<close> runs the requests one after the other and lists those that were honoured.\<close>

fun serve :: "bool \<Rightarrow> stock_request list \<Rightarrow> inventory_db world \<Rightarrow> stock_request list \<times> inventory_db world" where
  "serve pub [] w = ([], w)"
| "serve pub (r # rs) w =
     (case exec_request pub r w of
        (Inl _, w1) \<Rightarrow> serve pub rs w1
      | (Inr _, w1) \<Rightarrow> (case serve pub rs w1 of (done, w2) \<Rightarrow> (r # done, w2)))"

definition shift :: "uuid \<Rightarrow> int \<Rightarrow> int \<Rightarrow> (uuid \<Rightarrow> (int \<times> int) option) \<Rightarrow> uuid \<Rightarrow> (int \<times> int) option" where
  "shift k da dr L = L(k := map_option (\<lambda>(a, r). (a + da, r + dr)) (L k))"

fun give_back :: "cancellation_line list \<Rightarrow> (uuid \<Rightarrow> (int \<times> int) option) \<Rightarrow> uuid \<Rightarrow> (int \<times> int) option" where
  "give_back [] L = L"
| "give_back (l # ls) L = give_back ls (if cl_quantity l \<le> 0 then L else shift (cl_sku l) (cl_quantity l) 0 L)"

fun ledger_step :: "stock_request \<Rightarrow> ledger \<Rightarrow> ledger" where
  "ledger_step (SetStock k q) g = g\<lparr>levels := (levels g)(k :=
     Some (usr_available q, case levels g k of None \<Rightarrow> 0 | Some (_, r) \<Rightarrow> r))\<rparr>"
| "ledger_step (ReserveStock k q) g = g\<lparr>levels := shift k (- q) q (levels g)\<rparr>"
| "ledger_step (ReleaseStock k q) g = g\<lparr>levels := shift k q (- q) (levels g)\<rparr>"
| "ledger_step (ConfirmSold k q) g = g\<lparr>levels := shift k 0 (- q) (levels g)\<rparr>"
| "ledger_step (OrderCancelled i ls) g =
     (if i \<in> returned g \<or> \<not> list_ex (\<lambda>l. 0 < cl_quantity l) ls then g
      else \<lparr>levels = give_back ls (levels g), returned = insert i (returned g)\<rparr>)"

text \<open>What a request needs of the ledger.\<close>

fun honours :: "ledger \<Rightarrow> stock_request \<Rightarrow> bool" where
  "honours g (ReserveStock k q) = (0 < q \<and> (\<exists>a r. levels g k = Some (a, r) \<and> q \<le> a))"
| "honours g (ReleaseStock k q) = (0 < q \<and> (\<exists>a r. levels g k = Some (a, r) \<and> q \<le> r))"
| "honours g (ConfirmSold k q) = (0 < q \<and> (\<exists>a r. levels g k = Some (a, r) \<and> q \<le> r))"
| "honours g _ = True"

subsection \<open>Statements\<close>

lemma stock_find_update:
  "(\<And>x. key (g x) = key x) \<Longrightarrow> find (\<lambda>x. key x = k) (update_where (\<lambda>x. key x = k') g xs) =
     (if k = k' then map_option g (find (\<lambda>x. key x = k) xs) else find (\<lambda>x. key x = k) xs)"
  by (induction xs) auto

lemma level_movements [simp]: "level (s\<lparr>movements := ms\<rparr>) = level s"
  by (simp add: level_def fun_eq_iff)

lemma level_move:
  assumes "move_stmt k q da dr t s = Inr (n, s')"
  shows "level s' = shift k da dr (level s) \<and> movements s' = movements s"
  using assms
  by (auto simp: move_stmt_def Let_def level_def shift_def fun_eq_iff stock_find_update [where key = inv_sku]
      option.map_comp comp_def intro!: option.map_cong0 split: if_splits)

lemma level_upsert:
  assumes "upsert_stmt x t s = Inr (x', s')"
  shows "level s' = (level s)(inv_sku x := Some (inv_available x, case level s (inv_sku x) of None \<Rightarrow> inv_reserved x | Some (_, r) \<Rightarrow> r))
    \<and> movements s' = movements s"
  using assms
  by (auto simp: upsert_stmt_def Let_def level_def fun_eq_iff find_append stock_find_update [where key = inv_sku]
      split: if_splits option.splits)

lemma note_movement_frame: "store (snd (note_movement k ty q ref w)) = store w"
proof -
  have "store w' = store w" if "record_movement m w = (r, w')" "mov_ref_id m = None" for m r w'
  proof (cases r)
    case (Inl e)
    with that(1) show ?thesis unfolding record_movement_def by (auto dest: run_tx_error_frame)
  next
    case (Inr x)
    have "wp (record_movement m) (\<lambda>_ _. False) w"
      unfolding record_movement_def wrapped_def
      by (intro wp_intros) (use that(2) in \<open>simp add: insert_movement_stmt_def\<close>)
    from wpD [OF this] that(1) Inr show ?thesis by simp
  qed
  then show ?thesis
    by (auto simp: note_movement_def tx_catch_def tx_bind_def tx_return_def split: prod.splits sum.splits)
qed

lemma wp_note_movement [wp_intros]:
  "(\<And>w'. store w' = store w \<Longrightarrow> Q () w') \<Longrightarrow> wp (note_movement k ty q ref) Q w"
  using note_movement_frame [of k ty q ref w] by (auto simp: wp_def split: prod.splits sum.splits)

lemma keeps_note_movement [keeps_intros]: "keeps I (note_movement k ty q ref)"
  by (simp add: keeps_def note_movement_frame)

lemma wp_wrappedI [wp_intros]: "wp m Q w \<Longrightarrow> wp (wrapped p m) Q w"
  unfolding wrapped_def by (rule wp_map_errorI)

lemma wp_or_conflictI [wp_intros]: "wp m Q w \<Longrightarrow> wp (or_conflict p m) Q w"
  unfolding or_conflict_def by (rule wp_map_errorI)

lemma wp_or_internalI [wp_intros]: "wp m Q w \<Longrightarrow> wp (or_internal p m) Q w"
  unfolding or_internal_def by (rule wp_map_errorI)

lemma wp_lock_stock [wp_intros]:
  assumes "\<And>x w'. store w' = store w \<Longrightarrow> level (store w) k = Some (inv_available x, inv_reserved x) \<Longrightarrow> Q x w'"
  shows "wp (lock_stock k) Q w"
  unfolding lock_stock_def
  by (intro wp_bindI wp_wrappedI wp_queryI wp_case_optionI wp_throwI wp_returnI)
     (rule assms; simp add: level_def)

subsection \<open>Each request is one step, or none\<close>

lemma stock_reserve_step:
  "wp (reserve k q) (\<lambda>_ w'. (\<exists>a r. level (store w) k = Some (a, r) \<and> q \<le> a)
     \<and> level (store w') = shift k (- q) q (level (store w)) \<and> movements (store w') = movements (store w)) w"
  unfolding reserve_def by (intro wp_intros) (auto simp: not_less dest!: level_move)

lemma stock_release_step:
  "wp (release k q) (\<lambda>_ w'. (\<exists>a r. level (store w) k = Some (a, r) \<and> q \<le> r)
     \<and> level (store w') = shift k q (- q) (level (store w)) \<and> movements (store w') = movements (store w)) w"
  unfolding release_def by (intro wp_intros) (auto simp: not_less dest!: level_move)

lemma confirm_step:
  "wp (confirm_sold_row k q) (\<lambda>_ w'. (\<exists>a r. level (store w) k = Some (a, r) \<and> q \<le> r)
     \<and> level (store w') = shift k 0 (- q) (level (store w)) \<and> movements (store w') = movements (store w)) w"
  unfolding confirm_sold_row_def by (intro wp_intros) (auto simp: not_less dest!: level_move)

lemma upsert_step:
  "wp (upsert x) (\<lambda>_ w'. level (store w') = (level (store w))(inv_sku x :=
        Some (inv_available x, case level (store w) (inv_sku x) of None \<Rightarrow> inv_reserved x | Some (_, r) \<Rightarrow> r))
     \<and> movements (store w') = movements (store w)) w"
  unfolding upsert_def
  by (intro wp_run_txI wp_bindI wp_ifI wp_new_uuidI wp_returnI wp_wrappedI wp_sqlI)
     (auto dest!: level_upsert cong: option.case_cong)

text \<open>The lines of a cancellation, within its transaction.\<close>

lemma release_line_step:
  "wp (release_line i l) (\<lambda>_ w'.
     level (store w') = (if cl_quantity l \<le> 0 then level (store w) else shift (cl_sku l) (cl_quantity l) 0 (level (store w)))
     \<and> (\<forall>m \<in> set (movements (store w')) - set (movements (store w)). mov_ref_type m = ''order_cancellation'' \<and> mov_ref_id m = Some i)
     \<and> set (movements (store w)) \<subseteq> set (movements (store w'))
     \<and> (if cl_quantity l \<le> 0 then movements (store w') = movements (store w) else cancellation_recorded i (store w'))) w"
  unfolding release_line_def
  by (intro wp_ifI wp_bindI wp_returnI wp_wrappedI wp_sqlI wp_new_uuidI)
     (auto simp: insert_movement_stmt_def Let_def cancellation_recorded_def
       dest!: level_move split: if_splits)

definition adds_returns :: "uuid \<Rightarrow> inventory_db \<Rightarrow> inventory_db \<Rightarrow> bool" where
  "adds_returns i s s' \<longleftrightarrow> set (movements s) \<subseteq> set (movements s')
     \<and> (\<forall>m \<in> set (movements s') - set (movements s). mov_ref_type m = ''order_cancellation'' \<and> mov_ref_id m = Some i)"

lemma adds_returns_refl: "movements s' = movements s \<Longrightarrow> adds_returns i s s'"
  by (simp add: adds_returns_def)

lemma adds_returns_trans: "adds_returns i s s1 \<Longrightarrow> adds_returns i s1 s2 \<Longrightarrow> adds_returns i s s2"
  unfolding adds_returns_def by blast

lemma recorded_mono: "adds_returns i s s' \<Longrightarrow> cancellation_recorded j s \<Longrightarrow> cancellation_recorded j s'"
  by (auto simp: adds_returns_def cancellation_recorded_def list_ex_iff)

lemma recorded_new: "adds_returns i s s' \<Longrightarrow> cancellation_recorded j s' \<Longrightarrow> j \<noteq> i \<Longrightarrow> cancellation_recorded j s"
  unfolding adds_returns_def cancellation_recorded_def list_ex_iff by (metis DiffI option.inject)

lemma release_lines_step:
  "wp (tx_for ls (\<lambda>l _. release_line i l) ()) (\<lambda>_ w'. level (store w') = give_back ls (level (store w))
     \<and> adds_returns i (store w) (store w')
     \<and> (if list_ex (\<lambda>l. 0 < cl_quantity l) ls then cancellation_recorded i (store w') else movements (store w') = movements (store w))) w"
proof (induction ls arbitrary: w)
  case Nil
  then show ?case by (simp add: wp_simps adds_returns_refl)
next
  case (Cons l ls)
  show ?case
    unfolding tx_for.simps
  proof (intro wp_bindI, rule wp_mono [OF release_line_step])
    fix x :: unit and w1 :: "inventory_db world"
    assume l: "level (store w1) = (if cl_quantity l \<le> 0 then level (store w) else shift (cl_sku l) (cl_quantity l) 0 (level (store w)))
      \<and> (\<forall>m \<in> set (movements (store w1)) - set (movements (store w)). mov_ref_type m = ''order_cancellation'' \<and> mov_ref_id m = Some i)
      \<and> set (movements (store w)) \<subseteq> set (movements (store w1))
      \<and> (if cl_quantity l \<le> 0 then movements (store w1) = movements (store w) else cancellation_recorded i (store w1))"
    then have a: "adds_returns i (store w) (store w1)" by (simp add: adds_returns_def)
    show "wp (tx_for ls (\<lambda>l _. release_line i l) x) (\<lambda>_ w'. level (store w') = give_back (l # ls) (level (store w))
       \<and> adds_returns i (store w) (store w')
       \<and> (if list_ex (\<lambda>l. 0 < cl_quantity l) (l # ls) then cancellation_recorded i (store w') else movements (store w') = movements (store w))) w1"
      by (rule wp_mono, simp, rule Cons.IH)
         (use l a in \<open>auto intro: adds_returns_trans recorded_mono split: if_splits\<close>)
  qed
qed

lemma release_for_cancellation_step:
  "wp (release_for_cancellation i ls) (\<lambda>_ w'.
     (if cancellation_recorded i (store w) then level (store w') = level (store w) \<and> movements (store w') = movements (store w)
      else level (store w') = give_back ls (level (store w)) \<and> adds_returns i (store w) (store w')
        \<and> (if list_ex (\<lambda>l. 0 < cl_quantity l) ls then cancellation_recorded i (store w') else movements (store w') = movements (store w)))) w"
  unfolding release_for_cancellation_def
proof (intro wp_run_txI wp_bindI wp_wrappedI wp_queryI wp_ifI wp_returnI)
  fix w0 w1 :: "inventory_db world"
  assume s: "store w0 = store w" "store w1 = store w0" and n: "\<not> cancellation_recorded i (store w0)"
  show "wp (tx_for ls (\<lambda>l _. release_line i l) ()) (\<lambda>x. wp (tx_return False)
     (\<lambda>x w1. \<not> aborted w1 \<longrightarrow> (\<forall>w2. store w2 = store w1 \<longrightarrow>
       (if cancellation_recorded i (store w) then level (store w2) = level (store w) \<and> movements (store w2) = movements (store w)
        else level (store w2) = give_back ls (level (store w)) \<and> adds_returns i (store w) (store w2)
          \<and> (if list_ex (\<lambda>l. 0 < cl_quantity l) ls then cancellation_recorded i (store w2) else movements (store w2) = movements (store w)))))) w1"
    by (rule wp_mono [OF release_lines_step]) (use s n in \<open>auto simp: wp_simps\<close>)
qed simp

text \<open>A cancellation without a positive quantity leaves no trace.\<close>

lemma give_back_none: "\<not> list_ex (\<lambda>l. 0 < cl_quantity l) ls \<Longrightarrow> give_back ls L = L"
  by (induction ls) auto

subsection \<open>Requests\<close>

lemma keeps_get_by_sku [keeps_intros]: "keeps I (get_by_sku k)"
  unfolding get_by_sku_def wrapped_def by (intro keeps_intros)

lemma note_movement_succeeds: "note_movement k ty q ref w \<noteq> (Inl e, w')"
  by (auto simp: note_movement_def tx_catch_def tx_return_def split: prod.splits sum.splits)

definition low_stock_check :: "bool \<Rightarrow> uuid \<Rightarrow> unit itx" where
  "low_stock_check pub k =
     tx_bind (tx_catch (get_by_sku k) (\<lambda>_. tx_return None)) (\<lambda>x.
     case x of
       None \<Rightarrow> tx_return ()
     | Some y \<Rightarrow>
         if inv_available y \<le> inv_threshold y then
           publish_when pub (stock_event ''inventory.low_stock'' y
             (proto_int ''low_stock_threshold'' (int32 (inv_threshold y))))
         else tx_return ())"

lemma reserve_stock_alt:
  "reserve_stock pub k q =
     (if q \<le> 0 then tx_throw (Sentinel ErrInvalidQuantity)
      else tx_bind (or_conflict ''failed to reserve stock: '' (reserve k q)) (\<lambda>_.
        tx_bind (note_movement k MovementReserved q ''reservation'') (\<lambda>_. low_stock_check pub k)))"
  by (simp add: reserve_stock_def low_stock_check_def)

lemma keeps_low_stock_check [keeps_intros]: "keeps I (low_stock_check pub k)"
  unfolding low_stock_check_def by (intro keeps_intros)

lemma low_stock_check_succeeds: "low_stock_check pub k w \<noteq> (Inl e, w')"
  by (auto simp: low_stock_check_def tx_bind_def tx_catch_def tx_return_def publish_when_def publish_def
      split: prod.splits sum.splits option.splits if_splits)

lemma wp_low_stock_check [wp_intros]:
  "(\<And>w'. store w' = store w \<Longrightarrow> Q () w') \<Longrightarrow> wp (low_stock_check pub k) Q w"
  using wp_keeps [OF keeps_low_stock_check [of "\<lambda>s. s = store w" pub k], of w]
  by (auto simp: wp_def split: prod.splits sum.splits)

lemma wp_publish_when [wp_intros]:
  "(\<And>w'. store w' = store w \<Longrightarrow> clock w' = clock w \<Longrightarrow> Q () w') \<Longrightarrow> wp (publish_when p e) Q w"
  unfolding publish_when_def by (intro wp_intros) auto

lemma fails_clean_wrappers [keeps_intros]:
  "fails_clean m \<Longrightarrow> fails_clean (or_internal msg m)" "fails_clean m' \<Longrightarrow> fails_clean (or_conflict msg m')"
  unfolding or_internal_def or_conflict_def by (rule fails_clean_map_error, assumption)+

lemma exec_request_fails_clean: "fails_clean (exec_request pub r)"
proof (cases r)
  case (SetStock k q)
  have "tx_bind (note_movement (inv_sku x') MovementAdjusted (inv_available x') ''stock_update'') (\<lambda>_.
     tx_bind (publish_when pub (stock_event ''inventory.updated'' x' [])) (\<lambda>_. tx_return x')) w \<noteq> (Inl e, w')" for x' w e w'
    using note_movement_succeeds
    by (auto simp: tx_bind_def tx_return_def publish_when_def publish_def split: prod.splits sum.splits if_splits)
  moreover have "fails_clean (upsert x)" for x unfolding upsert_def by (rule fails_clean_simps)
  ultimately show ?thesis
    unfolding SetStock exec_request.simps update_stock_def
    by (intro fails_clean_bind [where m = "tx_bind _ _"] fails_clean_bind [where m = "or_internal _ _"]
        fails_clean_wrappers) (simp_all add: tx_return_def)
next
  case (ReserveStock k q)
  have "tx_bind (note_movement k MovementReserved q ''reservation'') (\<lambda>_. low_stock_check pub k) w \<noteq> (Inl e, w')" for w e w'
    using note_movement_succeeds low_stock_check_succeeds by (auto simp: tx_bind_def split: prod.splits sum.splits)
  with ReserveStock show ?thesis
    by (simp add: reserve_stock_alt reserve_def)
       (intro impI conjI fails_clean_bind fails_clean_wrappers fails_clean_simps, simp)
next
  case (ReleaseStock k q)
  then show ?thesis
    by (simp add: release_stock_def release_def)
       (intro impI conjI fails_clean_bind fails_clean_wrappers fails_clean_simps note_movement_succeeds)
next
  case (ConfirmSold k q)
  then show ?thesis
    by (simp add: confirm_sold_def confirm_sold_row_def)
       (intro impI conjI fails_clean_bind fails_clean_wrappers fails_clean_simps note_movement_succeeds)
next
  case (OrderCancelled i ls)
  then show ?thesis
    by (simp add: release_for_order_cancellation_def release_for_cancellation_def)
       (intro impI conjI fails_clean_bind fails_clean_wrappers fails_clean_simps, simp add: tx_return_def)
qed

text \<open>The movements hold nothing but the returns of cancelled orders.\<close>

definition only_returns :: "inventory_db \<Rightarrow> bool" where
  "only_returns s \<longleftrightarrow> (\<forall>m \<in> set (movements s). mov_ref_type m = ''order_cancellation'')"

lemma exec_request_step:
  "wp (exec_request pub r) (\<lambda>_ w'. honours (ledger_of (store w)) r
     \<and> ledger_of (store w') = ledger_step r (ledger_of (store w))
     \<and> (only_returns (store w) \<longrightarrow> only_returns (store w'))) w"
proof (cases r)
  case (SetStock k q)
  show ?thesis
    unfolding SetStock exec_request.simps update_stock_def
    by (intro wp_bindI wp_or_internalI, rule wp_mono [OF upsert_step], intro wp_intros)
       (auto simp: ledger_of_def set_stock_def only_returns_def cancellation_recorded_def
         cong: option.case_cong)
next
  case (ReserveStock k q)
  show ?thesis
    unfolding ReserveStock exec_request.simps reserve_stock_alt
    by (intro wp_ifI wp_throwI wp_bindI wp_or_conflictI, rule wp_mono [OF stock_reserve_step], intro wp_intros)
       (auto simp: ledger_of_def only_returns_def cancellation_recorded_def)
next
  case (ReleaseStock k q)
  show ?thesis
    unfolding ReleaseStock exec_request.simps release_stock_def
    by (intro wp_ifI wp_throwI wp_bindI wp_or_conflictI, rule wp_mono [OF stock_release_step], intro wp_intros)
       (auto simp: ledger_of_def only_returns_def cancellation_recorded_def)
next
  case (ConfirmSold k q)
  show ?thesis
    unfolding ConfirmSold exec_request.simps confirm_sold_def
    by (intro wp_ifI wp_throwI wp_bindI wp_or_conflictI, rule wp_mono [OF confirm_step], intro wp_intros)
       (auto simp: ledger_of_def only_returns_def cancellation_recorded_def)
next
  case (OrderCancelled i ls)
  have step: "ledger_of s' = ledger_step (OrderCancelled i ls) (ledger_of s)"
    if "(if cancellation_recorded i s then level s' = level s \<and> movements s' = movements s
      else level s' = give_back ls (level s) \<and> adds_returns i s s'
        \<and> (if list_ex (\<lambda>l. 0 < cl_quantity l) ls then cancellation_recorded i s' else movements s' = movements s))" for s s'
  proof (cases "cancellation_recorded i s \<or> \<not> list_ex (\<lambda>l. 0 < cl_quantity l) ls")
    case True
    with that have "level s' = level s" "movements s' = movements s"
      by (auto simp: give_back_none split: if_splits)
    with True show ?thesis by (auto simp: ledger_of_def cancellation_recorded_def)
  next
    case False
    with that have "level s' = give_back ls (level s)" and a: "adds_returns i s s'" and "cancellation_recorded i s'"
      by auto
    moreover have "{j. cancellation_recorded j s'} = insert i {j. cancellation_recorded j s}"
      using recorded_mono [OF a] recorded_new [OF a] \<open>cancellation_recorded i s'\<close> by auto
    ultimately show ?thesis using False by (simp add: ledger_of_def)
  qed
  have ret: "only_returns s'"
    if "(if cancellation_recorded i s then level s' = level s \<and> movements s' = movements s
      else level s' = give_back ls (level s) \<and> adds_returns i s s'
        \<and> (if list_ex (\<lambda>l. 0 < cl_quantity l) ls then cancellation_recorded i s' else movements s' = movements s))"
      "only_returns s" for s s'
    using that by (auto simp: adds_returns_def only_returns_def split: if_splits)
  show ?thesis
    unfolding OrderCancelled exec_request.simps release_for_order_cancellation_def
  proof (intro wp_ifI wp_bindI wp_or_internalI wp_returnI)
    assume "ls = []"
    then show "honours (ledger_of (store w)) (OrderCancelled i ls)
      \<and> ledger_of (store w) = ledger_step (OrderCancelled i ls) (ledger_of (store w))
      \<and> (only_returns (store w) \<longrightarrow> only_returns (store w))" by simp
  next
    show "wp (release_for_cancellation i ls) (\<lambda>x. wp (tx_return ()) (\<lambda>_ w'. honours (ledger_of (store w)) (OrderCancelled i ls)
       \<and> ledger_of (store w') = ledger_step (OrderCancelled i ls) (ledger_of (store w))
       \<and> (only_returns (store w) \<longrightarrow> only_returns (store w')))) w"
      by (rule wp_mono [OF release_for_cancellation_step], unfold wp_return, intro conjI impI)
         (simp, erule step, erule (1) ret)
  qed
qed

end
