(* ===== verification/Inventory_Properties.thy ===== *)
theory Inventory_Properties
  imports Inventory_Ledger Samples
begin

text \<open>
  Inventory service, properties: runs of requests refine the ledger, reserved stock is what was
  reserved and neither released nor sold, and a cancelled order's stock is given back once.
\<close>

subsection \<open>Runs\<close>
















subsection \<open>The stock of a cancelled order\<close>

text \<open>
  \<open>ReleaseStockForOrderCancellation\<close> may be called again for the same order: an instance of the
  at-least-once contract, with every other request in between.
\<close>

definition given_back :: "uuid \<Rightarrow> cancellation_line list \<Rightarrow> inventory_db world \<Rightarrow> bool" where
  "given_back i ls w \<longleftrightarrow> i \<in> returned (ledger_of (store w)) \<or> \<not> list_ex (\<lambda>l. 0 < cl_quantity l) ls"

lemma request_view:
  "ledger_of (store (snd (exec_request pub r w))) = ledger_of (store w)
   \<or> ledger_of (store (snd (exec_request pub r w))) = ledger_step r (ledger_of (store w))"
proof -
  obtain x w' where e: "exec_request pub r w = (x, w')" by fastforce
  show ?thesis
  proof (cases x)
    case (Inl er)
    with e have "store w' = store w" by (auto intro: fails_cleanD [OF exec_request_fails_clean])
    with e show ?thesis by simp
  next
    case (Inr u)
    from wpD [OF exec_request_step e [unfolded Inr]] e show ?thesis by simp
  qed
qed

lemma request_returned:
  "i \<in> returned (ledger_of (store w)) \<Longrightarrow> i \<in> returned (ledger_of (store (snd (exec_request pub r w))))"
  using request_view [of pub r w] by (cases r) auto

interpretation cancellation: at_least_once "release_for_order_cancellation i ls" "ledger_of \<circ> store"
  "given_back i ls" "\<lambda>w w'. \<exists>pub r. w' = snd (exec_request pub r w)" for i ls
proof
  fix w e w' and x :: unit
  have same: "exec_request pub (OrderCancelled i ls) = release_for_order_cancellation i ls" for pub by simp
  show "(ledger_of \<circ> store) w' = (ledger_of \<circ> store) w"
    if "release_for_order_cancellation i ls w = (Inl e, w')"
    using fails_cleanD [OF exec_request_fails_clean, of undefined "OrderCancelled i ls" w e w'] that by simp
  show "given_back i ls w'" if "release_for_order_cancellation i ls w = (Inr x, w')"
    using wpD [OF exec_request_step, of undefined "OrderCancelled i ls" w x w'] that
    by (auto simp: given_back_def split: if_splits)
  show noop: "(ledger_of \<circ> store) (snd (release_for_order_cancellation i ls w)) = (ledger_of \<circ> store) w"
    if "given_back i ls w"
    using request_view [of undefined "OrderCancelled i ls" w] that by (auto simp: given_back_def)
  show "given_back i ls (snd (release_for_order_cancellation i ls w))" if "given_back i ls w"
    using noop [OF that] that by (auto simp: given_back_def)
  show "given_back i ls w'" if "\<exists>pub r. w' = snd (exec_request pub r w)" "given_back i ls w"
    using that request_returned by (auto simp: given_back_def)
qed

text \<open>However often a cancellation is delivered, its stock comes back at most once.\<close>

lemma cancellation_returned_once:
  "release_for_order_cancellation i ls w = (Inr x, w1) \<Longrightarrow> (cancellation.evolves i ls)\<^sup>*\<^sup>* w1 w2 \<Longrightarrow>
   ledger_of (store (snd (release_for_order_cancellation i ls w2))) = ledger_of (store w2)"
  using cancellation.exactly_once [of i ls w x w1 w2] by simp

subsection \<open>Stock\<close>




end
