(* ===== verification/Outbox.thy ===== *)
theory Outbox
  imports Request_Context Outcomes
begin

text \<open>
  The transactional outbox of the shipping and the catalog service: the table \<open>outbox_events\<close> and
  the relay (internal/adapter/pubsub/outbox_relay.go, the same in both services). A cycle claims a
  batch, publishes it without holding a transaction, and marks the outcome. The broker's answer to a
  publish is the parameter \<open>publisher\<close>: \<open>None\<close> if it takes the event, else the error's text;
  \<open>accepted\<close> is no table but the list of envelopes the broker has taken. Rows locked by another
  replica are skipped in the code; transactions run one after the other here.
\<close>

record outbox_row =
  ob_id :: uuid
  ob_type :: string
  ob_topic :: string
  ob_payload :: "(string \<times> json) list"
  ob_created :: instant
  ob_published :: "instant option"
  ob_processing :: "instant option"
  ob_attempts :: nat
  ob_error :: "string option"

record envelope =
  env_id :: uuid
  env_type :: string
  env_topic :: string
  env_time :: instant
  env_data :: "(string \<times> json) list"

record outbox_db =
  outbox :: "outbox_row list"
  accepted :: "envelope list"

type_synonym ('d, 'a) obx = "(outbox_db, 'd, 'a) tx"

definition empty_outbox :: outbox_db where
  "empty_outbox = \<lparr>outbox = [], accepted = []\<rparr>"

definition env_of :: "outbox_row \<Rightarrow> envelope" where
  "env_of r = \<lparr>env_id = ob_id r, env_type = ob_type r, env_topic = ob_topic r, env_time = ob_created r, env_data = ob_payload r\<rparr>"

text \<open>A service embeds the outbox in its own tables: \<open>within get put m\<close> runs \<open>m\<close> on that part.\<close>

definition within :: "('s \<Rightarrow> 'p) \<Rightarrow> ('p \<Rightarrow> 's \<Rightarrow> 's) \<Rightarrow> ('p, 'd, 'a) tx \<Rightarrow> ('s, 'd, 'a) tx" where
  "within get put m w =
     (case m \<lparr>store = get (store w), aborted = aborted w, faults = faults w, clock = clock w, uuids = uuids w,
              uuid_next = uuid_next w, events = events w\<rparr> of
        (r, v) \<Rightarrow> (r, w\<lparr>store := put (store v) (store w), aborted := aborted v, faults := faults v, clock := clock v,
                     uuids := uuids v, uuid_next := uuid_next v, events := events v\<rparr>))"

subsection \<open>The table\<close>

text \<open>Every caller leaves the id of a row to the repository.\<close>

definition insert_outbox_stmt ::
  "uuid \<Rightarrow> string \<Rightarrow> string \<Rightarrow> (string \<times> json) list \<Rightarrow> instant \<Rightarrow> outbox_db \<Rightarrow> pg_error + (unit \<times> outbox_db)" where
  "insert_outbox_stmt i ty tp d t s =
     (if i \<in> set (map ob_id (outbox s)) then Inl (UniqueViolation ''outbox_events_pkey'')
      else Inr ((), s\<lparr>outbox := outbox s @ [\<lparr>ob_id = i, ob_type = ty, ob_topic = tp, ob_payload = d, ob_created = t,
             ob_published = None, ob_processing = None, ob_attempts = 0, ob_error = None\<rparr>]\<rparr>))"

definition append_outbox :: "string \<Rightarrow> string \<Rightarrow> (string \<times> json) list \<Rightarrow> ('d, unit) obx" where
  "append_outbox ty tp d = tx_bind new_uuid (\<lambda>i. sql (insert_outbox_stmt i ty tp d))"

definition claim_expiry :: int where
  "claim_expiry = 5 * 60 * 10 ^ 9"

definition batch_limit :: nat where
  "batch_limit = 50"

definition relay_claimable :: "instant \<Rightarrow> outbox_row \<Rightarrow> bool" where
  "relay_claimable t r \<longleftrightarrow> ob_published r = None \<and>
     (case ob_processing r of None \<Rightarrow> True | Some p \<Rightarrow> p < t - claim_expiry)"

definition relay_batch :: "instant \<Rightarrow> outbox_db \<Rightarrow> outbox_row list" where
  "relay_batch t s = take batch_limit (sort_key ob_created (filter (relay_claimable t) (outbox s)))"

definition update_outbox :: "(outbox_row \<Rightarrow> bool) \<Rightarrow> (outbox_row \<Rightarrow> outbox_row) \<Rightarrow> outbox_db \<Rightarrow> outbox_db" where
  "update_outbox q g s = s\<lparr>outbox := update_where q g (outbox s)\<rparr>"

definition claim_batch :: "('d, outbox_row list) obx" where
  "claim_batch = pool_stmt (sql (\<lambda>t s. Inr (relay_batch t s,
     update_outbox (\<lambda>r. ob_id r \<in> set (map ob_id (relay_batch t s))) (\<lambda>r. r\<lparr>ob_processing := Some t\<rparr>) s)))"

definition mark_published_rows :: "uuid list \<Rightarrow> ('d, unit) obx" where
  "mark_published_rows is = pool_stmt (sql (\<lambda>t s. Inr ((),
     update_outbox (\<lambda>r. ob_id r \<in> set is) (\<lambda>r. r\<lparr>ob_published := Some t, ob_processing := None\<rparr>) s)))"

definition record_failure :: "uuid \<Rightarrow> string \<Rightarrow> ('d, unit) obx" where
  "record_failure i m = pool_stmt (sql (\<lambda>t s. Inr ((),
     update_outbox (\<lambda>r. ob_id r = i)
       (\<lambda>r. r\<lparr>ob_attempts := ob_attempts r + 1, ob_error := Some m, ob_processing := None\<rparr>) s)))"

subsection \<open>The relay\<close>

text \<open>Publishing the rows in turn: the ids taken, and the ids refused with their errors.\<close>

definition send_row :: "(outbox_row \<Rightarrow> string option) \<Rightarrow> outbox_row \<Rightarrow> uuid list \<times> (uuid \<times> string) list
    \<Rightarrow> ('d, uuid list \<times> (uuid \<times> string) list) obx" where
  "send_row publisher r acc w =
     (case publisher r of
        None \<Rightarrow> (Inr (fst acc @ [ob_id r], snd acc),
                 w\<lparr>store := (store w)\<lparr>accepted := accepted (store w) @ [env_of r]\<rparr>\<rparr>)
      | Some m \<Rightarrow> (Inr (fst acc, snd acc @ [(ob_id r, m)]), w))"

definition note_failure :: "uuid \<times> string \<Rightarrow> unit \<Rightarrow> ('d, unit) obx" where
  "note_failure f u = tx_catch (record_failure (fst f) (snd f)) (\<lambda>_. tx_return ())"

definition relay_run :: "(outbox_row \<Rightarrow> string option) \<Rightarrow> ('d, unit) obx" where
  "relay_run publisher =
     tx_bind claim_batch (\<lambda>batch.
     if batch = [] then tx_return ()
     else
       tx_bind (tx_for batch (send_row publisher) ([], [])) (\<lambda>sent.
       tx_bind (if fst sent = [] then tx_return () else mark_published_rows (fst sent)) (\<lambda>_.
       tx_for (snd sent) note_failure ())))"

subsection \<open>What a cycle keeps\<close>

text \<open>
  Keys are unique, a row is marked as published only when the broker has taken it, and the broker
  has only envelopes of rows.
\<close>

definition outbox_ok :: "outbox_db \<Rightarrow> bool" where
  "outbox_ok s \<longleftrightarrow> distinct (map ob_id (outbox s))
     \<and> (\<forall>r \<in> set (outbox s). ob_published r \<noteq> None \<longrightarrow> env_of r \<in> set (accepted s))
     \<and> set (accepted s) \<subseteq> env_of ` set (outbox s)"

text \<open>A step of the relay leaves the contents of the rows alone and only adds to what is accepted.\<close>

definition relays :: "outbox_db \<Rightarrow> outbox_db \<Rightarrow> bool" where
  "relays s s' \<longleftrightarrow> map env_of (outbox s') = map env_of (outbox s) \<and> set (accepted s) \<subseteq> set (accepted s')"

lemma relays_refl [simp]: "relays s s"
  by (simp add: relays_def)

lemma relays_trans: "relays s s1 \<Longrightarrow> relays s1 s2 \<Longrightarrow> relays s s2"
  by (auto simp: relays_def)

lemma env_of_sel: "ob_id r = env_id (env_of r)"
  by (simp add: env_of_def)

lemma relays_ids: "relays s s' \<Longrightarrow> map ob_id (outbox s') = map ob_id (outbox s)"
proof -
  assume "relays s s'"
  then have "map env_id (map env_of (outbox s')) = map env_id (map env_of (outbox s))" by (simp add: relays_def)
  then show ?thesis by (simp add: comp_def env_of_def)
qed

lemma map_env_update:
  "(\<And>r. env_of (g r) = env_of r) \<Longrightarrow> map env_of (update_where q g rs) = map env_of rs"
  by (rule update_where_keys)

lemma env_of_marks [simp]:
  "env_of (r\<lparr>ob_published := p\<rparr>) = env_of r"
  "env_of (r\<lparr>ob_processing := q\<rparr>) = env_of r"
  "env_of (r\<lparr>ob_attempts := n\<rparr>) = env_of r"
  "env_of (r\<lparr>ob_error := e\<rparr>) = env_of r"
  by (simp_all add: env_of_def)

lemma outbox_ok_same:
  assumes "outbox_ok s" and "map env_of (outbox s') = map env_of (outbox s)" and "accepted s' = accepted s"
    and "\<And>r. r \<in> set (outbox s') \<Longrightarrow> ob_published r \<noteq> None \<Longrightarrow> env_of r \<in> set (accepted s)"
  shows "outbox_ok s' \<and> relays s s'"
proof -
  have r: "relays s s'" using assms(2,3) by (simp add: relays_def)
  have "env_of ` set (outbox s') = env_of ` set (outbox s)" using assms(2) by (metis set_map)
  with assms relays_ids [OF r] r show ?thesis by (simp add: outbox_ok_def)
qed

lemma outbox_ok_touch:
  assumes "outbox_ok s" and "\<And>r. env_of (g r) = env_of r" and "\<And>r. ob_published (g r) = ob_published r"
  shows "outbox_ok (update_outbox q g s) \<and> relays s (update_outbox q g s)"
  using assms by (intro outbox_ok_same)
    (auto simp: update_outbox_def map_env_update update_where_def outbox_ok_def split: if_splits)

lemma outbox_ok_publish:
  fixes t :: instant
  assumes "outbox_ok s" and taken: "\<And>i. i \<in> set is \<Longrightarrow> \<exists>e \<in> set (accepted s). env_id e = i"
  defines "s' \<equiv> update_outbox (\<lambda>r. ob_id r \<in> set is) (\<lambda>r. r\<lparr>ob_published := Some t, ob_processing := None\<rparr>) s"
  shows "outbox_ok s' \<and> relays s s'"
proof (rule outbox_ok_same [OF assms(1)])
  fix r
  assume "r \<in> set (outbox s')" "ob_published r \<noteq> None"
  then obtain x where x: "x \<in> set (outbox s)" "env_of r = env_of x" "ob_id x \<in> set is \<or> ob_published x \<noteq> None"
    unfolding s'_def update_outbox_def by (auto simp: update_where_def split: if_splits)
  show "env_of r \<in> set (accepted s)"
  proof (cases "ob_id x \<in> set is")
    case True
    from taken [OF this] obtain e where e: "e \<in> set (accepted s)" "env_id e = ob_id x" by blast
    with assms(1) obtain y where y: "y \<in> set (outbox s)" "e = env_of y" by (auto simp: outbox_ok_def)
    with e(2) have "ob_id y = ob_id x" by (simp add: env_of_def)
    with assms(1) x(1) y(1) have "y = x" by (auto simp: outbox_ok_def distinct_map dest: inj_onD)
    with e y x show ?thesis by simp
  qed (use x assms(1) in \<open>auto simp: outbox_ok_def\<close>)
qed (simp_all add: s'_def update_outbox_def map_env_update)

lemma outcome_pool_sql:
  assumes "\<And>x s' w'. stmt (clock w) (store w) = Inr (x, s') \<Longrightarrow> store w' = s' \<Longrightarrow> Q x w'"
    and "\<And>e w'. store w' = store w \<Longrightarrow> E e w'"
  shows "outcome (pool_stmt (sql stmt)) Q E w"
  using assms by (auto simp: outcome_def pool_stmt_def sql_def consume_fault_def split: sum.splits prod.splits)

abbreviation (input) relayed :: "outbox_db \<Rightarrow> outbox_db \<Rightarrow> bool" where
  "relayed s s' \<equiv> outbox_ok s' \<and> relays s s'"

lemma send_rows_outcome:
  assumes "relayed s0 (store w)" and "set (map env_of batch) \<subseteq> env_of ` set (outbox (store w))"
  shows "outcome (tx_for batch (send_row publisher) ([], []))
     (\<lambda>sent w'. relayed s0 (store w') \<and> (\<forall>i \<in> set (fst sent). \<exists>e \<in> set (accepted (store w')). env_id e = i)) E w"
proof (rule outcome_for [where I = "\<lambda>xs a w. relayed s0 (store w) \<and> set (map env_of xs) \<subseteq> env_of ` set (outbox (store w))
    \<and> (\<forall>i \<in> set (fst a). \<exists>e \<in> set (accepted (store w)). env_id e = i)"])
  show "relayed s0 (store w) \<and> set (map env_of batch) \<subseteq> env_of ` set (outbox (store w))
    \<and> (\<forall>i \<in> set (fst ([], [])). \<exists>e \<in> set (accepted (store w)). env_id e = i)" using assms by simp
  fix x xs and a :: "uuid list \<times> (uuid \<times> string) list" and w :: "outbox_db world"
  assume i: "relayed s0 (store w) \<and> set (map env_of (x # xs)) \<subseteq> env_of ` set (outbox (store w))
    \<and> (\<forall>i \<in> set (fst a). \<exists>e \<in> set (accepted (store w)). env_id e = i)"
  show "outcome (send_row publisher x a) (\<lambda>a w. relayed s0 (store w) \<and> set (map env_of xs) \<subseteq> env_of ` set (outbox (store w))
    \<and> (\<forall>i \<in> set (fst a). \<exists>e \<in> set (accepted (store w)). env_id e = i)) E w"
    using i by (auto simp: outcome_def send_row_def outbox_ok_def relays_def env_of_def split: option.splits)
qed blast

lemma note_failure_outcome:
  assumes "relayed s0 (store w)"
  shows "outcome (note_failure f u) (\<lambda>_ w'. relayed s0 (store w')) E w"
proof -
  have step: "relayed s0 (update_outbox (\<lambda>r. ob_id r = i) (\<lambda>r. r\<lparr>ob_attempts := ob_attempts r + 1, ob_error := Some m,
      ob_processing := None\<rparr>) (store w))" for i m
    using outbox_ok_touch [of "store w" "\<lambda>r. r\<lparr>ob_attempts := ob_attempts r + 1, ob_error := Some m, ob_processing := None\<rparr>"]
      assms by (auto intro: relays_trans)
  show ?thesis
    unfolding note_failure_def record_failure_def
    by (intro outcome_catchI outcome_pool_sql outcome_returnI) (use assms step in auto)
qed

lemma relay_run_relays:
  assumes "outbox_ok (store w)"
  shows "outcome (relay_run publisher) (\<lambda>_ w'. relayed (store w) (store w')) (\<lambda>_ w'. relayed (store w) (store w')) w"
  unfolding relay_run_def claim_batch_def mark_published_rows_def
proof (intro outcome_bindI outcome_pool_sql, goal_cases)
  case (1 batch s' w1)
  then have b: "batch = relay_batch (clock w) (store w)"
    and s': "s' = update_outbox (\<lambda>r. ob_id r \<in> set (map ob_id batch)) (\<lambda>r. r\<lparr>ob_processing := Some (clock w)\<rparr>) (store w)"
    by auto
  from outbox_ok_touch [OF assms] s' 1(2) have r1: "relayed (store w) (store w1)" by simp
  then have "env_of ` set (outbox (store w1)) = env_of ` set (outbox (store w))" unfolding relays_def by (metis set_map)
  moreover have "set batch \<subseteq> set (outbox (store w))"
    using b by (auto simp: relay_batch_def dest: in_set_takeD)
  ultimately have e1: "set (map env_of batch) \<subseteq> env_of ` set (outbox (store w1))" by auto
  show ?case
  proof (intro outcome_ifI outcome_returnI outcome_bindI r1, rule outcome_mono [OF send_rows_outcome [OF r1 e1]], goal_cases)
    case (1 sent w2)
    note r2 = 1(2)
    have fin: "outcome (tx_for (snd sent) note_failure ()) (\<lambda>_ w'. relayed (store w) (store w'))
        (\<lambda>_ w'. relayed (store w) (store w')) w3" if "relayed (store w) (store w3)" for w3
      by (rule outcome_for [where I = "\<lambda>_ _ w3. relayed (store w) (store w3)"])
         (use that in \<open>auto intro: note_failure_outcome\<close>)
    have mark: "relayed (store w) (update_outbox (\<lambda>r. ob_id r \<in> set (fst sent))
        (\<lambda>r. r\<lparr>ob_published := Some t, ob_processing := None\<rparr>) (store w2))" for t
      using outbox_ok_publish [of "store w2" "fst sent" t] r2 by (blast intro: relays_trans)
    show ?case
      by (intro outcome_ifI outcome_returnI outcome_bindI outcome_pool_sql fin) (use r2 mark in auto)
  qed
qed (simp add: assms)

subsection \<open>Progress\<close>

text \<open>A broker that takes everything, on a healthy database: what one cycle does.\<close>

definition accepting :: "outbox_row \<Rightarrow> string option" where
  "accepting r = None"

definition unsent :: "outbox_db \<Rightarrow> outbox_row list" where
  "unsent s = filter (\<lambda>r. ob_published r = None) (outbox s)"

definition after_cycle :: "instant \<Rightarrow> outbox_db \<Rightarrow> outbox_db" where
  "after_cycle t s = (update_outbox (\<lambda>r. ob_id r \<in> ob_id ` set (relay_batch t s))
     (\<lambda>r. r\<lparr>ob_published := Some t, ob_processing := None\<rparr>) s)
       \<lparr>accepted := accepted s @ map env_of (relay_batch t s)\<rparr>"

lemma send_row_accepting:
  "send_row accepting r acc w = (Inr (fst acc @ [ob_id r], snd acc),
     w\<lparr>store := (store w)\<lparr>accepted := accepted (store w) @ [env_of r]\<rparr>\<rparr>)"
  by (simp add: send_row_def accepting_def)

lemma send_rows_accepting:
  "tx_for batch (send_row accepting) acc w = (Inr (fst acc @ map ob_id batch, snd acc),
     w\<lparr>store := (store w)\<lparr>accepted := accepted (store w) @ map env_of batch\<rparr>\<rparr>)"
proof (induction batch arbitrary: acc w)
  case (Cons r rs)
  show ?case by (simp add: tx_bind_def send_row_accepting [of r acc w] Cons)
qed (simp add: tx_return_def)

lemma pool_sql_healthy:
  "healthy w \<Longrightarrow> stmt (clock w) (store w) = Inr (x, s') \<Longrightarrow> pool_stmt (sql stmt) w = (Inr x, w\<lparr>store := s'\<rparr>)"
  by (cases w) (simp add: pool_stmt_def sql_def healthy_def next_faulty_def consume_fault_def)

lemma update_outbox_twice:
  "update_outbox (\<lambda>r. ob_id r \<in> I) (\<lambda>r. r\<lparr>ob_published := Some t, ob_processing := None\<rparr>)
     ((update_outbox (\<lambda>r. ob_id r \<in> I) (\<lambda>r. r\<lparr>ob_processing := q\<rparr>) s)\<lparr>accepted := a\<rparr>)
   = (update_outbox (\<lambda>r. ob_id r \<in> I) (\<lambda>r. r\<lparr>ob_published := Some t, ob_processing := None\<rparr>) s)\<lparr>accepted := a\<rparr>"
  by (simp add: update_outbox_def update_where_def)

lemma update_where_same [simp]: "update_where (\<lambda>_. False) g xs = xs"
  by (simp add: update_where_def)

lemma relay_run_accepting:
  assumes "healthy w"
  shows "relay_run accepting w = (Inr (), w\<lparr>store := after_cycle (clock w) (store w)\<rparr>)"
proof -
  define b where "b = relay_batch (clock w) (store w)"
  define s1 where "s1 = update_outbox (\<lambda>r. ob_id r \<in> set (map ob_id b)) (\<lambda>r. r\<lparr>ob_processing := Some (clock w)\<rparr>) (store w)"
  have claim: "claim_batch w = (Inr b, w\<lparr>store := s1\<rparr>)"
    unfolding claim_batch_def by (rule pool_sql_healthy [OF assms]) (simp add: b_def s1_def)
  define w2 where "w2 = w\<lparr>store := s1\<lparr>accepted := accepted s1 @ map env_of b\<rparr>\<rparr>"
  have h2: "healthy w2" using assms by (simp add: w2_def)
  have mark: "mark_published_rows (map ob_id b) w2 = (Inr (), w\<lparr>store := after_cycle (clock w) (store w)\<rparr>)"
    unfolding mark_published_rows_def
    by (subst pool_sql_healthy [OF h2, where x = "()" and s' = "after_cycle (clock w) (store w)"])
       (simp_all add: w2_def s1_def after_cycle_def b_def update_outbox_twice, simp add: update_outbox_def)
  show ?thesis
  proof (cases "b = []")
    case True
    then have "s1 = store w" "after_cycle (clock w) (store w) = store w"
      by (simp_all add: s1_def after_cycle_def b_def [symmetric] update_outbox_def)
    with True show ?thesis by (simp add: relay_run_def tx_bind_def claim tx_return_def)
  next
    case False
    then show ?thesis
      by (simp add: relay_run_def tx_bind_def claim send_rows_accepting tx_return_def w2_def [symmetric] mark)
  qed
qed

lemma relay_batch_subset: "set (relay_batch t s) \<subseteq> set (filter (relay_claimable t) (outbox s))"
  unfolding relay_batch_def by (rule order_trans [OF set_take_subset]) simp

text \<open>Rows that can be claimed: each cycle sends up to 50 of them.\<close>

lemma unsent_after_cycle:
  assumes d: "distinct (map ob_id (outbox s))"
    and c: "\<forall>r \<in> set (unsent s). relay_claimable t r"
  shows "length (unsent (after_cycle t s)) = length (unsent s) - batch_limit"
    and "\<forall>r \<in> set (unsent (after_cycle t s)). relay_claimable t r"
proof -
  let ?b = "relay_batch t s"
  have claim: "filter (relay_claimable t) (outbox s) = unsent s"
    using c by (auto simp: unsent_def relay_claimable_def intro!: filter_cong)
  have u: "unsent (after_cycle t s) = filter (\<lambda>r. ob_id r \<notin> ob_id ` set ?b) (unsent s)"
    unfolding unsent_def after_cycle_def update_outbox_def
    by (simp add: update_where_def filter_map comp_def, subst map_idI) (auto intro: filter_cong)
  then show "\<forall>r \<in> set (unsent (after_cycle t s)). relay_claimable t r" using c by auto
  have rows: "set (unsent s) \<subseteq> set (outbox s)" and b: "set ?b \<subseteq> set (unsent s)"
    using relay_batch_subset [of t s] by (auto simp: unsent_def claim)
  have inj: "inj_on ob_id (set (outbox s))" and dr: "distinct (outbox s)" using d by (simp_all add: distinct_map)
  have "set (unsent (after_cycle t s)) = set (unsent s) - set ?b"
    using u b rows by (auto dest!: inj_onD [OF inj])
  moreover have "distinct (unsent (after_cycle t s))" "distinct (unsent s)" "distinct ?b"
    using dr unfolding u by (simp_all add: unsent_def relay_batch_def)
  ultimately have "length (unsent (after_cycle t s)) = length (unsent s) - length ?b"
    using b by (metis List.finite_set card_Diff_subset distinct_card)
  moreover have "length ?b = min (length (unsent s)) batch_limit"
    by (simp add: relay_batch_def claim)
  ultimately show "length (unsent (after_cycle t s)) = length (unsent s) - batch_limit" by simp
qed

definition plain_world :: "instant \<Rightarrow> 's \<Rightarrow> 's world" where
  "plain_world t s = \<lparr>store = s, aborted = False, faults = [], clock = t, uuids = \<lambda>_. '''', uuid_next = 0, events = []\<rparr>"

lemma after_cycle_relays:
  assumes "outbox_ok s"
  shows "relayed s (after_cycle t s)"
proof -
  define w where "w = plain_world t s"
  have w: "healthy w" "store w = s" "clock w = t" by (simp_all add: w_def plain_world_def healthy_def)
  with assms have "outbox_ok (store w)" by simp
  from outcomeD(1) [OF relay_run_relays [OF this] relay_run_accepting [OF w(1)]] w
  show ?thesis by simp
qed

text \<open>Enough cycles send everything.\<close>

lemma after_cycles_drain:
  assumes "outbox_ok s" and "\<forall>r \<in> set (unsent s). relay_claimable t r" and "length (unsent s) \<le> batch_limit * k"
  shows "unsent ((after_cycle t ^^ k) s) = [] \<and> relayed s ((after_cycle t ^^ k) s)"
  using assms
proof (induction k arbitrary: s)
  case (Suc k)
  note r = after_cycle_relays [OF Suc.prems(1), of t]
  from unsent_after_cycle [OF _ Suc.prems(2)] Suc.prems(1,3)
  have u: "length (unsent (after_cycle t s)) \<le> batch_limit * k" "\<forall>r \<in> set (unsent (after_cycle t s)). relay_claimable t r"
    by (simp_all add: outbox_ok_def)
  from Suc.IH [OF conjunct1 [OF r] u(2,1)] r show ?case
    by (auto simp: funpow_Suc_right simp del: funpow.simps intro: relays_trans)
qed simp

lemma within_healthy:
  assumes "healthy w" and "\<And>v :: 'p world. healthy v \<Longrightarrow> m v = (Inr x, v\<lparr>store := f (clock v) (store v)\<rparr>)"
  shows "within get put m w = (Inr x, w\<lparr>store := put (f (clock w) (get (store w))) (store w)\<rparr>)"
  using assms by (cases w) (simp add: within_def healthy_def)

end
