(* ===== verification/Shipping_Store.thy ===== *)
theory Shipping_Store
  imports Outbox
begin

text \<open>
  Shipping service, data and repository: internal/domain, the tables of
  infra/db/migrations/shipping and the methods of \<open>ShipmentRepository\<close>
  (internal/adapter/postgres/shipment_repo.go). An address is its JSON text; whether a text is valid
  JSON for a \<open>JSONB\<close> column is the parameter \<open>json_ok\<close>. \<open>VARCHAR\<close> lengths are not modelled, and a NULL
  carrier, tracking number or note is the empty text it is read as.
\<close>

subsection \<open>Domain types\<close>

datatype ship_status = ShipPending | ShipReady | ShipShipped | ShipDelivered | ShipCancelled

fun ship_status_text :: "ship_status \<Rightarrow> string" where
  "ship_status_text ShipPending = ''pending''"
| "ship_status_text ShipReady = ''ready_to_ship''"
| "ship_status_text ShipShipped = ''shipped''"
| "ship_status_text ShipDelivered = ''delivered''"
| "ship_status_text ShipCancelled = ''cancelled''"

record shipment =
  shp_id :: uuid
  shp_seller :: uuid
  shp_order :: uuid
  shp_buyer :: string
  shp_status :: ship_status
  shp_address :: string
  shp_carrier :: string
  shp_tracking :: string
  shp_shipped_at :: "instant option"
  shp_delivered_at :: "instant option"
  shp_note :: string
  shp_created :: instant
  shp_updated :: instant

record shipment_event =
  sev_id :: uuid
  sev_shipment :: uuid
  sev_from :: "ship_status option"
  sev_to :: ship_status
  sev_actor_type :: string
  sev_actor :: string
  sev_payload :: "(string \<times> string) list"
  sev_created :: instant

definition can_register :: "shipment \<Rightarrow> bool" where
  "can_register s \<longleftrightarrow> shp_status s = ShipReady"

definition can_deliver :: "shipment \<Rightarrow> bool" where
  "can_deliver s \<longleftrightarrow> shp_status s = ShipShipped"

definition can_cancel :: "shipment \<Rightarrow> bool" where
  "can_cancel s \<longleftrightarrow> shp_status s = ShipPending \<or> shp_status s = ShipReady"

datatype shipping_err =
  ErrShipmentNotFound
| ErrInvalidTransition
| ErrAlreadyRegistered
| ErrTrackingNumberRequired
| ErrNotOrderSeller
| ErrNotOrderBuyer
| ErrNoCaller
| ErrShippingPayload string

record shipping_db =
  shipments :: "shipment list"
  ship_events :: "shipment_event list"
  tombstones :: "uuid list"
  mail :: outbox_db

type_synonym 'a stx = "(shipping_db, shipping_err, 'a) tx"

definition empty_shipping_db :: shipping_db where
  "empty_shipping_db = \<lparr>shipments = [], ship_events = [], tombstones = [], mail = empty_outbox\<rparr>"

subsection \<open>ShipmentRepository\<close>

text \<open>\<open>SELECT pg_advisory_xact_lock(...)\<close>: transactions run one after the other here.\<close>

definition order_lock :: "unit stx" where
  "order_lock = query (\<lambda>t s. ())"

definition insert_shipment_stmt ::
  "(string \<Rightarrow> bool) \<Rightarrow> shipment \<Rightarrow> instant \<Rightarrow> shipping_db \<Rightarrow> pg_error + (unit \<times> shipping_db)" where
  "insert_shipment_stmt json_ok x t s =
     (if \<not> json_ok (shp_address x) then Inl (InvalidTextRepresentation (shp_address x))
      else if shp_order x \<in> set (tombstones s) then Inr ((), s)
      else if shp_order x \<in> set (map shp_order (shipments s)) then Inr ((), s)
      else if shp_id x \<in> set (map shp_id (shipments s)) then Inl (UniqueViolation ''shipments_pkey'')
      else Inr ((), s\<lparr>shipments := shipments s @ [x\<lparr>shp_status := ShipReady, shp_carrier := '''', shp_tracking := '''',
             shp_shipped_at := None, shp_delivered_at := None, shp_note := '''', shp_created := t, shp_updated := t\<rparr>]\<rparr>))"

definition shipment_create :: "(string \<Rightarrow> bool) \<Rightarrow> shipment \<Rightarrow> unit stx" where
  "shipment_create json_ok x =
     tx_bind (if shp_id x = nil_uuid then new_uuid else tx_return (shp_id x)) (\<lambda>i.
     let addr = (if shp_address x = '''' then ''{}'' else shp_address x) in
     run_tx (tx_bind order_lock (\<lambda>_.
       sql (insert_shipment_stmt json_ok (x\<lparr>shp_id := i, shp_address := addr\<rparr>)))))"

definition fetch_shipment :: "(shipment \<Rightarrow> bool) \<Rightarrow> shipment stx" where
  "fetch_shipment q = run_tx (
     tx_bind (query (\<lambda>t s. find q (shipments s))) (\<lambda>x.
     case x of None \<Rightarrow> tx_throw (Sentinel ErrShipmentNotFound) | Some y \<Rightarrow> tx_return y))"

definition shipment_by_id :: "uuid \<Rightarrow> shipment stx" where
  "shipment_by_id i = fetch_shipment (\<lambda>x. shp_id x = i)"

definition shipment_by_order :: "uuid \<Rightarrow> shipment stx" where
  "shipment_by_order i = fetch_shipment (\<lambda>x. shp_order x = i)"

text \<open>The filter is a text; the empty one stands for all states.\<close>

definition shipment_rows :: "uuid \<Rightarrow> string \<Rightarrow> int \<Rightarrow> int \<Rightarrow> (shipment list \<times> nat) stx" where
  "shipment_rows seller st lim off =
     (let q = (\<lambda>x. shp_seller x = seller \<and> (st = '''' \<or> ship_status_text (shp_status x) = st)) in
      run_tx (
        tx_bind (query (\<lambda>t s. length (filter q (shipments s)))) (\<lambda>n.
        tx_bind (query (\<lambda>t s. take (nat lim) (drop (nat off)
          (sort_key (\<lambda>x. - shp_created x) (filter q (shipments s)))))) (\<lambda>rows.
        tx_return (rows, n)))))"

definition update_shipments ::
  "(shipment \<Rightarrow> bool) \<Rightarrow> (instant \<Rightarrow> shipment \<Rightarrow> shipment) \<Rightarrow> nat stx" where
  "update_shipments q g = sql (\<lambda>t s.
     Inr (length (filter q (shipments s)), s\<lparr>shipments := update_where q (g t) (shipments s)\<rparr>))"

definition shipment_update_status :: "shipment \<Rightarrow> ship_status \<Rightarrow> unit stx" where
  "shipment_update_status x expected =
     tx_bind (update_shipments (\<lambda>y. shp_id y = shp_id x \<and> shp_status y = expected)
       (\<lambda>t y. y\<lparr>shp_status := shp_status x, shp_carrier := shp_carrier x, shp_tracking := shp_tracking x,
                shp_shipped_at := shp_shipped_at x, shp_delivered_at := shp_delivered_at x,
                shp_note := shp_note x, shp_updated := t\<rparr>)) (\<lambda>n.
     if n = 0 then tx_throw (Sentinel ErrInvalidTransition) else tx_return ())"

definition insert_tombstone :: "uuid \<Rightarrow> unit stx" where
  "insert_tombstone i = sql (\<lambda>t s.
     Inr ((), if i \<in> set (tombstones s) then s else s\<lparr>tombstones := tombstones s @ [i]\<rparr>))"

definition cancel_by_order :: "uuid \<Rightarrow> unit stx" where
  "cancel_by_order i = run_tx (
     tx_bind order_lock (\<lambda>_.
     tx_bind (update_shipments (\<lambda>y. shp_order y = i \<and> shp_status y \<in> {ShipPending, ShipReady})
       (\<lambda>t y. y\<lparr>shp_status := ShipCancelled, shp_updated := t\<rparr>)) (\<lambda>n.
     if n > 0 then tx_return ()
     else
       tx_bind (query (\<lambda>t s. i \<in> set (map shp_order (shipments s)))) (\<lambda>exists.
       if exists then tx_return () else insert_tombstone i))))"

definition insert_event_stmt ::
  "shipment_event \<Rightarrow> instant \<Rightarrow> shipping_db \<Rightarrow> pg_error + (unit \<times> shipping_db)" where
  "insert_event_stmt e t s =
     (if sev_actor_type e \<noteq> ''seller'' \<and> sev_actor_type e \<noteq> ''system'' then
        Inl (CheckViolation ''shipment_events_actor_type_check'')
      else if sev_id e \<in> set (map sev_id (ship_events s)) then Inl (UniqueViolation ''shipment_events_pkey'')
      else if sev_shipment e \<notin> set (map shp_id (shipments s)) then
        Inl (ForeignKeyViolation ''shipment_events_shipment_id_fkey'')
      else Inr ((), s\<lparr>ship_events := ship_events s @ [e\<lparr>sev_created := t\<rparr>]\<rparr>))"

text \<open>Every caller leaves the id of an event to the repository.\<close>

definition append_event :: "shipment_event \<Rightarrow> unit stx" where
  "append_event e = tx_bind new_uuid (\<lambda>i. sql (insert_event_stmt (e\<lparr>sev_id := i\<rparr>)))"

abbreviation on_mail :: "(shipping_err, 'a) obx \<Rightarrow> 'a stx" where
  "on_mail m \<equiv> within mail (\<lambda>v s. s\<lparr>mail := v\<rparr>) m"

definition append_outbox_event :: "string \<Rightarrow> string \<Rightarrow> (string \<times> json) list \<Rightarrow> unit stx" where
  "append_outbox_event ty tp d = on_mail (append_outbox ty tp d)"

text \<open>The relay of this service.\<close>

definition shipping_relay_run :: "(outbox_row \<Rightarrow> string option) \<Rightarrow> unit stx" where
  "shipping_relay_run publisher = on_mail (relay_run publisher)"

end
