(* ===== verification/Shipping_Service.thy ===== *)
theory Shipping_Service
  imports Shipping_Store
begin

text \<open>
  Shipping service, use cases (internal/app/shipment_service.go), HTTP handlers
  (internal/adapter/http) and the subscriber to order events
  (internal/adapter/pubsub/order_subscriber.go). A time is its instant, also in a payload; the gRPC
  server only answers that it is not implemented.
\<close>

subsection \<open>Use cases\<close>

record create_shipment_input =
  csi_seller :: uuid
  csi_order :: uuid
  csi_buyer :: string
  csi_address :: string

definition create_shipment :: "(string \<Rightarrow> bool) \<Rightarrow> create_shipment_input \<Rightarrow> unit stx" where
  "create_shipment json_ok c = shipment_create json_ok
     \<lparr>shp_id = nil_uuid, shp_seller = csi_seller c, shp_order = csi_order c, shp_buyer = csi_buyer c,
      shp_status = ShipReady, shp_address = csi_address c, shp_carrier = '''', shp_tracking = '''',
      shp_shipped_at = None, shp_delivered_at = None, shp_note = '''', shp_created = 0, shp_updated = 0\<rparr>"

definition shipped_data :: "shipment \<Rightarrow> instant \<Rightarrow> (string \<times> json) list" where
  "shipped_data x t =
     omit_empty ''shipment_id'' (shp_id x) @ omit_empty ''order_id'' (shp_order x)
     @ omit_empty ''seller_id'' (shp_seller x) @ omit_empty ''buyer_auth0_id'' (shp_buyer x)
     @ omit_empty ''carrier'' (shp_carrier x) @ omit_empty ''tracking_number'' (shp_tracking x)
     @ [(''shipped_at'', JInt t)]"

definition delivered_data :: "shipment \<Rightarrow> instant \<Rightarrow> (string \<times> json) list" where
  "delivered_data x t =
     omit_empty ''shipment_id'' (shp_id x) @ omit_empty ''order_id'' (shp_order x)
     @ omit_empty ''seller_id'' (shp_seller x) @ omit_empty ''buyer_auth0_id'' (shp_buyer x)
     @ [(''delivered_at'', JInt t)]"

record register_input =
  rgi_shipment :: uuid
  rgi_seller :: uuid
  rgi_carrier :: string
  rgi_tracking :: string
  rgi_note :: string
  rgi_shipped_at :: "instant option"

text \<open>One transaction: the guarded update, the audit event, the outbox row.\<close>

definition move_shipment ::
  "shipment \<Rightarrow> ship_status \<Rightarrow> uuid \<Rightarrow> (string \<times> string) list \<Rightarrow> string \<Rightarrow> (string \<times> json) list \<Rightarrow> unit stx" where
  "move_shipment x from_status actor details ty d = run_tx (
     tx_bind (shipment_update_status x from_status) (\<lambda>_.
     tx_bind (append_event \<lparr>sev_id = nil_uuid, sev_shipment = shp_id x, sev_from = Some from_status,
        sev_to = shp_status x, sev_actor_type = ''seller'', sev_actor = actor, sev_payload = details, sev_created = 0\<rparr>) (\<lambda>_.
     append_outbox_event ty ''shipping-events'' d)))"

text \<open>
  A use case reads the shipment in a transaction of its own and goes on with what it has read:
  \<open>register_read\<close> and \<open>deliver_read\<close> are what follows the read.
\<close>

definition register_read :: "register_input \<Rightarrow> shipment \<Rightarrow> shipment stx" where
  "register_read r x =
     (if shp_seller x \<noteq> rgi_seller r then tx_throw (Sentinel ErrNotOrderSeller)
      else if shp_status x = ShipShipped \<or> shp_status x = ShipDelivered then tx_throw (Sentinel ErrAlreadyRegistered)
      else if \<not> can_register x then tx_throw (Sentinel ErrInvalidTransition)
      else
        tx_bind now (\<lambda>t.
        let at = (case rgi_shipped_at r of None \<Rightarrow> t | Some u \<Rightarrow> u);
            x' = x\<lparr>shp_status := ShipShipped, shp_carrier := rgi_carrier r, shp_tracking := rgi_tracking r,
                   shp_shipped_at := Some at, shp_note := rgi_note r\<rparr>
        in tx_bind (move_shipment x' (shp_status x) (rgi_seller r)
             [(''carrier'', rgi_carrier r), (''tracking_number'', rgi_tracking r)]
             ''shipment.shipped'' (shipped_data x' at)) (\<lambda>_. tx_return x')))"

definition register_shipment :: "register_input \<Rightarrow> shipment stx" where
  "register_shipment r =
     (if rgi_carrier r = '''' \<or> rgi_tracking r = '''' then tx_throw (Sentinel ErrTrackingNumberRequired)
      else tx_bind (shipment_by_id (rgi_shipment r)) (register_read r))"

definition deliver_read :: "uuid \<Rightarrow> instant option \<Rightarrow> shipment \<Rightarrow> shipment stx" where
  "deliver_read seller delivered_at x =
     (if shp_seller x \<noteq> seller then tx_throw (Sentinel ErrNotOrderSeller)
      else if \<not> can_deliver x then tx_throw (Sentinel ErrInvalidTransition)
      else
        tx_bind now (\<lambda>t.
        let at = (case delivered_at of None \<Rightarrow> t | Some u \<Rightarrow> u);
            x' = x\<lparr>shp_status := ShipDelivered, shp_delivered_at := Some at\<rparr>
        in tx_bind (move_shipment x' (shp_status x) seller [] ''shipment.delivered'' (delivered_data x' at))
             (\<lambda>_. tx_return x')))"

definition mark_delivered :: "uuid \<Rightarrow> uuid \<Rightarrow> instant option \<Rightarrow> shipment stx" where
  "mark_delivered i seller delivered_at = tx_bind (shipment_by_id i) (deliver_read seller delivered_at)"

definition cancel_shipment :: "uuid \<Rightarrow> unit stx" where
  "cancel_shipment order = cancel_by_order order"

definition get_shipment :: "uuid \<Rightarrow> uuid \<Rightarrow> shipment stx" where
  "get_shipment seller i =
     tx_bind (shipment_by_id i) (\<lambda>x.
     if shp_seller x \<noteq> seller then tx_throw (Sentinel ErrNotOrderSeller) else tx_return x)"

definition get_by_order_seller :: "uuid \<Rightarrow> uuid \<Rightarrow> shipment stx" where
  "get_by_order_seller seller order =
     tx_bind (shipment_by_order order) (\<lambda>x.
     if shp_seller x \<noteq> seller then tx_throw (Sentinel ErrNotOrderSeller) else tx_return x)"

definition get_by_order_buyer :: "string \<Rightarrow> uuid \<Rightarrow> shipment stx" where
  "get_by_order_buyer buyer order =
     tx_bind (shipment_by_order order) (\<lambda>x.
     if shp_buyer x \<noteq> buyer then tx_throw (Sentinel ErrNotOrderBuyer) else tx_return x)"

definition list_shipments :: "uuid \<Rightarrow> string \<Rightarrow> int \<Rightarrow> int \<Rightarrow> (shipment list \<times> nat \<times> int \<times> int) stx" where
  "list_shipments seller st lim off =
     (let l = (if lim \<le> 0 then 20 else lim); l = (if l > 100 then 100 else l)
      in tx_bind (shipment_rows seller st l off) (\<lambda>(rows, n). tx_return (rows, n, l, off)))"

subsection \<open>HTTP\<close>

type_synonym shipping_handler = "(shipping_db, shipping_err, response) tx"

fun shipping_err_text :: "shipping_err \<Rightarrow> string" where
  "shipping_err_text ErrShipmentNotFound = ''shipment not found''"
| "shipping_err_text ErrInvalidTransition = ''invalid shipment status transition''"
| "shipping_err_text ErrAlreadyRegistered = ''shipment already registered''"
| "shipping_err_text ErrTrackingNumberRequired = ''carrier and tracking_number are required''"
| "shipping_err_text ErrNotOrderSeller = ''caller is not the order seller''"
| "shipping_err_text ErrNotOrderBuyer = ''caller is not the order buyer''"
| "shipping_err_text ErrNoCaller = ''user_id not found in context''"
| "shipping_err_text (ErrShippingPayload m) = m"

definition shipping_map_error :: "shipping_err error \<Rightarrow> shipping_err error" where
  "shipping_map_error e =
     (case as_app_error e of Some a \<Rightarrow> a | None \<Rightarrow>
      (case e of
         Sentinel d \<Rightarrow>
           if d \<in> {ErrShipmentNotFound, ErrNotOrderSeller, ErrNotOrderBuyer} then not_found (shipping_err_text d)
           else if d = ErrTrackingNumberRequired then
             with_code (bad_request (shipping_err_text d)) ''TRACKING_NUMBER_REQUIRED''
           else if d = ErrAlreadyRegistered then
             with_code (conflict (shipping_err_text d)) ''SHIPMENT_ALREADY_REGISTERED''
           else if d = ErrInvalidTransition then
             with_code (conflict (shipping_err_text d)) ''SHIPMENT_INVALID_TRANSITION''
           else internal ''internal error'' (Some e)
       | _ \<Rightarrow> internal ''internal error'' (Some e)))"

definition shipment_body :: "shipment \<Rightarrow> json" where
  "shipment_body x = JObj (
     [(''id'', JStr (shp_id x)), (''seller_id'', JStr (shp_seller x)), (''order_id'', JStr (shp_order x)),
      (''buyer_auth0_id'', JStr (shp_buyer x)), (''status'', JStr (ship_status_text (shp_status x)))]
     @ omit_empty ''carrier'' (shp_carrier x) @ omit_empty ''tracking_number'' (shp_tracking x)
     @ omit_empty ''note'' (shp_note x)
     @ omit_none ''shipped_at'' JInt (shp_shipped_at x) @ omit_none ''delivered_at'' JInt (shp_delivered_at x)
     @ [(''created_at'', JInt (shp_created x)), (''updated_at'', JInt (shp_updated x))])"

definition shipment_answer :: "shipment \<Rightarrow> response" where
  "shipment_answer x = Response 200 (Some (shipment_body x))"

text \<open>\<open>or_missing parse raw h\<close>: an id that does not parse is answered like a shipment that does not exist.\<close>

definition or_missing ::
  "(string \<Rightarrow> uuid option) \<Rightarrow> string \<Rightarrow> (uuid \<Rightarrow> shipping_handler) \<Rightarrow> shipping_handler" where
  "or_missing parse raw h = (case parse raw of
     None \<Rightarrow> answer (http_error (shipping_map_error (Sentinel ErrShipmentNotFound))) | Some i \<Rightarrow> h i)"

abbreviation seller_only :: "caller_ctx option \<Rightarrow> (uuid \<Rightarrow> shipping_handler) \<Rightarrow> shipping_handler" where
  "seller_only ctx h \<equiv> seller_handler ctx shipping_map_error ErrNoCaller ''seller context required'' h"

text \<open>\<open>limit, _ := strconv.Atoi(...)\<close>: a parameter that is absent or no number is 0.\<close>

definition http_list_shipments ::
  "caller_ctx option \<Rightarrow> int option \<Rightarrow> int option \<Rightarrow> string \<Rightarrow> shipping_handler" where
  "http_list_shipments ctx lim off st = seller_only ctx (\<lambda>seller.
     let l = (case lim of None \<Rightarrow> 0 | Some v \<Rightarrow> v); l = (if l \<le> 0 then 20 else l);
         d = (case off of None \<Rightarrow> 0 | Some v \<Rightarrow> v)
     in respond shipping_map_error (list_shipments seller st l d) (\<lambda>(rows, n, l, d). Response 200 (Some (JObj
          [(''items'', JList (map shipment_body rows)), (''total'', JInt (int n)), (''limit'', JInt l),
           (''offset'', JInt d)]))))"

definition http_get_shipment :: "(string \<Rightarrow> uuid option) \<Rightarrow> caller_ctx option \<Rightarrow> string \<Rightarrow> shipping_handler" where
  "http_get_shipment parse ctx raw = seller_only ctx (\<lambda>seller. or_missing parse raw (\<lambda>i.
     respond shipping_map_error (get_shipment seller i) shipment_answer))"

record register_request =
  rgr_carrier :: string
  rgr_tracking :: string
  rgr_shipped_at :: "string option"
  rgr_note :: string

text \<open>A body that does not decode is answered like a missing tracking number.\<close>

definition http_register_shipment ::
  "(string \<Rightarrow> uuid option) \<Rightarrow> (string \<Rightarrow> instant option) \<Rightarrow> caller_ctx option \<Rightarrow> string \<Rightarrow> register_request option \<Rightarrow> shipping_handler" where
  "http_register_shipment parse parse_time ctx raw body = seller_only ctx (\<lambda>seller. or_missing parse raw (\<lambda>i.
     case body of
       None \<Rightarrow> answer (http_error (shipping_map_error (Sentinel ErrTrackingNumberRequired)))
     | Some req \<Rightarrow>
         let run = (\<lambda>at. respond shipping_map_error (register_shipment
               \<lparr>rgi_shipment = i, rgi_seller = seller, rgi_carrier = rgr_carrier req, rgi_tracking = rgr_tracking req,
                rgi_note = rgr_note req, rgi_shipped_at = at\<rparr>) shipment_answer)
         in case rgr_shipped_at req of
              None \<Rightarrow> run None
            | Some s \<Rightarrow> (case parse_time s of
                 None \<Rightarrow> answer (error_answer 400 ''invalid shipped_at format'')
               | Some t \<Rightarrow> run (Some t))))"

text \<open>A body that does not decode is read as an empty one.\<close>

definition http_deliver_shipment ::
  "(string \<Rightarrow> uuid option) \<Rightarrow> (string \<Rightarrow> instant option) \<Rightarrow> caller_ctx option \<Rightarrow> string \<Rightarrow> string option \<Rightarrow> shipping_handler" where
  "http_deliver_shipment parse parse_time ctx raw at = seller_only ctx (\<lambda>seller. or_missing parse raw (\<lambda>i.
     let run = (\<lambda>at. respond shipping_map_error (mark_delivered i seller at) shipment_answer)
     in case at of
          None \<Rightarrow> run None
        | Some s \<Rightarrow> (case parse_time s of
             None \<Rightarrow> answer (error_answer 400 ''invalid delivered_at format'')
           | Some t \<Rightarrow> run (Some t))))"

definition http_seller_order_shipment ::
  "(string \<Rightarrow> uuid option) \<Rightarrow> caller_ctx option \<Rightarrow> string \<Rightarrow> shipping_handler" where
  "http_seller_order_shipment parse ctx raw = seller_only ctx (\<lambda>seller. or_missing parse raw (\<lambda>i.
     respond shipping_map_error (get_by_order_seller seller i) shipment_answer))"

definition http_buyer_order_shipment ::
  "(string \<Rightarrow> uuid option) \<Rightarrow> caller_ctx option \<Rightarrow> string \<Rightarrow> shipping_handler" where
  "http_buyer_order_shipment parse ctx raw =
     (case ctx of
        None \<Rightarrow> answer (http_error (shipping_map_error (Sentinel ErrNoCaller)))
      | Some c \<Rightarrow> or_missing parse raw (\<lambda>i.
          respond shipping_map_error (get_by_order_buyer (idn_user c) i) shipment_answer))"

subsection \<open>Order events\<close>

record order_paid_data =
  opd_seller :: string
  opd_order :: string
  opd_buyer :: string
  opd_address :: string

datatype ship_order_event =
  ShipOrderPaid "string + order_paid_data" | ShipOrderCancelled "string + string" | ShipOrderOther

fun ship_handle_event ::
  "(string \<Rightarrow> bool) \<Rightarrow> (string \<Rightarrow> uuid option) \<Rightarrow> ship_order_event \<Rightarrow> unit stx" where
  "ship_handle_event json_ok parse (ShipOrderPaid (Inl m)) = tx_throw (Sentinel (ErrShippingPayload m))"
| "ship_handle_event json_ok parse (ShipOrderPaid (Inr d)) =
     (case parse (opd_seller d) of
        None \<Rightarrow> tx_throw (Sentinel (ErrShippingPayload ''parse seller_id''))
      | Some seller \<Rightarrow>
          (case parse (opd_order d) of
             None \<Rightarrow> tx_throw (Sentinel (ErrShippingPayload ''parse order_id''))
           | Some order \<Rightarrow> create_shipment json_ok \<lparr>csi_seller = seller, csi_order = order,
               csi_buyer = opd_buyer d, csi_address = opd_address d\<rparr>))"
| "ship_handle_event json_ok parse (ShipOrderCancelled (Inl m)) = tx_throw (Sentinel (ErrShippingPayload m))"
| "ship_handle_event json_ok parse (ShipOrderCancelled (Inr order)) =
     (case parse order of
        None \<Rightarrow> tx_throw (Sentinel (ErrShippingPayload ''parse order_id''))
      | Some i \<Rightarrow> cancel_shipment i)"
| "ship_handle_event json_ok parse ShipOrderOther = tx_return ()"

end
