(* ===== verification/Shipping_Invariant.thy ===== *)
theory Shipping_Invariant
  imports Shipping_Service
begin

text \<open>
  Shipping service: what each operation does to the tables, the steps of the service, and the
  invariant of the reachable states. A use case that reads a shipment and then writes it is two
  steps, with any other request in between: a state of the step relation has the world and the
  shipments that requests have read.
\<close>

subsection \<open>Later states of a shipment\<close>

fun follows :: "ship_status \<Rightarrow> ship_status \<Rightarrow> bool" where
  "follows ShipPending _ = True"
| "follows ShipReady st = (st \<noteq> ShipPending)"
| "follows ShipShipped st = (st = ShipShipped \<or> st = ShipDelivered)"
| "follows ShipDelivered st = (st = ShipDelivered)"
| "follows ShipCancelled st = (st = ShipCancelled)"

definition on_the_way :: "shipment \<Rightarrow> bool" where
  "on_the_way x \<longleftrightarrow> shp_status x = ShipShipped \<or> shp_status x = ShipDelivered"

definition later :: "shipment \<Rightarrow> shipment \<Rightarrow> bool" where
  "later x y \<longleftrightarrow> shp_id y = shp_id x \<and> shp_order y = shp_order x \<and> shp_seller y = shp_seller x
     \<and> shp_buyer y = shp_buyer x \<and> shp_address y = shp_address x \<and> follows (shp_status x) (shp_status y)
     \<and> (on_the_way x \<longrightarrow> shp_carrier y = shp_carrier x \<and> shp_tracking y = shp_tracking x
          \<and> shp_shipped_at y = shp_shipped_at x \<and> shp_note y = shp_note x)
     \<and> (shp_status x = ShipDelivered \<longrightarrow> shp_delivered_at y = shp_delivered_at x)"

lemma follows_refl [simp]: "follows a a"
  by (cases a) auto

lemma follows_trans: "follows a b \<Longrightarrow> follows b c \<Longrightarrow> follows a c"
  by (cases a; cases b) auto

lemma later_refl [simp]: "later x x"
  by (simp add: later_def)

lemma later_trans: "later x y \<Longrightarrow> later y z \<Longrightarrow> later x z"
proof -
  assume xy: "later x y" and yz: "later y z"
  then have f: "follows (shp_status x) (shp_status y)" "follows (shp_status y) (shp_status z)" by (auto simp: later_def)
  then have "on_the_way x \<Longrightarrow> on_the_way y" "shp_status x = ShipDelivered \<Longrightarrow> shp_status y = ShipDelivered"
    by (auto simp: on_the_way_def)
  with xy yz follows_trans [OF f] show ?thesis by (auto simp: later_def)
qed

text \<open>A row as the service writes it.\<close>

definition ship_row_ok :: "shipment \<Rightarrow> bool" where
  "ship_row_ok x \<longleftrightarrow> shp_status x \<noteq> ShipPending
     \<and> (on_the_way x \<longrightarrow> shp_carrier x \<noteq> '''' \<and> shp_tracking x \<noteq> '''' \<and> shp_shipped_at x \<noteq> None)
     \<and> (shp_delivered_at x \<noteq> None \<longleftrightarrow> shp_status x = ShipDelivered)"

subsection \<open>Effects\<close>

definition notices :: "shipping_db \<Rightarrow> (string \<times> (string \<times> json) list) set" where
  "notices s = (\<lambda>r. (ob_type r, ob_payload r)) ` set (outbox (mail s))"

lemma notices_shipments [simp]: "notices (s\<lparr>shipments := xs\<rparr>) = notices s" "notices (s\<lparr>tombstones := is\<rparr>) = notices s"
  "notices (s\<lparr>ship_events := es\<rparr>) = notices s"
  by (simp_all add: notices_def)

text \<open>\<open>announced s x\<close>: the outbox has the events of everything that happened to \<open>x\<close>.\<close>

definition announced :: "shipping_db \<Rightarrow> shipment \<Rightarrow> bool" where
  "announced s x \<longleftrightarrow>
     (on_the_way x \<longrightarrow> (''shipment.shipped'', shipped_data x (the (shp_shipped_at x))) \<in> notices s)
     \<and> (shp_status x = ShipDelivered \<longrightarrow> (''shipment.delivered'', delivered_data x (the (shp_delivered_at x))) \<in> notices s)"

text \<open>\<open>grounded s n\<close>: the event tells of a shipment that has got there.\<close>

definition grounded :: "shipping_db \<Rightarrow> string \<times> (string \<times> json) list \<Rightarrow> bool" where
  "grounded s n \<longleftrightarrow> (\<exists>x \<in> set (shipments s).
     on_the_way x \<and> n = (''shipment.shipped'', shipped_data x (the (shp_shipped_at x)))
     \<or> shp_status x = ShipDelivered \<and> n = (''shipment.delivered'', delivered_data x (the (shp_delivered_at x))))"

definition ship_inv :: "shipping_db \<Rightarrow> bool" where
  "ship_inv s \<longleftrightarrow> distinct (map shp_id (shipments s)) \<and> distinct (map shp_order (shipments s))
     \<and> shp_order ` set (shipments s) \<inter> set (tombstones s) = {}
     \<and> (\<forall>x \<in> set (shipments s). ship_row_ok x \<and> announced s x)
     \<and> (\<forall>n \<in> notices s. grounded s n)
     \<and> outbox_ok (mail s)"

text \<open>Every shipment is still there, in a later state, and tombstones stay.\<close>

definition progress :: "shipping_db \<Rightarrow> shipping_db \<Rightarrow> bool" where
  "progress s s' \<longleftrightarrow> (\<forall>x \<in> set (shipments s). \<exists>y \<in> set (shipments s'). later x y)
     \<and> set (tombstones s) \<subseteq> set (tombstones s')"

lemma progress_refl [simp]: "progress s s"
  unfolding progress_def by (blast intro: later_refl)

lemma progress_trans: "progress s s1 \<Longrightarrow> progress s1 s2 \<Longrightarrow> progress s s2"
  unfolding progress_def by (meson later_trans subset_trans)

definition good_step :: "shipping_db \<Rightarrow> shipping_db \<Rightarrow> bool" where
  "good_step s s' \<longleftrightarrow> ship_inv s' \<and> progress s s'"

lemma good_step_refl: "ship_inv s \<Longrightarrow> good_step s s"
  by (simp add: good_step_def)

text \<open>Creating.\<close>

lemma create_good:
  assumes "ship_inv s" and "insert_shipment_stmt json_ok x t s = Inr (u, s')"
  shows "good_step s s'"
proof (cases "shipments s' = shipments s")
  case True
  with assms(2) have "s' = s" by (auto simp: insert_shipment_stmt_def split: if_splits)
  with assms(1) show ?thesis by (simp add: good_step_refl)
next
  case False
  define y where "y = x\<lparr>shp_status := ShipReady, shp_carrier := '''', shp_tracking := '''', shp_shipped_at := None,
     shp_delivered_at := None, shp_note := '''', shp_created := t, shp_updated := t\<rparr>"
  from False assms(2) have s': "s' = s\<lparr>shipments := shipments s @ [y]\<rparr>"
    and new: "shp_order y \<notin> set (tombstones s)" "shp_order y \<notin> set (map shp_order (shipments s))"
      "shp_id y \<notin> set (map shp_id (shipments s))"
    by (auto simp: insert_shipment_stmt_def y_def split: if_splits)
  have y: "ship_row_ok y" "\<not> on_the_way y" "shp_status y \<noteq> ShipDelivered" by (simp_all add: y_def ship_row_ok_def on_the_way_def)
  have n: "notices s' = notices s" by (simp add: notices_def s')
  then have "announced s' z = announced s z" for z by (simp add: announced_def)
  moreover have "announced s' y" using y by (simp add: announced_def)
  moreover have "grounded s' e" if "grounded s e" for e using that by (auto simp: grounded_def s')
  ultimately have "ship_inv s'" using assms(1) new y n by (auto simp: ship_inv_def s')
  moreover have "progress s s'" unfolding progress_def s' by (auto intro: later_refl)
  ultimately show ?thesis by (simp add: good_step_def)
qed

text \<open>An update of the rows that moves each of them on.\<close>

lemma map_good:
  assumes inv: "ship_inv s" and sh: "shipments s' = map g (shipments s)" and to: "tombstones s' = tombstones s"
    and rows: "\<And>x. x \<in> set (shipments s) \<Longrightarrow> ship_row_ok (g x) \<and> announced s' (g x) \<and> later x (g x)"
    and ground: "\<And>n. n \<in> notices s' \<Longrightarrow> grounded s' n" and ob: "outbox_ok (mail s')"
  shows "good_step s s'"
proof -
  have "map shp_id (shipments s') = map shp_id (shipments s)" "map shp_order (shipments s') = map shp_order (shipments s)"
    using rows by (simp_all add: sh later_def)
  moreover from this(2) have "shp_order ` set (shipments s') = shp_order ` set (shipments s)" by (metis set_map)
  moreover have "\<forall>y \<in> set (shipments s'). ship_row_ok y \<and> announced s' y" using rows by (auto simp: sh)
  moreover have "progress s s'" using rows by (auto simp: progress_def sh to)
  ultimately show ?thesis using inv ground ob by (simp add: good_step_def ship_inv_def to)
qed

lemma later_shipped_data: "later x y \<Longrightarrow> on_the_way x \<Longrightarrow> shipped_data y t = shipped_data x t"
  by (simp add: later_def shipped_data_def)

lemma later_delivered_data: "later x y \<Longrightarrow> delivered_data y t = delivered_data x t"
  by (simp add: later_def delivered_data_def)

lemma later_on_the_way: "later x y \<Longrightarrow> on_the_way x \<Longrightarrow> on_the_way y \<and> shp_shipped_at y = shp_shipped_at x"
  by (auto simp: later_def on_the_way_def)

lemma later_delivered:
  "later x y \<Longrightarrow> shp_status x = ShipDelivered \<Longrightarrow> shp_status y = ShipDelivered \<and> shp_delivered_at y = shp_delivered_at x"
  by (simp add: later_def)

text \<open>An event that tells of a row still does when the row is only moved on.\<close>

definition tells :: "string \<times> (string \<times> json) list \<Rightarrow> shipment \<Rightarrow> bool" where
  "tells n x \<longleftrightarrow> on_the_way x \<and> n = (''shipment.shipped'', shipped_data x (the (shp_shipped_at x)))
     \<or> shp_status x = ShipDelivered \<and> n = (''shipment.delivered'', delivered_data x (the (shp_delivered_at x)))"

lemma grounded_iff: "grounded s n \<longleftrightarrow> (\<exists>x \<in> set (shipments s). tells n x)"
  by (simp only: grounded_def tells_def)

lemma tells_later: "tells n x \<Longrightarrow> later x y \<Longrightarrow> tells n y"
  unfolding tells_def
proof (elim disjE conjE)
  assume l: "later x y" and w: "on_the_way x" and n: "n = (''shipment.shipped'', shipped_data x (the (shp_shipped_at x)))"
  from later_on_the_way [OF l w] later_shipped_data [OF l w] n
  show "on_the_way y \<and> n = (''shipment.shipped'', shipped_data y (the (shp_shipped_at y)))
    \<or> shp_status y = ShipDelivered \<and> n = (''shipment.delivered'', delivered_data y (the (shp_delivered_at y)))"
    by (simp only: simp_thms)
next
  assume l: "later x y" and w: "shp_status x = ShipDelivered"
    and n: "n = (''shipment.delivered'', delivered_data x (the (shp_delivered_at x)))"
  from later_delivered [OF l w] later_delivered_data [OF l] n
  show "on_the_way y \<and> n = (''shipment.shipped'', shipped_data y (the (shp_shipped_at y)))
    \<or> shp_status y = ShipDelivered \<and> n = (''shipment.delivered'', delivered_data y (the (shp_delivered_at y)))"
    by (simp only: simp_thms)
qed

lemma grounded_later:
  "grounded s n \<Longrightarrow> shipments s' = map g (shipments s) \<Longrightarrow> (\<And>x. x \<in> set (shipments s) \<Longrightarrow> later x (g x)) \<Longrightarrow> grounded s' n"
  by (auto simp: grounded_iff intro: tells_later)

text \<open>Cancelling.\<close>

lemma cancel_good:
  assumes "ship_inv s"
  shows "good_step s (s\<lparr>shipments := update_where (\<lambda>y. shp_order y = i \<and> shp_status y \<in> {ShipPending, ShipReady})
     (\<lambda>y. y\<lparr>shp_status := ShipCancelled, shp_updated := t\<rparr>) (shipments s)\<rparr>)"
proof (rule map_good [OF assms])
  let ?s' = "s\<lparr>shipments := update_where (\<lambda>y. shp_order y = i \<and> shp_status y \<in> {ShipPending, ShipReady})
     (\<lambda>y. y\<lparr>shp_status := ShipCancelled, shp_updated := t\<rparr>) (shipments s)\<rparr>"
  define g where "g = (\<lambda>y :: shipment. if shp_order y = i \<and> shp_status y \<in> {ShipPending, ShipReady}
     then y\<lparr>shp_status := ShipCancelled, shp_updated := t\<rparr> else y)"
  show sh: "shipments ?s' = map g (shipments s)" by (simp add: update_where_def g_def)
  show ok: "ship_row_ok (g x) \<and> announced ?s' (g x) \<and> later x (g x)" if "x \<in> set (shipments s)" for x
    using assms that by (auto simp: ship_inv_def g_def ship_row_ok_def announced_def on_the_way_def later_def)
  show "grounded ?s' n" if "n \<in> notices ?s'" for n
    using that assms ok by (intro grounded_later [OF _ sh]) (auto simp: ship_inv_def)
qed (use assms in \<open>simp_all add: ship_inv_def\<close>)

lemma tombstone_good:
  assumes "ship_inv s" and "i \<notin> set (map shp_order (shipments s))"
  shows "good_step s (if i \<in> set (tombstones s) then s else s\<lparr>tombstones := tombstones s @ [i]\<rparr>)"
proof (cases "i \<in> set (tombstones s)")
  case False
  have "announced (s\<lparr>tombstones := is\<rparr>) x = announced s x" "grounded (s\<lparr>tombstones := is\<rparr>) n = grounded s n" for x n "is"
    by (simp_all add: announced_def grounded_def)
  with assms False show ?thesis
    by (auto simp: good_step_def ship_inv_def progress_def intro: later_refl)
qed (simp add: assms good_step_refl)

text \<open>
  Writing what a request decided on a shipment \<open>x\<close> it had read: the row has to be in the state in
  which it was read, so that it agrees with \<open>x\<close> on all that is frozen.
\<close>

definition moved_row :: "shipment \<Rightarrow> instant \<Rightarrow> shipment \<Rightarrow> shipment" where
  "moved_row x t y = y\<lparr>shp_status := shp_status x, shp_carrier := shp_carrier x, shp_tracking := shp_tracking x,
     shp_shipped_at := shp_shipped_at x, shp_delivered_at := shp_delivered_at x, shp_note := shp_note x, shp_updated := t\<rparr>"

definition outbox_entry :: "uuid \<Rightarrow> string \<Rightarrow> (string \<times> json) list \<Rightarrow> instant \<Rightarrow> outbox_row" where
  "outbox_entry i ty d t = \<lparr>ob_id = i, ob_type = ty, ob_topic = ''shipping-events'', ob_payload = d, ob_created = t,
     ob_published = None, ob_processing = None, ob_attempts = 0, ob_error = None\<rparr>"

definition moves_to :: "shipment \<Rightarrow> ship_status \<Rightarrow> string \<Rightarrow> (string \<times> json) list \<Rightarrow> shipping_db \<Rightarrow> shipping_db \<Rightarrow> bool" where
  "moves_to x st ty d s s' \<longleftrightarrow> (\<exists>t i. (\<exists>y \<in> set (shipments s). shp_id y = shp_id x \<and> shp_status y = st)
     \<and> shipments s' = update_where (\<lambda>y. shp_id y = shp_id x \<and> shp_status y = st) (moved_row x t) (shipments s)
     \<and> tombstones s' = tombstones s
     \<and> i \<notin> set (map ob_id (outbox (mail s)))
     \<and> mail s' = (mail s)\<lparr>outbox := outbox (mail s) @ [outbox_entry i ty d t]\<rparr>)"

lemma outbox_append_ok:
  "outbox_ok m \<Longrightarrow> i \<notin> set (map ob_id (outbox m)) \<Longrightarrow> outbox_ok (m\<lparr>outbox := outbox m @ [outbox_entry i ty d t]\<rparr>)"
  by (auto simp: outbox_ok_def outbox_entry_def)

lemma wp_append_outbox_event:
  "(\<And>i w'. i \<notin> set (map ob_id (outbox (mail (store w)))) \<Longrightarrow>
      store w' = (store w)\<lparr>mail := (mail (store w))\<lparr>outbox := outbox (mail (store w)) @ [outbox_entry i ty d (clock w)]\<rparr>\<rparr>
      \<Longrightarrow> Q () w') \<Longrightarrow> wp (append_outbox_event ty ''shipping-events'' d) Q w"
  by (auto simp: wp_def append_outbox_event_def within_def append_outbox_def tx_bind_def new_uuid_def sql_def
      insert_outbox_stmt_def consume_fault_def next_faulty_def outbox_entry_def
      split: prod.splits sum.splits if_splits list.splits)

lemma insert_event_result: "insert_event_stmt e t s = Inr (u, s') \<Longrightarrow> \<exists>es. s' = s\<lparr>ship_events := es\<rparr>"
  by (auto simp: insert_event_stmt_def split: if_splits)

lemma wp_append_event:
  assumes "\<And>es w'. store w' = (store w)\<lparr>ship_events := es\<rparr> \<Longrightarrow> clock w' = clock w \<Longrightarrow> Q () w'"
  shows "wp (append_event e) Q w"
  unfolding append_event_def
proof (intro wp_bindI wp_new_uuidI wp_sqlI)
  fix i u s' and w' w'' :: "shipping_db world"
  assume "store w' = store w" "clock w' = clock w" "insert_event_stmt (e\<lparr>sev_id := i\<rparr>) (clock w') (store w') = Inr (u, s')"
    "store w'' = s'" "clock w'' = clock w'"
  then show "Q u w''" using assms insert_event_result by (metis old.unit.exhaust)
qed

lemma move_shipment_step:
  "wp (move_shipment x st actor details ty d) (\<lambda>_ w'. moves_to x st ty d (store w) (store w')) w"
  unfolding move_shipment_def shipment_update_status_def update_shipments_def moved_row_def [symmetric]
proof (intro wp_run_txI wp_bindI wp_sqlI wp_ifI wp_throwI wp_returnI wp_append_event wp_append_outbox_event impI allI, goal_cases)
  case (1 w0 n s1 w1 es w2 i w3 w4)
  then have st: "store w1 = (store w)\<lparr>shipments := update_where (\<lambda>y. shp_id y = shp_id x \<and> shp_status y = st)
      (moved_row x (clock w)) (shipments (store w))\<rparr>" and t: "clock w2 = clock w"
    by auto
  from 1 have n: "\<exists>y \<in> set (shipments (store w)). shp_id y = shp_id x \<and> shp_status y = st"
    by (auto simp: filter_empty_conv)
  from 1 t have w4: "store w4 = (store w1)\<lparr>ship_events := es,
      mail := (mail (store w1))\<lparr>outbox := outbox (mail (store w1)) @ [outbox_entry i ty d (clock w)]\<rparr>\<rparr>"
    and i: "i \<notin> set (map ob_id (outbox (mail (store w1))))" by simp_all
  show ?case
    unfolding moves_to_def w4
    by (intro exI [of _ "clock w"] exI [of _ i] conjI n) (use i in \<open>simp_all add: st\<close>)
qed

lemma notices_append:
  "mail s' = (mail s)\<lparr>outbox := outbox (mail s) @ [outbox_entry i ty d t]\<rparr> \<Longrightarrow> notices s' = insert (ty, d) (notices s)"
  by (simp add: notices_def outbox_entry_def)

lemma moves_good:
  assumes inv: "ship_inv s" and m: "moves_to x st ty d s s'"
    and row: "\<And>t y. y \<in> set (shipments s) \<Longrightarrow> shp_id y = shp_id x \<Longrightarrow> shp_status y = st \<Longrightarrow>
      ship_row_ok (moved_row x t y) \<and> later y (moved_row x t y) \<and> tells (ty, d) (moved_row x t y)
      \<and> (\<forall>s1. notices s1 = insert (ty, d) (notices s) \<longrightarrow> announced s1 (moved_row x t y))"
  shows "good_step s s'"
proof -
  from m obtain t i y where y: "y \<in> set (shipments s)" "shp_id y = shp_id x" "shp_status y = st"
    and sh: "shipments s' = update_where (\<lambda>y. shp_id y = shp_id x \<and> shp_status y = st) (moved_row x t) (shipments s)"
    and to: "tombstones s' = tombstones s" and i: "i \<notin> set (map ob_id (outbox (mail s)))"
    and mail: "mail s' = (mail s)\<lparr>outbox := outbox (mail s) @ [outbox_entry i ty d t]\<rparr>"
    unfolding moves_to_def by blast
  define g where "g = (\<lambda>y. if shp_id y = shp_id x \<and> shp_status y = st then moved_row x t y else y)"
  have sh': "shipments s' = map g (shipments s)" unfolding sh g_def update_where_def ..
  note n = notices_append [OF mail]
  have keep: "announced s z \<Longrightarrow> announced s' z" for z unfolding announced_def n by blast
  have ok: "ship_row_ok (g z) \<and> announced s' (g z) \<and> later z (g z)" if "z \<in> set (shipments s)" for z
    using row [OF that, of t] inv that keep n by (auto simp: g_def ship_inv_def)
  show ?thesis
  proof (rule map_good [OF inv sh' to ok])
    show "grounded s' e" if "e \<in> notices s'" for e
    proof (cases "e \<in> notices s")
      case True
      with inv ok show ?thesis by (auto simp: ship_inv_def intro: grounded_later [OF _ sh'])
    next
      case False
      with that n have "e = (ty, d)" by simp
      with row [OF y, of t] have "tells e (g y)" by (simp add: g_def y)
      with y(1) sh' show ?thesis unfolding grounded_iff by auto
    qed
    show "outbox_ok (mail s')" using inv i unfolding mail by (intro outbox_append_ok) (simp_all add: ship_inv_def)
  qed
qed

subsection \<open>Steps\<close>

text \<open>A shipment that a request has read: an earlier state of a row.\<close>

definition stale :: "shipping_db \<Rightarrow> shipment \<Rightarrow> bool" where
  "stale s x \<longleftrightarrow> ship_row_ok x \<and> (\<exists>y \<in> set (shipments s). later x y)"

lemma stale_row: "ship_inv s \<Longrightarrow> stale s x \<Longrightarrow> y \<in> set (shipments s) \<Longrightarrow> shp_id y = shp_id x \<Longrightarrow> later x y"
proof -
  assume inv: "ship_inv s" and "stale s x" and y: "y \<in> set (shipments s)" "shp_id y = shp_id x"
  then obtain z where z: "z \<in> set (shipments s)" "later x z" by (auto simp: stale_def)
  then have "shp_id z = shp_id y" using y by (simp add: later_def)
  moreover have "inj_on shp_id (set (shipments s))" using inv by (simp add: ship_inv_def distinct_map)
  ultimately have "z = y" using z(1) y(1) by (blast dest: inj_onD)
  with z show ?thesis by simp
qed

lemma stale_progress: "stale s x \<Longrightarrow> progress s s' \<Longrightarrow> stale s' x"
  unfolding stale_def progress_def by (meson later_trans)

lemma register_row:
  fixes a :: instant and m :: string
  assumes "ship_row_ok x" "can_register x" "later x y" "shp_status y = ShipReady" "c \<noteq> ''''" "n \<noteq> ''''"
  defines "x' \<equiv> x\<lparr>shp_status := ShipShipped, shp_carrier := c, shp_tracking := n, shp_shipped_at := Some a, shp_note := m\<rparr>"
  shows "ship_row_ok (moved_row x' t y) \<and> later y (moved_row x' t y)
    \<and> tells (''shipment.shipped'', shipped_data x' a) (moved_row x' t y)
    \<and> (\<forall>s1. notices s1 = insert (''shipment.shipped'', shipped_data x' a) N \<longrightarrow> announced s1 (moved_row x' t y))"
proof -
  have "shipped_data (moved_row x' t y) a = shipped_data x' a"
    using assms(3) by (simp add: shipped_data_def moved_row_def x'_def later_def)
  moreover have "shp_status (moved_row x' t y) = ShipShipped" "shp_shipped_at (moved_row x' t y) = Some a"
    by (simp_all add: moved_row_def x'_def)
  moreover have "ship_row_ok (moved_row x' t y)"
    using assms(1,2,5,6) by (simp add: ship_row_ok_def moved_row_def x'_def on_the_way_def can_register_def)
  moreover have "later y (moved_row x' t y)"
    using assms(4) by (simp add: later_def moved_row_def x'_def on_the_way_def)
  ultimately show ?thesis by (simp add: tells_def announced_def on_the_way_def)
qed

lemma deliver_row:
  fixes a :: instant
  assumes "ship_row_ok x" "can_deliver x" "later x y" "shp_status y = ShipShipped" "announced s y"
  defines "x' \<equiv> x\<lparr>shp_status := ShipDelivered, shp_delivered_at := Some a\<rparr>"
  shows "ship_row_ok (moved_row x' t y) \<and> later y (moved_row x' t y)
    \<and> tells (''shipment.delivered'', delivered_data x' a) (moved_row x' t y)
    \<and> (\<forall>s1. notices s1 = insert (''shipment.delivered'', delivered_data x' a) (notices s) \<longrightarrow> announced s1 (moved_row x' t y))"
proof -
  let ?z = "moved_row x' t y"
  have w: "on_the_way x" "shp_status x = ShipShipped" using assms(2) by (simp_all add: on_the_way_def can_deliver_def)
  have same: "shp_carrier y = shp_carrier x" "shp_tracking y = shp_tracking x" "shp_shipped_at y = shp_shipped_at x"
    "shp_note y = shp_note x"
    using assms(3) w by (simp_all add: later_def)
  have z: "shp_status ?z = ShipDelivered" "shp_delivered_at ?z = Some a" "on_the_way ?z" "shp_shipped_at ?z = shp_shipped_at y"
    using same by (simp_all add: moved_row_def x'_def on_the_way_def)
  have d: "delivered_data ?z a = delivered_data x' a"
    using assms(3) by (simp add: delivered_data_def moved_row_def x'_def later_def)
  have sd: "shipped_data ?z b = shipped_data y b" for b
    using same by (simp add: shipped_data_def moved_row_def x'_def)
  have "ship_row_ok ?z"
    using assms(1) w z by (simp add: ship_row_ok_def moved_row_def x'_def)
  moreover have "later y ?z"
    using same assms(4) z by (simp add: later_def moved_row_def x'_def)
  moreover have "on_the_way y" using assms(4) by (simp add: on_the_way_def)
  ultimately show ?thesis using z d sd assms(5) by (simp add: tells_def announced_def)
qed

subsection \<open>Operations\<close>

lemma good_step_move:
  assumes "ship_inv (store w)" and "\<And>s'. moves_to x st ty d (store w) s' \<Longrightarrow> good_step (store w) s'"
  shows "good_step (store w) (store (snd (move_shipment x st actor details ty d w)))"
proof -
  obtain r w' where m: "move_shipment x st actor details ty d w = (r, w')" by fastforce
  show ?thesis
  proof (cases r)
    case (Inl e)
    with m have "store w' = store w" unfolding move_shipment_def by (simp add: run_tx_error_frame)
    with m assms(1) show ?thesis by (simp add: good_step_refl)
  next
    case (Inr u)
    from wpD [OF move_shipment_step m [unfolded Inr]] assms(2) m show ?thesis by simp
  qed
qed

lemma register_good:
  assumes inv: "ship_inv (store w)" and x: "stale (store w) x" and c: "rgi_carrier r \<noteq> ''''" "rgi_tracking r \<noteq> ''''"
  shows "good_step (store w) (store (snd (register_read r x w)))"
proof (cases "shp_seller x = rgi_seller r \<and> can_register x")
  case False
  then have "store (snd (register_read r x w)) = store w"
    by (auto simp: register_read_def tx_throw_def)
  with inv show ?thesis by (simp add: good_step_refl)
next
  case True
  define a where "a = (case rgi_shipped_at r of None \<Rightarrow> clock w | Some u \<Rightarrow> u)"
  define x' where "x' = x\<lparr>shp_status := ShipShipped, shp_carrier := rgi_carrier r, shp_tracking := rgi_tracking r,
                   shp_shipped_at := Some a, shp_note := rgi_note r\<rparr>"
  from True have "snd (register_read r x w) = snd (move_shipment x' ShipReady (rgi_seller r)
       [(''carrier'', rgi_carrier r), (''tracking_number'', rgi_tracking r)] ''shipment.shipped'' (shipped_data x' a) w)"
    by (auto simp: register_read_def can_register_def tx_bind_def now_def Let_def a_def [symmetric] x'_def [symmetric]
        tx_return_def split: prod.splits sum.splits)
  moreover have "good_step (store w) s'" if "moves_to x' ShipReady ''shipment.shipped'' (shipped_data x' a) (store w) s'" for s'
  proof (rule moves_good [OF inv that])
    fix t y
    assume y: "y \<in> set (shipments (store w))" "shp_id y = shp_id x'" "shp_status y = ShipReady"
    then have "later x y" using stale_row [OF inv x] by (simp add: x'_def)
    from register_row [OF _ _ this y(3) c, where a = a and m = "rgi_note r"] x True
    show "ship_row_ok (moved_row x' t y) \<and> later y (moved_row x' t y)
      \<and> tells (''shipment.shipped'', shipped_data x' a) (moved_row x' t y)
      \<and> (\<forall>s1. notices s1 = insert (''shipment.shipped'', shipped_data x' a) (notices (store w)) \<longrightarrow> announced s1 (moved_row x' t y))"
      by (simp add: stale_def x'_def)
  qed
  ultimately show ?thesis using good_step_move [OF inv] by simp
qed

lemma deliver_good:
  assumes inv: "ship_inv (store w)" and x: "stale (store w) x"
  shows "good_step (store w) (store (snd (deliver_read seller at x w)))"
proof (cases "shp_seller x = seller \<and> can_deliver x")
  case False
  then have "store (snd (deliver_read seller at x w)) = store w"
    by (auto simp: deliver_read_def tx_throw_def)
  with inv show ?thesis by (simp add: good_step_refl)
next
  case True
  define a where "a = (case at of None \<Rightarrow> clock w | Some u \<Rightarrow> u)"
  define x' where "x' = x\<lparr>shp_status := ShipDelivered, shp_delivered_at := Some a\<rparr>"
  from True have "snd (deliver_read seller at x w) = snd (move_shipment x' ShipShipped seller []
       ''shipment.delivered'' (delivered_data x' a) w)"
    by (auto simp: deliver_read_def can_deliver_def tx_bind_def now_def Let_def a_def [symmetric] x'_def [symmetric]
        tx_return_def split: prod.splits sum.splits)
  moreover have "good_step (store w) s'" if "moves_to x' ShipShipped ''shipment.delivered'' (delivered_data x' a) (store w) s'" for s'
  proof (rule moves_good [OF inv that])
    fix t y
    assume y: "y \<in> set (shipments (store w))" "shp_id y = shp_id x'" "shp_status y = ShipShipped"
    then have l: "later x y" using stale_row [OF inv x] by (simp add: x'_def)
    have "announced (store w) y" using inv y(1) by (simp add: ship_inv_def)
    from deliver_row [OF _ _ l y(3) this, where a = a] x True
    show "ship_row_ok (moved_row x' t y) \<and> later y (moved_row x' t y)
      \<and> tells (''shipment.delivered'', delivered_data x' a) (moved_row x' t y)
      \<and> (\<forall>s1. notices s1 = insert (''shipment.delivered'', delivered_data x' a) (notices (store w)) \<longrightarrow> announced s1 (moved_row x' t y))"
      by (simp add: stale_def x'_def)
  qed
  ultimately show ?thesis using good_step_move [OF inv] by simp
qed

lemma run_tx_good:
  assumes "ship_inv (store w)" and "wp (run_tx body) (\<lambda>_ w'. good_step (store w) (store w')) w"
  shows "good_step (store w) (store (snd (run_tx body w)))"
proof -
  obtain r w' where m: "run_tx body w = (r, w')" by fastforce
  show ?thesis
  proof (cases r)
    case (Inl e)
    with m have "store w' = store w" by (simp add: run_tx_error_frame)
    with m assms(1) show ?thesis by (simp add: good_step_refl)
  next
    case (Inr x)
    from wpD [OF assms(2) m [unfolded Inr]] m show ?thesis by simp
  qed
qed

lemma create_shipment_good:
  assumes inv: "ship_inv (store w)"
  shows "good_step (store w) (store (snd (create_shipment json_ok c w)))"
proof -
  have run: "good_step (store v) (store (snd (run_tx (tx_bind order_lock (\<lambda>_. sql (insert_shipment_stmt json_ok x))) v)))"
    if "ship_inv (store v)" for v :: "shipping_db world" and x
    by (rule run_tx_good [OF that], unfold order_lock_def, intro wp_run_txI wp_bindI wp_queryI wp_sqlI)
       (use that in \<open>auto dest: create_good\<close>)
  show ?thesis
    using run [of "w\<lparr>uuid_next := Suc (uuid_next w)\<rparr>"] inv
    by (simp add: create_shipment_def shipment_create_def tx_bind_def new_uuid_def Let_def)
qed

lemma cancel_shipment_good:
  assumes inv: "ship_inv (store w)"
  shows "good_step (store w) (store (snd (cancel_shipment i w)))"
  unfolding cancel_shipment_def cancel_by_order_def
proof (rule run_tx_good [OF inv], unfold order_lock_def update_shipments_def insert_tombstone_def,
    intro wp_run_txI wp_bindI wp_queryI wp_sqlI wp_ifI wp_returnI impI allI, goal_cases)
  case (1 w0 w1 n s2 w2 w3)
  then have "store w3 = (store w)\<lparr>shipments := update_where (\<lambda>y. shp_order y = i \<and> shp_status y \<in> {ShipPending, ShipReady})
     (\<lambda>y. y\<lparr>shp_status := ShipCancelled, shp_updated := clock w\<rparr>) (shipments (store w))\<rparr>" by auto
  with cancel_good [OF inv, of i "clock w"] show ?case by simp
next
  case (2 w0 w1 n s2 w2 w3 w4)
  then have "store w4 = (store w)\<lparr>shipments := update_where (\<lambda>y. shp_order y = i \<and> shp_status y \<in> {ShipPending, ShipReady})
     (\<lambda>y. y\<lparr>shp_status := ShipCancelled, shp_updated := clock w\<rparr>) (shipments (store w))\<rparr>" by auto
  with cancel_good [OF inv, of i "clock w"] show ?case by simp
next
  case (3 w0 w1 n s2 w2 w3 u s3 w4 w5)
  from 3 have "\<not> (\<exists>y \<in> set (shipments (store w)). shp_order y = i \<and> shp_status y \<in> {ShipPending, ShipReady})"
    by (auto simp: filter_empty_conv)
  then have "update_where (\<lambda>y. shp_order y = i \<and> shp_status y \<in> {ShipPending, ShipReady})
     (\<lambda>y. y\<lparr>shp_status := ShipCancelled, shp_updated := clock w\<rparr>) (shipments (store w)) = shipments (store w)"
    by (auto intro: update_where_id)
  with 3 have s2: "store w2 = store w" by auto
  with 3 have "i \<notin> set (map shp_order (shipments (store w)))" by auto
  note tombstone_good [OF inv this]
  moreover from 3 s2 have "store w5 = (if i \<in> set (tombstones (store w)) then store w
      else (store w)\<lparr>tombstones := tombstones (store w) @ [i]\<rparr>)" by auto
  ultimately show ?case by simp
qed

lemma relay_good:
  assumes inv: "ship_inv (store w)"
  shows "good_step (store w) (store (snd (shipping_relay_run publisher w)))"
proof -
  let ?v = "\<lparr>store = mail (store w), aborted = aborted w, faults = faults w, clock = clock w, uuids = uuids w,
     uuid_next = uuid_next w, events = events w\<rparr>"
  obtain r v where m: "(relay_run publisher :: (shipping_err, unit) obx) ?v = (r, v)" by fastforce
  have "outbox_ok (store ?v)" using inv by (simp add: ship_inv_def)
  then have "outcome (relay_run publisher :: (shipping_err, unit) obx) (\<lambda>_ w'. relayed (store ?v) (store w'))
      (\<lambda>_ w'. relayed (store ?v) (store w')) ?v" by (rule relay_run_relays)
  with m have v: "outbox_ok (store v)" "relays (mail (store w)) (store v)"
    by (auto simp: outcome_def split: sum.splits)
  define s' where "s' = (store w)\<lparr>mail := store v\<rparr>"
  have s: "store (snd (shipping_relay_run publisher w)) = s'"
    using m by (simp add: shipping_relay_run_def within_def s'_def)
  have n: "notices s = (\<lambda>e. (env_type e, env_data e)) ` set (map env_of (outbox (mail s)))" for s
    by (force simp: notices_def env_of_def)
  have "notices s' = notices (store w)" unfolding n s'_def using v(2) by (simp add: relays_def)
  moreover from this have "announced s' x = announced (store w) x" for x by (simp add: announced_def)
  moreover have "grounded s' e = grounded (store w) e" for e by (simp add: grounded_def s'_def)
  ultimately have "ship_inv s'" using inv v(1) by (simp add: ship_inv_def s'_def)
  moreover have "progress (store w) s'" unfolding progress_def s'_def by (auto intro: later_refl)
  ultimately show ?thesis unfolding s good_step_def by simp
qed

subsection \<open>Runs\<close>

text \<open>
  A state is the world and the shipments read so far. Creating and cancelling come from order
  events; a relay cycle may see any broker; time goes on.
\<close>

type_synonym ship_state = "shipping_db world \<times> shipment set"

inductive ship_step :: "ship_state \<Rightarrow> ship_state \<Rightarrow> bool" where
  read: "shipment_by_id i w = (Inr x, w') \<Longrightarrow> ship_step (w, R) (w', insert x R)"
| register: "x \<in> R \<Longrightarrow> rgi_carrier r \<noteq> '''' \<Longrightarrow> rgi_tracking r \<noteq> '''' \<Longrightarrow>
    ship_step (w, R) (snd (register_read r x w), R)"
| deliver: "x \<in> R \<Longrightarrow> ship_step (w, R) (snd (deliver_read seller at x w), R)"
| create: "ship_step (w, R) (snd (create_shipment json_ok c w), R)"
| cancel: "ship_step (w, R) (snd (cancel_shipment i w), R)"
| relay: "ship_step (w, R) (snd (shipping_relay_run publisher w), R)"
| other: "store w' = store w \<Longrightarrow> ship_step (w, R) (w', R)"

definition ship_ok :: "ship_state \<Rightarrow> bool" where
  "ship_ok c \<longleftrightarrow> ship_inv (store (fst c)) \<and> (\<forall>x \<in> snd c. stale (store (fst c)) x)"

lemma read_result:
  assumes "shipment_by_id i w = (Inr x, w')"
  shows "store w' = store w \<and> x \<in> set (shipments (store w))"
proof -
  have "wp (shipment_by_id i) (\<lambda>x w'. store w' = store w \<and> x \<in> set (shipments (store w))) w"
    unfolding shipment_by_id_def fetch_shipment_def by (intro wp_intros) (auto dest: find_Some_mem)
  from wpD [OF this assms] show ?thesis .
qed

lemma ship_step_good:
  assumes "ship_step c c'" and "ship_ok c"
  shows "ship_ok c' \<and> progress (store (fst c)) (store (fst c'))"
  using assms
proof (induction rule: ship_step.induct)
  case (read i w x w' R)
  from read_result [OF read(1)] have x: "store w' = store w" "x \<in> set (shipments (store w))" by auto
  with read(2) have "stale (store w) x" by (auto simp: ship_ok_def stale_def ship_inv_def intro: later_refl)
  with read(2) x(1) show ?case by (simp add: ship_ok_def)
next
  case (register x R r w)
  then have "good_step (store w) (store (snd (register_read r x w)))"
    by (intro register_good) (auto simp: ship_ok_def)
  with register show ?case by (auto simp: good_step_def ship_ok_def intro: stale_progress)
next
  case (deliver x R w seller at)
  then have "good_step (store w) (store (snd (deliver_read seller at x w)))"
    by (intro deliver_good) (auto simp: ship_ok_def)
  with deliver show ?case by (auto simp: good_step_def ship_ok_def intro: stale_progress)
next
  case (create w R json_ok c)
  with create_shipment_good [of w json_ok c] show ?case by (auto simp: good_step_def ship_ok_def intro: stale_progress)
next
  case (cancel w R i)
  with cancel_shipment_good [of w i] show ?case by (auto simp: good_step_def ship_ok_def intro: stale_progress)
next
  case (relay w R publisher)
  with relay_good [of w publisher] show ?case by (auto simp: good_step_def ship_ok_def intro: stale_progress)
qed (simp add: ship_ok_def)

end
