(* ===== verification/Shipping_Properties.thy ===== *)
theory Shipping_Properties
  imports Shipping_Invariant Contracts Samples
begin

text \<open>
  Shipping service, properties: the life of a shipment, and the events about it.
\<close>

interpretation shipping: stateful_service "\<lambda>c. store (fst c) = empty_shipping_db \<and> snd c = {}" ship_step ship_ok
proof
  fix w :: ship_state
  assume "store (fst w) = empty_shipping_db \<and> snd w = {}"
  then show "ship_ok w"
    by (simp add: ship_ok_def ship_inv_def empty_shipping_db_def notices_def empty_outbox_def outbox_ok_def)
qed (use ship_step_good in blast)


subsection \<open>A sample run\<close>

definition any_json :: "string \<Rightarrow> bool" where
  "any_json s = True"

definition ship_paid_world :: "shipping_db world" where
  "ship_paid_world = snd (create_shipment any_json \<lparr>csi_seller = ''s'', csi_order = ''o'', csi_buyer = ''b'', csi_address = ''''\<rparr>
     (sample_world empty_shipping_db))"

definition the_shipment :: shipment where
  "the_shipment = hd (shipments (store ship_paid_world))"

definition sample_register :: register_input where
  "sample_register = \<lparr>rgi_shipment = sample_uuid 0, rgi_seller = ''s'', rgi_carrier = ''yamato'', rgi_tracking = ''123'',
     rgi_note = '''', rgi_shipped_at = None\<rparr>"

definition read_world :: "shipping_db world" where
  "read_world = snd (shipment_by_id (sample_uuid 0) ship_paid_world)"

definition shipped_world :: "shipping_db world" where
  "shipped_world = snd (register_read sample_register the_shipment read_world)"

lemma sample_read: "shipment_by_id (sample_uuid 0) ship_paid_world = (Inr the_shipment, read_world)"
proof -
  have "fst (shipment_by_id (sample_uuid 0) ship_paid_world) = Inr the_shipment" by code_simp
  then show ?thesis by (simp add: read_world_def prod_eq_iff)
qed

lemma sample_paid: "ship_step\<^sup>*\<^sup>* (sample_world empty_shipping_db, {}) (read_world, {the_shipment})"
proof -
  have "ship_step (sample_world empty_shipping_db, {}) (ship_paid_world, {})"
    unfolding ship_paid_world_def by (rule ship_step.create)
  moreover have "ship_step (ship_paid_world, {}) (read_world, {the_shipment})"
    using ship_step.read [OF sample_read, of "{}"] by simp
  ultimately show ?thesis by (meson rtranclp.rtrancl_into_rtrancl rtranclp.rtrancl_refl)
qed

lemma sample_shipped: "ship_step\<^sup>*\<^sup>* (read_world, {the_shipment}) (shipped_world, {the_shipment})"
  unfolding shipped_world_def
  by (rule r_into_rtranclp, rule ship_step.register) (simp_all add: sample_register_def)

subsection \<open>The life of a shipment\<close>



subsection \<open>Events\<close>

text \<open>One cycle of the relay for a broker that takes everything.\<close>

definition relay_cycle :: "shipping_db world \<Rightarrow> shipping_db world" where
  "relay_cycle w = snd (shipping_relay_run accepting w)"

lemma relay_cycle_healthy:
  "healthy w \<Longrightarrow> relay_cycle w = w\<lparr>store := (store w)\<lparr>mail := after_cycle (clock w) (mail (store w))\<rparr>\<rparr>"
  unfolding relay_cycle_def shipping_relay_run_def
  by (subst within_healthy [where f = after_cycle], assumption, rule relay_run_accepting) simp_all

lemma relay_cycles_healthy:
  "healthy w \<Longrightarrow> (relay_cycle ^^ k) w = w\<lparr>store := (store w)\<lparr>mail := (after_cycle (clock w) ^^ k) (mail (store w))\<rparr>\<rparr>"
proof (induction k)
  case (Suc k)
  then have "healthy ((relay_cycle ^^ k) w)" by simp
  with Suc show ?case by (simp add: relay_cycle_healthy)
qed simp

text \<open>
  C37. Shipping and delivering reach the broker: once no claim of a crashed relay is outstanding, k
  cycles of the relay on a healthy database with a broker that takes the events publish up to 50 * k
  waiting events, after which the broker has the event of every shipment that was shipped and of
  every one that was delivered, with the recorded data; and at any time every event it has tells of
  a shipment that really got there.
\<close>

theorem shipments_reach_the_broker:
  assumes "store w0 = empty_shipping_db" and "ship_step\<^sup>*\<^sup>* (w0, {}) (w, R)" and "healthy w"
    and "\<forall>r \<in> set (unsent (mail (store w))). relay_claimable (clock w) r"
    and "length (unsent (mail (store w))) \<le> 50 * k"
  defines "told \<equiv> (\<lambda>e. (env_type e, env_data e)) ` set (accepted (mail (store ((relay_cycle ^^ k) w))))"
  shows "(\<forall>x \<in> set (shipments (store w)).
        (on_the_way x \<longrightarrow> (''shipment.shipped'', shipped_data x (the (shp_shipped_at x))) \<in> told)
      \<and> (shp_status x = ShipDelivered \<longrightarrow> (''shipment.delivered'', delivered_data x (the (shp_delivered_at x))) \<in> told))
    \<and> (\<forall>n \<in> told. \<exists>x \<in> set (shipments (store w)). tells n x)"
proof -
  let ?m = "(after_cycle (clock w) ^^ k) (mail (store w))"
  have inv: "ship_inv (store w)"
    using shipping.reachable_inv [of "(w0, {})" "(w, R)"] assms(1,2) by (simp add: ship_ok_def)
  then have "outbox_ok (mail (store w))" by (simp add: ship_inv_def)
  from after_cycles_drain [OF this assms(4)] assms(5)
  have u: "unsent ?m = []" and ok: "outbox_ok ?m" and r: "relays (mail (store w)) ?m"
    by (simp_all add: batch_limit_def)
  have told: "told = (\<lambda>e. (env_type e, env_data e)) ` set (accepted ?m)"
    by (simp add: told_def relay_cycles_healthy [OF assms(3)])
  have n: "notices (store w) = (\<lambda>e. (env_type e, env_data e)) ` set (map env_of (outbox ?m))"
    using r by (simp add: relays_def) (force simp: notices_def env_of_def)
  have "set (map env_of (outbox ?m)) = set (accepted ?m)"
    using ok u by (auto simp: outbox_ok_def unsent_def filter_empty_conv)
  then have "told = notices (store w)" by (simp only: n told)
  with inv show ?thesis by (simp add: ship_inv_def announced_def grounded_iff)
qed

theorem shipments_reach_the_broker_witness:
  "(''shipment.shipped'', shipped_data (hd (shipments (store shipped_world))) 0)
     \<in> (\<lambda>e. (env_type e, env_data e)) ` set (accepted (mail (store (relay_cycle shipped_world))))"
proof -
  have run: "ship_step\<^sup>*\<^sup>* (sample_world empty_shipping_db, {}) (shipped_world, {the_shipment})"
    using sample_paid sample_shipped by (rule rtranclp_trans)
  have s: "store (sample_world empty_shipping_db) = empty_shipping_db" by (simp add: sample_world_def)
  have "faults shipped_world = [] \<and> \<not> aborted shipped_world"
    by code_simp
  then have h: "healthy shipped_world" by (simp add: healthy_def)
  have "list_all (relay_claimable (clock shipped_world)) (unsent (mail (store shipped_world)))
      \<and> length (unsent (mail (store shipped_world))) \<le> 50 * 1"
    by code_simp
  then have c: "\<forall>r \<in> set (unsent (mail (store shipped_world))). relay_claimable (clock shipped_world) r"
    and l: "length (unsent (mail (store shipped_world))) \<le> 50 * 1" by (auto simp: list_all_iff)
  have "shipments (store shipped_world) \<noteq> [] \<and> shp_status (hd (shipments (store shipped_world))) = ShipShipped
      \<and> shp_shipped_at (hd (shipments (store shipped_world))) = Some 0"
    by code_simp
  then have x: "hd (shipments (store shipped_world)) \<in> set (shipments (store shipped_world))"
    "on_the_way (hd (shipments (store shipped_world)))" "shp_shipped_at (hd (shipments (store shipped_world))) = Some 0"
    by (auto simp: on_the_way_def)
  from shipments_reach_the_broker [OF s run h c l, THEN conjunct1, rule_format, OF x(1), THEN conjunct1] x(2,3)
  show ?thesis by simp
qed

end
