(* ===== verification/Review_Store.thy ===== *)
theory Review_Store
  imports Request_Context
begin

text \<open>
  Review service, data and repository: internal/domain, the tables of infra/db/migrations/review and
  the methods of \<open>ReviewRepository\<close> (internal/adapter/postgres/review_repo.go). Texts are ASCII, so
  that a length is both the bytes that Go counts and the characters that Postgres counts;
  \<open>VARCHAR\<close> lengths are not modelled. An average, \<open>NUMERIC(3,2)\<close>, is its number of hundredths. A use
  case may run a repository method inside its own transaction (\<open>RunInTx\<close>) or alone: the methods that
  are used inside one are given as bodies, and \<open>run_tx\<close> closes them.
\<close>

subsection \<open>Domain types\<close>

record review =
  rvw_id :: uuid
  rvw_buyer :: string
  rvw_product :: uuid
  rvw_seller :: uuid
  rvw_name :: string
  rvw_rating :: int
  rvw_title :: string
  rvw_body :: string
  rvw_created :: instant
  rvw_updated :: instant

record review_reply =
  rpl_id :: uuid
  rpl_review :: uuid
  rpl_author :: string
  rpl_body :: string
  rpl_created :: instant
  rpl_updated :: instant

record product_rating =
  prt_product :: uuid
  prt_average :: int
  prt_count :: int
  prt_sum :: int
  prt_updated :: instant

datatype review_err =
  ErrReviewNotFound
| ErrReplyNotFound
| ErrAlreadyReviewed
| ErrAlreadyReplied
| ErrReviewPurchaseRequired
| ErrNotReviewOwner
| ErrNotSellerOfProduct
| ErrInvalidRating
| ErrReviewProductNotFound
| ErrReviewClient string

record review_db =
  reviews :: "review list"
  replies :: "review_reply list"
  ratings :: "product_rating list"

type_synonym 'a rtx = "(review_db, review_err, 'a) tx"

definition empty_review_db :: review_db where
  "empty_review_db = \<lparr>reviews = [], replies = [], ratings = []\<rparr>"

subsection \<open>Reviews\<close>

text \<open>A unique violation of the named constraint is the sentinel.\<close>

definition on_unique :: "string \<Rightarrow> 'd \<Rightarrow> ('s, 'd, 'a) tx \<Rightarrow> ('s, 'd, 'a) tx" where
  "on_unique c d m = tx_map_error (\<lambda>e. if e = Pg (UniqueViolation c) then Sentinel d else e) m"

definition insert_review_stmt ::
  "review \<Rightarrow> instant \<Rightarrow> review_db \<Rightarrow> pg_error + (review \<times> review_db)" where
  "insert_review_stmt x t s =
     (let y = x\<lparr>rvw_created := t, rvw_updated := t\<rparr> in
      if \<not> (1 \<le> rvw_rating x \<and> rvw_rating x \<le> 5) then Inl (CheckViolation ''reviews_rating_check'')
      else if \<not> (1 \<le> length (rvw_body x) \<and> length (rvw_body x) \<le> 4000) then Inl (CheckViolation ''reviews_body_check'')
      else if rvw_id x \<in> set (map rvw_id (reviews s)) then Inl (UniqueViolation ''reviews_pkey'')
      else if (rvw_buyer x, rvw_product x) \<in> set (map (\<lambda>r. (rvw_buyer r, rvw_product r)) (reviews s)) then
        Inl (UniqueViolation ''uq_review_per_product'')
      else Inr (y, s\<lparr>reviews := reviews s @ [y]\<rparr>))"

definition review_create :: "review \<Rightarrow> review rtx" where
  "review_create x =
     tx_bind new_uuid (\<lambda>i.
     on_unique ''uq_review_per_product'' ErrAlreadyReviewed (sql (insert_review_stmt (x\<lparr>rvw_id := i\<rparr>))))"

text \<open>The left join with the one reply.\<close>

definition with_reply :: "review_db \<Rightarrow> review \<Rightarrow> review \<times> review_reply option" where
  "with_reply s x = (x, find (\<lambda>p. rpl_review p = rvw_id x) (replies s))"

definition review_by_id :: "uuid \<Rightarrow> (review \<times> review_reply option) option rtx" where
  "review_by_id i = run_tx (query (\<lambda>t s. map_option (with_reply s) (find (\<lambda>x. rvw_id x = i) (reviews s))))"

definition update_review_stmt ::
  "review \<Rightarrow> instant \<Rightarrow> review_db \<Rightarrow> pg_error + (nat \<times> review_db)" where
  "update_review_stmt x t s =
     (let q = (\<lambda>y. rvw_id y = rvw_id x); n = length (filter q (reviews s)) in
      if n = 0 then Inr (0, s)
      else if \<not> (1 \<le> rvw_rating x \<and> rvw_rating x \<le> 5) then Inl (CheckViolation ''reviews_rating_check'')
      else if \<not> (1 \<le> length (rvw_body x) \<and> length (rvw_body x) \<le> 4000) then Inl (CheckViolation ''reviews_body_check'')
      else Inr (n, s\<lparr>reviews := update_where q
        (\<lambda>y. y\<lparr>rvw_rating := rvw_rating x, rvw_title := rvw_title x, rvw_body := rvw_body x, rvw_updated := t\<rparr>) (reviews s)\<rparr>))"

definition review_update :: "review \<Rightarrow> unit rtx" where
  "review_update x =
     tx_bind (sql (update_review_stmt x)) (\<lambda>n.
     if n = 0 then tx_throw (Sentinel ErrReviewNotFound) else tx_return ())"

text \<open>The foreign key deletes the reply with the review.\<close>

definition review_delete :: "uuid \<Rightarrow> unit rtx" where
  "review_delete i =
     tx_bind (sql (\<lambda>t s. Inr (length (filter (\<lambda>x. rvw_id x = i) (reviews s)),
        s\<lparr>reviews := filter (\<lambda>x. rvw_id x \<noteq> i) (reviews s), replies := filter (\<lambda>p. rpl_review p \<noteq> i) (replies s)\<rparr>))) (\<lambda>n.
     if n = 0 then tx_throw (Sentinel ErrReviewNotFound) else tx_return ())"

definition review_page ::
  "(review \<Rightarrow> bool) \<Rightarrow> int \<Rightarrow> int \<Rightarrow> ((review \<times> review_reply option) list \<times> nat) rtx" where
  "review_page q lim off = run_tx (
     tx_bind (query (\<lambda>t s. length (filter q (reviews s)))) (\<lambda>n.
     tx_bind (query (\<lambda>t s. map (with_reply s) (take (nat lim) (drop (nat off)
       (sort_key (\<lambda>x. - rvw_created x) (filter q (reviews s))))))) (\<lambda>rows.
     tx_return (rows, n))))"

definition reviews_by_product :: "uuid \<Rightarrow> int \<Rightarrow> int \<Rightarrow> ((review \<times> review_reply option) list \<times> nat) rtx" where
  "reviews_by_product p lim off = review_page (\<lambda>x. rvw_product x = p) lim off"

definition reviews_by_seller :: "uuid \<Rightarrow> int \<Rightarrow> int \<Rightarrow> ((review \<times> review_reply option) list \<times> nat) rtx" where
  "reviews_by_seller seller lim off = review_page (\<lambda>x. rvw_seller x = seller) lim off"

subsection \<open>Replies\<close>

definition insert_reply_stmt ::
  "review_reply \<Rightarrow> instant \<Rightarrow> review_db \<Rightarrow> pg_error + (review_reply \<times> review_db)" where
  "insert_reply_stmt x t s =
     (let y = x\<lparr>rpl_created := t, rpl_updated := t\<rparr> in
      if \<not> (1 \<le> length (rpl_body x) \<and> length (rpl_body x) \<le> 2000) then Inl (CheckViolation ''review_replies_body_check'')
      else if rpl_id x \<in> set (map rpl_id (replies s)) then Inl (UniqueViolation ''review_replies_pkey'')
      else if rpl_review x \<in> set (map rpl_review (replies s)) then Inl (UniqueViolation ''uq_reply_per_review'')
      else if rpl_review x \<notin> set (map rvw_id (reviews s)) then
        Inl (ForeignKeyViolation ''review_replies_review_id_fkey'')
      else Inr (y, s\<lparr>replies := replies s @ [y]\<rparr>))"

definition reply_create :: "review_reply \<Rightarrow> review_reply rtx" where
  "reply_create x = run_tx (
     tx_bind new_uuid (\<lambda>i.
     on_unique ''uq_reply_per_review'' ErrAlreadyReplied (sql (insert_reply_stmt (x\<lparr>rpl_id := i\<rparr>)))))"

definition update_reply_stmt ::
  "uuid \<Rightarrow> string \<Rightarrow> instant \<Rightarrow> review_db \<Rightarrow> pg_error + (review_reply option \<times> review_db)" where
  "update_reply_stmt i b t s =
     (let g = (\<lambda>p. p\<lparr>rpl_body := b, rpl_updated := t\<rparr>); q = (\<lambda>p. rpl_review p = i) in
      case find q (replies s) of
        None \<Rightarrow> Inr (None, s)
      | Some p \<Rightarrow>
          if \<not> (1 \<le> length b \<and> length b \<le> 2000) then Inl (CheckViolation ''review_replies_body_check'')
          else Inr (Some (g p), s\<lparr>replies := update_where q g (replies s)\<rparr>))"

definition reply_update :: "uuid \<Rightarrow> string \<Rightarrow> review_reply rtx" where
  "reply_update i b = run_tx (
     tx_bind (sql (update_reply_stmt i b)) (\<lambda>r.
     case r of None \<Rightarrow> tx_throw (Sentinel ErrReplyNotFound) | Some p \<Rightarrow> tx_return p))"

definition reply_delete :: "uuid \<Rightarrow> unit rtx" where
  "reply_delete i = run_tx (
     tx_bind (sql (\<lambda>t s. Inr (length (filter (\<lambda>p. rpl_review p = i) (replies s)),
        s\<lparr>replies := filter (\<lambda>p. rpl_review p \<noteq> i) (replies s)\<rparr>))) (\<lambda>n.
     if n = 0 then tx_throw (Sentinel ErrReplyNotFound) else tx_return ()))"

definition reply_by_review :: "uuid \<Rightarrow> review_reply option rtx" where
  "reply_by_review i = run_tx (query (\<lambda>t s. find (\<lambda>p. rpl_review p = i) (replies s)))"

subsection \<open>Aggregate ratings\<close>

definition rating_by_product :: "uuid \<Rightarrow> product_rating option rtx" where
  "rating_by_product p = run_tx (query (\<lambda>t s. find (\<lambda>r. prt_product r = p) (ratings s)))"

text \<open>
  \<open>sum::numeric / count\<close> stored with two decimals: rounded to the nearest hundredth, halves away from
  zero.
\<close>

definition hundredths :: "int \<Rightarrow> int \<Rightarrow> int" where
  "hundredths tot n =
     (if n > 0 then sgn tot * ((200 * \<bar>tot\<bar> + n) div (2 * n)) else 0)"

text \<open>\<open>INTEGER\<close> columns and a \<open>NUMERIC(3,2)\<close> one.\<close>

definition store_rating :: "product_rating \<Rightarrow> review_db \<Rightarrow> pg_error + (unit \<times> review_db)" where
  "store_rating r s =
     (if \<not> in_i32 (prt_sum r) \<or> \<not> in_i32 (prt_count r) \<or> \<bar>prt_average r\<bar> \<ge> 1000 then Inl NumericOutOfRange
      else Inr ((), s\<lparr>ratings := (case find (\<lambda>x. prt_product x = prt_product r) (ratings s) of
             None \<Rightarrow> ratings s @ [r]
           | Some _ \<Rightarrow> update_where (\<lambda>x. prt_product x = prt_product r) (\<lambda>_. r) (ratings s))\<rparr>))"

definition upsert_rating_stmt ::
  "uuid \<Rightarrow> int \<Rightarrow> int \<Rightarrow> instant \<Rightarrow> review_db \<Rightarrow> pg_error + (unit \<times> review_db)" where
  "upsert_rating_stmt p rating_delta count_delta t s =
     (let (tot, n) = (case find (\<lambda>x. prt_product x = p) (ratings s) of
           None \<Rightarrow> (rating_delta, count_delta)
         | Some x \<Rightarrow> (prt_sum x + rating_delta, prt_count x + count_delta))
      in store_rating \<lparr>prt_product = p, prt_average = hundredths tot n, prt_count = n, prt_sum = tot, prt_updated = t\<rparr> s)"

definition upsert_product_rating :: "uuid \<Rightarrow> int \<Rightarrow> int \<Rightarrow> unit rtx" where
  "upsert_product_rating p rating_delta count_delta = sql (upsert_rating_stmt p rating_delta count_delta)"

end
