(* ===== verification/Review_Service.thy ===== *)
theory Review_Service
  imports Review_Store
begin

text \<open>
  Review service, use cases (internal/app/review_service.go), the clients of the catalog and the
  order service (internal/adapter/httpclient) and the HTTP handlers (internal/adapter/http). \<open>pub\<close>
  says whether a publisher is configured. A time is its instant and an average its hundredths, also in
  a payload.
\<close>

subsection \<open>Clients\<close>

record product_lookup =
  plk_product :: uuid
  plk_seller :: uuid
  plk_name :: string
  plk_skus :: "uuid list"

definition client_failed :: "string \<Rightarrow> string \<Rightarrow> review_err error" where
  "client_failed msg e = internal msg (Some (Sentinel (ErrReviewClient e)))"

definition get_product :: "product_lookup client_reply \<Rightarrow> review_err error + product_lookup" where
  "get_product reply =
     (case reply of
        Inl e \<Rightarrow> Inl (client_failed ''catalog service unreachable'' e)
      | Inr (st, raw, body) \<Rightarrow>
          if st = 404 then Inl (Sentinel ErrReviewProductNotFound)
          else if st \<ge> 400 then Inl (status_failed ''catalog lookup failed'' st raw)
          else (case body of
                  Inl e \<Rightarrow> Inl (client_failed ''decode catalog response'' e)
                | Inr p \<Rightarrow> Inr p))"

definition check_purchase_reply :: "bool client_reply \<Rightarrow> review_err error + bool" where
  "check_purchase_reply reply =
     (case reply of
        Inl e \<Rightarrow> Inl (client_failed ''order service unreachable'' e)
      | Inr (st, raw, body) \<Rightarrow>
          if st \<ge> 400 then Inl (status_failed ''purchase check failed'' st raw)
          else (case body of
                  Inl e \<Rightarrow> Inl (client_failed ''decode purchase check response'' e)
                | Inr b \<Rightarrow> Inr b))"

text \<open>The other services, as they answer while one request is served.\<close>

record review_peers =
  peer_catalog :: "uuid \<Rightarrow> product_lookup client_reply"
  peer_orders :: "string \<Rightarrow> uuid \<Rightarrow> uuid \<Rightarrow> bool client_reply"

subsection \<open>Use cases of buyers\<close>

record create_review_input =
  cri_product :: uuid
  cri_rating :: int
  cri_title :: string
  cri_body :: string

record update_review_input =
  uri_rating :: "int option"
  uri_title :: "string option"
  uri_body :: "string option"

text \<open>The loop over the product's SKUs: whether one was bought, and the last error if none was.\<close>

fun find_purchase ::
  "(uuid \<Rightarrow> bool client_reply) \<Rightarrow> uuid list \<Rightarrow> review_err error option \<Rightarrow> bool \<times> review_err error option" where
  "find_purchase ask [] last_err = (False, last_err)"
| "find_purchase ask (k # ks) last_err =
     (case check_purchase_reply (ask k) of
        Inl e \<Rightarrow> find_purchase ask ks (Some e)
      | Inr bought \<Rightarrow> if bought then (True, last_err) else find_purchase ask ks last_err)"

definition create_review_checks :: "string \<Rightarrow> create_review_input \<Rightarrow> review_err error option" where
  "create_review_checks buyer c =
     (let title = trim_space (cri_title c); body = trim_space (cri_body c) in
      if buyer = '''' then Some (bad_request ''buyer_auth0_id is required'')
      else if cri_product c = nil_uuid then Some (bad_request ''product_id is required'')
      else if cri_rating c < 1 \<or> cri_rating c > 5 then Some (Sentinel ErrInvalidRating)
      else if title = '''' then Some (bad_request ''title is required'')
      else if body = '''' then Some (bad_request ''body is required'')
      else if length title > 255 then Some (bad_request ''title must be at most 255 characters'')
      else if length body > 4000 then Some (bad_request ''body must be at most 4000 characters'')
      else None)"

definition review_notice :: "string \<Rightarrow> review \<Rightarrow> (string \<times> json) list \<Rightarrow> event" where
  "review_notice ty x extra = \<lparr>topic = ''review-events'', event_type = ty,
     payload = [(''review_id'', JStr (rvw_id x)), (''product_id'', JStr (rvw_product x)), (''seller_id'', JStr (rvw_seller x))]
       @ omit_empty ''buyer_auth0_id'' (rvw_buyer x) @ omit_empty ''product_name'' (rvw_name x) @ extra\<rparr>"

text \<open>The review and its share of the aggregate, in one transaction.\<close>

definition record_review :: "review \<Rightarrow> review rtx" where
  "record_review x = run_tx (
     tx_bind (review_create x) (\<lambda>y.
     tx_bind (upsert_product_rating (rvw_product x) (rvw_rating x) 1) (\<lambda>_. tx_return y)))"

definition create_review :: "bool \<Rightarrow> review_peers \<Rightarrow> string \<Rightarrow> create_review_input \<Rightarrow> review rtx" where
  "create_review pub peers buyer c =
     (case create_review_checks buyer c of
        Some e \<Rightarrow> tx_throw e
      | None \<Rightarrow>
          (case get_product (peer_catalog peers (cri_product c)) of
             Inl e \<Rightarrow> tx_throw e
           | Inr p \<Rightarrow>
               (case find_purchase (peer_orders peers buyer (plk_seller p)) (plk_skus p) None of
                  (False, Some e) \<Rightarrow> tx_throw (internal ''purchase check partially failed'' (Some e))
                | (False, None) \<Rightarrow> tx_throw (Sentinel ErrReviewPurchaseRequired)
                | (True, _) \<Rightarrow>
                    tx_bind (record_review \<lparr>rvw_id = nil_uuid, rvw_buyer = buyer, rvw_product = cri_product c,
                      rvw_seller = plk_seller p, rvw_name = plk_name p, rvw_rating = cri_rating c,
                      rvw_title = trim_space (cri_title c), rvw_body = trim_space (cri_body c),
                      rvw_created = 0, rvw_updated = 0\<rparr>) (\<lambda>x.
                    tx_bind (publish_when pub (review_notice ''review.created'' x
                      (proto_int ''rating'' (int32 (rvw_rating x)) @ omit_empty ''title'' (rvw_title x)))) (\<lambda>_.
                    tx_return x)))))"

text \<open>The fields of an update that are given, in turn.\<close>

definition apply_rating :: "int option \<Rightarrow> review \<Rightarrow> review_err error + review" where
  "apply_rating r x =
     (case r of
        None \<Rightarrow> Inr x
      | Some n \<Rightarrow> if n < 1 \<or> n > 5 then Inl (Sentinel ErrInvalidRating) else Inr (x\<lparr>rvw_rating := n\<rparr>))"

definition apply_text ::
  "string \<Rightarrow> nat \<Rightarrow> (string \<Rightarrow> review \<Rightarrow> review) \<Rightarrow> string option \<Rightarrow> review \<Rightarrow> review_err error + review" where
  "apply_text field limit put s x =
     (case s of
        None \<Rightarrow> Inr x
      | Some s \<Rightarrow> (case check_text field limit (trim_space s) of Some e \<Rightarrow> Inl e | None \<Rightarrow> Inr (put (trim_space s) x)))"

definition apply_review_update :: "update_review_input \<Rightarrow> review \<Rightarrow> review_err error + review" where
  "apply_review_update u x =
     (case apply_rating (uri_rating u) x of Inl e \<Rightarrow> Inl e | Inr x \<Rightarrow>
      case apply_text ''title'' 255 (\<lambda>s y. y\<lparr>rvw_title := s\<rparr>) (uri_title u) x of Inl e \<Rightarrow> Inl e | Inr x \<Rightarrow>
      apply_text ''body'' 4000 (\<lambda>s y. y\<lparr>rvw_body := s\<rparr>) (uri_body u) x)"

text \<open>
  A use case first reads the review; what follows works on the row it has read.
\<close>

definition load_review :: "uuid \<Rightarrow> (review \<times> review_reply option) rtx" where
  "load_review i =
     tx_bind (or_internal ''failed to load review'' (review_by_id i)) (\<lambda>r.
     case r of None \<Rightarrow> tx_throw (Sentinel ErrReviewNotFound) | Some y \<Rightarrow> tx_return y)"

definition update_tx :: "review \<Rightarrow> int \<Rightarrow> unit rtx" where
  "update_tx x rating_delta = run_tx (
     tx_bind (review_update x) (\<lambda>_.
     if rating_delta \<noteq> 0 then upsert_product_rating (rvw_product x) rating_delta 0 else tx_return ()))"

definition update_read :: "bool \<Rightarrow> string \<Rightarrow> update_review_input \<Rightarrow> review \<Rightarrow> review rtx" where
  "update_read pub buyer u x =
     (if rvw_buyer x \<noteq> buyer then tx_throw (Sentinel ErrNotReviewOwner)
      else
        (case apply_review_update u x of
           Inl e \<Rightarrow> tx_throw e
         | Inr y \<Rightarrow>
             tx_bind (or_internal ''failed to update review'' (update_tx y (rvw_rating y - rvw_rating x))) (\<lambda>_.
             tx_bind (publish_when pub (review_notice ''review.updated'' y
               (proto_int ''old_rating'' (int32 (rvw_rating x)) @ proto_int ''new_rating'' (int32 (rvw_rating y))))) (\<lambda>_.
             tx_return y))))"

definition update_review ::
  "bool \<Rightarrow> uuid \<Rightarrow> string \<Rightarrow> update_review_input \<Rightarrow> (review \<times> review_reply option) rtx" where
  "update_review pub i buyer u =
     tx_bind (load_review i) (\<lambda>(x, p). tx_bind (update_read pub buyer u x) (\<lambda>y. tx_return (y, p)))"

definition delete_tx :: "review \<Rightarrow> unit rtx" where
  "delete_tx x = run_tx (
     tx_bind (review_delete (rvw_id x)) (\<lambda>_. upsert_product_rating (rvw_product x) (- rvw_rating x) (- 1)))"

definition delete_read :: "bool \<Rightarrow> string \<Rightarrow> review \<Rightarrow> unit rtx" where
  "delete_read pub buyer x =
     (if rvw_buyer x \<noteq> buyer then tx_throw (Sentinel ErrNotReviewOwner)
      else
        tx_bind (or_internal ''failed to delete review'' (delete_tx x)) (\<lambda>_.
        publish_when pub (review_notice ''review.deleted'' x [])))"

definition delete_review :: "bool \<Rightarrow> uuid \<Rightarrow> string \<Rightarrow> unit rtx" where
  "delete_review pub i buyer = tx_bind (load_review i) (\<lambda>(x, p). delete_read pub buyer x)"

subsection \<open>Queries\<close>

definition get_review :: "uuid \<Rightarrow> (review \<times> review_reply option) rtx" where
  "get_review i = load_review i"

definition review_limits :: "int \<Rightarrow> int \<Rightarrow> int \<times> int" where
  "review_limits lim off = (if lim \<le> 0 \<or> lim > 100 then 20 else lim, if off < 0 then 0 else off)"

definition list_by_product :: "uuid \<Rightarrow> int \<Rightarrow> int \<Rightarrow> ((review \<times> review_reply option) list \<times> nat) rtx" where
  "list_by_product p lim off =
     (let (l, d) = review_limits lim off in or_internal ''failed to list reviews'' (reviews_by_product p l d))"

definition get_product_rating :: "uuid \<Rightarrow> product_rating rtx" where
  "get_product_rating p =
     tx_bind (or_internal ''failed to load product rating'' (rating_by_product p)) (\<lambda>r.
     tx_return (case r of
        None \<Rightarrow> \<lparr>prt_product = p, prt_average = 0, prt_count = 0, prt_sum = 0, prt_updated = 0\<rparr>
      | Some x \<Rightarrow> x))"

definition list_for_seller :: "uuid \<Rightarrow> int \<Rightarrow> int \<Rightarrow> ((review \<times> review_reply option) list \<times> nat) rtx" where
  "list_for_seller seller lim off =
     (if seller = nil_uuid then tx_throw (bad_request ''seller_id is required'')
      else let (l, d) = review_limits lim off in or_internal ''failed to list reviews'' (reviews_by_seller seller l d))"

subsection \<open>Use cases of sellers\<close>

definition load_sellers_review :: "uuid \<Rightarrow> uuid \<Rightarrow> review rtx" where
  "load_sellers_review i seller =
     tx_bind (load_review i) (\<lambda>(x, p).
     if rvw_seller x \<noteq> seller then tx_throw (Sentinel ErrNotSellerOfProduct) else tx_return x)"

definition create_reply :: "bool \<Rightarrow> uuid \<Rightarrow> string \<Rightarrow> uuid \<Rightarrow> string \<Rightarrow> review_reply rtx" where
  "create_reply pub i author seller raw =
     (let body = trim_space raw in
      case check_text ''body'' 2000 body of
        Some e \<Rightarrow> tx_throw e
      | None \<Rightarrow>
          tx_bind (load_sellers_review i seller) (\<lambda>x.
          tx_bind (reply_create \<lparr>rpl_id = nil_uuid, rpl_review = i, rpl_author = author, rpl_body = body,
                     rpl_created = 0, rpl_updated = 0\<rparr>) (\<lambda>p.
          tx_bind (publish_when pub (review_notice ''review.replied'' x (omit_empty ''reply_preview'' (take 200 body)))) (\<lambda>_.
          tx_return p))))"

definition update_reply :: "uuid \<Rightarrow> string \<Rightarrow> uuid \<Rightarrow> string \<Rightarrow> review_reply rtx" where
  "update_reply i author seller raw =
     (let body = trim_space raw in
      case check_text ''body'' 2000 body of
        Some e \<Rightarrow> tx_throw e
      | None \<Rightarrow> tx_bind (load_sellers_review i seller) (\<lambda>x. reply_update i body))"

definition delete_reply :: "uuid \<Rightarrow> uuid \<Rightarrow> unit rtx" where
  "delete_reply i seller = tx_bind (load_sellers_review i seller) (\<lambda>x. reply_delete i)"

subsection \<open>HTTP\<close>

type_synonym review_handler = "(review_db, review_err, response) tx"

fun review_err_text :: "review_err \<Rightarrow> string" where
  "review_err_text ErrReviewNotFound = ''review not found''"
| "review_err_text ErrReplyNotFound = ''reply not found''"
| "review_err_text ErrAlreadyReviewed = ''you have already reviewed this product''"
| "review_err_text ErrAlreadyReplied = ''this review already has a reply''"
| "review_err_text ErrReviewPurchaseRequired = ''you can only review products you have purchased''"
| "review_err_text ErrNotReviewOwner = ''you can only modify your own review''"
| "review_err_text ErrNotSellerOfProduct = ''you can only reply to reviews on your products''"
| "review_err_text ErrInvalidRating = ''rating must be between 1 and 5''"
| "review_err_text ErrReviewProductNotFound = ''product not found''"
| "review_err_text (ErrReviewClient m) = m"

definition review_map_error :: "review_err error \<Rightarrow> review_err error" where
  "review_map_error e =
     (case as_app_error e of Some a \<Rightarrow> a | None \<Rightarrow>
      (case e of
         Sentinel d \<Rightarrow>
           if d \<in> {ErrReviewNotFound, ErrReplyNotFound, ErrReviewProductNotFound} then not_found (review_err_text d)
           else if d = ErrAlreadyReviewed then with_code (conflict (review_err_text d)) ''ALREADY_REVIEWED''
           else if d = ErrAlreadyReplied then with_code (conflict (review_err_text d)) ''ALREADY_REPLIED''
           else if d = ErrReviewPurchaseRequired then with_code (forbidden (review_err_text d)) ''PURCHASE_REQUIRED''
           else if d \<in> {ErrNotReviewOwner, ErrNotSellerOfProduct} then forbidden (review_err_text d)
           else if d = ErrInvalidRating then bad_request (review_err_text d)
           else internal ''internal error'' (Some e)
       | _ \<Rightarrow> internal ''internal error'' (Some e)))"

definition reply_json :: "review_reply \<Rightarrow> json" where
  "reply_json p = JObj [(''id'', JStr (rpl_id p)), (''review_id'', JStr (rpl_review p)), (''seller_auth0_id'', JStr (rpl_author p)),
     (''body'', JStr (rpl_body p)), (''created_at'', JInt (rpl_created p)), (''updated_at'', JInt (rpl_updated p))]"

definition review_json :: "review \<times> review_reply option \<Rightarrow> json" where
  "review_json r = (case r of (x, p) \<Rightarrow> JObj (
     [(''id'', JStr (rvw_id x)), (''buyer_auth0_id'', JStr (rvw_buyer x)), (''product_id'', JStr (rvw_product x)),
      (''seller_id'', JStr (rvw_seller x)), (''product_name'', JStr (rvw_name x)), (''rating'', JInt (rvw_rating x)),
      (''title'', JStr (rvw_title x)), (''body'', JStr (rvw_body x)), (''created_at'', JInt (rvw_created x)),
      (''updated_at'', JInt (rvw_updated x))] @ omit_none ''reply'' reply_json p))"

definition rating_json :: "product_rating \<Rightarrow> json" where
  "rating_json r = JObj [(''product_id'', JStr (prt_product r)), (''average_rating'', JInt (prt_average r)),
     (''review_count'', JInt (prt_count r)), (''updated_at'', JInt (prt_updated r))]"

definition review_list_answer :: "int \<times> int \<Rightarrow> (review \<times> review_reply option) list \<times> nat \<Rightarrow> response" where
  "review_list_answer p r = page_answer review_json p r"

abbreviation unauthenticated :: "review_err error" where
  "unauthenticated \<equiv> unauthorized ''authentication required''"

definition http_create_review ::
  "bool \<Rightarrow> review_peers \<Rightarrow> caller_ctx option \<Rightarrow> (string + create_review_input) option \<Rightarrow> review_handler" where
  "http_create_review pub peers ctx body = signed_in unauthenticated ctx (\<lambda>c. decoded body (\<lambda>r.
     respond review_map_error (create_review pub peers (idn_user c) r) (\<lambda>x. Response 201 (Some (review_json (x, None))))))"

definition http_update_review ::
  "(string \<Rightarrow> uuid option) \<Rightarrow> bool \<Rightarrow> caller_ctx option \<Rightarrow> string \<Rightarrow> (string + update_review_input) option \<Rightarrow> review_handler" where
  "http_update_review parse pub ctx raw body = signed_in unauthenticated ctx (\<lambda>c. path_id parse raw ''invalid review id'' (\<lambda>i. decoded body (\<lambda>r.
     respond review_map_error (update_review pub i (idn_user c) r) (\<lambda>x. Response 200 (Some (review_json x))))))"

definition http_delete_review ::
  "(string \<Rightarrow> uuid option) \<Rightarrow> bool \<Rightarrow> caller_ctx option \<Rightarrow> string \<Rightarrow> review_handler" where
  "http_delete_review parse pub ctx raw = signed_in unauthenticated ctx (\<lambda>c. path_id parse raw ''invalid review id'' (\<lambda>i.
     respond review_map_error (delete_review pub i (idn_user c)) (\<lambda>_. Response 204 None)))"

definition http_get_review :: "(string \<Rightarrow> uuid option) \<Rightarrow> string \<Rightarrow> review_handler" where
  "http_get_review parse raw = path_id parse raw ''invalid review id'' (\<lambda>i.
     respond review_map_error (get_review i) (\<lambda>x. Response 200 (Some (review_json x))))"

definition http_list_by_product ::
  "(string \<Rightarrow> uuid option) \<Rightarrow> int option \<Rightarrow> int option \<Rightarrow> string \<Rightarrow> review_handler" where
  "http_list_by_product parse lim off raw = path_id parse raw ''invalid product id'' (\<lambda>p.
     let page = parse_pagination lim off in
     respond review_map_error (list_by_product p (fst page) (snd page)) (review_list_answer page))"

definition http_product_rating :: "(string \<Rightarrow> uuid option) \<Rightarrow> string \<Rightarrow> review_handler" where
  "http_product_rating parse raw = path_id parse raw ''invalid product id'' (\<lambda>p.
     respond review_map_error (get_product_rating p) (\<lambda>r. Response 200 (Some (rating_json r))))"

definition http_seller_reviews :: "caller_ctx option \<Rightarrow> int option \<Rightarrow> int option \<Rightarrow> review_handler" where
  "http_seller_reviews ctx lim off = signed_in_seller unauthenticated ctx (\<lambda>c s.
     let page = parse_pagination lim off in
     respond review_map_error (list_for_seller s (fst page) (snd page)) (review_list_answer page))"

definition http_seller_review :: "(string \<Rightarrow> uuid option) \<Rightarrow> caller_ctx option \<Rightarrow> string \<Rightarrow> review_handler" where
  "http_seller_review parse ctx raw = signed_in_seller unauthenticated ctx (\<lambda>c s. path_id parse raw ''invalid review id'' (\<lambda>i.
     respond review_map_error (get_review i) (\<lambda>x.
       if rvw_seller (fst x) \<noteq> s then
         http_error (forbidden ''review does not belong to your seller account'' :: review_err error)
       else Response 200 (Some (review_json x)))))"

definition http_create_reply ::
  "(string \<Rightarrow> uuid option) \<Rightarrow> bool \<Rightarrow> caller_ctx option \<Rightarrow> string \<Rightarrow> (string + string) option \<Rightarrow> review_handler" where
  "http_create_reply parse pub ctx raw body = signed_in_seller unauthenticated ctx (\<lambda>c s. path_id parse raw ''invalid review id'' (\<lambda>i.
     decoded body (\<lambda>b. respond review_map_error (create_reply pub i (idn_user c) s b)
       (\<lambda>p. Response 201 (Some (reply_json p))))))"

definition http_update_reply ::
  "(string \<Rightarrow> uuid option) \<Rightarrow> caller_ctx option \<Rightarrow> string \<Rightarrow> (string + string) option \<Rightarrow> review_handler" where
  "http_update_reply parse ctx raw body = signed_in_seller unauthenticated ctx (\<lambda>c s. path_id parse raw ''invalid review id'' (\<lambda>i.
     decoded body (\<lambda>b. respond review_map_error (update_reply i (idn_user c) s b)
       (\<lambda>p. Response 200 (Some (reply_json p))))))"

definition http_delete_reply :: "(string \<Rightarrow> uuid option) \<Rightarrow> caller_ctx option \<Rightarrow> string \<Rightarrow> review_handler" where
  "http_delete_reply parse ctx raw = signed_in_seller unauthenticated ctx (\<lambda>c s. path_id parse raw ''invalid review id'' (\<lambda>i.
     respond review_map_error (delete_reply i s) (\<lambda>_. Response 204 None)))"

end
