(* ===== verification/Review_Invariant.thy ===== *)
theory Review_Invariant
  imports Review_Service Effect_Rules Contracts
begin

text \<open>
  Review service: the aggregate rating of a product against its reviews, what each transaction does
  to both, the steps of the service, and the invariant of the reachable states.
\<close>

subsection \<open>Aggregates\<close>

text \<open>What is stored for a product, and what its reviews come to.\<close>

definition stored_rating :: "uuid \<Rightarrow> review_db \<Rightarrow> int \<times> int" where
  "stored_rating p s =
     (case find (\<lambda>x. prt_product x = p) (ratings s) of None \<Rightarrow> (0, 0) | Some x \<Rightarrow> (prt_sum x, prt_count x))"

abbreviation total :: "(review \<Rightarrow> int) \<Rightarrow> uuid \<Rightarrow> review list \<Rightarrow> int" where
  "total f p xs \<equiv> sum_by (\<lambda>x. rvw_product x = p) f xs"

abbreviation rating_total :: "uuid \<Rightarrow> review_db \<Rightarrow> int" where
  "rating_total p s \<equiv> total rvw_rating p (reviews s)"

abbreviation review_total :: "uuid \<Rightarrow> review_db \<Rightarrow> int" where
  "review_total p s \<equiv> total (\<lambda>_. 1) p (reviews s)"

definition review_keys_ok :: "review_db \<Rightarrow> bool" where
  "review_keys_ok s \<longleftrightarrow> distinct (map rvw_id (reviews s))
     \<and> distinct (map (\<lambda>x. (rvw_buyer x, rvw_product x)) (reviews s))
     \<and> (\<forall>x \<in> set (reviews s). 1 \<le> rvw_rating x \<and> rvw_rating x \<le> 5)
     \<and> distinct (map rpl_review (replies s)) \<and> rpl_review ` set (replies s) \<subseteq> rvw_id ` set (reviews s)"

definition averages_ok :: "review_db \<Rightarrow> bool" where
  "averages_ok s \<longleftrightarrow> (\<forall>r \<in> set (ratings s). prt_average r = hundredths (prt_sum r) (prt_count r))"

text \<open>\<open>exact\<close>: no request acts on a row that it read before another request changed it.\<close>

definition review_inv :: "bool \<Rightarrow> review_db \<Rightarrow> bool" where
  "review_inv exact s \<longleftrightarrow> review_keys_ok s \<and> averages_ok s
     \<and> (\<forall>p. snd (stored_rating p s) = review_total p s)
     \<and> (exact \<longrightarrow> (\<forall>p. fst (stored_rating p s) = rating_total p s))"

lemma upsert_rating_result:
  assumes "upsert_rating_stmt p a c t s = Inr (u, s')"
  shows "reviews s' = reviews s \<and> replies s' = replies s \<and> (averages_ok s \<longrightarrow> averages_ok s')
    \<and> stored_rating q s' = (if q = p then (fst (stored_rating p s) + a, snd (stored_rating p s) + c) else stored_rating q s)"
proof -
  define r where "r = (let (tot, n) = (case find (\<lambda>x. prt_product x = p) (ratings s) of
           None \<Rightarrow> (a, c) | Some x \<Rightarrow> (prt_sum x + a, prt_count x + c))
      in \<lparr>prt_product = p, prt_average = hundredths tot n, prt_count = n, prt_sum = tot, prt_updated = t\<rparr>)"
  have r: "prt_product r = p" "prt_average r = hundredths (prt_sum r) (prt_count r)"
    "(prt_sum r, prt_count r) = (fst (stored_rating p s) + a, snd (stored_rating p s) + c)"
    by (auto simp: r_def stored_rating_def split: option.splits)
  have s': "s' = s\<lparr>ratings := (case find (\<lambda>x. prt_product x = p) (ratings s) of
      None \<Rightarrow> ratings s @ [r] | Some _ \<Rightarrow> update_where (\<lambda>x. prt_product x = p) (\<lambda>_. r) (ratings s))\<rparr>"
  proof -
    have "upsert_rating_stmt p a c t s = store_rating r s"
      by (simp add: upsert_rating_stmt_def r_def Let_def split: prod.splits)
    with assms r(1) show ?thesis by (auto simp: store_rating_def split: if_splits)
  qed
  have "find (\<lambda>x. prt_product x = q) (update_where (\<lambda>x. prt_product x = p) (\<lambda>_. r) rs) =
      (if q = p then map_option (\<lambda>_. r) (find (\<lambda>x. prt_product x = p) rs) else find (\<lambda>x. prt_product x = q) rs)" for rs
    using r(1) by (induction rs) auto
  then show ?thesis
    using r unfolding s' averages_ok_def
    by (auto simp: stored_rating_def find_append update_where_def split: option.splits)
qed

lemma sum_by_filter: "sum_by P f (filter r xs) = sum_by (\<lambda>x. r x \<and> P x) f xs"
  by (induction xs) auto

text \<open>Removing or changing the row with a given id changes a total by that row.\<close>

lemma total_delete:
  assumes "distinct (map rvw_id xs)" and "y \<in> set xs"
  shows "total f p (filter (\<lambda>x. rvw_id x \<noteq> rvw_id y) xs) = total f p xs - (if rvw_product y = p then f y else 0)"
  using sum_by_single_key [OF assms, of "\<lambda>x. rvw_product x = p" f]
    sum_by_split [of "\<lambda>x. rvw_product x = p" f xs "\<lambda>x. rvw_id x = rvw_id y"]
  by (simp add: sum_by_filter)

lemma total_update:
  assumes "distinct (map rvw_id xs)" and "y \<in> set xs" and "\<And>x. rvw_product (g x) = rvw_product x"
  shows "total f p (update_where (\<lambda>x. rvw_id x = rvw_id y) g xs) =
    total f p xs + (if rvw_product y = p then f (g y) - f y else 0)"
  using sum_by_single_key [OF assms(1,2), of "\<lambda>x. rvw_product x = p" f]
    sum_by_single_key [OF assms(1,2), of "\<lambda>x. rvw_product x = p" "\<lambda>x. f (g x)"]
    sum_by_split [of "\<lambda>x. rvw_product x = p" f xs "\<lambda>x. rvw_id x = rvw_id y"]
  by (simp add: sum_by_update_where assms(3))


subsection \<open>Transactions\<close>

lemma insert_review_result:
  "insert_review_stmt x t s = Inr (y, s') \<Longrightarrow>
     s' = s\<lparr>reviews := reviews s @ [y]\<rparr> \<and> y = x\<lparr>rvw_created := t, rvw_updated := t\<rparr>
     \<and> 1 \<le> rvw_rating x \<and> rvw_rating x \<le> 5 \<and> rvw_id x \<notin> set (map rvw_id (reviews s))
     \<and> (rvw_buyer x, rvw_product x) \<notin> set (map (\<lambda>r. (rvw_buyer r, rvw_product r)) (reviews s))"
  by (auto simp: insert_review_stmt_def Let_def split: if_splits)

lemma insert_review_inv:
  assumes "review_inv ex s" and "insert_review_stmt x t s = Inr (y, s1)"
    and "upsert_rating_stmt (rvw_product x) (rvw_rating x) 1 t' s1 = Inr (u, s2)"
  shows "review_inv ex s2"
proof -
  note i = insert_review_result [OF assms(2)]
  have up: "reviews s2 = reviews s @ [y]" "replies s2 = replies s" "averages_ok s2"
    "\<And>q. stored_rating q s2 = (if q = rvw_product x then (fst (stored_rating q s) + rvw_rating x, snd (stored_rating q s) + 1)
       else stored_rating q s)"
    using upsert_rating_result [OF assms(3)] i assms(1)
    by (auto simp: review_inv_def averages_ok_def stored_rating_def)
  moreover have "review_keys_ok s2"
    using assms(1) i up(1,2) by (auto simp: review_inv_def review_keys_ok_def)
  ultimately show ?thesis
    using assms(1) i by (auto simp: review_inv_def)
qed

lemma update_review_result:
  assumes "update_review_stmt x t s = Inr (n, s1)" and "n \<noteq> 0"
  shows "(\<exists>y \<in> set (reviews s). rvw_id y = rvw_id x) \<and> 1 \<le> rvw_rating x \<and> rvw_rating x \<le> 5
    \<and> s1 = s\<lparr>reviews := update_where (\<lambda>y. rvw_id y = rvw_id x)
        (\<lambda>y. y\<lparr>rvw_rating := rvw_rating x, rvw_title := rvw_title x, rvw_body := rvw_body x, rvw_updated := t\<rparr>) (reviews s)\<rparr>"
  using assms by (auto simp: update_review_stmt_def Let_def filter_empty_conv split: if_splits)

lemma review_keys_update:
  assumes "review_keys_ok s" and "1 \<le> rvw_rating x" "rvw_rating x \<le> 5"
  shows "review_keys_ok (s\<lparr>reviews := update_where q
        (\<lambda>y. y\<lparr>rvw_rating := rvw_rating x, rvw_title := rvw_title x, rvw_body := rvw_body x, rvw_updated := t\<rparr>) (reviews s)\<rparr>)"
proof -
  let ?g = "\<lambda>y. y\<lparr>rvw_rating := rvw_rating x, rvw_title := rvw_title x, rvw_body := rvw_body x, rvw_updated := t\<rparr>"
  have k: "map rvw_id (update_where q ?g (reviews s)) = map rvw_id (reviews s)"
    "map (\<lambda>x. (rvw_buyer x, rvw_product x)) (update_where q ?g (reviews s)) = map (\<lambda>x. (rvw_buyer x, rvw_product x)) (reviews s)"
    by (rule update_where_keys, simp)+
  then have "rvw_id ` set (update_where q ?g (reviews s)) = rvw_id ` set (reviews s)" by (metis set_map)
  moreover have "\<forall>z \<in> set (update_where q ?g (reviews s)). 1 \<le> rvw_rating z \<and> rvw_rating z \<le> 5"
    using assms by (auto simp: review_keys_ok_def update_where_def)
  ultimately show ?thesis using assms(1) by (simp add: review_keys_ok_def k)
qed

text \<open>
  \<open>current ex x s\<close>: a row that was read is still of its product when the id is still in use, and if
  requests do not interleave it is there unchanged.
\<close>

definition current :: "bool \<Rightarrow> review \<Rightarrow> review_db \<Rightarrow> bool" where
  "current ex x s \<longleftrightarrow> (\<forall>y \<in> set (reviews s). rvw_id y = rvw_id x \<longrightarrow> rvw_product y = rvw_product x \<and> (ex \<longrightarrow> y = x))"

lemma update_review_inv:
  assumes inv: "review_inv ex s" and "current ex x s" and new: "rvw_id x' = rvw_id x" "rvw_product x' = rvw_product x"
    and "update_review_stmt x' t s = Inr (n, s1)" "n \<noteq> 0"
    and "rvw_rating x' = rvw_rating x \<and> s2 = s1
      \<or> upsert_rating_stmt (rvw_product x') (rvw_rating x' - rvw_rating x) 0 t' s1 = Inr (u, s2)"
  shows "review_inv ex s2"
proof -
  from update_review_result [OF assms(5,6)] new obtain y where y: "y \<in> set (reviews s)" "rvw_id y = rvw_id x"
    and r: "1 \<le> rvw_rating x'" "rvw_rating x' \<le> 5"
    and s1: "s1 = s\<lparr>reviews := update_where (\<lambda>z. rvw_id z = rvw_id y)
        (\<lambda>z. z\<lparr>rvw_rating := rvw_rating x', rvw_title := rvw_title x', rvw_body := rvw_body x', rvw_updated := t\<rparr>) (reviews s)\<rparr>"
    by auto
  have p: "rvw_product y = rvw_product x" and yx: "ex \<longrightarrow> y = x" using assms(2) y by (auto simp: current_def)
  have keys: "review_keys_ok s1" unfolding s1 using inv r by (auto simp: review_inv_def intro: review_keys_update)
  have d: "distinct (map rvw_id (reviews s))" using inv by (simp add: review_inv_def review_keys_ok_def)
  have tot: "total f q (reviews s1) = total f q (reviews s) + (if rvw_product y = q then
      f (y\<lparr>rvw_rating := rvw_rating x', rvw_title := rvw_title x', rvw_body := rvw_body x', rvw_updated := t\<rparr>) - f y else 0)" for f q
    using total_update [OF d y(1), where g = "\<lambda>z. z\<lparr>rvw_rating := rvw_rating x', rvw_title := rvw_title x', rvw_body := rvw_body x', rvw_updated := t\<rparr>"]
    by (simp add: s1)
  have stored: "fst (stored_rating q s2) = fst (stored_rating q s) + (if q = rvw_product x then rvw_rating x' - rvw_rating x else 0)"
    "snd (stored_rating q s2) = snd (stored_rating q s)" "averages_ok s2" "reviews s2 = reviews s1" "replies s2 = replies s1" for q
    using assms(7) upsert_rating_result [of "rvw_product x'" "rvw_rating x' - rvw_rating x" 0 t' s1 u s2 q] inv new
    by (auto simp: s1 stored_rating_def review_inv_def averages_ok_def)
  have "review_keys_ok s2" using keys stored(4,5) by (simp add: review_keys_ok_def)
  then show ?thesis
    using inv p yx by (auto simp: review_inv_def stored tot)
qed

lemma delete_review_inv:
  assumes inv: "review_inv ex s" and "current ex x s" and y: "y \<in> set (reviews s)" "rvw_id y = rvw_id x"
    and "upsert_rating_stmt (rvw_product x) (- rvw_rating x) (- 1) t'
      (s\<lparr>reviews := filter (\<lambda>z. rvw_id z \<noteq> rvw_id x) (reviews s), replies := filter (\<lambda>p. rpl_review p \<noteq> rvw_id x) (replies s)\<rparr>) = Inr (u, s2)"
  shows "review_inv ex s2"
proof -
  have p: "rvw_product y = rvw_product x" and yx: "ex \<longrightarrow> y = x" using assms(2) y by (auto simp: current_def)
  have up: "reviews s2 = filter (\<lambda>z. rvw_id z \<noteq> rvw_id y) (reviews s)"
    "replies s2 = filter (\<lambda>p. rpl_review p \<noteq> rvw_id y) (replies s)" "averages_ok s2"
    "stored_rating q s2 = (if q = rvw_product x then (fst (stored_rating q s) - rvw_rating x, snd (stored_rating q s) - 1)
       else stored_rating q s)" for q
    using upsert_rating_result [OF assms(5)] inv y(2)
    by (auto simp: review_inv_def averages_ok_def stored_rating_def)
  have keys: "review_keys_ok s2"
    using inv unfolding review_inv_def review_keys_ok_def up(1,2)
    by (auto simp: distinct_map intro: inj_on_subset)
  have d: "distinct (map rvw_id (reviews s))" using inv by (simp add: review_inv_def review_keys_ok_def)
  have tot: "total f q (reviews s2) = total f q (reviews s) - (if rvw_product x = q then f y else 0)" for f q
    by (simp add: up(1) total_delete [OF d y(1)] p)
  have "ex \<longrightarrow> rvw_rating y = rvw_rating x" using yx by simp
  with inv keys up(3,4) show ?thesis by (auto simp: review_inv_def tot)
qed


subsection \<open>Steps\<close>

text \<open>
  One use case, one part of a use case after its read, or a moment in which nothing happens to the
  tables. \<open>True\<close> is the service with requests one after the other; in the other case a request may
  act on a row that it read at any time before. \<open>uuid.New\<close> does not repeat the id of a row that was
  read.
\<close>

type_synonym review_state = "review_db world \<times> review set"

inductive review_step :: "bool \<Rightarrow> review_state \<Rightarrow> review_state \<Rightarrow> bool" for ex :: bool where
  create: "create_review pub peers buyer c w = (r, w') \<Longrightarrow>
     (\<And>x y. x \<in> R \<Longrightarrow> y \<in> set (reviews (store w')) \<Longrightarrow> rvw_id y = rvw_id x \<Longrightarrow> y \<in> set (reviews (store w))) \<Longrightarrow>
     review_step ex (w, R) (w', R)"
| update: "review_step ex (w, R) (snd (update_review pub i buyer u w), R)"
| delete: "review_step ex (w, R) (snd (delete_review pub i buyer w), R)"
| create_reply: "review_step ex (w, R) (snd (create_reply pub i author seller body w), R)"
| update_reply: "review_step ex (w, R) (snd (update_reply i author seller body w), R)"
| delete_reply: "review_step ex (w, R) (snd (delete_reply i seller w), R)"
| read: "\<not> ex \<Longrightarrow> load_review i w = (Inr (x, p), w') \<Longrightarrow> review_step ex (w, R) (w', insert x R)"
| update_later: "x \<in> R \<Longrightarrow> review_step ex (w, R) (snd (update_read pub buyer u x w), R)"
| delete_later: "x \<in> R \<Longrightarrow> review_step ex (w, R) (snd (delete_read pub buyer x w), R)"
| idle: "store w' = store w \<Longrightarrow> review_step ex (w, R) (w', R)"

text \<open>The tables, and the rows that were read, as long as requests go on with them.\<close>

definition review_good :: "bool \<Rightarrow> review set \<Rightarrow> review_db \<Rightarrow> bool" where
  "review_good ex R s \<longleftrightarrow> review_inv ex s \<and> (ex \<longrightarrow> R = {}) \<and> (\<forall>x \<in> R. current False x s)"

abbreviation goes_well :: "(review_db \<Rightarrow> bool) \<Rightarrow> bool \<Rightarrow> review set \<Rightarrow> 'a rtx \<Rightarrow> bool" where
  "goes_well P ex R m \<equiv> does (\<lambda>s. review_good ex R s \<and> P s) (\<lambda>_ s'. review_good ex R s') m"

subsection \<open>Every use case keeps the invariant\<close>

lemma wp_on_unique [wp_intros]: "wp m Q w \<Longrightarrow> wp (on_unique c d m) Q w"
  unfolding on_unique_def by (rule wp_map_errorI)

lemma reads_load_review: "reads (load_review i)"
  unfolding load_review_def review_by_id_def
  by (intro reads_intros reads_run_tx keeps_query)

lemma wp_load_review:
  "wp (load_review i) (\<lambda>r _. fst r \<in> set (reviews (store w))) w"
proof -
  have "fst r \<in> set (reviews s)" if "find (\<lambda>x. rvw_id x = i) (reviews s) = Some x" "r = with_reply s x" for r s x
    using that by (auto simp: with_reply_def dest: find_Some_mem)
  then show ?thesis
    unfolding load_review_def review_by_id_def or_internal_def
    by (intro wp_intros) (auto intro!: wp_intros simp: option.case_eq_if dest: find_Some_mem simp: with_reply_def)
qed

lemma member_current: "review_inv ex s \<Longrightarrow> x \<in> set (reviews s) \<Longrightarrow> current ex x s"
  by (auto simp: current_def review_inv_def review_keys_ok_def distinct_map dest: inj_onD)

lemma record_review_inv: "does (review_inv ex) (\<lambda>_ s'. review_inv ex s') (record_review x)"
  unfolding record_review_def review_create_def upsert_product_rating_def
  by (rule does_run_tx, intro wp_intros) (use insert_review_inv [of ex _ "x\<lparr>rvw_id := i\<rparr>" for i] in auto)

lemma create_review_inv: "does (review_inv ex) (\<lambda>_ s'. review_inv ex s') (create_review pub peers buyer c)"
  unfolding create_review_def
  by (intro does_intros does_bind_then record_review_inv reads_intros) (auto split: option.splits bool.splits intro!: does_intros does_bind_then record_review_inv reads_intros)

text \<open>Rows that stay, or change in neither id nor product.\<close>

lemma current_kept:
  assumes "\<And>y. y \<in> set (reviews s') \<Longrightarrow> \<exists>z \<in> set (reviews s). rvw_id z = rvw_id y \<and> rvw_product z = rvw_product y"
    and "review_good ex R s" and "review_inv ex s'"
  shows "review_good ex R s'"
  using assms unfolding review_good_def current_def by metis

lemma update_review_good:
  assumes "update_review_stmt x' t s = Inr (n, s1)" "0 < n" "review_good ex R s" "current ex x s"
    and new: "rvw_id x' = rvw_id x" "rvw_product x' = rvw_product x"
    and "rvw_rating x' = rvw_rating x \<and> s2 = s1
      \<or> upsert_rating_stmt (rvw_product x') (rvw_rating x' - rvw_rating x) 0 t' s1 = Inr (u, s2)"
  shows "review_good ex R s2"
proof (rule current_kept [OF _ assms(3)])
  show "review_inv ex s2"
    by (rule update_review_inv [OF _ assms(4) new assms(1) _ assms(7)]) (use assms(2,3) in \<open>auto simp: review_good_def\<close>)
  have "reviews s2 = reviews s1" using assms(7) upsert_rating_result by blast
  then show "y \<in> set (reviews s2) \<Longrightarrow> \<exists>z \<in> set (reviews s). rvw_id z = rvw_id y \<and> rvw_product z = rvw_product y" for y
    using update_review_result [OF assms(1)] assms(2) by (auto simp: update_where_def split: if_splits)
qed

lemma update_tx_well:
  assumes "rvw_id x' = rvw_id x" "rvw_product x' = rvw_product x"
  shows "goes_well (current ex x) ex R (update_tx x' (rvw_rating x' - rvw_rating x))"
  unfolding update_tx_def review_update_def upsert_product_rating_def
proof (rule does_run_tx, intro wp_intros, goal_cases)
  case (1 w n s1 w1 u s2)
  then show ?case by (auto elim!: update_review_good [OF _ _ _ _ assms disjI2])
next
  case (2 w n s1 w1)
  then show ?case by (auto elim!: update_review_good [OF _ _ _ _ assms disjI1])
qed

lemma apply_review_update_keeps:
  "apply_review_update u x = Inr y \<Longrightarrow> rvw_id y = rvw_id x \<and> rvw_product y = rvw_product x"
  by (auto simp: apply_review_update_def apply_rating_def apply_text_def split: option.splits sum.splits if_splits)

lemma update_read_well: "goes_well (current ex x) ex R (update_read pub buyer u x)"
  unfolding update_read_def
  by (intro does_intros does_bind_then update_tx_well reads_intros) (auto dest: apply_review_update_keeps)

lemma delete_tx_well: "goes_well (current ex x) ex R (delete_tx x)"
  unfolding delete_tx_def review_delete_def upsert_product_rating_def
proof (rule does_run_tx, intro wp_intros, goal_cases)
  case (1 w n s1 w1 u s2 w2)
  then obtain y where y: "y \<in> set (reviews (store w))" "rvw_id y = rvw_id x"
    by (auto simp: filter_empty_conv)
  from 1 have s1: "store w1 = (store w)\<lparr>reviews := filter (\<lambda>z. rvw_id z \<noteq> rvw_id x) (reviews (store w)),
      replies := filter (\<lambda>p. rpl_review p \<noteq> rvw_id x) (replies (store w))\<rparr>" by auto
  have up: "upsert_rating_stmt (rvw_product x) (- rvw_rating x) (- 1) (clock w1) (store w1) = Inr (u, store w2)"
    using 1 by simp
  have "review_inv ex (store w2)"
    using delete_review_inv [OF _ _ y up [unfolded s1]] 1 by (auto simp: review_good_def)
  moreover have "reviews (store w2) = reviews (store w1)" using upsert_rating_result [OF up] by blast
  moreover have "review_good ex R (store w)" using 1 by simp
  ultimately have "review_good ex R (store w2)" using s1 by (intro current_kept [of "store w2" "store w"]) auto
  with 1 show ?case by simp
qed

lemma delete_read_well: "goes_well (current ex x) ex R (delete_read pub buyer x)"
  unfolding delete_read_def
  by (intro does_intros does_bind_then delete_tx_well reads_intros)

lemma loaded_well:
  assumes "\<And>x p. goes_well (current ex x) ex R (f (x, p))"
  shows "does (review_good ex R) (\<lambda>_ s'. review_good ex R s') (tx_bind (load_review i) f)"
proof (rule does_bind_read [OF reads_load_review, where Q = "\<lambda>r s. current ex (fst r) s"])
  show "wp (load_review i) (\<lambda>r _. current ex (fst r) (store w)) w" if "review_good ex R (store w)" for w
    using that by (intro wp_mono [OF wp_load_review]) (auto simp: review_good_def intro: member_current)
  show "goes_well (\<lambda>s. current ex (fst r) s) ex R (f r)" for r
    using assms [of "fst r" "snd r"] by simp
qed

lemma update_review_well: "does (review_good ex R) (\<lambda>_ s'. review_good ex R s') (update_review pub i buyer u)"
  unfolding update_review_def
  by (rule loaded_well) (auto intro!: does_bind_then update_read_well reads_intros)

lemma delete_review_well: "does (review_good ex R) (\<lambda>_ s'. review_good ex R s') (delete_review pub i buyer)"
  unfolding delete_review_def by (rule loaded_well) (auto intro!: delete_read_well)

text \<open>The use cases of sellers leave the reviews and the ratings alone.\<close>

lemma replies_well:
  assumes "review_good ex R s" and "distinct (map rpl_review ps)" and "rpl_review ` set ps \<subseteq> rvw_id ` set (reviews s)"
  shows "review_good ex R (s\<lparr>replies := ps\<rparr>)"
  using assms by (auto simp: review_good_def review_inv_def review_keys_ok_def averages_ok_def stored_rating_def current_def)

lemma reply_keys: "review_good ex R s \<Longrightarrow> distinct (map rpl_review (replies s)) \<and> rpl_review ` set (replies s) \<subseteq> rvw_id ` set (reviews s)
    \<and> (\<forall>p \<in> set (replies s). rpl_review p \<in> rvw_id ` set (reviews s))"
  by (auto simp: review_good_def review_inv_def review_keys_ok_def)

lemma replies_well':
  "s\<lparr>replies := ps\<rparr> = s' \<Longrightarrow> review_good ex R s \<Longrightarrow> distinct (map rpl_review ps) \<Longrightarrow>
   rpl_review ` set ps \<subseteq> rvw_id ` set (reviews s) \<Longrightarrow> review_good ex R s'"
  using replies_well by blast

lemma reply_create_well: "does (review_good ex R) (\<lambda>_ s'. review_good ex R s') (reply_create x)"
  unfolding reply_create_def
proof (rule does_run_tx, intro wp_intros, goal_cases)
  case (1 w i w1 y s' w2)
  with reply_keys [of ex R "store w"] show ?case
    by (auto simp: insert_reply_stmt_def Let_def split: if_splits elim!: replies_well' dest: subsetD)
qed

lemma reply_update_well: "does (review_good ex R) (\<lambda>_ s'. review_good ex R s') (reply_update i b)"
proof -
  have keys: "map rpl_review (update_where q (\<lambda>p. p\<lparr>rpl_body := b, rpl_updated := t\<rparr>) ps) = map rpl_review ps" for q t ps
    by (rule update_where_keys) simp
  have mem: "rpl_review ` set ps \<subseteq> X \<Longrightarrow> p \<in> set (update_where q (\<lambda>p. p\<lparr>rpl_body := b, rpl_updated := t\<rparr>) ps) \<Longrightarrow> rpl_review p \<in> X" for q t ps p X
    by (auto simp: update_where_def)
  show ?thesis
    unfolding reply_update_def
  proof (rule does_run_tx, intro wp_intros, goal_cases)
    case (1 w r s' w1 p)
    then show ?case using reply_keys [of ex R "store w"]
      by (auto simp: update_reply_stmt_def Let_def keys split: option.splits if_splits elim!: replies_well' dest: mem)
  qed
qed

lemma reply_delete_well: "does (review_good ex R) (\<lambda>_ s'. review_good ex R s') (reply_delete i)"
  unfolding reply_delete_def
proof (rule does_run_tx, intro wp_intros, goal_cases)
  case (1 w n s' w1)
  then show ?case using reply_keys [of ex R "store w"]
    by (auto elim!: replies_well' simp: distinct_map_filter)
qed

lemma reads_load_sellers_review: "reads (load_sellers_review i seller)"
  unfolding load_sellers_review_def by (intro reads_intros reads_load_review)

lemma for_seller_well:
  assumes "\<And>x. does (review_good ex R) (\<lambda>_ s'. review_good ex R s') (f x)"
  shows "does (review_good ex R) (\<lambda>_ s'. review_good ex R s') (tx_bind (load_sellers_review i seller) f)"
  by (rule does_bind_read [OF reads_load_sellers_review, where Q = "\<lambda>_ _. True"])
     (auto simp: wp_def split: prod.splits sum.splits intro: does_weaken [OF assms])

lemma seller_use_cases_well:
  "does (review_good ex R) (\<lambda>_ s'. review_good ex R s') (create_reply pub i author seller raw)"
  "does (review_good ex R) (\<lambda>_ s'. review_good ex R s') (update_reply i author seller raw)"
  "does (review_good ex R) (\<lambda>_ s'. review_good ex R s') (delete_reply i seller)"
  unfolding create_reply_def update_reply_def delete_reply_def
  by (intro does_intros for_seller_well does_bind_then reads_intros reply_create_well reply_update_well reply_delete_well)+

lemma does_stays:
  assumes "does P (\<lambda>_ s'. Q s') m" and "P (store w)" and "Q (store w)"
  shows "Q (store (snd (m w)))"
  using doesD [OF assms(1,2)] assms(3) by auto

lemma later_current: "review_good ex R s \<Longrightarrow> x \<in> R \<Longrightarrow> current ex x s"
  by (auto simp: review_good_def)

lemma review_step_good:
  assumes "review_step ex c c'" and "review_good ex (snd c) (store (fst c))"
  shows "review_good ex (snd c') (store (fst c'))"
  using assms
proof (induction rule: review_step.induct)
  case (create pub peers buyer c w r w' R)
  then have "review_inv ex (store w')"
    using does_stays [OF create_review_inv, of ex w pub peers buyer c] by (auto simp: review_good_def)
  with create show ?case unfolding review_good_def current_def fst_conv snd_conv by metis
next
  case (read i w x p w' R)
  have "store w' = store w" using reads_store [OF reads_load_review, of i w] read by simp
  moreover have "x \<in> set (reviews (store w))" using wpD [OF wp_load_review read(2)] by simp
  ultimately show ?case using read member_current [of False] by (auto simp: review_good_def review_inv_def)
next
  case (update_later x R w pub buyer u)
  then show ?case using does_stays [OF update_read_well, of ex R w x] later_current by simp
next
  case (delete_later x R w pub buyer)
  then show ?case using does_stays [OF delete_read_well, of ex R w x] later_current by simp
qed (simp_all add: does_stays [OF update_review_well] does_stays [OF delete_review_well]
       does_stays [OF seller_use_cases_well(1)] does_stays [OF seller_use_cases_well(2)]
       does_stays [OF seller_use_cases_well(3)])

end
