(* ===== verification/Review_Properties.thy ===== *)
theory Review_Properties
  imports Review_Invariant Samples
begin







subsection \<open>A sample run\<close>

definition sample_peers :: review_peers where
  "sample_peers = \<lparr>peer_catalog = (\<lambda>p. Inr (200, '''', Inr \<lparr>plk_product = p, plk_seller = ''s'', plk_name = ''tea'', plk_skus = [''k1'', ''k2'']\<rparr>)),
     peer_orders = (\<lambda>b s k. Inr (200, '''', Inr (k = ''k2'')))\<rparr>"

definition sample_review :: "int \<Rightarrow> create_review_input" where
  "sample_review n = \<lparr>cri_product = ''p'', cri_rating = n, cri_title = '' good '', cri_body = ''text''\<rparr>"

definition new_rating :: "int \<Rightarrow> update_review_input" where
  "new_rating n = \<lparr>uri_rating = Some n, uri_title = None, uri_body = None\<rparr>"

definition reviewed_world :: "review_db world" where
  "reviewed_world = snd (create_review True sample_peers ''b'' (sample_review 5) (sample_world empty_review_db))"





text \<open>
  When two updates of a review interleave, each adds the difference to the rating that it has read: the
  aggregate of a product with one review of two stars is then a sum of -2.
\<close>

definition read_review :: review where
  "read_review = hd (reviews (store reviewed_world))"

definition twice_updated_world :: "review_db world" where
  "twice_updated_world = snd (update_read True ''b'' (new_rating 2) read_review
     (snd (update_read True ''b'' (new_rating 1) read_review reviewed_world)))"

lemma late_update_drifts:
  "map rvw_rating (reviews (store twice_updated_world)) = [2]"
  "map (\<lambda>r. (prt_count r, prt_sum r, prt_average r)) (ratings (store twice_updated_world)) = [(1, -2, -200)]"
  by code_simp+

end
