(* ===== verification/Inquiry_Store.thy ===== *)
theory Inquiry_Store
  imports Request_Context
begin

text \<open>
  Inquiry service, data and repository: internal/domain, the tables of infra/db/migrations/inquiry and
  the methods of \<open>InquiryRepository\<close> (internal/adapter/postgres/inquiry_repo.go). Texts are ASCII and
  \<open>VARCHAR\<close> lengths are not modelled, as in the review service.
\<close>

subsection \<open>Domain types\<close>

datatype inquiry_status = InquiryOpen | InquiryClosed

fun inquiry_status_text :: "inquiry_status \<Rightarrow> string" where
  "inquiry_status_text InquiryOpen = ''open''"
| "inquiry_status_text InquiryClosed = ''closed''"

datatype sender_type = SenderBuyer | SenderSeller

fun sender_text :: "sender_type \<Rightarrow> string" where
  "sender_text SenderBuyer = ''buyer''"
| "sender_text SenderSeller = ''seller''"

fun other_sender :: "sender_type \<Rightarrow> sender_type" where
  "other_sender SenderBuyer = SenderSeller"
| "other_sender SenderSeller = SenderBuyer"

record inquiry =
  inq_id :: uuid
  inq_buyer :: string
  inq_seller :: uuid
  inq_sku :: uuid
  inq_product :: string
  inq_sku_code :: string
  inq_subject :: string
  inq_status :: inquiry_status
  inq_last :: instant
  inq_created :: instant
  inq_updated :: instant

record inquiry_message =
  msg_id :: uuid
  msg_inquiry :: uuid
  msg_sender :: sender_type
  msg_author :: string
  msg_body :: string
  msg_read :: "instant option"
  msg_created :: instant

type_synonym thread = "inquiry \<times> inquiry_message list"

datatype inquiry_err =
  ErrInquiryNotFound
| ErrInquiryClosed
| ErrNotParticipant
| ErrInquiryPurchaseRequired
| ErrInvalidSenderType
| ErrInvalidReaderType
| ErrInquiryRepo string
| ErrInquiryClient string

record inquiry_db =
  inquiries :: "inquiry list"
  messages :: "inquiry_message list"

type_synonym 'a qtx = "(inquiry_db, inquiry_err, 'a) tx"

definition empty_inquiry_db :: inquiry_db where
  "empty_inquiry_db = \<lparr>inquiries = [], messages = []\<rparr>"

subsection \<open>Statements\<close>

definition load_inquiry :: "(inquiry \<Rightarrow> bool) \<Rightarrow> inquiry option qtx" where
  "load_inquiry q = query (\<lambda>t s. find q (inquiries s))"

definition same_thread :: "inquiry \<Rightarrow> inquiry \<Rightarrow> bool" where
  "same_thread x y \<longleftrightarrow> inq_buyer y = inq_buyer x \<and> inq_seller y = inq_seller x \<and> inq_sku y = inq_sku x"

definition load_messages :: "uuid \<Rightarrow> inquiry_message list qtx" where
  "load_messages i = query (\<lambda>t s. sort_key msg_created (filter (\<lambda>m. msg_inquiry m = i) (messages s)))"

definition insert_inquiry_stmt :: "inquiry \<Rightarrow> instant \<Rightarrow> inquiry_db \<Rightarrow> pg_error + (inquiry \<times> inquiry_db)" where
  "insert_inquiry_stmt x t s =
     (let y = x\<lparr>inq_last := t, inq_created := t, inq_updated := t\<rparr> in
      if inq_id x \<in> set (map inq_id (inquiries s)) then Inl (UniqueViolation ''inquiries_pkey'')
      else if find (same_thread x) (inquiries s) \<noteq> None then Inl (UniqueViolation ''uq_inquiry_per_sku'')
      else Inr (y, s\<lparr>inquiries := inquiries s @ [y]\<rparr>))"

definition insert_message_stmt :: "inquiry_message \<Rightarrow> instant \<Rightarrow> inquiry_db \<Rightarrow> pg_error + (inquiry_message \<times> inquiry_db)" where
  "insert_message_stmt m t s =
     (let y = m\<lparr>msg_read := None, msg_created := t\<rparr> in
      if \<not> (1 \<le> length (msg_body m) \<and> length (msg_body m) \<le> 4000) then Inl (CheckViolation ''inquiry_messages_body_check'')
      else if msg_id m \<in> set (map msg_id (messages s)) then Inl (UniqueViolation ''inquiry_messages_pkey'')
      else if msg_inquiry m \<notin> set (map inq_id (inquiries s)) then
        Inl (ForeignKeyViolation ''inquiry_messages_inquiry_id_fkey'')
      else Inr (y, s\<lparr>messages := messages s @ [y]\<rparr>))"

definition update_inquiries :: "(inquiry \<Rightarrow> bool) \<Rightarrow> (instant \<Rightarrow> inquiry \<Rightarrow> inquiry) \<Rightarrow> nat qtx" where
  "update_inquiries q g = sql (\<lambda>t s. Inr (length (filter q (inquiries s)), s\<lparr>inquiries := update_where q (g t) (inquiries s)\<rparr>))"

text \<open>\<open>appendMessageTx\<close>.\<close>

definition append_message_tx :: "inquiry_message \<Rightarrow> inquiry_message qtx" where
  "append_message_tx m =
     tx_bind new_uuid (\<lambda>i.
     tx_bind (sql (insert_message_stmt (m\<lparr>msg_id := i\<rparr>))) (\<lambda>y.
     tx_bind (update_inquiries (\<lambda>x. inq_id x = msg_inquiry y) (\<lambda>t x. x\<lparr>inq_last := msg_created y, inq_updated := t\<rparr>)) (\<lambda>_.
     tx_return y)))"

subsection \<open>InquiryRepository\<close>

text \<open>
  The thread is found, or inserted; after a violation of the constraint on threads it is looked for
  again.
\<close>

definition find_or_insert :: "inquiry \<Rightarrow> inquiry qtx" where
  "find_or_insert x =
     tx_bind (load_inquiry (same_thread x)) (\<lambda>r.
     case r of
       Some y \<Rightarrow> tx_return y
     | None \<Rightarrow>
         tx_bind new_uuid (\<lambda>i.
         tx_catch (sql (insert_inquiry_stmt (x\<lparr>inq_id := i, inq_status := InquiryOpen\<rparr>))) (\<lambda>e.
           if e = Pg (UniqueViolation ''uq_inquiry_per_sku'') then
             tx_bind (load_inquiry (same_thread x)) (\<lambda>r.
             case r of
               None \<Rightarrow> tx_throw (Sentinel (ErrInquiryRepo ''inquiry unique violation but no row found''))
             | Some y \<Rightarrow> tx_return y)
           else tx_throw e)))"

definition inquiry_create :: "inquiry \<Rightarrow> inquiry_message \<Rightarrow> (thread \<times> inquiry_message) qtx" where
  "inquiry_create x m = run_tx (
     tx_bind (find_or_insert x) (\<lambda>y.
     tx_bind (append_message_tx (m\<lparr>msg_inquiry := inq_id y\<rparr>)) (\<lambda>m'.
     tx_bind (load_messages (inq_id y)) (\<lambda>ms.
     tx_return ((y\<lparr>inq_last := msg_created m'\<rparr>, ms), m')))))"

definition inquiry_by_id :: "uuid \<Rightarrow> thread option qtx" where
  "inquiry_by_id i = run_tx (
     tx_bind (load_inquiry (\<lambda>x. inq_id x = i)) (\<lambda>r.
     case r of
       None \<Rightarrow> tx_return None
     | Some x \<Rightarrow> tx_bind (load_messages (inq_id x)) (\<lambda>ms. tx_return (Some (x, ms)))))"

text \<open>\<open>listByRole\<close>: with each thread, how many messages of the other side are unread.\<close>

definition unread_count :: "sender_type \<Rightarrow> inquiry_db \<Rightarrow> inquiry \<Rightarrow> nat" where
  "unread_count other s x =
     length (filter (\<lambda>m. msg_inquiry m = inq_id x \<and> msg_sender m = other \<and> msg_read m = None) (messages s))"

definition inquiry_page ::
  "(inquiry \<Rightarrow> bool) \<Rightarrow> sender_type \<Rightarrow> int \<Rightarrow> int \<Rightarrow> ((inquiry \<times> nat) list \<times> nat) qtx" where
  "inquiry_page q viewer lim off = run_tx (
     tx_bind (query (\<lambda>t s. length (filter q (inquiries s)))) (\<lambda>n.
     tx_bind (query (\<lambda>t s. map (\<lambda>x. (x, unread_count (other_sender viewer) s x))
       (take (nat lim) (drop (nat off) (sort_key (\<lambda>x. - inq_last x) (filter q (inquiries s))))))) (\<lambda>rows.
     tx_return (rows, n))))"

definition inquiries_by_buyer :: "string \<Rightarrow> int \<Rightarrow> int \<Rightarrow> ((inquiry \<times> nat) list \<times> nat) qtx" where
  "inquiries_by_buyer buyer lim off = inquiry_page (\<lambda>x. inq_buyer x = buyer) SenderBuyer lim off"

text \<open>The filter is a text; the empty one stands for all states.\<close>

definition inquiries_by_seller :: "uuid \<Rightarrow> string \<Rightarrow> int \<Rightarrow> int \<Rightarrow> ((inquiry \<times> nat) list \<times> nat) qtx" where
  "inquiries_by_seller seller st lim off =
     inquiry_page (\<lambda>x. inq_seller x = seller \<and> (st = '''' \<or> inquiry_status_text (inq_status x) = st)) SenderSeller lim off"

definition append_message :: "inquiry_message \<Rightarrow> inquiry_message qtx" where
  "append_message m = run_tx (append_message_tx m)"

definition mark_read_rows :: "uuid \<Rightarrow> sender_type \<Rightarrow> unit qtx" where
  "mark_read_rows i reader = run_tx (sql (\<lambda>t s. Inr ((), s\<lparr>messages := update_where
     (\<lambda>m. msg_inquiry m = i \<and> msg_sender m = other_sender reader \<and> msg_read m = None)
     (\<lambda>m. m\<lparr>msg_read := Some t\<rparr>) (messages s)\<rparr>)))"

definition close_inquiry_row :: "uuid \<Rightarrow> unit qtx" where
  "close_inquiry_row i = run_tx (
     tx_bind (update_inquiries (\<lambda>x. inq_id x = i) (\<lambda>t x. x\<lparr>inq_status := InquiryClosed, inq_updated := t\<rparr>)) (\<lambda>n.
     if n = 0 then tx_throw (Sentinel (ErrInquiryRepo ''inquiry not found'')) else tx_return ()))"

end
