(* ===== verification/Inquiry_Service.thy ===== *)
theory Inquiry_Service
  imports Inquiry_Store
begin

text \<open>
  Inquiry service, use cases (internal/app/inquiry_service.go), the client of the order service
  (internal/adapter/httpclient) and the HTTP handlers (internal/adapter/http). \<open>pub\<close> says whether a
  publisher is configured. A time is its instant, also in a payload.
\<close>

subsection \<open>The client of the order service\<close>

record purchase_check =
  pck_purchased :: bool
  pck_order :: uuid
  pck_product :: string
  pck_sku_code :: string

text \<open>
  An error answer may be an error object (its text, empty if the field is missing); the last component
  is what decoding the body as one yields.
\<close>

type_synonym purchase_reply = "string + nat \<times> string \<times> (string + purchase_check) \<times> string option"

definition inquiry_check_purchase :: "purchase_reply \<Rightarrow> inquiry_err error + purchase_check" where
  "inquiry_check_purchase reply =
     (case reply of
        Inl e \<Rightarrow> Inl (internal ''order service unreachable'' (Some (Sentinel (ErrInquiryClient e))))
      | Inr (st, raw, body, err) \<Rightarrow>
          if st \<ge> 400 then
            (case err of
               Some m \<Rightarrow>
                 if m \<noteq> '''' then Inl (if st = 400 then bad_request m else internal m None)
                 else Inl (status_failed ''purchase check failed'' st raw)
             | None \<Rightarrow> Inl (status_failed ''purchase check failed'' st raw))
          else
            (case body of
               Inl e \<Rightarrow> Inl (internal ''decode purchase check response'' (Some (Sentinel (ErrInquiryClient e))))
             | Inr c \<Rightarrow> Inr c))"

subsection \<open>Use cases\<close>

record create_inquiry_input =
  cii_seller :: uuid
  cii_sku :: uuid
  cii_subject :: string
  cii_body :: string

record post_message_input =
  pmi_inquiry :: uuid
  pmi_sender :: string
  pmi_body :: string

definition sender_of :: "string \<Rightarrow> sender_type option" where
  "sender_of s = (if s = ''buyer'' then Some SenderBuyer else if s = ''seller'' then Some SenderSeller else None)"

definition message_event :: "inquiry \<Rightarrow> inquiry_message \<Rightarrow> event" where
  "message_event x m = \<lparr>topic = ''inquiry-events'', event_type = ''inquiry.message_created'',
     payload = [(''inquiry_id'', JStr (inq_id x)), (''seller_id'', JStr (inq_seller x))]
       @ omit_empty ''buyer_auth0_id'' (inq_buyer x) @ [(''sender_type'', JStr (sender_text (msg_sender m)))]
       @ omit_empty ''subject'' (inq_subject x) @ omit_empty ''product_name'' (inq_product x)
       @ omit_empty ''body_preview'' (take 200 (msg_body m))\<rparr>"

definition create_inquiry_checks :: "string \<Rightarrow> create_inquiry_input \<Rightarrow> inquiry_err error option" where
  "create_inquiry_checks buyer c =
     (let subject = trim_space (cii_subject c); body = trim_space (cii_body c) in
      if buyer = '''' then Some (bad_request ''buyer_auth0_id is required'')
      else if cii_seller c = nil_uuid then Some (bad_request ''seller_id is required'')
      else if cii_sku c = nil_uuid then Some (bad_request ''sku_id is required'')
      else if subject = '''' then Some (bad_request ''subject is required'')
      else if body = '''' then Some (bad_request ''initial_body is required'')
      else if length subject > 255 then Some (bad_request ''subject must be at most 255 characters'')
      else if length body > 4000 then Some (bad_request ''initial_body must be at most 4000 characters'')
      else None)"

text \<open>\<open>orders buyer seller sku\<close> is the answer of the order service while the request is served.\<close>

definition create_inquiry ::
  "bool \<Rightarrow> (string \<Rightarrow> uuid \<Rightarrow> uuid \<Rightarrow> purchase_reply) \<Rightarrow> string \<Rightarrow> create_inquiry_input \<Rightarrow> thread qtx" where
  "create_inquiry pub orders buyer c =
     (case create_inquiry_checks buyer c of
        Some e \<Rightarrow> tx_throw e
      | None \<Rightarrow>
          (case inquiry_check_purchase (orders buyer (cii_seller c) (cii_sku c)) of
             Inl e \<Rightarrow> tx_throw e
           | Inr p \<Rightarrow>
               if \<not> pck_purchased p then tx_throw (Sentinel ErrInquiryPurchaseRequired)
               else
                 tx_bind (or_internal ''failed to create inquiry'' (inquiry_create
                   \<lparr>inq_id = nil_uuid, inq_buyer = buyer, inq_seller = cii_seller c, inq_sku = cii_sku c,
                    inq_product = pck_product p, inq_sku_code = pck_sku_code p, inq_subject = trim_space (cii_subject c),
                    inq_status = InquiryOpen, inq_last = 0, inq_created = 0, inq_updated = 0\<rparr>
                   \<lparr>msg_id = nil_uuid, msg_inquiry = nil_uuid, msg_sender = SenderBuyer, msg_author = buyer,
                    msg_body = trim_space (cii_body c), msg_read = None, msg_created = 0\<rparr>)) (\<lambda>(th, m).
                 tx_bind (publish_when pub (message_event (fst th) m)) (\<lambda>_. tx_return th))))"

definition load_thread :: "uuid \<Rightarrow> thread qtx" where
  "load_thread i =
     tx_bind (or_internal ''failed to load inquiry'' (inquiry_by_id i)) (\<lambda>r.
     case r of None \<Rightarrow> tx_throw (Sentinel ErrInquiryNotFound) | Some th \<Rightarrow> tx_return th)"

definition may_send :: "sender_type \<Rightarrow> string \<Rightarrow> uuid option \<Rightarrow> inquiry \<Rightarrow> bool" where
  "may_send sender user seller x =
     (case sender of
        SenderBuyer \<Rightarrow> user \<noteq> '''' \<and> user = inq_buyer x
      | SenderSeller \<Rightarrow> seller = Some (inq_seller x))"

text \<open>What follows the read of the thread.\<close>

definition post_read ::
  "bool \<Rightarrow> string \<Rightarrow> uuid option \<Rightarrow> sender_type \<Rightarrow> string \<Rightarrow> thread \<Rightarrow> inquiry_message qtx" where
  "post_read pub user seller sender body th =
     (let x = fst th in
      if inq_status x = InquiryClosed then tx_throw (Sentinel ErrInquiryClosed)
      else if \<not> may_send sender user seller x then tx_throw (Sentinel ErrNotParticipant)
      else
        tx_bind (or_internal ''failed to append message'' (append_message
          \<lparr>msg_id = nil_uuid, msg_inquiry = inq_id x, msg_sender = sender, msg_author = user, msg_body = body,
           msg_read = None, msg_created = 0\<rparr>)) (\<lambda>m.
        tx_bind (publish_when pub (message_event x m)) (\<lambda>_. tx_return m)))"

definition post_message :: "bool \<Rightarrow> string \<Rightarrow> uuid option \<Rightarrow> post_message_input \<Rightarrow> inquiry_message qtx" where
  "post_message pub user seller p =
     (let body = trim_space (pmi_body p) in
      if pmi_inquiry p = nil_uuid then tx_throw (bad_request ''inquiry_id is required'')
      else
        (case check_text ''body'' 4000 body of
           Some e \<Rightarrow> tx_throw e
         | None \<Rightarrow>
             (case sender_of (pmi_sender p) of
                None \<Rightarrow> tx_throw (Sentinel ErrInvalidSenderType)
              | Some sender \<Rightarrow> tx_bind (load_thread (pmi_inquiry p)) (post_read pub user seller sender body))))"

definition is_participant :: "inquiry \<Rightarrow> string \<Rightarrow> uuid option \<Rightarrow> bool" where
  "is_participant x user seller \<longleftrightarrow> user \<noteq> '''' \<and> user = inq_buyer x \<or> seller = Some (inq_seller x)"

definition get_inquiry :: "uuid \<Rightarrow> string \<Rightarrow> uuid option \<Rightarrow> thread qtx" where
  "get_inquiry i user seller =
     tx_bind (load_thread i) (\<lambda>th.
     if \<not> is_participant (fst th) user seller then tx_throw (Sentinel ErrInquiryNotFound) else tx_return th)"

definition inquiry_limits :: "int \<Rightarrow> int \<Rightarrow> int \<times> int" where
  "inquiry_limits lim off = (if lim \<le> 0 \<or> lim > 100 then 20 else lim, if off < 0 then 0 else off)"

definition list_for_buyer :: "string \<Rightarrow> int \<Rightarrow> int \<Rightarrow> ((inquiry \<times> nat) list \<times> nat) qtx" where
  "list_for_buyer buyer lim off =
     (if buyer = '''' then tx_throw (bad_request ''buyer_auth0_id is required'')
      else let (l, d) = inquiry_limits lim off in or_internal ''failed to list inquiries'' (inquiries_by_buyer buyer l d))"

definition list_inquiries_for_seller :: "uuid \<Rightarrow> string \<Rightarrow> int \<Rightarrow> int \<Rightarrow> ((inquiry \<times> nat) list \<times> nat) qtx" where
  "list_inquiries_for_seller seller st lim off =
     (if seller = nil_uuid then tx_throw (bad_request ''seller_id is required'')
      else let (l, d) = inquiry_limits lim off in or_internal ''failed to list inquiries'' (inquiries_by_seller seller st l d))"

definition mark_read_read :: "string \<Rightarrow> string \<Rightarrow> uuid option \<Rightarrow> thread \<Rightarrow> unit qtx" where
  "mark_read_read reader user seller th =
     (if \<not> is_participant (fst th) user seller then tx_throw (Sentinel ErrInquiryNotFound)
      else
        (case sender_of reader of
           None \<Rightarrow> tx_throw (Sentinel ErrInvalidReaderType)
         | Some r \<Rightarrow> or_internal ''failed to mark messages read'' (mark_read_rows (inq_id (fst th)) r)))"

definition mark_read :: "uuid \<Rightarrow> string \<Rightarrow> string \<Rightarrow> uuid option \<Rightarrow> unit qtx" where
  "mark_read i reader user seller = tx_bind (load_thread i) (mark_read_read reader user seller)"

definition close_read :: "uuid option \<Rightarrow> thread \<Rightarrow> unit qtx" where
  "close_read seller th =
     (if seller \<noteq> Some (inq_seller (fst th)) then tx_throw (Sentinel ErrNotParticipant)
      else or_internal ''failed to close inquiry'' (close_inquiry_row (inq_id (fst th))))"

definition close_inquiry :: "uuid \<Rightarrow> uuid option \<Rightarrow> unit qtx" where
  "close_inquiry i seller = tx_bind (load_thread i) (close_read seller)"

subsection \<open>HTTP\<close>

type_synonym inquiry_handler = "(inquiry_db, inquiry_err, response) tx"

fun inquiry_err_text :: "inquiry_err \<Rightarrow> string" where
  "inquiry_err_text ErrInquiryNotFound = ''inquiry not found''"
| "inquiry_err_text ErrInquiryClosed = ''cannot post to a closed inquiry''"
| "inquiry_err_text ErrNotParticipant = ''not a participant of this inquiry''"
| "inquiry_err_text ErrInquiryPurchaseRequired = ''you can only contact the seller of items you have purchased''"
| "inquiry_err_text ErrInvalidSenderType = ''invalid sender_type''"
| "inquiry_err_text ErrInvalidReaderType = ''invalid reader type''"
| "inquiry_err_text (ErrInquiryRepo m) = m"
| "inquiry_err_text (ErrInquiryClient m) = m"

definition inquiry_map_error :: "inquiry_err error \<Rightarrow> inquiry_err error" where
  "inquiry_map_error e =
     (case as_app_error e of Some a \<Rightarrow> a | None \<Rightarrow>
      (case e of
         Sentinel d \<Rightarrow>
           if d = ErrInquiryNotFound then not_found (inquiry_err_text d)
           else if d \<in> {ErrInquiryClosed, ErrNotParticipant, ErrInquiryPurchaseRequired} then forbidden (inquiry_err_text d)
           else if d \<in> {ErrInvalidSenderType, ErrInvalidReaderType} then bad_request (inquiry_err_text d)
           else internal ''internal error'' (Some e)
       | _ \<Rightarrow> internal ''internal error'' (Some e)))"

definition inquiry_fields :: "inquiry \<times> nat \<Rightarrow> (string \<times> json) list" where
  "inquiry_fields r = (case r of (x, n) \<Rightarrow>
     [(''id'', JStr (inq_id x)), (''buyer_auth0_id'', JStr (inq_buyer x)), (''seller_id'', JStr (inq_seller x)),
      (''sku_id'', JStr (inq_sku x)), (''product_name'', JStr (inq_product x)), (''sku_code'', JStr (inq_sku_code x)),
      (''subject'', JStr (inq_subject x)), (''status'', JStr (inquiry_status_text (inq_status x))),
      (''last_message_at'', JInt (inq_last x)), (''created_at'', JInt (inq_created x)), (''updated_at'', JInt (inq_updated x))]
     @ (if n = 0 then [] else [(''unread_count'', JInt (int n))]))"

definition message_json :: "inquiry_message \<Rightarrow> json" where
  "message_json m = JObj (
     [(''id'', JStr (msg_id m)), (''inquiry_id'', JStr (msg_inquiry m)), (''sender_type'', JStr (sender_text (msg_sender m))),
      (''sender_id'', JStr (msg_author m)), (''body'', JStr (msg_body m))]
     @ omit_none ''read_at'' JInt (msg_read m) @ [(''created_at'', JInt (msg_created m))])"

definition thread_json :: "thread \<Rightarrow> json" where
  "thread_json th = JObj (inquiry_fields (fst th, 0) @ [(''messages'', json_list_or_null (map message_json (snd th)))])"

abbreviation no_auth_context :: "inquiry_err error" where
  "no_auth_context \<equiv> bad_request ''auth context required''"

definition http_buyer_inquiries :: "caller_ctx option \<Rightarrow> int option \<Rightarrow> int option \<Rightarrow> inquiry_handler" where
  "http_buyer_inquiries ctx lim off = signed_in no_auth_context ctx (\<lambda>c.
     let page = parse_pagination lim off in
     respond inquiry_map_error (list_for_buyer (idn_user c) (fst page) (snd page)) (page_answer (\<lambda>r. JObj (inquiry_fields r)) page))"

definition http_create_inquiry ::
  "bool \<Rightarrow> (string \<Rightarrow> uuid \<Rightarrow> uuid \<Rightarrow> purchase_reply) \<Rightarrow> caller_ctx option \<Rightarrow> (string + create_inquiry_input) option \<Rightarrow> inquiry_handler" where
  "http_create_inquiry pub orders ctx body = signed_in no_auth_context ctx (\<lambda>c. decoded body (\<lambda>r.
     respond inquiry_map_error (create_inquiry pub orders (idn_user c) r) (\<lambda>th. Response 201 (Some (thread_json th)))))"

definition http_get_inquiry :: "(string \<Rightarrow> uuid option) \<Rightarrow> caller_ctx option \<Rightarrow> string \<Rightarrow> inquiry_handler" where
  "http_get_inquiry parse ctx raw = signed_in no_auth_context ctx (\<lambda>c. path_id parse raw ''invalid inquiry id'' (\<lambda>i.
     respond inquiry_map_error (get_inquiry i (idn_user c) (idn_seller c)) (\<lambda>th. Response 200 (Some (thread_json th)))))"

definition post_and_answer ::
  "(string \<Rightarrow> uuid option) \<Rightarrow> bool \<Rightarrow> caller_ctx \<Rightarrow> sender_type \<Rightarrow> string \<Rightarrow> (string + string) option \<Rightarrow> inquiry_handler" where
  "post_and_answer parse pub c sender raw body = path_id parse raw ''invalid inquiry id'' (\<lambda>i. decoded body (\<lambda>b.
     respond inquiry_map_error (post_message pub (idn_user c) (idn_seller c)
       \<lparr>pmi_inquiry = i, pmi_sender = sender_text sender, pmi_body = b\<rparr>) (\<lambda>m. Response 201 (Some (message_json m)))))"

definition http_buyer_post ::
  "(string \<Rightarrow> uuid option) \<Rightarrow> bool \<Rightarrow> caller_ctx option \<Rightarrow> string \<Rightarrow> (string + string) option \<Rightarrow> inquiry_handler" where
  "http_buyer_post parse pub ctx raw body =
     signed_in no_auth_context ctx (\<lambda>c. post_and_answer parse pub c SenderBuyer raw body)"

definition mark_and_answer :: "(string \<Rightarrow> uuid option) \<Rightarrow> caller_ctx \<Rightarrow> sender_type \<Rightarrow> string \<Rightarrow> inquiry_handler" where
  "mark_and_answer parse c reader raw = path_id parse raw ''invalid inquiry id'' (\<lambda>i.
     respond inquiry_map_error (mark_read i (sender_text reader) (idn_user c) (idn_seller c)) (\<lambda>_. Response 204 None))"

definition http_buyer_mark_read :: "(string \<Rightarrow> uuid option) \<Rightarrow> caller_ctx option \<Rightarrow> string \<Rightarrow> inquiry_handler" where
  "http_buyer_mark_read parse ctx raw = signed_in no_auth_context ctx (\<lambda>c. mark_and_answer parse c SenderBuyer raw)"

definition http_seller_inquiries :: "caller_ctx option \<Rightarrow> int option \<Rightarrow> int option \<Rightarrow> string \<Rightarrow> inquiry_handler" where
  "http_seller_inquiries ctx lim off st = signed_in_seller no_auth_context ctx (\<lambda>c s.
     let page = parse_pagination lim off in
     respond inquiry_map_error (list_inquiries_for_seller s st (fst page) (snd page)) (page_answer (\<lambda>r. JObj (inquiry_fields r)) page))"

definition http_seller_inquiry :: "(string \<Rightarrow> uuid option) \<Rightarrow> caller_ctx option \<Rightarrow> string \<Rightarrow> inquiry_handler" where
  "http_seller_inquiry parse ctx raw = signed_in_seller no_auth_context ctx (\<lambda>c s. path_id parse raw ''invalid inquiry id'' (\<lambda>i.
     respond inquiry_map_error (get_inquiry i (idn_user c) (idn_seller c)) (\<lambda>th. Response 200 (Some (thread_json th)))))"

definition http_seller_post ::
  "(string \<Rightarrow> uuid option) \<Rightarrow> bool \<Rightarrow> caller_ctx option \<Rightarrow> string \<Rightarrow> (string + string) option \<Rightarrow> inquiry_handler" where
  "http_seller_post parse pub ctx raw body =
     signed_in_seller no_auth_context ctx (\<lambda>c s. post_and_answer parse pub c SenderSeller raw body)"

definition http_seller_mark_read :: "(string \<Rightarrow> uuid option) \<Rightarrow> caller_ctx option \<Rightarrow> string \<Rightarrow> inquiry_handler" where
  "http_seller_mark_read parse ctx raw = signed_in_seller no_auth_context ctx (\<lambda>c s. mark_and_answer parse c SenderSeller raw)"

definition http_close_inquiry :: "(string \<Rightarrow> uuid option) \<Rightarrow> caller_ctx option \<Rightarrow> string \<Rightarrow> inquiry_handler" where
  "http_close_inquiry parse ctx raw = signed_in_seller no_auth_context ctx (\<lambda>c s. path_id parse raw ''invalid inquiry id'' (\<lambda>i.
     respond inquiry_map_error (close_inquiry i (idn_seller c)) (\<lambda>_. Response 204 None)))"

end
