(* ===== verification/Inquiry_Invariant.thy ===== *)
theory Inquiry_Invariant
  imports Inquiry_Service Effect_Rules Contracts
begin

text \<open>
  Inquiry service: the steps of the service, the invariant of the reachable states, and what stays for
  ever. A request reads a thread and goes on with what it has read; the state has the tables, the
  threads that requests have read, and two histories: the callers who tried to post (with the seller
  they act for) and the purchases that the order service confirmed.
\<close>

subsection \<open>What stays\<close>

definition continues :: "inquiry \<Rightarrow> inquiry \<Rightarrow> bool" where
  "continues x y \<longleftrightarrow> inq_id y = inq_id x \<and> same_thread x y \<and> inq_product y = inq_product x \<and> inq_sku_code y = inq_sku_code x
     \<and> inq_subject y = inq_subject x \<and> (inq_status x = InquiryClosed \<longrightarrow> inq_status y = InquiryClosed)"

definition stays :: "inquiry_message \<Rightarrow> inquiry_message \<Rightarrow> bool" where
  "stays m n \<longleftrightarrow> msg_id n = msg_id m \<and> msg_inquiry n = msg_inquiry m \<and> msg_sender n = msg_sender m \<and> msg_author n = msg_author m
     \<and> msg_body n = msg_body m \<and> msg_created n = msg_created m \<and> (msg_read m \<noteq> None \<longrightarrow> msg_read n = msg_read m)"

definition grows :: "inquiry_db \<Rightarrow> inquiry_db \<Rightarrow> bool" where
  "grows s s' \<longleftrightarrow> (\<forall>x \<in> set (inquiries s). \<exists>y \<in> set (inquiries s'). continues x y)
     \<and> (\<forall>m \<in> set (messages s). \<exists>n \<in> set (messages s'). stays m n)"

lemma continues_refl [simp]: "continues x x" and stays_refl [simp]: "stays m m"
  by (simp_all add: continues_def same_thread_def stays_def)

lemma continues_trans: "continues x y \<Longrightarrow> continues y z \<Longrightarrow> continues x z"
  by (auto simp: continues_def same_thread_def)

lemma stays_trans: "stays m n \<Longrightarrow> stays n k \<Longrightarrow> stays m k"
  by (auto simp: stays_def)

lemma grows_refl [simp]: "grows s s"
  by (auto simp: grows_def intro!: bexI)

lemma grows_superset:
  "set (inquiries s) \<subseteq> set (inquiries s') \<Longrightarrow> set (messages s) \<subseteq> set (messages s') \<Longrightarrow> grows s s'"
  unfolding grows_def by (meson continues_refl stays_refl subsetD)

lemma update_where_mem: "x \<in> set xs \<Longrightarrow> (if q x then g x else x) \<in> set (update_where q g xs)"
  by (auto simp: update_where_def)

lemma grows_trans: "grows s s1 \<Longrightarrow> grows s1 s2 \<Longrightarrow> grows s s2"
  unfolding grows_def by (meson continues_trans stays_trans)

subsection \<open>The invariant\<close>

type_synonym callers = "(string \<times> uuid option) set"
type_synonym purchases = "(string \<times> uuid \<times> uuid) set"

definition written_by_party :: "callers \<Rightarrow> inquiry_message \<Rightarrow> inquiry \<Rightarrow> bool" where
  "written_by_party A m x \<longleftrightarrow> inq_id x = msg_inquiry m
     \<and> (case msg_sender m of
          SenderBuyer \<Rightarrow> msg_author m = inq_buyer x
        | SenderSeller \<Rightarrow> (msg_author m, Some (inq_seller x)) \<in> A)"

definition thread_key :: "inquiry \<Rightarrow> string \<times> uuid \<times> uuid" where
  "thread_key x = (inq_buyer x, inq_seller x, inq_sku x)"

lemma same_thread_key: "same_thread x y \<longleftrightarrow> thread_key y = thread_key x"
  by (simp add: same_thread_def thread_key_def)

definition inquiry_good :: "inquiry set \<Rightarrow> callers \<Rightarrow> purchases \<Rightarrow> inquiry_db \<Rightarrow> bool" where
  "inquiry_good R A B s \<longleftrightarrow> distinct (map inq_id (inquiries s)) \<and> distinct (map thread_key (inquiries s))
     \<and> distinct (map msg_id (messages s)) \<and> thread_key ` set (inquiries s) \<subseteq> B
     \<and> (\<forall>m \<in> set (messages s). \<exists>x \<in> set (inquiries s). written_by_party A m x)
     \<and> (\<forall>x \<in> R. \<exists>y \<in> set (inquiries s). continues x y)"

lemma inquiry_good_mono: "inquiry_good R A B s \<Longrightarrow> A \<subseteq> A' \<Longrightarrow> B \<subseteq> B' \<Longrightarrow> inquiry_good R A' B' s"
  unfolding inquiry_good_def written_by_party_def by (fastforce split: sender_type.splits)

lemma written_continues: "written_by_party A m x \<Longrightarrow> continues x y \<Longrightarrow> stays m n \<Longrightarrow> written_by_party A n y"
  by (auto simp: written_by_party_def continues_def same_thread_def stays_def split: sender_type.splits)

text \<open>Changes of rows that leave the threads and the messages what they are.\<close>

lemma inquiry_good_touch:
  fixes p :: "inquiry \<Rightarrow> bool" and q :: "inquiry_message \<Rightarrow> bool"
  assumes "inquiry_good R A B s" and "\<And>x. continues x (g x)" and "\<And>m. stays m (h m)"
  defines "s' \<equiv> s\<lparr>inquiries := update_where p g (inquiries s), messages := update_where q h (messages s)\<rparr>"
  shows "inquiry_good R A B s' \<and> grows s s'"
proof -
  have ids: "map inq_id (inquiries s') = map inq_id (inquiries s)" "map thread_key (inquiries s') = map thread_key (inquiries s)"
    "map msg_id (messages s') = map msg_id (messages s)"
    using assms(2,3) by (auto simp: s'_def continues_def stays_def same_thread_key intro!: update_where_keys)
  then have keys: "thread_key ` set (inquiries s') = thread_key ` set (inquiries s)" by (metis set_map)
  have "continues x (if p x then g x else x)" "stays m (if q m then h m else m)" for x m using assms(2,3) by simp_all
  then have g: "grows s s'"
    unfolding grows_def s'_def by (auto intro!: bexI [OF _ update_where_mem])
  have old: "\<exists>m \<in> set (messages s). stays m n" if "n \<in> set (messages s')" for n
  proof -
    from that obtain m where "m \<in> set (messages s)" "n = h m \<or> n = m"
      by (auto simp: s'_def update_where_def split: if_splits)
    with assms(3) stays_refl show ?thesis by blast
  qed
  have "\<forall>n \<in> set (messages s'). \<exists>y \<in> set (inquiries s'). written_by_party A n y"
  proof
    fix n
    assume "n \<in> set (messages s')"
    with old obtain m where m: "m \<in> set (messages s)" "stays m n" by blast
    with assms(1) obtain x where x: "x \<in> set (inquiries s)" "written_by_party A m x" by (auto simp: inquiry_good_def)
    with g obtain y where "y \<in> set (inquiries s')" "continues x y" by (auto simp: grows_def)
    with x m show "\<exists>y \<in> set (inquiries s'). written_by_party A n y" by (blast intro: written_continues)
  qed
  moreover have "\<forall>x \<in> R. \<exists>y \<in> set (inquiries s'). continues x y"
    using assms(1) g unfolding inquiry_good_def grows_def by (meson continues_trans)
  ultimately show ?thesis using assms(1) g ids keys by (simp add: inquiry_good_def)
qed

lemma inquiries_touch:
  assumes "inquiry_good R A B s" and "\<And>x. continues x (g x)"
  shows "inquiry_good R A B (s\<lparr>inquiries := update_where p g (inquiries s)\<rparr>) \<and> grows s (s\<lparr>inquiries := update_where p g (inquiries s)\<rparr>)"
  using inquiry_good_touch [OF assms, where h = "\<lambda>m. m" and p = p and q = "\<lambda>_. False"] by (simp add: update_where_id)

lemma messages_touch:
  assumes "inquiry_good R A B s" and "\<And>m. q m \<Longrightarrow> stays m (h m)"
  shows "inquiry_good R A B (s\<lparr>messages := update_where q h (messages s)\<rparr>) \<and> grows s (s\<lparr>messages := update_where q h (messages s)\<rparr>)"
proof -
  have "update_where q (\<lambda>m. if q m then h m else m) ms = update_where q h ms" for ms by (simp add: update_where_def)
  moreover have "stays m (if q m then h m else m)" for m using assms(2) by simp
  ultimately show ?thesis
    using inquiry_good_touch [OF assms(1), where g = "\<lambda>x. x" and p = "\<lambda>_. False" and q = q and h = "\<lambda>m. if q m then h m else m"]
    by (simp add: update_where_id)
qed

lemma inquiry_good_message:
  assumes "inquiry_good R A B s" and "msg_id m \<notin> msg_id ` set (messages s)"
    and "x \<in> set (inquiries s)" and "written_by_party A m x"
  shows "inquiry_good R A B (s\<lparr>messages := messages s @ [m]\<rparr>) \<and> grows s (s\<lparr>messages := messages s @ [m]\<rparr>)"
  using assms by (auto simp: inquiry_good_def intro: grows_superset)

lemma inquiry_good_thread:
  assumes "inquiry_good R A B s" and "inq_id x \<notin> inq_id ` set (inquiries s)"
    and "thread_key x \<notin> thread_key ` set (inquiries s)" and "thread_key x \<in> B"
  shows "inquiry_good R A B (s\<lparr>inquiries := inquiries s @ [x]\<rparr>) \<and> grows s (s\<lparr>inquiries := inquiries s @ [x]\<rparr>)"
  using assms by (fastforce simp: inquiry_good_def intro: grows_superset)

subsection \<open>Operations\<close>

abbreviation "inquiry_does P R A B m \<equiv> does (\<lambda>s. inquiry_good R A B s \<and> P s) (\<lambda>s s'. inquiry_good R A B s' \<and> grows s s') m"

lemma insert_message_result:
  "insert_message_stmt m t s = Inr (y, s') \<Longrightarrow>
     s' = s\<lparr>messages := messages s @ [y]\<rparr> \<and> y = m\<lparr>msg_read := None, msg_created := t\<rparr> \<and> msg_id y \<notin> msg_id ` set (messages s)"
  by (auto simp: insert_message_stmt_def Let_def split: if_splits)

text \<open>Appending a message of a party to its thread.\<close>

lemma wp_append_message:
  assumes "inquiry_good R A B (store w)" and "grows s0 (store w)" and "x \<in> set (inquiries (store w))" and "written_by_party A m x"
  shows "wp (append_message_tx m) (\<lambda>_ w'. inquiry_good R A B (store w') \<and> grows s0 (store w')) w"
  unfolding append_message_tx_def update_inquiries_def
proof (intro wp_intros, goal_cases)
  case (1 i w1 y s1 w2 n s2 w3)
  from 1 insert_message_result [of "m\<lparr>msg_id := i\<rparr>" "clock w1" "store w1" y s1]
  have s1: "store w2 = (store w)\<lparr>messages := messages (store w) @ [y]\<rparr>" "msg_id y \<notin> msg_id ` set (messages (store w))"
    and y: "y = m\<lparr>msg_id := i, msg_read := None, msg_created := clock w1\<rparr>" by auto
  have "written_by_party A y x" using assms(4) y by (auto simp: written_by_party_def split: sender_type.splits)
  from inquiry_good_message [OF assms(1) s1(2) assms(3) this]
  have g: "inquiry_good R A B (store w2)" "grows (store w) (store w2)" by (simp_all add: s1)
  have "continues z (z\<lparr>inq_last := msg_created y, inq_updated := clock w2\<rparr>)" for z
    by (simp add: continues_def same_thread_def)
  from inquiries_touch [OF g(1) this, of "\<lambda>x. inq_id x = msg_inquiry y"] 1 have "inquiry_good R A B (store w3)" "grows (store w2) (store w3)" by auto
  then show ?case using g(2) assms(2) 1 by (auto intro: grows_trans)
qed

lemma append_message_does:
  assumes "x \<in> R" and "msg_inquiry m = inq_id x"
    and "msg_sender m = SenderBuyer \<Longrightarrow> msg_author m = inq_buyer x"
    and "msg_sender m = SenderSeller \<Longrightarrow> (msg_author m, Some (inq_seller x)) \<in> A"
  shows "inquiry_does (\<lambda>_. True) R A B (append_message m)"
  unfolding append_message_def
proof (rule does_run_tx)
  fix w :: "inquiry_db world"
  assume good: "inquiry_good R A B (store w) \<and> True"
  with assms(1) obtain y where y: "y \<in> set (inquiries (store w))" "continues x y" by (auto simp: inquiry_good_def)
  then have "written_by_party A m y" using assms(2-4)
    by (cases "msg_sender m") (auto simp: written_by_party_def continues_def same_thread_def)
  then show "wp (append_message_tx m) (\<lambda>_ w'. inquiry_good R A B (store w') \<and> grows (store w) (store w')) w"
    using wp_append_message [OF _ grows_refl y(1)] good by simp
qed

lemma wp_find_or_insert:
  assumes good: "inquiry_good R A B (store w)" and "thread_key x \<in> B" and "\<not> aborted w"
  shows "wp (find_or_insert x) (\<lambda>y w'. inquiry_good R A B (store w') \<and> grows (store w) (store w')
    \<and> y \<in> set (inquiries (store w')) \<and> thread_key y = thread_key x) w"
proof -
  have found: "y \<in> set (inquiries s) \<and> thread_key y = thread_key x" if "find (same_thread x) (inquiries s) = Some y" for y s
    using find_Some_mem [OF that] by (simp add: same_thread_key)
  have no_rescue: "wp (load_inquiry q) Q v" if "aborted v" for q Q and v :: "inquiry_db world"
    using that by (simp add: wp_def load_inquiry_def query_def sql_def)
  show ?thesis
    unfolding find_or_insert_def
  proof (rule wp_bindI, unfold load_inquiry_def, rule wp_queryI, fold load_inquiry_def, rule wp_case_optionI, goal_cases)
    case (1 w1)
    show ?case
    proof (intro wp_bindI wp_new_uuidI wp_catchI wp_sqlI, goal_cases)
      case (1 i w2 y s' w3)
      then have s': "store w3 = (store w)\<lparr>inquiries := inquiries (store w) @ [y]\<rparr>" "thread_key y = thread_key x"
        "inq_id y \<notin> inq_id ` set (inquiries (store w))" "find (same_thread y) (inquiries (store w)) = None"
        using \<open>store w1 = store w\<close>
        by (auto simp: insert_inquiry_stmt_def Let_def thread_key_def same_thread_def [abs_def] split: if_splits)
      then have "thread_key y \<notin> thread_key ` set (inquiries (store w))"
        by (auto simp: find_None_all same_thread_key)
      from inquiry_good_thread [OF good s'(3) this] s'(1,2) assms(2) show ?case by simp
    next
      case (2 i w2 e w3)
      then have "aborted w3" by (auto dest: sql_error)
      then show ?case by (auto intro: no_rescue simp: wp_simps)
    qed
  next
    case (2 w1 y)
    with found [of "store w" y] good show ?case by (auto intro!: wp_returnI)
  qed
qed

lemma create_does:
  assumes "thread_key x \<in> B" and "msg_sender m = SenderBuyer" and "msg_author m = inq_buyer x"
  shows "inquiry_does (\<lambda>_. True) R A B (inquiry_create x m)"
  unfolding inquiry_create_def
proof (rule does_run_tx)
  fix w :: "inquiry_db world"
  assume good: "inquiry_good R A B (store w) \<and> True" and live: "\<not> aborted w"
  show "wp (tx_bind (find_or_insert x) (\<lambda>y. tx_bind (append_message_tx (m\<lparr>msg_inquiry := inq_id y\<rparr>)) (\<lambda>m'.
      tx_bind (load_messages (inq_id y)) (\<lambda>ms. tx_return ((y\<lparr>inq_last := msg_created m'\<rparr>, ms), m')))))
      (\<lambda>_ w'. inquiry_good R A B (store w') \<and> grows (store w) (store w')) w"
  proof (rule wp_bindI, rule wp_mono [OF wp_find_or_insert [OF conjunct1 [OF good] assms(1) live]])
    fix y and w1 :: "inquiry_db world"
    assume y: "inquiry_good R A B (store w1) \<and> grows (store w) (store w1) \<and> y \<in> set (inquiries (store w1)) \<and> thread_key y = thread_key x"
    then have "written_by_party A (m\<lparr>msg_inquiry := inq_id y\<rparr>) y"
      using assms(2,3) by (simp add: written_by_party_def thread_key_def)
    with y have "wp (append_message_tx (m\<lparr>msg_inquiry := inq_id y\<rparr>))
        (\<lambda>_ w'. inquiry_good R A B (store w') \<and> grows (store w) (store w')) w1"
      by (blast intro: wp_append_message)
    then show "wp (tx_bind (append_message_tx (m\<lparr>msg_inquiry := inq_id y\<rparr>)) (\<lambda>m'.
        tx_bind (load_messages (inq_id y)) (\<lambda>ms. tx_return ((y\<lparr>inq_last := msg_created m'\<rparr>, ms), m'))))
      (\<lambda>_ w'. inquiry_good R A B (store w') \<and> grows (store w) (store w')) w1"
      unfolding load_messages_def by (intro wp_bindI, elim wp_mono, intro wp_intros) simp
  qed
qed

subsection \<open>Steps\<close>

record inquiry_state =
  ist_world :: "inquiry_db world"
  ist_read :: "inquiry set"
  ist_callers :: callers
  ist_bought :: purchases

definition confirmed :: "(string \<Rightarrow> uuid \<Rightarrow> uuid \<Rightarrow> purchase_reply) \<Rightarrow> purchases" where
  "confirmed orders = {(b, s, k). \<exists>p. inquiry_check_purchase (orders b s k) = Inr p \<and> pck_purchased p}"

inductive inquiry_step :: "inquiry_state \<Rightarrow> inquiry_state \<Rightarrow> bool" where
  create: "inquiry_step c (c\<lparr>ist_world := snd (create_inquiry pub orders buyer x (ist_world c)),
     ist_bought := ist_bought c \<union> confirmed orders\<rparr>)"
| read: "load_thread i (ist_world c) = (Inr th, w') \<Longrightarrow>
     inquiry_step c (c\<lparr>ist_world := w', ist_read := insert (fst th) (ist_read c)\<rparr>)"
| post: "fst th \<in> ist_read c \<Longrightarrow>
     inquiry_step c (c\<lparr>ist_world := snd (post_read pub user seller sender body th (ist_world c)),
       ist_callers := insert (user, seller) (ist_callers c)\<rparr>)"
| mark: "fst th \<in> ist_read c \<Longrightarrow>
     inquiry_step c (c\<lparr>ist_world := snd (mark_read_read reader user seller th (ist_world c))\<rparr>)"
| close: "fst th \<in> ist_read c \<Longrightarrow> inquiry_step c (c\<lparr>ist_world := snd (close_read seller th (ist_world c))\<rparr>)"
| idle: "store w' = store (ist_world c) \<Longrightarrow> inquiry_step c (c\<lparr>ist_world := w'\<rparr>)"

definition inquiry_ok :: "inquiry_state \<Rightarrow> bool" where
  "inquiry_ok c \<longleftrightarrow> inquiry_good (ist_read c) (ist_callers c) (ist_bought c) (store (ist_world c))"

lemma create_inquiry_does:
  assumes "confirmed orders \<subseteq> B"
  shows "inquiry_does (\<lambda>_. True) R A B (create_inquiry pub orders buyer c)"
  unfolding create_inquiry_def
proof (intro does_intros does_bind_then reads_intros create_does, goal_cases)
  case (1 p)
  then show ?case using assms by (auto simp: confirmed_def thread_key_def)
qed simp_all

lemma post_read_does:
  assumes "fst th \<in> R" and "(user, seller) \<in> A"
  shows "inquiry_does (\<lambda>_. True) R A B (post_read pub user seller sender body th)"
  unfolding post_read_def Let_def
  by (intro does_intros does_bind_then reads_intros append_message_does [OF assms(1)])
     (use assms(2) in \<open>auto simp: may_send_def split: sender_type.splits\<close>)

lemma mark_read_does: "inquiry_does (\<lambda>_. True) R A B (mark_read_read reader user seller th)"
  unfolding mark_read_read_def mark_read_rows_def
proof (intro does_intros does_run_tx wp_intros, goal_cases)
  case (1 r w x s' w')
  let ?q = "\<lambda>m. msg_inquiry m = inq_id (fst th) \<and> msg_sender m = other_sender r \<and> msg_read m = None"
  have "stays m (m\<lparr>msg_read := Some (clock w)\<rparr>)" if "?q m" for m using that by (simp add: stays_def)
  from messages_touch [OF _ this, of R A B "store w"] 1 show ?case by auto
qed

lemma close_read_does: "inquiry_does (\<lambda>_. True) R A B (close_read seller th)"
  unfolding close_read_def close_inquiry_row_def update_inquiries_def
proof (intro does_intros does_run_tx wp_intros, goal_cases)
  case (1 w n s' w')
  have "continues x (x\<lparr>inq_status := InquiryClosed, inq_updated := clock w\<rparr>)" for x
    by (simp add: continues_def same_thread_def)
  from inquiries_touch [OF _ this, of R A B "store w" "\<lambda>x. inq_id x = inq_id (fst th)"] 1 show ?case by auto
qed

lemma reads_load_thread: "reads (load_thread i)"
  unfolding load_thread_def inquiry_by_id_def load_inquiry_def load_messages_def
  by (intro reads_intros reads_run_tx keeps_intros)

lemma load_thread_result:
  assumes "load_thread i w = (Inr th, w')"
  shows "store w' = store w \<and> fst th \<in> set (inquiries (store w))"
proof -
  have "wp (load_thread i) (\<lambda>th _. fst th \<in> set (inquiries (store w))) w"
    unfolding load_thread_def inquiry_by_id_def load_inquiry_def load_messages_def or_internal_def
    by (intro wp_intros) (auto dest: find_Some_mem intro!: wp_intros)
  from wpD [OF this assms] reads_store [OF reads_load_thread, of i w] assms show ?thesis by simp
qed

lemma does_grows:
  assumes "inquiry_does (\<lambda>_. True) R A B m" and "inquiry_good R A B (store w)"
  shows "inquiry_good R A B (store (snd (m w))) \<and> grows (store w) (store (snd (m w)))"
  using doesD [OF assms(1)] assms(2) by fastforce

lemma inquiry_step_good:
  assumes "inquiry_step c c'" and "inquiry_ok c"
  shows "inquiry_ok c' \<and> grows (store (ist_world c)) (store (ist_world c')) \<and> ist_callers c \<subseteq> ist_callers c' \<and> ist_bought c \<subseteq> ist_bought c'"
  using assms
proof (induction rule: inquiry_step.induct)
  case (create c orders pub buyer x)
  then have "inquiry_good (ist_read c) (ist_callers c) (ist_bought c \<union> confirmed orders) (store (ist_world c))"
    unfolding inquiry_ok_def by (rule inquiry_good_mono) auto
  from does_grows [OF create_inquiry_does [OF Un_upper2] this, of pub buyer x] show ?case by (auto simp: inquiry_ok_def)
next
  case (read i c th w')
  note r = load_thread_result [OF read(1)]
  then have "\<exists>y \<in> set (inquiries (store w')). continues (fst th) y" using continues_refl by metis
  with r read(2) show ?case by (simp add: inquiry_ok_def inquiry_good_def)
next
  case (post th c user seller pub sender body)
  then have "inquiry_good (ist_read c) (insert (user, seller) (ist_callers c)) (ist_bought c) (store (ist_world c))"
    unfolding inquiry_ok_def by (auto elim: inquiry_good_mono)
  from does_grows [OF post_read_does this, OF post(1)] show ?case by (auto simp: inquiry_ok_def)
next
  case (mark th c reader user seller)
  then show ?case using does_grows [OF mark_read_does] by (simp add: inquiry_ok_def)
next
  case (close th c seller)
  then show ?case using does_grows [OF close_read_does] by (simp add: inquiry_ok_def)
next
  case (idle w' c)
  then show ?case by (simp add: inquiry_ok_def)
qed

lemma inquiry_steps_good:
  "inquiry_step\<^sup>*\<^sup>* c c' \<Longrightarrow> inquiry_ok c \<Longrightarrow> inquiry_ok c' \<and> grows (store (ist_world c)) (store (ist_world c'))"
  by (induction rule: rtranclp_induct) (auto dest: inquiry_step_good intro: grows_trans)

end
