(* ===== verification/Inquiry_Properties.thy ===== *)
theory Inquiry_Properties
  imports Inquiry_Invariant Samples
begin

text \<open>
  Inquiry service, properties: who may open a thread, who speaks in it, and what nobody can change.
\<close>

definition first_inquiry_state :: "inquiry_db world \<Rightarrow> inquiry_state" where
  "first_inquiry_state w = \<lparr>ist_world = w, ist_read = {}, ist_callers = {}, ist_bought = {}\<rparr>"

interpretation inquiring: stateful_service
    "\<lambda>c. ist_read c = {} \<and> ist_callers c = {} \<and> ist_bought c = {} \<and> store (ist_world c) = empty_inquiry_db"
    inquiry_step inquiry_ok
proof
  fix c :: inquiry_state
  assume "ist_read c = {} \<and> ist_callers c = {} \<and> ist_bought c = {} \<and> store (ist_world c) = empty_inquiry_db"
  then show "inquiry_ok c" by (simp add: inquiry_ok_def inquiry_good_def empty_inquiry_db_def)
qed (simp add: inquiry_step_good)

text \<open>
  C39. Threads belong to a buyer and a seller and speak with their voices only: in every reachable state,
  however requests interleave and fail, there is one thread per buyer, seller and SKU, and only
  for a purchase that the order service has confirmed; a message of the buyer's side was written by the
  thread's buyer, one of the seller's side by someone who posted for the thread's seller. Whatever comes
  after, the thread keeps its parties and its snapshot of the product, a closed one stays closed, and a
  message keeps its author, its text and its time of reading.
\<close>

theorem threads_keep_their_parties:
  assumes "store w = empty_inquiry_db" and "inquiry_step\<^sup>*\<^sup>* (first_inquiry_state w) c" and "inquiry_step\<^sup>*\<^sup>* c c'"
    and "m \<in> set (messages (store (ist_world c)))"
  shows "\<exists>x y n. filter (\<lambda>z. thread_key z = thread_key x) (inquiries (store (ist_world c))) = [x] \<and> thread_key x \<in> ist_bought c
    \<and> written_by_party (ist_callers c) m x
    \<and> y \<in> set (inquiries (store (ist_world c'))) \<and> continues x y
    \<and> n \<in> set (messages (store (ist_world c'))) \<and> stays m n"
proof -
  have ok: "inquiry_ok c"
    using inquiring.reachable_inv [OF _ assms(2)] assms(1) by (simp add: first_inquiry_state_def)
  then obtain x where x: "x \<in> set (inquiries (store (ist_world c)))" "written_by_party (ist_callers c) m x"
    using assms(4) by (auto simp: inquiry_ok_def inquiry_good_def)
  from inquiry_steps_good [OF assms(3) ok] x(1) assms(4) obtain y n where
    "y \<in> set (inquiries (store (ist_world c')))" "continues x y" "n \<in> set (messages (store (ist_world c')))" "stays m n"
    unfolding grows_def by blast
  moreover have "filter (\<lambda>z. thread_key z = thread_key x) zs = [x]" if "distinct (map thread_key zs)" "x \<in> set zs" for zs
    using that by (induction zs) (auto simp: filter_empty_conv image_iff)
  ultimately show ?thesis using ok x unfolding inquiry_ok_def inquiry_good_def by blast
qed

subsection \<open>A sample run\<close>

definition bought_tea :: "string \<Rightarrow> uuid \<Rightarrow> uuid \<Rightarrow> purchase_reply" where
  "bought_tea b s k = Inr (200, '''', Inr \<lparr>pck_purchased = (k = ''k''), pck_order = ''o'', pck_product = ''tea'', pck_sku_code = ''T1''\<rparr>, None)"

definition tea_question :: create_inquiry_input where
  "tea_question = \<lparr>cii_seller = ''s'', cii_sku = ''k'', cii_subject = ''leaves'', cii_body = ''where?''\<rparr>"

definition asked_world :: "inquiry_db world" where
  "asked_world = snd (create_inquiry True bought_tea ''b'' tea_question (sample_world empty_inquiry_db))"

definition asked_thread :: thread where
  "asked_thread = (hd (inquiries (store asked_world)), messages (store asked_world))"

definition thread_world :: "inquiry_db world" where
  "thread_world = snd (load_thread (sample_uuid 0) asked_world)"

definition answered_world :: "inquiry_db world" where
  "answered_world = snd (post_read True ''clerk'' (Some ''s'') SenderSeller ''Uji'' asked_thread thread_world)"

definition answered_state :: inquiry_state where
  "answered_state = \<lparr>ist_world = answered_world, ist_read = {fst asked_thread}, ist_callers = {(''clerk'', Some ''s'')},
     ist_bought = confirmed bought_tea\<rparr>"

lemma sample_thread: "load_thread (sample_uuid 0) asked_world = (Inr asked_thread, thread_world)"
proof -
  have "fst (load_thread (sample_uuid 0) asked_world) = Inr asked_thread" by code_simp
  then show ?thesis by (simp add: thread_world_def prod_eq_iff)
qed

lemma sample_answered: "inquiry_step\<^sup>*\<^sup>* (first_inquiry_state (sample_world empty_inquiry_db)) answered_state"
proof -
  let ?c0 = "first_inquiry_state (sample_world empty_inquiry_db)"
  let ?c1 = "?c0\<lparr>ist_world := asked_world, ist_bought := ist_bought ?c0 \<union> confirmed bought_tea\<rparr>"
  let ?c2 = "?c1\<lparr>ist_world := thread_world, ist_read := insert (fst asked_thread) (ist_read ?c1)\<rparr>"
  have "inquiry_step ?c0 ?c1"
    using inquiry_step.create [of ?c0 bought_tea True "''b''" tea_question] by (simp add: first_inquiry_state_def asked_world_def)
  moreover have "inquiry_step ?c1 ?c2" by (rule inquiry_step.read [where i = "sample_uuid 0"]) (simp add: sample_thread)
  moreover have "inquiry_step ?c2 answered_state"
    using inquiry_step.post [of asked_thread ?c2 "''clerk''" "Some ''s''" True SenderSeller "''Uji''"]
    by (simp add: first_inquiry_state_def answered_state_def answered_world_def)
  ultimately show ?thesis by (meson rtranclp.rtrancl_into_rtrancl rtranclp.rtrancl_refl)
qed

theorem threads_keep_their_parties_witness:
  "\<exists>m x. m \<in> set (messages (store answered_world)) \<and> msg_sender m = SenderSeller \<and> msg_author m = ''clerk''
    \<and> written_by_party {(''clerk'', Some ''s'')} m x \<and> thread_key x \<in> confirmed bought_tea"
proof -
  define m where "m = messages (store answered_world) ! 1"
  have m: "m \<in> set (messages (store answered_world))" "msg_sender m = SenderSeller" "msg_author m = ''clerk''"
    unfolding m_def by code_simp+
  from threads_keep_their_parties [OF _ sample_answered rtranclp.rtrancl_refl, of m] m show ?thesis
    by (auto simp: answered_state_def sample_world_def)
qed

text \<open>
  Opening a thread again appends to the existing one, also when the seller has closed it: the check for
  closed threads is only in \<open>PostMessage\<close>.
\<close>

definition closed_world :: "inquiry_db world" where
  "closed_world = snd (close_inquiry (sample_uuid 0) (Some ''s'') asked_world)"

lemma closed_thread_grows:
  "map inq_status (inquiries (store closed_world)) = [InquiryClosed]"
  "map inq_status (inquiries (store (snd (create_inquiry True bought_tea ''b'' tea_question closed_world)))) = [InquiryClosed]"
  "length (messages (store (snd (create_inquiry True bought_tea ''b'' tea_question closed_world)))) = 2"
  "\<not> isl (fst (create_inquiry True bought_tea ''b'' tea_question closed_world))"
  by code_simp+

end
