(* ===== verification/Catalog_Store.thy ===== *)
theory Catalog_Store
  imports Outbox Effect_Rules
begin

text \<open>
  Catalog service, data and repositories: internal/domain, the tables of infra/db/migrations/catalog
  and the methods of internal/adapter/postgres. Attributes are their JSON text; whether a text is
  valid for a \<open>JSONB\<close> column is the parameter \<open>json_ok\<close>. The unused join table
  \<open>product_categories\<close>, search vectors and \<open>VARCHAR\<close> lengths are not modelled.
\<close>

subsection \<open>Domain types\<close>

text \<open>A status is any text: \<open>''draft''\<close>, \<open>''active''\<close> and \<open>''archived''\<close> are the ones the code names.\<close>

record category =
  ctg_id :: uuid
  ctg_parent :: "uuid option"
  ctg_name :: string
  ctg_slug :: string
  ctg_sort :: int
  ctg_created :: instant

record product =
  prd_id :: uuid
  prd_seller :: uuid
  prd_category :: "uuid option"
  prd_name :: string
  prd_slug :: string
  prd_description :: string
  prd_status :: string
  prd_attributes :: "string option"
  prd_image :: "string option"
  prd_created :: instant
  prd_updated :: instant

record sku =
  ksk_id :: uuid
  ksk_product :: uuid
  ksk_seller :: uuid
  ksk_code :: string
  ksk_price :: int
  ksk_currency :: string
  ksk_attributes :: "string option"
  ksk_status :: string
  ksk_created :: instant
  ksk_updated :: instant

record product_filter =
  pft_seller :: "uuid option"
  pft_status :: "string option"
  pft_category :: "uuid option"

datatype catalog_err =
  ErrCategoryNotFound
| ErrCategorySlugConflict
| ErrProductNotFound
| ErrProductSlugConflict
| ErrSKUNotFound
| ErrSellerRequired
| ErrNotProductOwner
| ErrCatalogText string

record catalog_db =
  categories :: "category list"
  products :: "product list"
  skus :: "sku list"
  cmail :: outbox_db

type_synonym 'a ctx = "(catalog_db, catalog_err, 'a) tx"

definition empty_catalog_db :: catalog_db where
  "empty_catalog_db = \<lparr>categories = [], products = [], skus = [], cmail = empty_outbox\<rparr>"

text \<open>A column that is written as \<open>{}\<close> when the field is nil.\<close>

definition attrs_text :: "string option \<Rightarrow> string" where
  "attrs_text a = (case a of None \<Rightarrow> ''{}'' | Some t \<Rightarrow> t)"

definition refs_category :: "uuid option \<Rightarrow> catalog_db \<Rightarrow> bool" where
  "refs_category c s = (case c of None \<Rightarrow> True | Some i \<Rightarrow> i \<in> set (map ctg_id (categories s)))"

subsection \<open>Connections\<close>

text \<open>
  A repository method that uses \<open>database.Tx\<close> on the pool inside a transaction of the service
  runs on another connection: it sees the committed tables (\<open>seeing\<close>). One that writes there commits
  on its own, whatever becomes of the transaction around it: \<open>begin_tx\<close> is the \<open>BEGIN\<close> of the outer
  transaction and \<open>finish_tx\<close> the rest of it, given the tables committed when it gets to work.
\<close>

definition seeing :: "'s \<Rightarrow> ('s, 'd, 'a) tx \<Rightarrow> ('s, 'd, 'a) tx" where
  "seeing committed m w = (case m (w\<lparr>store := committed\<rparr>) of (r, w') \<Rightarrow> (r, w'\<lparr>store := store w\<rparr>))"

definition begin_tx :: "('s, 'd, unit) tx" where
  "begin_tx w = (if next_faulty w then (Inl (Pg ConnFailure), consume_fault w) else (Inr (), consume_fault w))"

definition finish_tx :: "('s \<Rightarrow> ('s, 'd, 'a) tx) \<Rightarrow> ('s, 'd, 'a) tx" where
  "finish_tx body w = run_tx (body (store w)) (w\<lparr>faults := False # faults w\<rparr>)"

definition service_tx :: "('s \<Rightarrow> ('s, 'd, 'a) tx) \<Rightarrow> ('s, 'd, 'a) tx" where
  "service_tx body = tx_bind begin_tx (\<lambda>_. finish_tx body)"

text \<open>\<open>service_tx\<close> is \<open>RunTx\<close> whose body also knows the committed tables.\<close>

lemma service_tx_run: "service_tx body w = run_tx (body (store w)) w"
  by (cases w) (simp add: service_tx_def begin_tx_def finish_tx_def tx_bind_def run_tx_def next_faulty_def consume_fault_def
      split: prod.splits sum.splits)

text \<open>\<open>err == pgx.ErrNoRows\<close> is no error: the method yields nil.\<close>

definition read_pool :: "(catalog_db \<Rightarrow> 'a) \<Rightarrow> 'a ctx" where
  "read_pool q = run_tx (query (\<lambda>t s. q s))"

subsection \<open>CategoryRepository\<close>

definition insert_category_stmt :: "category \<Rightarrow> instant \<Rightarrow> catalog_db \<Rightarrow> pg_error + (category \<times> catalog_db)" where
  "insert_category_stmt c t s =
     (if \<not> in_i32 (ctg_sort c) then Inl NumericOutOfRange
      else if ctg_id c \<in> set (map ctg_id (categories s)) then Inl (UniqueViolation ''categories_pkey'')
      else if ctg_slug c \<in> set (map ctg_slug (categories s)) then Inl (UniqueViolation ''categories_slug_key'')
      else if \<not> refs_category (ctg_parent c) s then Inl (ForeignKeyViolation ''categories_parent_id_fkey'')
      else Inr (c\<lparr>ctg_created := t\<rparr>, s\<lparr>categories := categories s @ [c\<lparr>ctg_created := t\<rparr>]\<rparr>))"

definition category_create :: "category \<Rightarrow> category ctx" where
  "category_create c = tx_bind new_uuid (\<lambda>i. run_tx (sql (insert_category_stmt (c\<lparr>ctg_id := i\<rparr>))))"

definition category_by_id :: "uuid \<Rightarrow> category option ctx" where
  "category_by_id i = read_pool (\<lambda>s. find (\<lambda>c. ctg_id c = i) (categories s))"

definition category_by_slug :: "string \<Rightarrow> category option ctx" where
  "category_by_slug g = read_pool (\<lambda>s. find (\<lambda>c. ctg_slug c = g) (categories s))"

text \<open>\<open>ORDER BY sort_order ASC, name ASC\<close>; \<open>name_le\<close> is the database's collation.\<close>

fun insert_by :: "('a \<Rightarrow> 'a \<Rightarrow> bool) \<Rightarrow> 'a \<Rightarrow> 'a list \<Rightarrow> 'a list" where
  "insert_by le x [] = [x]"
| "insert_by le x (y # ys) = (if le x y then x # y # ys else y # insert_by le x ys)"

definition category_list :: "(string \<Rightarrow> string \<Rightarrow> bool) \<Rightarrow> category list ctx" where
  "category_list name_le = read_pool (\<lambda>s. foldr
     (insert_by (\<lambda>a b. ctg_sort a < ctg_sort b \<or> ctg_sort a = ctg_sort b \<and> name_le (ctg_name a) (ctg_name b)))
     (categories s) [])"

definition update_category_stmt :: "category \<Rightarrow> instant \<Rightarrow> catalog_db \<Rightarrow> pg_error + (nat \<times> catalog_db)" where
  "update_category_stmt c t s =
     (let n = length (filter (\<lambda>x. ctg_id x = ctg_id c) (categories s)) in
      if \<not> in_i32 (ctg_sort c) then Inl NumericOutOfRange
      else if n = 0 then Inr (0, s)
      else if \<exists>x \<in> set (categories s). ctg_id x \<noteq> ctg_id c \<and> ctg_slug x = ctg_slug c then
        Inl (UniqueViolation ''categories_slug_key'')
      else if \<not> refs_category (ctg_parent c) s then Inl (ForeignKeyViolation ''categories_parent_id_fkey'')
      else Inr (n, s\<lparr>categories := update_where (\<lambda>x. ctg_id x = ctg_id c)
             (\<lambda>x. x\<lparr>ctg_parent := ctg_parent c, ctg_name := ctg_name c, ctg_slug := ctg_slug c, ctg_sort := ctg_sort c\<rparr>)
             (categories s)\<rparr>))"

definition some_row :: "string \<Rightarrow> nat \<Rightarrow> unit ctx" where
  "some_row msg n = (if n = 0 then tx_throw (Sentinel (ErrCatalogText msg)) else tx_return ())"

definition category_update :: "category \<Rightarrow> unit ctx" where
  "category_update c = run_tx (tx_bind (sql (update_category_stmt c)) (some_row ''category not found''))"

definition delete_category_stmt :: "uuid \<Rightarrow> instant \<Rightarrow> catalog_db \<Rightarrow> pg_error + (nat \<times> catalog_db)" where
  "delete_category_stmt i t s =
     (let n = length (filter (\<lambda>x. ctg_id x = i) (categories s)) in
      if n = 0 then Inr (0, s)
      else if \<exists>x \<in> set (categories s). ctg_id x \<noteq> i \<and> ctg_parent x = Some i then
        Inl (ForeignKeyViolation ''categories_parent_id_fkey'')
      else if \<exists>p \<in> set (products s). prd_category p = Some i then
        Inl (ForeignKeyViolation ''products_category_id_fkey'')
      else Inr (n, s\<lparr>categories := filter (\<lambda>x. ctg_id x \<noteq> i) (categories s)\<rparr>))"

definition category_delete :: "uuid \<Rightarrow> unit ctx" where
  "category_delete i = run_tx (tx_bind (sql (delete_category_stmt i)) (some_row ''category not found''))"

subsection \<open>ProductRepository\<close>

text \<open>Methods with \<open>TxOrPool\<close> are bodies: the service calls them inside a transaction.\<close>

definition insert_product_stmt ::
  "(string \<Rightarrow> bool) \<Rightarrow> product \<Rightarrow> instant \<Rightarrow> catalog_db \<Rightarrow> pg_error + (product \<times> catalog_db)" where
  "insert_product_stmt json_ok p t s =
     (let p' = p\<lparr>prd_created := t, prd_updated := t\<rparr> in
      if \<not> json_ok (attrs_text (prd_attributes p)) then Inl (InvalidTextRepresentation (attrs_text (prd_attributes p)))
      else if prd_id p \<in> set (map prd_id (products s)) then Inl (UniqueViolation ''products_pkey'')
      else if (prd_seller p, prd_slug p) \<in> set (map (\<lambda>x. (prd_seller x, prd_slug x)) (products s)) then
        Inl (UniqueViolation ''products_seller_id_slug_key'')
      else if \<not> refs_category (prd_category p) s then Inl (ForeignKeyViolation ''products_category_id_fkey'')
      else Inr (p', s\<lparr>products := products s @ [p'\<lparr>prd_attributes := Some (attrs_text (prd_attributes p)), prd_image := None\<rparr>]\<rparr>))"

definition product_create :: "(string \<Rightarrow> bool) \<Rightarrow> product \<Rightarrow> product ctx" where
  "product_create json_ok p = tx_bind new_uuid (\<lambda>i. sql (insert_product_stmt json_ok (p\<lparr>prd_id := i\<rparr>)))"

definition product_by_id :: "uuid \<Rightarrow> product option ctx" where
  "product_by_id i = read_pool (\<lambda>s. find (\<lambda>p. prd_id p = i) (products s))"

definition product_by_slug :: "string \<Rightarrow> product option ctx" where
  "product_by_slug g = read_pool (\<lambda>s. find (\<lambda>p. prd_slug p = g) (products s))"

definition filter_product :: "product_filter \<Rightarrow> product \<Rightarrow> bool" where
  "filter_product f p \<longleftrightarrow>
     (case pft_seller f of None \<Rightarrow> True | Some x \<Rightarrow> prd_seller p = x)
     \<and> (case pft_status f of None \<Rightarrow> True | Some x \<Rightarrow> prd_status p = x)
     \<and> (case pft_category f of None \<Rightarrow> True | Some x \<Rightarrow> prd_category p = Some x)"

text \<open>Postgres refuses a negative \<open>LIMIT\<close> or \<open>OFFSET\<close>.\<close>

definition product_list :: "product_filter \<Rightarrow> int \<Rightarrow> int \<Rightarrow> (product list \<times> nat) ctx" where
  "product_list f lim off = run_tx (
     tx_bind (query (\<lambda>t s. length (filter (filter_product f) (products s)))) (\<lambda>n.
     tx_bind (sql (\<lambda>t s. if lim < 0 \<or> off < 0 then Inl NumericOutOfRange
       else Inr (take (nat lim) (drop (nat off)
         (sort_key (\<lambda>p. - prd_created p) (filter (filter_product f) (products s)))), s))) (\<lambda>rows.
     tx_return (rows, n))))"

definition update_product_stmt ::
  "(string \<Rightarrow> bool) \<Rightarrow> product \<Rightarrow> instant \<Rightarrow> catalog_db \<Rightarrow> pg_error + (nat \<times> catalog_db)" where
  "update_product_stmt json_ok p t s =
     (if \<not> json_ok (attrs_text (prd_attributes p)) then Inl (InvalidTextRepresentation (attrs_text (prd_attributes p)))
      else (case find (\<lambda>x. prd_id x = prd_id p) (products s) of
         None \<Rightarrow> Inr (0, s)
       | Some y \<Rightarrow>
           if \<exists>x \<in> set (products s). prd_id x \<noteq> prd_id p \<and> prd_seller x = prd_seller y \<and> prd_slug x = prd_slug p then
             Inl (UniqueViolation ''products_seller_id_slug_key'')
           else if \<not> refs_category (prd_category p) s then Inl (ForeignKeyViolation ''products_category_id_fkey'')
           else Inr (1, s\<lparr>products := update_where (\<lambda>x. prd_id x = prd_id p)
             (\<lambda>x. x\<lparr>prd_name := prd_name p, prd_slug := prd_slug p, prd_description := prd_description p,
                    prd_category := prd_category p, prd_attributes := Some (attrs_text (prd_attributes p)),
                    prd_updated := t\<rparr>) (products s)\<rparr>)))"

definition product_update :: "(string \<Rightarrow> bool) \<Rightarrow> product \<Rightarrow> unit ctx" where
  "product_update json_ok p = tx_bind (sql (update_product_stmt json_ok p)) (some_row ''product not found'')"

definition product_update_status :: "uuid \<Rightarrow> string \<Rightarrow> unit ctx" where
  "product_update_status i st =
     tx_bind (sql (\<lambda>t s. Inr (length (filter (\<lambda>x. prd_id x = i) (products s)),
       s\<lparr>products := update_where (\<lambda>x. prd_id x = i) (\<lambda>x. x\<lparr>prd_status := st, prd_updated := t\<rparr>) (products s)\<rparr>)))
     (some_row ''product not found'')"

definition skus_of :: "uuid \<Rightarrow> catalog_db \<Rightarrow> sku list" where
  "skus_of i s = sort_key ksk_created (filter (\<lambda>k. ksk_product k = i) (skus s))"

definition product_with_skus :: "(product \<Rightarrow> bool) \<Rightarrow> (product \<times> sku list) option ctx" where
  "product_with_skus q = run_tx (
     tx_bind (query (\<lambda>t s. find q (products s))) (\<lambda>p.
     case p of
       None \<Rightarrow> tx_return None
     | Some x \<Rightarrow> tx_bind (query (\<lambda>t s. skus_of (prd_id x) s)) (\<lambda>ks. tx_return (Some (x, ks)))))"

definition product_with_skus_by_id :: "uuid \<Rightarrow> (product \<times> sku list) option ctx" where
  "product_with_skus_by_id i = product_with_skus (\<lambda>p. prd_id p = i)"

definition product_with_skus_by_slug :: "string \<Rightarrow> (product \<times> sku list) option ctx" where
  "product_with_skus_by_slug g = product_with_skus (\<lambda>p. prd_slug p = g)"

subsection \<open>SKURepository\<close>

definition insert_sku_stmt ::
  "(string \<Rightarrow> bool) \<Rightarrow> sku \<Rightarrow> instant \<Rightarrow> catalog_db \<Rightarrow> pg_error + (sku \<times> catalog_db)" where
  "insert_sku_stmt json_ok k t s =
     (let k' = k\<lparr>ksk_created := t, ksk_updated := t\<rparr> in
      if \<not> json_ok (attrs_text (ksk_attributes k)) then Inl (InvalidTextRepresentation (attrs_text (ksk_attributes k)))
      else if ksk_id k \<in> set (map ksk_id (skus s)) then Inl (UniqueViolation ''skus_pkey'')
      else if (ksk_seller k, ksk_code k) \<in> set (map (\<lambda>x. (ksk_seller x, ksk_code x)) (skus s)) then
        Inl (UniqueViolation ''skus_seller_id_sku_code_key'')
      else if ksk_product k \<notin> set (map prd_id (products s)) then Inl (ForeignKeyViolation ''skus_product_id_fkey'')
      else Inr (k', s\<lparr>skus := skus s @ [k'\<lparr>ksk_attributes := Some (attrs_text (ksk_attributes k))\<rparr>]\<rparr>))"

definition sku_create :: "(string \<Rightarrow> bool) \<Rightarrow> sku \<Rightarrow> sku ctx" where
  "sku_create json_ok k = tx_bind new_uuid (\<lambda>i. sql (insert_sku_stmt json_ok (k\<lparr>ksk_id := i\<rparr>)))"

definition sku_by_id :: "uuid \<Rightarrow> sku option ctx" where
  "sku_by_id i = read_pool (\<lambda>s. find (\<lambda>k. ksk_id k = i) (skus s))"

definition sku_list :: "uuid \<Rightarrow> sku list ctx" where
  "sku_list i = read_pool (skus_of i)"

text \<open>\<open>Update\<close> and \<open>UpdateStatus\<close> always open a transaction of their own on the pool.\<close>

definition update_sku_stmt ::
  "(string \<Rightarrow> bool) \<Rightarrow> sku \<Rightarrow> instant \<Rightarrow> catalog_db \<Rightarrow> pg_error + (nat \<times> catalog_db)" where
  "update_sku_stmt json_ok k t s =
     (if \<not> json_ok (attrs_text (ksk_attributes k)) then Inl (InvalidTextRepresentation (attrs_text (ksk_attributes k)))
      else (case find (\<lambda>x. ksk_id x = ksk_id k) (skus s) of
         None \<Rightarrow> Inr (0, s)
       | Some y \<Rightarrow>
           if \<exists>x \<in> set (skus s). ksk_id x \<noteq> ksk_id k \<and> ksk_seller x = ksk_seller y \<and> ksk_code x = ksk_code k then
             Inl (UniqueViolation ''skus_seller_id_sku_code_key'')
           else Inr (1, s\<lparr>skus := update_where (\<lambda>x. ksk_id x = ksk_id k)
             (\<lambda>x. x\<lparr>ksk_code := ksk_code k, ksk_price := ksk_price k, ksk_currency := ksk_currency k,
                    ksk_attributes := Some (attrs_text (ksk_attributes k)), ksk_updated := t\<rparr>) (skus s)\<rparr>)))"

definition sku_update :: "(string \<Rightarrow> bool) \<Rightarrow> sku \<Rightarrow> unit ctx" where
  "sku_update json_ok k = run_tx (tx_bind (sql (update_sku_stmt json_ok k)) (some_row ''sku not found''))"

definition sku_update_status :: "uuid \<Rightarrow> string \<Rightarrow> unit ctx" where
  "sku_update_status i st = run_tx (
     tx_bind (sql (\<lambda>t s. Inr (length (filter (\<lambda>x. ksk_id x = i) (skus s)),
       s\<lparr>skus := update_where (\<lambda>x. ksk_id x = i) (\<lambda>x. x\<lparr>ksk_status := st, ksk_updated := t\<rparr>) (skus s)\<rparr>)))
     (some_row ''sku not found''))"

text \<open>The cheapest SKU of a product, of whatever status.\<close>

definition cheapest_of :: "uuid \<Rightarrow> catalog_db \<Rightarrow> (int \<times> string) option" where
  "cheapest_of i s =
     (case sort_key ksk_price (filter (\<lambda>k. ksk_product k = i) (skus s)) of
        [] \<Rightarrow> None
      | k # ks \<Rightarrow> Some (ksk_price k, ksk_currency k))"

definition cheapest_price :: "uuid \<Rightarrow> (int \<times> string) option ctx" where
  "cheapest_price i = query (\<lambda>t s. cheapest_of i s)"

definition batch_get_mappings :: "uuid list \<Rightarrow> (uuid \<times> uuid \<times> uuid) list ctx" where
  "batch_get_mappings is =
     (if is = [] then tx_return []
      else pool_stmt (query (\<lambda>t s.
        map (\<lambda>k. (ksk_id k, ksk_product k, ksk_seller k)) (filter (\<lambda>k. ksk_id k \<in> set is) (skus s)))))"

subsection \<open>OutboxRepository\<close>

abbreviation on_cmail :: "(catalog_err, 'a) obx \<Rightarrow> 'a ctx" where
  "on_cmail m \<equiv> within cmail (\<lambda>v s. s\<lparr>cmail := v\<rparr>) m"

definition append_product_event :: "string \<Rightarrow> (string \<times> json) list \<Rightarrow> unit ctx" where
  "append_product_event ty d = on_cmail (append_outbox ty ''product-events'' d)"

definition catalog_relay_run :: "(outbox_row \<Rightarrow> string option) \<Rightarrow> unit ctx" where
  "catalog_relay_run publisher = on_cmail (relay_run publisher)"

end
