(* ===== verification/Catalog_Service.thy ===== *)
theory Catalog_Service
  imports Catalog_Store
begin

text \<open>
  Catalog service, use cases (internal/app/catalog_service.go). A caller is the seller of the request's
  tenant context, if there is one. A payload has the fields of its protobuf message as protojson writes
  them: zero values are left out, an \<open>int64\<close> is its decimal text. A use case that reads on the pool and
  then writes is split at the read (\<open>\<dots>_read\<close>).
\<close>

type_synonym tenant = "uuid option"

subsection \<open>Categories\<close>

definition create_category :: "category \<Rightarrow> category ctx" where
  "create_category c =
     tx_bind (or_internal ''failed to check category slug'' (category_by_slug (ctg_slug c))) (\<lambda>x.
     case x of
       Some _ \<Rightarrow> tx_throw (Sentinel ErrCategorySlugConflict)
     | None \<Rightarrow> or_internal ''failed to create category'' (category_create c))"

definition list_categories :: "(string \<Rightarrow> string \<Rightarrow> bool) \<Rightarrow> category list ctx" where
  "list_categories name_le = or_internal ''failed to list categories'' (category_list name_le)"

definition update_category :: "category \<Rightarrow> unit ctx" where
  "update_category c =
     tx_bind (or_internal ''failed to get category'' (category_by_id (ctg_id c))) (\<lambda>x.
     case x of
       None \<Rightarrow> tx_throw (Sentinel ErrCategoryNotFound)
     | Some _ \<Rightarrow> or_internal ''failed to update category'' (category_update c))"

subsection \<open>Event payloads\<close>

definition category_ids_of :: "product \<Rightarrow> uuid list" where
  "category_ids_of p = (case prd_category p of None \<Rightarrow> [] | Some c \<Rightarrow> [c])"

text \<open>The lookup runs on the pool, also inside a transaction; its errors are only logged.\<close>

definition category_name_of :: "catalog_db \<Rightarrow> product \<Rightarrow> string ctx" where
  "category_name_of committed p =
     (case prd_category p of
        None \<Rightarrow> tx_return ''''
      | Some i \<Rightarrow>
          tx_bind (tx_catch (seeing committed (category_by_id i)) (\<lambda>_. tx_return None)) (\<lambda>c.
          tx_return (case c of None \<Rightarrow> '''' | Some x \<Rightarrow> ctg_name x)))"

text \<open>This one joins the transaction; its errors are only logged, too.\<close>

definition cheapest_price_of :: "uuid \<Rightarrow> (int \<times> string) ctx" where
  "cheapest_price_of i =
     tx_bind (tx_catch (cheapest_price i) (\<lambda>_. tx_return None)) (\<lambda>r.
     tx_return (case r of None \<Rightarrow> (0, '''') | Some x \<Rightarrow> x))"

definition proto_i64 :: "string \<Rightarrow> int \<Rightarrow> (string \<times> json) list" where
  "proto_i64 k n = (if n = 0 then [] else [(k, JStr (decimal n))])"

definition proto_list :: "string \<Rightarrow> string list \<Rightarrow> (string \<times> json) list" where
  "proto_list k xs = (if xs = [] then [] else [(k, JList (map JStr xs))])"

text \<open>\<open>ProductCreated\<close> and \<open>ProductUpdated\<close> have the same fields.\<close>

definition product_data :: "product \<Rightarrow> int \<times> string \<Rightarrow> string \<Rightarrow> (string \<times> json) list" where
  "product_data p price cname =
     [(''id'', JStr (prd_id p)), (''seller_id'', JStr (prd_seller p))]
     @ omit_empty ''name'' (prd_name p) @ omit_empty ''slug'' (prd_slug p)
     @ omit_empty ''description'' (prd_description p) @ omit_empty ''status'' (prd_status p)
     @ proto_list ''category_ids'' (category_ids_of p)
     @ proto_i64 ''cheapest_price_amount'' (fst price) @ omit_empty ''cheapest_price_currency'' (snd price)
     @ omit_empty ''category_name'' cname"

definition deleted_data :: "uuid \<Rightarrow> (string \<times> json) list" where
  "deleted_data i = [(''id'', JStr i)]"

text \<open>Looking up price and category, then the outbox row.\<close>

definition append_product :: "catalog_db \<Rightarrow> string \<Rightarrow> product \<Rightarrow> unit ctx" where
  "append_product committed ty p =
     tx_bind (cheapest_price_of (prd_id p)) (\<lambda>price.
     tx_bind (category_name_of committed p) (\<lambda>cname.
     append_product_event ty (product_data p price cname)))"

subsection \<open>Products\<close>

definition owned_product :: "tenant \<Rightarrow> product \<Rightarrow> product" where
  "owned_product me p = (case me of None \<Rightarrow> p | Some s \<Rightarrow> p\<lparr>prd_seller := s\<rparr>)"

definition create_skus :: "(string \<Rightarrow> bool) \<Rightarrow> product \<Rightarrow> sku list \<Rightarrow> unit ctx" where
  "create_skus json_ok p ks =
     tx_for ks (\<lambda>k u. or_internal ''failed to create sku''
       (tx_bind (sku_create json_ok (k\<lparr>ksk_product := prd_id p, ksk_seller := prd_seller p, ksk_status := ''draft''\<rparr>))
         (\<lambda>_. tx_return ()))) ()"

definition create_product_tx :: "(string \<Rightarrow> bool) \<Rightarrow> product \<Rightarrow> sku list \<Rightarrow> product ctx" where
  "create_product_tx json_ok p ks = service_tx (\<lambda>committed.
     tx_bind (or_internal ''failed to create product'' (product_create json_ok p)) (\<lambda>p.
     tx_bind (create_skus json_ok p ks) (\<lambda>_.
     tx_bind (append_product committed ''product.created'' p) (\<lambda>_. tx_return p))))"

definition create_product :: "(string \<Rightarrow> bool) \<Rightarrow> tenant \<Rightarrow> product \<Rightarrow> sku list \<Rightarrow> product ctx" where
  "create_product json_ok me p0 ks =
     (let p = owned_product me p0 in
      if prd_seller p = nil_uuid then tx_throw (Sentinel ErrSellerRequired)
      else
        tx_bind (or_internal ''failed to check product slug'' (product_by_slug (prd_slug p))) (\<lambda>x.
        case x of
          Some _ \<Rightarrow> tx_throw (Sentinel ErrProductSlugConflict)
        | None \<Rightarrow> create_product_tx json_ok (p\<lparr>prd_status := ''draft''\<rparr>) ks))"

definition get_product_by_slug :: "string \<Rightarrow> (product \<times> sku list) ctx" where
  "get_product_by_slug g =
     tx_bind (or_internal ''failed to get product'' (product_with_skus_by_slug g)) (\<lambda>x.
     case x of None \<Rightarrow> tx_throw (Sentinel ErrProductNotFound) | Some y \<Rightarrow> tx_return y)"

definition get_product_by_id :: "uuid \<Rightarrow> product ctx" where
  "get_product_by_id i =
     tx_bind (or_internal ''failed to get product'' (product_by_id i)) (\<lambda>x.
     case x of None \<Rightarrow> tx_throw (Sentinel ErrProductNotFound) | Some y \<Rightarrow> tx_return y)"

definition list_products :: "tenant \<Rightarrow> product_filter \<Rightarrow> int \<Rightarrow> int \<Rightarrow> (product list \<times> nat) ctx" where
  "list_products me f lim off = or_internal ''failed to list products'' (product_list
     (case me of Some s \<Rightarrow> f\<lparr>pft_seller := Some s\<rparr> | None \<Rightarrow> f\<lparr>pft_status := Some ''active''\<rparr>) lim off)"

definition not_owner :: "tenant \<Rightarrow> product \<Rightarrow> bool" where
  "not_owner me x \<longleftrightarrow> (case me of None \<Rightarrow> False | Some s \<Rightarrow> prd_seller x \<noteq> s)"

definition update_product_tx :: "(string \<Rightarrow> bool) \<Rightarrow> product \<Rightarrow> unit ctx" where
  "update_product_tx json_ok p = service_tx (\<lambda>committed.
     tx_bind (or_internal ''failed to update product'' (product_update json_ok p)) (\<lambda>_.
     append_product committed ''product.updated'' p))"

definition backfilled :: "product \<Rightarrow> product \<Rightarrow> product" where
  "backfilled x p = p\<lparr>prd_seller := prd_seller x, prd_status := (if prd_status p = '''' then prd_status x else prd_status p)\<rparr>"

definition update_product_read :: "(string \<Rightarrow> bool) \<Rightarrow> tenant \<Rightarrow> product \<Rightarrow> product \<Rightarrow> product ctx" where
  "update_product_read json_ok me p x =
     (if not_owner me x then tx_throw (Sentinel ErrNotProductOwner)
      else tx_bind (update_product_tx json_ok (backfilled x p)) (\<lambda>_. tx_return (backfilled x p)))"

definition update_product :: "(string \<Rightarrow> bool) \<Rightarrow> tenant \<Rightarrow> product \<Rightarrow> product ctx" where
  "update_product json_ok me p = tx_bind (get_product_by_id (prd_id p)) (update_product_read json_ok me p)"

definition update_status_tx :: "uuid \<Rightarrow> string \<Rightarrow> product \<Rightarrow> unit ctx" where
  "update_status_tx i st x = service_tx (\<lambda>committed.
     tx_bind (or_internal ''failed to update product status'' (product_update_status i st)) (\<lambda>_.
     if st = ''archived'' then append_product_event ''product.deleted'' (deleted_data i)
     else append_product committed ''product.updated'' (x\<lparr>prd_id := i, prd_status := st\<rparr>)))"

definition update_status_read :: "tenant \<Rightarrow> uuid \<Rightarrow> string \<Rightarrow> product \<Rightarrow> unit ctx" where
  "update_status_read me i st x =
     (if not_owner me x then tx_throw (Sentinel ErrNotProductOwner) else update_status_tx i st x)"

definition update_product_status :: "tenant \<Rightarrow> uuid \<Rightarrow> string \<Rightarrow> unit ctx" where
  "update_product_status me i st = tx_bind (get_product_by_id i) (update_status_read me i st)"

definition archive_product :: "tenant \<Rightarrow> uuid \<Rightarrow> unit ctx" where
  "archive_product me i = update_product_status me i ''archived''"

subsection \<open>SKUs\<close>

text \<open>\<open>appendProductUpdatedOutbox\<close>: the product is read on the pool.\<close>

definition append_product_updated :: "catalog_db \<Rightarrow> uuid \<Rightarrow> unit ctx" where
  "append_product_updated committed i =
     tx_bind (or_internal ''failed to get product for sku event'' (seeing committed (product_by_id i))) (\<lambda>x.
     case x of None \<Rightarrow> tx_return () | Some p \<Rightarrow> append_product committed ''product.updated'' p)"

definition create_sku_read :: "(string \<Rightarrow> bool) \<Rightarrow> sku \<Rightarrow> product \<Rightarrow> sku ctx" where
  "create_sku_read json_ok k x = service_tx (\<lambda>committed.
     tx_bind (or_internal ''failed to create sku''
       (sku_create json_ok (k\<lparr>ksk_seller := prd_seller x, ksk_status := ''draft''\<rparr>))) (\<lambda>k.
     tx_bind (append_product_updated committed (ksk_product k)) (\<lambda>_. tx_return k)))"

definition create_sku :: "(string \<Rightarrow> bool) \<Rightarrow> sku \<Rightarrow> sku ctx" where
  "create_sku json_ok k =
     tx_bind (or_internal ''failed to verify product'' (product_by_id (ksk_product k))) (\<lambda>x.
     case x of None \<Rightarrow> tx_throw (Sentinel ErrProductNotFound) | Some p \<Rightarrow> create_sku_read json_ok k p)"

definition batch_get_sku_mappings :: "uuid list \<Rightarrow> (uuid \<times> uuid \<times> uuid) list ctx" where
  "batch_get_sku_mappings is = or_internal ''failed to batch get sku mappings'' (batch_get_mappings is)"

definition get_sku :: "uuid \<Rightarrow> sku ctx" where
  "get_sku i =
     tx_bind (or_internal ''failed to get sku'' (sku_by_id i)) (\<lambda>x.
     case x of None \<Rightarrow> tx_throw (Sentinel ErrSKUNotFound) | Some k \<Rightarrow> tx_return k)"

record sku_lookup =
  klk_id :: uuid
  klk_product :: uuid
  klk_seller :: uuid
  klk_name :: string
  klk_code :: string
  klk_price :: int
  klk_currency :: string
  klk_status :: string

definition get_sku_with_product_name :: "uuid \<Rightarrow> sku_lookup ctx" where
  "get_sku_with_product_name i =
     tx_bind (get_sku i) (\<lambda>k.
     tx_bind (or_internal ''failed to get product for sku'' (product_by_id (ksk_product k))) (\<lambda>x.
     case x of
       None \<Rightarrow> tx_throw (not_found ''product not found for sku'')
     | Some p \<Rightarrow> tx_return \<lparr>klk_id = ksk_id k, klk_product = ksk_product k, klk_seller = ksk_seller k,
         klk_name = prd_name p, klk_code = ksk_code k, klk_price = ksk_price k, klk_currency = ksk_currency k,
         klk_status = ksk_status k\<rparr>))"

definition list_skus :: "uuid \<Rightarrow> sku list ctx" where
  "list_skus i = or_internal ''failed to list skus'' (sku_list i)"

text \<open>The write to the SKU commits by itself, before the event is appended.\<close>

definition update_sku_tx :: "unit ctx \<Rightarrow> uuid \<Rightarrow> unit ctx" where
  "update_sku_tx pool_write product =
     tx_bind begin_tx (\<lambda>_. tx_bind pool_write (\<lambda>_. finish_tx (\<lambda>committed. append_product_updated committed product)))"

definition update_sku :: "(string \<Rightarrow> bool) \<Rightarrow> sku \<Rightarrow> unit ctx" where
  "update_sku json_ok k =
     tx_bind (get_sku (ksk_id k)) (\<lambda>x.
     update_sku_tx (or_internal ''failed to update sku'' (sku_update json_ok k)) (ksk_product x))"

definition update_sku_status :: "uuid \<Rightarrow> string \<Rightarrow> unit ctx" where
  "update_sku_status i st =
     tx_bind (get_sku i) (\<lambda>x.
     update_sku_tx (or_internal ''failed to update sku status'' (sku_update_status i st)) (ksk_product x))"

end
