(* ===== verification/Catalog_Invariant.thy ===== *)
theory Catalog_Invariant
  imports Catalog_Service
begin

text \<open>
  Catalog service: the outbox tells what the tables hold. The log of a database is the sequence of
  events its outbox has ever been given; the last one about a product states the product as it is. A
  use case that reads and then writes is two steps of the service, with others in between, unless the
  service is \<open>calm\<close>: requests run one after the other, and no update of a SKU breaks off between its
  commit and the one of its event. What holds without calm is weaker.
\<close>

type_synonym product_note = "string \<times> (string \<times> json) list"

definition note_of :: "outbox_row \<Rightarrow> product_note" where
  "note_of r = (ob_type r, ob_payload r)"

definition product_log :: "catalog_db \<Rightarrow> product_note list" where
  "product_log s = map note_of (outbox (cmail s))"

definition is_about :: "uuid \<Rightarrow> product_note \<Rightarrow> bool" where
  "is_about i n \<longleftrightarrow> map_of (snd n) ''id'' = Some (JStr i)"

definition last_word :: "uuid \<Rightarrow> product_note list \<Rightarrow> product_note option" where
  "last_word i l = find (is_about i) (rev l)"

definition quote_of :: "uuid \<Rightarrow> catalog_db \<Rightarrow> int \<times> string" where
  "quote_of i s = (case cheapest_of i s of None \<Rightarrow> (0, '''') | Some x \<Rightarrow> x)"

definition states_product :: "product \<Rightarrow> int \<times> string \<Rightarrow> product_note \<Rightarrow> bool" where
  "states_product p price n \<longleftrightarrow>
     (n = (''product.deleted'', deleted_data (prd_id p)) \<and> prd_status p = ''archived'')
     \<or> (\<exists>ty cname. ty \<in> {''product.created'', ''product.updated''} \<and> n = (ty, product_data p price cname))"

text \<open>An event names the seller of its product, or no seller at all.\<close>

definition of_seller :: "product \<Rightarrow> product_note \<Rightarrow> bool" where
  "of_seller p n \<longleftrightarrow> map_of (snd n) ''seller_id'' \<in> {None, Some (JStr (prd_seller p))}"

definition told :: "bool \<Rightarrow> catalog_db \<Rightarrow> product \<Rightarrow> bool" where
  "told calm s p \<longleftrightarrow> (\<exists>n. last_word (prd_id p) (product_log s) = Some n
     \<and> (calm \<longrightarrow> states_product p (quote_of (prd_id p) s) n))"

definition catalog_keys :: "catalog_db \<Rightarrow> bool" where
  "catalog_keys s \<longleftrightarrow> distinct (map prd_id (products s))
     \<and> distinct (map (\<lambda>p. (prd_seller p, prd_slug p)) (products s))
     \<and> distinct (map ksk_id (skus s)) \<and> distinct (map (\<lambda>k. (ksk_seller k, ksk_code k)) (skus s))
     \<and> (\<forall>k \<in> set (skus s). \<exists>p \<in> set (products s). prd_id p = ksk_product k \<and> prd_seller p = ksk_seller k)"

definition catalog_inv :: "bool \<Rightarrow> catalog_db \<Rightarrow> bool" where
  "catalog_inv calm s \<longleftrightarrow> catalog_keys s \<and> outbox_ok (cmail s)
     \<and> (\<forall>p \<in> set (products s). told calm s p)
     \<and> (\<forall>n \<in> set (product_log s). \<exists>p \<in> set (products s). is_about (prd_id p) n \<and> of_seller p n)"

text \<open>Rows that were read: still there, with what cannot change; in a calm service, unchanged.\<close>

definition seen :: "bool \<Rightarrow> product \<Rightarrow> catalog_db \<Rightarrow> bool" where
  "seen calm x s \<longleftrightarrow> (\<exists>y \<in> set (products s). prd_id y = prd_id x \<and> prd_seller y = prd_seller x \<and> (calm \<longrightarrow> y = x))"

definition seen_sku :: "sku \<Rightarrow> catalog_db \<Rightarrow> bool" where
  "seen_sku x s \<longleftrightarrow> (\<exists>k \<in> set (skus s). ksk_id k = ksk_id x \<and> ksk_product k = ksk_product x)"

text \<open>\<open>rows_stay\<close>: what later steps never undo.\<close>

definition rows_stay :: "catalog_db \<Rightarrow> catalog_db \<Rightarrow> bool" where
  "rows_stay s s' \<longleftrightarrow>
     (\<forall>p \<in> set (products s). \<exists>p' \<in> set (products s'). prd_id p' = prd_id p \<and> prd_seller p' = prd_seller p)
     \<and> (\<forall>k \<in> set (skus s). \<exists>k' \<in> set (skus s'). ksk_id k' = ksk_id k \<and> ksk_product k' = ksk_product k)"

definition good_for :: "bool \<Rightarrow> catalog_db \<Rightarrow> catalog_db \<Rightarrow> bool" where
  "good_for calm s s' \<longleftrightarrow> catalog_inv calm s' \<and> rows_stay s s'"

lemma rows_stay_refl [simp]: "rows_stay s s"
  by (auto simp: rows_stay_def)

lemma rows_stay_trans: "rows_stay s s1 \<Longrightarrow> rows_stay s1 s2 \<Longrightarrow> rows_stay s s2"
  unfolding rows_stay_def by metis

lemma seen_stays: "seen False x s \<Longrightarrow> rows_stay s s' \<Longrightarrow> seen False x s'"
  unfolding seen_def rows_stay_def by metis

lemma seen_sku_stays: "seen_sku x s \<Longrightarrow> rows_stay s s' \<Longrightarrow> seen_sku x s'"
  unfolding seen_sku_def rows_stay_def by metis

subsection \<open>Notes\<close>

lemma about_product_data [simp]: "is_about i (ty, product_data p price cname) \<longleftrightarrow> i = prd_id p"
  by (auto simp: is_about_def product_data_def)

lemma about_deleted_data [simp]: "is_about i (ty, deleted_data j) \<longleftrightarrow> i = j"
  by (auto simp: is_about_def deleted_data_def)

lemma seller_product_data [simp]: "of_seller p (ty, product_data q price cname) \<longleftrightarrow> prd_seller q = prd_seller p"
  by (auto simp: of_seller_def product_data_def)

lemma seller_deleted_data [simp]: "of_seller p (ty, deleted_data j)"
  by (simp add: of_seller_def deleted_data_def)

lemma last_word_append [simp]: "last_word i (l @ [n]) = (if is_about i n then Some n else last_word i l)"
  by (simp add: last_word_def)

lemma product_data_cong:
  "prd_id p = prd_id q \<Longrightarrow> prd_seller p = prd_seller q \<Longrightarrow> prd_name p = prd_name q \<Longrightarrow> prd_slug p = prd_slug q \<Longrightarrow>
   prd_description p = prd_description q \<Longrightarrow> prd_status p = prd_status q \<Longrightarrow> prd_category p = prd_category q \<Longrightarrow>
   product_data p price cname = product_data q price cname"
  by (simp add: product_data_def category_ids_of_def)

definition logged :: "product_note \<Rightarrow> catalog_db \<Rightarrow> catalog_db \<Rightarrow> bool" where
  "logged n s s' \<longleftrightarrow> outbox_ok (cmail s') \<and> product_log s' = product_log s @ [n]"

text \<open>
  The one way tables change: some rows of one product, its SKUs, and an event about it. Every other
  product rows_stay as it is.
\<close>

lemma catalog_change:
  assumes inv: "catalog_inv calm s" and log: "logged n s s'" and i: "is_about i n" "\<And>j. is_about j n \<Longrightarrow> j = i"
    and other: "\<And>p. p \<in> set (products s') \<Longrightarrow> prd_id p \<noteq> i \<Longrightarrow> p \<in> set (products s) \<and> quote_of (prd_id p) s' = quote_of (prd_id p) s"
    and row: "\<And>p. p \<in> set (products s') \<Longrightarrow> prd_id p = i \<Longrightarrow> of_seller p n \<and> (calm \<longrightarrow> states_product p (quote_of i s') n)"
    and ex: "\<exists>p \<in> set (products s'). prd_id p = i" and rows_stay: "rows_stay s s'" and keys: "catalog_keys s'"
  shows "good_for calm s s'"
proof -
  have "told calm s' p" if p: "p \<in> set (products s')" for p
  proof (cases "prd_id p = i")
    case True
    then show ?thesis using row [OF p True] log i(1) by (simp add: told_def logged_def)
  next
    case False
    with other [OF p] inv have "told calm s p" by (auto simp: catalog_inv_def)
    moreover have "\<not> is_about (prd_id p) n" using i(2) False by blast
    ultimately show ?thesis using other [OF p False] log by (simp add: told_def logged_def)
  qed
  moreover have "\<exists>p \<in> set (products s'). is_about (prd_id p) m \<and> of_seller p m" if "m \<in> set (product_log s')" for m
  proof (cases "m = n")
    case True
    with ex row i show ?thesis by blast
  next
    case False
    with that log have "m \<in> set (product_log s)" by (auto simp: logged_def)
    then obtain p where "p \<in> set (products s)" "is_about (prd_id p) m" "of_seller p m"
      using inv by (auto simp: catalog_inv_def)
    with rows_stay show ?thesis unfolding rows_stay_def of_seller_def by metis
  qed
  ultimately show ?thesis
    using keys log rows_stay by (simp add: good_for_def catalog_inv_def logged_def)
qed

lemma quote_of_cong: "filter (\<lambda>k. ksk_product k = i) (skus s) = filter (\<lambda>k. ksk_product k = i) (skus s') \<Longrightarrow> quote_of i s = quote_of i s'"
  by (simp add: quote_of_def cheapest_of_def)

subsection \<open>The event of a transaction\<close>

lemma wp_append_product_event:
  assumes "\<And>w'. logged (ty, d) (store w) (store w') \<Longrightarrow> products (store w') = products (store w) \<Longrightarrow>
     skus (store w') = skus (store w) \<Longrightarrow> \<not> aborted w \<Longrightarrow> Q () w'"
    and "outbox_ok (cmail (store w))"
  shows "wp (append_product_event ty d) Q w"
proof (rule wpI)
  fix u w'
  assume m: "append_product_event ty d w = (Inr u, w')"
  define r where "r = \<lparr>ob_id = uuids w (uuid_next w), ob_type = ty, ob_topic = ''product-events'', ob_payload = d,
    ob_created = clock w, ob_published = None, ob_processing = None, ob_attempts = 0, ob_error = None\<rparr>"
  from m have w': "store w' = (store w)\<lparr>cmail := (cmail (store w))\<lparr>outbox := outbox (cmail (store w)) @ [r]\<rparr>\<rparr>"
    "\<not> aborted w" "ob_id r \<notin> ob_id ` set (outbox (cmail (store w)))"
    by (auto simp: append_product_event_def within_def append_outbox_def tx_bind_def new_uuid_def sql_def r_def
        insert_outbox_stmt_def split: sum.splits if_splits)
  then have "logged (ty, d) (store w) (store w')"
    using assms(2) by (auto simp: logged_def product_log_def outbox_ok_def note_of_def r_def)
  with assms(1) [of w'] w' show "Q u w'" by simp
qed

lemma wp_aborted: "aborted w \<Longrightarrow> wp (append_product_event ty d) Q w"
  by (simp add: wp_def append_product_event_def within_def append_outbox_def tx_bind_def new_uuid_def sql_def)

lemma reads_seeing: "store (snd (seeing c m w)) = store w"
  by (simp add: seeing_def split: prod.splits)

lemma seeing_aborted: "aborted (snd (seeing c (read_pool q) w)) = aborted w"
proof -
  obtain r v where m: "(run_tx (query (\<lambda>t s. q s)) :: 'a ctx) (w\<lparr>store := c\<rparr>) = (r, v)" by fastforce
  with run_tx_aborted [of "query (\<lambda>t s. q s) :: 'a ctx" "w\<lparr>store := c\<rparr>"] have "aborted v = aborted w" by simp
  with m show ?thesis by (simp add: seeing_def read_pool_def)
qed

lemma wp_seeing_or_none:
  assumes "\<And>x w'. store w' = store w \<Longrightarrow> aborted w' = aborted w \<Longrightarrow> Q x w'"
  shows "wp (tx_catch (seeing c (read_pool q)) (\<lambda>_. tx_return None)) Q w"
proof -
  obtain r v where m: "(seeing c (read_pool q) :: 'a option ctx) w = (r, v)" by fastforce
  with reads_seeing [of c "read_pool q :: 'a option ctx" w] seeing_aborted [of c q w]
  have "store v = store w" "aborted v = aborted w" by simp_all
  with m assms show ?thesis by (cases r) (simp_all add: wp_def tx_catch_def tx_return_def)
qed

lemma wp_category_name_of:
  assumes "\<And>cname w'. store w' = store w \<Longrightarrow> aborted w' = aborted w \<Longrightarrow> Q cname w'"
  shows "wp (category_name_of c p) Q w"
  unfolding category_name_of_def category_by_id_def
  by (intro wp_case_optionI wp_returnI wp_bindI wp_seeing_or_none) (auto intro!: assms)

text \<open>
  An event with the state of a product: if the price cannot be read, the transaction is aborted and
  the event cannot be written.
\<close>

lemma wp_append_product:
  assumes ok: "outbox_ok (cmail (store w))"
    and Q: "\<And>cname (w' :: catalog_db world). logged (ty, product_data p (quote_of (prd_id p) (store w)) cname) (store w) (store w') \<Longrightarrow>
      products (store w') = products (store w) \<Longrightarrow> skus (store w') = skus (store w) \<Longrightarrow> Q () w'"
  shows "wp (append_product c ty p) Q w"
  unfolding append_product_def cheapest_price_of_def cheapest_price_def
proof (intro wp_bindI wp_catchI wp_queryI wp_returnI wp_category_name_of, goal_cases)
  case (1 w1 cname w2)
  then have s: "store w2 = store w" by simp
  show ?case
  proof (rule wp_append_product_event)
    fix w' :: "catalog_db world"
    assume "logged (ty, product_data p (case cheapest_of (prd_id p) (store w) of None \<Rightarrow> (0, []) | Some x \<Rightarrow> x) cname) (store w2) (store w')"
      "products (store w') = products (store w2)" "skus (store w') = skus (store w2)"
    then show "Q () w'" using Q [of cname w'] by (simp add: s quote_of_def)
  qed (simp add: s ok)
next
  case (2 e w1 cname w2)
  from sql_error(2) [OF 2(1) [unfolded query_def]] 2(3) show ?case by (simp add: wp_aborted)
qed

lemma wp_seeing:
  assumes "\<And>w'. store w' = store w \<Longrightarrow> aborted w' = aborted w \<Longrightarrow> Q (q c) w'"
  shows "wp (seeing c (read_pool q)) Q w"
proof (rule wpI)
  fix x w'
  assume m: "seeing c (read_pool q) w = (Inr x, w')"
  have "wp (read_pool q) (\<lambda>x _. x = q c) (w\<lparr>store := c\<rparr>)"
    unfolding read_pool_def by (intro wp_run_txI wp_queryI) simp
  with m have "x = q c" by (auto simp: seeing_def wp_def split: prod.splits sum.splits)
  with m reads_seeing [of c "read_pool q" w] seeing_aborted [of c q w] assms [of w'] show "Q x w'" by simp
qed

subsection \<open>Transactions of the service\<close>

lemma does_service_tx:
  assumes "\<And>w. P (store w) \<Longrightarrow> wp (body (store w)) (\<lambda>_ w'. E (store w) (store w')) w"
  shows "does P E (service_tx body)"
proof -
  have "does (\<lambda>s. P s \<and> s = c) E (run_tx (body c))" for c
    by (rule does_run_tx) (use assms in blast)
  then show ?thesis unfolding does_def service_tx_run by blast
qed

lemma wp_or_internal: "wp m Q w \<Longrightarrow> wp (or_internal msg m) Q w"
  unfolding or_internal_def by (rule wp_map_errorI)

lemma insert_product_result:
  assumes "insert_product_stmt json_ok p t s = Inr (y, s')"
  shows "\<exists>row. s' = s\<lparr>products := products s @ [row]\<rparr> \<and> prd_id y = prd_id p \<and> prd_seller y = prd_seller p
    \<and> prd_id row = prd_id p \<and> prd_seller row = prd_seller p
    \<and> (\<forall>price cname. product_data row price cname = product_data y price cname)
    \<and> prd_id p \<notin> set (map prd_id (products s))
    \<and> (prd_seller row, prd_slug row) \<notin> set (map (\<lambda>x. (prd_seller x, prd_slug x)) (products s))"
  using assms by (auto simp: insert_product_stmt_def Let_def product_data_def category_ids_of_def split: if_splits)

lemma insert_sku_result:
  assumes "insert_sku_stmt json_ok k t s = Inr (y, s')" and "catalog_keys s"
    and "\<exists>p \<in> set (products s). prd_id p = ksk_product k \<and> prd_seller p = ksk_seller k"
  shows "catalog_keys s' \<and> ksk_product y = ksk_product k \<and> (\<exists>row. ksk_product row = ksk_product k \<and> s' = s\<lparr>skus := skus s @ [row]\<rparr>)"
proof -
  define row where "row = k\<lparr>ksk_created := t, ksk_updated := t, ksk_attributes := Some (attrs_text (ksk_attributes k))\<rparr>"
  from assms(1) have new: "s' = s\<lparr>skus := skus s @ [row]\<rparr>" "ksk_product y = ksk_product k" "ksk_id row \<notin> set (map ksk_id (skus s))"
    "(ksk_seller row, ksk_code row) \<notin> set (map (\<lambda>k. (ksk_seller k, ksk_code k)) (skus s))"
    by (auto simp: insert_sku_stmt_def Let_def row_def split: if_splits)
  have "ksk_product row = ksk_product k" "ksk_seller row = ksk_seller k" by (simp_all add: row_def)
  with new assms(2,3) show ?thesis unfolding catalog_keys_def by simp blast
qed

lemma wp_sku_create:
  assumes keys: "catalog_keys (store w)"
    and p: "\<exists>p \<in> set (products (store w)). prd_id p = ksk_product k \<and> prd_seller p = ksk_seller k"
    and Q: "\<And>y row w'. catalog_keys (store w') \<Longrightarrow> ksk_product y = ksk_product k \<Longrightarrow> ksk_product row = ksk_product k \<Longrightarrow>
      store w' = (store w)\<lparr>skus := skus (store w) @ [row]\<rparr> \<Longrightarrow> Q y w'"
  shows "wp (sku_create json_ok k) Q w"
  unfolding sku_create_def
proof (intro wp_bindI wp_new_uuidI wp_sqlI, goal_cases)
  case (1 i w1 y s' w2)
  then have "insert_sku_stmt json_ok (k\<lparr>ksk_id := i\<rparr>) (clock w1) (store w) = Inr (y, store w2)" by simp
  from insert_sku_result [OF this keys] p Q [of w2 y] show ?case by auto
qed

text \<open>SKUs added to one product.\<close>

definition skus_added :: "uuid \<Rightarrow> catalog_db \<Rightarrow> catalog_db \<Rightarrow> bool" where
  "skus_added i s s' \<longleftrightarrow> catalog_keys s' \<and> (\<exists>ks. s' = s\<lparr>skus := skus s @ ks\<rparr> \<and> (\<forall>k \<in> set ks. ksk_product k = i))"

lemma skus_added_simps:
  assumes "skus_added i s s'"
  shows "products s' = products s" "cmail s' = cmail s" "rows_stay s s'" "j \<noteq> i \<Longrightarrow> quote_of j s' = quote_of j s" "catalog_keys s'"
proof -
  from assms obtain ks where s': "s' = s\<lparr>skus := skus s @ ks\<rparr>" "\<forall>k \<in> set ks. ksk_product k = i" "catalog_keys s'"
    by (auto simp: skus_added_def)
  then show "products s' = products s" "cmail s' = cmail s" "rows_stay s s'" "catalog_keys s'" by (auto simp: rows_stay_def)
  assume "j \<noteq> i"
  with s' show "quote_of j s' = quote_of j s" by (intro quote_of_cong) (auto simp: filter_empty_conv)
qed

lemma wp_create_skus:
  assumes keys: "catalog_keys (store w)" and p: "\<exists>x \<in> set (products (store w)). prd_id x = prd_id p \<and> prd_seller x = prd_seller p"
    and Q: "\<And>w'. skus_added (prd_id p) (store w) (store w') \<Longrightarrow> Q () w'"
  shows "wp (create_skus json_ok p ks) Q w"
  unfolding create_skus_def
proof (rule wp_for [where I = "\<lambda>_ _ w'. skus_added (prd_id p) (store w) (store w')"])
  show "skus_added (prd_id p) (store w) (store w)" using keys by (auto simp: skus_added_def intro!: exI [of _ "[]"])
  show "Q u w'" if "skus_added (prd_id p) (store w) (store w')" for u w' using Q [OF that] by (cases u) simp
  fix k ks u and w1 :: "catalog_db world"
  assume a: "skus_added (prd_id p) (store w) (store w1)"
  show "wp (or_internal ''failed to create sku'' (tx_bind (sku_create json_ok
      (k\<lparr>ksk_product := prd_id p, ksk_seller := prd_seller p, ksk_status := ''draft''\<rparr>)) (\<lambda>_. tx_return ())))
      (\<lambda>_ w'. skus_added (prd_id p) (store w) (store w')) w1"
  proof (intro wp_or_internal wp_bindI wp_sku_create wp_returnI, goal_cases)
    case (3 y row w2)
    from a obtain ks where "store w1 = (store w)\<lparr>skus := skus (store w) @ ks\<rparr>" "\<forall>k \<in> set ks. ksk_product k = prd_id p"
      by (auto simp: skus_added_def)
    with 3 show ?case unfolding skus_added_def by (intro conjI exI [of _ "ks @ [row]"]) auto
  qed (use a p skus_added_simps [OF a] in auto)
qed

lemma create_product_tx_good: "does (catalog_inv calm) (good_for calm) (create_product_tx json_ok p ks)"
  unfolding create_product_tx_def product_create_def
proof (intro does_service_tx wp_or_internal wp_bindI wp_new_uuidI wp_sqlI wp_returnI wp_create_skus wp_append_product, goal_cases)
  case (1 w i w1 y s1 w2)
  then show ?case by (auto dest!: insert_product_result simp: catalog_inv_def catalog_keys_def)
next
  case (2 w i w1 y s1 w2)
  then show ?case by (auto dest!: insert_product_result)
next
  case (3 w i w1 y s1 w2 w3)
  then show ?case by (auto dest!: insert_product_result simp: skus_added_simps catalog_inv_def)
next
  case (4 w i w1 y s1 w2 w3 cname w4)
  then have st: "insert_product_stmt json_ok (p\<lparr>prd_id := i\<rparr>) (clock w1) (store w) = Inr (y, store w2)" by simp
  from insert_product_result [OF this] obtain row where new: "store w2 = (store w)\<lparr>products := products (store w) @ [row]\<rparr>"
    "prd_id y = i" "prd_seller y = prd_seller row" "prd_id row = i"
    "\<And>price cname. product_data row price cname = product_data y price cname" "i \<notin> set (map prd_id (products (store w)))" by auto
  have inv: "catalog_inv calm (store w)" and a: "skus_added (prd_id y) (store w2) (store w3)"
    and log: "logged (''product.created'', product_data y (quote_of (prd_id y) (store w3)) cname) (store w3) (store w4)"
    and same_rows: "products (store w4) = products (store w3)" "skus (store w4) = skus (store w3)"
    using 4 by simp_all
  note added = skus_added_simps [OF a]
  show ?case
  proof (rule catalog_change [OF inv])
    show "logged (''product.created'', product_data y (quote_of (prd_id y) (store w3)) cname) (store w) (store w4)"
      using log added new by (simp add: logged_def product_log_def)
    show "is_about i (''product.created'', product_data y (quote_of (prd_id y) (store w3)) cname)" using new by simp
    have same: "quote_of j (store w4) = quote_of j (store w3)" for j using same_rows by (intro quote_of_cong) simp
    have old: "quote_of j (store w2) = quote_of j (store w)" for j using new(1) by (intro quote_of_cong) simp
    show "q \<in> set (products (store w)) \<and> quote_of (prd_id q) (store w4) = quote_of (prd_id q) (store w)"
      if "q \<in> set (products (store w4))" "prd_id q \<noteq> i" for q
      using that same_rows added new same old by auto
    show "of_seller q (''product.created'', product_data y (quote_of (prd_id y) (store w3)) cname)
      \<and> (calm \<longrightarrow> states_product q (quote_of i (store w4)) (''product.created'', product_data y (quote_of (prd_id y) (store w3)) cname))"
      if "q \<in> set (products (store w4))" "prd_id q = i" for q
    proof -
      from that same_rows added new have "q = row" by auto
      with new same show ?thesis unfolding states_product_def by auto
    qed
    show "rows_stay (store w) (store w4)"
      using added(3) new same_rows by (auto simp: rows_stay_def)
    show "catalog_keys (store w4)" using added(5) same_rows by (simp add: catalog_keys_def)
    show "\<exists>q \<in> set (products (store w4)). prd_id q = i" using same_rows added new by auto
  qed (use new in simp)
qed

text \<open>Updates of the one row with a key.\<close>

lemma distinct_update_one:
  assumes "distinct (map key xs)" and "distinct (map f xs)"
    and "\<And>x y. x \<in> set xs \<Longrightarrow> y \<in> set xs \<Longrightarrow> key x \<noteq> k \<Longrightarrow> key y = k \<Longrightarrow> f x \<noteq> f (g y)"
  shows "distinct (map f (update_where (\<lambda>x. key x = k) g xs))"
  using assms
proof (induction xs)
  case (Cons x xs)
  then have IH: "distinct (map f (update_where (\<lambda>x. key x = k) g xs))" by simp
  show ?case
  proof (cases "key x = k")
    case True
    with Cons.prems(1) have none: "\<And>z. z \<in> set xs \<Longrightarrow> key z \<noteq> k"
      by simp (metis imageI)
    then have "update_where (\<lambda>x. key x = k) g xs = xs" by (rule update_where_id)
    moreover have "f (g x) \<noteq> f z" if "z \<in> set xs" for z
      using Cons.prems(3) [of z x] none [OF that] True that by simp
    ultimately show ?thesis using True Cons.prems(2) by auto
  next
    case False
    have "f z \<noteq> f x" if z: "z \<in> set (update_where (\<lambda>x. key x = k) g xs)" for z
    proof -
      from z obtain y where "y \<in> set xs" "z = (if key y = k then g y else y)" by (auto simp: update_where_def)
      then show ?thesis using False Cons.prems(2) Cons.prems(3) [of x y]
        by (cases "key y = k") (simp_all, metis imageI)
    qed
    then have "f x \<notin> f ` set (update_where (\<lambda>x. key x = k) g xs)" by (metis imageE)
    with IH False show ?thesis by simp
  qed
qed simp

lemma product_change:
  assumes inv: "catalog_inv calm s" and y: "y \<in> set (products s)"
    and g: "\<And>x. prd_id (g x) = prd_id x" "\<And>x. prd_seller (g x) = prd_seller x"
    and slug: "\<And>x. x \<in> set (products s) \<Longrightarrow> prd_id x \<noteq> prd_id y \<Longrightarrow> prd_seller x = prd_seller y \<Longrightarrow> prd_slug x \<noteq> prd_slug (g y)"
    and s1: "s1 = s\<lparr>products := update_where (\<lambda>x. prd_id x = prd_id y) g (products s)\<rparr>"
    and log: "logged n s1 s2" "products s2 = products s1" "skus s2 = skus s1"
    and n: "is_about (prd_id y) n" "\<And>j. is_about j n \<Longrightarrow> j = prd_id y" "of_seller (g y) n"
      "calm \<Longrightarrow> states_product (g y) (quote_of (prd_id y) s) n"
  shows "good_for calm s s2"
proof (rule catalog_change [OF inv _ n(1,2)])
  from inv have d: "distinct (map prd_id (products s))" "distinct (map (\<lambda>p. (prd_seller p, prd_slug p)) (products s))"
    and keys: "catalog_keys s" by (simp_all add: catalog_inv_def catalog_keys_def)
  have only: "x = y" if "x \<in> set (products s)" "prd_id x = prd_id y" for x
    using that y d(1) by (auto simp: distinct_map dest: inj_onD)
  show "logged n s s2" using log s1 by (simp add: logged_def product_log_def)
  have ps: "products s2 = update_where (\<lambda>x. prd_id x = prd_id y) g (products s)" using log s1 by simp
  have q: "quote_of j s2 = quote_of j s" for j using log(3) s1 by (intro quote_of_cong) simp
  show "p \<in> set (products s) \<and> quote_of (prd_id p) s2 = quote_of (prd_id p) s"
    if "p \<in> set (products s2)" "prd_id p \<noteq> prd_id y" for p
    using that q g(1) unfolding ps by (auto simp: update_where_def split: if_splits)
  show "of_seller p n \<and> (calm \<longrightarrow> states_product p (quote_of (prd_id y) s2) n)"
    if "p \<in> set (products s2)" "prd_id p = prd_id y" for p
  proof -
    from that only have "p = g y" unfolding ps by (auto simp: update_where_def split: if_splits)
    with n(3,4) q show ?thesis by simp
  qed
  have in2: "(if prd_id x = prd_id y then g x else x) \<in> set (products s2)" if "x \<in> set (products s)" for x
    using that by (auto simp: ps update_where_def)
  show "\<exists>p \<in> set (products s2). prd_id p = prd_id y" using in2 [OF y] g by auto
  show stay: "rows_stay s s2"
    unfolding rows_stay_def
  proof (intro conjI ballI)
    fix x assume "x \<in> set (products s)"
    from in2 [OF this] show "\<exists>p' \<in> set (products s2). prd_id p' = prd_id x \<and> prd_seller p' = prd_seller x"
      by (rule rev_bexI) (simp add: g)
  qed (use log s1 in auto)
  have "distinct (map prd_id (products s2))" unfolding ps by (subst update_where_keys) (simp_all add: g d)
  moreover have "distinct (map (\<lambda>p. (prd_seller p, prd_slug p)) (products s2))"
    unfolding ps by (rule distinct_update_one [OF d]) (use slug only g in auto)
  moreover have "\<forall>k \<in> set (skus s). \<exists>p \<in> set (products s2). prd_id p = ksk_product k \<and> prd_seller p = ksk_seller k"
    using keys stay unfolding catalog_keys_def rows_stay_def by metis
  ultimately show "catalog_keys s2"
    using keys log(3) s1 unfolding catalog_keys_def by simp
qed

lemma update_product_result:
  assumes "update_product_stmt json_ok p t s = Inr (n, s1)" and "n \<noteq> 0"
  shows "\<exists>y \<in> set (products s). prd_id y = prd_id p
    \<and> (\<forall>x \<in> set (products s). prd_id x \<noteq> prd_id p \<longrightarrow> prd_seller x = prd_seller y \<longrightarrow> prd_slug x \<noteq> prd_slug p)
    \<and> s1 = s\<lparr>products := update_where (\<lambda>x. prd_id x = prd_id p)
          (\<lambda>x. x\<lparr>prd_name := prd_name p, prd_slug := prd_slug p, prd_description := prd_description p,
                 prd_category := prd_category p, prd_attributes := Some (attrs_text (prd_attributes p)),
                 prd_updated := t\<rparr>) (products s)\<rparr>"
  using assms by (auto simp: update_product_stmt_def split: if_splits option.splits dest: find_Some_mem)

lemma wp_some_row: "(n \<noteq> 0 \<Longrightarrow> Q () w) \<Longrightarrow> wp (some_row msg n) Q w"
  unfolding some_row_def by (intro wp_ifI wp_throwI wp_returnI)

lemma seen_row:
  assumes "catalog_inv calm s" and "seen calm x s" and "y \<in> set (products s)" and "prd_id y = prd_id x"
  shows "prd_seller y = prd_seller x \<and> (calm \<longrightarrow> y = x)"
proof -
  from assms(2) obtain z where z: "z \<in> set (products s)" "prd_id z = prd_id x" "prd_seller z = prd_seller x" "calm \<longrightarrow> z = x"
    by (auto simp: seen_def)
  have "inj_on prd_id (set (products s))" using assms(1) by (simp add: catalog_inv_def catalog_keys_def distinct_map)
  from inj_onD [OF this, of y z] z assms(3,4) have "y = z" by simp
  with z show ?thesis by simp
qed

lemma states_updated:
  "product_data p price cname = product_data q price cname \<Longrightarrow>
   states_product p price (''product.updated'', product_data q price cname)"
  unfolding states_product_def by (intro disjI2 exI [of _ "''product.updated''"] exI [of _ cname]) simp

lemma update_product_tx_good:
  assumes p: "prd_id p = prd_id x" "prd_status p = ''''"
  shows "does (\<lambda>s. catalog_inv calm s \<and> seen calm x s) (good_for calm) (update_product_tx json_ok (backfilled x p))"
  unfolding update_product_tx_def product_update_def
proof (intro does_service_tx wp_or_internal wp_bindI wp_sqlI wp_some_row wp_append_product, goal_cases)
  case (1 w n s1 w1)
  then show ?case by (auto dest!: update_product_result simp: catalog_inv_def)
next
  case (2 w n s1 w1 cname w2)
  then have st: "update_product_stmt json_ok (backfilled x p) (clock w) (store w) = Inr (n, store w1)" "n \<noteq> 0"
    and inv: "catalog_inv calm (store w)" and sn: "seen calm x (store w)"
    and log: "logged (''product.updated'', product_data (backfilled x p) (quote_of (prd_id (backfilled x p)) (store w1)) cname) (store w1) (store w2)"
      "products (store w2) = products (store w1)" "skus (store w2) = skus (store w1)" by simp_all
  have bp: "prd_id (backfilled x p) = prd_id x" "prd_slug (backfilled x p) = prd_slug p" by (simp_all add: backfilled_def p)
  from update_product_result [OF st, unfolded bp] obtain y where y: "y \<in> set (products (store w))" "prd_id y = prd_id x"
    and slug: "\<forall>z \<in> set (products (store w)). prd_id z \<noteq> prd_id x \<longrightarrow> prd_seller z = prd_seller y \<longrightarrow> prd_slug z \<noteq> prd_slug p"
    and w1: "store w1 = (store w)\<lparr>products := update_where (\<lambda>z. prd_id z = prd_id x)
          (\<lambda>z. z\<lparr>prd_name := prd_name (backfilled x p), prd_slug := prd_slug p,
                 prd_description := prd_description (backfilled x p), prd_category := prd_category (backfilled x p),
                 prd_attributes := Some (attrs_text (prd_attributes (backfilled x p))), prd_updated := clock w\<rparr>) (products (store w))\<rparr>"
    by blast
  from seen_row [OF inv sn y] have yx: "prd_seller y = prd_seller x" "calm \<Longrightarrow> y = x" by simp_all
  have q: "quote_of j (store w1) = quote_of j (store w)" for j using w1 by (intro quote_of_cong) simp
  show ?case
  proof (rule product_change [OF inv y(1) _ _ _ w1 [folded y(2)] log])
    assume calm
    with yx show "states_product (y\<lparr>prd_name := prd_name (backfilled x p), prd_slug := prd_slug p,
        prd_description := prd_description (backfilled x p), prd_category := prd_category (backfilled x p),
        prd_attributes := Some (attrs_text (prd_attributes (backfilled x p))), prd_updated := clock w\<rparr>)
      (quote_of (prd_id y) (store w))
      (''product.updated'', product_data (backfilled x p) (quote_of (prd_id (backfilled x p)) (store w1)) cname)"
      unfolding q bp using p by (auto simp: backfilled_def intro!: states_updated product_data_cong)
  qed (use p y yx slug in \<open>auto simp: backfilled_def\<close>)
qed

lemma update_status_tx_good:
  assumes i: "i = prd_id x"
  shows "does (\<lambda>s. catalog_inv calm s \<and> seen calm x s) (good_for calm) (update_status_tx i st x)"
  unfolding update_status_tx_def product_update_status_def
proof (intro does_service_tx wp_or_internal wp_bindI wp_sqlI wp_some_row, goal_cases)
  case (1 w n s1 w1)
  then have inv: "catalog_inv calm (store w)" and sn: "seen calm x (store w)"
    and w1: "store w1 = (store w)\<lparr>products := update_where (\<lambda>z. prd_id z = i) (\<lambda>z. z\<lparr>prd_status := st, prd_updated := clock w\<rparr>) (products (store w))\<rparr>"
    by auto
  from sn obtain y where y: "y \<in> set (products (store w))" "prd_id y = i" by (auto simp: seen_def i)
  from seen_row [OF inv sn y(1)] y i have yx: "prd_seller y = prd_seller x" "calm \<Longrightarrow> y = x" by simp_all
  have q: "quote_of j (store w1) = quote_of j (store w)" for j using w1 by (intro quote_of_cong) simp
  have ok: "outbox_ok (cmail (store w1))" using inv w1 by (simp add: catalog_inv_def)
  have d: "distinct (map (\<lambda>p. (prd_seller p, prd_slug p)) (products (store w)))" using inv by (simp add: catalog_inv_def catalog_keys_def)
  have slug: "prd_slug z \<noteq> prd_slug (y\<lparr>prd_status := st, prd_updated := clock w\<rparr>)"
    if "z \<in> set (products (store w))" "prd_id z \<noteq> prd_id y" "prd_seller z = prd_seller y" for z
    using that y d by (auto simp: distinct_map dest!: inj_onD)
  note change = product_change [OF inv y(1) _ _ slug w1 [folded y(2)]]
  show ?case
  proof (intro wp_ifI wp_append_product_event wp_append_product ok, goal_cases)
    case (1 w2)
    show ?case by (rule change [OF _ _ _ _ _ 1(2,3,4)]) (use 1(1) y in \<open>auto simp: states_product_def\<close>)
  next
    case (2 cname w2)
    show ?case by (rule change [OF _ _ _ _ _ 2(2,3,4)])
        (use y yx q i in \<open>auto intro!: states_updated product_data_cong\<close>)
  qed
qed

lemma wp_append_product_updated:
  assumes y: "y \<in> set (products c)" "prd_id y = i" "distinct (map prd_id (products c))"
    and ok: "outbox_ok (cmail (store w))"
    and Q: "\<And>cname (w' :: catalog_db world). logged (''product.updated'', product_data y (quote_of i (store w)) cname) (store w) (store w') \<Longrightarrow>
      products (store w') = products (store w) \<Longrightarrow> skus (store w') = skus (store w) \<Longrightarrow> Q () w'"
  shows "wp (append_product_updated c i) Q w"
  unfolding append_product_updated_def product_by_id_def
proof (intro wp_bindI wp_or_internal wp_seeing, goal_cases)
  case (1 w1)
  have f: "find (\<lambda>p. prd_id p = i) (products c) = Some y" using find_unique_key [OF y(3,1)] y(2) by simp
  show ?case unfolding f option.case
    by (rule wp_append_product) (use ok 1 Q y in simp_all)
qed

text \<open>The SKUs of one product change, and the event quotes the new price.\<close>

lemma sku_change:
  assumes inv: "catalog_inv calm s" and y: "y \<in> set (products s)" "prd_id y = i"
    and ks: "\<And>j. j \<noteq> i \<Longrightarrow> quote_of j s1 = quote_of j s"
    and s1: "products s1 = products s" "cmail s1 = cmail s" "catalog_keys s1" "rows_stay s s1"
    and log: "logged (''product.updated'', product_data y (quote_of i s1) cname) s1 s2" "products s2 = products s1" "skus s2 = skus s1"
  shows "good_for calm s s2"
proof (rule catalog_change [OF inv])
  have d: "inj_on prd_id (set (products s))" using inv by (simp add: catalog_inv_def catalog_keys_def distinct_map)
  show "logged (''product.updated'', product_data y (quote_of i s1) cname) s s2"
    using log(1) s1(2) by (simp add: logged_def product_log_def)
  have q: "quote_of j s2 = quote_of j s1" for j using log(3) by (intro quote_of_cong) simp
  show "p \<in> set (products s) \<and> quote_of (prd_id p) s2 = quote_of (prd_id p) s"
    if "p \<in> set (products s2)" "prd_id p \<noteq> i" for p using that log s1 q ks by simp
  show "of_seller p (''product.updated'', product_data y (quote_of i s1) cname)
      \<and> (calm \<longrightarrow> states_product p (quote_of i s2) (''product.updated'', product_data y (quote_of i s1) cname))"
    if "p \<in> set (products s2)" "prd_id p = i" for p
  proof -
    from that log(2) s1(1) y inj_onD [OF d, of p y] have "p = y" by simp
    then show ?thesis by (simp add: q states_updated)
  qed
  show "\<exists>p \<in> set (products s2). prd_id p = i" using y log(2) s1(1) by auto
  show "rows_stay s s2" using s1(4) log(2,3) by (simp add: rows_stay_def)
  show "catalog_keys s2" using s1(3) log(2,3) by (simp add: catalog_keys_def)
qed (use y in simp_all)

lemma create_sku_read_good:
  assumes k: "ksk_product k = prd_id x"
  shows "does (\<lambda>s. catalog_inv calm s \<and> seen calm x s) (good_for calm) (create_sku_read json_ok k x)"
  unfolding create_sku_read_def
proof (intro does_service_tx)
  fix w :: "catalog_db world"
  assume a: "catalog_inv calm (store w) \<and> seen calm x (store w)"
  then obtain y where y: "y \<in> set (products (store w))" "prd_id y = prd_id x" "prd_seller y = prd_seller x" by (auto simp: seen_def)
  have keys: "catalog_keys (store w)" "outbox_ok (cmail (store w))" "distinct (map prd_id (products (store w)))"
    using a by (simp_all add: catalog_inv_def catalog_keys_def)
  show "wp (tx_bind (or_internal ''failed to create sku'' (sku_create json_ok (k\<lparr>ksk_seller := prd_seller x, ksk_status := ''draft''\<rparr>)))
      (\<lambda>k. tx_bind (append_product_updated (store w) (ksk_product k)) (\<lambda>_. tx_return k)))
      (\<lambda>_ w'. good_for calm (store w) (store w')) w"
  proof (intro wp_or_internal wp_bindI wp_sku_create, goal_cases)
    case (3 k' row w1)
    then have w1: "catalog_keys (store w1)" "store w1 = (store w)\<lparr>skus := skus (store w) @ [row]\<rparr>" "ksk_product row = prd_id x"
      "ksk_product k' = prd_id x" using k by simp_all
    show ?case unfolding w1(4)
    proof (rule wp_append_product_updated [OF y(1,2) keys(3)])
      fix cname and w2 :: "catalog_db world"
      assume log: "logged (''product.updated'', product_data y (quote_of (prd_id x) (store w1)) cname) (store w1) (store w2)"
        "products (store w2) = products (store w1)" "skus (store w2) = skus (store w1)"
      have "good_for calm (store w) (store w2)"
        by (rule sku_change [OF _ y(1,2) _ _ _ w1(1) _ log]) (use a w1 in \<open>auto simp: rows_stay_def intro!: quote_of_cong\<close>)
      then show "wp (tx_return k') (\<lambda>_ w'. good_for calm (store w) (store w')) w2" by (intro wp_returnI)
    qed (use w1 keys in simp)
  qed (use keys y k in auto)
qed

subsection \<open>SKU updates\<close>

definition sku_written :: "uuid \<Rightarrow> catalog_db \<Rightarrow> catalog_db \<Rightarrow> bool" where
  "sku_written j s s1 \<longleftrightarrow> (\<exists>y g. y \<in> set (skus s) \<and> ksk_id y = j
     \<and> (\<forall>x. ksk_id (g x) = ksk_id x \<and> ksk_product (g x) = ksk_product x \<and> ksk_seller (g x) = ksk_seller x)
     \<and> (\<forall>x \<in> set (skus s). ksk_id x \<noteq> j \<longrightarrow> ksk_seller x = ksk_seller y \<longrightarrow> ksk_code x \<noteq> ksk_code (g y))
     \<and> s1 = s\<lparr>skus := update_where (\<lambda>x. ksk_id x = j) g (skus s)\<rparr>)"

lemma sku_written_simps:
  assumes "sku_written j s s1" and keys: "catalog_keys s" and x: "x \<in> set (skus s)" "ksk_id x = j"
  shows "catalog_keys s1" "rows_stay s s1" "products s1 = products s" "cmail s1 = cmail s"
    and "i \<noteq> ksk_product x \<Longrightarrow> quote_of i s1 = quote_of i s"
proof -
  from assms(1) obtain y g where y: "y \<in> set (skus s)" "ksk_id y = j"
    and g: "\<And>x. ksk_id (g x) = ksk_id x" "\<And>x. ksk_product (g x) = ksk_product x" "\<And>x. ksk_seller (g x) = ksk_seller x"
    and code: "\<And>x. x \<in> set (skus s) \<Longrightarrow> ksk_id x \<noteq> j \<Longrightarrow> ksk_seller x = ksk_seller y \<Longrightarrow> ksk_code x \<noteq> ksk_code (g y)"
    and s1: "s1 = s\<lparr>skus := update_where (\<lambda>x. ksk_id x = j) g (skus s)\<rparr>"
    unfolding sku_written_def by blast
  show "products s1 = products s" "cmail s1 = cmail s" by (simp_all add: s1)
  have d: "distinct (map ksk_id (skus s))" "distinct (map (\<lambda>k. (ksk_seller k, ksk_code k)) (skus s))"
    using keys by (simp_all add: catalog_keys_def)
  have only: "z = y" if "z \<in> set (skus s)" "ksk_id z = j" for z
    using inj_onD [of ksk_id "set (skus s)" z y] d(1) that y by (simp add: distinct_map)
  have rows: "\<exists>k' \<in> set (skus s). ksk_product k = ksk_product k' \<and> ksk_seller k = ksk_seller k'" if "k \<in> set (skus s1)" for k
    using that g by (auto simp: s1 update_where_def split: if_splits)
  have in1: "(if ksk_id k = j then g k else k) \<in> set (skus s1)" if "k \<in> set (skus s)" for k
    using that by (auto simp: s1 update_where_def)
  show "rows_stay s s1" unfolding rows_stay_def
  proof (intro conjI ballI)
    fix k assume "k \<in> set (skus s)"
    from in1 [OF this] show "\<exists>k' \<in> set (skus s1). ksk_id k' = ksk_id k \<and> ksk_product k' = ksk_product k"
      by (rule rev_bexI) (simp add: g)
  qed (use s1 in auto)
  have ks: "skus s1 = update_where (\<lambda>x. ksk_id x = j) g (skus s)" by (simp add: s1)
  have "distinct (map ksk_id (skus s1))" unfolding ks by (simp add: update_where_keys g d)
  moreover have "distinct (map (\<lambda>k. (ksk_seller k, ksk_code k)) (skus s1))"
    unfolding ks by (rule distinct_update_one [OF d]) (use code only g in auto)
  ultimately show "catalog_keys s1"
    using keys rows s1 unfolding catalog_keys_def by simp metis
  assume i: "i \<noteq> ksk_product x"
  have p: "ksk_product z = ksk_product x" if "z \<in> set (skus s)" "ksk_id z = j" for z
    using only [OF that] only [OF x] by simp
  have "filter (\<lambda>k. ksk_product k = i) (update_where (\<lambda>z. ksk_id z = j) g ks) = filter (\<lambda>k. ksk_product k = i) ks"
    if "set ks \<subseteq> set (skus s)" for ks
    using that by (induction ks) (use i p g in auto)
  then show "quote_of i s1 = quote_of i s" by (intro quote_of_cong) (simp add: s1)
qed

text \<open>A write to a SKU on the pool: all or nothing by itself.\<close>

definition writes_sku :: "uuid \<Rightarrow> unit ctx \<Rightarrow> bool" where
  "writes_sku j m \<longleftrightarrow> fails_clean m \<and> 
     (\<forall>w. catalog_keys (store w) \<longrightarrow> wp m (\<lambda>_ w'. sku_written j (store w) (store w')) w)"

lemma fails_clean_or_internal: "fails_clean m \<Longrightarrow> fails_clean (or_internal msg m)"
  unfolding or_internal_def by (rule fails_clean_map_error)

lemma writes_sku_update: "writes_sku (ksk_id k) (or_internal msg (sku_update json_ok k))"
  unfolding writes_sku_def sku_update_def
proof (intro conjI allI impI fails_clean_or_internal fails_clean_simps wp_or_internal wp_run_txI wp_bindI wp_sqlI wp_some_row, goal_cases)
  case (1 w w1 n s1 w2 w3)
  let ?g = "\<lambda>x. x\<lparr>ksk_code := ksk_code k, ksk_price := ksk_price k, ksk_currency := ksk_currency k,
     ksk_attributes := Some (attrs_text (ksk_attributes k)), ksk_updated := clock w1\<rparr>"
  from 1 obtain y where y: "find (\<lambda>x. ksk_id x = ksk_id k) (skus (store w)) = Some y"
    "\<forall>x \<in> set (skus (store w)). ksk_id x \<noteq> ksk_id k \<longrightarrow> ksk_seller x = ksk_seller y \<longrightarrow> ksk_code x \<noteq> ksk_code k"
    "s1 = (store w)\<lparr>skus := update_where (\<lambda>x. ksk_id x = ksk_id k) ?g (skus (store w))\<rparr>"
    by (auto simp: update_sku_stmt_def split: if_splits option.splits)
  with 1 find_Some_mem [OF y(1)] show ?case
    unfolding sku_written_def by (intro exI [of _ y] exI [of _ ?g]) simp
qed

lemma writes_sku_status: "writes_sku i (or_internal msg (sku_update_status i st))"
  unfolding writes_sku_def sku_update_status_def
proof (intro conjI allI impI fails_clean_or_internal fails_clean_simps wp_or_internal wp_run_txI wp_bindI wp_sqlI wp_some_row, goal_cases)
  case (1 w w1 n s1 w2 w3)
  let ?g = "\<lambda>x. x\<lparr>ksk_status := st, ksk_updated := clock w1\<rparr>"
  from 1 obtain y where y: "y \<in> set (skus (store w))" "ksk_id y = i" by (auto simp: filter_empty_conv)
  have "inj_on (\<lambda>k. (ksk_seller k, ksk_code k)) (set (skus (store w)))" using 1 by (simp add: catalog_keys_def distinct_map)
  from inj_onD [OF this _ _ y(1)] y(2)
  have "\<forall>x \<in> set (skus (store w)). ksk_id x \<noteq> i \<longrightarrow> ksk_seller x = ksk_seller y \<longrightarrow> ksk_code x \<noteq> ksk_code (?g y)" by auto
  with 1 y show ?case unfolding sku_written_def by (intro exI [of _ y] exI [of _ ?g]) auto
qed

lemma sku_written_alone:
  assumes inv: "catalog_inv False s" and w: "sku_written j s s1"
  shows "good_for False s s1"
proof -
  from w obtain x where x: "x \<in> set (skus s)" "ksk_id x = j" by (auto simp: sku_written_def)
  have keys: "catalog_keys s" using inv by (simp add: catalog_inv_def)
  note sim = sku_written_simps [OF w keys x]
  show ?thesis
    using inv sim(1-4) by (simp add: good_for_def catalog_inv_def told_def product_log_def)
qed

text \<open>
  The outer transaction: nothing, or the write with its event, or (and then an error is reported) the
  write alone.
\<close>

lemma update_sku_tx_result:
  assumes inv: "catalog_inv calm (store w)" and x: "seen_sku x (store w)" and m: "writes_sku (ksk_id x) m"
    and r: "update_sku_tx m (ksk_product x) w = (r, w')"
  shows "store w' = store w \<or> good_for calm (store w) (store w') \<or> isl r \<and> sku_written (ksk_id x) (store w) (store w')"
proof (cases "next_faulty w")
  case True
  with r show ?thesis by (simp add: update_sku_tx_def begin_tx_def tx_bind_def) (auto simp: consume_fault_def)
next
  case False
  let ?w = "consume_fault w"
  obtain r1 w1 where m1: "m ?w = (r1, w1)" by fastforce
  have keys: "catalog_keys (store w)" "outbox_ok (cmail (store w))" "distinct (map prd_id (products (store w)))"
    using inv by (simp_all add: catalog_inv_def catalog_keys_def)
  show ?thesis
  proof (cases r1)
    case (Inl e)
    with m m1 have "store w1 = store w" unfolding writes_sku_def by (auto dest: fails_cleanD)
    with r m1 Inl False show ?thesis by (simp add: update_sku_tx_def begin_tx_def tx_bind_def)
  next
    case (Inr u)
    have "catalog_keys (store ?w)" using keys(1) by simp
    with m have "wp m (\<lambda>_ w'. sku_written (ksk_id x) (store ?w) (store w')) ?w" unfolding writes_sku_def by blast
    from wpD [OF this m1 [unfolded Inr]] have wr: "sku_written (ksk_id x) (store w) (store w1)" by simp
    from x obtain k where k: "k \<in> set (skus (store w))" "ksk_id k = ksk_id x" "ksk_product k = ksk_product x"
      by (auto simp: seen_sku_def)
    note sim = sku_written_simps [OF wr keys(1) k(1,2)]
    from keys(1) k obtain y where y: "y \<in> set (products (store w))" "prd_id y = ksk_product x"
      by (auto simp: catalog_keys_def)
    let ?b = "append_product_updated (store w1) (ksk_product x)"
    have r2: "run_tx ?b (w1\<lparr>faults := False # faults w1\<rparr>) = (r, w')"
      using r m1 Inr False by (simp add: update_sku_tx_def begin_tx_def tx_bind_def finish_tx_def)
    have "wp (run_tx ?b) (\<lambda>_ w'. good_for calm (store w) (store w')) (w1\<lparr>faults := False # faults w1\<rparr>)"
    proof (intro wp_run_txI impI allI)
      fix w2 w4 :: "catalog_db world"
      assume w2: "store w2 = store (w1\<lparr>faults := False # faults w1\<rparr>)"
      show "wp ?b (\<lambda>_ w'. \<not> aborted w' \<longrightarrow> (\<forall>w3. store w3 = store w' \<longrightarrow> good_for calm (store w) (store w3))) w2"
      proof (rule wp_append_product_updated [where y = y], goal_cases)
        case (5 cname w3)
        with w2 have l: "logged (''product.updated'', product_data y (quote_of (ksk_product x) (store w1)) cname) (store w1) (store w3)"
          "products (store w3) = products (store w1)" "skus (store w3) = skus (store w1)" by simp_all
        have "good_for calm (store w) (store w3)"
          by (rule sku_change [OF inv y _ sim(3,4,1,2) l]) (use sim(5) k(3) in simp)
        then show ?case by simp
      qed (use w2 y sim keys in simp_all)
    qed
    with r2 have "\<not> isl r \<Longrightarrow> good_for calm (store w) (store w')" by (cases r) (auto dest: wpD)
    moreover have "isl r \<Longrightarrow> store w' = store w1" using r2 by (cases r) (auto dest: run_tx_error_frame)
    ultimately show ?thesis using wr by (cases "isl r") simp_all
  qed
qed

end
