(* ===== verification/Catalog_Edge.thy ===== *)
theory Catalog_Edge
  imports Catalog_Service
begin

text \<open>
  Catalog service, adapters: the HTTP handlers (internal/adapter/http) and the gRPC server
  (internal/adapter/grpc). URL parameters and decoded bodies are arguments, \<open>uuid.Parse\<close> is \<open>parse\<close>.
  In an answer a time is its instant and a raw JSON value its text.

\<close>

type_synonym catalog_handler = "(catalog_db, catalog_err, response) tx"

fun catalog_err_text :: "catalog_err \<Rightarrow> string" where
  "catalog_err_text ErrCategoryNotFound = ''category not found''"
| "catalog_err_text ErrCategorySlugConflict = ''category slug already exists''"
| "catalog_err_text ErrProductNotFound = ''product not found''"
| "catalog_err_text ErrProductSlugConflict = ''product slug already exists''"
| "catalog_err_text ErrSKUNotFound = ''sku not found''"
| "catalog_err_text ErrSellerRequired = ''seller_id is required''"
| "catalog_err_text ErrNotProductOwner = ''not authorized to update this product''"
| "catalog_err_text (ErrCatalogText m) = m"

definition catalog_map_error :: "catalog_err error \<Rightarrow> catalog_err error" where
  "catalog_map_error e =
     (case as_app_error e of Some a \<Rightarrow> a | None \<Rightarrow>
      (case e of
         Sentinel d \<Rightarrow>
           if d \<in> {ErrCategoryNotFound, ErrProductNotFound, ErrSKUNotFound} then not_found (catalog_err_text d)
           else if d \<in> {ErrCategorySlugConflict, ErrProductSlugConflict} then conflict (catalog_err_text d)
           else if d = ErrSellerRequired then bad_request (catalog_err_text d)
           else if d = ErrNotProductOwner then forbidden (catalog_err_text d)
           else internal ''internal error'' (Some e)
       | _ \<Rightarrow> internal ''internal error'' (Some e)))"

subsection \<open>Bodies\<close>

definition category_json :: "category \<Rightarrow> json" where
  "category_json c = JObj ([(''id'', JStr (ctg_id c))] @ omit_none ''parent_id'' JStr (ctg_parent c)
     @ [(''name'', JStr (ctg_name c)), (''slug'', JStr (ctg_slug c)), (''sort_order'', JInt (ctg_sort c)),
        (''created_at'', JInt (ctg_created c))])"

definition product_fields :: "product \<Rightarrow> (string \<times> json) list" where
  "product_fields p = [(''id'', JStr (prd_id p)), (''seller_id'', JStr (prd_seller p))]
     @ omit_none ''category_id'' JStr (prd_category p)
     @ [(''name'', JStr (prd_name p)), (''slug'', JStr (prd_slug p)), (''description'', JStr (prd_description p)),
        (''status'', JStr (prd_status p))]
     @ omit_none ''attributes'' JStr (prd_attributes p) @ omit_none ''image_url'' JStr (prd_image p)
     @ [(''created_at'', JInt (prd_created p)), (''updated_at'', JInt (prd_updated p))]"

definition product_json :: "product \<Rightarrow> json" where
  "product_json p = JObj (product_fields p)"

definition sku_json :: "sku \<Rightarrow> json" where
  "sku_json k = JObj ([(''id'', JStr (ksk_id k)), (''product_id'', JStr (ksk_product k)), (''seller_id'', JStr (ksk_seller k)),
        (''sku_code'', JStr (ksk_code k)), (''price_amount'', JInt (ksk_price k)), (''price_currency'', JStr (ksk_currency k))]
     @ omit_none ''attributes'' JStr (ksk_attributes k)
     @ [(''status'', JStr (ksk_status k)), (''created_at'', JInt (ksk_created k)), (''updated_at'', JInt (ksk_updated k))])"

definition product_with_skus_json :: "product \<times> sku list \<Rightarrow> json" where
  "product_with_skus_json x = JObj (product_fields (fst x) @ [(''skus'', json_list_or_null (map sku_json (snd x)))])"

definition lookup_json :: "sku_lookup \<Rightarrow> json" where
  "lookup_json l = JObj [(''id'', JStr (klk_id l)), (''product_id'', JStr (klk_product l)), (''seller_id'', JStr (klk_seller l)),
     (''product_name'', JStr (klk_name l)), (''sku_code'', JStr (klk_code l)), (''price_amount'', JInt (klk_price l)),
     (''price_currency'', JStr (klk_currency l)), (''status'', JStr (klk_status l))]"

subsection \<open>HTTP: categories\<close>

record category_request =
  cgr_parent :: "uuid option"
  cgr_name :: string
  cgr_slug :: string
  cgr_sort :: int

definition category_of :: "uuid \<Rightarrow> category_request \<Rightarrow> category" where
  "category_of i r = \<lparr>ctg_id = i, ctg_parent = cgr_parent r, ctg_name = cgr_name r, ctg_slug = cgr_slug r,
     ctg_sort = cgr_sort r, ctg_created = 0\<rparr>"

definition http_create_category :: "(string + category_request) option \<Rightarrow> catalog_handler" where
  "http_create_category body = decoded body (\<lambda>r.
     respond catalog_map_error (create_category (category_of nil_uuid r)) (\<lambda>c. Response 201 (Some (category_json c))))"

definition http_list_categories :: "(string \<Rightarrow> string \<Rightarrow> bool) \<Rightarrow> catalog_handler" where
  "http_list_categories name_le =
     respond catalog_map_error (list_categories name_le) (\<lambda>cs. Response 200 (Some (json_list_or_null (map category_json cs))))"

definition http_update_category ::
  "(string \<Rightarrow> uuid option) \<Rightarrow> string \<Rightarrow> (string + category_request) option \<Rightarrow> catalog_handler" where
  "http_update_category parse raw body = parsed parse raw ''invalid category id'' (\<lambda>i. decoded body (\<lambda>r.
     respond catalog_map_error (update_category (category_of i r)) (\<lambda>_. Response 200 (Some (category_json (category_of i r))))))"

subsection \<open>HTTP: products\<close>

record sku_request =
  skr_code :: string
  skr_price :: int
  skr_currency :: string
  skr_attributes :: "string option"

record create_product_request =
  cpr_seller :: uuid
  cpr_category :: "uuid option"
  cpr_name :: string
  cpr_slug :: string
  cpr_description :: string
  cpr_attributes :: "string option"
  cpr_skus :: "sku_request list"

definition new_product ::
  "uuid \<Rightarrow> uuid \<Rightarrow> uuid option \<Rightarrow> string \<Rightarrow> string \<Rightarrow> string \<Rightarrow> string option \<Rightarrow> product" where
  "new_product i seller cat name slug desc attrs = \<lparr>prd_id = i, prd_seller = seller, prd_category = cat,
     prd_name = name, prd_slug = slug, prd_description = desc, prd_status = '''', prd_attributes = attrs,
     prd_image = None, prd_created = 0, prd_updated = 0\<rparr>"

definition new_sku :: "sku_request \<Rightarrow> sku" where
  "new_sku r = \<lparr>ksk_id = nil_uuid, ksk_product = nil_uuid, ksk_seller = nil_uuid, ksk_code = skr_code r,
     ksk_price = skr_price r, ksk_currency = skr_currency r, ksk_attributes = skr_attributes r, ksk_status = '''',
     ksk_created = 0, ksk_updated = 0\<rparr>"

definition http_create_product ::
  "(string \<Rightarrow> bool) \<Rightarrow> tenant \<Rightarrow> (string + create_product_request) option \<Rightarrow> catalog_handler" where
  "http_create_product json_ok me body = decoded body (\<lambda>r.
     respond catalog_map_error
       (create_product json_ok me (new_product nil_uuid (cpr_seller r) (cpr_category r) (cpr_name r) (cpr_slug r)
          (cpr_description r) (cpr_attributes r)) (map new_sku (cpr_skus r)))
       (\<lambda>p. Response 201 (Some (product_json p))))"

definition http_get_product_by_slug :: "string \<Rightarrow> catalog_handler" where
  "http_get_product_by_slug slug =
     respond catalog_map_error (get_product_by_slug slug) (\<lambda>x. Response 200 (Some (product_with_skus_json x)))"

text \<open>Query parameters; an id that does not parse sets no filter.\<close>

definition http_filter :: "(string \<Rightarrow> uuid option) \<Rightarrow> string \<Rightarrow> string \<Rightarrow> string \<Rightarrow> product_filter" where
  "http_filter parse seller st cat =
     \<lparr>pft_seller = (if seller = '''' then None else parse seller),
      pft_status = (if st = '''' then None else Some st),
      pft_category = (if cat = '''' then None else parse cat)\<rparr>"

definition http_list_products ::
  "(string \<Rightarrow> uuid option) \<Rightarrow> tenant \<Rightarrow> string \<Rightarrow> string \<Rightarrow> string \<Rightarrow> int option option \<Rightarrow> int option option \<Rightarrow> catalog_handler" where
  "http_list_products parse me seller st cat lim off =
     (let p = page_from_request lim off in
      respond catalog_map_error (list_products me (http_filter parse seller st cat) (fst p) (snd p))
        (page_answer product_json p))"

record update_product_request =
  upr_category :: "uuid option"
  upr_name :: string
  upr_slug :: string
  upr_description :: string
  upr_attributes :: "string option"

definition http_update_product ::
  "(string \<Rightarrow> bool) \<Rightarrow> (string \<Rightarrow> uuid option) \<Rightarrow> tenant \<Rightarrow> string \<Rightarrow> (string + update_product_request) option \<Rightarrow> catalog_handler" where
  "http_update_product json_ok parse me raw body = parsed parse raw ''invalid product id'' (\<lambda>i. decoded body (\<lambda>r.
     respond catalog_map_error
       (update_product json_ok me (new_product i nil_uuid (upr_category r) (upr_name r) (upr_slug r)
          (upr_description r) (upr_attributes r)))
       (\<lambda>p. Response 200 (Some (product_json p)))))"

definition http_update_product_status ::
  "(string \<Rightarrow> uuid option) \<Rightarrow> tenant \<Rightarrow> string \<Rightarrow> (string + string) option \<Rightarrow> catalog_handler" where
  "http_update_product_status parse me raw body = parsed parse raw ''invalid product id'' (\<lambda>i. decoded body (\<lambda>st.
     respond catalog_map_error (update_product_status me i st) (\<lambda>_. status_body st)))"

subsection \<open>HTTP: internal lookups\<close>

definition internal_get_product :: "(string \<Rightarrow> uuid option) \<Rightarrow> string \<Rightarrow> catalog_handler" where
  "internal_get_product parse raw = path_id parse raw ''invalid product id'' (\<lambda>i.
     respond catalog_map_error
       (tx_bind (get_product_by_id i) (\<lambda>p. tx_bind (list_skus i) (\<lambda>ks. tx_return (p, ks))))
       (\<lambda>(p, ks). Response 200 (Some (JObj
          [(''product_id'', JStr (prd_id p)), (''seller_id'', JStr (prd_seller p)), (''product_name'', JStr (prd_name p)),
           (''sku_ids'', JList (map (\<lambda>k. JStr (ksk_id k)) ks))]))))"

definition internal_get_sku :: "(string \<Rightarrow> uuid option) \<Rightarrow> string \<Rightarrow> catalog_handler" where
  "internal_get_sku parse raw = path_id parse raw ''invalid sku id'' (\<lambda>i.
     respond catalog_map_error (get_sku_with_product_name i) (\<lambda>l. Response 200 (Some (lookup_json l))))"

subsection \<open>gRPC\<close>

text \<open>
  A message is a domain record without what it has no field for: no category, and the empty text for what is nil.
\<close>

definition text_or_blank :: "string option \<Rightarrow> string" where
  "text_or_blank t = (case t of None \<Rightarrow> '''' | Some s \<Rightarrow> s)"

definition product_proto :: "product \<Rightarrow> product" where
  "product_proto p = p\<lparr>prd_category := None, prd_attributes := Some (text_or_blank (prd_attributes p)),
     prd_image := Some (text_or_blank (prd_image p))\<rparr>"

definition sku_proto :: "sku \<Rightarrow> sku" where
  "sku_proto k = k\<lparr>ksk_attributes := Some (text_or_blank (ksk_attributes k))\<rparr>"

text \<open>A sentinel that is no \<open>AppError\<close> is internal here.\<close>

definition catalog_grpc_error :: "catalog_err error \<Rightarrow> grpc_code" where
  "catalog_grpc_error e =
     (case as_app_error e of
        None \<Rightarrow> GrpcInternal
      | Some a \<Rightarrow>
          (let is = (\<lambda>s. case unwrap a of None \<Rightarrow> False | Some c \<Rightarrow> errors_is c (Std s)) in
           if is ErrNotFound then GrpcNotFound
           else if is ErrBadRequest then GrpcInvalidArgument
           else if is ErrConflict then GrpcAlreadyExists
           else if is ErrForbidden then GrpcPermissionDenied
           else if is ErrUnauthorized then GrpcUnauthenticated
           else GrpcInternal))"

text \<open>An optional filter that has to parse: \<open>Some None\<close> if there is none.\<close>

definition opt_id :: "(string \<Rightarrow> uuid option) \<Rightarrow> string \<Rightarrow> uuid option option" where
  "opt_id parse raw = (if raw = '''' then Some None else map_option Some (parse raw))"

definition rpc_list_products ::
  "(string \<Rightarrow> uuid option) \<Rightarrow> tenant \<Rightarrow> string \<Rightarrow> string \<Rightarrow> string \<Rightarrow> (int \<times> int) option
   \<Rightarrow> (product list \<times> int \<times> int \<times> int) grpc_result ctx" where
  "rpc_list_products parse me seller st cat page =
     (case (opt_id parse seller, opt_id parse cat) of
        (Some s, Some c) \<Rightarrow>
          (let lim = (case page of Some (l, _) \<Rightarrow> if l > 0 then l else 20 | None \<Rightarrow> 20);
               off = (case page of Some (_, d) \<Rightarrow> d | None \<Rightarrow> 0)
           in grpc_respond catalog_grpc_error
                (list_products me \<lparr>pft_seller = s, pft_status = (if st = '''' then None else Some st), pft_category = c\<rparr> lim off)
                (\<lambda>(ps, n). (map product_proto ps, int32 (int n), lim, off)))
      | _ \<Rightarrow> tx_return (Inl GrpcInvalidArgument))"

datatype product_identifier = BySlug string | ById string | NoIdentifier

fun rpc_get_product :: "(string \<Rightarrow> uuid option) \<Rightarrow> product_identifier \<Rightarrow> (product \<times> sku list) grpc_result ctx" where
  "rpc_get_product parse (BySlug g) = grpc_respond catalog_grpc_error (get_product_by_slug g)
     (\<lambda>(p, ks). (product_proto p, map sku_proto ks))"
| "rpc_get_product parse (ById raw) =
     (case parse raw of
        None \<Rightarrow> tx_return (Inl GrpcInvalidArgument)
      | Some i \<Rightarrow> grpc_respond catalog_grpc_error (get_product_by_id i) (\<lambda>p. (product_proto p, [])))"
| "rpc_get_product parse NoIdentifier = tx_return (Inl GrpcInvalidArgument)"

definition or_nil :: "(string \<Rightarrow> uuid option) \<Rightarrow> string \<Rightarrow> uuid" where
  "or_nil parse raw = (case parse raw of None \<Rightarrow> nil_uuid | Some i \<Rightarrow> i)"

text \<open>The text of the attributes, where the empty one is nil; a price that is absent is zero.\<close>

definition attrs_of :: "string \<Rightarrow> string option" where
  "attrs_of s = (if s = '''' then None else Some s)"

record rpc_sku =
  rsk_code :: string
  rsk_price :: "(int \<times> string) option"
  rsk_attributes :: string

definition rpc_new_sku :: "rpc_sku \<Rightarrow> sku" where
  "rpc_new_sku r = new_sku \<lparr>skr_code = rsk_code r, skr_price = (case rsk_price r of None \<Rightarrow> 0 | Some (a, _) \<Rightarrow> a),
     skr_currency = (case rsk_price r of None \<Rightarrow> '''' | Some (_, c) \<Rightarrow> c), skr_attributes = attrs_of (rsk_attributes r)\<rparr>"

definition rpc_create_product ::
  "(string \<Rightarrow> bool) \<Rightarrow> (string \<Rightarrow> uuid option) \<Rightarrow> tenant \<Rightarrow> string \<Rightarrow> string \<Rightarrow> string \<Rightarrow> string \<Rightarrow> string \<Rightarrow> rpc_sku list
   \<Rightarrow> product grpc_result ctx" where
  "rpc_create_product json_ok parse me seller name slug desc attrs ks =
     grpc_respond catalog_grpc_error
       (create_product json_ok me (new_product nil_uuid (or_nil parse seller) None name slug desc (attrs_of attrs))
         (map rpc_new_sku ks)) product_proto"

text \<open>The request has no slug and no category, so the update sets the empty slug and no category.\<close>

definition rpc_update_product ::
  "(string \<Rightarrow> bool) \<Rightarrow> (string \<Rightarrow> uuid option) \<Rightarrow> tenant \<Rightarrow> string \<Rightarrow> string \<Rightarrow> string \<Rightarrow> string \<Rightarrow> product grpc_result ctx" where
  "rpc_update_product json_ok parse me raw name desc attrs =
     grpc_respond catalog_grpc_error
       (update_product json_ok me (new_product (or_nil parse raw) nil_uuid None name '''' desc (attrs_of attrs))) product_proto"

definition rpc_update_product_status ::
  "(string \<Rightarrow> uuid option) \<Rightarrow> tenant \<Rightarrow> string \<Rightarrow> string \<Rightarrow> product grpc_result ctx" where
  "rpc_update_product_status parse me raw st =
     (case parse raw of
        None \<Rightarrow> tx_return (Inl GrpcInvalidArgument)
      | Some i \<Rightarrow> grpc_respond catalog_grpc_error
          (tx_bind (update_product_status me i st) (\<lambda>_. get_product_by_id i)) product_proto)"

definition rpc_category :: "category \<Rightarrow> category" where
  "rpc_category c = c\<lparr>ctg_sort := int32 (ctg_sort c)\<rparr>"

definition rpc_list_categories :: "(string \<Rightarrow> string \<Rightarrow> bool) \<Rightarrow> category list grpc_result ctx" where
  "rpc_list_categories name_le = grpc_respond catalog_grpc_error (list_categories name_le) (map rpc_category)"

definition rpc_create_category ::
  "(string \<Rightarrow> uuid option) \<Rightarrow> string \<Rightarrow> string \<Rightarrow> string \<Rightarrow> int \<Rightarrow> category grpc_result ctx" where
  "rpc_create_category parse parent name slug n =
     grpc_respond catalog_grpc_error
       (create_category \<lparr>ctg_id = nil_uuid, ctg_parent = (if parent = '''' then None else parse parent),
          ctg_name = name, ctg_slug = slug, ctg_sort = n, ctg_created = 0\<rparr>) rpc_category"

definition rpc_batch_get_skus ::
  "(string \<Rightarrow> uuid option) \<Rightarrow> string list \<Rightarrow> (uuid \<times> uuid \<times> uuid) list grpc_result ctx" where
  "rpc_batch_get_skus parse raws =
     (if list_ex (\<lambda>r. parse r = None) raws then tx_return (Inl GrpcInvalidArgument)
      else grpc_respond catalog_grpc_error (batch_get_sku_mappings (map (or_nil parse) raws)) (\<lambda>ms. ms))"

end
