(* ===== verification/Catalog_Properties.thy ===== *)
theory Catalog_Properties
  imports Catalog_Invariant Catalog_Edge Samples Contracts
begin

text \<open>
  Catalog service as a state machine, and its properties: what the events say is what the tables hold.
\<close>

subsection \<open>Use cases\<close>

lemma seen_member: "x \<in> set (products s) \<Longrightarrow> seen calm x s"
  by (auto simp: seen_def)

lemma reads_read_pool: "reads (read_pool q)"
  unfolding read_pool_def by (intro reads_run_tx keeps_query)

lemma wp_read_pool: "wp (read_pool q) (\<lambda>r _. r = q (store w)) w"
  unfolding read_pool_def by (intro wp_run_txI wp_queryI) simp

lemma get_product_by_id_reads:
  "reads (get_product_by_id i)"
  "wp (get_product_by_id i) (\<lambda>x _. x \<in> set (products (store w)) \<and> prd_id x = i) w"
proof -
  show "reads (get_product_by_id i)"
    unfolding get_product_by_id_def product_by_id_def by (intro reads_intros reads_read_pool)
  show "wp (get_product_by_id i) (\<lambda>x _. x \<in> set (products (store w)) \<and> prd_id x = i) w"
    unfolding get_product_by_id_def product_by_id_def
    by (intro wp_bindI wp_or_internal wp_mono [OF wp_read_pool]) (auto intro!: wp_intros dest: find_Some_mem)
qed

lemma get_sku_reads:
  "reads (get_sku i)"
  "wp (get_sku i) (\<lambda>x _. x \<in> set (skus (store w)) \<and> ksk_id x = i) w"
proof -
  show "reads (get_sku i)"
    unfolding get_sku_def sku_by_id_def by (intro reads_intros reads_read_pool)
  show "wp (get_sku i) (\<lambda>x _. x \<in> set (skus (store w)) \<and> ksk_id x = i) w"
    unfolding get_sku_def sku_by_id_def
    by (intro wp_bindI wp_or_internal wp_mono [OF wp_read_pool]) (auto intro!: wp_intros dest: find_Some_mem)
qed

abbreviation does_good :: "bool \<Rightarrow> (catalog_db \<Rightarrow> bool) \<Rightarrow> 'a ctx \<Rightarrow> bool" where
  "does_good calm P m \<equiv> does (\<lambda>s. catalog_inv calm s \<and> P s) (good_for calm) m"

text \<open>A use case that reads a product and goes on with the row.\<close>

lemma does_with_product:
  assumes "\<And>x. prd_id x = i \<Longrightarrow> does_good calm (seen calm x) (f x)"
  shows "does_good calm (\<lambda>_. True) (tx_bind (get_product_by_id i) f)"
proof (rule does_bind_read [where Q = "\<lambda>x s. x \<in> set (products s) \<and> prd_id x = i"])
  show "does (\<lambda>s. (catalog_inv calm s \<and> True) \<and> x \<in> set (products s) \<and> prd_id x = i) (good_for calm) (f x)" for x
  proof (cases "prd_id x = i")
    case True
    then show ?thesis by (rule does_weaken [OF assms]) (auto intro: seen_member)
  qed (simp add: does_def)
qed (use get_product_by_id_reads in auto)

lemma update_product_read_good:
  assumes "prd_id p = prd_id x" "prd_status p = ''''"
  shows "does_good calm (seen calm x) (update_product_read json_ok me p x)"
  unfolding update_product_read_def
  by (intro does_cases does_basic does_bind_then update_product_tx_good [OF assms] reads_simps)

lemma update_status_read_good:
  "i = prd_id x \<Longrightarrow> does_good calm (seen calm x) (update_status_read me i st x)"
  unfolding update_status_read_def by (intro does_cases does_basic update_status_tx_good)

lemma create_product_good: "does_good calm (\<lambda>_. True) (create_product json_ok me p ks)"
  unfolding create_product_def Let_def product_by_slug_def
proof (intro does_cases does_basic)
  show "does_good calm (\<lambda>_. True) (tx_bind (or_internal ''failed to check product slug''
      (read_pool (\<lambda>s. find (\<lambda>q. prd_slug q = prd_slug (owned_product me p)) (products s))))
      (\<lambda>x. case x of None \<Rightarrow> create_product_tx json_ok ((owned_product me p)\<lparr>prd_status := ''draft''\<rparr>) ks
        | Some _ \<Rightarrow> tx_throw (Sentinel ErrProductSlugConflict)))"
    by (rule does_bind_read [where Q = "\<lambda>_ _. True"])
       (auto intro!: reads_intros reads_read_pool does_cases does_basic does_weaken [OF create_product_tx_good] wpI)
qed

lemma create_sku_good: "does_good calm (\<lambda>_. True) (create_sku json_ok k)"
  unfolding create_sku_def product_by_id_def
proof (rule does_bind_read [where Q = "\<lambda>x s. \<forall>p. x = Some p \<longrightarrow> p \<in> set (products s) \<and> prd_id p = ksk_product k"])
  fix x
  show "does (\<lambda>s. (catalog_inv calm s \<and> True) \<and> (\<forall>p. x = Some p \<longrightarrow> p \<in> set (products s) \<and> prd_id p = ksk_product k)) (good_for calm)
      (case x of None \<Rightarrow> tx_throw (Sentinel ErrProductNotFound) | Some p \<Rightarrow> create_sku_read json_ok k p)"
  proof (cases x)
    case (Some p)
    show ?thesis
    proof (cases "prd_id p = ksk_product k")
      case True
      then show ?thesis using Some by (auto intro!: does_weaken [OF create_sku_read_good] intro: seen_member)
    qed (simp add: does_def Some)
  qed (auto intro: does_basic)
qed (auto intro!: reads_intros reads_read_pool wp_or_internal wp_mono [OF wp_read_pool] dest: find_Some_mem)

lemma does_with_sku:
  assumes "tx_bind (get_sku j) f w = (r, w')"
    and "\<And>x w1. x \<in> set (skus (store w)) \<Longrightarrow> ksk_id x = j \<Longrightarrow> store w1 = store w \<Longrightarrow> f x w1 = (r, w') \<Longrightarrow> P"
    and "store w' = store w \<Longrightarrow> isl r \<Longrightarrow> P"
  shows P
proof -
  obtain r1 w1 where m: "get_sku j w = (r1, w1)" by fastforce
  with reads_store [OF get_sku_reads(1), of j w] have s: "store w1 = store w" by simp
  show P
  proof (cases r1)
    case (Inl e)
    with m s assms(1,3) show P by (auto simp: tx_bind_def)
  next
    case (Inr x)
    from wpD [OF get_sku_reads(2) m [unfolded Inr]] assms(1,2) m Inr s show P by (auto simp: tx_bind_def)
  qed
qed

subsection \<open>Steps\<close>

text \<open>
  A state is the world, the products and the SKUs that requests have read and still go on with. In a
  calm service a use case runs as a whole, and an update of a SKU that reports an error has changed
  nothing. The handlers leave the status of an update empty.
\<close>

type_synonym catalog_state = "catalog_db world \<times> product set \<times> sku set"

inductive catalog_step :: "bool \<Rightarrow> catalog_state \<Rightarrow> catalog_state \<Rightarrow> bool" for calm :: bool where
  create: "catalog_step calm (w, R, K) (snd (create_product json_ok me p ks w), R, K)"
| update: "prd_status p = '''' \<Longrightarrow> catalog_step calm (w, R, K) (snd (update_product json_ok me p w), R, K)"
| set_status: "catalog_step calm (w, R, K) (snd (update_product_status me i st w), R, K)"
| new_sku: "catalog_step calm (w, R, K) (snd (create_sku json_ok k w), R, K)"
| change_sku: "update_sku json_ok k w = (r, w') \<Longrightarrow> (calm \<Longrightarrow> isl r \<Longrightarrow> store w' = store w) \<Longrightarrow>
    catalog_step calm (w, R, K) (w', R, K)"
| sku_status: "update_sku_status i st w = (r, w') \<Longrightarrow> (calm \<Longrightarrow> isl r \<Longrightarrow> store w' = store w) \<Longrightarrow>
    catalog_step calm (w, R, K) (w', R, K)"
| read: "\<not> calm \<Longrightarrow> get_product_by_id i w = (Inr x, w') \<Longrightarrow> catalog_step calm (w, R, K) (w', insert x R, K)"
| read_sku: "\<not> calm \<Longrightarrow> get_sku i w = (Inr k, w') \<Longrightarrow> catalog_step calm (w, R, K) (w', R, insert k K)"
| create_later: "\<not> calm \<Longrightarrow> catalog_step calm (w, R, K) (snd (create_product_tx json_ok p ks w), R, K)"
| update_later: "x \<in> R \<Longrightarrow> prd_id p = prd_id x \<Longrightarrow> prd_status p = '''' \<Longrightarrow>
    catalog_step calm (w, R, K) (snd (update_product_read json_ok me p x w), R, K)"
| status_later: "x \<in> R \<Longrightarrow> catalog_step calm (w, R, K) (snd (update_status_read me (prd_id x) st x w), R, K)"
| new_sku_later: "x \<in> R \<Longrightarrow> ksk_product k = prd_id x \<Longrightarrow> catalog_step calm (w, R, K) (snd (create_sku_read json_ok k x w), R, K)"
| change_sku_later: "x \<in> K \<Longrightarrow> ksk_id k = ksk_id x \<Longrightarrow> catalog_step calm (w, R, K)
    (snd (update_sku_tx (or_internal ''failed to update sku'' (sku_update json_ok k)) (ksk_product x) w), R, K)"
| sku_status_later: "x \<in> K \<Longrightarrow> catalog_step calm (w, R, K)
    (snd (update_sku_tx (or_internal ''failed to update sku status'' (sku_update_status (ksk_id x) st)) (ksk_product x) w), R, K)"
| new_category: "catalog_step calm (w, R, K) (snd (create_category c w), R, K)"
| change_category: "catalog_step calm (w, R, K) (snd (update_category c w), R, K)"
| relay: "catalog_step calm (w, R, K) (snd (catalog_relay_run publisher w), R, K)"
| other: "store w' = store w \<Longrightarrow> catalog_step calm (w, R, K) (w', R, K)"

definition catalog_ok :: "bool \<Rightarrow> catalog_state \<Rightarrow> bool" where
  "catalog_ok calm c \<longleftrightarrow> (case c of (w, R, K) \<Rightarrow> catalog_inv calm (store w) \<and> (calm \<longrightarrow> R = {} \<and> K = {})
     \<and> (\<forall>x \<in> R. seen False x (store w)) \<and> (\<forall>k \<in> K. seen_sku k (store w)))"

lemma ok_after:
  assumes "catalog_ok calm (w, R, K)" and "store w' = store w \<or> good_for calm (store w) (store w')"
  shows "catalog_ok calm (w', R, K)"
  using assms unfolding catalog_ok_def good_for_def by (auto intro: seen_stays seen_sku_stays)

lemma ok_does: "catalog_ok calm (w, R, K) \<Longrightarrow> does_good calm P m \<Longrightarrow> P (store w) \<Longrightarrow> catalog_ok calm (snd (m w), R, K)"
  by (rule ok_after) (auto simp: catalog_ok_def dest: doesD)

lemma update_sku_tx_good:
  assumes inv: "catalog_inv calm (store w)" and x: "seen_sku x (store w)" and m: "writes_sku (ksk_id x) m"
    and r: "update_sku_tx m (ksk_product x) w = (r, w')" and calm: "calm \<Longrightarrow> isl r \<Longrightarrow> store w' = store w"
  shows "store w' = store w \<or> good_for calm (store w) (store w')"
  using update_sku_tx_result [OF inv x m r] calm inv sku_written_alone [of "store w" "ksk_id x" "store w'"]
  by (cases calm) auto

lemma seen_sku_member: "x \<in> set (skus s) \<Longrightarrow> seen_sku x s"
  by (auto simp: seen_sku_def)

lemma update_sku_good:
  assumes "catalog_inv calm (store w)" and "update_sku json_ok k w = (r, w')" and "calm \<Longrightarrow> isl r \<Longrightarrow> store w' = store w"
  shows "store w' = store w \<or> good_for calm (store w) (store w')"
proof (rule does_with_sku [OF assms(2) [unfolded update_sku_def]])
  fix x w1
  assume x: "x \<in> set (skus (store w))" "ksk_id x = ksk_id k" "store w1 = store w"
    and m: "update_sku_tx (or_internal ''failed to update sku'' (sku_update json_ok k)) (ksk_product x) w1 = (r, w')"
  have "store w' = store w1 \<or> good_for calm (store w1) (store w')"
    by (rule update_sku_tx_good [OF _ _ _ m]) (use assms x in \<open>auto intro: seen_sku_member writes_sku_update\<close>)
  with x show ?thesis by simp
qed simp

lemma update_sku_status_good:
  assumes "catalog_inv calm (store w)" and "update_sku_status i st w = (r, w')" and "calm \<Longrightarrow> isl r \<Longrightarrow> store w' = store w"
  shows "store w' = store w \<or> good_for calm (store w) (store w')"
proof (rule does_with_sku [OF assms(2) [unfolded update_sku_status_def]])
  fix x w1
  assume x: "x \<in> set (skus (store w))" "ksk_id x = i" "store w1 = store w"
    and m: "update_sku_tx (or_internal ''failed to update sku status'' (sku_update_status i st)) (ksk_product x) w1 = (r, w')"
  have "store w' = store w1 \<or> good_for calm (store w1) (store w')"
    by (rule update_sku_tx_good [OF _ _ _ m]) (use assms x in \<open>auto intro: seen_sku_member writes_sku_status\<close>)
  with x show ?thesis by simp
qed simp

lemma relay_catalog_good:
  assumes inv: "catalog_inv calm (store w)"
  shows "good_for calm (store w) (store (snd (catalog_relay_run publisher w)))"
proof -
  let ?v = "\<lparr>store = cmail (store w), aborted = aborted w, faults = faults w, clock = clock w, uuids = uuids w,
     uuid_next = uuid_next w, events = events w\<rparr>"
  obtain r v where m: "(relay_run publisher :: (catalog_err, unit) obx) ?v = (r, v)" by fastforce
  have "outbox_ok (store ?v)" using inv by (simp add: catalog_inv_def)
  then have "outcome (relay_run publisher :: (catalog_err, unit) obx) (\<lambda>_ w'. relayed (store ?v) (store w'))
      (\<lambda>_ w'. relayed (store ?v) (store w')) ?v" by (rule relay_run_relays)
  with m have v: "outbox_ok (store v)" "relays (cmail (store w)) (store v)"
    by (auto simp: outcome_def split: sum.splits)
  define s' where "s' = (store w)\<lparr>cmail := store v\<rparr>"
  have s: "store (snd (catalog_relay_run publisher w)) = s'"
    using m by (simp add: catalog_relay_run_def within_def s'_def)
  have n: "product_log s = map (\<lambda>e. (env_type e, env_data e)) (map env_of (outbox (cmail s)))" for s
    by (simp add: product_log_def note_of_def env_of_def comp_def)
  have "product_log s' = product_log (store w)" unfolding n s'_def using v(2) by (simp add: relays_def)
  moreover have "quote_of i s' = quote_of i (store w)" for i by (rule quote_of_cong) (simp add: s'_def)
  ultimately show ?thesis using inv v(1)
    unfolding s good_for_def by (simp add: catalog_inv_def catalog_keys_def told_def rows_stay_def s'_def) blast
qed

text \<open>Categories are not what the events are about.\<close>

lemma categories_good: "catalog_inv calm s \<Longrightarrow> good_for calm s (s\<lparr>categories := cs\<rparr>)"
proof -
  assume inv: "catalog_inv calm s"
  have "quote_of i (s\<lparr>categories := cs\<rparr>) = quote_of i s" for i by (rule quote_of_cong) simp
  then show ?thesis using inv
    by (auto simp: good_for_def catalog_inv_def catalog_keys_def told_def rows_stay_def product_log_def)
qed

lemma create_category_good: "does_good calm (\<lambda>_. True) (create_category c)"
proof -
  have new: "does_good calm (\<lambda>_. True) (run_tx (sql (insert_category_stmt d)))" for d
    by (rule does_run_tx, intro wp_sqlI)
       (auto simp: insert_category_stmt_def split: if_splits intro: categories_good)
  have "does_good calm (\<lambda>_. True) (category_create c)" unfolding category_create_def
    by (rule does_bind_read [where Q = "\<lambda>_ _. True"]) (auto intro!: readsI keeps_intros wpI does_weaken [OF new])
  then show ?thesis unfolding create_category_def category_by_slug_def
    by (intro does_bind_read [where Q = "\<lambda>_ _. True"])
       (auto intro!: reads_intros reads_read_pool wpI does_cases does_basic does_or_internal elim: does_weaken)
qed

lemma update_category_result: "update_category_stmt c t s = Inr (n, s') \<Longrightarrow> \<exists>cs. s' = s\<lparr>categories := cs\<rparr>"
  by (auto simp: update_category_stmt_def Let_def split: if_splits intro: exI [of _ "categories s"])

lemma update_category_good: "does_good calm (\<lambda>_. True) (update_category c)"
proof -
  have "does_good calm (\<lambda>_. True) (category_update c)" unfolding category_update_def
    by (rule does_run_tx, intro wp_bindI wp_sqlI wp_some_row) (auto dest!: update_category_result intro: categories_good)
  then show ?thesis unfolding update_category_def category_by_id_def
    by (intro does_bind_read [where Q = "\<lambda>_ _. True"])
       (auto intro!: reads_intros reads_read_pool wpI does_cases does_basic does_or_internal elim: does_weaken)
qed

lemma catalog_step_ok:
  assumes "catalog_step calm c c'" and "catalog_ok calm c"
  shows "catalog_ok calm c'"
  using assms
proof (induction rule: catalog_step.induct)
  case (update p w R K json_ok me)
  have "does_good calm (\<lambda>_. True) (update_product json_ok me p)"
    unfolding update_product_def by (rule does_with_product) (use update in \<open>auto intro: update_product_read_good\<close>)
  from ok_does [OF update(2) this] show ?case by simp
next
  case (set_status w R K me i st)
  have "does_good calm (\<lambda>_. True) (update_product_status me i st)"
    unfolding update_product_status_def by (rule does_with_product) (auto intro: update_status_read_good)
  from ok_does [OF set_status this] show ?case by simp
next
  case (change_sku json_ok k w r w' R K)
  have "catalog_inv calm (store w)" using change_sku(3) by (simp add: catalog_ok_def)
  from ok_after [OF change_sku(3) update_sku_good [OF this change_sku(1,2)]] show ?case .
next
  case (sku_status i st w r w' R K)
  have "catalog_inv calm (store w)" using sku_status(3) by (simp add: catalog_ok_def)
  from ok_after [OF sku_status(3) update_sku_status_good [OF this sku_status(1,2)]] show ?case .
next
  case (read i w x w' R K)
  with reads_store [OF get_product_by_id_reads(1), of i w] wpD [OF get_product_by_id_reads(2) read(2)]
  show ?case by (auto simp: catalog_ok_def intro: seen_member)
next
  case (read_sku i w k w' R K)
  with reads_store [OF get_sku_reads(1), of i w] wpD [OF get_sku_reads(2) read_sku(2)]
  show ?case by (auto simp: catalog_ok_def intro: seen_sku_member)
next
  case (update_later x R p w K json_ok me)
  then have "\<not> calm" "seen calm x (store w)" by (auto simp: catalog_ok_def)
  with update_later show ?case by (auto intro: ok_does update_product_read_good)
next
  case (status_later x R w K me st)
  then have "\<not> calm" "seen calm x (store w)" by (auto simp: catalog_ok_def)
  with status_later show ?case by (auto intro: ok_does update_status_read_good)
next
  case (new_sku_later x R k w K json_ok)
  then have "\<not> calm" "seen calm x (store w)" by (auto simp: catalog_ok_def)
  with new_sku_later show ?case by (auto intro: ok_does create_sku_read_good)
next
  case (change_sku_later x K k w R json_ok)
  obtain r w' where m: "update_sku_tx (or_internal ''failed to update sku'' (sku_update json_ok k)) (ksk_product x) w = (r, w')" by fastforce
  have "store w' = store w \<or> good_for calm (store w) (store w')"
    by (rule update_sku_tx_good [OF _ _ _ m])
       (use change_sku_later writes_sku_update [of k] in \<open>auto simp: catalog_ok_def\<close>)
  with change_sku_later m show ?case by (auto intro: ok_after)
next
  case (sku_status_later x K w R st)
  obtain r w' where m: "update_sku_tx (or_internal ''failed to update sku status'' (sku_update_status (ksk_id x) st)) (ksk_product x) w = (r, w')"
    by fastforce
  have "store w' = store w \<or> good_for calm (store w) (store w')"
    by (rule update_sku_tx_good [OF _ _ _ m])
       (use sku_status_later writes_sku_status in \<open>auto simp: catalog_ok_def\<close>)
  with sku_status_later m show ?case by (auto intro: ok_after)
next
  case (relay w R K publisher)
  then have "catalog_inv calm (store w)" by (simp add: catalog_ok_def)
  from ok_after [OF relay] relay_catalog_good [OF this] show ?case by blast
next
  case (other w' w R K)
  then show ?case by (auto intro: ok_after)
qed (auto intro: ok_does create_product_good create_sku_good create_category_good update_category_good
      does_weaken [OF create_product_tx_good])

interpretation cataloguing: stateful_service "\<lambda>c. store (fst c) = empty_catalog_db \<and> snd c = ({}, {})"
    "catalog_step calm" "catalog_ok calm" for calm
proof
  fix c :: catalog_state
  assume "store (fst c) = empty_catalog_db \<and> snd c = ({}, {})"
  then show "catalog_ok calm c"
    by (cases c) (simp add: catalog_ok_def catalog_inv_def catalog_keys_def empty_catalog_db_def empty_outbox_def
        outbox_ok_def product_log_def)
qed (rule catalog_step_ok)

text \<open>
  C40. The outbox of the catalog tells what its tables hold. However requests interleave and whichever
  statements fail, every product has an event, every event is about a product of the table and names
  no other seller. When requests run one after the other and no update of a SKU breaks off halfway, the
  last event about a product states its current name, slug, description, category, status and cheapest
  price, or that it was deleted, and then it is archived.
\<close>

theorem catalog_events_mirror_products:
  assumes "store w0 = empty_catalog_db" and "(catalog_step calm)\<^sup>*\<^sup>* (w0, {}, {}) (w, R, K)"
  shows "(\<forall>p \<in> set (products (store w)). \<exists>n. last_word (prd_id p) (product_log (store w)) = Some n
       \<and> (calm \<longrightarrow> states_product p (quote_of (prd_id p) (store w)) n))
     \<and> (\<forall>n \<in> set (product_log (store w)). \<exists>p \<in> set (products (store w)). is_about (prd_id p) n \<and> of_seller p n)"
proof -
  have "catalog_ok calm (w, R, K)" using cataloguing.reachable_inv [OF _ assms(2)] assms(1) by simp
  then show ?thesis by (simp add: catalog_ok_def catalog_inv_def told_def)
qed

definition sample_product :: product where
  "sample_product = new_product nil_uuid nil_uuid None ''Tea'' ''tea'' ''Green'' None"

definition sample_sku :: sku where
  "sample_sku = new_sku \<lparr>skr_code = ''T1'', skr_price = 900, skr_currency = ''JPY'', skr_attributes = None\<rparr>"

definition catalog_1 :: "catalog_db world" where
  "catalog_1 = snd (create_product (\<lambda>_. True) (Some ''s'') sample_product [sample_sku] (sample_world empty_catalog_db))"

definition catalog_2 :: "catalog_db world" where
  "catalog_2 = snd (update_product_status (Some ''s'') ''u'' ''active'' catalog_1)"

lemma catalog_events_mirror_products_witness:
  "map prd_status (products (store catalog_2)) = [''active'']
   \<and> (\<exists>n. last_word ''u'' (product_log (store catalog_2)) = Some n
        \<and> states_product (hd (products (store catalog_2))) (900, ''JPY'') n)"
proof -
  have "(catalog_step True)\<^sup>*\<^sup>* (sample_world empty_catalog_db, {}, {}) (catalog_2, {}, {})"
    unfolding catalog_2_def catalog_1_def
    by (rule rtranclp.rtrancl_into_rtrancl [OF r_into_rtranclp]) (rule catalog_step.create catalog_step.set_status)+
  from catalog_events_mirror_products [OF _ this]
  have "\<forall>p \<in> set (products (store catalog_2)). \<exists>n. last_word (prd_id p) (product_log (store catalog_2)) = Some n
      \<and> states_product p (quote_of (prd_id p) (store catalog_2)) n" by (simp add: sample_world_def)
  moreover have "products (store catalog_2) \<noteq> [] \<and> prd_id (hd (products (store catalog_2))) = ''u''
      \<and> quote_of ''u'' (store catalog_2) = (900, ''JPY'') \<and> map prd_status (products (store catalog_2)) = [''active'']"
    by code_simp
  ultimately show ?thesis by (metis hd_in_set)
qed

subsection \<open>What the code loses\<close>

text \<open>
  A SKU's new price is committed before the event about it: when the second commit fails, the request
  reports an error, the price has changed, and the events still quote the old one.
\<close>

definition catalog_broken :: "catalog_db world" where
  "catalog_broken = snd (update_sku (\<lambda>_. True) (sample_sku\<lparr>ksk_id := ''ux'', ksk_price := 100\<rparr>)
     (catalog_1\<lparr>faults := replicate 7 False @ [True]\<rparr>))"

lemma sku_update_loses_its_event:
  "isl (fst (update_sku (\<lambda>_. True) (sample_sku\<lparr>ksk_id := ''ux'', ksk_price := 100\<rparr>)
     (catalog_1\<lparr>faults := replicate 7 False @ [True]\<rparr>)))
   \<and> map ksk_price (skus (store catalog_broken)) = [100]
   \<and> product_log (store catalog_broken) = product_log (store catalog_1)"
  by code_simp

text \<open>An update over gRPC has no slug and no category: it clears both.\<close>

lemma rpc_update_clears_slug:
  "map prd_slug (products (store catalog_2)) = [''tea'']
   \<and> map prd_slug (products (store (snd (rpc_update_product (\<lambda>_. True) Some (Some ''s'') ''u'' ''Tea'' ''Black'' '''' catalog_2)))) = ['''']"
  by code_simp

text \<open>A product that does not exist is an internal error over gRPC, and not found over HTTP.\<close>

lemma rpc_missing_product:
  "fst (rpc_get_product Some (ById ''x'') catalog_2) = Inr (Inl GrpcInternal)
   \<and> map_sum (\<lambda>_. ()) resp_status (fst (http_get_product_by_slug ''x'' catalog_2)) = Inr 404"
  by code_simp

end
