(* ===== verification/Spec2Isabelle.thy ===== *)
theory Spec2Isabelle
  imports Loyalty_Properties Coupon_Properties Order_Rules Auth_Properties Auth_Edge Inventory_Properties Shipping_Properties Review_Properties Inquiry_Properties Catalog_Properties
begin

text \<open>
The marketplace backend (src/backend): Go services over their own Postgres schemas, each with the
  layout \<open>domain\<close>, \<open>port\<close>, \<open>app\<close>, \<open>adapter/postgres\<close>, \<open>adapter/http\<close> (and \<open>adapter/pubsub\<close>,
  \<open>adapter/httpclient\<close>, \<open>grpcserver\<close>), sharing the packages under src/backend/pkg. A buyer's cart
  becomes orders (order service); the order service reserves coupon seats and points over HTTP
  before it opens a Stripe payment, settles them when the payment webhook arrives, and publishes
  order.paid and order.cancelled, which loyalty, coupon, inventory and shipping consume. Auth keeps
  sellers, their teams, platform administrators and API tokens; review and inquiry accept only
  confirmed purchases, which they ask of the order service.

  How the code is modelled.
  A use case or handler is a function from a \<open>world\<close> to a result (\<open>Inl\<close> an error, \<open>Inr\<close> an answer)
  and the next world. A world (theory Database) has the committed tables of the service, the open
  transaction if there is one, the clock, a generator of identifiers, the log of published events
  and a schedule of faults: every statement, begin and commit consumes one entry and fails when the
  entry says so, so a theorem for every world covers every combination of database failures.
  \<open>run_tx\<close> is database.RunTx: begin, body, commit, and rollback on an error. Tables are lists of
  records in the order of insertion, or maps when the key is all the code uses, and the constraints of
  the migrations (primary and unique keys, references, checks) are conditions of the statements.
  int64 and int32 are words and wrap; the theorems about amounts say where a sum must not overflow.
  Errors are the values of App_Errors: a sentinel of the service, a standard sentinel, an AppError or
  anything else, with the chain that errors.Is and errors.As walk. What is not code of the repository
  (Stripe, the publisher, the broker, another service as its caller sees it, uuid.Parse, what the
  driver does with a NULL) is an argument, mostly a field of a configuration record, and a theorem
  that relies on its behaviour says so in a hypothesis.

  Shared theories.
  Prelude: integers, string search, collections of simplification and weakest-precondition rules.
  App_Errors, Database, Transport, Request_Context: pkg/errors, pkg/database, pkg/httputil,
  pkg/pagination and the gRPC codes, pkg/tenant with the internal request context.
  Outcomes and Effect_Rules: the two program logics in which the services are verified,
  \<open>outcome m Q E w\<close> (what holds after success and after an error) and \<open>does P E m\<close> (an operation has
  effect \<open>E\<close> or none). Contracts: the locales of the interfaces between services and between a service and
  its callers, interpreted on each service that provides them. Samples: worlds for the witnesses.
  Outbox: the transactional outbox of shipping and catalog, and its relay.

  Loyalty (services/loyalty). Loyalty_Store: accounts, ledger, reservations and the repositories;
  Loyalty_Service: the use cases; Loyalty_Edge: HTTP, gRPC and Pub/Sub. Loyalty_Invariant,
  Loyalty_Reservation, Loyalty_Expiry, Loyalty_Redelivery, Loyalty_Traces: the operations keep the
  tables consistent, the life of a reservation, FIFO expiration and the guard in front of it, events
  delivered more than once, and the service as a state machine. Loyalty_Properties: the properties.

  Coupon (services/coupon). Coupon_Store, Coupon_Service, Coupon_Edge as above. Coupon_Invariant: seats are
  counted right in every reachable state; Coupon_Refinement: each use case refines a counter of
  seats under a limit; Coupon_Redelivery, Coupon_Traces, Coupon_Properties.

  Order (services/order). Order_Store, Order_Repo: orders, lines, payouts, commission rules and
  cancellation requests; Order_Discount: splitting a discount; Order_Rpc: the clients of the coupon and
  loyalty services; Order_Service and Order_Cancellation: checkout, status changes, the payment
  webhook, cancellation with refund and transfer reversals; Order_Edge: handlers. Order_Invariant,
  Order_Policy, Order_Traces: an invariant that ties payouts to Stripe transfers, what each use case may
  change, and both along runs. Order_Payment, Order_Settlement, Order_Checkout, Order_Guards,
  Order_Approval, Order_Coupon: the webhook, the checkout, refusals, all-or-nothing approval, and the
  order service composed with the coupon service's handlers. Order_Properties, Order_Rules: properties.

  Auth (services/auth). Sha256 and Auth_Tokens: the hash and the generation and parsing of API
  tokens; Auth_Store, Auth_Service, Auth_Credentials, Auth_Edge: tables, role management with its
  audit log, tokens, handlers with their middleware. Auth_Invariant, Auth_Spec, Auth_Effects,
  Auth_Traces, Auth_Audit: well-typed tables, the abstract effects of the requests and that the code has
  no others, runs, and the audit log as a replay of the roles. Auth_Properties: properties.

  Inventory (services/inventory). Inventory_Store, Inventory_Service; Inventory_Ledger: the tables
  refine a ledger that never allots more than there is. Inventory_Properties.

  Shipping (services/shipping). Shipping_Store, Shipping_Service; Shipping_Invariant: the states a
  shipment goes through, with the reads of a request separated from its writes, and the outbox behind it.
  Shipping_Properties.

  Catalog (services/catalog). Catalog_Store, Catalog_Service, Catalog_Edge: products, SKUs, categories, and
  which connection each statement runs on; Catalog_Invariant: what the outbox has been given tells what
  the tables hold. Catalog_Properties: steps, property, and what the code loses.

  Review (services/review) and inquiry (services/inquiry). Stores, services, invariants and
  properties as above; here too reads and writes of a request are separate steps.

  Bounds and fuel. No definition has fuel. The retry loop of the token generator may run forever and is a
  partial function over the sequence of reads of the random source; that it returns is a property of its own
  with the source on which it does not. The other loops recurse over a list or a decreasing measure. A relay
  cycle handles at most 50 events, so k cycles handle 50 * k. SQL limits and page sizes are the code's.

  Interleaving. One transaction runs after the other: what Postgres does under READ COMMITTED when two
  transactions overlap is not modelled, except that rows locked FOR UPDATE or changed by one conditional
  UPDATE are as in the model. Where a use case reads on one connection and writes on another later
  (shipping, review, inquiry, catalog), the model has the two as separate steps with any others in
  between; the findings of PROJECT.json name the races the code loses.

  Not modelled.
  Process wiring, configuration, health probes, tickers and graceful shutdown; bytes of JSON and
  protobuf; VARCHAR lengths; tracing and log output; generated protobuf code. Validation of JWTs and
  the OIDC proxy of the gateway, whose identities are arguments here. Search and recommend rank by
  an engine or by Postgres' text search; notification renders mail from templates; the gateway
  forwards requests to the services. The cart is one JSON value per buyer in Redis, without
  coordination, and the subscription service thin rows around plans: both are left out.
\<close>

end
